(* ===== verification/Prelude.thy ===== *)
theory Prelude
  imports Complex_Main "HOL-Library.Log_Nat"
begin

text \<open>
  Shared vocabulary of the development: the fact collections the component theories fill, and the
  generic lemmas on rationals, powers of two and rounding that the number model and the money
  components share.
\<close>

named_theorems js_arith \<open>evaluation rules of the JavaScript number operations\<close>
named_theorems money_simps \<open>facts about amounts held in agorot\<close>
named_theorems row_simps \<open>selectors of rows after a table update\<close>

section \<open>Results of code that may throw\<close>

text \<open>
  A function that throws returns \<open>Inl\<close> of the error; a transaction body that throws leaves the
  caller with the database it had before, because \<open>withTx\<close> rolls back.
\<close>

definition on_ok :: "'e + 'a \<Rightarrow> ('a \<Rightarrow> 'e + 'b) \<Rightarrow> 'e + 'b" where
  "on_ok r f = (case r of Inl e \<Rightarrow> Inl e | Inr a \<Rightarrow> f a)"

lemma on_ok_simps [simp]:
  "on_ok (Inl e) f = Inl e"
  "on_ok (Inr a) f = f a"
  by (simp_all add: on_ok_def)

lemma on_ok_Inr_iff: "on_ok r f = Inr b \<longleftrightarrow> (\<exists>a. r = Inr a \<and> f a = Inr b)"
  by (cases r) auto

lemma on_ok_InrE:
  assumes "on_ok r f = Inr b"
  obtains a where "r = Inr a" and "f a = Inr b"
  using assms by (auto simp: on_ok_Inr_iff)

section \<open>The first row that matches\<close>

lemma find_SomeD: "find P xs = Some x \<Longrightarrow> x \<in> set xs \<and> P x"
  by (metis find_Some_iff nth_mem)

lemma find_None: "(\<And>x. x \<in> set xs \<Longrightarrow> \<not> P x) \<Longrightarrow> find P xs = None"
  by (simp add: find_None_iff)

lemma find_append_Some: "find P xs = Some r \<Longrightarrow> find P (xs @ ys) = Some r"
  by (induction xs) (auto split: if_splits)

lemma find_append_None: "find P xs = None \<Longrightarrow> find P (xs @ ys) = find P ys"
  by (induction xs) (auto split: if_splits)

section \<open>Integer powers of two over the rationals\<close>

abbreviation pow2 :: "int \<Rightarrow> rat" where
  "pow2 k \<equiv> 2 powi k"

lemma pow2_pos [simp]: "0 < pow2 k"
  by (simp add: zero_less_power_int)

lemma pow2_nonzero [simp]: "pow2 k \<noteq> 0"
  by simp

lemma pow2_add: "pow2 (a + b) = pow2 a * pow2 b"
  by (simp add: power_int_add)

lemma pow2_diff: "pow2 (a - b) = pow2 a / pow2 b"
  by (simp add: power_int_diff)

lemma pow2_nat: "pow2 (int n) = of_int (2 ^ n)"
  by simp

lemma pow2_of_nonneg: "0 \<le> k \<Longrightarrow> pow2 k = of_int (2 ^ nat k)"
  using pow2_nat [of "nat k"] by simp

lemma pow2_mono: "a \<le> b \<Longrightarrow> pow2 a \<le> pow2 b"
  by (simp add: power_int_increasing)

lemma pow2_less_cancel: "pow2 a < pow2 b \<Longrightarrow> a < b"
  using pow2_mono [of b a] by (meson linorder_not_less)

lemma pow2_le_iff [simp]: "pow2 a \<le> pow2 b \<longleftrightarrow> a \<le> b"
proof
  assume le: "pow2 a \<le> pow2 b"
  show "a \<le> b"
  proof (rule ccontr)
    assume "\<not> a \<le> b"
    then have "pow2 b < pow2 a" by (intro power_int_strict_increasing) auto
    with le show False by simp
  qed
qed (rule pow2_mono)

section \<open>Rounding to the nearest integer\<close>

text \<open>Ties to even, the rounding of IEEE 754 arithmetic.\<close>

definition rne :: "rat \<Rightarrow> int" where
  "rne x = (let n = \<lfloor>x\<rfloor>; d = x - of_int n
            in if d < 1/2 \<or> (d = 1/2 \<and> even n) then n else n + 1)"

lemma rne_error: "\<bar>of_int (rne x) - x\<bar> \<le> 1/2"
proof -
  have "of_int \<lfloor>x\<rfloor> \<le> x" and "x < of_int \<lfloor>x\<rfloor> + 1"
    by (simp_all add: floor_less_cancel floor_correct)
  then show ?thesis unfolding rne_def Let_def by (simp split: if_split)
qed

lemma rne_of_int [simp]: "rne (of_int n) = n"
  by (simp add: rne_def)

lemma rne_zero [simp]: "rne 0 = 0"
  by (simp add: rne_def)

text \<open>Half up, the rounding of \<open>Math.round\<close>.\<close>

definition round_half_up :: "rat \<Rightarrow> int" where
  "round_half_up x = \<lfloor>x + 1/2\<rfloor>"

lemma round_half_up_error: "\<bar>of_int (round_half_up x) - x\<bar> \<le> 1/2"
  unfolding round_half_up_def by linarith

lemma round_half_up_near: "\<bar>x - of_int n\<bar> < 1/2 \<Longrightarrow> round_half_up x = n"
  unfolding round_half_up_def by (rule floor_unique) (auto simp: abs_if split: if_splits)

lemma round_half_up_of_int [simp]: "round_half_up (of_int n) = n"
  by (rule round_half_up_near) simp

lemma round_half_up_zero [simp]: "round_half_up 0 = 0"
  using round_half_up_of_int [of 0] by simp

end
