(* ===== verification/JsNumber.thy ===== *)
theory JsNumber
  imports Prelude
begin

text \<open>
  The numbers of the program: IEEE 754 binary64 as JavaScript defines them. A value is NaN, an
  infinity or a finite rational; every arithmetic operation computes the exact rational result and
  rounds it to the nearest binary64 value, ties to even. Negative zero is not told apart from zero
  (no modelled code divides by a zero or uses \<open>Object.is\<close>).
\<close>

datatype jsnum = NaN | PInf | NInf | Fin rat

section \<open>Rounding a rational to binary64\<close>

definition ilog2 :: "rat \<Rightarrow> int" where
  "ilog2 x = (let pq = quotient_of x; k = bitlen (fst pq) - bitlen (snd pq)
              in if pow2 k \<le> x then k else k - 1)"

definition ulp_exp :: "rat \<Rightarrow> int" where
  "ulp_exp x = max (ilog2 \<bar>x\<bar> - 52) (- 1074)"

definition fl64 :: "rat \<Rightarrow> rat" where
  "fl64 x = (if x = 0 then 0
             else let u = pow2 (ulp_exp x) in of_int (rne (x / u)) * u)"

definition js_of_rat :: "rat \<Rightarrow> jsnum" where
  "js_of_rat x = (let r = fl64 x in
     if 2 ^ 1024 \<le> r then PInf else if r \<le> - (2 ^ 1024) then NInf else Fin r)"

lemma ilog2_bounds:
  assumes "0 < x"
  shows "pow2 (ilog2 x) \<le> x" and "x < pow2 (ilog2 x + 1)"
proof -
  obtain p q where pq: "quotient_of x = (p, q)" by (cases "quotient_of x")
  have q: "0 < q" using quotient_of_denom_pos [OF pq] .
  have x: "x = of_int p / of_int q" using quotient_of_div [OF pq] .
  have p: "0 < p" using assms q x by (simp add: zero_less_divide_iff)
  let ?a = "bitlen p" and ?b = "bitlen q"
  have a1: "1 \<le> ?a" and b1: "1 \<le> ?b"
    using p q by (simp_all add: bitlen_alt_def)
  have "(of_int (2 ^ nat (?a - 1)) :: rat) \<le> of_int p" "(of_int p :: rat) < of_int (2 ^ nat ?a)"
    using bitlen_bounds [OF p] by (simp_all only: of_int_le_iff of_int_less_iff)
  then have pl: "pow2 (?a - 1) \<le> of_int p" and pu: "of_int p < pow2 ?a"
    using a1 by (simp_all add: pow2_of_nonneg)
  have "(of_int (2 ^ nat (?b - 1)) :: rat) \<le> of_int q" "(of_int q :: rat) < of_int (2 ^ nat ?b)"
    using bitlen_bounds [OF q] by (simp_all only: of_int_le_iff of_int_less_iff)
  then have ql: "pow2 (?b - 1) \<le> of_int q" and qu: "of_int q < pow2 ?b"
    using b1 by (simp_all add: pow2_of_nonneg)
  have qpos: "(0::rat) < of_int q" using q by simp
  have "pow2 (?a - ?b - 1) * of_int q \<le> pow2 (?a - ?b - 1) * pow2 ?b"
    using qu by (intro mult_left_mono) auto
  also have "\<dots> = pow2 (?a - 1)" by (simp flip: pow2_add)
  finally have lo: "pow2 (?a - ?b - 1) \<le> x"
    using pl qpos x by (simp add: le_divide_eq)
  have "pow2 ?a = pow2 (?a - ?b + 1) * pow2 (?b - 1)" by (simp flip: pow2_add)
  also have "\<dots> \<le> pow2 (?a - ?b + 1) * of_int q"
    using ql by (intro mult_left_mono) auto
  finally have hi: "x < pow2 (?a - ?b + 1)"
    using pu qpos x by (simp add: divide_less_eq)
  show "pow2 (ilog2 x) \<le> x" and "x < pow2 (ilog2 x + 1)"
    using lo hi by (auto simp: ilog2_def pq Let_def)
qed

lemma ulp_le:
  assumes "pow2 (- 1022) \<le> \<bar>x\<bar>"
  shows "pow2 (ulp_exp x) \<le> \<bar>x\<bar> / 2 ^ 52"
proof -
  have pos: "0 < \<bar>x\<bar>" using assms pow2_pos [of "- 1022"] by linarith
  have "pow2 (- 1022) < pow2 (ilog2 \<bar>x\<bar> + 1)"
    using ilog2_bounds(2) [OF pos] assms by linarith
  then have "- 1022 \<le> ilog2 \<bar>x\<bar>" using pow2_less_cancel by fastforce
  then have e: "ulp_exp x = ilog2 \<bar>x\<bar> - 52" by (simp add: ulp_exp_def)
  have "pow2 (ulp_exp x) = pow2 (ilog2 \<bar>x\<bar>) / 2 ^ 52"
    unfolding e pow2_diff by simp
  also have "\<dots> \<le> \<bar>x\<bar> / 2 ^ 52"
    using ilog2_bounds(1) [OF pos] by (simp add: divide_right_mono)
  finally show ?thesis .
qed

lemma fl64_error_ulp: "\<bar>fl64 x - x\<bar> \<le> 1/2 * pow2 (ulp_exp x)"
proof (cases "x = 0")
  case False
  let ?u = "pow2 (ulp_exp x)"
  have "fl64 x - x = (of_int (rne (x / ?u)) - x / ?u) * ?u"
    using False by (simp add: fl64_def Let_def algebra_simps)
  then have "\<bar>fl64 x - x\<bar> = \<bar>of_int (rne (x / ?u)) - x / ?u\<bar> * ?u"
    by (simp add: abs_mult)
  also have "\<dots> \<le> 1/2 * ?u"
    by (intro mult_right_mono rne_error) simp
  finally show ?thesis .
qed (simp add: fl64_def)

lemma fl64_error:
  assumes "x = 0 \<or> pow2 (- 1022) \<le> \<bar>x\<bar>"
  shows "\<bar>fl64 x - x\<bar> \<le> \<bar>x\<bar> / 2 ^ 53"
proof (cases "x = 0")
  case False
  have "\<bar>fl64 x - x\<bar> \<le> 1/2 * pow2 (ulp_exp x)" by (rule fl64_error_ulp)
  also have "\<dots> \<le> 1/2 * (\<bar>x\<bar> / 2 ^ 52)"
    using ulp_le assms False by (intro mult_left_mono) auto
  finally show ?thesis by simp
qed (simp add: fl64_def)

section \<open>Exactly representable values\<close>

text \<open>A value \<open>m * 2 ^ k\<close> with a 53-bit significand and an exponent in range is a fixed point.\<close>

lemma ulp_exp_bound:
  assumes m: "\<bar>m\<bar> \<le> 2 ^ 53" and k: "- 1074 \<le> k" and nz: "m \<noteq> 0"
  shows "ulp_exp (of_int m * pow2 k) \<le> k + 1"
    and "ulp_exp (of_int m * pow2 k) = k + 1 \<Longrightarrow> \<bar>m\<bar> = 2 ^ 53 \<or> k = - 1075"
proof -
  let ?x = "of_int m * pow2 k :: rat"
  have ax: "\<bar>?x\<bar> = of_int \<bar>m\<bar> * pow2 k" by (simp add: abs_mult)
  have pos: "0 < \<bar>?x\<bar>" using nz by simp
  have le: "of_int \<bar>m\<bar> * pow2 k \<le> of_int (2 ^ 53) * pow2 k"
    using m by (intro mult_right_mono) (simp_all only: of_int_le_iff pow2_pos less_imp_le)
  have "pow2 (ilog2 \<bar>?x\<bar>) \<le> of_int (2 ^ 53) * pow2 k"
    using ilog2_bounds(1) [OF pos] le unfolding ax by (rule order_trans)
  then have "pow2 (ilog2 \<bar>?x\<bar>) \<le> pow2 (k + 53)"
    by (simp add: pow2_add mult.commute)
  then have il: "ilog2 \<bar>?x\<bar> \<le> k + 53"
    by simp
  then show "ulp_exp ?x \<le> k + 1" using k by (simp add: ulp_exp_def)
  assume e: "ulp_exp ?x = k + 1"
  show "\<bar>m\<bar> = 2 ^ 53 \<or> k = - 1075"
  proof (cases "ilog2 \<bar>?x\<bar> = k + 53")
    case True
    have "pow2 (k + 53) \<le> of_int \<bar>m\<bar> * pow2 k"
      using ilog2_bounds(1) [OF pos, unfolded True] unfolding ax .
    then have "(of_int (2 ^ 53) :: rat) \<le> of_int \<bar>m\<bar>" by (simp add: pow2_add)
    then have "2 ^ 53 \<le> \<bar>m\<bar>" by (simp only: of_int_le_iff)
    then show ?thesis using m by simp
  next
    case False
    then show ?thesis using e il by (auto simp: ulp_exp_def max_def split: if_splits)
  qed
qed

theorem fl64_exact:
  assumes m: "\<bar>m\<bar> \<le> 2 ^ 53" and k: "- 1074 \<le> k"
  shows "fl64 (of_int m * pow2 k) = of_int m * pow2 k"
proof (cases "m = 0")
  case False
  let ?x = "of_int m * pow2 k :: rat"
  let ?e = "ulp_exp ?x"
  have nz: "?x \<noteq> 0" using False by simp
  have "\<exists>i. ?x / pow2 ?e = of_int i"
  proof (cases "?e \<le> k")
    case True
    have "?x / pow2 ?e = of_int m * pow2 (k - ?e)" by (simp add: pow2_diff)
    also have "\<dots> = of_int (m * 2 ^ nat (k - ?e))"
      using True by (simp add: pow2_of_nonneg)
    finally show ?thesis by blast
  next
    case gt: False
    then have e: "?e = k + 1" using ulp_exp_bound(1) [OF m k False] by linarith
    then have "\<bar>m\<bar> = 2 ^ 53" using ulp_exp_bound(2) [OF m k False] k by auto
    then have "even \<bar>m\<bar>" by simp
    then obtain i where i: "m = 2 * i" by (auto elim: evenE)
    have "of_int m * pow2 k / pow2 (k + 1) = of_int i" by (simp add: i pow2_add)
    then show ?thesis using e by auto
  qed
  then obtain i where i: "?x / pow2 ?e = of_int i" by blast
  have "fl64 ?x = of_int i * pow2 ?e" using nz i by (simp add: fl64_def Let_def)
  also have "\<dots> = ?x" using i by (simp add: field_simps)
  finally show ?thesis .
qed (simp add: fl64_def)

lemma fl64_zero [simp]: "fl64 0 = 0"
  by (simp add: fl64_def)

lemma fl64_of_int: "\<bar>n\<bar> \<le> 2 ^ 53 \<Longrightarrow> fl64 (of_int n) = of_int n"
  using fl64_exact [of n 0] by simp

text \<open>Rounding a value that is already rounded changes nothing.\<close>

lemma rne_bound: "\<bar>x\<bar> \<le> of_int n \<Longrightarrow> \<bar>rne x\<bar> \<le> n"
proof -
  assume b: "\<bar>x\<bar> \<le> of_int n"
  have "\<bar>of_int (rne x) - x\<bar> \<le> 1/2" by (rule rne_error)
  with b have "\<bar>of_int (rne x)\<bar> \<le> of_int n + (1/2 :: rat)" by linarith
  then have "(of_int \<bar>rne x\<bar> :: rat) < of_int (n + 1)" by simp
  then show ?thesis by (simp only: of_int_less_iff)
qed

theorem fl64_idem: "fl64 (fl64 x) = fl64 x"
proof (cases "x = 0")
  case False
  let ?e = "ulp_exp x" and ?m = "rne (x / pow2 (ulp_exp x))"
  have pos: "0 < \<bar>x\<bar>" using False by simp
  have "pow2 (ilog2 \<bar>x\<bar> + 1) \<le> pow2 (?e + 53)"
    by (rule pow2_mono) (simp add: ulp_exp_def)
  with ilog2_bounds(2) [OF pos] have "\<bar>x\<bar> \<le> pow2 ?e * 2 ^ 53"
    by (simp add: pow2_add)
  then have "\<bar>x / pow2 ?e\<bar> \<le> of_int (2 ^ 53)"
    by (simp add: abs_divide divide_le_eq mult.commute)
  then have m: "\<bar>?m\<bar> \<le> 2 ^ 53" by (rule rne_bound)
  have "fl64 x = of_int ?m * pow2 ?e" using False by (simp add: fl64_def Let_def)
  then show ?thesis using fl64_exact [OF m, of ?e] by (simp add: ulp_exp_def)
qed simp

section \<open>Operations\<close>

fun js_neg :: "jsnum \<Rightarrow> jsnum" where
  "js_neg NaN = NaN"
| "js_neg PInf = NInf"
| "js_neg NInf = PInf"
| "js_neg (Fin a) = Fin (- a)"

fun js_add :: "jsnum \<Rightarrow> jsnum \<Rightarrow> jsnum" where
  "js_add (Fin a) (Fin b) = js_of_rat (a + b)"
| "js_add NaN _ = NaN"
| "js_add _ NaN = NaN"
| "js_add PInf NInf = NaN"
| "js_add NInf PInf = NaN"
| "js_add PInf _ = PInf"
| "js_add NInf _ = NInf"
| "js_add (Fin _) PInf = PInf"
| "js_add (Fin _) NInf = NInf"

definition js_sub :: "jsnum \<Rightarrow> jsnum \<Rightarrow> jsnum" where
  "js_sub a b = js_add a (js_neg b)"

definition js_inf :: "bool \<Rightarrow> jsnum" where
  "js_inf positive = (if positive then PInf else NInf)"

fun js_mul :: "jsnum \<Rightarrow> jsnum \<Rightarrow> jsnum" where
  "js_mul (Fin a) (Fin b) = js_of_rat (a * b)"
| "js_mul NaN _ = NaN"
| "js_mul _ NaN = NaN"
| "js_mul (Fin a) PInf = (if a = 0 then NaN else js_inf (0 < a))"
| "js_mul (Fin a) NInf = (if a = 0 then NaN else js_inf (a < 0))"
| "js_mul PInf (Fin a) = (if a = 0 then NaN else js_inf (0 < a))"
| "js_mul NInf (Fin a) = (if a = 0 then NaN else js_inf (a < 0))"
| "js_mul PInf PInf = PInf"
| "js_mul NInf NInf = PInf"
| "js_mul PInf NInf = NInf"
| "js_mul NInf PInf = NInf"

fun js_div :: "jsnum \<Rightarrow> jsnum \<Rightarrow> jsnum" where
  "js_div (Fin a) (Fin b) =
     (if b = 0 then (if a = 0 then NaN else js_inf (0 < a)) else js_of_rat (a / b))"
| "js_div NaN _ = NaN"
| "js_div _ NaN = NaN"
| "js_div (Fin _) _ = Fin 0"
| "js_div PInf (Fin b) = js_inf (0 \<le> b)"
| "js_div NInf (Fin b) = js_inf (b < 0)"
| "js_div _ _ = NaN"

fun js_abs :: "jsnum \<Rightarrow> jsnum" where
  "js_abs NaN = NaN"
| "js_abs (Fin a) = Fin \<bar>a\<bar>"
| "js_abs _ = PInf"

fun js_sign :: "jsnum \<Rightarrow> jsnum" where
  "js_sign NaN = NaN"
| "js_sign PInf = Fin 1"
| "js_sign NInf = Fin (- 1)"
| "js_sign (Fin a) = Fin (sgn a)"

fun js_floor :: "jsnum \<Rightarrow> jsnum" where
  "js_floor (Fin a) = Fin (of_int \<lfloor>a\<rfloor>)"
| "js_floor x = x"

fun js_ceil :: "jsnum \<Rightarrow> jsnum" where
  "js_ceil (Fin a) = Fin (of_int \<lceil>a\<rceil>)"
| "js_ceil x = x"

fun js_trunc :: "jsnum \<Rightarrow> jsnum" where
  "js_trunc (Fin a) = Fin (if a < 0 then of_int \<lceil>a\<rceil> else of_int \<lfloor>a\<rfloor>)"
| "js_trunc x = x"

fun js_round :: "jsnum \<Rightarrow> jsnum" where
  "js_round (Fin a) = Fin (of_int (round_half_up a))"
| "js_round x = x"

fun js_lt :: "jsnum \<Rightarrow> jsnum \<Rightarrow> bool" where
  "js_lt NaN _ = False"
| "js_lt _ NaN = False"
| "js_lt (Fin a) (Fin b) = (a < b)"
| "js_lt NInf b = (b \<noteq> NInf)"
| "js_lt a PInf = (a \<noteq> PInf)"
| "js_lt _ _ = False"

definition js_eq :: "jsnum \<Rightarrow> jsnum \<Rightarrow> bool" where
  "js_eq a b = (a \<noteq> NaN \<and> a = b)"

definition js_le :: "jsnum \<Rightarrow> jsnum \<Rightarrow> bool" where
  "js_le a b = (js_lt a b \<or> js_eq a b)"

definition js_max :: "jsnum \<Rightarrow> jsnum \<Rightarrow> jsnum" where
  "js_max a b = (if a = NaN \<or> b = NaN then NaN else if js_lt a b then b else a)"

definition js_min :: "jsnum \<Rightarrow> jsnum \<Rightarrow> jsnum" where
  "js_min a b = (if a = NaN \<or> b = NaN then NaN else if js_lt b a then b else a)"

text \<open>\<open>x || y\<close> on numbers: NaN and zero are falsy.\<close>

definition js_or :: "jsnum \<Rightarrow> jsnum \<Rightarrow> jsnum" where
  "js_or a b = (if a = NaN \<or> a = Fin 0 then b else a)"

fun is_finite :: "jsnum \<Rightarrow> bool" where
  "is_finite (Fin _) = True"
| "is_finite _ = False"

fun is_integer :: "jsnum \<Rightarrow> bool" where
  "is_integer (Fin a) = (of_int \<lfloor>a\<rfloor> = a)"
| "is_integer _ = False"

fun is_safe_integer :: "jsnum \<Rightarrow> bool" where
  "is_safe_integer (Fin a) = (of_int \<lfloor>a\<rfloor> = a \<and> \<bar>a\<bar> \<le> 2 ^ 53 - 1)"
| "is_safe_integer _ = False"

section \<open>Values and their conversion by \<open>Number(...)\<close>\<close>

text \<open>
  A value of the type \<open>unknown\<close>. \<open>JObj\<close> stands for any object or array; the modelled code that can
  meet one rejects it by its \<open>typeof\<close> before converting it. Strings hold code units below 256.
\<close>

datatype jsval = JUndef | JNull | JBool bool | JNum jsnum | JStr string | JObj

definition is_js_space :: "char \<Rightarrow> bool" where
  "is_js_space c \<longleftrightarrow> of_char c \<in> {9, 10, 11, 12, 13, 32, 160 :: nat}"

definition js_trim :: "string \<Rightarrow> string" where
  "js_trim s = rev (dropWhile is_js_space (rev (dropWhile is_js_space s)))"

definition is_digit :: "char \<Rightarrow> bool" where
  "is_digit c \<longleftrightarrow> 48 \<le> (of_char c :: nat) \<and> (of_char c :: nat) \<le> 57"

definition digit_value :: "char \<Rightarrow> int" where
  "digit_value c = (let n = (of_char c :: int) in
     if 48 \<le> n \<and> n \<le> 57 then n - 48
     else if 97 \<le> n \<and> n \<le> 122 then n - 87
     else if 65 \<le> n \<and> n \<le> 90 then n - 55 else 99)"

definition digits_value :: "int \<Rightarrow> string \<Rightarrow> int" where
  "digits_value base ds = foldl (\<lambda>acc c. acc * base + digit_value c) 0 ds"

definition radix_number :: "int \<Rightarrow> string \<Rightarrow> jsnum" where
  "radix_number base ds =
     (if ds \<noteq> [] \<and> list_all (\<lambda>c. digit_value c < base) ds
      then js_of_rat (of_int (digits_value base ds)) else NaN)"

definition exponent_value :: "string \<Rightarrow> int option" where
  "exponent_value s = (case s of
     [] \<Rightarrow> Some 0
   | c # rest \<Rightarrow>
       if c = CHR ''e'' \<or> c = CHR ''E'' then
         (let neg = (rest \<noteq> [] \<and> hd rest = CHR ''-'');
              ds = (if rest \<noteq> [] \<and> (hd rest = CHR ''-'' \<or> hd rest = CHR ''+'') then tl rest else rest)
          in if ds \<noteq> [] \<and> list_all is_digit ds
             then Some (if neg then - digits_value 10 ds else digits_value 10 ds) else None)
       else None)"

definition decimal_number :: "string \<Rightarrow> rat option" where
  "decimal_number s =
     (let whole = takeWhile is_digit s; rest = dropWhile is_digit s;
          dot = (rest \<noteq> [] \<and> hd rest = CHR ''.'');
          frac = (if dot then takeWhile is_digit (tl rest) else []);
          rest' = (if dot then dropWhile is_digit (tl rest) else rest)
      in if whole @ frac = [] then None
         else (case exponent_value rest' of None \<Rightarrow> None
               | Some e \<Rightarrow> Some (of_int (digits_value 10 (whole @ frac)) * 10 powi (e - int (length frac)))))"

definition unsigned_number :: "string \<Rightarrow> jsnum" where
  "unsigned_number s = (if s = ''Infinity'' then PInf
     else case decimal_number s of None \<Rightarrow> NaN | Some r \<Rightarrow> js_of_rat r)"

definition number_of_string :: "string \<Rightarrow> jsnum" where
  "number_of_string raw = (let s = js_trim raw in
     case s of [] \<Rightarrow> Fin 0
     | c # rest \<Rightarrow>
         if c = CHR ''+'' then unsigned_number rest
         else if c = CHR ''-'' then js_neg (unsigned_number rest)
         else if take 2 s = ''0x'' \<or> take 2 s = ''0X'' then radix_number 16 (drop 2 s)
         else if take 2 s = ''0o'' \<or> take 2 s = ''0O'' then radix_number 8 (drop 2 s)
         else if take 2 s = ''0b'' \<or> take 2 s = ''0B'' then radix_number 2 (drop 2 s)
         else unsigned_number s)"

fun js_number :: "jsval \<Rightarrow> jsnum" where
  "js_number JUndef = NaN"
| "js_number JNull = Fin 0"
| "js_number (JBool b) = Fin (if b then 1 else 0)"
| "js_number (JNum n) = n"
| "js_number (JStr s) = number_of_string s"
| "js_number JObj = NaN"

section \<open>The rounding contract\<close>

text \<open>
  What the money code relies on: an error of at most one half unit in the last place (with a term
  for the subnormal range), and exactness on the integers below \<open>2 ^ 53\<close>.
\<close>

lemma fl64_error_abs: "\<bar>fl64 x - x\<bar> \<le> \<bar>x\<bar> / 2 ^ 53 + 1 / 2 ^ 1000"
proof (cases "x = 0 \<or> pow2 (- 1022) \<le> \<bar>x\<bar>")
  case True
  show ?thesis by (rule add_increasing2 [OF _ fl64_error [OF True]]) simp
next
  case False
  then have pos: "0 < \<bar>x\<bar>" and small: "\<bar>x\<bar> < pow2 (- 1022)" by auto
  have "pow2 (ilog2 \<bar>x\<bar>) < pow2 (- 1022)"
    using ilog2_bounds(1) [OF pos] small by (rule le_less_trans)
  then have "ulp_exp x = - 1074" using pow2_less_cancel by (fastforce simp: ulp_exp_def)
  then have "\<bar>fl64 x - x\<bar> \<le> 1/2 * pow2 (- 1074)" using fl64_error_ulp [of x] by simp
  also have "\<dots> \<le> 1 * pow2 (- 1000)" by (intro mult_mono pow2_mono) auto
  also have "\<dots> = 1 / 2 ^ 1000" by (simp add: power_int_minus_divide)
  finally show ?thesis by (rule add_increasing [rotated]) simp
qed

locale rounding =
  fixes fl :: "rat \<Rightarrow> rat"
  assumes fl_error: "\<bar>fl x - x\<bar> \<le> \<bar>x\<bar> / 2 ^ 53 + 1 / 2 ^ 1000"
    and fl_of_int: "\<bar>n\<bar> \<le> 2 ^ 53 \<Longrightarrow> fl (of_int n) = of_int n"
    and fl_idem: "fl (fl x) = fl x"
begin

lemma fl_zero [simp]: "fl 0 = 0"
  using fl_of_int [of 0] by simp

text \<open>Rounding a value close to \<open>q\<close> stays close to \<open>q\<close>.\<close>

lemma fl_near:
  assumes "\<bar>x - q\<bar> \<le> d" and "\<bar>x\<bar> \<le> 10 ^ 14"
  shows "\<bar>fl x - q\<bar> \<le> d + 1 / 80"
proof -
  have "\<bar>x\<bar> / 2 ^ 53 \<le> 10 ^ 14 / 2 ^ 53"
    using assms(2) by (rule divide_right_mono) simp
  then have "\<bar>x\<bar> / 2 ^ 53 + 1 / 2 ^ 1000 \<le> 1 / 80" by simp
  then show ?thesis using fl_error [of x] assms(1) by linarith
qed

lemma fl_small_near:
  assumes "\<bar>x - q\<bar> \<le> d" and "\<bar>x\<bar> \<le> 2 * 10 ^ 11"
  shows "\<bar>fl x - q\<bar> \<le> d + 1 / 40000"
proof -
  have "\<bar>x\<bar> / 2 ^ 53 \<le> 2 * 10 ^ 11 / 2 ^ 53"
    using assms(2) by (rule divide_right_mono) simp
  then have "\<bar>x\<bar> / 2 ^ 53 + 1 / 2 ^ 1000 \<le> 1 / 40000" by simp
  then show ?thesis using fl_error [of x] assms(1) by linarith
qed

end

interpretation b64: rounding fl64
  by unfold_locales (rule fl64_error_abs fl64_of_int fl64_idem | assumption)+

text \<open>Below the overflow threshold the result is finite.\<close>

lemma js_of_rat_Fin:
  assumes "\<bar>x\<bar> \<le> 2 ^ 1000"
  shows "js_of_rat x = Fin (fl64 x)"
proof -
  have "\<bar>x\<bar> / 2 ^ 53 \<le> \<bar>x\<bar>" by (simp add: divide_le_eq mult_left_le)
  then have "\<bar>fl64 x - x\<bar> \<le> \<bar>x\<bar> + 1 / 2 ^ 1000" using fl64_error_abs [of x] by linarith
  then have "\<bar>fl64 x\<bar> \<le> 3 * \<bar>x\<bar> + 1 / 2 ^ 1000" by linarith
  also have "\<dots> \<le> 3 * 2 ^ 1000 + 1 / 2 ^ 1000"
    by (intro add_right_mono mult_left_mono assms) simp
  also have "\<dots> < 2 ^ 1024" by simp
  finally show ?thesis by (auto simp: js_of_rat_def Let_def abs_less_iff)
qed

text \<open>How to evaluate a rounding at a concrete value.\<close>

lemma ilog2_unique:
  assumes "pow2 e \<le> x" and "x < pow2 (e + 1)"
  shows "ilog2 x = e"
proof -
  have pos: "0 < x" using assms(1) pow2_pos [of e] by linarith
  have "pow2 e < pow2 (ilog2 x + 1)" using assms(1) ilog2_bounds(2) [OF pos] by linarith
  then have "e < ilog2 x + 1" by (rule pow2_less_cancel)
  moreover have "pow2 (ilog2 x) < pow2 (e + 1)"
    using assms(2) ilog2_bounds(1) [OF pos] by linarith
  then have "ilog2 x < e + 1" by (rule pow2_less_cancel)
  ultimately show ?thesis by linarith
qed

lemma rne_near: "\<bar>x - of_int n\<bar> < 1/2 \<Longrightarrow> rne x = n"
proof -
  assume "\<bar>x - of_int n\<bar> < 1/2"
  moreover have "\<bar>of_int (rne x) - x\<bar> \<le> 1/2" by (rule rne_error)
  ultimately have "\<bar>of_int (rne x) - of_int n\<bar> < (1 :: rat)" by linarith
  then have "\<bar>rne x - n\<bar> < 1" by (simp flip: of_int_diff of_int_abs)
  then show ?thesis by simp
qed

lemma fl64_intro:
  assumes "pow2 e \<le> x" and "x < pow2 (e + 1)" and "- 1022 \<le> e"
    and "\<bar>x - of_int n * pow2 (e - 52)\<bar> < pow2 (e - 52) / 2"
  shows "fl64 x = of_int n * pow2 (e - 52)"
proof -
  have pos: "0 < x" using assms(1) pow2_pos [of e] by linarith
  have u: "ulp_exp x = e - 52"
    using pos assms(3) ilog2_unique [OF assms(1,2)] by (simp add: ulp_exp_def)
  have "x / pow2 (e - 52) - of_int n = (x - of_int n * pow2 (e - 52)) / pow2 (e - 52)"
    by (simp add: field_simps)
  then have "\<bar>x / pow2 (e - 52) - of_int n\<bar> = \<bar>x - of_int n * pow2 (e - 52)\<bar> / pow2 (e - 52)"
    by (simp add: abs_divide)
  also have "\<dots> < 1/2" using assms(4) by (simp add: divide_less_eq)
  finally have "rne (x / pow2 (e - 52)) = n" by (rule rne_near)
  then show ?thesis using pos u by (simp add: fl64_def)
qed

end
