(* ===== verification/MoneyAmounts.thy ===== *)
theory MoneyAmounts
  imports JsNumber
begin

text \<open>
  Amounts of money as the program holds them: the binary64 number nearest to a whole number of
  agorot divided by one hundred. The lemmas bound how far a computed value may drift before the
  rounding to agorot gives another amount; the money components use them and nothing else of the
  number model.
\<close>

lemma near_bound: "\<bar>x - q\<bar> \<le> d \<Longrightarrow> \<bar>q\<bar> \<le> b \<Longrightarrow> d + b \<le> c \<Longrightarrow> \<bar>x\<bar> \<le> (c :: rat)"
  by linarith

lemma near_add: "\<bar>x - p\<bar> \<le> d \<Longrightarrow> \<bar>y - q\<bar> \<le> e \<Longrightarrow> \<bar>(x + y) - (p + q)\<bar> \<le> d + (e :: rat)"
  by linarith

lemma near_sub: "\<bar>x - p\<bar> \<le> d \<Longrightarrow> \<bar>y - q\<bar> \<le> e \<Longrightarrow> \<bar>(x - y) - (p - q)\<bar> \<le> d + (e :: rat)"
  by linarith

lemma near_less: "\<bar>x - p\<bar> \<le> d \<Longrightarrow> \<bar>y - q\<bar> \<le> e \<Longrightarrow> p + d + e < q \<Longrightarrow> x < (y :: rat)"
  by linarith

lemma near_le: "\<bar>x - q\<bar> \<le> d \<Longrightarrow> x \<le> q + (d :: rat)"
  by linarith

lemma near_ge: "\<bar>x - q\<bar> \<le> d \<Longrightarrow> q - d \<le> (x :: rat)"
  by linarith

section \<open>Agorot\<close>

definition cents :: "int \<Rightarrow> rat" where
  "cents n = fl64 (of_int n / 100)"

definition money :: "int \<Rightarrow> jsnum" where
  "money n = Fin (cents n)"

lemma rat_abs_le: "\<bar>n\<bar> \<le> m \<Longrightarrow> \<bar>of_int n :: rat\<bar> \<le> of_int m"
  by (simp flip: of_int_abs)

lemma cents_near:
  assumes "\<bar>n\<bar> \<le> 10 ^ 13"
  shows "\<bar>cents n - of_int n / 100\<bar> \<le> 1 / 40000"
proof -
  have "\<bar>of_int n / 100 :: rat\<bar> \<le> 2 * 10 ^ 11"
    using rat_abs_le [OF assms] by (simp add: abs_divide)
  then show ?thesis
    using b64.fl_small_near [of "of_int n / 100" "of_int n / 100" 0] by (simp add: cents_def)
qed

lemma cents_zero [simp]: "cents 0 = 0"
  by (simp add: cents_def)

lemma cents_bound:
  assumes "\<bar>n\<bar> \<le> 10 ^ 13"
  shows "\<bar>cents n\<bar> \<le> 10 ^ 11 + 1"
proof -
  have "\<bar>of_int n / 100 :: rat\<bar> \<le> 10 ^ 11"
    using rat_abs_le [OF assms] by (simp add: abs_divide)
  then show ?thesis using cents_near [OF assms] by linarith
qed

text \<open>The representation keeps the order of the amounts.\<close>

lemma cents_less_iff [money_simps]:
  assumes "\<bar>m\<bar> \<le> 10 ^ 13" and "\<bar>n\<bar> \<le> 10 ^ 13"
  shows "cents m < cents n \<longleftrightarrow> m < n"
proof -
  have less: "cents a < cents b" if "a < b" "\<bar>a\<bar> \<le> 10 ^ 13" "\<bar>b\<bar> \<le> 10 ^ 13" for a b
  proof -
    have "a + 1 \<le> b" using that(1) by simp
    then have "(of_int (a + 1) :: rat) \<le> of_int b" by (simp only: of_int_le_iff)
    then show ?thesis
      by (intro near_less [OF cents_near [OF that(2)] cents_near [OF that(3)]]) simp
  qed
  show ?thesis
    using less [OF _ assms] less [OF _ assms(2,1)] by (cases m n rule: linorder_cases) auto
qed

lemma cents_eq_iff [money_simps]:
  assumes "\<bar>m\<bar> \<le> 10 ^ 13" and "\<bar>n\<bar> \<le> 10 ^ 13"
  shows "cents m = cents n \<longleftrightarrow> m = n"
  using cents_less_iff [OF assms] cents_less_iff [OF assms(2,1)] by (auto simp: not_less_iff_gr_or_eq)

lemma cents_le_iff [money_simps]:
  assumes "\<bar>m\<bar> \<le> 10 ^ 13" and "\<bar>n\<bar> \<le> 10 ^ 13"
  shows "cents m \<le> cents n \<longleftrightarrow> m \<le> n"
  using cents_less_iff [OF assms(2,1)] by (simp flip: linorder_not_less)

section \<open>From a computed value to agorot and back\<close>

lemma agorot_of_int:
  assumes "\<bar>n\<bar> \<le> 10 ^ 13"
  shows "js_div (Fin (of_int n)) (Fin 100) = money n"
proof -
  have "\<bar>of_int n / 100 :: rat\<bar> \<le> 10 ^ 13"
    using rat_abs_le [OF assms] by (simp add: abs_divide)
  also have "(10 :: rat) ^ 13 \<le> 2 ^ 1000" by simp
  finally show ?thesis by (simp add: js_of_rat_Fin money_def cents_def)
qed

lemma js_of_rat_small: "\<bar>x\<bar> \<le> 10 ^ 15 \<Longrightarrow> js_of_rat x = Fin (fl64 x)"
  by (rule js_of_rat_Fin) (erule order_trans, simp)

lemma scaled_near:
  assumes "\<bar>x - of_int n / 100\<bar> \<le> d" and "d \<le> 1" and "\<bar>n\<bar> \<le> 10 ^ 13"
  shows "js_mul (Fin x) (Fin 100) = Fin (fl64 (x * 100))"
    and "\<bar>fl64 (x * 100) - of_int n\<bar> \<le> 100 * d + 1 / 80"
proof -
  have n: "\<bar>of_int n :: rat\<bar> \<le> 10 ^ 13" using rat_abs_le [OF assms(3)] by simp
  have d: "\<bar>x * 100 - of_int n\<bar> \<le> 100 * d" using assms(1) by (simp add: abs_le_iff)
  then have b: "\<bar>x * 100\<bar> \<le> 10 ^ 14"
    using n by (rule near_bound) (use assms(2) in simp)
  then show "js_mul (Fin x) (Fin 100) = Fin (fl64 (x * 100))"
    by (simp add: js_of_rat_small)
  show "\<bar>fl64 (x * 100) - of_int n\<bar> \<le> 100 * d + 1 / 80"
    by (rule b64.fl_near [OF d b])
qed

text \<open>Sums and differences of amounts drift by less than a ten-thousandth.\<close>

lemma cents_sub:
  assumes "\<bar>m\<bar> \<le> 10 ^ 12" and "\<bar>n\<bar> \<le> 10 ^ 12"
  shows "js_sub (money m) (money n) = Fin (fl64 (cents m - cents n))"
    and "\<bar>fl64 (cents m - cents n) - of_int (m - n) / 100\<bar> \<le> 1 / 10000"
proof -
  have m: "\<bar>m\<bar> \<le> 10 ^ 13" and n: "\<bar>n\<bar> \<le> 10 ^ 13" using assms by simp_all
  have mb: "\<bar>of_int m / 100 :: rat\<bar> \<le> 10 ^ 10" and nb: "\<bar>of_int n / 100 :: rat\<bar> \<le> 10 ^ 10"
    using rat_abs_le [OF assms(1)] rat_abs_le [OF assms(2)] by (simp_all add: abs_divide)
  have d: "\<bar>cents m - cents n - of_int (m - n) / 100\<bar> \<le> 1 / 20000"
    using near_sub [OF cents_near [OF m] cents_near [OF n]] by (simp add: diff_divide_distrib)
  have "\<bar>of_int m / 100 - of_int n / 100 :: rat\<bar> \<le> 2 * 10 ^ 10"
    using mb nb by simp
  then have b: "\<bar>cents m - cents n\<bar> \<le> 2 * 10 ^ 11"
    using near_bound [OF near_sub [OF cents_near [OF m] cents_near [OF n]]] by simp
  then show "js_sub (money m) (money n) = Fin (fl64 (cents m - cents n))"
    by (simp add: js_sub_def money_def js_of_rat_small)
  show "\<bar>fl64 (cents m - cents n) - of_int (m - n) / 100\<bar> \<le> 1 / 10000"
    using b64.fl_small_near [OF d b] by simp
qed

lemma cents_add:
  assumes "\<bar>m\<bar> \<le> 10 ^ 12" and "\<bar>n\<bar> \<le> 10 ^ 12"
  shows "js_add (money m) (money n) = Fin (fl64 (cents m + cents n))"
    and "\<bar>fl64 (cents m + cents n) - of_int (m + n) / 100\<bar> \<le> 1 / 10000"
proof -
  have m: "\<bar>m\<bar> \<le> 10 ^ 13" and n: "\<bar>n\<bar> \<le> 10 ^ 13" using assms by simp_all
  have mb: "\<bar>of_int m / 100 :: rat\<bar> \<le> 10 ^ 10" and nb: "\<bar>of_int n / 100 :: rat\<bar> \<le> 10 ^ 10"
    using rat_abs_le [OF assms(1)] rat_abs_le [OF assms(2)] by (simp_all add: abs_divide)
  have d: "\<bar>cents m + cents n - of_int (m + n) / 100\<bar> \<le> 1 / 20000"
    using near_add [OF cents_near [OF m] cents_near [OF n]] by (simp add: add_divide_distrib)
  have "\<bar>of_int m / 100 + of_int n / 100 :: rat\<bar> \<le> 2 * 10 ^ 10"
    using mb nb by simp
  then have b: "\<bar>cents m + cents n\<bar> \<le> 2 * 10 ^ 11"
    using near_bound [OF near_add [OF cents_near [OF m] cents_near [OF n]]] by simp
  then show "js_add (money m) (money n) = Fin (fl64 (cents m + cents n))"
    by (simp add: money_def js_of_rat_small)
  show "\<bar>fl64 (cents m + cents n) - of_int (m + n) / 100\<bar> \<le> 1 / 10000"
    using b64.fl_small_near [OF d b] by simp
qed

section \<open>Signs\<close>

lemma rne_minus: "rne (- x) = - rne x"
proof (cases "x = of_int \<lfloor>x\<rfloor>")
  case True
  then show ?thesis by (metis of_int_minus rne_of_int)
next
  case False
  have "\<lfloor>- x\<rfloor> = - \<lfloor>x\<rfloor> - 1"
    using False by (intro floor_unique) (simp_all, linarith+)
  then show ?thesis by (auto simp: rne_def Let_def)
qed

lemma fl64_minus: "fl64 (- x) = - fl64 x"
  by (simp add: fl64_def ulp_exp_def Let_def rne_minus)

lemma cents_minus: "cents (- n) = - cents n"
  by (simp add: cents_def fl64_minus)

lemma cents_fixed [simp]: "fl64 (cents n) = cents n"
  by (simp add: cents_def fl64_idem)

section \<open>Rounding to agorot\<close>

text \<open>
  \<open>roundMoney\<close> of \<open>src/platform_fee_money.ts\<close>; \<open>src/vat_authority.ts\<close> and
  \<open>src/payout_rail.ts\<close> repeat it word for word.
\<close>

definition roundMoney :: "jsnum \<Rightarrow> jsnum" where
  "roundMoney value = js_div (js_round (js_mul (js_or value (Fin 0)) (Fin 100))) (Fin 100)"

text \<open>Every value of bounded size is rounded to an amount at most half an agora away.\<close>

lemma roundMoney_ex:
  assumes "\<bar>x\<bar> \<le> 2 * 10 ^ 10"
  obtains n where "roundMoney (Fin x) = money n" and "\<bar>of_int n - 100 * x\<bar> \<le> 1/2 + 1/2000"
    and "\<bar>n\<bar> \<le> 10 ^ 13"
proof
  let ?y = "fl64 (x * 100)"
  let ?n = "round_half_up ?y"
  have xb: "\<bar>x * 100\<bar> \<le> 2 * 10 ^ 12" using assms by (simp add: abs_mult)
  then have "\<bar>x * 100\<bar> / 2 ^ 53 \<le> 2 * 10 ^ 12 / 2 ^ 53" by (rule divide_right_mono) simp
  then have "\<bar>x * 100\<bar> / 2 ^ 53 + 1 / 2 ^ 1000 \<le> 1 / 2000" by simp
  then have y: "\<bar>?y - x * 100\<bar> \<le> 1 / 2000"
    using b64.fl_error [of "x * 100"] by linarith
  have n: "\<bar>of_int ?n - ?y\<bar> \<le> 1/2" by (rule round_half_up_error)
  then show e: "\<bar>of_int ?n - 100 * x\<bar> \<le> 1/2 + 1/2000" using y by linarith
  have "\<bar>of_int ?n :: rat\<bar> \<le> of_int (10 ^ 13)"
    using e by (rule near_bound [where b = "2 * 10 ^ 12"]) (use xb in \<open>simp_all add: mult.commute\<close>)
  then show nb: "\<bar>?n\<bar> \<le> 10 ^ 13" by (simp only: of_int_le_iff flip: of_int_abs)
  have "js_or (Fin x) (Fin 0) = Fin x" by (simp add: js_or_def)
  moreover have "js_mul (Fin x) (Fin 100) = Fin ?y"
    using xb by (simp add: js_of_rat_small)
  ultimately show "roundMoney (Fin x) = money ?n"
    using agorot_of_int [OF nb] by (simp add: roundMoney_def)
qed

text \<open>A value that has drifted from an amount by less than two fifths of an agora is pulled back.\<close>

lemma roundMoney_near:
  assumes "\<bar>x - of_int n / 100\<bar> \<le> 4 / 1000" and "\<bar>n\<bar> \<le> 10 ^ 12"
  shows "roundMoney (Fin x) = money n"
proof -
  have q: "\<bar>of_int n / 100 :: rat\<bar> \<le> 10 ^ 10"
    using rat_abs_le [OF assms(2)] by (simp add: abs_divide)
  have "\<bar>x\<bar> \<le> 2 * 10 ^ 10" using assms(1) q by (rule near_bound) simp
  then obtain m where m: "roundMoney (Fin x) = money m" "\<bar>of_int m - 100 * x\<bar> \<le> 1/2 + 1/2000"
    using roundMoney_ex by blast
  have "\<bar>of_int (m - n)\<bar> < (1 :: rat)" using m(2) assms(1) unfolding of_int_diff by linarith
  then have "\<bar>m - n\<bar> < 1" by (simp flip: of_int_abs)
  then have "m = n" by linarith
  with m(1) show ?thesis by simp
qed

lemma roundMoney_money [money_simps]: "\<bar>n\<bar> \<le> 10 ^ 12 \<Longrightarrow> roundMoney (money n) = money n"
  unfolding money_def
  using roundMoney_near [of "cents n" n] cents_near [of n] by (simp add: money_def)

lemma roundMoney_sub [money_simps]:
  assumes "\<bar>m\<bar> \<le> 10 ^ 12" and "\<bar>n\<bar> \<le> 10 ^ 12" and "\<bar>m - n\<bar> \<le> 10 ^ 12"
  shows "roundMoney (js_sub (money m) (money n)) = money (m - n)"
  using cents_sub [OF assms(1,2)] roundMoney_near [OF _ assms(3)] by simp

lemma roundMoney_add [money_simps]:
  assumes "\<bar>m\<bar> \<le> 10 ^ 12" and "\<bar>n\<bar> \<le> 10 ^ 12" and "\<bar>m + n\<bar> \<le> 10 ^ 12"
  shows "roundMoney (js_add (money m) (money n)) = money (m + n)"
  using cents_add [OF assms(1,2)] roundMoney_near [OF _ assms(3)] by simp

lemma money_times_sign [money_simps]:
  assumes "\<bar>n\<bar> \<le> 10 ^ 12"
  shows "js_mul (money n) (Fin 1) = money n" and "js_mul (money n) (Fin (- 1)) = money (- n)"
proof -
  have "\<bar>cents n\<bar> \<le> 10 ^ 15" using cents_bound [of n] assms by simp
  then show "js_mul (money n) (Fin 1) = money n" and "js_mul (money n) (Fin (- 1)) = money (- n)"
    by (simp_all add: money_def js_of_rat_small fl64_minus cents_minus)
qed

text \<open>The product of an amount with a rate between zero and one.\<close>

lemma rate_near:
  assumes "0 \<le> r" and "r \<le> 1"
  shows "js_of_rat r = Fin (fl64 r)" and "\<bar>fl64 r - r\<bar> \<le> 1 / 10 ^ 15"
proof -
  have r: "\<bar>r\<bar> \<le> 1" using assms by simp
  then have "\<bar>r\<bar> \<le> 10 ^ 15" by simp
  then show "js_of_rat r = Fin (fl64 r)" by (rule js_of_rat_small)
  have "\<bar>r\<bar> / 2 ^ 53 \<le> 1 / 2 ^ 53" using r by (rule divide_right_mono) simp
  then have "\<bar>r\<bar> / 2 ^ 53 + 1 / 2 ^ 1000 \<le> 1 / 10 ^ 15" by simp
  then show "\<bar>fl64 r - r\<bar> \<le> 1 / 10 ^ 15" using b64.fl_error [of r] by linarith
qed

lemma money_times_rate:
  assumes m: "\<bar>m\<bar> \<le> 10 ^ 12" and r: "0 \<le> r" "r \<le> 1"
  obtains n where "roundMoney (js_mul (money m) (js_of_rat r)) = money n"
    and "\<bar>of_int n - of_int m * r\<bar> \<le> 1/2 + 1/200" and "\<bar>n\<bar> \<le> 10 ^ 12"
proof -
  have m13: "\<bar>m\<bar> \<le> 10 ^ 13" using m by simp
  have mq: "\<bar>of_int m / 100 :: rat\<bar> \<le> 10 ^ 10"
    using rat_abs_le [OF m] by (simp add: abs_divide)
  have cb: "\<bar>cents m\<bar> \<le> 10 ^ 10 + 1"
    using cents_near [OF m13] mq by (rule near_bound) simp
  let ?q = "cents m * fl64 r"
  have "?q - of_int m / 100 * r = cents m * (fl64 r - r) + (cents m - of_int m / 100) * r"
    by (simp add: algebra_simps)
  also have "\<bar>\<dots>\<bar> \<le> \<bar>cents m\<bar> * \<bar>fl64 r - r\<bar> + \<bar>cents m - of_int m / 100\<bar> * \<bar>r\<bar>"
    by (metis abs_mult abs_triangle_ineq)
  also have "\<dots> \<le> (10 ^ 10 + 1) * (1 / 10 ^ 15) + 1 / 40000 * 1"
    using cb rate_near(2) [OF r] cents_near [OF m13] r by (intro add_mono mult_mono) simp_all
  also have "\<dots> \<le> 1 / 28000" by simp
  finally have q: "\<bar>?q - of_int m / 100 * r\<bar> \<le> 1 / 28000" .
  have qe: "\<bar>of_int m / 100 * r\<bar> \<le> 10 ^ 10"
  proof -
    have "\<bar>of_int m / 100\<bar> * \<bar>r\<bar> \<le> 10 ^ 10 * 1" using mq r by (intro mult_mono) simp_all
    then show ?thesis by (simp add: abs_mult)
  qed
  have qb: "\<bar>?q\<bar> \<le> 2 * 10 ^ 10" using q qe by (rule near_bound) simp
  then have "\<bar>?q\<bar> / 2 ^ 53 \<le> 2 * 10 ^ 10 / 2 ^ 53" by (rule divide_right_mono) simp
  then have "\<bar>?q\<bar> / 2 ^ 53 + 1 / 2 ^ 1000 \<le> 1 / 400000" by simp
  then have y: "\<bar>fl64 ?q - ?q\<bar> \<le> 1 / 400000" using b64.fl_error [of ?q] by linarith
  have yq: "\<bar>fl64 ?q - of_int m / 100 * r\<bar> \<le> 1 / 26000" using y q by linarith
  have "\<bar>fl64 ?q\<bar> \<le> 2 * 10 ^ 10" using yq qe by (rule near_bound) simp
  then obtain n where n: "roundMoney (Fin (fl64 ?q)) = money n"
      "\<bar>of_int n - 100 * fl64 ?q\<bar> \<le> 1/2 + 1/2000"
    using roundMoney_ex by blast
  define p where "p = of_int m * r"
  have pe: "of_int m / 100 * r = p / 100" by (simp add: p_def)
  have nn: "\<bar>of_int n - p\<bar> \<le> 1/2 + 1/200"
    using n(2) yq unfolding pe by linarith
  show thesis
  proof (rule that)
    show "roundMoney (js_mul (money m) (js_of_rat r)) = money n"
      using n(1) qb by (simp add: rate_near(1) [OF r] money_def js_of_rat_small)
    show "\<bar>of_int n - of_int m * r\<bar> \<le> 1/2 + 1/200" using nn by (simp add: p_def)
    have "\<bar>p\<bar> \<le> 1000000000000" using qe unfolding pe by (simp add: abs_divide)
    then have "\<bar>of_int n :: rat\<bar> < 1000000000001" using nn by linarith
    then have "\<bar>n\<bar> < 1000000000001" by (simp flip: of_int_abs)
    then show "\<bar>n\<bar> \<le> 10 ^ 12" by simp
  qed
qed

end
