(* ===== verification/MoneyInput.thy ===== *)
theory MoneyInput
  imports MoneyAmounts
begin

text \<open>
  \<open>src/money_input.ts\<close>: the one reader of every money amount a client can send. It rounds first,
  then validates the rounded value, and returns that value, so that nothing downstream can
  disagree with the guard.
\<close>

section \<open>Constants, options and errors\<close>

definition MONEY_SCALE :: int where
  "MONEY_SCALE = 2"

definition MONEY_MAX :: jsnum where
  "MONEY_MAX = js_of_rat (999999999999 / 100)"

definition MONEY_EPSILON :: jsnum where
  "MONEY_EPSILON = js_of_rat (1 / 100)"

record money_input_options =
  mio_field :: string
  mio_min :: "jsnum option"
  mio_max :: "jsnum option"
  mio_optional :: "bool option"

text \<open>The message of a rejection, with the bound it quotes.\<close>

datatype money_message =
    IsRequired | MustBeNumber | MustBeFiniteNumber | MustBeAtMost jsnum
  | MustBeAtLeast jsnum | MustNotBeNegative

record money_rejection =
  rej_status :: int
  rej_code :: string
  rej_message :: money_message

definition money_reject :: "string \<Rightarrow> money_message \<Rightarrow> money_rejection + 'a" where
  "money_reject field message =
     Inl \<lparr>rej_status = 400, rej_code = field @ ''_invalid'', rej_message = message\<rparr>"

section \<open>Rounding to the storage scale\<close>

definition toStoredMoney :: "jsnum \<Rightarrow> jsnum" where
  "toStoredMoney value =
     (let scaled = js_mul value (Fin 100);
          corrected =
            (if js_lt (js_abs (js_sub (js_sub scaled (js_trunc scaled)) (Fin (1/2)))) (js_of_rat (1 / 10 ^ 9))
             then js_add (js_trunc scaled) (js_mul (js_sign scaled) (Fin (1/2)))
             else scaled)
      in js_div (js_mul (js_sign corrected) (js_round (js_abs corrected))) (Fin 100))"

section \<open>Reading an amount\<close>

definition blank_input :: "jsval \<Rightarrow> bool" where
  "blank_input raw = (case raw of
     JUndef \<Rightarrow> True | JNull \<Rightarrow> True | JStr s \<Rightarrow> js_trim s = [] | _ \<Rightarrow> False)"

definition number_or_string :: "jsval \<Rightarrow> bool" where
  "number_or_string raw = (case raw of JNum _ \<Rightarrow> True | JStr _ \<Rightarrow> True | _ \<Rightarrow> False)"

definition money_min :: "money_input_options \<Rightarrow> jsnum" where
  "money_min options = (case mio_min options of None \<Rightarrow> MONEY_EPSILON | Some m \<Rightarrow> m)"

definition money_max :: "money_input_options \<Rightarrow> jsnum" where
  "money_max options = (case mio_max options of None \<Rightarrow> MONEY_MAX | Some m \<Rightarrow> m)"

definition readMoneyAmount :: "jsval \<Rightarrow> money_input_options \<Rightarrow> money_rejection + jsnum" where
  "readMoneyAmount raw options =
     (let field = mio_field options;
          lo = money_min options; hi = money_max options
      in if blank_input raw then money_reject field IsRequired
         else if \<not> number_or_string raw then money_reject field MustBeNumber
         else let value = js_number raw in
           if \<not> is_finite value then money_reject field MustBeFiniteNumber
           else if js_lt MONEY_MAX (js_abs value) then money_reject field (MustBeAtMost MONEY_MAX)
           else let stored = toStoredMoney value in
             if js_lt stored lo
             then money_reject field (if js_lt (Fin 0) lo then MustBeAtLeast lo else MustNotBeNegative)
             else if js_lt hi stored then money_reject field (MustBeAtMost hi)
             else Inr stored)"

definition readOptionalMoneyAmount ::
    "jsval \<Rightarrow> money_input_options \<Rightarrow> money_rejection + jsnum option" where
  "readOptionalMoneyAmount raw options =
     (if blank_input raw then Inr None
      else on_ok (readMoneyAmount raw options) (\<lambda>v. Inr (Some v)))"

section \<open>Every stored amount is a whole number of agorot\<close>

lemma MONEY_MAX_money: "MONEY_MAX = money 999999999999"
  using js_of_rat_small [of "999999999999 / 100"]
  by (simp add: MONEY_MAX_def money_def cents_def)

lemma MONEY_EPSILON_money: "MONEY_EPSILON = money 1"
  using js_of_rat_small [of "1 / 100"] by (simp add: MONEY_EPSILON_def money_def cents_def)

text \<open>The sign and the rounded magnitude of a value make an integer.\<close>

definition signed_round :: "rat \<Rightarrow> int" where
  "signed_round c = (if c < 0 then - round_half_up (- c) else round_half_up c)"

lemma signed_round_near:
  assumes "\<bar>c - of_int n\<bar> < 1 / 2"
  shows "signed_round c = n"
proof (cases "c < 0")
  case True
  have "\<bar>- c - of_int (- n)\<bar> < 1 / 2" using assms by (simp add: abs_minus_commute)
  then have "round_half_up (- c) = - n" by (rule round_half_up_near)
  then show ?thesis using True by (simp add: signed_round_def)
next
  case False
  then show ?thesis using assms by (simp add: signed_round_def round_half_up_near)
qed

lemma signed_round_bound:
  assumes "\<bar>c\<bar> \<le> of_int m"
  shows "\<bar>signed_round c\<bar> \<le> m + 1"
proof -
  have "\<bar>of_int (round_half_up \<bar>c\<bar>) :: rat\<bar> \<le> of_int (m + 1)"
    using round_half_up_error by (rule near_bound [where b = "of_int m"]) (use assms in simp_all)
  then have "\<bar>round_half_up \<bar>c\<bar>\<bar> \<le> m + 1" by (simp only: of_int_le_iff flip: of_int_abs)
  then show ?thesis by (auto simp: signed_round_def)
qed

lemma store_signed_round:
  assumes "\<bar>c\<bar> \<le> 10 ^ 12 + 10"
  shows "js_div (js_mul (js_sign (Fin c)) (js_round (js_abs (Fin c)))) (Fin 100) = money (signed_round c)"
    and "\<bar>signed_round c\<bar> \<le> 10 ^ 13"
proof -
  have b: "\<bar>signed_round c\<bar> \<le> 10 ^ 12 + 11"
    using signed_round_bound [of c "10 ^ 12 + 10"] assms by simp
  then show "\<bar>signed_round c\<bar> \<le> 10 ^ 13" by simp
  have "sgn c * of_int (round_half_up \<bar>c\<bar>) = of_int (signed_round c)"
    by (auto simp: signed_round_def sgn_if)
  moreover have "\<bar>of_int (signed_round c) :: rat\<bar> \<le> 10 ^ 15"
    using rat_abs_le [OF b] by simp
  then have "js_of_rat (of_int (signed_round c)) = Fin (of_int (signed_round c))"
    using b by (simp add: js_of_rat_small b64.fl_of_int)
  ultimately show "js_div (js_mul (js_sign (Fin c)) (js_round (js_abs (Fin c)))) (Fin 100) = money (signed_round c)"
    using agorot_of_int [of "signed_round c"] b by simp
qed

lemma half_exact:
  assumes "\<bar>m\<bar> \<le> 10 ^ 13"
  shows "js_of_rat (of_int m / 2) = Fin (of_int m / 2)"
proof -
  have "\<bar>of_int m / 2 :: rat\<bar> \<le> 10 ^ 15"
    using rat_abs_le [OF assms] by (simp add: abs_divide)
  moreover have "fl64 (of_int m / 2) = of_int m / 2"
    using fl64_exact [of m "- 1"] assms by simp
  ultimately show ?thesis by (simp add: js_of_rat_small)
qed

text \<open>The value \<open>toStoredMoney\<close> rounds, and whether it first moves to the half.\<close>

definition truncated :: "rat \<Rightarrow> int" where
  "truncated s = (if s < 0 then \<lceil>s\<rceil> else \<lfloor>s\<rfloor>)"

definition at_half :: "rat \<Rightarrow> bool" where
  "at_half s \<longleftrightarrow> \<bar>fl64 (fl64 (s - of_int (truncated s)) - 1/2)\<bar> < fl64 (1 / 10 ^ 9)"

definition corrected_value :: "rat \<Rightarrow> rat" where
  "corrected_value s = (if at_half s then of_int (truncated s) + sgn s / 2 else s)"

lemma truncated_near: "\<bar>s - of_int (truncated s)\<bar> < 1"
  unfolding truncated_def by (simp split: if_split) linarith

lemma toStoredMoney_Fin:
  assumes s: "s = fl64 (v * 100)" and v: "\<bar>v * 100\<bar> \<le> 10 ^ 12"
  shows "toStoredMoney (Fin v) = money (signed_round (corrected_value s))"
    and "\<bar>signed_round (corrected_value s)\<bar> \<le> 10 ^ 13"
proof -
  have mul: "js_mul (Fin v) (Fin 100) = Fin s"
    using v by (simp add: s js_of_rat_small)
  have "\<bar>v * 100\<bar> \<le> 10 ^ 14" using v by simp
  then have "\<bar>s - v * 100\<bar> \<le> 1 / 80"
    using b64.fl_near [of "v * 100" "v * 100" 0] s by simp
  then have sb: "\<bar>s\<bar> \<le> 10 ^ 12 + 1" using v by (rule near_bound) simp
  have tb: "\<bar>of_int (truncated s) :: rat\<bar> \<le> 10 ^ 12 + 2"
    using sb truncated_near [of s] by simp
  then have ti: "\<bar>truncated s\<bar> \<le> 10 ^ 12 + 2"
    by (simp flip: of_int_abs)
  have tr: "js_trunc (Fin s) = Fin (of_int (truncated s))"
    by (simp add: truncated_def)
  have "\<bar>s - of_int (truncated s)\<bar> \<le> 10 ^ 15" using truncated_near [of s] by simp
  then have sub1: "js_sub (Fin s) (Fin (of_int (truncated s))) = Fin (fl64 (s - of_int (truncated s)))"
    by (simp add: js_sub_def js_of_rat_small)
  let ?f = "fl64 (s - of_int (truncated s))"
  have "\<bar>?f - (s - of_int (truncated s))\<bar> \<le> 1 / 80"
    using b64.fl_near [of "s - of_int (truncated s)" "s - of_int (truncated s)" 0] truncated_near [of s]
    by simp
  then have "\<bar>?f\<bar> \<le> 2"
    by (rule near_bound [where b = 1]) (use truncated_near [of s] in simp_all)
  then have sub2: "js_sub (Fin ?f) (Fin (1/2)) = Fin (fl64 (?f - 1/2))"
    by (simp add: js_sub_def js_of_rat_small)
  have eps: "js_of_rat (1 / 10 ^ 9) = Fin (fl64 (1 / 10 ^ 9))" by (simp add: js_of_rat_small)
  have sg: "js_mul (js_sign (Fin s)) (Fin (1/2)) = Fin (sgn s / 2)"
    using half_exact [of 1] half_exact [of "- 1"] half_exact [of 0] by (auto simp: sgn_if)
  obtain m :: int where m: "of_int (truncated s) + sgn s / 2 = of_int m / 2" and mb: "\<bar>m\<bar> \<le> 10 ^ 13"
  proof
    let ?m = "2 * truncated s + (if s < 0 then - 1 else if s = 0 then 0 else 1)"
    show "of_int (truncated s) + sgn s / 2 = of_int ?m / 2"
      by (auto simp: sgn_if add_divide_distrib)
    have "\<bar>?m\<bar> \<le> 2 * \<bar>truncated s\<bar> + 1" by (simp split: if_split) linarith
    then show "\<bar>?m\<bar> \<le> 10 ^ 13" using ti by simp
  qed
  have add: "js_add (Fin (of_int (truncated s))) (Fin (sgn s / 2))
      = Fin (of_int (truncated s) + sgn s / 2)"
    using half_exact [OF mb] by (simp add: m)
  have corr: "(if js_lt (js_abs (js_sub (js_sub (Fin s) (js_trunc (Fin s))) (Fin (1/2)))) (js_of_rat (1 / 10 ^ 9))
         then js_add (js_trunc (Fin s)) (js_mul (js_sign (Fin s)) (Fin (1/2))) else Fin s)
      = Fin (corrected_value s)"
    unfolding tr sub1 sub2 eps sg add by (simp add: corrected_value_def at_half_def)
  have st: "toStoredMoney (Fin v)
      = js_div (js_mul (js_sign (Fin (corrected_value s))) (js_round (js_abs (Fin (corrected_value s))))) (Fin 100)"
    unfolding toStoredMoney_def Let_def mul corr ..
  have cb: "\<bar>corrected_value s\<bar> \<le> 10 ^ 12 + 10"
    using sb tb by (auto simp: corrected_value_def sgn_if)
  show "toStoredMoney (Fin v) = money (signed_round (corrected_value s))"
    unfolding st by (rule store_signed_round(1) [OF cb])
  show "\<bar>signed_round (corrected_value s)\<bar> \<le> 10 ^ 13" by (rule store_signed_round(2) [OF cb])
qed

section \<open>Which amounts are stored\<close>

lemma at_half_near: "at_half s \<Longrightarrow> \<bar>s - of_int (truncated s) - 1/2\<bar> \<le> 1 / 30"
proof -
  assume h: "at_half s"
  let ?d = "s - of_int (truncated s)"
  have d: "\<bar>?d\<bar> \<le> 1" using truncated_near [of s] by simp
  have f: "\<bar>fl64 ?d - ?d\<bar> \<le> 1 / 80"
    using b64.fl_near [of ?d ?d 0] d by simp
  then have fb: "\<bar>fl64 ?d\<bar> \<le> 2" using d by (rule near_bound) simp
  have "\<bar>fl64 (fl64 ?d - 1/2) - (fl64 ?d - 1/2)\<bar> \<le> 1 / 80"
    using b64.fl_near [of "fl64 ?d - 1/2" "fl64 ?d - 1/2" 0] fb by simp
  moreover have "\<bar>fl64 (1 / 10 ^ 9) - 1 / 1000000000\<bar> \<le> (1 / 1000000 :: rat)"
    using b64.fl_error [of "1 / 10 ^ 9"] by simp
  moreover have "\<bar>fl64 (fl64 ?d - 1/2)\<bar> < fl64 (1 / 10 ^ 9)" using h by (simp add: at_half_def)
  ultimately show ?thesis using f by linarith
qed

text \<open>A value within a hundredth of an integer is rounded to it.\<close>

lemma corrected_value_near:
  assumes "\<bar>s - of_int n\<bar> \<le> 1 / 50"
  shows "signed_round (corrected_value s) = n"
proof -
  have "\<not> at_half s"
  proof
    assume "at_half s"
    then have "\<bar>s - of_int (truncated s) - 1/2\<bar> \<le> 1 / 30" by (rule at_half_near)
    then have "\<bar>of_int (n - truncated s) - 1/2\<bar> < (1/2 :: rat)"
      using assms unfolding of_int_diff by linarith
    then have "(of_int 0 :: rat) < of_int (n - truncated s)" and "(of_int (n - truncated s) :: rat) < of_int 1"
      unfolding of_int_0 of_int_1 by linarith+
    then show False by (simp only: of_int_less_iff)
  qed
  then show ?thesis using assms by (simp add: corrected_value_def signed_round_near)
qed

lemma toStoredMoney_money:
  assumes "\<bar>n\<bar> \<le> 999999999999"
  shows "toStoredMoney (money n) = money n"
proof -
  have n: "\<bar>n\<bar> \<le> 10 ^ 13" using assms by simp
  have q: "\<bar>of_int n :: rat\<bar> \<le> 999999999999" using rat_abs_le [OF assms] by simp
  have "\<bar>cents n * 100 - of_int n\<bar> \<le> 1 / 400" using cents_near [OF n] by linarith
  then have b: "\<bar>cents n * 100\<bar> \<le> 10 ^ 12" using q by (rule near_bound) simp
  have "\<bar>fl64 (cents n * 100) - of_int n\<bar> \<le> 1 / 50"
    using scaled_near(2) [OF cents_near [OF n] _ n] by simp
  then have "signed_round (corrected_value (fl64 (cents n * 100))) = n"
    by (rule corrected_value_near)
  then show ?thesis using toStoredMoney_Fin(1) [OF refl b] unfolding money_def by simp
qed

lemma stored_range:
  assumes "\<bar>s\<bar> \<le> 999999999999 + 1/20"
  shows "\<bar>signed_round (corrected_value s)\<bar> \<le> 999999999999"
proof (cases "at_half s")
  case True
  have h: "\<bar>s - of_int (truncated s) - 1/2\<bar> \<le> 1 / 30" using True by (rule at_half_near)
  have s0: "0 < s"
  proof (rule ccontr)
    assume "\<not> 0 < s"
    then have "s - of_int (truncated s) \<le> 0" by (auto simp: truncated_def)
    with h show False by linarith
  qed
  then have "0 \<le> truncated s" by (simp add: truncated_def)
  moreover have "(of_int (truncated s) :: rat) < of_int 999999999999"
    using h assms unfolding of_int_numeral by linarith
  then have "truncated s < 999999999999" by (simp only: of_int_less_iff)
  moreover have "signed_round (corrected_value s) = truncated s + 1"
    using True s0 \<open>0 \<le> truncated s\<close>
    by (simp add: corrected_value_def signed_round_def round_half_up_def)
  ultimately show ?thesis by simp
next
  case False
  have "\<bar>signed_round s\<bar> \<le> 999999999999"
  proof -
    have "\<bar>of_int (round_half_up \<bar>s\<bar>) - \<bar>s\<bar>\<bar> \<le> 1/2" by (rule round_half_up_error)
    then have "(of_int (round_half_up \<bar>s\<bar>) :: rat) < of_int 1000000000000"
      using assms unfolding of_int_numeral by linarith
    then have "round_half_up \<bar>s\<bar> \<le> 999999999999" by (simp only: of_int_less_iff)
    moreover have "0 \<le> round_half_up \<bar>s\<bar>" by (simp add: round_half_up_def)
    ultimately show ?thesis by (auto simp: signed_round_def)
  qed
  then show ?thesis using False by (simp add: corrected_value_def)
qed

lemma toStoredMoney_range:
  assumes "\<bar>v\<bar> \<le> cents 999999999999"
  shows "\<exists>n. \<bar>n\<bar> \<le> 999999999999 \<and> toStoredMoney (Fin v) = money n"
proof -
  have c: "cents 999999999999 \<le> 999999999999 / 100 + 1 / 40000"
    using cents_near [of 999999999999] by (intro near_le) simp
  then have v: "\<bar>v * 100\<bar> \<le> 999999999999 + 1/400" using assms by (simp add: abs_mult)
  then have b: "\<bar>v * 100\<bar> \<le> 10 ^ 12" by simp
  have "\<bar>fl64 (v * 100) - v * 100\<bar> \<le> 1 / 80"
    using b64.fl_near [of "v * 100" "v * 100" 0] b by simp
  then have "\<bar>fl64 (v * 100)\<bar> \<le> 999999999999 + 1/20" using v by (rule near_bound) simp
  then show ?thesis using toStoredMoney_Fin(1) [OF refl b] stored_range by blast
qed

section \<open>Decimal intent\<close>

lemma fl_tight: "\<bar>x\<bar> \<le> 2100000 \<Longrightarrow> \<bar>fl64 x - x\<bar> \<le> 1 / 4000000000"
proof -
  assume "\<bar>x\<bar> \<le> 2100000"
  then have "\<bar>x\<bar> / 2 ^ 53 \<le> 2100000 / 2 ^ 53" by (rule divide_right_mono) simp
  then have "\<bar>x\<bar> / 2 ^ 53 + 1 / 2 ^ 1000 \<le> 1 / 4000000000" by simp
  then show ?thesis using b64.fl_error [of x] by linarith
qed

lemma fl_unit: "\<bar>x\<bar> \<le> 30000 \<Longrightarrow> \<bar>fl64 x - x\<bar> \<le> 1 / 250000000000"
proof -
  assume "\<bar>x\<bar> \<le> 30000"
  then have "\<bar>x\<bar> / 2 ^ 53 \<le> 30000 / 2 ^ 53" by (rule divide_right_mono) simp
  then have "\<bar>x\<bar> / 2 ^ 53 + 1 / 2 ^ 1000 \<le> 1 / 250000000000" by simp
  then show ?thesis using b64.fl_error [of x] by linarith
qed

lemma at_half_intro:
  assumes "\<bar>s - of_int (truncated s) - 1/2\<bar> \<le> 7 / 10000000000"
  shows "at_half s"
proof -
  let ?d = "s - of_int (truncated s)"
  have d: "\<bar>?d\<bar> \<le> 1" using truncated_near [of s] by simp
  have f: "\<bar>fl64 ?d - ?d\<bar> \<le> 1 / 250000000000" by (rule fl_unit) (use d in linarith)
  have g: "\<bar>fl64 (fl64 ?d - 1/2) - (fl64 ?d - 1/2)\<bar> \<le> 1 / 250000000000"
    by (rule fl_unit) (use d f in linarith)
  have e: "\<bar>fl64 (1 / 1000000000) - 1 / 1000000000\<bar> \<le> (1 / 250000000000 :: rat)"
    by (rule fl_unit) simp
  have "\<bar>fl64 (fl64 ?d - 1/2)\<bar> < fl64 (1 / 1000000000)"
    using assms f g e by linarith
  then show ?thesis by (simp add: at_half_def)
qed

lemma decimal_scaled:
  assumes k: "0 \<le> k" "k \<le> 20000000"
  defines "v \<equiv> fl64 (of_int k / 1000)"
  shows "\<bar>fl64 (v * 100) - of_int k / 10\<bar> \<le> 7 / 10000000000" and "\<bar>v * 100\<bar> \<le> 10 ^ 12"
proof -
  have kr: "(0 :: rat) \<le> of_int k" "(of_int k :: rat) \<le> 20000000"
    using k by simp_all
  have v: "\<bar>v - of_int k / 1000\<bar> \<le> 1 / 250000000000"
    unfolding v_def by (rule fl_unit) (use kr in simp)
  then have vb: "\<bar>v * 100\<bar> \<le> 2100000" using kr by linarith
  then show "\<bar>v * 100\<bar> \<le> 10 ^ 12" by simp
  have "\<bar>fl64 (v * 100) - v * 100\<bar> \<le> 1 / 4000000000" by (rule fl_tight [OF vb])
  with v show "\<bar>fl64 (v * 100) - of_int k / 10\<bar> \<le> 7 / 10000000000" by linarith
qed

lemma corrected_decimal:
  assumes k: "0 \<le> k" and s: "\<bar>s - of_int k / 10\<bar> \<le> 7 / 10000000000"
  shows "signed_round (corrected_value s) = (k + 5) div 10"
proof -
  define q r where "q = k div 10" and "r = k mod 10"
  have kq: "k = 10 * q + r" and r: "0 \<le> r" "r \<le> 9" and q0: "0 \<le> q"
    using k by (simp_all add: q_def r_def)
  have kr: "(of_int k / 10 :: rat) = of_int q + of_int r / 10"
    by (simp add: kq add_divide_distrib)
  have n: "(k + 5) div 10 = (if r < 5 then q else q + 1)"
    using r unfolding kq by presburger
  show ?thesis
  proof (cases "r = 5")
    case True
    have near: "\<bar>s - of_int q - 1/2\<bar> \<le> 7 / 10000000000" using s kr True by (simp add: diff_diff_eq)
    have "(0 :: rat) \<le> of_int q" using q0 by simp
    then have sp: "0 < s" using near by linarith
    have "\<lfloor>s\<rfloor> = q" using near_le [OF near] near_ge [OF near]
      by (intro floor_unique) (simp_all add: field_simps)
    then have t: "truncated s = q" using sp by (simp add: truncated_def)
    have "at_half s" by (rule at_half_intro) (use near t in simp)
    then have "corrected_value s = of_int q + 1/2" using sp t by (simp add: corrected_value_def)
    then show ?thesis using q0 True n by (simp add: signed_round_def round_half_up_def)
  next
    case False
    have "\<not> at_half s"
    proof
      assume "at_half s"
      then have "\<bar>s - of_int (truncated s) - 1/2\<bar> \<le> 1 / 30" by (rule at_half_near)
      from near_le [OF this] near_ge [OF this] near_le [OF s] near_ge [OF s]
      have "\<bar>of_int (10 * (truncated s - q) - r + 5)\<bar> < (1 :: rat)"
        unfolding kr by (simp add: abs_less_iff)
      then have "\<bar>10 * (truncated s - q) - r + 5\<bar> < 1"
        by (metis of_int_1 of_int_abs of_int_less_iff)
      then show False using r False by presburger
    qed
    moreover have "(0 :: rat) \<le> of_int r" "(of_int r :: rat) \<le> 9" using r by simp_all
    then have "\<bar>s - of_int ((k + 5) div 10)\<bar> < 1 / 2"
    proof (cases "r < 5")
      case True
      then have "(of_int r :: rat) \<le> 4" by simp
      moreover have e: "(k + 5) div 10 = q" using n True by simp
      ultimately show ?thesis
        using near_le [OF s] near_ge [OF s] \<open>0 \<le> of_int r\<close> unfolding e kr abs_less_iff
        by linarith
    next
      case ge: False
      then have "(6 :: rat) \<le> of_int r" using False by simp
      moreover have e: "(k + 5) div 10 = q + 1" using n ge by simp
      ultimately show ?thesis
        using near_le [OF s] near_ge [OF s] \<open>of_int r \<le> 9\<close>
        unfolding e kr abs_less_iff of_int_add of_int_1 by linarith
    qed
    ultimately show ?thesis by (simp add: corrected_value_def signed_round_near)
  qed
qed

section \<open>Properties\<close>

lemma money_not_above_max:
  "\<bar>n\<bar> \<le> 999999999999 \<Longrightarrow> \<not> js_lt MONEY_MAX (js_abs (money n))"
proof -
  assume n: "\<bar>n\<bar> \<le> 999999999999"
  have "\<bar>cents n\<bar> = cents \<bar>n\<bar>"
  proof (cases "0 \<le> n")
    case True
    then have "cents 0 \<le> cents n" using n by (subst cents_le_iff) simp_all
    then show ?thesis using True by simp
  next
    case False
    then have "cents n \<le> cents 0" using n by (subst cents_le_iff) simp_all
    then show ?thesis using False by (simp add: cents_minus)
  qed
  moreover have "cents \<bar>n\<bar> \<le> cents 999999999999" using n by (subst cents_le_iff) simp_all
  ultimately show ?thesis by (simp add: MONEY_MAX_money money_def)
qed

lemma js_lt_max_abs: "\<not> js_lt MONEY_MAX (js_abs (Fin v)) \<Longrightarrow> \<bar>v\<bar> \<le> cents 999999999999"
  by (simp add: MONEY_MAX_money money_def)

text \<open>C19: Every amount \<open>readMoneyAmount\<close> accepts, whatever the client sent, is a whole number of
  agorot that \<open>numeric(12,2)\<close> can hold, lies between the bounds in force, and is a fixed point:
  reading the returned value again under the same options returns it unchanged.\<close>

theorem readMoneyAmount_stored:
  assumes "readMoneyAmount raw options = Inr s"
  shows "\<exists>n. \<bar>n\<bar> \<le> 999999999999 \<and> s = money n \<and> \<not> js_lt s (money_min options)
    \<and> \<not> js_lt (money_max options) s \<and> readMoneyAmount (JNum s) options = Inr s"
proof -
  have nb: "\<not> blank_input raw" "number_or_string raw" and f: "is_finite (js_number raw)"
    and m: "\<not> js_lt MONEY_MAX (js_abs (js_number raw))" and s: "s = toStoredMoney (js_number raw)"
    and lo: "\<not> js_lt s (money_min options)" and hi: "\<not> js_lt (money_max options) s"
    using assms by (auto simp: readMoneyAmount_def Let_def money_reject_def split: if_splits)
  obtain v where v: "js_number raw = Fin v" using f by (cases "js_number raw") auto
  obtain n where n: "\<bar>n\<bar> \<le> 999999999999" "s = money n"
    using toStoredMoney_range js_lt_max_abs m unfolding s v by blast
  have "readMoneyAmount (JNum s) options = Inr s"
    using n lo hi money_not_above_max [OF n(1)] toStoredMoney_money [OF n(1)]
    by (simp add: readMoneyAmount_def blank_input_def number_or_string_def Let_def)
      (simp add: money_def)
  then show ?thesis using n lo hi by blast
qed

definition default_options :: "string \<Rightarrow> money_input_options" where
  "default_options field = \<lparr>mio_field = field, mio_min = None, mio_max = None, mio_optional = None\<rparr>"

lemma default_bounds [simp]:
  "money_min (default_options field) = money 1"
  "money_max (default_options field) = money 999999999999"
  "mio_field (default_options field) = field"
  by (simp_all add: default_options_def money_min_def money_max_def MONEY_EPSILON_money MONEY_MAX_money)

lemma readMoneyAmount_number:
  assumes "toStoredMoney (Fin v) = money n" and "\<bar>v\<bar> \<le> cents 999999999999" and "\<bar>n\<bar> \<le> 999999999999"
  shows "readMoneyAmount (JNum (Fin v)) (default_options field) =
    (if n < 1 then money_reject field (MustBeAtLeast (money 1)) else Inr (money n))"
proof -
  have "js_lt (money n) (money 1) \<longleftrightarrow> n < 1"
    using assms(3) by (simp add: money_def cents_less_iff)
  moreover have "\<not> js_lt (money 999999999999) (money n)"
    using assms(3) by (simp add: money_def cents_less_iff)
  moreover have "js_lt (Fin 0) (money 1)"
    using cents_less_iff [of 0 1] by (simp add: money_def)
  moreover have "\<not> js_lt MONEY_MAX (Fin \<bar>v\<bar>)"
    using assms(2) by (simp add: MONEY_MAX_money money_def)
  ultimately show ?thesis
    using assms(1) by (simp add: readMoneyAmount_def blank_input_def number_or_string_def Let_def)
qed

text \<open>C18: The decimal intent of the client survives binary floating point: an amount sent with
  three decimals (up to twenty thousand) is accepted exactly when its half-up rounding to agorot
  is at least one agora, and what is stored is that rounding. In particular \<open>0.001\<close> is
  rejected and \<open>1.005\<close> is stored as \<open>1.01\<close>.\<close>

theorem readMoneyAmount_decimal:
  assumes "0 \<le> k" and "k \<le> 20000000"
  shows "readMoneyAmount (JNum (Fin (fl64 (of_int k / 1000)))) (default_options field) =
    (if k < 5 then money_reject field (MustBeAtLeast (money 1)) else Inr (money ((k + 5) div 10)))"
proof -
  let ?v = "fl64 (of_int k / 1000)"
  have "toStoredMoney (Fin ?v) = money ((k + 5) div 10)"
    using toStoredMoney_Fin(1) [OF refl decimal_scaled(2) [OF assms]]
      corrected_decimal [OF assms(1) decimal_scaled(1) [OF assms]] by simp
  moreover have "\<bar>?v\<bar> \<le> cents 999999999999"
  proof -
    have "(0 :: rat) \<le> of_int k" "(of_int k :: rat) \<le> 20000000" using assms by simp_all
    moreover from this have "\<bar>?v - of_int k / 1000\<bar> \<le> 1 / 250000000000"
      by (intro fl_unit) simp
    ultimately have "\<bar>?v\<bar> \<le> 30000" by linarith
    moreover have "cents 5000000 \<le> cents 999999999999" by (subst cents_le_iff) simp_all
    moreover have "30000 \<le> cents 5000000" using near_ge [OF cents_near [of 5000000]] by simp
    ultimately show ?thesis by linarith
  qed
  moreover have "\<bar>(k + 5) div 10\<bar> \<le> 999999999999" using assms by simp
  ultimately have "readMoneyAmount (JNum (Fin ?v)) (default_options field) =
    (if (k + 5) div 10 < 1 then money_reject field (MustBeAtLeast (money 1)) else Inr (money ((k + 5) div 10)))"
    by (rule readMoneyAmount_number)
  moreover have "(k + 5) div 10 < 1 \<longleftrightarrow> k < 5" by presburger
  ultimately show ?thesis by simp
qed

theorem readMoneyAmount_decimal_witness:
  "readMoneyAmount (JNum (Fin (fl64 (of_int 1005 / 1000)))) (default_options ''price'') = Inr (money 101)
   \<and> readMoneyAmount (JNum (Fin (fl64 (of_int 1 / 1000)))) (default_options ''price'')
     = money_reject ''price'' (MustBeAtLeast (money 1))"
  using readMoneyAmount_decimal [of 1005 "''price''"] readMoneyAmount_decimal [of 1 "''price''"] by simp_all

lemma read_money_99:
  "readMoneyAmount (JNum (money 9900)) (default_options ''price'') = Inr (money 9900)"
proof -
  have "\<bar>cents 9900\<bar> \<le> cents 999999999999"
    using money_not_above_max [of 9900] js_lt_max_abs by (simp add: money_def)
  then show ?thesis
    using readMoneyAmount_number [of "cents 9900" 9900 "''price''"] toStoredMoney_money [of 9900]
    by (simp add: money_def)
qed

theorem readMoneyAmount_stored_witness:
  "\<exists>n. \<bar>n\<bar> \<le> 999999999999 \<and> money 9900 = money n \<and> \<not> js_lt (money 9900) (money_min (default_options ''price''))
    \<and> \<not> js_lt (money_max (default_options ''price'')) (money 9900)
    \<and> readMoneyAmount (JNum (money 9900)) (default_options ''price'') = Inr (money 9900)"
  by (rule readMoneyAmount_stored [OF read_money_99])

lemma double_1005: "fl64 (1005 / 1000) = 4526117625507348 * pow2 (- 52)"
  using fl64_intro [of 0 "1005 / 1000" 4526117625507348] by (simp add: power_int_minus_divide)

lemma double_1005_scaled: "fl64 (4526117625507348 * pow2 (- 52) * 100) = 7072058789855231 * pow2 (- 46)"
  using fl64_intro [of 6 "4526117625507348 * pow2 (- 52) * 100" 7072058789855231]
  by (simp add: power_int_minus_divide)

lemma at_half_positive: "at_half s \<Longrightarrow> 0 < s"
proof (rule ccontr)
  assume "at_half s" and "\<not> 0 < s"
  then have "s - of_int (truncated s) \<le> 0" by (auto simp: truncated_def)
  with at_half_near [OF \<open>at_half s\<close>] show False by linarith
qed

text \<open>The half correction of \<open>toStoredMoney\<close> recognises positive values only, although its comment promises
  rounding half away from zero: \<open>1.005\<close> is stored as \<open>1.01\<close>, \<open>-1.005\<close> as \<open>-1.00\<close>.\<close>

theorem toStoredMoney_asymmetric:
  "toStoredMoney (Fin (fl64 (1005 / 1000))) = money 101
   \<and> toStoredMoney (Fin (fl64 (- (1005 / 1000)))) = money (- 100)"
proof
  show "toStoredMoney (Fin (fl64 (1005 / 1000))) = money 101"
    using toStoredMoney_Fin(1) [OF refl decimal_scaled(2) [of 1005]]
      corrected_decimal [OF _ decimal_scaled(1) [of 1005]] by simp
  have b: "\<bar>fl64 (- (1005 / 1000)) * 100\<bar> \<le> 10 ^ 12"
    using decimal_scaled(2) [of 1005] by (simp add: fl64_minus)
  let ?s = "fl64 (fl64 (- (1005 / 1000)) * 100)"
  have s: "?s = - (7072058789855231 * pow2 (- 46))"
    unfolding fl64_minus double_1005 mult_minus_left double_1005_scaled ..
  then have "?s < 0" by simp
  then have "\<not> at_half ?s" using at_half_positive [of ?s] by linarith
  moreover have "\<bar>?s - of_int (- 100)\<bar> < 1 / 2" unfolding s by (simp add: power_int_minus_divide)
  then have "signed_round ?s = - 100" by (rule signed_round_near)
  ultimately show "toStoredMoney (Fin (fl64 (- (1005 / 1000)))) = money (- 100)"
    using toStoredMoney_Fin(1) [OF refl b] by (simp add: corrected_value_def)
qed

end
