(* ===== verification/RuntimeConfig.thy ===== *)
theory RuntimeConfig
  imports MoneyAmounts
begin

text \<open>
  \<open>src/runtime_config.ts\<close>: how the process environment is read. The environment is a map from names
  to values and an argument of every reader; the module-level constants of the source are the
  readers applied to the process environment. Modelled are the readers with a decision in them: the
  completion window, the trusted proxy hops, the outbox retry policies and the worker's resilience
  settings.
\<close>

type_synonym env = "string \<Rightarrow> string option"

definition empty_env :: env where
  "empty_env = (\<lambda>_. None)"

text \<open>\<open>String(process.env[name] ?? "").trim()\<close>\<close>

definition env_text :: "env \<Rightarrow> string \<Rightarrow> string" where
  "env_text env name = js_trim (case env name of None \<Rightarrow> '''' | Some s \<Rightarrow> s)"

text \<open>\<open>env.NAME || fallback\<close>: an empty string is falsy.\<close>

definition env_or :: "env \<Rightarrow> string \<Rightarrow> string \<Rightarrow> string" where
  "env_or env name fallback = (case env name of None \<Rightarrow> fallback | Some s \<Rightarrow> if s = '''' then fallback else s)"

definition lower_char :: "char \<Rightarrow> char" where
  "lower_char c = (if 65 \<le> (of_char c :: nat) \<and> (of_char c :: nat) \<le> 90
                   then char_of (of_char c + 32 :: nat) else c)"

definition js_lower :: "string \<Rightarrow> string" where
  "js_lower s = map lower_char s"

definition readNumberEnv :: "env \<Rightarrow> string \<Rightarrow> jsnum \<Rightarrow> jsnum" where
  "readNumberEnv env name fallback =
     (case env name of
        None \<Rightarrow> fallback
      | Some raw \<Rightarrow>
          if raw = '''' then fallback
          else let parsed = number_of_string raw in if is_finite parsed then parsed else fallback)"

definition isProductionLikeEnv :: "env \<Rightarrow> bool" where
  "isProductionLikeEnv env \<longleftrightarrow>
     env ''NODE_ENV'' = Some ''production'' \<or> env ''APP_ENV'' = Some ''production''
     \<or> env ''RENDER'' = Some ''true'' \<or> env_or env ''RENDER_EXTERNAL_URL'' '''' \<noteq> ''''"

definition test_runtime :: "env \<Rightarrow> bool" where
  "test_runtime env \<longleftrightarrow> env_or env ''NODE_ENV'' '''' = ''test'' \<and> \<not> isProductionLikeEnv env"

section \<open>The completion window\<close>

definition CANONICAL_COMPLETION_WINDOW_MINUTES :: jsnum where
  "CANONICAL_COMPLETION_WINDOW_MINUTES = Fin 1440"

definition resolveCompletionWindowMinutes :: "env \<Rightarrow> jsnum" where
  "resolveCompletionWindowMinutes env =
     (if env_or env ''NODE_ENV'' '''' \<noteq> ''test'' \<or> isProductionLikeEnv env
      then CANONICAL_COMPLETION_WINDOW_MINUTES
      else readNumberEnv env ''COMPLETION_WINDOW_MINUTES'' CANONICAL_COMPLETION_WINDOW_MINUTES)"

section \<open>Trusted proxy hops\<close>

definition DEFAULT_TRUST_PROXY_HOPS :: int where "DEFAULT_TRUST_PROXY_HOPS = 1"
definition MAX_TRUST_PROXY_HOPS :: int where "MAX_TRUST_PROXY_HOPS = 8"

definition parseTrustProxyHops :: "string \<Rightarrow> int option" where
  "parseTrustProxyHops raw =
     (let text = js_trim raw
      in if \<not> (list_all is_digit text \<and> 1 \<le> length text \<and> length text \<le> 2) then None
         else let hops = digits_value 10 text
           in if 0 \<le> hops \<and> hops \<le> MAX_TRUST_PROXY_HOPS then Some hops else None)"

definition resolveTrustProxyHops :: "env \<Rightarrow> int" where
  "resolveTrustProxyHops env =
     (case env ''TRUST_PROXY_HOPS'' of
        None \<Rightarrow> DEFAULT_TRUST_PROXY_HOPS
      | Some raw \<Rightarrow>
          if js_trim raw = '''' then DEFAULT_TRUST_PROXY_HOPS
          else case parseTrustProxyHops raw of None \<Rightarrow> DEFAULT_TRUST_PROXY_HOPS | Some hops \<Rightarrow> hops)"

section \<open>Bounded settings\<close>

definition readBoundedNumber :: "env \<Rightarrow> string \<Rightarrow> jsnum \<Rightarrow> jsnum \<Rightarrow> jsnum \<Rightarrow> bool \<Rightarrow> jsnum" where
  "readBoundedNumber env name fallback lo hi as_integer =
     (case env name of
        None \<Rightarrow> fallback
      | Some raw \<Rightarrow>
          if js_trim raw = '''' then fallback
          else let parsed = number_of_string raw
            in if \<not> is_finite parsed then fallback
               else let value = (if as_integer then js_floor parsed else parsed)
                 in js_min hi (js_max lo value))"

text \<open>A number between two bounds.\<close>

definition js_between :: "rat \<Rightarrow> jsnum \<Rightarrow> rat \<Rightarrow> bool" where
  "js_between lo n hi = (case n of Fin v \<Rightarrow> lo \<le> v \<and> v \<le> hi | _ \<Rightarrow> False)"

lemma js_between_Fin [simp]: "js_between lo (Fin v) hi \<longleftrightarrow> lo \<le> v \<and> v \<le> hi"
  by (simp add: js_between_def)

lemma js_betweenE:
  assumes "js_between lo n hi"
  obtains v where "n = Fin v" and "lo \<le> v" and "v \<le> hi"
  using assms by (cases n) (auto simp: js_between_def)

lemma js_between_weaken: "js_between lo n hi \<Longrightarrow> lo' \<le> lo \<Longrightarrow> hi \<le> hi' \<Longrightarrow> js_between lo' n hi'"
  by (cases n) (auto simp: js_between_def)

lemma js_max_Fin [simp]: "js_max (Fin a) (Fin b) = Fin (max a b)"
  by (simp add: js_max_def max_def)

lemma js_min_Fin [simp]: "js_min (Fin a) (Fin b) = Fin (min a b)"
  by (simp add: js_min_def min_def)

lemma readBoundedNumber_between:
  assumes "js_between lo fallback hi"
  shows "js_between lo (readBoundedNumber env name fallback (Fin lo) (Fin hi) as_integer) hi"
proof -
  have "lo \<le> hi" using assms by (elim js_betweenE) simp
  then have clamp: "js_between lo (js_min (Fin hi) (js_max (Fin lo) (Fin v))) hi" for v by simp
  show ?thesis
  proof (cases "env name")
    case (Some raw)
    show ?thesis
      using assms clamp Some
      by (cases "number_of_string raw") (auto simp: readBoundedNumber_def Let_def)
  qed (use assms in \<open>simp add: readBoundedNumber_def\<close>)
qed

lemma js_between_max:
  "js_between lo a hi \<Longrightarrow> js_between lo' b hi \<Longrightarrow> js_between (max lo lo') (js_max a b) hi"
  by (elim js_betweenE) auto

section \<open>Outbox retry policies\<close>

datatype retry_class = MoneyClass | ReconcileClass | InvoiceClass | DefaultClass

datatype retry_mode = LaneMode | LegacyMode

record retry_policy =
  rp_baseMs :: jsnum
  rp_capMs :: jsnum
  rp_maxAttempts :: jsnum
  rp_jitterRatio :: jsnum

record retry_policy_config =
  rc_mode :: retry_mode
  rc_raiseRowMaxAttempts :: bool
  rc_policies :: "retry_class \<Rightarrow> retry_policy"

definition OUTBOX_LANE_RETRY_DEFAULTS :: "retry_class \<Rightarrow> retry_policy" where
  "OUTBOX_LANE_RETRY_DEFAULTS name =
     (case name of
        DefaultClass \<Rightarrow>
          \<lparr>rp_baseMs = Fin 5000, rp_capMs = Fin 300000, rp_maxAttempts = Fin 6, rp_jitterRatio = js_of_rat (3 / 10)\<rparr>
      | _ \<Rightarrow>
          \<lparr>rp_baseMs = Fin 30000, rp_capMs = Fin 900000, rp_maxAttempts = Fin 8, rp_jitterRatio = js_of_rat (3 / 10)\<rparr>)"

definition retry_prefix :: "retry_class \<Rightarrow> string" where
  "retry_prefix name =
     (case name of MoneyClass \<Rightarrow> ''OUTBOX_RETRY_MONEY'' | ReconcileClass \<Rightarrow> ''OUTBOX_RETRY_RECONCILE''
      | InvoiceClass \<Rightarrow> ''OUTBOX_RETRY_INVOICE'' | DefaultClass \<Rightarrow> ''OUTBOX_RETRY_DEFAULT'')"

definition class_policy :: "env \<Rightarrow> retry_policy \<Rightarrow> retry_class \<Rightarrow> retry_policy" where
  "class_policy env fallback name =
     (let prefix = retry_prefix name;
          baseMs = readBoundedNumber env (prefix @ ''_BASE_MS'') (rp_baseMs fallback) (Fin 1) (Fin 3600000) True;
          capMs = js_max baseMs
            (readBoundedNumber env (prefix @ ''_CAP_MS'') (rp_capMs fallback) (Fin 1) (Fin 21600000) True);
          maxAttempts = readBoundedNumber env (prefix @ ''_MAX_ATTEMPTS'') (rp_maxAttempts fallback) (Fin 1) (Fin 50) True;
          jitterRatio = (if env_text env ''OUTBOX_RETRY_JITTER_RATIO'' = '''' then rp_jitterRatio fallback
            else readBoundedNumber env ''OUTBOX_RETRY_JITTER_RATIO'' (rp_jitterRatio fallback) (Fin 0) (Fin 1) False)
      in \<lparr>rp_baseMs = baseMs, rp_capMs = capMs, rp_maxAttempts = maxAttempts, rp_jitterRatio = jitterRatio\<rparr>)"

definition retry_mode_of :: "env \<Rightarrow> retry_mode" where
  "retry_mode_of env =
     (let forced = js_lower (js_trim (env_or env ''OUTBOX_RETRY_POLICY'' ''''))
      in if forced = ''lane'' then LaneMode
         else if forced = ''legacy'' then LegacyMode
         else if test_runtime env then LegacyMode else LaneMode)"

definition resolveOutboxRetryPolicyConfig :: "env \<Rightarrow> retry_policy_config" where
  "resolveOutboxRetryPolicyConfig env =
     (let mode = retry_mode_of env;
          legacyBase = readBoundedNumber env ''OUTBOX_POLL_MS'' (Fin 1000) (Fin 1) (Fin 3600000) False;
          legacyMax = readBoundedNumber env ''OUTBOX_MAX_ATTEMPTS'' (Fin 4) (Fin 1) (Fin 50) True;
          fallback = (\<lambda>name. case mode of
              LaneMode \<Rightarrow> OUTBOX_LANE_RETRY_DEFAULTS name
            | LegacyMode \<Rightarrow> \<lparr>rp_baseMs = legacyBase, rp_capMs = Fin 900000,
                             rp_maxAttempts = legacyMax, rp_jitterRatio = Fin 0\<rparr>)
      in \<lparr>rc_mode = mode, rc_raiseRowMaxAttempts = (mode = LaneMode),
          rc_policies = (\<lambda>name. class_policy env (fallback name) name)\<rparr>)"

definition resolveUnknownOutboxEventDeferMs :: "env \<Rightarrow> jsnum" where
  "resolveUnknownOutboxEventDeferMs env =
     readBoundedNumber env ''OUTBOX_UNKNOWN_EVENT_DEFER_MS'' (Fin 300000) (Fin 1000) (Fin 3600000) True"

definition resolveWorkerEventTimeoutMs :: "env \<Rightarrow> jsnum" where
  "resolveWorkerEventTimeoutMs env =
     readBoundedNumber env ''WORKER_EVENT_TIMEOUT_MS'' (Fin 120000) (Fin 100) (Fin 3600000) True"

section \<open>Worker resilience\<close>

record worker_resilience =
  wr_eventTimeoutMs :: jsnum
  wr_alertOldestPendingMs :: jsnum
  wr_alertWindowMs :: jsnum
  wr_alertConsecutiveCycleFailures :: jsnum
  wr_cycleBackoffCapMs :: jsnum
  wr_watchdogStallMs :: jsnum
  wr_watchdogMaxHeartbeatFailures :: jsnum
  wr_watchdogIntervalMs :: jsnum

definition resolveWorkerResilienceConfig :: "jsnum \<Rightarrow> env \<Rightarrow> worker_resilience" where
  "resolveWorkerResilienceConfig pollMs env =
     (let eventTimeoutMs = resolveWorkerEventTimeoutMs env;
          poll = js_max (Fin 1) (js_floor (js_or pollMs (Fin 1000)));
          defaultStall = js_max (js_max (Fin 300000) (js_mul (Fin 10) poll)) (js_mul (Fin 2) eventTimeoutMs)
      in \<lparr>wr_eventTimeoutMs = eventTimeoutMs,
          wr_alertOldestPendingMs =
            readBoundedNumber env ''WORKER_ALERT_OLDEST_PENDING_MS'' (Fin 600000) (Fin 1000) (Fin 86400000) True,
          wr_alertWindowMs =
            readBoundedNumber env ''WORKER_ALERT_WINDOW_MS'' (Fin 300000) (Fin 1000) (Fin 86400000) True,
          wr_alertConsecutiveCycleFailures =
            readBoundedNumber env ''WORKER_ALERT_CYCLE_FAILURES'' (Fin 3) (Fin 1) (Fin 1000) True,
          wr_cycleBackoffCapMs = js_max poll
            (readBoundedNumber env ''WORKER_CYCLE_BACKOFF_CAP_MS'' (Fin 60000) (Fin 1) (Fin 3600000) True),
          wr_watchdogStallMs =
            readBoundedNumber env ''WORKER_WATCHDOG_STALL_MS'' defaultStall (Fin 1000) (Fin 86400000) True,
          wr_watchdogMaxHeartbeatFailures =
            readBoundedNumber env ''WORKER_WATCHDOG_MAX_HEARTBEAT_FAILURES'' (Fin 5) (Fin 1) (Fin 1000) True,
          wr_watchdogIntervalMs =
            readBoundedNumber env ''WORKER_WATCHDOG_INTERVAL_MS'' (Fin 10000) (Fin 100) (Fin 600000) True\<rparr>)"

section \<open>Properties\<close>

text \<open>The completion window cannot be shortened outside the test harness: in every runtime that is
  production-like or does not declare \<open>NODE_ENV=test\<close> it is 1440 minutes, whatever the override says.\<close>

theorem completion_window_locked:
  assumes "\<not> test_runtime env"
  shows "resolveCompletionWindowMinutes (env(''COMPLETION_WINDOW_MINUTES'' := override)) = Fin 1440"
proof -
  have "isProductionLikeEnv (env(''COMPLETION_WINDOW_MINUTES'' := override)) = isProductionLikeEnv env"
    and "env_or (env(''COMPLETION_WINDOW_MINUTES'' := override)) ''NODE_ENV'' '''' = env_or env ''NODE_ENV'' ''''"
    by (simp_all add: isProductionLikeEnv_def env_or_def)
  then show ?thesis
    using assms by (auto simp: resolveCompletionWindowMinutes_def test_runtime_def
        CANONICAL_COMPLETION_WINDOW_MINUTES_def)
qed

theorem completion_window_locked_witness:
  "resolveCompletionWindowMinutes (empty_env(''COMPLETION_WINDOW_MINUTES'' := Some ''5'')) = Fin 1440"
  by (rule completion_window_locked) (simp add: test_runtime_def env_or_def empty_env_def)

lemma jitter_default: "js_between 0 (js_of_rat (3 / 10)) 1"
proof -
  have d: "\<bar>fl64 (3 / 10) - 3 / 10\<bar> \<le> (1 / 10 ^ 15 :: rat)" by (rule rate_near(2)) simp_all
  have "fl64 (3 / 10) \<le> 1" using near_le [OF d] by (rule order_trans) simp
  moreover have "0 \<le> fl64 (3 / 10)" by (rule order_trans [OF _ near_ge [OF d]]) simp
  ultimately
  show ?thesis using rate_near(1) [of "3 / 10"] by simp
qed

definition policy_in_range :: "retry_policy \<Rightarrow> bool" where
  "policy_in_range p \<longleftrightarrow>
     js_between 1 (rp_baseMs p) 3600000 \<and> js_between 1 (rp_capMs p) 21600000
     \<and> js_between 1 (rp_maxAttempts p) 50 \<and> js_between 0 (rp_jitterRatio p) 1"

lemma class_policy_in_range:
  assumes "policy_in_range fallback"
  shows "policy_in_range (class_policy env fallback name)"
    and "js_le (rp_baseMs (class_policy env fallback name)) (rp_capMs (class_policy env fallback name))"
proof -
  let ?p = "class_policy env fallback name"
  note between = readBoundedNumber_between
  have b: "js_between 1 (rp_baseMs ?p) 3600000" and m: "js_between 1 (rp_maxAttempts ?p) 50"
    and j: "js_between 0 (rp_jitterRatio ?p) 1"
    using assms by (simp_all add: class_policy_def Let_def policy_in_range_def between)
  obtain raw where c: "rp_capMs ?p = js_max (rp_baseMs ?p) raw" and raw: "js_between 1 raw 21600000"
    using assms between by (fastforce simp: class_policy_def Let_def policy_in_range_def)
  have "js_between 1 (rp_baseMs ?p) 21600000" using b by (rule js_between_weaken) simp_all
  then have "js_between 1 (rp_capMs ?p) 21600000"
    using js_between_max [OF _ raw] unfolding c by fastforce
  with b m j show "policy_in_range ?p" by (simp add: policy_in_range_def)
  show "js_le (rp_baseMs ?p) (rp_capMs ?p)"
    unfolding c using b raw by (elim js_betweenE) (auto simp: js_le_def js_eq_def max_def)
qed

text \<open>C20: Whatever the environment holds, every retry class gets a usable policy: base delay of one
  millisecond to one hour, a cap not below the base and at most six hours, one to fifty attempts (the
  range the column constraint admits) and a jitter ratio between zero and one.\<close>

theorem outbox_retry_policy_ranges:
  "policy_in_range (rc_policies (resolveOutboxRetryPolicyConfig env) name)
   \<and> js_le (rp_baseMs (rc_policies (resolveOutboxRetryPolicyConfig env) name))
           (rp_capMs (rc_policies (resolveOutboxRetryPolicyConfig env) name))"
proof -
  have "policy_in_range (OUTBOX_LANE_RETRY_DEFAULTS name)"
    using jitter_default by (cases name) (simp_all add: OUTBOX_LANE_RETRY_DEFAULTS_def policy_in_range_def)
  moreover have "js_between 1 (readBoundedNumber env ''OUTBOX_POLL_MS'' (Fin 1000) (Fin 1) (Fin 3600000) False) 3600000"
    "js_between 1 (readBoundedNumber env ''OUTBOX_MAX_ATTEMPTS'' (Fin 4) (Fin 1) (Fin 50) True) 50"
    by (simp_all add: readBoundedNumber_between)
  ultimately show ?thesis
    using class_policy_in_range
    by (cases "retry_mode_of env")
      (simp_all add: resolveOutboxRetryPolicyConfig_def Let_def policy_in_range_def)
qed

lemma resolveTrustProxyHops_bounds: "0 \<le> resolveTrustProxyHops env \<and> resolveTrustProxyHops env \<le> 8"
  by (auto simp: resolveTrustProxyHops_def parseTrustProxyHops_def Let_def DEFAULT_TRUST_PROXY_HOPS_def
      MAX_TRUST_PROXY_HOPS_def split: option.splits if_splits)

lemma resolveUnknownOutboxEventDeferMs_between: "js_between 1000 (resolveUnknownOutboxEventDeferMs env) 3600000"
  unfolding resolveUnknownOutboxEventDeferMs_def by (rule readBoundedNumber_between) simp

lemma resolveWorkerEventTimeoutMs_between: "js_between 100 (resolveWorkerEventTimeoutMs env) 3600000"
  unfolding resolveWorkerEventTimeoutMs_def by (rule readBoundedNumber_between) simp

end
