(* ===== verification/VatAuthority.thy ===== *)
theory VatAuthority
  imports RuntimeConfig
begin

text \<open>
  \<open>src/vat_authority.ts\<close>: how much of a customer charge is VAT. The environment decides the mode and
  the rates; a missing or malformed setting is an error, never a guess. The
  process environment is read at each call, so it is an argument.
\<close>

section \<open>Configuration\<close>

datatype vat_mode = SyntheticZero | Explicit

datatype vat_error =
    RateNotAFraction string string
  | ModeUnknown string
  | ProductRateMissing
  | ExplicitModeRequired string

record vat_config =
  vc_mode :: vat_mode
  vc_product_rate :: jsnum
  vc_delivery_rate :: jsnum

definition readRate :: "env \<Rightarrow> string \<Rightarrow> vat_error + jsnum option" where
  "readRate env name =
     (let raw = env_text env name
      in if raw = '''' then Inr None
         else let parsed = number_of_string raw
           in if \<not> is_finite parsed \<or> js_lt parsed (Fin 0) \<or> js_le (Fin 1) parsed
              then Inl (RateNotAFraction name raw)
              else Inr (Some parsed))"

definition vatAuthorityMode :: "env \<Rightarrow> vat_error + vat_mode" where
  "vatAuthorityMode env =
     (let raw = js_lower (js_trim (env_or env ''SITON_VAT_MODE'' ''synthetic_zero''))
      in if raw = ''explicit'' then Inr Explicit
         else if raw = ''synthetic_zero'' \<or> raw = '''' then Inr SyntheticZero
         else Inl (ModeUnknown raw))"

definition vatAuthorityConfig :: "env \<Rightarrow> vat_error + vat_config" where
  "vatAuthorityConfig env =
     on_ok (vatAuthorityMode env) (\<lambda>mode.
       case mode of
         SyntheticZero \<Rightarrow> Inr \<lparr>vc_mode = mode, vc_product_rate = Fin 0, vc_delivery_rate = Fin 0\<rparr>
       | Explicit \<Rightarrow>
           on_ok (readRate env ''SITON_VAT_RATE_PRODUCT'') (\<lambda>specific.
           on_ok (case specific of Some r \<Rightarrow> Inr (Some r) | None \<Rightarrow> readRate env ''SITON_VAT_RATE'') (\<lambda>product.
             case product of
               None \<Rightarrow> Inl ProductRateMissing
             | Some pr \<Rightarrow>
                 on_ok (readRate env ''SITON_VAT_RATE_DELIVERY'') (\<lambda>delivery.
                   Inr \<lparr>vc_mode = mode, vc_product_rate = pr,
                        vc_delivery_rate = (case delivery of None \<Rightarrow> pr | Some d \<Rightarrow> d)\<rparr>))))"

section \<open>The VAT portion of a charge\<close>

record vat_snapshot =
  vs_mode :: vat_mode
  vs_vat_amount :: jsnum
  vs_product_vat :: jsnum
  vs_delivery_vat :: jsnum
  vs_product_rate :: jsnum
  vs_delivery_rate :: jsnum

text \<open>\<open>roundMoney(gross - gross / (1 + rate))\<close>\<close>

definition gross_inclusive_vat :: "jsnum \<Rightarrow> jsnum \<Rightarrow> jsnum" where
  "gross_inclusive_vat gross rate =
     roundMoney (js_sub gross (js_div gross (js_add (Fin 1) rate)))"

definition computeCustomerChargeVat :: "env \<Rightarrow> jsnum \<Rightarrow> jsnum \<Rightarrow> vat_error + vat_snapshot" where
  "computeCustomerChargeVat env productGrossAmount deliveryGrossAmount =
     on_ok (vatAuthorityConfig env) (\<lambda>config.
       let productGross = js_max (Fin 0) (js_or productGrossAmount (Fin 0));
           deliveryGross = js_max (Fin 0) (js_or deliveryGrossAmount (Fin 0));
           productVat = gross_inclusive_vat productGross (vc_product_rate config);
           deliveryVat = gross_inclusive_vat deliveryGross (vc_delivery_rate config)
       in Inr \<lparr>vs_mode = vc_mode config, vs_vat_amount = roundMoney (js_add productVat deliveryVat),
               vs_product_vat = productVat, vs_delivery_vat = deliveryVat,
               vs_product_rate = vc_product_rate config, vs_delivery_rate = vc_delivery_rate config\<rparr>)"

definition assertVatAuthorityForRealMoney :: "env \<Rightarrow> string \<Rightarrow> vat_error + unit" where
  "assertVatAuthorityForRealMoney env ctx =
     on_ok (vatAuthorityConfig env) (\<lambda>config.
       if vc_mode config \<noteq> Explicit then Inl (ExplicitModeRequired ctx) else Inr ())"

section \<open>What a configuration guarantees\<close>

definition is_rate :: "jsnum \<Rightarrow> bool" where
  "is_rate n = (case n of Fin r \<Rightarrow> 0 \<le> r \<and> r < 1 | _ \<Rightarrow> False)"

lemma readRate_is_rate: "readRate env name = Inr (Some r) \<Longrightarrow> is_rate r"
  by (cases r) (auto simp: readRate_def Let_def is_rate_def js_le_def js_eq_def split: if_splits)

lemma vatAuthorityConfig_rates:
  assumes "vatAuthorityConfig env = Inr config"
  shows "is_rate (vc_product_rate config)" and "is_rate (vc_delivery_rate config)"
  using assms
  by (auto simp: vatAuthorityConfig_def on_ok_Inr_iff is_rate_def [of "Fin 0"]
      dest!: readRate_is_rate split: vat_mode.splits option.splits)
    (metis vat_mode.exhaust)+

text \<open>The VAT of an amount of \<open>p\<close> agorot is an amount between nothing and \<open>p\<close> itself.\<close>

lemma agorot_upper:
  "w \<le> 100 * z + (1/2 + 1/2000) \<Longrightarrow> z \<le> x / 2 + 1 / 40000 \<Longrightarrow> x \<le> p / 100 + 1 / 1000 \<Longrightarrow>
   w \<le> p / 2 + (7 / 10 :: rat)"
  by linarith

lemma gross_inclusive_vat_bounds:
  assumes p: "0 \<le> p" "p \<le> 10 ^ 12" and x: "\<bar>x - of_int p / 100\<bar> \<le> 1 / 1000" "0 \<le> x"
    and r: "is_rate rate"
  obtains w where "gross_inclusive_vat (Fin x) rate = money w" and "0 \<le> w" and "w \<le> p"
proof -
  obtain r where rate: "rate = Fin r" and r01: "0 \<le> r" "r < 1"
    using r by (cases rate) (auto simp: is_rate_def)
  have pq: "\<bar>of_int p / 100 :: rat\<bar> \<le> 10000000000"
    using rat_abs_le [of p "10 ^ 12"] p by (simp add: abs_divide)
  have xb: "x \<le> 10000000001" using near_le [OF x(1)] pq by linarith
  have add: "js_add (Fin 1) rate = Fin (fl64 (1 + r))"
    using r01 rate by (simp add: js_of_rat_small)
  let ?d = "fl64 (1 + r)"
  have "\<bar>1 + r\<bar> / 2 ^ 53 \<le> 2 / 2 ^ 53" using r01 by (intro divide_right_mono) simp_all
  then have "\<bar>1 + r\<bar> / 2 ^ 53 + 1 / 2 ^ 1000 \<le> 1 / 4000000000000000" by simp
  then have dn: "\<bar>?d - (1 + r)\<bar> \<le> 1 / 4000000000000000"
    using b64.fl_error [of "1 + r"] by linarith
  have d1: "1 - 1 / 4000000000000000 \<le> ?d" using near_ge [OF dn] r01 by linarith
  have d2: "?d \<le> 2 + 1 / 4000000000000000" using near_le [OF dn] r01 by linarith
  let ?q = "x / ?d"
  have q1: "?q \<le> x + 1 / 100000"
  proof -
    have "(x + 1 / 100000) * (1 - 1 / 4000000000000000) \<le> (x + 1 / 100000) * ?d"
      using d1 x(2) by (intro mult_left_mono) simp_all
    moreover have "x \<le> (x + 1 / 100000) * (1 - 1 / 4000000000000000)"
      using xb by (simp add: field_simps)
    ultimately have "x \<le> (x + 1 / 100000) * ?d" by linarith
    then show ?thesis using d1 by (subst divide_le_eq) simp
  qed
  have q0: "x / 2 - 1 / 100000 \<le> ?q"
  proof -
    have "(x / 2 - 1 / 100000) * ?d \<le> x"
    proof (cases "0 \<le> x / 2 - 1 / 100000")
      case True
      have "(x / 2 - 1 / 100000) * ?d \<le> (x / 2 - 1 / 100000) * (2 + 1 / 4000000000000000)"
        using d2 True by (intro mult_left_mono)
      also have "\<dots> \<le> x" using xb by (simp add: field_simps)
      finally show ?thesis .
    next
      case False
      then have "(x / 2 - 1 / 100000) * ?d \<le> 0"
        using d1 by (intro mult_nonpos_nonneg) simp_all
      then show ?thesis using x(2) by linarith
    qed
    then show ?thesis using d1 by (subst le_divide_eq) simp
  qed
  have qb: "\<bar>?q\<bar> \<le> 2 * 10 ^ 10"
  proof -
    have "0 \<le> ?q" using x(2) d1 by simp
    then show ?thesis using q1 xb by simp
  qed
  have dv: "js_div (Fin x) (Fin ?d) = Fin (fl64 ?q)"
    using qb d1 by (simp add: js_of_rat_small)
  have "\<bar>?q\<bar> / 2 ^ 53 \<le> 2 * 10 ^ 10 / 2 ^ 53" using qb by (rule divide_right_mono) simp
  then have "\<bar>?q\<bar> / 2 ^ 53 + 1 / 2 ^ 1000 \<le> 1 / 400000" by simp
  then have fq: "\<bar>fl64 ?q - ?q\<bar> \<le> 1 / 400000" using b64.fl_error [of ?q] by linarith
  let ?z = "x - fl64 ?q"
  have z0: "- (1 / 50000) \<le> ?z" using near_le [OF fq] q1 by linarith
  have z1: "?z \<le> x / 2 + 1 / 50000" using near_ge [OF fq] q0 by linarith
  have zb: "\<bar>?z\<bar> \<le> 10000000002" using z0 z1 x(2) xb by (simp add: abs_le_iff)
  have sub: "js_sub (Fin x) (Fin (fl64 ?q)) = Fin (fl64 ?z)"
    using zb by (simp add: js_sub_def js_of_rat_small)
  have "\<bar>?z\<bar> / 2 ^ 53 \<le> 10000000002 / 2 ^ 53" using zb by (rule divide_right_mono) simp
  then have "\<bar>?z\<bar> / 2 ^ 53 + 1 / 2 ^ 1000 \<le> 1 / 400000" by simp
  then have fz: "\<bar>fl64 ?z - ?z\<bar> \<le> 1 / 400000" using b64.fl_error [of ?z] by linarith
  have f0: "- (1 / 40000) \<le> fl64 ?z" using near_ge [OF fz] z0 by linarith
  have f1: "fl64 ?z \<le> x / 2 + 1 / 40000" using near_le [OF fz] z1 by linarith
  have "\<bar>fl64 ?z\<bar> \<le> 2 * 10 ^ 10" using f0 f1 x(2) xb by (simp add: abs_le_iff)
  then obtain w where w: "roundMoney (Fin (fl64 ?z)) = money w"
      "\<bar>of_int w - 100 * fl64 ?z\<bar> \<le> 1/2 + 1/2000"
    using roundMoney_ex by blast
  show thesis
  proof (rule that)
    show "gross_inclusive_vat (Fin x) rate = money w"
      unfolding gross_inclusive_vat_def add dv sub by (rule w(1))
    have "(of_int (- 1) :: rat) < of_int w"
      using near_ge [OF w(2)] f0 unfolding of_int_minus of_int_1 by linarith
    then show "0 \<le> w" by (simp only: of_int_less_iff)
    have "of_int w \<le> of_int p / 2 + (7 / 10 :: rat)"
      by (rule agorot_upper [OF near_le [OF w(2)] f1 near_le [OF x(1)]])
    moreover have "(0 :: rat) \<le> of_int p" using p by simp
    ultimately have "(of_int w :: rat) < of_int (p + 1)"
      unfolding of_int_add of_int_1 by linarith
    then show "w \<le> p" by (simp only: of_int_less_iff)
  qed
qed

section \<open>Properties\<close>

lemma roundMoney_Fin_zero: "roundMoney (Fin 0) = money 0"
  using roundMoney_near [of 0 0] by simp

lemma max_or_zero:
  "0 \<le> x \<Longrightarrow> js_max (Fin 0) (js_or (Fin x) (Fin 0)) = Fin x"
  by (auto simp: js_or_def js_max_def)

text \<open>Under any accepted configuration the VAT the authority computes for a charge lies, component by
  component and in total, between nothing and the gross amount, in whole agorot; so the amount the
  platform fee is computed on is never negative.\<close>

lemma computeCustomerChargeVat_bounds:
  assumes "vatAuthorityConfig env = Inr config"
    and "0 \<le> p" "p \<le> 10 ^ 11" "\<bar>x - of_int p / 100\<bar> \<le> 1 / 1000" "0 \<le> x"
    and "0 \<le> d" "d \<le> 10 ^ 11" "\<bar>y - of_int d / 100\<bar> \<le> 1 / 1000" "0 \<le> y"
  shows "\<exists>wp wd snap. computeCustomerChargeVat env (Fin x) (Fin y) = Inr snap
    \<and> vs_product_vat snap = money wp \<and> vs_delivery_vat snap = money wd
    \<and> vs_vat_amount snap = money (wp + wd)
    \<and> 0 \<le> wp \<and> wp \<le> p \<and> 0 \<le> wd \<and> wd \<le> d"
proof -
  have p: "p \<le> 10 ^ 12" and d: "d \<le> 10 ^ 12" using assms(3,7) by simp_all
  obtain wp where wp: "gross_inclusive_vat (Fin x) (vc_product_rate config) = money wp" "0 \<le> wp" "wp \<le> p"
    using gross_inclusive_vat_bounds [OF assms(2) p assms(4,5) vatAuthorityConfig_rates(1) [OF assms(1)]]
    by blast
  obtain wd where wd: "gross_inclusive_vat (Fin y) (vc_delivery_rate config) = money wd" "0 \<le> wd" "wd \<le> d"
    using gross_inclusive_vat_bounds [OF assms(6) d assms(8,9) vatAuthorityConfig_rates(2) [OF assms(1)]]
    by blast
  have "roundMoney (js_add (money wp) (money wd)) = money (wp + wd)"
    using wp(2,3) wd(2,3) assms(3,7) by (intro roundMoney_add) simp_all
  then show ?thesis
    using wp wd assms(1,5,9) by (auto simp: computeCustomerChargeVat_def max_or_zero Let_def)
qed

text \<open>In the synthetic mode the VAT of every finite charge of bounded size is exactly zero, and such a
  configuration never passes the guard of a real-money provider.\<close>

theorem synthetic_vat_is_zero:
  assumes "vatAuthorityMode env = Inr SyntheticZero"
    and "fl64 x = x" "\<bar>x\<bar> \<le> 10 ^ 12" and "fl64 y = y" "\<bar>y\<bar> \<le> 10 ^ 12"
  shows "(\<exists>snap. computeCustomerChargeVat env (Fin x) (Fin y) = Inr snap \<and> vs_vat_amount snap = money 0)
    \<and> assertVatAuthorityForRealMoney env ctx = Inl (ExplicitModeRequired ctx)"
proof -
  have c: "vatAuthorityConfig env =
      Inr \<lparr>vc_mode = SyntheticZero, vc_product_rate = Fin 0, vc_delivery_rate = Fin 0\<rparr>"
    using assms(1) by (simp add: vatAuthorityConfig_def)
  have one: "js_of_rat 1 = Fin 1" using js_of_rat_small [of 1] b64.fl_of_int [of 1] by simp
  have z: "gross_inclusive_vat (Fin v) (Fin 0) = money 0" if "fl64 v = v" "\<bar>v\<bar> \<le> 10 ^ 12" for v
  proof -
    have "\<bar>v\<bar> \<le> 10 ^ 15" using that(2) by simp
    then show ?thesis
      using that(1) one js_of_rat_small [of 0]
      by (simp add: gross_inclusive_vat_def js_sub_def js_of_rat_small roundMoney_Fin_zero)
  qed
  have m: "js_max (Fin 0) (js_or (Fin v) (Fin 0)) = Fin (max 0 v)" for v
    by (auto simp: js_or_def js_max_def)
  have "fl64 (max 0 v) = max 0 v \<and> \<bar>max 0 v\<bar> \<le> 10 ^ 12" if "fl64 v = v" "\<bar>v\<bar> \<le> 10 ^ 12" for v
    using that by (auto simp: max_def)
  then have "gross_inclusive_vat (Fin (max 0 v)) (Fin 0) = money 0"
    if "fl64 v = v" "\<bar>v\<bar> \<le> 10 ^ 12" for v using z that by blast
  moreover have "roundMoney (js_add (money 0) (money 0)) = money 0"
    using roundMoney_add [of 0 0] by simp
  ultimately show ?thesis
    using assms(2-5) by (simp add: computeCustomerChargeVat_def assertVatAuthorityForRealMoney_def c m Let_def)
qed

lemma synthetic_empty: "vatAuthorityMode empty_env = Inr SyntheticZero"
  by code_simp

theorem synthetic_vat_is_zero_witness:
  "\<exists>snap. computeCustomerChargeVat empty_env (Fin 118) (Fin 30) = Inr snap \<and> vs_vat_amount snap = money 0"
  using synthetic_vat_is_zero [OF synthetic_empty, of 118 30]
    b64.fl_of_int [of 118] b64.fl_of_int [of 30] by simp

lemma synthetic_config_empty:
  "vatAuthorityConfig empty_env =
     Inr \<lparr>vc_mode = SyntheticZero, vc_product_rate = Fin 0, vc_delivery_rate = Fin 0\<rparr>"
  by (simp add: vatAuthorityConfig_def synthetic_empty)

end
