(* ===== verification/PlatformFee.thy ===== *)
theory PlatformFee
  imports VatAuthority
begin

text \<open>
  \<open>src/platform_fee_money.ts\<close>: Siton's 8 per cent platform fee. The first part is the arithmetic of
  one charge, the second the ledger \<open>platform_fee_money_events\<close> with one signed row per financial
  event of a participant. A row holds agorot, because the columns are \<open>numeric(12,2)\<close>; the
  rates are held in ten-thousandths (\<open>numeric(6,4)\<close>).
\<close>

section \<open>The fee of one charge\<close>

definition SITON_PLATFORM_FEE_RATE :: jsnum where
  "SITON_PLATFORM_FEE_RATE = js_of_rat (8 / 100)"

definition SITON_PLATFORM_FEE_VAT_RATE :: "env \<Rightarrow> jsnum" where
  "SITON_PLATFORM_FEE_VAT_RATE env = readNumberEnv env ''SITON_PLATFORM_FEE_VAT_RATE'' (js_of_rat (18 / 100))"

record fee_snapshot =
  fs_gross_amount :: jsnum
  fs_vat_amount :: jsnum
  fs_fee_base_amount :: jsnum
  fs_platform_fee_rate :: jsnum
  fs_platform_fee_vat_rate :: jsnum
  fs_platform_fee_base_amount :: jsnum
  fs_platform_fee_vat_amount :: jsnum
  fs_platform_fee_total_amount :: jsnum
  fs_platform_fee_amount :: jsnum
  fs_seller_net_amount :: jsnum

datatype fee_error =
    NonFiniteAmount string
  | FeeTargetNotFound string string
  | FeeVat vat_error
  | RefundWithoutCharge string
  | NumericOverflow

definition requireFiniteAmount :: "jsnum \<Rightarrow> string \<Rightarrow> fee_error + jsnum" where
  "requireFiniteAmount amount field = (if \<not> is_finite amount then Inl (NonFiniteAmount field) else Inr amount)"

text \<open>An omitted \<open>vatAmount\<close> is zero, an omitted \<open>sign\<close> is plus.\<close>

definition calculatePlatformFeeMoney ::
    "env \<Rightarrow> jsnum \<Rightarrow> jsnum option \<Rightarrow> int option \<Rightarrow> fee_error + fee_snapshot" where
  "calculatePlatformFeeMoney env gross vat sgn_arg =
     on_ok (requireFiniteAmount gross ''grossAmount'') (\<lambda>gross0.
     on_ok (requireFiniteAmount (case vat of None \<Rightarrow> Fin 0 | Some v \<Rightarrow> v) ''vatAmount'') (\<lambda>vat0.
       let grossAmount = roundMoney gross0;
           vatAmount = roundMoney (js_max (Fin 0) vat0);
           feeBaseAmount = roundMoney (js_max (Fin 0) (js_sub grossAmount vatAmount));
           platformFeeBaseAmount = roundMoney (js_mul feeBaseAmount SITON_PLATFORM_FEE_RATE);
           platformFeeVatAmount = roundMoney (js_mul platformFeeBaseAmount (SITON_PLATFORM_FEE_VAT_RATE env));
           platformFeeTotalAmount = roundMoney (js_add platformFeeBaseAmount platformFeeVatAmount);
           sellerNetAmount = roundMoney (js_sub grossAmount platformFeeTotalAmount);
           s = (if sgn_arg = Some (- 1) then Fin (- 1) else Fin 1)
       in Inr \<lparr>fs_gross_amount = roundMoney (js_mul grossAmount s),
               fs_vat_amount = roundMoney (js_mul vatAmount s),
               fs_fee_base_amount = roundMoney (js_mul feeBaseAmount s),
               fs_platform_fee_rate = SITON_PLATFORM_FEE_RATE,
               fs_platform_fee_vat_rate = SITON_PLATFORM_FEE_VAT_RATE env,
               fs_platform_fee_base_amount = roundMoney (js_mul platformFeeBaseAmount s),
               fs_platform_fee_vat_amount = roundMoney (js_mul platformFeeVatAmount s),
               fs_platform_fee_total_amount = roundMoney (js_mul platformFeeTotalAmount s),
               fs_platform_fee_amount = roundMoney (js_mul platformFeeTotalAmount s),
               fs_seller_net_amount = roundMoney (js_mul sellerNetAmount s)\<rparr>))"

text \<open>Eight per cent of whole agorot is never half an agora, so the rounding is exact.\<close>

lemma eight_percent:
  assumes "\<bar>of_int n - of_int m * (8 / 100)\<bar> \<le> (1/2 + 1/200 :: rat)"
  shows "n = (8 * m + 50) div 100"
proof -
  have "\<bar>of_int (200 * n - 16 * m)\<bar> \<le> (101 :: rat)"
    using near_le [OF assms] near_ge [OF assms]
    unfolding of_int_diff of_int_mult of_int_numeral abs_le_iff by linarith
  then have "\<bar>200 * n - 16 * m\<bar> \<le> 101" by (metis of_int_abs of_int_le_iff of_int_numeral)
  then have "- 12 \<le> 25 * n - 2 * m" and "25 * n - 2 * m \<le> 12" by linarith+
  then have "(8 * m + 50) div 100 = n"
    by (intro int_div_pos_eq [where r = "8 * m + 50 - 100 * n"]) linarith+
  then show ?thesis ..
qed

lemma platform_fee_base:
  assumes "\<bar>m\<bar> \<le> 10 ^ 12"
  shows "roundMoney (js_mul (money m) SITON_PLATFORM_FEE_RATE) = money ((8 * m + 50) div 100)"
proof -
  obtain n where n: "roundMoney (js_mul (money m) (js_of_rat (8 / 100))) = money n"
      "\<bar>of_int n - of_int m * (8 / 100)\<bar> \<le> (1/2 + 1/200 :: rat)"
    by (rule money_times_rate [OF assms, of "8 / 100"]) simp_all
  show ?thesis unfolding SITON_PLATFORM_FEE_RATE_def n(1) eight_percent [OF n(2)] ..
qed

lemma near_max0: "\<bar>x - q\<bar> \<le> d \<Longrightarrow> 0 \<le> q \<Longrightarrow> \<bar>max 0 x - q\<bar> \<le> (d :: rat)"
  by (cases "0 \<le> x") (simp_all add: max_def abs_le_iff)

lemma fee_base:
  assumes "0 \<le> v" and "v \<le> g" and "g \<le> 10 ^ 11"
  shows "roundMoney (js_max (Fin 0) (js_sub (money g) (money v))) = money (g - v)"
proof -
  have b: "\<bar>g\<bar> \<le> 10 ^ 12" "\<bar>v\<bar> \<le> 10 ^ 12" using assms by simp_all
  let ?x = "fl64 (cents g - cents v)"
  have q: "(0 :: rat) \<le> of_int (g - v) / 100" using assms(2) by simp
  have x: "\<bar>?x - of_int (g - v) / 100\<bar> \<le> 1 / 10000" by (rule cents_sub(2) [OF b])
  have "\<bar>max 0 ?x - of_int (g - v) / 100\<bar> \<le> 1 / 10000"
    by (rule near_max0 [OF x q])
  then have "\<bar>max 0 ?x - of_int (g - v) / 100\<bar> \<le> 4 / 1000" by (rule order_trans) simp
  then have "roundMoney (Fin (max 0 ?x)) = money (g - v)"
    by (rule roundMoney_near) (use assms in simp)
  then show ?thesis using cents_sub(1) [OF b] by simp
qed

lemma fee_vat_bounds:
  assumes b: "0 \<le> b" "b \<le> 10 ^ 10" and r: "0 \<le> r" "r \<le> 1"
    and w: "\<bar>of_int w - of_int b * r\<bar> \<le> (1/2 + 1/200 :: rat)"
  shows "0 \<le> w" and "w \<le> b"
proof -
  have rb: "(0 :: rat) \<le> of_int b * r" and "of_int b * r \<le> (of_int b :: rat)"
    using b r by (simp_all add: mult_left_le)
  moreover have "(of_int (- 1) :: rat) < of_int w"
    using near_ge [OF w] rb unfolding of_int_minus of_int_1 by linarith
  moreover have "(of_int w :: rat) < of_int (b + 1)"
    using near_le [OF w] calculation(2) unfolding of_int_add of_int_1 by linarith
  ultimately show "0 \<le> w" and "w \<le> b" unfolding of_int_less_iff by simp_all
qed

lemma is_finite_money [simp]: "is_finite (money n)"
  by (simp add: money_def)

definition signed :: "int option \<Rightarrow> int" where
  "signed sgn_arg = (if sgn_arg = Some (- 1) then - 1 else 1)"

lemma signed_money:
  "\<bar>n\<bar> \<le> 10 ^ 12 \<Longrightarrow>
   roundMoney (js_mul (money n) (if sgn_arg = Some (- 1) then Fin (- 1) else Fin 1)) = money (signed sgn_arg * n)"
  by (simp add: signed_def money_times_sign roundMoney_money)

definition splits_charge :: "int \<Rightarrow> rat \<Rightarrow> int \<Rightarrow> int \<Rightarrow> fee_snapshot \<Rightarrow> bool" where
  "splits_charge s r g v snap \<longleftrightarrow>
     (\<exists>w. let b = (8 * (g - v) + 50) div 100 in
        \<bar>of_int w - of_int b * r\<bar> \<le> 1/2 + 1/200 \<and> 0 \<le> w \<and> w \<le> b
        \<and> fs_gross_amount snap = money (s * g) \<and> fs_vat_amount snap = money (s * v)
        \<and> fs_fee_base_amount snap = money (s * (g - v))
        \<and> fs_platform_fee_base_amount snap = money (s * b)
        \<and> fs_platform_fee_vat_amount snap = money (s * w)
        \<and> fs_platform_fee_total_amount snap = money (s * (b + w))
        \<and> fs_platform_fee_amount snap = money (s * (b + w))
        \<and> fs_seller_net_amount snap = money (s * (g - (b + w))))"

lemma fee_splits:
  assumes "0 \<le> v" and "v \<le> g" and "g \<le> 10 ^ 11"
    and rate: "SITON_PLATFORM_FEE_VAT_RATE env = js_of_rat r" and r: "0 \<le> r" "r \<le> 1"
  shows "\<exists>snap. calculatePlatformFeeMoney env (money g) (Some (money v)) sgn_arg = Inr snap
    \<and> splits_charge (signed sgn_arg) r g v snap"
proof -
  let ?m = "g - v" and ?b = "(8 * (g - v) + 50) div 100"
  have m: "0 \<le> ?m" "?m \<le> 10 ^ 11" using assms(1-3) by simp_all
  have gv: "\<bar>g\<bar> \<le> 10 ^ 12" "\<bar>v\<bar> \<le> 10 ^ 12" "\<bar>?m\<bar> \<le> 10 ^ 12" using assms(1-3) by simp_all
  have b: "0 \<le> ?b" "?b \<le> 10 ^ 10" using m by simp_all
  then have b12: "\<bar>?b\<bar> \<le> 10 ^ 12" by simp
  obtain w where w: "roundMoney (js_mul (money ?b) (js_of_rat r)) = money w"
      "\<bar>of_int w - of_int ?b * r\<bar> \<le> (1/2 + 1/200 :: rat)"
    by (rule money_times_rate [OF b12 r])
  have wb: "0 \<le> w" "w \<le> ?b" by (rule fee_vat_bounds [OF b r w(2)])+
  have sizes: "\<bar>w\<bar> \<le> 10 ^ 12" "\<bar>?b + w\<bar> \<le> 10 ^ 12" "\<bar>g - (?b + w)\<bar> \<le> 10 ^ 12"
    using wb b assms(1-3) by simp_all
  have "cents 0 \<le> cents v" using assms(1) gv by (subst cents_le_iff) simp_all
  then have "js_max (Fin 0) (money v) = money v" by (simp add: money_def)
  then have gross: "js_max (Fin 0) (money v) = money v" by (simp add: money_def)
  note steps = requireFiniteAmount_def gross rate fee_base [OF assms(1-3)] platform_fee_base [OF gv(3)]
    w(1) roundMoney_add [OF b12 sizes(1,2)] roundMoney_sub [OF gv(1) sizes(2,3)]
  have "calculatePlatformFeeMoney env (money g) (Some (money v)) sgn_arg = Inr
     \<lparr>fs_gross_amount = money (signed sgn_arg * g), fs_vat_amount = money (signed sgn_arg * v),
      fs_fee_base_amount = money (signed sgn_arg * ?m),
      fs_platform_fee_rate = SITON_PLATFORM_FEE_RATE, fs_platform_fee_vat_rate = js_of_rat r,
      fs_platform_fee_base_amount = money (signed sgn_arg * ?b),
      fs_platform_fee_vat_amount = money (signed sgn_arg * w),
      fs_platform_fee_total_amount = money (signed sgn_arg * (?b + w)),
      fs_platform_fee_amount = money (signed sgn_arg * (?b + w)),
      fs_seller_net_amount = money (signed sgn_arg * (g - (?b + w)))\<rparr>"
    by (simp only: calculatePlatformFeeMoney_def steps option.case is_finite_money not_True_eq_False if_False
        on_ok_simps Let_def roundMoney_money [OF gv(1)] roundMoney_money [OF gv(2)]
        signed_money [OF gv(1)] signed_money [OF gv(2)] signed_money [OF gv(3)] signed_money [OF b12]
        signed_money [OF sizes(1)] signed_money [OF sizes(2)] signed_money [OF sizes(3)])
  then show ?thesis using w(2) wb by (auto simp: splits_charge_def Let_def)
qed

text \<open>C17: A charge of \<open>g\<close> agorot that contains \<open>v\<close> agorot of VAT is split without losing an agora: the fee
  base is \<open>g - v\<close>, the fee is 8 per cent of it rounded half up, exactly, the VAT on the fee is
  within half an agora of its rate (up to the drift of binary floating point), the total is their
  sum and the seller's net is the gross minus that total. With sign -1 every amount is negated.\<close>

theorem calculatePlatformFeeMoney_splits:
  assumes "0 \<le> v" and "v \<le> g" and "g \<le> 10 ^ 11"
    and "SITON_PLATFORM_FEE_VAT_RATE env = js_of_rat r" and "0 \<le> r" and "r \<le> 1"
  shows "\<exists>snap. calculatePlatformFeeMoney env (money g) (Some (money v)) sgn_arg = Inr snap
    \<and> splits_charge (signed sgn_arg) r g v snap"
  by (rule fee_splits [OF assms])

lemma default_vat_rate: "SITON_PLATFORM_FEE_VAT_RATE empty_env = js_of_rat (18 / 100)"
  by (simp add: SITON_PLATFORM_FEE_VAT_RATE_def readNumberEnv_def empty_env_def)

theorem calculatePlatformFeeMoney_splits_witness:
  "\<exists>snap. calculatePlatformFeeMoney empty_env (money 11800) (Some (money 1800)) (Some (- 1)) = Inr snap
    \<and> splits_charge (signed (Some (- 1))) (18 / 100) 11800 1800 snap"
  by (rule calculatePlatformFeeMoney_splits [OF _ _ _ default_vat_rate]) simp_all

text \<open>The VAT on the fee is not drift free: 18 per cent of 1.25 is exactly 0.225, the engine's product
  of the two doubles lies just below it, and the half agora is rounded down.\<close>

lemma double_018: "fl64 (18 / 100) = 6485183463413514 * pow2 (- 55)"
  using fl64_intro [of "- 3" "18 / 100" 6485183463413514] by (simp add: power_int_minus_divide)

lemma fl64_tie_even:
  assumes "pow2 e \<le> x" and "x < pow2 (e + 1)" and "- 1022 \<le> e"
    and "x = (of_int n + 1 / 2) * pow2 (e - 52)" and "even n"
  shows "fl64 x = of_int n * pow2 (e - 52)"
proof -
  have pos: "0 < x" using assms(1) pow2_pos [of e] by linarith
  have u: "ulp_exp x = e - 52"
    using pos assms(3) ilog2_unique [OF assms(1,2)] by (simp add: ulp_exp_def)
  have d: "x / pow2 (e - 52) = of_int n + 1 / 2" unfolding assms(4) by simp
  have "\<lfloor>of_int n + 1 / 2 :: rat\<rfloor> = n" by (rule floor_unique) simp_all
  then have "rne (x / pow2 (e - 52)) = n" unfolding d using assms(5) by (simp add: rne_def)
  then show ?thesis using pos u by (simp add: fl64_def)
qed

lemma product_0225: "fl64 (5 / 4 * fl64 (18 / 100)) = 8106479329266892 * pow2 (- 55)"
  unfolding double_018
  using fl64_tie_even [of "- 3" "5 / 4 * (6485183463413514 * pow2 (- 55))" 8106479329266892]
  by (simp add: power_int_minus_divide)

lemma product_225: "fl64 (8106479329266892 * pow2 (- 55) * 100) = 6333186975989759 * pow2 (- 48)"
  using fl64_intro [of 4 "8106479329266892 * pow2 (- 55) * 100" 6333186975989759]
  by (simp add: power_int_minus_divide)

text \<open>The VAT on the fee rounds a half agora down where decimal rounding would round it up: a
  platform fee of 1.25 carries 0.22 of VAT, although 18 per cent of it is exactly 0.225.\<close>

theorem platform_fee_vat_tie_drifts:
  "roundMoney (js_mul (money 125) (SITON_PLATFORM_FEE_VAT_RATE empty_env)) = money 22"
proof -
  have c: "cents 125 = 5 / 4"
  proof -
    have "fl64 (5 / 4) = 5629499534213120 * pow2 (- 52)"
      using fl64_intro [of 0 "5 / 4" 5629499534213120] by (simp add: power_int_minus_divide)
    then show ?thesis by (simp add: cents_def power_int_minus_divide)
  qed
  have "js_of_rat (18 / 100) = Fin (fl64 (18 / 100))" by (rule js_of_rat_small) simp
  moreover have "js_of_rat (5 / 4 * fl64 (18 / 100)) = Fin (fl64 (5 / 4 * fl64 (18 / 100)))"
    unfolding double_018 by (rule js_of_rat_small) (simp add: power_int_minus_divide)
  ultimately have p: "js_mul (money 125) (js_of_rat (18 / 100)) = Fin (8106479329266892 * pow2 (- 55))"
    by (simp only: money_def c js_mul.simps product_0225)
  have "js_mul (Fin (8106479329266892 * pow2 (- 55))) (Fin 100) = Fin (6333186975989759 * pow2 (- 48))"
    using product_225 by (simp add: js_of_rat_small power_int_minus_divide)
  moreover have "round_half_up (6333186975989759 * pow2 (- 48)) = 22"
    by (rule round_half_up_near) (simp add: power_int_minus_divide)
  ultimately show ?thesis
    unfolding default_vat_rate p using agorot_of_int [of 22] by (simp add: roundMoney_def js_or_def)
qed

end
