(* ===== verification/FeeLedger.thy ===== *)
theory FeeLedger
  imports PlatformFee
begin

text \<open>
  The fee ledger of \<open>src/platform_fee_money.ts\<close>: \<open>recordProviderFinancialEventInTx\<close> and the functions
  it calls, on the rows of \<open>platform_fee_money_events\<close> (\<open>src/migrations/019\<close>). Rows are kept in the
  order of their creation. The joined row of participant and deal that
  \<open>loadParticipantChargeContext\<close> reads is part of the state; its numbers are the values after
  \<open>Number(... || 0)\<close>. A body that throws returns \<open>Inl\<close> and the transaction is rolled back.
\<close>

datatype fee_event_type = ChargeCaptured | RecoveryCaptured | RefundIssued
datatype entry_type = ChargeEntry | RefundAdjustment
datatype settlement_mark = Recorded | BackfilledFromRefund
datatype readiness_mark = ReadyForSettlement | ReversedAfterRefund

text \<open>The ten amount columns: agorot, and ten-thousandths for the two rates.\<close>

record fee_amounts =
  fa_gross :: int
  fa_vat :: int
  fa_fee_base :: int
  fa_rate :: int
  fa_vat_rate :: int
  fa_platform_fee_base :: int
  fa_platform_fee_vat :: int
  fa_platform_fee_total :: int
  fa_platform_fee :: int
  fa_seller_net :: int

record fee_row =
  fr_participant :: string
  fr_deal :: string
  fr_seller :: string
  fr_event_type :: fee_event_type
  fr_entry :: entry_type
  fr_provider :: string
  fr_provider_event :: "string option"
  fr_reference :: "string option"
  fr_correlation :: "string option"
  fr_source_money_state :: string
  fr_settlement_status :: settlement_mark
  fr_readiness :: readiness_mark
  fr_amounts :: fee_amounts

record charge_row =
  cr_deal :: string
  cr_seller :: string
  cr_qty :: jsnum
  cr_price :: jsnum
  cr_delivery :: jsnum

record fee_db =
  fd_rows :: "fee_row list"
  fd_participants :: "string \<Rightarrow> charge_row option"

record fee_event =
  fe_participant :: string
  fe_deal :: string
  fe_event_type :: fee_event_type
  fe_provider :: string
  fe_provider_event :: "string option"
  fe_reference :: "string option"
  fe_correlation :: "string option"
  fe_source_money_state :: string

section \<open>The charge of a participant\<close>

record charge_context =
  cc_deal :: string
  cc_seller :: string
  cc_gross :: jsnum
  cc_vat :: jsnum

definition map_error :: "('e \<Rightarrow> 'f) \<Rightarrow> 'e + 'a \<Rightarrow> 'f + 'a" where
  "map_error f r = (case r of Inl e \<Rightarrow> Inl (f e) | Inr a \<Rightarrow> Inr a)"

lemma map_error_simps [simp]: "map_error f (Inl e) = Inl (f e)" "map_error f (Inr a) = Inr a"
  by (simp_all add: map_error_def)

definition loadParticipantChargeContext ::
    "env \<Rightarrow> fee_db \<Rightarrow> string \<Rightarrow> string \<Rightarrow> fee_error + charge_context" where
  "loadParticipantChargeContext env db participant deal =
     (case fd_participants db participant of
        None \<Rightarrow> Inl (FeeTargetNotFound participant deal)
      | Some row \<Rightarrow>
          if cr_deal row \<noteq> deal then Inl (FeeTargetNotFound participant deal)
          else let productGross = js_mul (cr_qty row) (cr_price row);
                   deliveryGross = cr_delivery row;
                   grossAmount = js_add productGross deliveryGross
            in on_ok (map_error FeeVat (computeCustomerChargeVat env productGross deliveryGross)) (\<lambda>vat.
                 Inr \<lparr>cc_deal = deal, cc_seller = cr_seller row,
                      cc_gross = roundMoney grossAmount, cc_vat = vs_vat_amount vat\<rparr>))"

section \<open>Amounts in the columns\<close>

text \<open>
  A value written to a \<open>numeric(12,2)\<close> column. Every value the engine writes is already an amount in
  agorot, for which the column keeps it exactly; one outside the range is an error of the statement.
\<close>

definition to_column :: "nat \<Rightarrow> int \<Rightarrow> jsnum \<Rightarrow> fee_error + int" where
  "to_column scale limit v =
     (case v of
        Fin x \<Rightarrow> let n = round_half_up (x * 10 ^ scale) in if \<bar>n\<bar> < limit then Inr n else Inl NumericOverflow
      | _ \<Rightarrow> Inl NumericOverflow)"

definition money_column :: "jsnum \<Rightarrow> fee_error + int" where
  "money_column = to_column 2 (10 ^ 12)"

definition rate_column :: "jsnum \<Rightarrow> fee_error + int" where
  "rate_column = to_column 4 (10 ^ 6)"

definition snapshot_columns :: "fee_snapshot \<Rightarrow> fee_error + fee_amounts" where
  "snapshot_columns s =
     on_ok (money_column (fs_gross_amount s)) (\<lambda>g.
     on_ok (money_column (fs_vat_amount s)) (\<lambda>v.
     on_ok (money_column (fs_fee_base_amount s)) (\<lambda>b.
     on_ok (rate_column (fs_platform_fee_rate s)) (\<lambda>r.
     on_ok (rate_column (fs_platform_fee_vat_rate s)) (\<lambda>q.
     on_ok (money_column (fs_platform_fee_base_amount s)) (\<lambda>f.
     on_ok (money_column (fs_platform_fee_vat_amount s)) (\<lambda>w.
     on_ok (money_column (fs_platform_fee_total_amount s)) (\<lambda>t.
     on_ok (money_column (fs_platform_fee_amount s)) (\<lambda>p.
     on_ok (money_column (fs_seller_net_amount s)) (\<lambda>n.
       Inr \<lparr>fa_gross = g, fa_vat = v, fa_fee_base = b, fa_rate = r, fa_vat_rate = q,
            fa_platform_fee_base = f, fa_platform_fee_vat = w, fa_platform_fee_total = t,
            fa_platform_fee = p, fa_seller_net = n\<rparr>))))))))))"

text \<open>\<open>NEGATE\<close> of a column read back: never minus zero.\<close>

definition NEGATE :: "int \<Rightarrow> jsnum" where
  "NEGATE n = (let amount = roundMoney (money n) in if js_eq amount (Fin 0) then Fin 0 else js_neg amount)"

definition rate_value :: "int \<Rightarrow> jsnum" where
  "rate_value n = js_of_rat (of_int n / 10000)"

definition is_entry :: "string \<Rightarrow> entry_type \<Rightarrow> fee_row \<Rightarrow> bool" where
  "is_entry participant entry row \<longleftrightarrow> fr_participant row = participant \<and> fr_entry row = entry"

definition loadNegatedChargeAmounts :: "fee_db \<Rightarrow> string \<Rightarrow> fee_snapshot option" where
  "loadNegatedChargeAmounts db participant =
     map_option (\<lambda>row. let a = fr_amounts row in
       \<lparr>fs_gross_amount = NEGATE (fa_gross a), fs_vat_amount = NEGATE (fa_vat a),
        fs_fee_base_amount = NEGATE (fa_fee_base a),
        fs_platform_fee_rate = rate_value (fa_rate a), fs_platform_fee_vat_rate = rate_value (fa_vat_rate a),
        fs_platform_fee_base_amount = NEGATE (fa_platform_fee_base a),
        fs_platform_fee_vat_amount = NEGATE (fa_platform_fee_vat a),
        fs_platform_fee_total_amount = NEGATE (fa_platform_fee_total a),
        fs_platform_fee_amount = NEGATE (fa_platform_fee a),
        fs_seller_net_amount = NEGATE (fa_seller_net a)\<rparr>)
       (find (is_entry participant ChargeEntry) (fd_rows db))"

definition logicalEntryExists :: "fee_db \<Rightarrow> string \<Rightarrow> entry_type \<Rightarrow> bool" where
  "logicalEntryExists db participant entry = list_ex (is_entry participant entry) (fd_rows db)"

section \<open>Writing a row\<close>

text \<open>
  \<open>ON CONFLICT DO NOTHING\<close> under the three unique indexes: one charge and one refund adjustment per
  participant, and one row per provider event.
\<close>

definition conflicts :: "fee_row \<Rightarrow> fee_row \<Rightarrow> bool" where
  "conflicts new row \<longleftrightarrow>
     is_entry (fr_participant new) (fr_entry new) row
     \<or> (fr_provider_event new \<noteq> None \<and> fr_provider new = fr_provider row
        \<and> fr_provider_event new = fr_provider_event row)"

definition insertPlatformFeeMoneyEntry ::
    "fee_db \<Rightarrow> (fee_amounts \<Rightarrow> fee_row) \<Rightarrow> fee_error + fee_snapshot \<Rightarrow> fee_error + fee_db \<times> bool" where
  "insertPlatformFeeMoneyEntry db mk amounts =
     on_ok amounts (\<lambda>snapshot.
     on_ok (snapshot_columns snapshot) (\<lambda>columns.
       if list_ex (conflicts (mk columns)) (fd_rows db) then Inr (db, False)
       else Inr (db\<lparr>fd_rows := fd_rows db @ [mk columns]\<rparr>, True)))"

datatype record_status = StatusRecorded | DuplicateIgnored

definition backfill_row :: "fee_event \<Rightarrow> charge_context \<Rightarrow> fee_amounts \<Rightarrow> fee_row" where
  "backfill_row args ctx a =
     \<lparr>fr_participant = fe_participant args, fr_deal = cc_deal ctx, fr_seller = cc_seller ctx,
      fr_event_type = (if fe_source_money_state args = ''RecoveredCharge'' then RecoveryCaptured else ChargeCaptured),
      fr_entry = ChargeEntry, fr_provider = fe_provider args, fr_provider_event = None,
      fr_reference = fe_reference args, fr_correlation = fe_correlation args,
      fr_source_money_state = fe_source_money_state args, fr_settlement_status = BackfilledFromRefund,
      fr_readiness = ReadyForSettlement, fr_amounts = a\<rparr>"

definition entry_of :: "fee_event \<Rightarrow> entry_type" where
  "entry_of args = (if fe_event_type args = RefundIssued then RefundAdjustment else ChargeEntry)"

definition event_row :: "fee_event \<Rightarrow> charge_context \<Rightarrow> fee_amounts \<Rightarrow> fee_row" where
  "event_row args ctx a =
     \<lparr>fr_participant = fe_participant args, fr_deal = cc_deal ctx, fr_seller = cc_seller ctx,
      fr_event_type = fe_event_type args, fr_entry = entry_of args, fr_provider = fe_provider args,
      fr_provider_event = fe_provider_event args, fr_reference = fe_reference args,
      fr_correlation = fe_correlation args, fr_source_money_state = fe_source_money_state args,
      fr_settlement_status = Recorded,
      fr_readiness = (if entry_of args = ChargeEntry then ReadyForSettlement else ReversedAfterRefund),
      fr_amounts = a\<rparr>"

definition backfill_charge :: "env \<Rightarrow> fee_db \<Rightarrow> fee_event \<Rightarrow> charge_context \<Rightarrow> fee_error + fee_db" where
  "backfill_charge env db args ctx =
     (if fe_event_type args = RefundIssued \<and> \<not> logicalEntryExists db (fe_participant args) ChargeEntry
      then on_ok (insertPlatformFeeMoneyEntry db (backfill_row args ctx)
             (calculatePlatformFeeMoney env (cc_gross ctx) (Some (cc_vat ctx)) (Some 1)))
             (\<lambda>(db', inserted). Inr db')
      else Inr db)"

definition recordProviderFinancialEventInTx ::
    "env \<Rightarrow> fee_db \<Rightarrow> fee_event \<Rightarrow> fee_error + fee_db \<times> record_status" where
  "recordProviderFinancialEventInTx env db args =
     on_ok (loadParticipantChargeContext env db (fe_participant args) (fe_deal args)) (\<lambda>ctx.
     on_ok (backfill_charge env db args ctx) (\<lambda>db1.
     on_ok (case entry_of args of
              ChargeEntry \<Rightarrow>
                Inr (calculatePlatformFeeMoney env (cc_gross ctx) (Some (cc_vat ctx)) (Some 1))
            | RefundAdjustment \<Rightarrow>
                (case loadNegatedChargeAmounts db1 (fe_participant args) of
                   None \<Rightarrow> Inl (RefundWithoutCharge (fe_participant args))
                 | Some negated \<Rightarrow> Inr (Inr negated))) (\<lambda>amounts.
     on_ok (insertPlatformFeeMoneyEntry db1 (event_row args ctx) amounts) (\<lambda>(db2, inserted).
       Inr (db2, if inserted then StatusRecorded else DuplicateIgnored)))))"

section \<open>The settlement summary of a participant\<close>

datatype payout_readiness = NotSettlementEligible | SettlementReady | RefundedNotPayable

record fee_summary =
  sm_participant :: string
  sm_deal :: string
  sm_entries :: nat
  sm_charge_entries :: nat
  sm_refund_entries :: nat
  sm_gross :: jsnum
  sm_vat :: jsnum
  sm_fee_base :: jsnum
  sm_platform_fee_base :: jsnum
  sm_platform_fee_vat :: jsnum
  sm_platform_fee_total :: jsnum
  sm_platform_fee :: jsnum
  sm_seller_net :: jsnum
  sm_readiness :: payout_readiness

definition column_sum :: "(fee_amounts \<Rightarrow> int) \<Rightarrow> fee_row list \<Rightarrow> int" where
  "column_sum col rows = sum_list (map (\<lambda>r. col (fr_amounts r)) rows)"

text \<open>\<open>GROUP BY participant_id, deal_id\<close>; a participant belongs to one deal, so there is one group.\<close>

definition summarizeParticipantSettlementInTx :: "fee_db \<Rightarrow> string \<Rightarrow> fee_summary option" where
  "summarizeParticipantSettlementInTx db participant =
     (case filter (\<lambda>r. fr_participant r = participant) (fd_rows db) of
        [] \<Rightarrow> None
      | first # rest \<Rightarrow>
          let rows = filter (\<lambda>r. fr_deal r = fr_deal first) (first # rest);
              refundEntries = length (filter (\<lambda>r. fr_entry r = RefundAdjustment) rows);
              amount = (\<lambda>col. roundMoney (money (column_sum col rows)))
          in Some \<lparr>sm_participant = participant, sm_deal = fr_deal first, sm_entries = length rows,
               sm_charge_entries = length (filter (\<lambda>r. fr_entry r = ChargeEntry) rows),
               sm_refund_entries = refundEntries,
               sm_gross = amount fa_gross, sm_vat = amount fa_vat, sm_fee_base = amount fa_fee_base,
               sm_platform_fee_base = amount fa_platform_fee_base,
               sm_platform_fee_vat = amount fa_platform_fee_vat,
               sm_platform_fee_total = amount fa_platform_fee_total,
               sm_platform_fee = amount fa_platform_fee, sm_seller_net = amount fa_seller_net,
               sm_readiness = (if 0 < refundEntries \<or> js_le (money (column_sum fa_gross rows)) (Fin 0)
                               then RefundedNotPayable else SettlementReady)\<rparr>)"

section \<open>Columns keep amounts exactly\<close>

definition amounts_in_range :: "fee_amounts \<Rightarrow> bool" where
  "amounts_in_range a \<longleftrightarrow>
     \<bar>fa_gross a\<bar> < 10 ^ 12 \<and> \<bar>fa_vat a\<bar> < 10 ^ 12 \<and> \<bar>fa_fee_base a\<bar> < 10 ^ 12
     \<and> \<bar>fa_rate a\<bar> < 10 ^ 6 \<and> \<bar>fa_vat_rate a\<bar> < 10 ^ 6
     \<and> \<bar>fa_platform_fee_base a\<bar> < 10 ^ 12 \<and> \<bar>fa_platform_fee_vat a\<bar> < 10 ^ 12
     \<and> \<bar>fa_platform_fee_total a\<bar> < 10 ^ 12 \<and> \<bar>fa_platform_fee a\<bar> < 10 ^ 12
     \<and> \<bar>fa_seller_net a\<bar> < 10 ^ 12"

definition negated_amounts :: "fee_amounts \<Rightarrow> fee_amounts" where
  "negated_amounts a =
     \<lparr>fa_gross = - fa_gross a, fa_vat = - fa_vat a, fa_fee_base = - fa_fee_base a,
      fa_rate = fa_rate a, fa_vat_rate = fa_vat_rate a,
      fa_platform_fee_base = - fa_platform_fee_base a, fa_platform_fee_vat = - fa_platform_fee_vat a,
      fa_platform_fee_total = - fa_platform_fee_total a, fa_platform_fee = - fa_platform_fee a,
      fa_seller_net = - fa_seller_net a\<rparr>"

lemma money_column_range: "money_column v = Inr n \<Longrightarrow> \<bar>n\<bar> < 10 ^ 12"
  by (cases v) (auto simp: money_column_def to_column_def Let_def split: if_splits)

lemma rate_column_range: "rate_column v = Inr n \<Longrightarrow> \<bar>n\<bar> < 10 ^ 6"
  by (cases v) (auto simp: rate_column_def to_column_def Let_def split: if_splits)

lemma snapshot_columns_range: "snapshot_columns s = Inr a \<Longrightarrow> amounts_in_range a"
  unfolding snapshot_columns_def
  by (elim on_ok_InrE) (auto simp: amounts_in_range_def dest: money_column_range rate_column_range)

lemma near_scaled:
  assumes "\<bar>x - q / c\<bar> \<le> d" and "0 < c" and "d * c < 1 / 2"
  shows "\<bar>x * c - q\<bar> < (1 / 2 :: rat)"
proof -
  have "x * c - q = (x - q / c) * c" using assms(2) by (simp add: field_simps)
  then have "\<bar>x * c - q\<bar> = \<bar>x - q / c\<bar> * c" using assms(2) by (simp only: abs_mult abs_of_pos)
  also have "\<dots> \<le> d * c" using assms(1,2) by (intro mult_right_mono) simp_all
  finally show ?thesis using assms(3) by linarith
qed

lemma money_column_money:
  assumes "\<bar>n\<bar> < 10 ^ 12"
  shows "money_column (money n) = Inr n"
proof -
  have "\<bar>cents n - of_int n / 100\<bar> \<le> 1 / 40000" using assms by (intro cents_near) simp
  then have "\<bar>cents n * 10 ^ 2 - of_int n\<bar> < 1 / 2" by (intro near_scaled [where d = "1 / 40000"]) simp_all
  then have "round_half_up (cents n * 10 ^ 2) = n" by (rule round_half_up_near)
  then show ?thesis using assms by (simp add: money_column_def to_column_def money_def)
qed

lemma rate_column_value:
  assumes "\<bar>n\<bar> < 10 ^ 6"
  shows "rate_column (rate_value n) = Inr n"
proof -
  have "\<bar>of_int n :: rat\<bar> < 10 ^ 6" using assms by (simp flip: of_int_abs)
  then have b: "\<bar>of_int n / 10000 :: rat\<bar> \<le> 100" by (simp add: abs_divide)
  then have "\<bar>of_int n / 10000 :: rat\<bar> / 2 ^ 53 \<le> 100 / 2 ^ 53" by (rule divide_right_mono) simp
  then have "\<bar>of_int n / 10000 :: rat\<bar> / 2 ^ 53 + 1 / 2 ^ 1000 \<le> 1 / 40000" by simp
  then have "\<bar>fl64 (of_int n / 10000) - of_int n / 10000\<bar> \<le> 1 / 40000"
    using b64.fl_error [of "of_int n / 10000"] by linarith
  then have "\<bar>fl64 (of_int n / 10000) * 10 ^ 4 - of_int n\<bar> < 1 / 2" by (intro near_scaled [where d = "1 / 40000"]) simp_all
  then have "round_half_up (fl64 (of_int n / 10000) * 10 ^ 4) = n" by (rule round_half_up_near)
  moreover have "\<bar>of_int n / 10000 :: rat\<bar> \<le> 10 ^ 15" using b by (rule order_trans) simp
  then have "rate_value n = Fin (fl64 (of_int n / 10000))"
    unfolding rate_value_def by (rule js_of_rat_small)
  ultimately show ?thesis using assms by (simp add: rate_column_def to_column_def)
qed

lemma NEGATE_money:
  assumes "\<bar>n\<bar> < 10 ^ 12"
  shows "NEGATE n = money (- n)"
proof -
  have "cents n = cents 0 \<longleftrightarrow> n = 0" using assms by (intro cents_eq_iff) simp_all
  moreover have "roundMoney (money n) = money n" using assms by (intro roundMoney_money) simp
  ultimately show ?thesis by (auto simp: NEGATE_def Let_def js_eq_def money_def cents_minus)
qed

lemma NEGATE_column: "\<bar>n\<bar> < 10 ^ 12 \<Longrightarrow> money_column (NEGATE n) = Inr (- n)"
  by (simp add: NEGATE_money money_column_money)

definition negated_snapshot :: "fee_amounts \<Rightarrow> fee_snapshot" where
  "negated_snapshot a =
     \<lparr>fs_gross_amount = NEGATE (fa_gross a), fs_vat_amount = NEGATE (fa_vat a),
      fs_fee_base_amount = NEGATE (fa_fee_base a),
      fs_platform_fee_rate = rate_value (fa_rate a), fs_platform_fee_vat_rate = rate_value (fa_vat_rate a),
      fs_platform_fee_base_amount = NEGATE (fa_platform_fee_base a),
      fs_platform_fee_vat_amount = NEGATE (fa_platform_fee_vat a),
      fs_platform_fee_total_amount = NEGATE (fa_platform_fee_total a),
      fs_platform_fee_amount = NEGATE (fa_platform_fee a),
      fs_seller_net_amount = NEGATE (fa_seller_net a)\<rparr>"

lemma loadNegated_alt:
  "loadNegatedChargeAmounts db p =
     map_option (\<lambda>row. negated_snapshot (fr_amounts row)) (find (is_entry p ChargeEntry) (fd_rows db))"
  by (simp add: loadNegatedChargeAmounts_def negated_snapshot_def Let_def)

lemma negated_columns: "amounts_in_range a \<Longrightarrow> snapshot_columns (negated_snapshot a) = Inr (negated_amounts a)"
  unfolding amounts_in_range_def snapshot_columns_def negated_snapshot_def negated_amounts_def
  by (elim conjE) (simp only: fee_snapshot.select_convs NEGATE_column rate_column_value on_ok_simps)

section \<open>What one recording does\<close>

lemma insert_cases:
  assumes "insertPlatformFeeMoneyEntry db mk amounts = Inr (db', inserted)"
  obtains snapshot cols where "amounts = Inr snapshot" and "snapshot_columns snapshot = Inr cols"
    and "inserted \<longleftrightarrow> \<not> list_ex (conflicts (mk cols)) (fd_rows db)"
    and "db' = (if inserted then db\<lparr>fd_rows := fd_rows db @ [mk cols]\<rparr> else db)"
proof -
  obtain snapshot cols where "amounts = Inr snapshot" "snapshot_columns snapshot = Inr cols"
    "(if list_ex (conflicts (mk cols)) (fd_rows db) then Inr (db, False)
      else Inr (db\<lparr>fd_rows := fd_rows db @ [mk cols]\<rparr>, True)) = (Inr (db', inserted) :: fee_error + fee_db \<times> bool)"
    using assms unfolding insertPlatformFeeMoneyEntry_def on_ok_Inr_iff by blast
  then show thesis by (intro that [of snapshot cols]) (simp_all split: if_splits)
qed

lemma insert_duplicate:
  assumes "snapshot_columns snapshot = Inr cols" and "list_ex (conflicts (mk cols)) (fd_rows db)"
  shows "insertPlatformFeeMoneyEntry db mk (Inr snapshot) = Inr (db, False)"
  using assms by (simp add: insertPlatformFeeMoneyEntry_def)

lemma list_ex_append_left: "list_ex P xs \<Longrightarrow> list_ex P (xs @ ys)"
  by simp

lemma find_list_ex: "find P xs = Some x \<Longrightarrow> list_ex P xs"
  by (auto simp: find_Some_iff list_ex_length)

lemma context_rows: "loadParticipantChargeContext env (db\<lparr>fd_rows := rows\<rparr>) p d = loadParticipantChargeContext env db p d"
  by (simp add: loadParticipantChargeContext_def cong: option.case_cong)

lemma context_deal:
  assumes "loadParticipantChargeContext env db p d = Inr ctx"
  shows "cc_deal ctx = d" and "\<exists>row. fd_participants db p = Some row \<and> cr_deal row = d"
  using assms
  by (auto simp: loadParticipantChargeContext_def Let_def on_ok_Inr_iff split: option.splits if_splits)

lemma entry_of_iff [simp]:
  "entry_of args = RefundAdjustment \<longleftrightarrow> fe_event_type args = RefundIssued"
  "entry_of args = ChargeEntry \<longleftrightarrow> fe_event_type args \<noteq> RefundIssued"
  by (simp_all add: entry_of_def)

text \<open>A successful recording: the context, the database after the backfill, the columns of the new row.\<close>

lemma record_cases:
  assumes "recordProviderFinancialEventInTx env db args = Inr (db', st)"
  obtains ctx db1 cols where
    "loadParticipantChargeContext env db (fe_participant args) (fe_deal args) = Inr ctx"
    "backfill_charge env db args ctx = Inr db1"
    "fe_event_type args = RefundIssued \<Longrightarrow> \<exists>row. find (is_entry (fe_participant args) ChargeEntry) (fd_rows db1) = Some row
       \<and> snapshot_columns (negated_snapshot (fr_amounts row)) = Inr cols"
    "fe_event_type args \<noteq> RefundIssued \<Longrightarrow> \<exists>snapshot. snapshot_columns snapshot = Inr cols
       \<and> calculatePlatformFeeMoney env (cc_gross ctx) (Some (cc_vat ctx)) (Some 1) = Inr snapshot"
    "st = StatusRecorded \<longleftrightarrow> \<not> list_ex (conflicts (event_row args ctx cols)) (fd_rows db1)"
    "db' = (if st = StatusRecorded then db1\<lparr>fd_rows := fd_rows db1 @ [event_row args ctx cols]\<rparr> else db1)"
proof -
  obtain ctx db1 amounts inserted where c: "loadParticipantChargeContext env db (fe_participant args) (fe_deal args) = Inr ctx"
    and b: "backfill_charge env db args ctx = Inr db1"
    and a: "(case entry_of args of
              ChargeEntry \<Rightarrow>
                Inr (calculatePlatformFeeMoney env (cc_gross ctx) (Some (cc_vat ctx)) (Some 1))
            | RefundAdjustment \<Rightarrow>
                (case loadNegatedChargeAmounts db1 (fe_participant args) of
                   None \<Rightarrow> Inl (RefundWithoutCharge (fe_participant args))
                 | Some negated \<Rightarrow> Inr (Inr negated))) = Inr amounts"
    and i: "insertPlatformFeeMoneyEntry db1 (event_row args ctx) amounts = Inr (db', inserted)"
    and st: "st = (if inserted then StatusRecorded else DuplicateIgnored)"
    using assms unfolding recordProviderFinancialEventInTx_def on_ok_Inr_iff by fast
  obtain snapshot cols where s: "amounts = Inr snapshot" "snapshot_columns snapshot = Inr cols"
    "inserted \<longleftrightarrow> \<not> list_ex (conflicts (event_row args ctx cols)) (fd_rows db1)"
    "db' = (if inserted then db1\<lparr>fd_rows := fd_rows db1 @ [event_row args ctx cols]\<rparr> else db1)"
    by (rule insert_cases [OF i])
  show thesis
  proof (rule that [OF c b, of cols])
    show "\<exists>row. find (is_entry (fe_participant args) ChargeEntry) (fd_rows db1) = Some row
       \<and> snapshot_columns (negated_snapshot (fr_amounts row)) = Inr cols" if "fe_event_type args = RefundIssued"
      using a s(1,2) that by (auto simp: entry_of_def loadNegated_alt split: option.splits)
    show "\<exists>snapshot. snapshot_columns snapshot = Inr cols
       \<and> calculatePlatformFeeMoney env (cc_gross ctx) (Some (cc_vat ctx)) (Some 1) = Inr snapshot"
      if "fe_event_type args \<noteq> RefundIssued"
      using a s(1,2) that by (auto simp: entry_of_def)
  qed (use s(3,4) st in simp_all)
qed

section \<open>Idempotent ledgers\<close>

text \<open>
  What the callers of a ledger rely on: recording appends at most, keeps the ledger consistent, and a
  second delivery of an event, at any later time, is reported as a duplicate and changes nothing.
\<close>

fun post_all :: "('db \<Rightarrow> 'ev \<Rightarrow> 'err + 'db \<times> record_status) \<Rightarrow> 'db \<Rightarrow> 'ev list \<Rightarrow> 'err + 'db" where
  "post_all post db [] = Inr db"
| "post_all post db (e # es) = on_ok (post db e) (\<lambda>(db', st). post_all post db' es)"

locale idempotent_ledger =
  fixes post :: "'db \<Rightarrow> 'ev \<Rightarrow> 'err + 'db \<times> record_status"
    and entries :: "'db \<Rightarrow> 'row list"
    and consistent :: "'db \<Rightarrow> bool"
  assumes post_append: "post db e = Inr (db', st) \<Longrightarrow> \<exists>new. entries db' = entries db @ new"
    and post_consistent: "consistent db \<Longrightarrow> post db e = Inr (db', st) \<Longrightarrow> consistent db'"
    and post_settles: "post db e = Inr (db', st) \<Longrightarrow> post db' e = Inr (db', DuplicateIgnored)"
    and settled_stays: "post db e = Inr (db, DuplicateIgnored) \<Longrightarrow> post db f = Inr (db', st) \<Longrightarrow>
      post db' e = Inr (db', DuplicateIgnored)"
begin

lemma post_all_append: "post_all post db es = Inr db' \<Longrightarrow> \<exists>new. entries db' = entries db @ new"
  by (induction es arbitrary: db) (auto elim!: on_ok_InrE dest!: post_append, fastforce)

lemma post_all_consistent: "consistent db \<Longrightarrow> post_all post db es = Inr db' \<Longrightarrow> consistent db'"
  by (induction es arbitrary: db) (auto elim!: on_ok_InrE dest: post_consistent)

lemma post_all_settled:
  "post db e = Inr (db, DuplicateIgnored) \<Longrightarrow> post_all post db es = Inr db' \<Longrightarrow>
   post db' e = Inr (db', DuplicateIgnored)"
  by (induction es arbitrary: db) (auto elim!: on_ok_InrE dest: settled_stays)

lemma redelivery:
  "post_all post db es = Inr db' \<Longrightarrow> e \<in> set es \<Longrightarrow> post db' e = Inr (db', DuplicateIgnored)"
proof (induction es arbitrary: db)
  case (Cons f es)
  then obtain db1 st where f: "post db f = Inr (db1, st)" and rest: "post_all post db1 es = Inr db'"
    by (auto elim!: on_ok_InrE)
  show ?case
  proof (cases "e = f")
    case True
    then show ?thesis using post_all_settled [OF _ rest] post_settles f by blast
  next
    case False
    then show ?thesis using Cons.IH [OF rest] Cons.prems(2) by simp
  qed
qed simp

end

section \<open>The laws hold for the fee ledger\<close>

lemma conflicts_backfill: "conflicts (backfill_row args ctx cols) = is_entry (fe_participant args) ChargeEntry"
  by (simp add: fun_eq_iff conflicts_def backfill_row_def)

lemma backfill_cases:
  assumes "backfill_charge env db args ctx = Inr db1"
  obtains (kept) "db1 = db"
      and "fe_event_type args = RefundIssued \<Longrightarrow> logicalEntryExists db (fe_participant args) ChargeEntry"
    | (backfilled) cols where "fe_event_type args = RefundIssued"
      and "\<not> logicalEntryExists db (fe_participant args) ChargeEntry" and "amounts_in_range cols"
      and "db1 = db\<lparr>fd_rows := fd_rows db @ [backfill_row args ctx cols]\<rparr>"
proof (cases "fe_event_type args = RefundIssued \<and> \<not> logicalEntryExists db (fe_participant args) ChargeEntry")
  case False
  then show thesis using assms by (intro kept) (auto simp: backfill_charge_def)
next
  case True
  then obtain inserted where i: "insertPlatformFeeMoneyEntry db (backfill_row args ctx)
      (calculatePlatformFeeMoney env (cc_gross ctx) (Some (cc_vat ctx)) (Some 1)) = Inr (db1, inserted)"
    using assms by (auto simp: backfill_charge_def elim!: on_ok_InrE)
  obtain snapshot cols where s: "snapshot_columns snapshot = Inr cols"
      "inserted \<longleftrightarrow> \<not> list_ex (conflicts (backfill_row args ctx cols)) (fd_rows db)"
      "db1 = (if inserted then db\<lparr>fd_rows := fd_rows db @ [backfill_row args ctx cols]\<rparr> else db)"
    by (rule insert_cases [OF i]) blast
  have inserted using True s(2) by (simp add: conflicts_backfill logicalEntryExists_def)
  then show thesis using True s snapshot_columns_range by (intro backfilled) simp_all
qed

lemma record_append:
  assumes "recordProviderFinancialEventInTx env db args = Inr (db', st)"
  shows "\<exists>new. fd_rows db' = fd_rows db @ new" and "fd_participants db' = fd_participants db"
  by (rule record_cases [OF assms]; erule backfill_cases; simp split: if_splits)+

lemma duplicate_intro:
  assumes "loadParticipantChargeContext env db (fe_participant args) (fe_deal args) = Inr ctx"
    and "fe_event_type args = RefundIssued \<Longrightarrow>
      \<exists>row. find (is_entry (fe_participant args) ChargeEntry) (fd_rows db) = Some row
       \<and> snapshot_columns (negated_snapshot (fr_amounts row)) = Inr cols"
    and "fe_event_type args \<noteq> RefundIssued \<Longrightarrow> \<exists>snapshot. snapshot_columns snapshot = Inr cols
       \<and> calculatePlatformFeeMoney env (cc_gross ctx) (Some (cc_vat ctx)) (Some 1) = Inr snapshot"
    and "list_ex (conflicts (event_row args ctx cols)) (fd_rows db)"
  shows "recordProviderFinancialEventInTx env db args = Inr (db, DuplicateIgnored)"
proof (cases "fe_event_type args = RefundIssued")
  case True
  then obtain row where row: "find (is_entry (fe_participant args) ChargeEntry) (fd_rows db) = Some row"
      "snapshot_columns (negated_snapshot (fr_amounts row)) = Inr cols" using assms(2) by blast
  then have "backfill_charge env db args ctx = Inr db"
    using find_list_ex [OF row(1)] by (simp add: backfill_charge_def logicalEntryExists_def)
  then show ?thesis
    using assms(1) row True insert_duplicate [where mk = "event_row args ctx", OF row(2) assms(4)]
    by (simp add: recordProviderFinancialEventInTx_def loadNegated_alt entry_of_def)
next
  case False
  then obtain snapshot where s: "snapshot_columns snapshot = Inr cols"
      "calculatePlatformFeeMoney env (cc_gross ctx) (Some (cc_vat ctx)) (Some 1) = Inr snapshot"
    using assms(3) by blast
  show ?thesis
    using assms(1) s False insert_duplicate [where mk = "event_row args ctx", OF s(1) assms(4)]
    by (simp add: recordProviderFinancialEventInTx_def backfill_charge_def entry_of_def)
qed

lemma record_settled_mono:
  assumes "recordProviderFinancialEventInTx env db e = Inr (db, DuplicateIgnored)"
    and "fd_rows db' = fd_rows db @ new" and "fd_participants db' = fd_participants db"
  shows "recordProviderFinancialEventInTx env db' e = Inr (db', DuplicateIgnored)"
proof -
  have db': "db' = db\<lparr>fd_rows := fd_rows db @ new\<rparr>" using assms(2,3) by simp
  show ?thesis
  proof (rule record_cases [OF assms(1)])
    fix ctx db1 cols
    assume c: "loadParticipantChargeContext env db (fe_participant e) (fe_deal e) = Inr ctx"
      and d: "db = (if DuplicateIgnored = StatusRecorded
        then db1\<lparr>fd_rows := fd_rows db1 @ [event_row e ctx cols]\<rparr> else db1)"
      and r: "fe_event_type e = RefundIssued \<Longrightarrow> \<exists>row. find (is_entry (fe_participant e) ChargeEntry) (fd_rows db1) = Some row
       \<and> snapshot_columns (negated_snapshot (fr_amounts row)) = Inr cols"
      and n: "fe_event_type e \<noteq> RefundIssued \<Longrightarrow> \<exists>snapshot. snapshot_columns snapshot = Inr cols
       \<and> calculatePlatformFeeMoney env (cc_gross ctx) (Some (cc_vat ctx)) (Some 1) = Inr snapshot"
      and st: "DuplicateIgnored = StatusRecorded \<longleftrightarrow> \<not> list_ex (conflicts (event_row e ctx cols)) (fd_rows db1)"
    have eq: "db1 = db" using d by simp
    show ?thesis
    proof (rule duplicate_intro)
      show "loadParticipantChargeContext env db' (fe_participant e) (fe_deal e) = Inr ctx"
        using c by (simp add: db' context_rows)
      show "list_ex (conflicts (event_row e ctx cols)) (fd_rows db')" using st by (simp add: db' eq)
    qed (use r n in \<open>auto simp: db' eq find_append_Some\<close>)
  qed
qed

lemma record_settles:
  assumes "recordProviderFinancialEventInTx env db e = Inr (db', st)"
  shows "recordProviderFinancialEventInTx env db' e = Inr (db', DuplicateIgnored)"
proof (rule record_cases [OF assms])
  fix ctx db1 cols
  assume c: "loadParticipantChargeContext env db (fe_participant e) (fe_deal e) = Inr ctx"
    and b: "backfill_charge env db e ctx = Inr db1"
    and r: "fe_event_type e = RefundIssued \<Longrightarrow> \<exists>row. find (is_entry (fe_participant e) ChargeEntry) (fd_rows db1) = Some row
       \<and> snapshot_columns (negated_snapshot (fr_amounts row)) = Inr cols"
    and s: "fe_event_type e \<noteq> RefundIssued \<Longrightarrow> \<exists>snapshot. snapshot_columns snapshot = Inr cols
       \<and> calculatePlatformFeeMoney env (cc_gross ctx) (Some (cc_vat ctx)) (Some 1) = Inr snapshot"
    and st: "st = StatusRecorded \<longleftrightarrow> \<not> list_ex (conflicts (event_row e ctx cols)) (fd_rows db1)"
    and db': "db' = (if st = StatusRecorded then db1\<lparr>fd_rows := fd_rows db1 @ [event_row e ctx cols]\<rparr> else db1)"
  have "loadParticipantChargeContext env db1 (fe_participant e) (fe_deal e) = Inr ctx"
    using b by (rule backfill_cases) (simp_all add: c context_rows)
  then have ctx': "loadParticipantChargeContext env db' (fe_participant e) (fe_deal e) = Inr ctx"
    by (simp add: db' context_rows)
  have "list_ex (conflicts (event_row e ctx cols)) (fd_rows db')"
    using st by (auto simp: db' conflicts_def is_entry_def)
  then show ?thesis
    using ctx' r s by (intro duplicate_intro [of env _ e ctx cols])
      (auto simp: db' find_append_Some)
qed

section \<open>Consistency\<close>

definition provider_keys :: "fee_row list \<Rightarrow> (string \<times> string option) list" where
  "provider_keys rows =
     map (\<lambda>r. (fr_provider r, fr_provider_event r)) (filter (\<lambda>r. fr_provider_event r \<noteq> None) rows)"

lemma provider_keys_iff:
  "key \<in> set (provider_keys rows) \<longleftrightarrow>
   (\<exists>r \<in> set rows. fr_provider_event r \<noteq> None \<and> key = (fr_provider r, fr_provider_event r))"
  by (auto simp: provider_keys_def)

definition ledger_ok :: "fee_db \<Rightarrow> bool" where
  "ledger_ok db \<longleftrightarrow>
     distinct (map (\<lambda>r. (fr_participant r, fr_entry r)) (fd_rows db))
     \<and> distinct (provider_keys (fd_rows db))
     \<and> list_all (\<lambda>r. amounts_in_range (fr_amounts r)) (fd_rows db)
     \<and> list_all (\<lambda>r. fr_entry r = RefundAdjustment \<longrightarrow>
         list_ex (\<lambda>c. is_entry (fr_participant r) ChargeEntry c
           \<and> fr_amounts r = negated_amounts (fr_amounts c)) (fd_rows db)) (fd_rows db)
     \<and> list_all (\<lambda>r. map_option cr_deal (fd_participants db (fr_participant r)) = Some (fr_deal r)) (fd_rows db)"

lemma ledger_ok_add:
  assumes "ledger_ok db" and "\<not> list_ex (conflicts new) (fd_rows db)"
    and "amounts_in_range (fr_amounts new)"
    and "fr_entry new = RefundAdjustment \<Longrightarrow>
      \<exists>c \<in> set (fd_rows db). is_entry (fr_participant new) ChargeEntry c \<and> fr_amounts new = negated_amounts (fr_amounts c)"
    and "map_option cr_deal (fd_participants db (fr_participant new)) = Some (fr_deal new)"
  shows "ledger_ok (db\<lparr>fd_rows := fd_rows db @ [new]\<rparr>)"
  using assms
  by (auto simp: ledger_ok_def provider_keys_def conflicts_def is_entry_def list_ex_iff list_all_iff)

lemma record_ledger_ok:
  assumes ok: "ledger_ok db" and "recordProviderFinancialEventInTx env db e = Inr (db', st)"
  shows "ledger_ok db'"
proof (rule record_cases [OF assms(2)])
  fix ctx db1 cols
  assume c: "loadParticipantChargeContext env db (fe_participant e) (fe_deal e) = Inr ctx"
    and b: "backfill_charge env db e ctx = Inr db1"
    and r: "fe_event_type e = RefundIssued \<Longrightarrow> \<exists>row. find (is_entry (fe_participant e) ChargeEntry) (fd_rows db1) = Some row
       \<and> snapshot_columns (negated_snapshot (fr_amounts row)) = Inr cols"
    and s: "fe_event_type e \<noteq> RefundIssued \<Longrightarrow> \<exists>snapshot. snapshot_columns snapshot = Inr cols
       \<and> calculatePlatformFeeMoney env (cc_gross ctx) (Some (cc_vat ctx)) (Some 1) = Inr snapshot"
    and st: "st = StatusRecorded \<longleftrightarrow> \<not> list_ex (conflicts (event_row e ctx cols)) (fd_rows db1)"
    and db': "db' = (if st = StatusRecorded then db1\<lparr>fd_rows := fd_rows db1 @ [event_row e ctx cols]\<rparr> else db1)"
  note deal = context_deal [OF c]
  have ok1: "ledger_ok db1"
    using b
  proof (rule backfill_cases)
    fix a assume a: "amounts_in_range a" "\<not> logicalEntryExists db (fe_participant e) ChargeEntry"
      "db1 = db\<lparr>fd_rows := fd_rows db @ [backfill_row e ctx a]\<rparr>"
    have "\<not> list_ex (conflicts (backfill_row e ctx a)) (fd_rows db)"
      using a(2) by (simp add: conflicts_backfill logicalEntryExists_def)
    then show ?thesis
      unfolding a(3) using a(1) deal by (intro ledger_ok_add [OF ok]) (auto simp: backfill_row_def)
  qed (use ok in simp)
  have "fd_participants db1 = fd_participants db" using b by (rule backfill_cases) simp_all
  moreover have "\<exists>c \<in> set (fd_rows db1). is_entry (fe_participant e) ChargeEntry c \<and> cols = negated_amounts (fr_amounts c)"
    if refund: "fe_event_type e = RefundIssued"
  proof -
    obtain row where row: "find (is_entry (fe_participant e) ChargeEntry) (fd_rows db1) = Some row"
      "snapshot_columns (negated_snapshot (fr_amounts row)) = Inr cols" using r refund by blast
    have "amounts_in_range (fr_amounts row)"
      using ok1 find_SomeD [OF row(1)] by (auto simp: ledger_ok_def list_all_iff)
    then show ?thesis using row find_SomeD [OF row(1)] negated_columns by fastforce
  qed
  moreover have "amounts_in_range cols"
    using r s snapshot_columns_range by blast
  ultimately show ?thesis
    using ok1 st deal unfolding db'
    by (cases "st = StatusRecorded") (auto simp: event_row_def intro!: ledger_ok_add)
qed

interpretation fee_ledger: idempotent_ledger "recordProviderFinancialEventInTx env" fd_rows ledger_ok for env
  by unfold_locales
    (auto dest: record_append record_ledger_ok record_settles intro: record_settled_mono)

section \<open>The row of a charge\<close>

definition charge_split :: "int \<Rightarrow> int \<Rightarrow> int \<Rightarrow> fee_amounts \<Rightarrow> bool" where
  "charge_split g v w a \<longleftrightarrow>
     fa_gross a = g \<and> fa_vat a = v \<and> fa_fee_base a = g - v
     \<and> fa_platform_fee_base a = (8 * (g - v) + 50) div 100 \<and> fa_platform_fee_vat a = w
     \<and> fa_platform_fee_total a = fa_platform_fee_base a + w \<and> fa_platform_fee a = fa_platform_fee_total a
     \<and> fa_seller_net a = g - fa_platform_fee_total a"

lemma rate_column_ex:
  assumes "0 \<le> r" and "r \<le> 1"
  obtains n where "rate_column (js_of_rat r) = Inr n"
proof -
  have "\<bar>fl64 r - r\<bar> \<le> 1 / 10 ^ 15" by (rule rate_near(2) [OF assms])
  then have "\<bar>fl64 r - r\<bar> \<le> 1" by (rule order_trans) simp
  then have "\<bar>fl64 r\<bar> \<le> 2" by (rule near_bound [where b = 1]) (use assms in simp_all)
  then have "\<bar>fl64 r * 10 ^ 4\<bar> \<le> 20000" by (simp add: abs_mult)
  then have "\<bar>of_int (round_half_up (fl64 r * 10 ^ 4))\<bar> \<le> (20001 :: rat)"
    by (intro near_bound [OF round_half_up_error, of _ 20000]) simp_all
  then have "\<bar>round_half_up (fl64 r * 10 ^ 4)\<bar> \<le> 20001" by (metis of_int_abs of_int_le_iff of_int_numeral)
  then show thesis using rate_near(1) [OF assms] by (intro that) (simp add: rate_column_def to_column_def)
qed

lemma split_columns:
  assumes "splits_charge 1 r g v snapshot" and "0 \<le> v" and "v \<le> g" and "g \<le> 10 ^ 11"
    and "rate_column (fs_platform_fee_rate snapshot) = Inr n" and "rate_column (fs_platform_fee_vat_rate snapshot) = Inr q"
  obtains a w where "snapshot_columns snapshot = Inr a" and "charge_split g v w a"
    and "0 \<le> w" and "w \<le> (8 * (g - v) + 50) div 100"
proof -
  define b where "b = (8 * (g - v) + 50) div 100"
  obtain w where w: "0 \<le> w" "w \<le> b"
      and f: "fs_gross_amount snapshot = money g" "fs_vat_amount snapshot = money v"
        "fs_fee_base_amount snapshot = money (g - v)" "fs_platform_fee_base_amount snapshot = money b"
        "fs_platform_fee_vat_amount snapshot = money w" "fs_platform_fee_total_amount snapshot = money (b + w)"
        "fs_platform_fee_amount snapshot = money (b + w)" "fs_seller_net_amount snapshot = money (g - (b + w))"
    using assms(1) by (auto simp: splits_charge_def Let_def b_def)
  have bb: "0 \<le> b" "b \<le> 10 ^ 10" using assms(2-4) by (simp_all add: b_def)
  have "\<bar>g\<bar> < 10 ^ 12" "\<bar>v\<bar> < 10 ^ 12" "\<bar>g - v\<bar> < 10 ^ 12" "\<bar>b\<bar> < 10 ^ 12" "\<bar>w\<bar> < 10 ^ 12"
    "\<bar>b + w\<bar> < 10 ^ 12" "\<bar>g - (b + w)\<bar> < 10 ^ 12"
    using w bb assms(2-4) by simp_all
  then have columns: "snapshot_columns snapshot = Inr
    \<lparr>fa_gross = g, fa_vat = v, fa_fee_base = g - v, fa_rate = n, fa_vat_rate = q, fa_platform_fee_base = b,
     fa_platform_fee_vat = w, fa_platform_fee_total = b + w, fa_platform_fee = b + w, fa_seller_net = g - (b + w)\<rparr>"
    (is "_ = Inr ?a")
    unfolding snapshot_columns_def f by (simp only: assms(5,6) money_column_money on_ok_simps)
  have "charge_split g v w ?a" unfolding charge_split_def fee_amounts.select_convs b_def by blast
  with columns show thesis using w unfolding b_def by (rule that)
qed

lemma fl64_nonneg: "0 \<le> x \<Longrightarrow> 0 \<le> fl64 x"
  by (auto simp: fl64_def Let_def rne_def intro!: mult_nonneg_nonneg)

text \<open>Quantity times price, in binary floating point.\<close>

lemma product_gross:
  assumes "0 \<le> q" and "q \<le> 10 ^ 6" and "0 \<le> u" and "q * u \<le> 10 ^ 10"
  obtains x where "js_mul (Fin (of_int q)) (money u) = Fin x" and "0 \<le> x"
    and "\<bar>x - of_int (q * u) / 100\<bar> \<le> 1 / 2000"
proof -
  let ?y = "of_int q * cents u" and ?z = "of_int (q * u) / 100 :: rat"
  have "(of_int q :: rat) \<le> of_int (10 ^ 6)" using assms(2) by (simp only: of_int_le_iff)
  then have q: "(0 :: rat) \<le> of_int q" "of_int q \<le> (10 ^ 6 :: rat)" using assms(1) by simp_all
  have u: "(0 :: rat) \<le> of_int u / 100" using assms(3) by simp
  have "(of_int (q * u) :: rat) \<le> of_int (10 ^ 10)" using assms(4) by (simp only: of_int_le_iff)
  then have z: "0 \<le> ?z" "?z \<le> 10 ^ 8" using assms(1,3) by simp_all
  have "\<bar>cents u - of_int u / 100\<bar> \<le> of_int u / 100 / 2 ^ 53 + 1 / 2 ^ 1000"
    using b64.fl_error [of "of_int u / 100"] u by (simp add: cents_def)
  then have "of_int q * \<bar>cents u - of_int u / 100\<bar> \<le> of_int q * (of_int u / 100 / 2 ^ 53 + 1 / 2 ^ 1000)"
    using q(1) by (rule mult_left_mono)
  also have "\<dots> = ?z / 2 ^ 53 + of_int q / 2 ^ 1000" by (simp add: algebra_simps)
  also have "\<dots> \<le> 10 ^ 8 / 2 ^ 53 + 10 ^ 6 / 2 ^ 1000"
    using z(2) q(2) by (intro add_mono divide_right_mono) simp_all
  also have "\<dots> \<le> 1 / 10 ^ 7" by simp
  finally have "of_int q * \<bar>cents u - of_int u / 100\<bar> \<le> 1 / 10 ^ 7" .
  moreover have "?y - ?z = of_int q * (cents u - of_int u / 100)" by (simp add: algebra_simps)
  ultimately have "\<bar>?y - ?z\<bar> \<le> 1 / 10 ^ 7" by (simp only: abs_mult abs_of_nonneg [OF q(1)])
  then have y: "\<bar>?y - ?z\<bar> \<le> 1 / 10000" by (rule order_trans) simp
  then have yb: "\<bar>?y\<bar> \<le> 2 * 10 ^ 11" by (rule near_bound [where b = "10 ^ 8"]) (use z in simp_all)
  have "0 \<le> cents u" unfolding cents_def by (rule fl64_nonneg [OF u])
  then have "0 \<le> fl64 ?y" using q(1) by (intro fl64_nonneg) simp
  moreover have "\<bar>fl64 ?y - ?z\<bar> \<le> 1 / 10000 + 1 / 40000" by (rule b64.fl_small_near [OF y yb])
  then have "\<bar>fl64 ?y - ?z\<bar> \<le> 1 / 2000" by (rule order_trans) simp
  moreover have "\<bar>?y\<bar> \<le> 10 ^ 15" using yb by (rule order_trans) simp
  then have "js_mul (Fin (of_int q)) (money u) = Fin (fl64 ?y)" by (simp add: money_def js_of_rat_small)
  ultimately show thesis by (intro that)
qed

definition priced :: "charge_row \<Rightarrow> int \<Rightarrow> int \<Rightarrow> int \<Rightarrow> bool" where
  "priced row q u d \<longleftrightarrow>
     cr_qty row = Fin (of_int q) \<and> cr_price row = money u \<and> cr_delivery row = money d
     \<and> 0 \<le> q \<and> q \<le> 10 ^ 6 \<and> 0 \<le> u \<and> 0 \<le> d \<and> q * u + d \<le> 10 ^ 10"

lemma charge_context:
  assumes row: "fd_participants db p = Some row" "cr_deal row = deal" and pr: "priced row q u d"
    and config: "vatAuthorityConfig env = Inr config"
  obtains ctx v where "loadParticipantChargeContext env db p deal = Inr ctx"
    and "cc_gross ctx = money (q * u + d)" and "cc_vat ctx = money v" and "0 \<le> v" and "v \<le> q * u + d"
proof -
  have n: "0 \<le> q" "q \<le> 10 ^ 6" "0 \<le> u" "0 \<le> d" "q * u + d \<le> 10 ^ 10" "0 \<le> q * u"
    using pr by (simp_all add: priced_def)
  then have qu: "q * u \<le> 10 ^ 10" and dm: "d \<le> 10 ^ 10" by linarith+
  obtain x where x: "js_mul (Fin (of_int q)) (money u) = Fin x" "0 \<le> x"
      "\<bar>x - of_int (q * u) / 100\<bar> \<le> 1 / 2000"
    by (rule product_gross [OF n(1-3) qu])
  have x': "\<bar>x - of_int (q * u) / 100\<bar> \<le> 1 / 1000" using x(3) by (rule order_trans) simp
  have d13: "\<bar>d\<bar> \<le> 10 ^ 13" using n(4) dm by simp
  have y: "\<bar>cents d - of_int d / 100\<bar> \<le> 1 / 40000" by (rule cents_near [OF d13])
  have y': "\<bar>cents d - of_int d / 100\<bar> \<le> 1 / 1000" using y by (rule order_trans) simp
  have y0: "0 \<le> cents d" unfolding cents_def using n(4) by (intro fl64_nonneg) simp
  have s: "\<bar>(x + cents d) - of_int (q * u + d) / 100\<bar> \<le> 1 / 1000"
    using near_add [OF x(3) y] unfolding of_int_add add_divide_distrib by (rule order_trans) simp
  have z: "\<bar>of_int (q * u + d) / 100 :: rat\<bar> \<le> 10 ^ 10"
    using rat_abs_le [of "q * u + d" "10 ^ 10"] n by (simp add: abs_divide)
  have sb: "\<bar>x + cents d\<bar> \<le> 2 * 10 ^ 11" by (rule near_bound [OF s z]) simp
  have "\<bar>fl64 (x + cents d) - of_int (q * u + d) / 100\<bar> \<le> 1 / 1000 + 1 / 40000"
    by (rule b64.fl_small_near [OF s sb])
  then have "\<bar>fl64 (x + cents d) - of_int (q * u + d) / 100\<bar> \<le> 4 / 1000" by (rule order_trans) simp
  then have "roundMoney (Fin (fl64 (x + cents d))) = money (q * u + d)"
    by (rule roundMoney_near) (use n in simp)
  moreover have "\<bar>x + cents d\<bar> \<le> 10 ^ 15" using sb by (rule order_trans) simp
  ultimately have gross: "roundMoney (js_add (Fin x) (money d)) = money (q * u + d)"
    by (simp add: money_def js_of_rat_small)
  have "q * u \<le> 10 ^ 11" "d \<le> 10 ^ 11" using qu dm by simp_all
  then obtain wp wd snap where vat: "computeCustomerChargeVat env (Fin x) (money d) = Inr snap"
      "vs_vat_amount snap = money (wp + wd)" "0 \<le> wp" "wp \<le> q * u" "0 \<le> wd" "wd \<le> d"
    using computeCustomerChargeVat_bounds [OF config n(6) _ x' x(2) n(4) _ y' y0] unfolding money_def by blast
  show thesis
    using row pr x(1) gross vat
    by (intro that [of "\<lparr>cc_deal = deal, cc_seller = cr_seller row, cc_gross = money (q * u + d),
          cc_vat = money (wp + wd)\<rparr>" "wp + wd"])
      (simp_all add: loadParticipantChargeContext_def priced_def)
qed

lemma charge_amounts:
  assumes g: "cc_gross ctx = money g" "cc_vat ctx = money v" "0 \<le> v" "v \<le> g" "g \<le> 10 ^ 10"
    and rate: "SITON_PLATFORM_FEE_VAT_RATE env = js_of_rat r" "0 \<le> r" "r \<le> 1"
  obtains snapshot a w where
    "calculatePlatformFeeMoney env (cc_gross ctx) (Some (cc_vat ctx)) (Some 1) = Inr snapshot"
    "snapshot_columns snapshot = Inr a" "charge_split g v w a" "0 \<le> w" "w \<le> (8 * (g - v) + 50) div 100"
proof -
  have g11: "g \<le> 10 ^ 11" using g(5) by simp
  obtain snapshot where s: "calculatePlatformFeeMoney env (money g) (Some (money v)) (Some 1) = Inr snapshot"
      "splits_charge (signed (Some 1)) r g v snapshot"
    using fee_splits [OF g(3,4) g11 rate] by blast
  have rates: "fs_platform_fee_rate snapshot = js_of_rat (8 / 100)" "fs_platform_fee_vat_rate snapshot = js_of_rat r"
    using s(1) rate(1) unfolding calculatePlatformFeeMoney_def
    by (auto simp: Let_def SITON_PLATFORM_FEE_RATE_def elim!: on_ok_InrE)
  obtain n where n: "rate_column (js_of_rat (8 / 100)) = Inr n" by (rule rate_column_ex [of "8 / 100"]) simp_all
  obtain k where k: "rate_column (js_of_rat r) = Inr k" by (rule rate_column_ex [OF rate(2,3)])
  have "splits_charge 1 r g v snapshot" using s(2) by (simp add: signed_def)
  from split_columns [OF this g(3,4) g11] n k show thesis
    using that s(1) unfolding rates g(1,2) by blast
qed

lemma charge_recorded:
  assumes row: "fd_participants db (fe_participant e) = Some row" "cr_deal row = fe_deal e"
    and pr: "priced row q u d" and config: "vatAuthorityConfig env = Inr config"
    and rate: "SITON_PLATFORM_FEE_VAT_RATE env = js_of_rat r" "0 \<le> r" "r \<le> 1"
    and e: "fe_event_type e \<noteq> RefundIssued"
    and fresh: "\<not> list_ex (is_entry (fe_participant e) ChargeEntry) (fd_rows db)"
      "fe_provider_event e = None \<or> (fe_provider e, fe_provider_event e) \<notin> set (provider_keys (fd_rows db))"
  shows "\<exists>new v w. recordProviderFinancialEventInTx env db e = Inr (db\<lparr>fd_rows := fd_rows db @ [new]\<rparr>, StatusRecorded)
    \<and> is_entry (fe_participant e) ChargeEntry new \<and> fr_readiness new = ReadyForSettlement
    \<and> charge_split (q * u + d) v w (fr_amounts new) \<and> 0 \<le> v \<and> v \<le> q * u + d
    \<and> 0 \<le> w \<and> w \<le> (8 * (q * u + d - v) + 50) div 100"
proof -
  obtain ctx v where c: "loadParticipantChargeContext env db (fe_participant e) (fe_deal e) = Inr ctx"
      "cc_gross ctx = money (q * u + d)" "cc_vat ctx = money v" "0 \<le> v" "v \<le> q * u + d"
    by (rule charge_context [OF row pr config])
  have b: "q * u + d \<le> 10 ^ 10" using pr by (simp add: priced_def)
  obtain snapshot a w where s:
      "calculatePlatformFeeMoney env (cc_gross ctx) (Some (cc_vat ctx)) (Some 1) = Inr snapshot"
      "snapshot_columns snapshot = Inr a" "charge_split (q * u + d) v w a" "0 \<le> w"
      "w \<le> (8 * (q * u + d - v) + 50) div 100"
    by (rule charge_amounts [OF c(2-5) b rate])
  let ?new = "event_row e ctx a"
  have new: "is_entry (fe_participant e) ChargeEntry ?new" "fr_readiness ?new = ReadyForSettlement"
    "fr_amounts ?new = a" using e by (simp_all add: event_row_def is_entry_def)
  have "\<not> conflicts ?new r" if "r \<in> set (fd_rows db)" for r
    using fresh that e by (auto simp: conflicts_def event_row_def entry_of_def provider_keys_iff list_ex_iff)
  then have "\<not> list_ex (conflicts ?new) (fd_rows db)" by (simp add: list_ex_iff)
  then have "recordProviderFinancialEventInTx env db e =
      Inr (db\<lparr>fd_rows := fd_rows db @ [?new]\<rparr>, StatusRecorded)"
    using c(1) s(1,2) e
    by (simp add: recordProviderFinancialEventInTx_def backfill_charge_def entry_of_def
        insertPlatformFeeMoneyEntry_def)
  with new s(3-5) c(4,5) show ?thesis by (intro exI [of _ ?new] exI [of _ v] exI [of _ w]) simp
qed

lemma refund_recorded:
  assumes "ledger_ok db" and row: "fd_participants db (fe_participant e) = Some row" "cr_deal row = fe_deal e"
    and pr: "priced row q u d" and config: "vatAuthorityConfig env = Inr config"
    and e: "fe_event_type e = RefundIssued"
    and charge: "find (is_entry (fe_participant e) ChargeEntry) (fd_rows db) = Some c"
    and fresh: "\<not> list_ex (is_entry (fe_participant e) RefundAdjustment) (fd_rows db)"
      "fe_provider_event e = None \<or> (fe_provider e, fe_provider_event e) \<notin> set (provider_keys (fd_rows db))"
  shows "\<exists>new. recordProviderFinancialEventInTx env db e = Inr (db\<lparr>fd_rows := fd_rows db @ [new]\<rparr>, StatusRecorded)
    \<and> is_entry (fe_participant e) RefundAdjustment new \<and> fr_amounts new = negated_amounts (fr_amounts c)"
proof -
  obtain ctx v where ctx: "loadParticipantChargeContext env db (fe_participant e) (fe_deal e) = Inr ctx"
    by (rule charge_context [OF row pr config])
  have "amounts_in_range (fr_amounts c)"
    using assms(1) find_SomeD [OF charge] by (auto simp: ledger_ok_def list_all_iff)
  note columns = negated_columns [OF this]
  let ?new = "event_row e ctx (negated_amounts (fr_amounts c))"
  have "\<not> conflicts ?new r" if "r \<in> set (fd_rows db)" for r
    using fresh that e by (auto simp: conflicts_def event_row_def entry_of_def provider_keys_iff list_ex_iff)
  then have "\<not> list_ex (conflicts ?new) (fd_rows db)" by (simp add: list_ex_iff)
  then have "recordProviderFinancialEventInTx env db e =
      Inr (db\<lparr>fd_rows := fd_rows db @ [?new]\<rparr>, StatusRecorded)"
    using ctx charge columns find_list_ex [OF charge] e
    by (simp add: recordProviderFinancialEventInTx_def backfill_charge_def logicalEntryExists_def
        entry_of_def loadNegated_alt insertPlatformFeeMoneyEntry_def)
  then show ?thesis using e
    by (intro exI [of _ ?new]) (simp add: event_row_def is_entry_def)
qed

section \<open>The rows of a participant\<close>

lemma key_unique:
  "ledger_ok db \<Longrightarrow> r \<in> set (fd_rows db) \<Longrightarrow> r' \<in> set (fd_rows db) \<Longrightarrow>
   is_entry p t r \<Longrightarrow> is_entry p t r' \<Longrightarrow> r = r'"
  by (auto simp: ledger_ok_def is_entry_def distinct_map dest: inj_onD)

lemma refunded_rows:
  assumes ok: "ledger_ok db" and "r \<in> set (fd_rows db)" and "is_entry p RefundAdjustment r"
  obtains c where "set (filter (\<lambda>x. fr_participant x = p) (fd_rows db)) = {c, r}"
    and "fr_entry c = ChargeEntry" and "fr_amounts r = negated_amounts (fr_amounts c)"
    and "fr_deal c = fr_deal r"
proof -
  obtain c where c: "c \<in> set (fd_rows db)" "is_entry p ChargeEntry c" "fr_amounts r = negated_amounts (fr_amounts c)"
    using assms by (fastforce simp: ledger_ok_def list_all_iff list_ex_iff is_entry_def)
  have "x = c \<or> x = r" if "x \<in> set (fd_rows db)" "fr_participant x = p" for x
    using key_unique [OF ok that(1)] assms(2,3) c that(2) by (cases "fr_entry x") (auto simp: is_entry_def)
  then have "set (filter (\<lambda>x. fr_participant x = p) (fd_rows db)) = {c, r}"
    using c assms(2,3) by (auto simp: is_entry_def)
  moreover have "map_option cr_deal (fd_participants db p) = Some (fr_deal c)"
    "map_option cr_deal (fd_participants db p) = Some (fr_deal r)"
    using ok c(1,2) assms(2,3) by (fastforce simp: ledger_ok_def list_all_iff is_entry_def)+
  ultimately show thesis using that c(2,3) by (simp add: is_entry_def)
qed

lemma ledger_distinct: "ledger_ok db \<Longrightarrow> distinct (fd_rows db)"
  by (simp add: ledger_ok_def distinct_map)

lemma two_elements:
  assumes "set xs = {a, b}" and "a \<noteq> b" and "distinct xs"
  shows "xs = [a, b] \<or> xs = [b, a]"
proof -
  have "length xs = Suc (Suc 0)" using distinct_card [OF assms(3)] assms(1,2) by simp
  then obtain x y where "xs = [x, y]" by (auto simp: length_Suc_conv)
  with assms show ?thesis by auto
qed

lemma refunded_summary:
  assumes ok: "ledger_ok db" and "r \<in> set (fd_rows db)" and "is_entry p RefundAdjustment r"
  shows "\<exists>s. summarizeParticipantSettlementInTx db p = Some s \<and> sm_entries s = 2
    \<and> sm_charge_entries s = 1 \<and> sm_refund_entries s = 1 \<and> sm_readiness s = RefundedNotPayable
    \<and> sm_gross s = money 0 \<and> sm_vat s = money 0 \<and> sm_fee_base s = money 0
    \<and> sm_platform_fee_base s = money 0 \<and> sm_platform_fee_vat s = money 0
    \<and> sm_platform_fee_total s = money 0 \<and> sm_platform_fee s = money 0 \<and> sm_seller_net s = money 0"
proof -
  define xs where "xs = filter (\<lambda>x. fr_participant x = p) (fd_rows db)"
  obtain c where c: "set xs = {c, r}" "fr_entry c = ChargeEntry" "fr_amounts r = negated_amounts (fr_amounts c)"
      "fr_deal c = fr_deal r"
    using refunded_rows [OF assms] by (auto simp: xs_def)
  have r: "fr_entry r = RefundAdjustment" using assms(3) by (simp add: is_entry_def)
  have d: "distinct xs" using ledger_distinct [OF ok] by (simp add: xs_def)
  have "c \<noteq> r" using c(2) r by auto
  then have "xs = [c, r] \<or> xs = [r, c]" by (rule two_elements [OF c(1) _ d])
  then have sums: "column_sum f xs = f (fr_amounts c) + f (negated_amounts (fr_amounts c))" for f
    using c(3) by (auto simp: column_sum_def)
  have "filter (\<lambda>x. fr_deal x = fr_deal (hd xs)) xs = xs" "xs \<noteq> []" "length xs = 2"
    "length (filter (\<lambda>x. fr_entry x = ChargeEntry) xs) = 1"
    "length (filter (\<lambda>x. fr_entry x = RefundAdjustment) xs) = 1"
    using \<open>xs = [c, r] \<or> xs = [r, c]\<close> c(2,4) r by auto
  then obtain y ys where y: "xs = y # ys" "filter (\<lambda>x. fr_deal x = fr_deal y) (y # ys) = y # ys"
      "length (y # ys) = 2" "length (filter (\<lambda>x. fr_entry x = ChargeEntry) (y # ys)) = 1"
      "length (filter (\<lambda>x. fr_entry x = RefundAdjustment) (y # ys)) = 1"
    by (cases xs) auto
  have z: "roundMoney (money 0) = money 0" by (rule roundMoney_money) simp
  show ?thesis
    using sums unfolding summarizeParticipantSettlementInTx_def xs_def [symmetric] y(1) list.case y(2) Let_def
    by (simp only: y(3-5)) (simp add: negated_amounts_def z)
qed

section \<open>Properties\<close>

text \<open>C16: Whatever sequence of provider events is recorded, the ledger only grows, and stays consistent: at
  most one charge row and one refund row per participant, one row per provider event, and every
  refund row is the exact negation, column by column, of the participant's charge row.\<close>

theorem fee_ledger_consistent:
  assumes "ledger_ok db" and "post_all (recordProviderFinancialEventInTx env) db events = Inr db'"
  shows "ledger_ok db' \<and> (\<exists>new. fd_rows db' = fd_rows db @ new)"
  using fee_ledger.post_all_consistent [OF assms] fee_ledger.post_all_append [OF assms(2)] by simp

text \<open>A provider event delivered again, after any number of other events, is reported as a duplicate
  and leaves the ledger as it was.\<close>

theorem fee_ledger_redelivery:
  assumes "post_all (recordProviderFinancialEventInTx env) db events = Inr db'" and "e \<in> set events"
  shows "recordProviderFinancialEventInTx env db' e = Inr (db', DuplicateIgnored)"
  by (rule fee_ledger.redelivery [OF assms])


text \<open>C2: The first capture reported for a participant writes exactly one row. Its gross is quantity times
  price plus delivery, to the agora, although both are computed in binary floating point; VAT and fee
  split it without loss: fee base = gross - VAT, platform fee = 8 per cent of the base rounded half
  up, total = fee + VAT on the fee, seller net = gross - total.\<close>

theorem capture_writes_split_row:
  assumes "fd_participants db (fe_participant e) = Some row" and "cr_deal row = fe_deal e"
    and "priced row q u d" and "vatAuthorityConfig env = Inr config"
    and "SITON_PLATFORM_FEE_VAT_RATE env = js_of_rat r" and "0 \<le> r" and "r \<le> 1"
    and "fe_event_type e \<noteq> RefundIssued"
    and "\<not> list_ex (is_entry (fe_participant e) ChargeEntry) (fd_rows db)"
    and "fe_provider_event e = None \<or> (fe_provider e, fe_provider_event e) \<notin> set (provider_keys (fd_rows db))"
  shows "\<exists>new v w. recordProviderFinancialEventInTx env db e = Inr (db\<lparr>fd_rows := fd_rows db @ [new]\<rparr>, StatusRecorded)
    \<and> is_entry (fe_participant e) ChargeEntry new \<and> fr_readiness new = ReadyForSettlement
    \<and> charge_split (q * u + d) v w (fr_amounts new) \<and> 0 \<le> v \<and> v \<le> q * u + d
    \<and> 0 \<le> w \<and> w \<le> (8 * (q * u + d - v) + 50) div 100"
  by (rule charge_recorded [OF assms])

text \<open>C1: A recorded refund takes the participant to zero: whatever rates were in force when the charge and
  the refund were recorded, every column of the settlement summary nets to exactly zero and the
  participant is no longer payable.\<close>

theorem refund_nets_to_zero:
  assumes "ledger_ok db" and "fe_event_type e = RefundIssued"
    and "recordProviderFinancialEventInTx env db e = Inr (db', StatusRecorded)"
  shows "\<exists>s. summarizeParticipantSettlementInTx db' (fe_participant e) = Some s \<and> sm_entries s = 2
    \<and> sm_charge_entries s = 1 \<and> sm_refund_entries s = 1 \<and> sm_readiness s = RefundedNotPayable
    \<and> sm_gross s = money 0 \<and> sm_vat s = money 0 \<and> sm_fee_base s = money 0
    \<and> sm_platform_fee_base s = money 0 \<and> sm_platform_fee_vat s = money 0
    \<and> sm_platform_fee_total s = money 0 \<and> sm_platform_fee s = money 0 \<and> sm_seller_net s = money 0"
proof (rule record_cases [OF assms(3)])
  fix ctx db1 cols
  assume "db' = (if StatusRecorded = StatusRecorded
    then db1\<lparr>fd_rows := fd_rows db1 @ [event_row e ctx cols]\<rparr> else db1)"
  then have "event_row e ctx cols \<in> set (fd_rows db')" by simp
  moreover have "is_entry (fe_participant e) RefundAdjustment (event_row e ctx cols)"
    using assms(2) by (simp add: event_row_def is_entry_def)
  ultimately show ?thesis by (rule refunded_summary [OF record_ledger_ok [OF assms(1,3)]])
qed

section \<open>An example ledger\<close>

definition sample_db :: fee_db where
  "sample_db = \<lparr>fd_rows = [], fd_participants = [''p1'' \<mapsto>
     \<lparr>cr_deal = ''d1'', cr_seller = ''s1'', cr_qty = Fin 3, cr_price = money 9990, cr_delivery = money 2500\<rparr>]\<rparr>"

definition sample_event :: "fee_event_type \<Rightarrow> string \<Rightarrow> fee_event" where
  "sample_event t reference =
     \<lparr>fe_participant = ''p1'', fe_deal = ''d1'', fe_event_type = t, fe_provider = ''mockpay'',
      fe_provider_event = Some reference, fe_reference = None, fe_correlation = None,
      fe_source_money_state = ''Charged''\<rparr>"

lemma sample_ok: "ledger_ok sample_db"
  by (simp add: ledger_ok_def sample_db_def provider_keys_def)

lemma sample_priced:
  "priced \<lparr>cr_deal = ''d1'', cr_seller = ''s1'', cr_qty = Fin 3, cr_price = money 9990, cr_delivery = money 2500\<rparr> 3 9990 2500"
  by (simp add: priced_def)

theorem capture_writes_split_row_witness:
  "\<exists>new v w. recordProviderFinancialEventInTx empty_env sample_db (sample_event ChargeCaptured ''ev1'')
      = Inr (sample_db\<lparr>fd_rows := fd_rows sample_db @ [new]\<rparr>, StatusRecorded)
    \<and> is_entry ''p1'' ChargeEntry new \<and> fr_readiness new = ReadyForSettlement
    \<and> charge_split (3 * 9990 + 2500) v w (fr_amounts new) \<and> 0 \<le> v \<and> v \<le> 3 * 9990 + 2500
    \<and> 0 \<le> w \<and> w \<le> (8 * (3 * 9990 + 2500 - v) + 50) div 100"
  using capture_writes_split_row [OF _ _ sample_priced synthetic_config_empty default_vat_rate, of sample_db
      "sample_event ChargeCaptured ''ev1''"]
  by (simp add: sample_db_def sample_event_def provider_keys_def)

lemma sample_charge:
  obtains db' where "recordProviderFinancialEventInTx empty_env sample_db (sample_event ChargeCaptured ''ev1'')
    = Inr (db', StatusRecorded)"
  using charge_recorded [OF _ _ sample_priced synthetic_config_empty default_vat_rate, of sample_db
      "sample_event ChargeCaptured ''ev1''"] that
  by (auto simp: sample_db_def sample_event_def provider_keys_def)

theorem fee_ledger_consistent_witness:
  "\<exists>db'. post_all (recordProviderFinancialEventInTx empty_env) sample_db [sample_event ChargeCaptured ''ev1''] = Inr db'
    \<and> ledger_ok db' \<and> (\<exists>new. fd_rows db' = fd_rows sample_db @ new)"
proof -
  obtain db' where "post_all (recordProviderFinancialEventInTx empty_env) sample_db
      [sample_event ChargeCaptured ''ev1''] = Inr db'"
    by (rule sample_charge) simp
  with fee_ledger_consistent [OF sample_ok this] show ?thesis by blast
qed

theorem fee_ledger_redelivery_witness:
  "\<exists>db'. recordProviderFinancialEventInTx empty_env db' (sample_event ChargeCaptured ''ev1'') = Inr (db', DuplicateIgnored)"
proof -
  obtain db' where "post_all (recordProviderFinancialEventInTx empty_env) sample_db
      [sample_event ChargeCaptured ''ev1''] = Inr db'"
    by (rule sample_charge) simp
  from fee_ledger_redelivery [OF this] show ?thesis by auto
qed

definition sample_row :: fee_row where
  "sample_row =
     \<lparr>fr_participant = ''p1'', fr_deal = ''d1'', fr_seller = ''s1'', fr_event_type = ChargeCaptured,
      fr_entry = ChargeEntry, fr_provider = ''mockpay'', fr_provider_event = Some ''ev1'', fr_reference = None,
      fr_correlation = None, fr_source_money_state = ''Charged'', fr_settlement_status = Recorded,
      fr_readiness = ReadyForSettlement,
      fr_amounts = \<lparr>fa_gross = 32470, fa_vat = 0, fa_fee_base = 32470, fa_rate = 800, fa_vat_rate = 1700,
        fa_platform_fee_base = 2598, fa_platform_fee_vat = 442, fa_platform_fee_total = 3040,
        fa_platform_fee = 3040, fa_seller_net = 29430\<rparr>\<rparr>"

definition sample_charged_db :: fee_db where
  "sample_charged_db = sample_db\<lparr>fd_rows := [sample_row]\<rparr>"

lemma sample_charged_ok: "ledger_ok sample_charged_db"
  by (simp add: ledger_ok_def sample_charged_db_def sample_db_def sample_row_def provider_keys_def amounts_in_range_def)

theorem refund_nets_to_zero_witness:
  "\<exists>db' s. recordProviderFinancialEventInTx empty_env sample_charged_db (sample_event RefundIssued ''ev2'')
      = Inr (db', StatusRecorded)
    \<and> summarizeParticipantSettlementInTx db' ''p1'' = Some s \<and> sm_seller_net s = money 0"
proof -
  have "\<exists>new. recordProviderFinancialEventInTx empty_env sample_charged_db (sample_event RefundIssued ''ev2'')
      = Inr (sample_charged_db\<lparr>fd_rows := fd_rows sample_charged_db @ [new]\<rparr>, StatusRecorded)"
    using refund_recorded [OF sample_charged_ok _ _ sample_priced synthetic_config_empty,
        of "sample_event RefundIssued ''ev2''" sample_row]
    by (auto simp: sample_charged_db_def sample_db_def sample_event_def sample_row_def is_entry_def provider_keys_def)
  then obtain db' where r: "recordProviderFinancialEventInTx empty_env sample_charged_db
      (sample_event RefundIssued ''ev2'') = Inr (db', StatusRecorded)" by blast
  have t: "fe_event_type (sample_event RefundIssued ''ev2'') = RefundIssued" "fe_participant (sample_event RefundIssued ''ev2'') = ''p1''"
    by (simp_all add: sample_event_def)
  from refund_nets_to_zero [OF sample_charged_ok t(1) r] r show ?thesis unfolding t(2) by blast
qed

end
