(* ===== verification/WorkerPolicy.thy ===== *)
theory WorkerPolicy
  imports RuntimeConfig "HOL-Library.Multiset"
begin

text \<open>
  \<open>src/worker_scheduler.ts\<close> and the pure part of \<open>src/outbox_worker_helpers.ts\<close>: the lanes and
  retry classes of outbox events, the retry delay, the attempt ceiling, the worker's cycle backoff,
  the alert limiter and emitter, the watchdog, and the scheduling of a batch over the runners of a
  lane. Clock readings are whole milliseconds.
\<close>

section \<open>Lanes and retry classes\<close>

definition MONEY_LANE_EVENT_TYPES :: "string list" where
  "MONEY_LANE_EVENT_TYPES =
     [''charge_deal'', ''recovery_deal'', ''refund_issue'', ''cancel_refund'', ''payment_reconcile'', ''payment_release'']"

definition RECONCILE_LANE_EVENT_TYPES :: "string list" where
  "RECONCILE_LANE_EVENT_TYPES = [''seller_payout_reconcile'', ''invoice_document_reconcile'']"

definition INVOICE_LANE_EVENT_TYPES :: "string list" where
  "INVOICE_LANE_EVENT_TYPES = [''invoice_document_issue'']"

definition PAYOUT_EVENT_TYPES :: "string list" where
  "PAYOUT_EVENT_TYPES = [''seller_payout_prepare'', ''seller_payout_dispatch'']"

text \<open>The four lanes carry the names of the four retry classes.\<close>

type_synonym worker_lane = retry_class

definition workerLane :: "string \<Rightarrow> worker_lane" where
  "workerLane eventType =
     (if List.member MONEY_LANE_EVENT_TYPES eventType then MoneyClass
      else if List.member RECONCILE_LANE_EVENT_TYPES eventType then ReconcileClass
      else if List.member INVOICE_LANE_EVENT_TYPES eventType then InvoiceClass
      else DefaultClass)"

definition outboxRetryClass :: "string \<Rightarrow> retry_class" where
  "outboxRetryClass eventType =
     (if List.member PAYOUT_EVENT_TYPES eventType then MoneyClass else workerLane eventType)"

section \<open>The retry delay\<close>

definition js_pow2 :: "jsnum \<Rightarrow> jsnum" where
  "js_pow2 n = (case n of Fin v \<Rightarrow> js_of_rat (pow2 \<lfloor>v\<rfloor>) | PInf \<Rightarrow> PInf | NInf \<Rightarrow> Fin 0 | NaN \<Rightarrow> NaN)"

text \<open>\<open>sample\<close> is the value \<open>Math.random()\<close> returns; it is read only when there is jitter.\<close>

definition calculateOutboxRetryDelayMs :: "jsnum \<Rightarrow> jsnum \<Rightarrow> bool \<Rightarrow> jsnum \<Rightarrow> jsnum \<Rightarrow> jsnum \<Rightarrow> jsnum" where
  "calculateOutboxRetryDelayMs attemptCount baseMs temporary capMs jitterRatio sample =
     (let attempt = js_max (Fin 1) (js_floor (js_or attemptCount (Fin 1)));
          base = js_max (Fin 1) (js_floor (js_or baseMs (Fin 1)));
          cap = js_max base (js_floor (js_or capMs (Fin 900000)));
          exponential = js_min cap (js_mul base (js_pow2 (js_min (Fin 20) (js_sub attempt (Fin 1)))));
          computed = js_min cap (if temporary then js_ceil (js_mul exponential (Fin (3 / 2))) else exponential);
          ratio = js_min (Fin 1) (js_max (Fin 0) (js_or jitterRatio (Fin 0)))
      in if ratio = Fin 0 then computed
         else let s = js_min (Fin 1) (js_max (Fin 0) sample);
                  factor = js_add (Fin 1) (js_mul ratio (js_sub (js_mul (Fin 2) s) (Fin 1)))
           in js_max (Fin 1) (js_min cap (js_round (js_mul computed factor))))"

section \<open>The attempt ceiling\<close>

definition clamp_attempts :: "jsnum \<Rightarrow> int \<Rightarrow> int" where
  "clamp_attempts value fallback =
     (case js_floor value of Fin n \<Rightarrow> min 50 (max 1 \<lfloor>n\<rfloor>) | _ \<Rightarrow> fallback)"

definition outboxEffectiveMaxAttempts :: "string \<Rightarrow> jsnum \<Rightarrow> retry_policy_config \<Rightarrow> int" where
  "outboxEffectiveMaxAttempts eventType rowMaxAttempts policy =
     (let classMaximum = clamp_attempts (rp_maxAttempts (rc_policies policy (outboxRetryClass eventType))) 4
      in if rc_raiseRowMaxAttempts policy then classMaximum
         else case rowMaxAttempts of
             Fin v \<Rightarrow> if is_safe_integer (Fin v) \<and> 1 \<le> v then min \<lfloor>v\<rfloor> classMaximum else classMaximum
           | _ \<Rightarrow> classMaximum)"

section \<open>The worker's cycle\<close>

definition workerCycleDelayMs :: "jsnum \<Rightarrow> jsnum \<Rightarrow> jsnum option \<Rightarrow> jsnum" where
  "workerCycleDelayMs pollMs consecutiveFailures capMs =
     (let poll = js_max (Fin 1) (js_floor (js_or pollMs (Fin 1)));
          cap = js_max poll (js_floor (js_or (case capMs of None \<Rightarrow> Fin 60000 | Some c \<Rightarrow> c) (Fin 60000)));
          failures = js_max (Fin 0) (js_floor (js_or consecutiveFailures (Fin 0)))
      in if failures = Fin 0 then poll
         else js_min cap (js_mul poll (js_pow2 (js_min (Fin 30) (js_sub failures (Fin 1))))))"

section \<open>Alerts\<close>

record 'key rate_limiter =
  rl_windowMs :: int
  rl_lastAt :: "'key \<Rightarrow> int option"

definition tryAcquire :: "'key rate_limiter \<Rightarrow> int \<Rightarrow> 'key \<Rightarrow> bool \<times> 'key rate_limiter" where
  "tryAcquire l current key =
     (case rl_lastAt l key of
        Some previous \<Rightarrow>
          if current - previous < rl_windowMs l then (False, l)
          else (True, l\<lparr>rl_lastAt := (rl_lastAt l)(key \<mapsto> current)\<rparr>)
      | None \<Rightarrow> (True, l\<lparr>rl_lastAt := (rl_lastAt l)(key \<mapsto> current)\<rparr>))"

datatype alert_key = DlqIncreased | OldestPendingStale | StaleLeases | ConsecutiveCycleFailures | EventDeadlineExceeded

record queue_metrics =
  qm_queue_depth :: int
  qm_jobs_processing :: int
  qm_stale_leases :: int
  qm_dlq_count :: int
  qm_oldest_pending_age_ms :: "int option"

datatype alert_details =
    DlqDelta int int
  | OldestAge int int
  | StaleCount int int
  | CycleFailures int int
  | DeadlineExceeded

record worker_alert =
  wa_key :: alert_key
  wa_details :: alert_details

record alert_emitter =
  ae_lastDlqCount :: "int option"
  ae_limiter :: "alert_key rate_limiter"
  ae_oldestPendingMs :: int
  ae_cycleFailures :: int

definition emit :: "alert_emitter \<Rightarrow> int \<Rightarrow> worker_alert \<Rightarrow> bool \<times> alert_emitter" where
  "emit e now alert =
     (let (ok, l) = tryAcquire (ae_limiter e) now (wa_key alert) in (ok, e\<lparr>ae_limiter := l\<rparr>))"

fun emit_all :: "alert_emitter \<Rightarrow> int \<Rightarrow> worker_alert list \<Rightarrow> worker_alert list \<times> alert_emitter" where
  "emit_all e now [] = ([], e)"
| "emit_all e now (a # as) =
     (let (ok, e1) = emit e now a; (out, e2) = emit_all e1 now as in (if ok then a # out else out, e2))"

definition metric_candidates :: "alert_emitter \<Rightarrow> queue_metrics \<Rightarrow> worker_alert list" where
  "metric_candidates e m =
     (case ae_lastDlqCount e of
        Some previous \<Rightarrow> if previous < qm_dlq_count m
          then [\<lparr>wa_key = DlqIncreased, wa_details = DlqDelta previous (qm_dlq_count m)\<rparr>] else []
      | None \<Rightarrow> [])
     @ (case qm_oldest_pending_age_ms m of
        Some oldest \<Rightarrow> if ae_oldestPendingMs e < oldest
          then [\<lparr>wa_key = OldestPendingStale, wa_details = OldestAge oldest (ae_oldestPendingMs e)\<rparr>] else []
      | None \<Rightarrow> [])
     @ (if 0 < qm_stale_leases m
        then [\<lparr>wa_key = StaleLeases, wa_details = StaleCount (qm_stale_leases m) (qm_jobs_processing m)\<rparr>] else [])"

definition observeMetrics :: "alert_emitter \<Rightarrow> int \<Rightarrow> queue_metrics \<Rightarrow> worker_alert list \<times> alert_emitter" where
  "observeMetrics e now m =
     emit_all (e\<lparr>ae_lastDlqCount := Some (qm_dlq_count m)\<rparr>) now (metric_candidates e m)"

definition observeCycleFailures :: "alert_emitter \<Rightarrow> int \<Rightarrow> int \<Rightarrow> worker_alert list \<times> alert_emitter" where
  "observeCycleFailures e now failures =
     (if failures < ae_cycleFailures e then ([], e)
      else let alert = \<lparr>wa_key = ConsecutiveCycleFailures, wa_details = CycleFailures failures (ae_cycleFailures e)\<rparr>;
               (ok, e') = emit e now alert
        in (if ok then [alert] else [], e'))"

section \<open>The progress watchdog\<close>

record watchdog =
  wd_stallMs :: int
  wd_maxHeartbeatFailures :: int
  wd_lastCycleCompletedAt :: int
  wd_heartbeatFailures :: int

datatype watchdog_verdict = WatchdogOk | CycleStalled int | HeartbeatFailing int

definition cycleCompleted :: "int \<Rightarrow> watchdog \<Rightarrow> watchdog" where
  "cycleCompleted now w = w\<lparr>wd_lastCycleCompletedAt := now\<rparr>"

definition heartbeatSucceeded :: "watchdog \<Rightarrow> watchdog" where
  "heartbeatSucceeded w = w\<lparr>wd_heartbeatFailures := 0\<rparr>"

definition heartbeatFailed :: "watchdog \<Rightarrow> watchdog" where
  "heartbeatFailed w = w\<lparr>wd_heartbeatFailures := wd_heartbeatFailures w + 1\<rparr>"

definition watchdog_check :: "int \<Rightarrow> watchdog \<Rightarrow> watchdog_verdict" where
  "watchdog_check now w =
     (let sinceCycle = now - wd_lastCycleCompletedAt w
      in if wd_stallMs w < sinceCycle then CycleStalled sinceCycle
         else if wd_maxHeartbeatFailures w \<le> wd_heartbeatFailures w then HeartbeatFailing (wd_heartbeatFailures w)
         else WatchdogOk)"

section \<open>A batch over the runners of a lane\<close>

text \<open>
  The runners of a lane share the index \<open>next\<close>; each takes the job at the index, waits for its
  processing and takes the next one. Their interleaving is not determined, so a lane is a step
  relation: a runner that is idle takes a job, or a runner that holds a job finishes it.
\<close>

record 'job lane_state =
  ls_next :: nat
  ls_running :: "'job option list"
  ls_results :: "'job list"

definition lane_queue :: "('job \<Rightarrow> string) \<Rightarrow> 'job list \<Rightarrow> worker_lane \<Rightarrow> 'job list" where
  "lane_queue event_type jobs lane = filter (\<lambda>job. workerLane (event_type job) = lane) jobs"

definition lane_start :: "int \<Rightarrow> 'job lane_state" where
  "lane_start limit = \<lparr>ls_next = 0, ls_running = replicate (nat (max 1 limit)) None, ls_results = []\<rparr>"

inductive lane_step :: "'job list \<Rightarrow> 'job lane_state \<Rightarrow> 'job lane_state \<Rightarrow> bool" for queue where
  take_job: "r < length (ls_running s) \<Longrightarrow> ls_running s ! r = None \<Longrightarrow> ls_next s < length queue \<Longrightarrow>
    lane_step queue s (s\<lparr>ls_next := ls_next s + 1, ls_running := (ls_running s)[r := Some (queue ! ls_next s)]\<rparr>)"
| finish_job: "r < length (ls_running s) \<Longrightarrow> ls_running s ! r = Some job \<Longrightarrow>
    lane_step queue s (s\<lparr>ls_running := (ls_running s)[r := None], ls_results := ls_results s @ [job]\<rparr>)"

inductive_cases lane_stepE: "lane_step queue s s'"

inductive lane_reachable :: "'job list \<Rightarrow> int \<Rightarrow> 'job lane_state \<Rightarrow> bool" for queue limit where
  start: "lane_reachable queue limit (lane_start limit)"
| step: "lane_reachable queue limit s \<Longrightarrow> lane_step queue s s' \<Longrightarrow> lane_reachable queue limit s'"

definition lane_done :: "'job list \<Rightarrow> 'job lane_state \<Rightarrow> bool" where
  "lane_done queue s \<longleftrightarrow> length queue \<le> ls_next s \<and> list_all (\<lambda>r. r = None) (ls_running s)"

section \<open>Whole numbers\<close>

lemma js_of_int: "\<bar>n\<bar> \<le> 2 ^ 53 \<Longrightarrow> js_of_rat (of_int n) = Fin (of_int n)"
proof -
  assume n: "\<bar>n\<bar> \<le> 2 ^ 53"
  then have "(of_int \<bar>n\<bar> :: rat) \<le> of_int (2 ^ 53)" by (simp only: of_int_le_iff)
  then have "\<bar>of_int n :: rat\<bar> \<le> 2 ^ 1000" by (simp add: order_trans)
  then show ?thesis using fl64_of_int [OF n] by (simp add: js_of_rat_Fin)
qed

lemma js_floor_or_int: "n \<noteq> 0 \<Longrightarrow> js_floor (js_or (Fin (of_int n)) d) = Fin (of_int n)"
  by (simp add: js_or_def)

lemma js_sub_int: "\<bar>m - n\<bar> \<le> 2 ^ 53 \<Longrightarrow> js_sub (Fin (of_int m)) (Fin (of_int n)) = Fin (of_int (m - n))"
  using js_of_int [of "m - n"] by (simp add: js_sub_def)

lemma js_mul_int: "\<bar>m * n\<bar> \<le> 2 ^ 53 \<Longrightarrow> js_mul (Fin (of_int m)) (Fin (of_int n)) = Fin (of_int (m * n))"
  using js_of_int [of "m * n"] by simp

lemma js_max_int: "js_max (Fin (of_int m)) (Fin (of_int n)) = Fin (of_int (max m n))"
  by (simp add: max_def)

lemma js_min_int: "js_min (Fin (of_int m)) (Fin (of_int n)) = Fin (of_int (min m n))"
  by (simp add: min_def)

lemma js_pow2_int:
  assumes "0 \<le> k" and "k \<le> 53"
  shows "js_pow2 (Fin (of_int k)) = Fin (of_int (2 ^ nat k))"
proof -
  have "(2 :: int) ^ nat k \<le> 2 ^ 53" using assms by (intro power_increasing) simp_all
  then have "js_of_rat (of_int (2 ^ nat k)) = Fin (of_int (2 ^ nat k))" by (intro js_of_int) simp
  then show ?thesis using assms(1) by (simp add: js_pow2_def pow2_of_nonneg)
qed

lemmas js_int_simps = js_max_int js_min_int js_sub_int js_mul_int js_pow2_int js_floor_or_int

text \<open>Backing off by doubling from \<open>b\<close> under the cap \<open>c\<close>.\<close>

definition backoff :: "int \<Rightarrow> int \<Rightarrow> int \<Rightarrow> int \<Rightarrow> int" where
  "backoff b c limit n = min c (b * 2 ^ nat (min limit n))"

lemma backoff_product:
  assumes "1 \<le> (b :: int)" "b \<le> 21600000" "0 \<le> k" "k \<le> 28"
  shows "\<bar>b * 2 ^ nat k\<bar> \<le> 2 ^ 53"
proof -
  have "(2 :: int) ^ nat k \<le> 2 ^ 28" using assms(3,4) by (intro power_increasing) simp_all
  then have "b * 2 ^ nat k \<le> 21600000 * 2 ^ 28" using assms(1,2) by (intro mult_mono) simp_all
  also have "\<dots> \<le> (2 :: int) ^ 53" by simp
  finally show ?thesis using assms(1) by simp
qed

lemma exponential_int:
  assumes a: "1 \<le> a" "a \<le> 2 ^ 31" and b: "1 \<le> b" "b \<le> 21600000" and l: "0 \<le> l" "l \<le> 28"
  shows "js_min (Fin (of_int c)) (js_mul (Fin (of_int b)) (js_pow2 (js_min (Fin (of_int l)) (js_sub (Fin (of_int a)) (Fin (of_int 1))))))
    = Fin (of_int (backoff b c l (a - 1)))"
proof -
  have k: "0 \<le> min l (a - 1)" "min l (a - 1) \<le> 28" using a l by simp_all
  have s: "js_sub (Fin (of_int a)) (Fin (of_int 1)) = Fin (of_int (a - 1))" using a by (intro js_sub_int) simp
  have p: "js_pow2 (Fin (of_int (min l (a - 1)))) = Fin (of_int (2 ^ nat (min l (a - 1))))"
    using k by (intro js_pow2_int) simp_all
  show ?thesis
    unfolding s js_min_int p js_mul_int [OF backoff_product [OF b k]] backoff_def ..
qed

definition half_up_again :: "int \<Rightarrow> int" where
  "half_up_again e = (3 * e + 1) div 2"

lemma ceil_three_halves:
  assumes "0 \<le> e" and "e \<le> 2 ^ 50"
  shows "js_ceil (js_mul (Fin (of_int e)) (Fin (3 / 2))) = Fin (of_int (half_up_again e))"
proof -
  have f: "fl64 (of_int (3 * e) * pow2 (- 1)) = of_int (3 * e) * pow2 (- 1)"
    using assms by (intro fl64_exact) simp_all
  have x: "of_int e * (3 / 2) = (of_int (3 * e) * pow2 (- 1) :: rat)" by (simp add: power_int_minus_divide)
  have "(of_int e :: rat) \<le> of_int (2 ^ 50)" using assms(2) by (simp only: of_int_le_iff)
  then have b: "\<bar>of_int e * (3 / 2) :: rat\<bar> \<le> 2 ^ 1000" using assms(1) by (simp add: abs_mult)
  have m: "js_mul (Fin (of_int e)) (Fin (3 / 2)) = Fin (of_int (3 * e) / 2)"
    unfolding js_mul.simps js_of_rat_Fin [OF b] unfolding x f by (simp add: power_int_minus_divide)
  have "\<lceil>of_int (3 * e) / 2 :: rat\<rceil> = half_up_again e"
  proof (rule ceiling_unique)
    have "3 * e \<le> 2 * half_up_again e" "2 * half_up_again e \<le> 3 * e + 1" unfolding half_up_again_def by presburger+
    then have "(of_int (3 * e) :: rat) \<le> of_int (2 * half_up_again e)" "(of_int (2 * half_up_again e) :: rat) \<le> of_int (3 * e + 1)"
      by (simp_all only: of_int_le_iff)
    then show "of_int (half_up_again e) - 1 < (of_int (3 * e) / 2 :: rat)"
      "(of_int (3 * e) / 2 :: rat) \<le> of_int (half_up_again e)" by simp_all
  qed
  then show ?thesis unfolding m by simp
qed

definition retry_delay :: "int \<Rightarrow> int \<Rightarrow> bool \<Rightarrow> int \<Rightarrow> int" where
  "retry_delay a b temporary c =
     (let e = backoff b c 20 (a - 1) in if temporary then min c (half_up_again e) else e)"

lemma backoff_bounds: "1 \<le> b \<Longrightarrow> b \<le> c \<Longrightarrow> 0 \<le> n \<Longrightarrow> b \<le> backoff b c l n \<and> backoff b c l n \<le> c"
  by (simp add: backoff_def)

lemma computed_int:
  assumes "1 \<le> a" "a \<le> 2 ^ 31" "1 \<le> b" "b \<le> c" "c \<le> 21600000"
  shows "(let attempt = js_max (Fin 1) (js_floor (js_or (Fin (of_int a)) (Fin 1)));
          base = js_max (Fin 1) (js_floor (js_or (Fin (of_int b)) (Fin 1)));
          cap = js_max base (js_floor (js_or (Fin (of_int c)) (Fin 900000)));
          exponential = js_min cap (js_mul base (js_pow2 (js_min (Fin 20) (js_sub attempt (Fin 1)))))
     in js_min cap (if temporary then js_ceil (js_mul exponential (Fin (3 / 2))) else exponential))
    = Fin (of_int (retry_delay a b temporary c))"
proof -
  have e: "b \<le> backoff b c 20 (a - 1)" "backoff b c 20 (a - 1) \<le> c" using backoff_bounds assms by simp_all
  have a1: "js_max (Fin 1) (js_floor (js_or (Fin (of_int a)) (Fin 1))) = Fin (of_int a)"
    using assms js_max_int [of 1 a] by (simp add: js_floor_or_int)
  have b1: "js_max (Fin 1) (js_floor (js_or (Fin (of_int b)) (Fin 1))) = Fin (of_int b)"
    using assms js_max_int [of 1 b] by (simp add: js_floor_or_int)
  have c1: "js_max (Fin (of_int b)) (js_floor (js_or (Fin (of_int c)) (Fin 900000))) = Fin (of_int c)"
    using assms js_max_int [of b c] by (simp add: js_floor_or_int)
  have x: "js_min (Fin (of_int c)) (js_mul (Fin (of_int b)) (js_pow2 (js_min (Fin 20) (js_sub (Fin (of_int a)) (Fin 1)))))
      = Fin (of_int (backoff b c 20 (a - 1)))"
    using exponential_int [of a b 20 c] assms by simp
  have t: "js_ceil (js_mul (Fin (of_int (backoff b c 20 (a - 1)))) (Fin (3 / 2)))
      = Fin (of_int (half_up_again (backoff b c 20 (a - 1))))"
    using e assms by (intro ceil_three_halves) simp_all
  show ?thesis
    unfolding Let_def a1 b1 c1 x t retry_delay_def using e(2) by (cases temporary) (simp_all add: js_min_int min_absorb2)
qed

section \<open>Properties\<close>

lemma calculate_no_jitter:
  assumes "1 \<le> a" "a \<le> 2 ^ 31" "1 \<le> b" "b \<le> c" "c \<le> 21600000"
  shows "calculateOutboxRetryDelayMs (Fin (of_int a)) (Fin (of_int b)) temporary (Fin (of_int c)) (Fin 0) sample
    = Fin (of_int (retry_delay a b temporary c))"
  using computed_int [OF assms, of temporary]
  by (simp add: calculateOutboxRetryDelayMs_def Let_def js_or_def)

lemma retry_delay_bounds:
  "1 \<le> a \<Longrightarrow> 1 \<le> b \<Longrightarrow> b \<le> c \<Longrightarrow> b \<le> retry_delay a b t c \<and> retry_delay a b t c \<le> c"
  using backoff_bounds [of b c "a - 1" 20] by (auto simp: retry_delay_def Let_def half_up_again_def)

lemma retry_delay_mono:
  assumes "1 \<le> a" "a \<le> a'" "1 \<le> b"
  shows "retry_delay a b t c \<le> retry_delay a' b t c"
proof -
  have "(2 :: int) ^ nat (min 20 (a - 1)) \<le> 2 ^ nat (min 20 (a' - 1))"
    using assms(1,2) by (intro power_increasing nat_mono) simp_all
  then have "b * 2 ^ nat (min 20 (a - 1)) \<le> b * 2 ^ nat (min 20 (a' - 1))"
    using assms(3) by (intro mult_left_mono) simp_all
  then have "backoff b c 20 (a - 1) \<le> backoff b c 20 (a' - 1)"
    unfolding backoff_def by simp
  then show ?thesis by (auto simp: retry_delay_def Let_def half_up_again_def)
qed

text \<open>Without jitter the delay before attempt \<open>a\<close> is retried is exactly the base doubled once per earlier
  attempt (at most 20 times), half as much again, rounded up, for a temporary error, and never above
  the cap; it lies between the base and the cap and never shrinks from one attempt to the next.
  Binary floating point loses nothing on the way.\<close>

theorem retry_delay_exact:
  assumes "1 \<le> a" "a \<le> 2 ^ 31" "1 \<le> b" "b \<le> c" "c \<le> 21600000"
  shows "calculateOutboxRetryDelayMs (Fin (of_int a)) (Fin (of_int b)) temporary (Fin (of_int c)) (Fin 0) sample
      = Fin (of_int (retry_delay a b temporary c))
    \<and> b \<le> retry_delay a b temporary c \<and> retry_delay a b temporary c \<le> c
    \<and> retry_delay a b temporary c \<le> retry_delay (a + 1) b temporary c"
  using calculate_no_jitter [OF assms] retry_delay_bounds [OF assms(1,3,4)]
    retry_delay_mono [OF assms(1) _ assms(3), of "a + 1"] by simp

theorem retry_delay_exact_witness:
  "calculateOutboxRetryDelayMs (Fin (of_int 5)) (Fin (of_int 30000)) True (Fin (of_int 900000)) (Fin 0) NaN
    = Fin (of_int (retry_delay 5 30000 True 900000)) \<and> retry_delay 5 30000 True 900000 = 720000"
  using retry_delay_exact [of 5 30000 900000 True NaN] by (simp add: retry_delay_def backoff_def half_up_again_def)

text \<open>With jitter: between one millisecond and the cap, whatever \<open>Math.random()\<close> returns.\<close>

lemma js_of_rat_or_inf: "js_of_rat x \<noteq> NaN"
  by (simp add: js_of_rat_def Let_def)

lemma jitter_factor_not_NaN:
  assumes "js_between 0 ratio 1" and "js_between 0 s 1"
  shows "\<exists>f. js_add (Fin 1) (js_mul ratio (js_sub (js_mul (Fin 2) s) (Fin 1))) = Fin f"
proof -
  obtain r v where rv: "ratio = Fin r" "0 \<le> r" "r \<le> 1" "s = Fin v" "0 \<le> v" "v \<le> 1"
    using assms by (elim js_betweenE) blast
  have fl: "\<bar>fl64 x\<bar> \<le> 2 * b + 1" if "\<bar>x\<bar> \<le> b" for x b
  proof -
    have "\<bar>x\<bar> / 2 ^ 53 \<le> \<bar>x\<bar>" by (simp add: divide_le_eq mult_left_le)
    moreover have "(1 :: rat) / 2 ^ 1000 \<le> 1" by simp
    ultimately have "\<bar>fl64 x\<bar> \<le> 2 * \<bar>x\<bar> + 1" using b64.fl_error [of x] by linarith
    also have "\<dots> \<le> 2 * b + 1" using that by simp
    finally show ?thesis .
  qed
  have small: "js_of_rat x = Fin (fl64 x)" if "\<bar>x\<bar> \<le> 1000" for x
    using that by (intro js_of_rat_small) (simp add: order_trans)
  have a: "\<bar>fl64 (2 * v)\<bar> \<le> 5" using fl [of "2 * v" 2] rv by simp
  then have a': "\<bar>fl64 (2 * v) - 1\<bar> \<le> 6" by (simp add: abs_le_iff)
  then have b: "\<bar>fl64 (fl64 (2 * v) - 1)\<bar> \<le> 13" using fl [OF a'] by simp
  then have "\<bar>r\<bar> * \<bar>fl64 (fl64 (2 * v) - 1)\<bar> \<le> 1 * 13" using rv by (intro mult_mono) simp_all
  then have c: "\<bar>r * fl64 (fl64 (2 * v) - 1)\<bar> \<le> 13" by (simp add: abs_mult)
  then have d: "\<bar>fl64 (r * fl64 (fl64 (2 * v) - 1))\<bar> \<le> 27" using fl [OF c] by simp
  then have e: "\<bar>1 + fl64 (r * fl64 (fl64 (2 * v) - 1))\<bar> \<le> 28" by (simp add: abs_le_iff)
  have "js_mul (Fin 2) s = Fin (fl64 (2 * v))" using small [of "2 * v"] rv by simp
  moreover have "js_sub (Fin (fl64 (2 * v))) (Fin 1) = Fin (fl64 (fl64 (2 * v) - 1))"
    using small [of "fl64 (2 * v) - 1"] a' by (simp add: js_sub_def)
  moreover have "js_mul ratio (Fin (fl64 (fl64 (2 * v) - 1))) = Fin (fl64 (r * fl64 (fl64 (2 * v) - 1)))"
    using small [of "r * fl64 (fl64 (2 * v) - 1)"] c rv by simp
  moreover have "js_add (Fin 1) (Fin (fl64 (r * fl64 (fl64 (2 * v) - 1)))) = Fin (fl64 (1 + fl64 (r * fl64 (fl64 (2 * v) - 1))))"
    using small [of "1 + fl64 (r * fl64 (fl64 (2 * v) - 1))"] e by simp
  ultimately show ?thesis by metis
qed

lemma js_round_product_not_NaN: "js_round (js_mul (Fin x) (Fin f)) \<noteq> NaN"
  using js_of_rat_or_inf [of "x * f"] by (cases "js_of_rat (x * f)") simp_all

lemma clamped_between:
  "n \<noteq> NaN \<Longrightarrow> 1 \<le> c \<Longrightarrow> js_between 1 (js_max (Fin 1) (js_min (Fin c) n)) c"
  by (cases n) (simp_all add: js_max_def js_min_def)

lemma retry_delay_jitter:
  assumes "1 \<le> a" "a \<le> 2 ^ 31" "1 \<le> b" "b \<le> c" "c \<le> 21600000"
    and "js_between 0 ratio 1" and "js_between 0 sample 1"
  shows "js_between 1 (calculateOutboxRetryDelayMs (Fin (of_int a)) (Fin (of_int b)) temporary (Fin (of_int c)) ratio sample) (of_int c)"
proof -
  obtain r v where rv: "ratio = Fin r" "0 \<le> r" "r \<le> 1" "sample = Fin v" "0 \<le> v" "v \<le> 1"
    using assms(6,7) by (elim js_betweenE) blast
  have ratio: "js_min (Fin 1) (js_max (Fin 0) (js_or ratio (Fin 0))) = ratio"
    and sample: "js_min (Fin 1) (js_max (Fin 0) sample) = sample"
    using rv by (auto simp: js_or_def)
  have c1: "js_max (js_max (Fin 1) (js_floor (js_or (Fin (of_int b)) (Fin 1)))) (js_floor (js_or (Fin (of_int c)) (Fin 900000)))
      = Fin (of_int c)"
    using assms js_max_int [of 1 b] js_max_int [of b c] by (simp add: js_floor_or_int)
  obtain f where f: "js_add (Fin 1) (js_mul ratio (js_sub (js_mul (Fin 2) sample) (Fin 1))) = Fin f"
    using jitter_factor_not_NaN [OF assms(6,7)] by blast
  have "(1 :: rat) \<le> of_int c" using assms by simp
  then have "js_between 1 (js_max (Fin 1) (js_min (Fin (of_int c)) (js_round (js_mul (Fin (of_int (retry_delay a b temporary c))) (Fin f))))) (of_int c)"
    by (rule clamped_between [OF js_round_product_not_NaN])
  moreover have "js_between 1 (Fin (of_int (retry_delay a b temporary c))) (of_int c)"
    using retry_delay_bounds [OF assms(1,3,4), of temporary] assms(3) by simp
  ultimately show ?thesis
    using computed_int [OF assms(1-5), of temporary]
    unfolding calculateOutboxRetryDelayMs_def Let_def ratio sample c1 f by simp
qed

subsection \<open>Alert windows\<close>

fun acquire_all :: "'key rate_limiter \<Rightarrow> (int \<times> 'key) list \<Rightarrow> bool list" where
  "acquire_all l [] = []"
| "acquire_all l ((t, k) # rest) = (let (ok, l') = tryAcquire l t k in ok # acquire_all l' rest)"

lemma tryAcquire_window [simp]: "tryAcquire l t k = (ok, l') \<Longrightarrow> rl_windowMs l' = rl_windowMs l"
  by (auto simp: tryAcquire_def split: option.splits if_splits)

lemma acquire_all_length [simp]: "length (acquire_all l calls) = length calls"
  by (induction l calls rule: acquire_all.induct) (auto split: prod.splits)

lemma tryAcquire_True:
  "tryAcquire l t k = (True, l') \<Longrightarrow> rl_lastAt l' k = Some t
   \<and> (\<forall>p. rl_lastAt l k = Some p \<longrightarrow> p + rl_windowMs l \<le> t)"
  by (cases "rl_lastAt l k") (auto simp: tryAcquire_def split: if_splits)

lemma tryAcquire_later:
  assumes "tryAcquire l u m = (ok, l')" "0 \<le> rl_windowMs l" "rl_lastAt l k = Some t"
  obtains t' where "rl_lastAt l' k = Some t'" and "t \<le> t'"
  using assms by (cases "m = k"; cases "rl_lastAt l m") (auto simp: tryAcquire_def split: if_splits)

lemma acquire_after:
  assumes "0 \<le> rl_windowMs l" and "rl_lastAt l k = Some t"
    and "i < length calls" "calls ! i = (u, k)" "acquire_all l calls ! i"
  shows "t + rl_windowMs l \<le> u"
  using assms
proof (induction calls arbitrary: l t i)
  case (Cons c calls)
  obtain v m where c: "c = (v, m)" by (cases c)
  obtain ok l' where a: "tryAcquire l v m = (ok, l')" by fastforce
  show ?case
  proof (cases i)
    case 0
    then have "tryAcquire l u k = (True, l')" using Cons.prems(4,5) a c by simp
    from tryAcquire_True [OF this] Cons.prems(2) show ?thesis by simp
  next
    case (Suc n)
    have n: "n < length calls" "calls ! n = (u, k)" "acquire_all l' calls ! n"
      using Cons.prems(3-5) a Suc c by simp_all
    have w: "rl_windowMs l' = rl_windowMs l" using a by simp
    then have w0: "0 \<le> rl_windowMs l'" using Cons.prems(1) by simp
    obtain t' where t': "rl_lastAt l' k = Some t'" "t \<le> t'"
      by (rule tryAcquire_later [OF a Cons.prems(1,2)])
    show ?thesis using Cons.IH [OF w0 t'(1) n] t'(2) w by simp
  qed
qed simp

text \<open>However the calls are spaced, two alerts with the same key are emitted at least a window apart,
  also when the clock steps back between them.\<close>

theorem rate_limiter_window:
  assumes "0 \<le> rl_windowMs l" and "i < j" and "j < length calls"
    and "calls ! i = (t, k)" and "calls ! j = (u, k)"
    and "acquire_all l calls ! i" and "acquire_all l calls ! j"
  shows "t + rl_windowMs l \<le> u"
  using assms
proof (induction calls arbitrary: l i j)
  case (Cons c calls)
  obtain v m where c: "c = (v, m)" by (cases c)
  obtain ok l' where a: "tryAcquire l v m = (ok, l')" by fastforce
  have w: "rl_windowMs l' = rl_windowMs l" using a by simp
  then have w0: "0 \<le> rl_windowMs l'" using Cons.prems(1) by simp
  obtain j' where j: "j = Suc j'" using Cons.prems(2) by (cases j) auto
  then have j': "j' < length calls" "calls ! j' = (u, k)" "acquire_all l' calls ! j'"
    using Cons.prems(3,5,7) a c by simp_all
  show ?case
  proof (cases i)
    case 0
    then have "tryAcquire l t k = (True, l')" using Cons.prems(4,6) a c by simp
    from tryAcquire_True [OF this] have "rl_lastAt l' k = Some t" by simp
    from acquire_after [OF w0 this j'] show ?thesis using w by simp
  next
    case (Suc i')
    then show ?thesis using Cons.IH [OF w0 _ j'(1) _ j'(2) _ j'(3), of i'] Cons.prems(2,4,6) a c j w by simp
  qed
qed simp

definition sample_limiter :: "string rate_limiter" where
  "sample_limiter = \<lparr>rl_windowMs = 100, rl_lastAt = (\<lambda>_. None)\<rparr>"

theorem rate_limiter_window_witness:
  "acquire_all sample_limiter [(0, ''dlq''), (50, ''dlq''), (120, ''dlq'')] = [True, False, True] \<and> 0 + rl_windowMs sample_limiter \<le> 120"
  using rate_limiter_window [of sample_limiter 0 2 "[(0, ''dlq''), (50, ''dlq''), (120, ''dlq'')]" 0 "''dlq''" 120]
  by (simp add: sample_limiter_def tryAcquire_def numeral_2_eq_2)

subsection \<open>Batches\<close>

lemma lanes_partition:
  "mset (lane_queue et jobs MoneyClass) + mset (lane_queue et jobs ReconcileClass)
   + mset (lane_queue et jobs InvoiceClass) + mset (lane_queue et jobs DefaultClass) = mset jobs"
proof (induction jobs)
  case (Cons j jobs)
  then show ?case by (cases "workerLane (et j)") (simp_all add: lane_queue_def)
qed (simp add: lane_queue_def)

definition held :: "'job lane_state \<Rightarrow> 'job multiset" where
  "held s = image_mset the (filter_mset (\<lambda>r. r \<noteq> None) (mset (ls_running s)))"

definition lane_inv :: "'job list \<Rightarrow> int \<Rightarrow> 'job lane_state \<Rightarrow> bool" where
  "lane_inv queue limit s \<longleftrightarrow>
     mset (ls_results s) + held s = mset (take (ls_next s) queue)
     \<and> ls_next s \<le> length queue \<and> length (ls_running s) = nat (max 1 limit)"

lemma lane_step_inv:
  assumes "lane_step queue s s'" and inv: "lane_inv queue limit s"
  shows "lane_inv queue limit s'"
  using assms(1)
proof cases
  case (take_job r)
  have "held s' = add_mset (queue ! ls_next s) (held s)"
    using take_job by (simp add: held_def mset_update)
  moreover have "mset (take (ls_next s + 1) queue) = add_mset (queue ! ls_next s) (mset (take (ls_next s) queue))"
    using take_job by (simp add: take_Suc_conv_app_nth)
  ultimately show ?thesis using inv take_job by (simp add: lane_inv_def)
next
  case (finish_job r job)
  have "Some job \<in># mset (ls_running s)" using finish_job by (metis nth_mem_mset)
  then obtain M where "mset (ls_running s) = add_mset (Some job) M" by (blast dest: multi_member_split)
  then have "held s = add_mset job (held s')"
    using finish_job by (simp add: held_def mset_update)
  then show ?thesis using inv finish_job by (simp add: lane_inv_def)
qed

lemma lane_reachable_inv: "lane_reachable queue limit s \<Longrightarrow> lane_inv queue limit s"
  by (induction rule: lane_reachable.induct)
    (auto simp: lane_start_def lane_inv_def held_def dest: lane_step_inv)

lemma held_size: "size (held s) \<le> length (ls_running s)"
  by (simp add: held_def) (metis size_filter_mset_lesseq size_mset)

lemma lane_done_held: "lane_done queue s \<Longrightarrow> held s = {#}"
  by (auto simp: lane_done_def held_def list_all_iff filter_mset_False intro!: filter_mset_cong)

lemma lane_progress: "lane_inv queue limit s \<Longrightarrow> \<not> lane_done queue s \<Longrightarrow> \<exists>s'. lane_step queue s s'"
proof -
  assume inv: "lane_inv queue limit s" and "\<not> lane_done queue s"
  then consider (busy) r job where "r < length (ls_running s)" "ls_running s ! r = Some job"
    | (idle) "\<forall>r < length (ls_running s). ls_running s ! r = None" "ls_next s < length queue"
    by (fastforce simp: lane_done_def list_all_length)
  then show ?thesis
  proof cases
    case busy
    then show ?thesis by (blast intro: finish_job)
  next
    case idle
    moreover have "0 < length (ls_running s)" using inv by (simp add: lane_inv_def)
    ultimately show ?thesis by (blast intro: take_job)
  qed
qed

text \<open>However the runners of a lane interleave: no more jobs are in flight than the lane's limit allows
  (at least one), no job is taken twice, a lane that is not finished can always take a step, and a
  finished lane has processed every job of its queue exactly once. The four queues share out the
  batch.\<close>

theorem lane_processes_each_job_once:
  assumes "lane_reachable (lane_queue et jobs lane) limit s"
  shows "size (held s) \<le> nat (max 1 limit)
    \<and> mset (ls_results s) + held s \<subseteq># mset (lane_queue et jobs lane)
    \<and> (if lane_done (lane_queue et jobs lane) s
       then mset (ls_results s) = filter_mset (\<lambda>job. workerLane (et job) = lane) (mset jobs)
       else \<exists>s'. lane_step (lane_queue et jobs lane) s s')"
proof -
  let ?q = "lane_queue et jobs lane"
  note inv = lane_reachable_inv [OF assms]
  have "mset (take (ls_next s) ?q) \<subseteq># mset ?q"
    by (metis append_take_drop_id mset_append mset_subset_eq_add_left)
  moreover have "mset ?q = filter_mset (\<lambda>job. workerLane (et job) = lane) (mset jobs)"
    by (simp add: lane_queue_def)
  ultimately show ?thesis
    using inv held_size [of s] lane_progress [OF inv] lane_done_held [of ?q s]
    by (auto simp: lane_inv_def lane_done_def)
qed

theorem lane_processes_each_job_once_witness:
  "size (held (lane_start 3 :: string lane_state)) \<le> nat (max 1 3)"
  using lane_processes_each_job_once [OF lane_reachable.start [of "lane_queue (\<lambda>x. x) [''charge_deal''] MoneyClass" 3]]
  by simp

text \<open>With a limit of one a lane is serial: jobs finish in the order of the queue.\<close>

definition serial_inv :: "'job list \<Rightarrow> 'job lane_state \<Rightarrow> bool" where
  "serial_inv queue s \<longleftrightarrow>
     length (ls_running s) = 1 \<and> ls_next s \<le> length queue
     \<and> ls_results s @ (case ls_running s ! 0 of None \<Rightarrow> [] | Some job \<Rightarrow> [job]) = take (ls_next s) queue"

lemma serial_step: "lane_step queue s s' \<Longrightarrow> serial_inv queue s \<Longrightarrow> serial_inv queue s'"
  by (erule lane_stepE) (auto simp: serial_inv_def take_Suc_conv_app_nth)

lemma serial_reachable: "lane_reachable queue limit s \<Longrightarrow> limit \<le> 1 \<Longrightarrow> serial_inv queue s"
  by (induction rule: lane_reachable.induct) (auto simp: lane_start_def serial_inv_def dest: serial_step)

end
