(* ===== verification/Outbox.thy ===== *)
theory Outbox
  imports WorkerPolicy
begin

text \<open>
  \<open>src/outbox_worker_helpers.ts\<close>: the queue of outbox events that several workers share. A worker
  claims an event by raising its lease generation, keeps the lease alive by heartbeats, and finishes
  with completion, retry or the dead-letter archive; an expired lease is reclaimed. Rows are in the
  order of \<open>created_at\<close>. Every operation is one transaction that reads the clock \<open>now\<close>; a throw returns
  \<open>Inl\<close> and rolls back. \<open>FOR UPDATE SKIP LOCKED\<close> skips the rows other transactions hold, the
  argument \<open>locked\<close>.
\<close>

section \<open>Rows\<close>

datatype outbox_status = Pending | Processing | Sent | Failed

record outbox_row =
  ob_id :: string
  ob_event_type :: string
  ob_aggregate_type :: string
  ob_aggregate_id :: string
  ob_payload :: string
  ob_status :: outbox_status
  ob_attempt_count :: int
  ob_max_attempts :: int
  ob_available_at :: int
  ob_sent_at :: "int option"
  ob_processing_started_at :: "int option"
  ob_claimed_at :: "int option"
  ob_lease_expires_at :: "int option"
  ob_worker_id :: "string option"
  ob_last_attempt_at :: "int option"
  ob_last_heartbeat_at :: "int option"
  ob_lease_generation :: int
  ob_last_error :: "string option"
  ob_correlation_id :: string
  ob_request_id :: string

datatype audit_action = Claim | Reclaim | Heartbeat | Completion | Retry | Failure | Dlq

datatype key_suffix = Once | NamedSuffix string | HeartbeatSuffix int string

text \<open>The evidence of an audit row; where the code stores the hash of a value, the value.\<close>

datatype audit_metadata =
    NoMetadata
  | ReclaimEvidence "string option" "int option" "int option"
  | ErrorEvidence string
  | DelayEvidence jsnum

record outbox_audit =
  oa_event :: string
  oa_action :: audit_action
  oa_worker :: string
  oa_generation :: int
  oa_attempts :: int
  oa_from :: outbox_status
  oa_to :: outbox_status
  oa_suffix :: key_suffix
  oa_reason :: string
  oa_metadata :: audit_metadata

record outbox_db =
  odb_events :: "outbox_row list"
  odb_dlq :: "outbox_row list"
  odb_audit :: "outbox_audit list"

datatype outbox_error =
    OutboxLeaseLost string
  | OutboxAuditConflict string
  | DlqConflict string
  | BadLeaseGeneration
  | InvalidRetryTime

text \<open>The settings of one worker, as \<open>buildOutboxWorkerHelpers\<close> derives them from its dependencies.\<close>

record outbox_cfg =
  oc_worker :: string
  oc_leaseMs :: int
  oc_raiseRowMaxAttempts :: bool
  oc_policies :: "retry_class \<Rightarrow> retry_policy"
  oc_workerMaxAttempts :: int

definition lease_ms_of :: "jsnum \<Rightarrow> int" where
  "lease_ms_of configured =
     (case js_or configured (Fin 60000) of Fin v \<Rightarrow> max 5000 \<lfloor>v\<rfloor> | _ \<Rightarrow> 60000)"

definition worker_max_of :: "jsnum \<Rightarrow> int" where
  "worker_max_of configured =
     (case configured of
        Fin v \<Rightarrow> if is_safe_integer (Fin v) \<and> 1 \<le> v then \<lfloor>v\<rfloor> else 4
      | _ \<Rightarrow> 4)"

definition legacy_policy :: "jsnum \<Rightarrow> int \<Rightarrow> retry_policy" where
  "legacy_policy pollMs workerMax =
     \<lparr>rp_baseMs = js_max (Fin 1) (js_floor (js_or pollMs (Fin 1))), rp_capMs = Fin 900000,
      rp_maxAttempts = Fin (of_int workerMax), rp_jitterRatio = Fin 0\<rparr>"

definition buildOutboxWorkerHelpers ::
    "string \<Rightarrow> jsnum \<Rightarrow> jsnum \<Rightarrow> jsnum \<Rightarrow> retry_policy_config option \<Rightarrow> outbox_cfg" where
  "buildOutboxWorkerHelpers worker leaseMs pollMs maxAttempts retryPolicy =
     (let workerMax = worker_max_of maxAttempts
      in \<lparr>oc_worker = worker, oc_leaseMs = lease_ms_of leaseMs,
          oc_raiseRowMaxAttempts = (case retryPolicy of None \<Rightarrow> False | Some p \<Rightarrow> rc_raiseRowMaxAttempts p),
          oc_policies = (case retryPolicy of None \<Rightarrow> (\<lambda>_. legacy_policy pollMs workerMax) | Some p \<Rightarrow> rc_policies p),
          oc_workerMaxAttempts = workerMax\<rparr>)"

definition retryPolicyFor :: "outbox_cfg \<Rightarrow> string \<Rightarrow> retry_policy" where
  "retryPolicyFor cfg eventType = oc_policies cfg (outboxRetryClass eventType)"

definition classMaxAttempts :: "outbox_cfg \<Rightarrow> string \<Rightarrow> int" where
  "classMaxAttempts cfg eventType =
     clamp_attempts (rp_maxAttempts (retryPolicyFor cfg eventType)) (oc_workerMaxAttempts cfg)"

text \<open>The same ceiling in SQL and in TypeScript: \<open>max_attempts\<close> is at least one by the column check.\<close>

definition effectiveMaxAttempts :: "outbox_cfg \<Rightarrow> outbox_row \<Rightarrow> int" where
  "effectiveMaxAttempts cfg row =
     (let classMaximum = classMaxAttempts cfg (ob_event_type row)
      in if oc_raiseRowMaxAttempts cfg then classMaximum else min (ob_max_attempts row) classMaximum)"

section \<open>Statements on the table\<close>

definition update_events :: "(outbox_row \<Rightarrow> bool) \<Rightarrow> (outbox_row \<Rightarrow> outbox_row) \<Rightarrow> outbox_db \<Rightarrow> outbox_db" where
  "update_events P f db = db\<lparr>odb_events := map (\<lambda>r. if P r then f r else r) (odb_events db)\<rparr>"

definition lease_live :: "int \<Rightarrow> outbox_row \<Rightarrow> bool" where
  "lease_live now row = (case ob_lease_expires_at row of None \<Rightarrow> False | Some t \<Rightarrow> now < t)"

definition held_by :: "outbox_cfg \<Rightarrow> string \<Rightarrow> int \<Rightarrow> outbox_row \<Rightarrow> bool" where
  "held_by cfg event generation row \<longleftrightarrow>
     ob_id row = event \<and> ob_status row = Processing \<and> ob_worker_id row = Some (oc_worker cfg)
     \<and> ob_lease_generation row = generation"

text \<open>The columns every hand-back clears.\<close>

definition released :: "outbox_row \<Rightarrow> outbox_row" where
  "released row = row\<lparr>ob_processing_started_at := None, ob_claimed_at := None, ob_lease_expires_at := None,
     ob_worker_id := None, ob_last_heartbeat_at := None\<rparr>"

definition appendLifecycleAudit :: "outbox_audit \<Rightarrow> outbox_db \<Rightarrow> outbox_error + outbox_db" where
  "appendLifecycleAudit a db =
     (case find (\<lambda>b. oa_event b = oa_event a \<and> oa_generation b = oa_generation a
                  \<and> oa_action b = oa_action a \<and> oa_suffix b = oa_suffix a) (odb_audit db) of
        None \<Rightarrow> Inr (db\<lparr>odb_audit := odb_audit db @ [a]\<rparr>)
      | Some b \<Rightarrow> if b = a then Inr db else Inl (OutboxAuditConflict (oa_event a)))"

definition audit_of ::
    "outbox_cfg \<Rightarrow> outbox_row \<Rightarrow> audit_action \<Rightarrow> outbox_status \<Rightarrow> outbox_status \<Rightarrow> string \<Rightarrow> key_suffix \<Rightarrow>
     audit_metadata \<Rightarrow> outbox_audit" where
  "audit_of cfg row action from to reason suffix metadata =
     \<lparr>oa_event = ob_id row, oa_action = action, oa_worker = oc_worker cfg,
      oa_generation = ob_lease_generation row, oa_attempts = ob_attempt_count row,
      oa_from = from, oa_to = to, oa_suffix = suffix, oa_reason = reason, oa_metadata = metadata\<rparr>"

definition insertDlqFromLockedEvent ::
    "outbox_cfg \<Rightarrow> int \<Rightarrow> outbox_row \<Rightarrow> string \<Rightarrow> outbox_status \<Rightarrow> bool \<Rightarrow> outbox_db \<Rightarrow> outbox_error + outbox_db" where
  "insertDlqFromLockedEvent cfg now event reason from requireCurrentLease db =
     (let message = take 500 (case ob_last_error event of None \<Rightarrow> reason | Some m \<Rightarrow> if m = '''' then reason else m);
          this = (\<lambda>r. ob_id r = ob_id event \<and> ob_lease_generation r = ob_lease_generation event)
      in case find (\<lambda>r. this r \<and> (\<not> requireCurrentLease \<or>
                  (ob_status r = Processing \<and> ob_worker_id r = Some (oc_worker cfg) \<and> lease_live now r)))
                (odb_events db) of
           None \<Rightarrow> Inl (OutboxLeaseLost (ob_id event))
         | Some r \<Rightarrow>
             if list_ex (\<lambda>d. ob_id d = ob_id event) (odb_dlq db) then Inl (DlqConflict (ob_id event))
             else on_ok (appendLifecycleAudit (audit_of cfg event Dlq from Failed reason Once NoMetadata)
                    (db\<lparr>odb_dlq := odb_dlq db @ [r\<lparr>ob_status := Failed, ob_last_error := Some message\<rparr>]\<rparr>)) (\<lambda>db1.
                  Inr (db1\<lparr>odb_events := filter (\<lambda>r. \<not> this r) (odb_events db1)\<rparr>)))"

definition isRowPoisonError :: "outbox_error \<Rightarrow> bool" where
  "isRowPoisonError e = (case e of DlqConflict _ \<Rightarrow> True | OutboxAuditConflict _ \<Rightarrow> True | _ \<Rightarrow> False)"

definition quarantinePendingEvent :: "outbox_cfg \<Rightarrow> outbox_row \<Rightarrow> string \<Rightarrow> outbox_db \<Rightarrow> outbox_error + outbox_db" where
  "quarantinePendingEvent cfg event reason db =
     on_ok (appendLifecycleAudit (audit_of cfg event Failure Pending Failed reason
              (NamedSuffix (''quarantine:'' @ reason)) NoMetadata) db) (\<lambda>db1.
       let this = (\<lambda>r. ob_id r = ob_id event \<and> ob_status r = Pending
                    \<and> ob_lease_generation r = ob_lease_generation event)
       in if list_ex this (odb_events db1)
          then Inr (update_events this (\<lambda>r. (released r)\<lparr>ob_status := Failed, ob_sent_at := None,
                 ob_last_error := Some reason\<rparr>) db1)
          else Inl (OutboxLeaseLost (ob_id event)))"

section \<open>Claiming\<close>

definition sweep_event :: "outbox_cfg \<Rightarrow> int \<Rightarrow> outbox_row \<Rightarrow> outbox_db \<Rightarrow> outbox_error + outbox_db" where
  "sweep_event cfg now event db =
     (case on_ok (appendLifecycleAudit (audit_of cfg event Failure Pending Pending
              ''pending_max_attempts_exhausted'' (NamedSuffix ''pending-max-attempts'') NoMetadata) db) (\<lambda>db1.
            insertDlqFromLockedEvent cfg now event ''pending_max_attempts_exhausted'' Pending False db1) of
        Inr db' \<Rightarrow> Inr db'
      | Inl e \<Rightarrow>
          if \<not> isRowPoisonError e then Inl e
          else case quarantinePendingEvent cfg event ''pending_dlq_archive_conflict'' db of
                 Inr db' \<Rightarrow> Inr db'
               | Inl _ \<Rightarrow> Inr db)"

fun sweep_all :: "outbox_cfg \<Rightarrow> int \<Rightarrow> outbox_row list \<Rightarrow> outbox_db \<Rightarrow> outbox_error + outbox_db" where
  "sweep_all cfg now [] db = Inr db"
| "sweep_all cfg now (e # es) db = on_ok (sweep_event cfg now e db) (sweep_all cfg now es)"

definition due :: "int \<Rightarrow> outbox_row \<Rightarrow> bool" where
  "due now row \<longleftrightarrow> ob_status row = Pending \<and> ob_available_at row \<le> now"

definition sweepExhaustedPending ::
    "outbox_cfg \<Rightarrow> int \<Rightarrow> (string \<Rightarrow> bool) \<Rightarrow> string option \<Rightarrow> int \<Rightarrow> outbox_db \<Rightarrow> outbox_error + outbox_db" where
  "sweepExhaustedPending cfg now locked event limit db =
     sweep_all cfg now
       (take (case event of Some _ \<Rightarrow> 1 | None \<Rightarrow> nat (min 500 (max 20 (limit * 10))))
         (filter (\<lambda>r. due now r \<and> effectiveMaxAttempts cfg r \<le> ob_attempt_count r
            \<and> (case event of None \<Rightarrow> True | Some i \<Rightarrow> ob_id r = i) \<and> \<not> locked (ob_id r)) (odb_events db))) db"

definition claimable :: "outbox_cfg \<Rightarrow> int \<Rightarrow> outbox_row \<Rightarrow> bool" where
  "claimable cfg now row \<longleftrightarrow> due now row \<and> ob_attempt_count row < effectiveMaxAttempts cfg row"

definition claimed_row :: "outbox_cfg \<Rightarrow> int \<Rightarrow> outbox_row \<Rightarrow> outbox_row" where
  "claimed_row cfg now row =
     row\<lparr>ob_status := Processing, ob_processing_started_at := Some now, ob_claimed_at := Some now,
         ob_lease_expires_at := Some (now + oc_leaseMs cfg), ob_worker_id := Some (oc_worker cfg),
         ob_last_attempt_at := Some now, ob_last_heartbeat_at := Some now,
         ob_max_attempts := (if oc_raiseRowMaxAttempts cfg
           then max (ob_max_attempts row) (classMaxAttempts cfg (ob_event_type row)) else ob_max_attempts row),
         ob_attempt_count := ob_attempt_count row + 1, ob_lease_generation := ob_lease_generation row + 1\<rparr>"

text \<open>The claiming \<open>UPDATE ... RETURNING\<close> of one event with its audit row.\<close>

definition claim_event :: "outbox_cfg \<Rightarrow> int \<Rightarrow> string \<Rightarrow> outbox_db \<Rightarrow> outbox_error + outbox_row option \<times> outbox_db" where
  "claim_event cfg now event db =
     (let this = (\<lambda>r. ob_id r = event \<and> claimable cfg now r)
      in case find this (odb_events db) of
           None \<Rightarrow> Inr (None, db)
         | Some r \<Rightarrow>
             let row = claimed_row cfg now r
             in on_ok (appendLifecycleAudit (audit_of cfg row Claim Pending Processing ''worker_claim'' Once NoMetadata)
                  (update_events this (claimed_row cfg now) db)) (\<lambda>db1. Inr (Some row, db1)))"

definition claim_candidate :: "outbox_cfg \<Rightarrow> int \<Rightarrow> outbox_row \<Rightarrow> outbox_db \<Rightarrow> outbox_error + outbox_row option \<times> outbox_db" where
  "claim_candidate cfg now candidate db =
     (case on_ok (claim_event cfg now (ob_id candidate) db) (\<lambda>(row, db1).
             case row of None \<Rightarrow> Inl (OutboxLeaseLost (ob_id candidate)) | Some r \<Rightarrow> Inr (Some r, db1)) of
        Inr res \<Rightarrow> Inr res
      | Inl e \<Rightarrow>
          if \<not> isRowPoisonError e then (case e of OutboxLeaseLost _ \<Rightarrow> Inr (None, db) | _ \<Rightarrow> Inl e)
          else case quarantinePendingEvent cfg candidate ''claim_audit_conflict'' db of
                 Inr db' \<Rightarrow> Inr (None, db')
               | Inl _ \<Rightarrow> Inr (None, db))"

text \<open>The loop of \<open>claimOutboxBatch\<close>: at most \<open>limit\<close> claims and 500 attempts, the code's own bound.\<close>

fun claim_loop ::
    "outbox_cfg \<Rightarrow> int \<Rightarrow> (string \<Rightarrow> bool) \<Rightarrow> nat \<Rightarrow> nat \<Rightarrow> string list \<Rightarrow> outbox_db \<Rightarrow> outbox_error + outbox_row list \<times> outbox_db" where
  "claim_loop cfg now locked 0 limit attempted db = Inr ([], db)"
| "claim_loop cfg now locked (Suc tries) 0 attempted db = Inr ([], db)"
| "claim_loop cfg now locked (Suc tries) (Suc limit) attempted db =
     (case find (\<lambda>r. claimable cfg now r \<and> \<not> List.member attempted (ob_id r) \<and> \<not> locked (ob_id r)) (odb_events db) of
        None \<Rightarrow> Inr ([], db)
      | Some candidate \<Rightarrow>
          on_ok (claim_candidate cfg now candidate db) (\<lambda>(row, db1).
          on_ok (claim_loop cfg now locked tries (if row = None then Suc limit else limit)
                   (attempted @ [ob_id candidate]) db1) (\<lambda>(rows, db2).
            Inr (case row of None \<Rightarrow> rows | Some r \<Rightarrow> r # rows, db2))))"

definition claimOutboxBatch ::
    "outbox_cfg \<Rightarrow> int \<Rightarrow> (string \<Rightarrow> bool) \<Rightarrow> int \<Rightarrow> outbox_db \<Rightarrow> outbox_error + outbox_row list \<times> outbox_db" where
  "claimOutboxBatch cfg now locked limit db =
     on_ok (sweepExhaustedPending cfg now locked None limit db) (\<lambda>db1.
       claim_loop cfg now locked 500 (nat (max 1 limit)) [] db1)"

definition claimOutboxEventById ::
    "outbox_cfg \<Rightarrow> int \<Rightarrow> (string \<Rightarrow> bool) \<Rightarrow> string \<Rightarrow> outbox_db \<Rightarrow> outbox_error + outbox_row option \<times> outbox_db" where
  "claimOutboxEventById cfg now locked event db =
     on_ok (sweepExhaustedPending cfg now locked (Some event) 1 db) (claim_event cfg now event)"

section \<open>Reclaiming expired leases\<close>

definition reclaimable :: "int \<Rightarrow> outbox_row \<Rightarrow> bool" where
  "reclaimable now r \<longleftrightarrow> ob_status r = Processing \<and> 1 \<le> ob_lease_generation r \<and> ob_worker_id r \<noteq> None
     \<and> (case ob_lease_expires_at r of None \<Rightarrow> False | Some t \<Rightarrow> t \<le> now)"

definition reclaim_event :: "outbox_cfg \<Rightarrow> int \<Rightarrow> outbox_row \<Rightarrow> outbox_db \<Rightarrow> outbox_error + outbox_db" where
  "reclaim_event cfg now event db =
     (let exhausted = effectiveMaxAttempts cfg event \<le> ob_attempt_count event;
          this = (\<lambda>r. ob_id r = ob_id event \<and> ob_status r = Processing
                   \<and> ob_lease_generation r = ob_lease_generation event)
      in on_ok (appendLifecycleAudit (audit_of cfg event Reclaim Processing
                 (if exhausted then Processing else Pending) ''expired_worker_lease'' Once
                 (ReclaimEvidence (ob_worker_id event) (ob_lease_expires_at event) (ob_last_heartbeat_at event))) db) (\<lambda>db1.
         if exhausted
         then on_ok (appendLifecycleAudit (audit_of cfg event Failure Processing Processing
                ''expired_lease_max_attempts'' Once NoMetadata) db1) (\<lambda>db2.
                insertDlqFromLockedEvent cfg now event ''expired_lease_max_attempts'' Processing False db2)
         else if list_ex this (odb_events db1)
              then Inr (update_events this (\<lambda>r. (released r)\<lparr>ob_status := Pending, ob_available_at := now,
                     ob_last_error := (case ob_last_error r of None \<Rightarrow> Some ''worker_reclaim_after_restart''
                                       | Some m \<Rightarrow> Some m)\<rparr>) db1)
              else Inl (OutboxLeaseLost (ob_id event))))"

text \<open>A row that fails is rolled back to its savepoint and skipped; the number counts the others.\<close>

fun reclaim_all :: "outbox_cfg \<Rightarrow> int \<Rightarrow> outbox_row list \<Rightarrow> outbox_db \<Rightarrow> nat \<times> outbox_db" where
  "reclaim_all cfg now [] db = (0, db)"
| "reclaim_all cfg now (e # es) db =
     (case reclaim_event cfg now e db of
        Inr db' \<Rightarrow> (let (n, db'') = reclaim_all cfg now es db' in (Suc n, db''))
      | Inl _ \<Rightarrow> reclaim_all cfg now es db)"

definition reclaimStuckProcessing :: "outbox_cfg \<Rightarrow> int \<Rightarrow> (string \<Rightarrow> bool) \<Rightarrow> outbox_db \<Rightarrow> nat \<times> outbox_db" where
  "reclaimStuckProcessing cfg now locked db =
     reclaim_all cfg now (take 500 (filter (\<lambda>r. reclaimable now r \<and> \<not> locked (ob_id r)) (odb_events db))) db"

section \<open>Finishing a job\<close>

definition requireLeaseGeneration :: "int \<Rightarrow> outbox_error + int" where
  "requireLeaseGeneration generation =
     (if generation < 1 \<or> 2 ^ 53 - 1 < generation then Inl BadLeaseGeneration else Inr generation)"

definition markOutboxSent :: "outbox_cfg \<Rightarrow> int \<Rightarrow> string \<Rightarrow> int \<Rightarrow> outbox_db \<Rightarrow> outbox_error + outbox_db" where
  "markOutboxSent cfg now event generation db =
     on_ok (requireLeaseGeneration generation) (\<lambda>g.
       let this = (\<lambda>r. held_by cfg event g r \<and> lease_live now r)
       in case find this (odb_events db) of
            None \<Rightarrow> Inl (OutboxLeaseLost event)
          | Some r \<Rightarrow> appendLifecycleAudit (audit_of cfg r Completion Processing Sent ''worker_completed'' Once NoMetadata)
              (update_events this (\<lambda>r. (released r)\<lparr>ob_status := Sent, ob_sent_at := Some now, ob_last_error := None\<rparr>) db))"

datatype failure_kind = PermanentFailure | DeferredFailure "int option" | OtherFailure

record worker_failure =
  wf_kind :: failure_kind
  wf_message :: string
  wf_code :: string

fun js_includes :: "string \<Rightarrow> string \<Rightarrow> bool" where
  "js_includes [] t = (t = [])"
| "js_includes (c # s) t = (take (length t) (c # s) = t \<or> js_includes s t)"

definition isTemporaryError :: "worker_failure \<Rightarrow> bool" where
  "isTemporaryError e \<longleftrightarrow> js_includes (wf_message e) ''temporary_fail'' \<or> js_includes (wf_message e) ''finalize_not_ready_yet''"

definition failure_reason :: "worker_failure \<Rightarrow> string" where
  "failure_reason e =
     (case wf_kind e of
        PermanentFailure \<Rightarrow> ''permanent_failure''
      | DeferredFailure _ \<Rightarrow> ''deferred_failure''
      | OtherFailure \<Rightarrow> if isTemporaryError e then ''temporary_failure'' else wf_code e)"

definition delay_ms :: "jsnum \<Rightarrow> int" where
  "delay_ms d = (case d of Fin v \<Rightarrow> \<lfloor>v\<rfloor> | _ \<Rightarrow> 0)"

definition next_delay :: "outbox_cfg \<Rightarrow> jsnum \<Rightarrow> worker_failure \<Rightarrow> outbox_row \<Rightarrow> jsnum" where
  "next_delay cfg sample e row =
     (let policy = retryPolicyFor cfg (ob_event_type row)
      in calculateOutboxRetryDelayMs (Fin (of_int (max 0 (ob_attempt_count row)))) (rp_baseMs policy)
           (isTemporaryError e) (rp_capMs policy) (rp_jitterRatio policy) sample)"

definition handed_back :: "int \<Rightarrow> string \<Rightarrow> outbox_row \<Rightarrow> outbox_row" where
  "handed_back retry_at message r =
     (released r)\<lparr>ob_status := Pending, ob_last_error := Some message, ob_available_at := retry_at\<rparr>"

definition markOutboxFailed ::
    "outbox_cfg \<Rightarrow> int \<Rightarrow> jsnum \<Rightarrow> string \<Rightarrow> int \<Rightarrow> worker_failure \<Rightarrow> outbox_db \<Rightarrow> outbox_error + outbox_db" where
  "markOutboxFailed cfg now sample event generation e db =
     on_ok (requireLeaseGeneration generation) (\<lambda>g.
       let msg = take 500 (wf_message e);
           this = (\<lambda>r. held_by cfg event g r \<and> lease_live now r)
       in case find (held_by cfg event g) (odb_events db) of
            None \<Rightarrow> Inl (OutboxLeaseLost event)
          | Some r \<Rightarrow>
              if \<not> lease_live now r then Inl (OutboxLeaseLost event)
              else on_ok (appendLifecycleAudit (audit_of cfg r Failure Processing Processing (failure_reason e) Once
                     (ErrorEvidence msg)) db) (\<lambda>db1.
                if wf_kind e = PermanentFailure \<or> effectiveMaxAttempts cfg r \<le> max 0 (ob_attempt_count r)
                then insertDlqFromLockedEvent cfg now (r\<lparr>ob_last_error := Some msg\<rparr>)
                       (if wf_kind e = PermanentFailure then ''permanent_failure'' else ''max_attempts_exhausted'')
                       Processing True db1
                else case wf_kind e of
                    DeferredFailure retryAt \<Rightarrow>
                      (case retryAt of
                         None \<Rightarrow> Inl InvalidRetryTime
                       | Some retry_at \<Rightarrow>
                           if \<not> now < retry_at then Inl (OutboxLeaseLost event)
                           else appendLifecycleAudit (audit_of cfg r Retry Processing Pending ''deferred_retry'' Once NoMetadata)
                                  (update_events this (handed_back retry_at msg) db1))
                  | _ \<Rightarrow>
                      (let delay = next_delay cfg sample e r
                       in appendLifecycleAudit (audit_of cfg r Retry Processing Pending
                              (if isTemporaryError e then ''temporary_retry'' else ''worker_retry'') Once (DelayEvidence delay))
                            (update_events this (handed_back (now + delay_ms delay) msg) db1))))"

section \<open>Keeping a lease\<close>

definition heartbeatOutboxLease ::
    "outbox_cfg \<Rightarrow> int \<Rightarrow> string \<Rightarrow> string \<Rightarrow> int \<Rightarrow> outbox_db \<Rightarrow> outbox_error + bool \<times> outbox_db" where
  "heartbeatOutboxLease cfg now txid event generation db =
     on_ok (requireLeaseGeneration generation) (\<lambda>g.
       let this = (\<lambda>r. held_by cfg event g r \<and> lease_live now r)
       in case find this (odb_events db) of
            None \<Rightarrow> Inr (False, db)
          | Some r \<Rightarrow>
              on_ok (appendLifecycleAudit (audit_of cfg r Heartbeat Processing Processing ''lease_extended''
                       (HeartbeatSuffix (now + oc_leaseMs cfg) txid) NoMetadata)
                (update_events this (\<lambda>r. r\<lparr>ob_lease_expires_at := Some (now + oc_leaseMs cfg),
                   ob_last_heartbeat_at := Some now\<rparr>) db)) (\<lambda>db1. Inr (True, db1)))"

definition assertLeaseForProviderIo ::
    "outbox_cfg \<Rightarrow> int \<Rightarrow> string \<Rightarrow> string \<Rightarrow> int \<Rightarrow> int \<Rightarrow> outbox_db \<Rightarrow> outbox_error + bool \<times> outbox_db" where
  "assertLeaseForProviderIo cfg now txid event generation minRemainingMs db =
     on_ok (requireLeaseGeneration generation) (\<lambda>g.
       case find (\<lambda>r. held_by cfg event g r \<and> lease_live now r) (odb_events db) of
         None \<Rightarrow> Inr (False, db)
       | Some r \<Rightarrow>
           if lease_live (now + max 0 minRemainingMs) r then Inr (True, db)
           else heartbeatOutboxLease cfg now txid event g db)"

section \<open>Enqueueing\<close>

text \<open>
  The insert every producer makes. Two unique indexes guard the table: the primary key and one open
  (pending or processing) event per type and aggregate.
\<close>

definition open_duplicate :: "outbox_row \<Rightarrow> outbox_row \<Rightarrow> bool" where
  "open_duplicate new r \<longleftrightarrow> ob_event_type r = ob_event_type new \<and> ob_aggregate_id r = ob_aggregate_id new
     \<and> (ob_status r = Pending \<or> ob_status r = Processing)"

definition insert_outbox_event :: "outbox_row \<Rightarrow> outbox_db \<Rightarrow> outbox_error + outbox_db" where
  "insert_outbox_event new db =
     (if list_ex (\<lambda>r. ob_id r = ob_id new \<or> open_duplicate new r) (odb_events db)
      then Inl (OutboxAuditConflict (ob_id new))
      else Inr (db\<lparr>odb_events := odb_events db @ [new]\<rparr>))"

section \<open>What every operation keeps\<close>

definition row_ok :: "outbox_row \<Rightarrow> bool" where
  "row_ok r \<longleftrightarrow>
     (if ob_status r = Processing
      then ob_worker_id r \<noteq> None \<and> ob_lease_expires_at r \<noteq> None \<and> ob_claimed_at r \<noteq> None
        \<and> ob_last_heartbeat_at r \<noteq> None \<and> 1 \<le> ob_lease_generation r
      else ob_worker_id r = None \<and> ob_lease_expires_at r = None)
     \<and> 0 \<le> ob_lease_generation r \<and> 0 \<le> ob_attempt_count r \<and> ob_attempt_count r \<le> ob_max_attempts r"

definition outbox_ok :: "outbox_db \<Rightarrow> bool" where
  "outbox_ok db \<longleftrightarrow> distinct (map ob_id (odb_events db)) \<and> list_all row_ok (odb_events db)"

text \<open>
  How a row may evolve: its identity is fixed, its lease generation never falls, it is in processing only
  under the lease it already had or a newer one, and a row that is sent or quarantined is final.
\<close>

definition row_step :: "outbox_row \<Rightarrow> outbox_row \<Rightarrow> bool" where
  "row_step r r' \<longleftrightarrow>
     ob_id r' = ob_id r \<and> ob_event_type r' = ob_event_type r \<and> ob_aggregate_id r' = ob_aggregate_id r
     \<and> ob_payload r' = ob_payload r \<and> ob_lease_generation r \<le> ob_lease_generation r'
     \<and> (ob_status r' = Processing \<longrightarrow> ob_lease_generation r < ob_lease_generation r'
         \<or> (ob_status r = Processing \<and> ob_lease_generation r' = ob_lease_generation r \<and> ob_worker_id r' = ob_worker_id r))
     \<and> (ob_status r = Sent \<or> ob_status r = Failed \<longrightarrow> r' = r)"

definition event_ids :: "outbox_db \<Rightarrow> string multiset" where
  "event_ids db = mset (map ob_id (odb_events db)) + mset (map ob_id (odb_dlq db))"

definition outbox_le :: "outbox_db \<Rightarrow> outbox_db \<Rightarrow> bool" where
  "outbox_le db db' \<longleftrightarrow>
     (\<forall>r' \<in> set (odb_events db'). \<exists>r \<in> set (odb_events db). row_step r r')
     \<and> event_ids db' = event_ids db
     \<and> (\<exists>new. odb_dlq db' = odb_dlq db @ new) \<and> (\<exists>new. odb_audit db' = odb_audit db @ new)"

definition keeps :: "outbox_db \<Rightarrow> outbox_db \<Rightarrow> bool" where
  "keeps db db' \<longleftrightarrow> (outbox_ok db \<longrightarrow> outbox_ok db' \<and> outbox_le db db')"

lemma row_step_refl [simp]: "row_step r r"
  by (simp add: row_step_def)

lemma row_step_self: "r \<in> A \<Longrightarrow> \<exists>x \<in> A. row_step x r"
  using row_step_refl by blast

lemma row_step_trans: "row_step a b \<Longrightarrow> row_step b c \<Longrightarrow> row_step a c"
  by (auto simp: row_step_def)

lemma outbox_leI:
  assumes "\<And>r'. r' \<in> set (odb_events db') \<Longrightarrow> \<exists>r \<in> set (odb_events db). row_step r r'"
    and "event_ids db' = event_ids db"
    and "\<exists>new. odb_dlq db' = odb_dlq db @ new" and "\<exists>new. odb_audit db' = odb_audit db @ new"
  shows "outbox_le db db'"
  using assms by (simp add: outbox_le_def)

lemma outbox_le_refl [simp]: "outbox_le db db"
  by (rule outbox_leI) (auto intro: row_step_self)

lemma outbox_le_trans: "outbox_le a b \<Longrightarrow> outbox_le b c \<Longrightarrow> outbox_le a c"
proof (rule outbox_leI)
  assume ab: "outbox_le a b" and bc: "outbox_le b c"
  show "\<exists>r \<in> set (odb_events a). row_step r r''" if "r'' \<in> set (odb_events c)" for r''
  proof -
    obtain r' where "r' \<in> set (odb_events b)" "row_step r' r''" using bc \<open>r'' \<in> _\<close> by (auto simp: outbox_le_def)
    moreover obtain r where "r \<in> set (odb_events a)" "row_step r r'"
      using ab calculation(1) by (auto simp: outbox_le_def)
    ultimately show ?thesis using row_step_trans by blast
  qed
qed (auto simp: outbox_le_def)

lemma keeps_refl [simp, intro]: "keeps db db"
  by (simp add: keeps_def)

lemma keeps_trans [trans]: "keeps a b \<Longrightarrow> keeps b c \<Longrightarrow> keeps a c"
  unfolding keeps_def by (blast intro: outbox_le_trans)

lemma audit_effect:
  assumes "appendLifecycleAudit a db = Inr db'"
  shows "odb_events db' = odb_events db" and "odb_dlq db' = odb_dlq db"
    and "\<exists>new. odb_audit db' = odb_audit db @ new"
  using assms by (auto simp: appendLifecycleAudit_def split: option.splits if_splits)

lemma keeps_audit: "appendLifecycleAudit a db = Inr db' \<Longrightarrow> keeps db db'"
  unfolding keeps_def
  by (intro impI conjI outbox_leI) (auto simp: audit_effect outbox_ok_def event_ids_def intro: row_step_self)

lemma keeps_update:
  assumes "\<And>r. P r \<Longrightarrow> row_ok r \<Longrightarrow> row_step r (f r) \<and> row_ok (f r)"
  shows "keeps db (update_events P f db)"
  unfolding keeps_def
proof
  assume ok: "outbox_ok db"
  define g where "g = (\<lambda>r. if P r then f r else r)"
  have e: "odb_events (update_events P f db) = map g (odb_events db)" by (simp add: update_events_def g_def)
  have g: "row_step r (g r)" "row_ok (g r)" if "r \<in> set (odb_events db)" for r
    using assms [of r] that ok by (auto simp: g_def outbox_ok_def list_all_iff)
  have ids: "map ob_id (map g (odb_events db)) = map ob_id (odb_events db)"
    using g(1) by (auto simp: row_step_def)
  have "outbox_ok (update_events P f db)"
    using ok g(2) unfolding outbox_ok_def e ids by (simp add: list_all_iff)
  moreover have "outbox_le db (update_events P f db)"
  proof (rule outbox_leI)
    show "\<exists>r \<in> set (odb_events db). row_step r r'" if "r' \<in> set (odb_events (update_events P f db))" for r'
      using that g(1) unfolding e by auto
    show "event_ids (update_events P f db) = event_ids db"
      unfolding event_ids_def e ids by (simp add: update_events_def)
  qed (simp_all add: update_events_def)
  ultimately show "outbox_ok (update_events P f db) \<and> outbox_le db (update_events P f db)" by simp
qed

lemma filter_remove_one:
  assumes "distinct (map k xs)" and "r \<in> set xs" and "P r" and "\<And>x. P x \<Longrightarrow> k x = k r"
  shows "mset (map k xs) = add_mset (k r) (mset (map k (filter (\<lambda>x. \<not> P x) xs)))"
proof -
  have "filter P xs = [r]"
  proof -
    have "set (filter P xs) = {r}" using assms by (auto simp: distinct_map dest: inj_onD)
    moreover have "distinct (filter P xs)" using assms(1) by (simp add: distinct_map)
    ultimately have "length (filter P xs) = 1" using distinct_card by fastforce
    then obtain y where "filter P xs = [y]" by (auto simp: length_Suc_conv)
    with \<open>set (filter P xs) = {r}\<close> show ?thesis by simp
  qed
  then have "filter_mset P (mset xs) = {#r#}" by (metis mset_filter mset_single_iff_right)
  then have "mset xs = {#r#} + filter_mset (\<lambda>x. \<not> P x) (mset xs)" by (metis multiset_partition)
  then have "image_mset k (mset xs) = add_mset (k r) (image_mset k (filter_mset (\<lambda>x. \<not> P x) (mset xs)))"
    by (metis add_mset_add_single image_mset_add_mset union_commute)
  then show ?thesis by simp
qed

lemma dlq_effect:
  assumes "insertDlqFromLockedEvent cfg now event reason from requireCurrentLease db = Inr db'"
  obtains r d db1 where "r \<in> set (odb_events db)" "ob_id r = ob_id event"
    "ob_lease_generation r = ob_lease_generation event" "ob_id d = ob_id event"
    "requireCurrentLease \<Longrightarrow> ob_status r = Processing \<and> ob_worker_id r = Some (oc_worker cfg) \<and> lease_live now r"
    "\<not> list_ex (\<lambda>d. ob_id d = ob_id event) (odb_dlq db)"
    "appendLifecycleAudit (audit_of cfg event Dlq from Failed reason Once NoMetadata)
        (db\<lparr>odb_dlq := odb_dlq db @ [d]\<rparr>) = Inr db1"
    "db' = db1\<lparr>odb_events := filter (\<lambda>r. \<not> (ob_id r = ob_id event \<and> ob_lease_generation r = ob_lease_generation event))
        (odb_events db1)\<rparr>"
proof -
  let ?find = "find (\<lambda>r. (ob_id r = ob_id event \<and> ob_lease_generation r = ob_lease_generation event) \<and> (\<not> requireCurrentLease \<or>
    (ob_status r = Processing \<and> ob_worker_id r = Some (oc_worker cfg) \<and> lease_live now r))) (odb_events db)"
  obtain r where f: "?find = Some r"
    using assms unfolding insertDlqFromLockedEvent_def Let_def by (cases ?find) simp_all
  have nd: "\<not> list_ex (\<lambda>d. ob_id d = ob_id event) (odb_dlq db)"
    using assms f unfolding insertDlqFromLockedEvent_def Let_def by (simp split: if_splits)
  note r = find_SomeD [OF f]
  define d where "d = r\<lparr>ob_status := Failed, ob_last_error := Some (take 500
    (case ob_last_error event of None \<Rightarrow> reason | Some m \<Rightarrow> if m = '''' then reason else m))\<rparr>"
  obtain db1 where "appendLifecycleAudit (audit_of cfg event Dlq from Failed reason Once NoMetadata)
        (db\<lparr>odb_dlq := odb_dlq db @ [d]\<rparr>) = Inr db1"
    "db' = db1\<lparr>odb_events := filter (\<lambda>r. \<not> (ob_id r = ob_id event \<and> ob_lease_generation r = ob_lease_generation event))
        (odb_events db1)\<rparr>"
    using assms f nd unfolding insertDlqFromLockedEvent_def Let_def d_def by (auto simp: on_ok_Inr_iff)
  then show thesis using r nd by (intro that [of r d db1]) (auto simp: d_def)
qed

lemma keeps_dlq:
  assumes "insertDlqFromLockedEvent cfg now event reason from requireCurrentLease db = Inr db'"
  shows "keeps db db'"
  unfolding keeps_def
proof
  assume ok: "outbox_ok db"
  let ?ev = "\<lambda>r. ob_id r = ob_id event \<and> ob_lease_generation r = ob_lease_generation event"
  obtain r d db1 where r: "r \<in> set (odb_events db)" "?ev r" "ob_id d = ob_id event"
    and db1: "appendLifecycleAudit (audit_of cfg event Dlq from Failed reason Once NoMetadata)
        (db\<lparr>odb_dlq := odb_dlq db @ [d]\<rparr>) = Inr db1"
    and db': "db' = db1\<lparr>odb_events := filter (\<lambda>r. \<not> ?ev r) (odb_events db1)\<rparr>"
    by (rule dlq_effect [OF assms]) blast
  note e = audit_effect [OF db1, simplified]
  have "mset (map ob_id (odb_events db)) = add_mset (ob_id r) (mset (map ob_id (filter (\<lambda>r. \<not> ?ev r) (odb_events db))))"
    using ok r(1,2) by (intro filter_remove_one) (auto simp: outbox_ok_def)
  then have "event_ids db' = event_ids db" using r(2,3) by (simp add: db' event_ids_def e)
  moreover have "outbox_ok db'"
    using ok by (auto simp: outbox_ok_def db' e list_all_iff distinct_map intro: inj_on_subset)
  ultimately show "outbox_ok db' \<and> outbox_le db db'"
    using e(3) by (auto simp: db' e intro!: outbox_leI row_step_self)
qed

lemma keeps_update_audit:
  assumes "appendLifecycleAudit a (update_events P f db) = Inr db'"
    and "\<And>r. P r \<Longrightarrow> row_ok r \<Longrightarrow> row_step r (f r) \<and> row_ok (f r)"
  shows "keeps db db'"
  by (rule keeps_trans [OF keeps_update [OF assms(2)] keeps_audit [OF assms(1)]])

lemma keeps_audit_update:
  assumes "appendLifecycleAudit a db = Inr db1"
    and "\<And>r. P r \<Longrightarrow> row_ok r \<Longrightarrow> row_step r (f r) \<and> row_ok (f r)"
  shows "keeps db (update_events P f db1)"
  by (rule keeps_trans [OF keeps_audit [OF assms(1)] keeps_update [OF assms(2)]])

lemmas row_effects = row_step_def row_ok_def released_def handed_back_def due_def claimable_def held_by_def

lemma keeps_quarantine: "quarantinePendingEvent cfg event reason db = Inr db' \<Longrightarrow> keeps db db'"
  unfolding quarantinePendingEvent_def Let_def
  by (elim on_ok_InrE)
    (auto split: if_splits elim!: keeps_audit_update, auto simp: row_effects)

lemma keeps_sweep_event: "sweep_event cfg now event db = Inr db' \<Longrightarrow> keeps db db'"
  unfolding sweep_event_def
  by (auto simp: on_ok_Inr_iff split: sum.splits if_splits
      intro: keeps_quarantine keeps_trans [OF keeps_audit keeps_dlq])

lemma keeps_sweep_all: "sweep_all cfg now es db = Inr db' \<Longrightarrow> keeps db db'"
  by (induction es arbitrary: db) (auto elim!: on_ok_InrE intro: keeps_trans [OF keeps_sweep_event])

lemma keeps_sweep: "sweepExhaustedPending cfg now locked event limit db = Inr db' \<Longrightarrow> keeps db db'"
  unfolding sweepExhaustedPending_def by (rule keeps_sweep_all)

lemma effective_le_claimed:
  "ob_attempt_count r < effectiveMaxAttempts cfg r \<Longrightarrow> ob_attempt_count r < ob_max_attempts (claimed_row cfg now r)"
  by (auto simp: effectiveMaxAttempts_def claimed_row_def Let_def split: if_splits)

lemma claimed_row_effect:
  assumes "claimable cfg now r" and "row_ok r"
  shows "row_step r (claimed_row cfg now r)" and "row_ok (claimed_row cfg now r)"
  using assms effective_le_claimed [of r cfg now]
  by (simp_all add: row_effects) (simp_all add: claimed_row_def)

lemma keeps_claim_event: "claim_event cfg now event db = Inr (row, db') \<Longrightarrow> keeps db db'"
  unfolding claim_event_def Let_def
  by (auto split: option.splits elim!: on_ok_InrE keeps_update_audit intro: claimed_row_effect)

lemma claim_event_row:
  assumes "claim_event cfg now event db = Inr (Some row, db')"
  obtains r where "r \<in> set (odb_events db)" "ob_id r = event" "claimable cfg now r" "row = claimed_row cfg now r"
    "odb_events db' = odb_events (update_events (\<lambda>r. ob_id r = event \<and> claimable cfg now r) (claimed_row cfg now) db)"
  using assms unfolding claim_event_def Let_def
  by (auto split: option.splits elim!: on_ok_InrE dest: find_SomeD audit_effect(1))

lemma claim_candidate_cases:
  assumes "claim_candidate cfg now candidate db = Inr (row, db')"
  obtains (claimed) r where "row = Some r" and "claim_event cfg now (ob_id candidate) db = Inr (Some r, db')"
    | (skipped) "row = None" and "db' = db"
    | (quarantined) "row = None" and "quarantinePendingEvent cfg candidate ''claim_audit_conflict'' db = Inr db'"
  using assms unfolding claim_candidate_def
  by (auto split: sum.splits if_splits option.splits outbox_error.splits simp: on_ok_Inr_iff)

lemma keeps_claim_candidate: "claim_candidate cfg now candidate db = Inr (row, db') \<Longrightarrow> keeps db db'"
  by (erule claim_candidate_cases) (auto intro: keeps_claim_event keeps_quarantine)

lemma keeps_claim_loop:
  "claim_loop cfg now locked tries limit attempted db = Inr (rows, db') \<Longrightarrow> keeps db db'"
proof (induction cfg now locked tries limit attempted db arbitrary: rows db' rule: claim_loop.induct)
  case (3 cfg now locked tries limit attempted db)
  show ?case
  proof (cases "find (\<lambda>r. claimable cfg now r \<and> \<not> List.member attempted (ob_id r) \<and> \<not> locked (ob_id r)) (odb_events db)")
    case None
    then show ?thesis using "3.prems" by simp
  next
    case (Some candidate)
    obtain row db1 where c: "claim_candidate cfg now candidate db = Inr (row, db1)"
      using "3.prems" Some by (auto elim!: on_ok_InrE)
    obtain rest db2 where l: "claim_loop cfg now locked tries (if row = None then Suc limit else limit)
        (attempted @ [ob_id candidate]) db1 = Inr (rest, db2)" "db2 = db'"
      using "3.prems" Some c by (auto elim!: on_ok_InrE)
    have "keeps db1 db2" by (rule "3.IH" [OF Some l(1)])
    with keeps_claim_candidate [OF c] show ?thesis unfolding l(2) by (rule keeps_trans)
  qed
qed simp_all

lemma keeps_claim_batch: "claimOutboxBatch cfg now locked limit db = Inr (rows, db') \<Longrightarrow> keeps db db'"
  unfolding claimOutboxBatch_def
  by (elim on_ok_InrE) (auto intro: keeps_trans [OF keeps_sweep keeps_claim_loop])

lemma keeps_claim_by_id: "claimOutboxEventById cfg now locked event db = Inr (row, db') \<Longrightarrow> keeps db db'"
  unfolding claimOutboxEventById_def
  by (elim on_ok_InrE) (auto intro: keeps_trans [OF keeps_sweep keeps_claim_event])

lemma keeps_reclaim_event:
  assumes "reclaim_event cfg now event db = Inr db'"
  shows "keeps db db'"
proof (cases "effectiveMaxAttempts cfg event \<le> ob_attempt_count event")
  case True
  then show ?thesis
    using assms unfolding reclaim_event_def Let_def
    by (auto elim!: on_ok_InrE dest!: keeps_audit keeps_dlq intro: keeps_trans)
next
  case False
  then show ?thesis
    using assms unfolding reclaim_event_def Let_def
    by (elim on_ok_InrE) (auto split: if_splits elim!: keeps_audit_update, auto simp: row_effects)
qed

lemma keeps_reclaim_all: "keeps db (snd (reclaim_all cfg now es db))"
  by (induction es arbitrary: db) (auto split: sum.splits prod.splits dest!: keeps_reclaim_event intro: keeps_trans, metis keeps_trans snd_conv)

lemma keeps_reclaim: "keeps db (snd (reclaimStuckProcessing cfg now locked db))"
  unfolding reclaimStuckProcessing_def by (rule keeps_reclaim_all)

lemma keeps_sent: "markOutboxSent cfg now event generation db = Inr db' \<Longrightarrow> keeps db db'"
  unfolding markOutboxSent_def Let_def
  by (elim on_ok_InrE) (auto split: option.splits elim!: keeps_update_audit, auto simp: row_effects)

lemma keeps_heartbeat: "heartbeatOutboxLease cfg now txid event generation db = Inr (ok, db') \<Longrightarrow> keeps db db'"
  unfolding heartbeatOutboxLease_def Let_def
  by (elim on_ok_InrE)
    (auto split: option.splits elim!: on_ok_InrE keeps_update_audit, auto simp: row_effects)

lemma keeps_assert_lease: "assertLeaseForProviderIo cfg now txid event generation m db = Inr (ok, db') \<Longrightarrow> keeps db db'"
  unfolding assertLeaseForProviderIo_def
  by (elim on_ok_InrE) (auto split: option.splits if_splits dest: keeps_heartbeat)

lemma keeps_hand_back: "keeps db (update_events (\<lambda>r. held_by cfg event g r \<and> lease_live now r) (handed_back t msg) db)"
  by (rule keeps_update) (auto simp: row_effects)

text \<open>The three ways a failed job leaves its worker.\<close>

lemma markOutboxFailed_cases:
  assumes "markOutboxFailed cfg now sample event generation e db = Inr db'"
  obtains (archived) r db1 where "r \<in> set (odb_events db)" "held_by cfg event generation r" "lease_live now r"
      "appendLifecycleAudit (audit_of cfg r Failure Processing Processing (failure_reason e) Once
         (ErrorEvidence (take 500 (wf_message e)))) db = Inr db1"
      "wf_kind e = PermanentFailure \<or> effectiveMaxAttempts cfg r \<le> max 0 (ob_attempt_count r)"
      "insertDlqFromLockedEvent cfg now (r\<lparr>ob_last_error := Some (take 500 (wf_message e))\<rparr>)
         (if wf_kind e = PermanentFailure then ''permanent_failure'' else ''max_attempts_exhausted'') Processing True db1 = Inr db'"
    | (retried) r db1 t reason metadata where "r \<in> set (odb_events db)" "held_by cfg event generation r" "lease_live now r"
      "appendLifecycleAudit (audit_of cfg r Failure Processing Processing (failure_reason e) Once
         (ErrorEvidence (take 500 (wf_message e)))) db = Inr db1"
      "wf_kind e \<noteq> PermanentFailure" "ob_attempt_count r < effectiveMaxAttempts cfg r"
      "(wf_kind e = DeferredFailure (Some t) \<and> now < t)
        \<or> (wf_kind e = OtherFailure \<and> t = now + delay_ms (next_delay cfg sample e r))"
      "appendLifecycleAudit (audit_of cfg r Retry Processing Pending reason Once metadata)
         (update_events (\<lambda>r. held_by cfg event generation r \<and> lease_live now r)
           (handed_back t (take 500 (wf_message e))) db1) = Inr db'"
proof -
  obtain g where g: "requireLeaseGeneration generation = Inr g" "g = generation"
    using assms unfolding markOutboxFailed_def
    by (auto elim!: on_ok_InrE simp: requireLeaseGeneration_def split: if_splits)
  obtain r where r: "find (held_by cfg event generation) (odb_events db) = Some r" "lease_live now r"
    using assms g unfolding markOutboxFailed_def Let_def by (auto split: option.splits if_splits)
  obtain db1 where db1: "appendLifecycleAudit (audit_of cfg r Failure Processing Processing (failure_reason e) Once
         (ErrorEvidence (take 500 (wf_message e)))) db = Inr db1"
    using assms g r unfolding markOutboxFailed_def Let_def by (auto elim!: on_ok_InrE)
  note step = assms [unfolded markOutboxFailed_def Let_def, simplified g r option.case db1 on_ok_simps, simplified]
  note f = find_SomeD [OF r(1)]
  show thesis
  proof (cases "wf_kind e = PermanentFailure \<or> effectiveMaxAttempts cfg r \<le> max 0 (ob_attempt_count r)")
    case True
    then show thesis using step f r(2) db1 by (intro archived [of r db1]) (auto split: if_splits)
  next
    case False
    then show thesis
      using step f r(2) db1 by (cases "wf_kind e") (auto split: option.splits if_splits intro: retried)
  qed
qed

lemma keeps_failed: "markOutboxFailed cfg now sample event generation e db = Inr db' \<Longrightarrow> keeps db db'"
  by (erule markOutboxFailed_cases)
    (blast intro: keeps_trans keeps_audit keeps_dlq keeps_hand_back)+

end
