(* ===== verification/OutboxRuns.thy ===== *)
theory OutboxRuns
  imports Outbox
begin

text \<open>
  Runs of the outbox: any number of workers, with their own settings, perform the operations of
  \<open>Outbox\<close> in any order and at any clock readings, while producers enqueue events. A claim hands out a
  token, the event and its lease generation.
\<close>

section \<open>Operations and runs\<close>

datatype outbox_op =
    OpClaimBatch outbox_cfg "string \<Rightarrow> bool" int
  | OpClaimById outbox_cfg "string \<Rightarrow> bool" string
  | OpReclaim outbox_cfg "string \<Rightarrow> bool"
  | OpSent outbox_cfg string int
  | OpFailed outbox_cfg jsnum string int worker_failure
  | OpHeartbeat outbox_cfg string string int
  | OpAssertLease outbox_cfg string string int int

type_synonym lease_token = "string \<times> int"

definition token_of :: "outbox_row \<Rightarrow> lease_token" where
  "token_of r = (ob_id r, ob_lease_generation r)"

text \<open>An operation that throws is rolled back.\<close>

definition committed :: "outbox_db \<Rightarrow> outbox_error + 'a \<times> outbox_db \<Rightarrow> outbox_db" where
  "committed db r = (case r of Inl e \<Rightarrow> db | Inr (a, db') \<Rightarrow> db')"

definition committed_only :: "outbox_db \<Rightarrow> outbox_error + outbox_db \<Rightarrow> outbox_db" where
  "committed_only db r = (case r of Inl e \<Rightarrow> db | Inr db' \<Rightarrow> db')"

fun outbox_exec :: "int \<Rightarrow> outbox_op \<Rightarrow> outbox_db \<Rightarrow> lease_token list \<times> outbox_db" where
  "outbox_exec now (OpClaimBatch cfg locked limit) db =
     (case claimOutboxBatch cfg now locked limit db of
        Inl e \<Rightarrow> ([], db) | Inr (rows, db') \<Rightarrow> (map token_of rows, db'))"
| "outbox_exec now (OpClaimById cfg locked event) db =
     (case claimOutboxEventById cfg now locked event db of
        Inl e \<Rightarrow> ([], db)
      | Inr (row, db') \<Rightarrow> (case row of None \<Rightarrow> [] | Some r \<Rightarrow> [token_of r], db'))"
| "outbox_exec now (OpReclaim cfg locked) db = ([], snd (reclaimStuckProcessing cfg now locked db))"
| "outbox_exec now (OpSent cfg event g) db = ([], committed_only db (markOutboxSent cfg now event g db))"
| "outbox_exec now (OpFailed cfg sample event g e) db =
     ([], committed_only db (markOutboxFailed cfg now sample event g e db))"
| "outbox_exec now (OpHeartbeat cfg txid event g) db =
     ([], committed db (heartbeatOutboxLease cfg now txid event g db))"
| "outbox_exec now (OpAssertLease cfg txid event g m) db =
     ([], committed db (assertLeaseForProviderIo cfg now txid event g m db))"

definition fresh_event :: "outbox_row \<Rightarrow> bool" where
  "fresh_event r \<longleftrightarrow> ob_status r = Pending \<and> ob_worker_id r = None \<and> ob_lease_expires_at r = None
     \<and> ob_lease_generation r = 0 \<and> ob_attempt_count r = 0 \<and> 1 \<le> ob_max_attempts r"

text \<open>The identifier of an enqueued event is a new UUID.\<close>

inductive outbox_run :: "outbox_db \<Rightarrow> lease_token list \<Rightarrow> outbox_db \<Rightarrow> bool" for db0 where
  start: "outbox_run db0 [] db0"
| operate: "outbox_run db0 tokens db \<Longrightarrow> outbox_exec now op db = (new, db') \<Longrightarrow> outbox_run db0 (tokens @ new) db'"
| enqueue: "outbox_run db0 tokens db \<Longrightarrow> fresh_event new \<Longrightarrow> ob_id new \<notin># event_ids db \<Longrightarrow>
    insert_outbox_event new db = Inr db' \<Longrightarrow> outbox_run db0 tokens db'"

inductive_cases outbox_runE: "outbox_run db0 tokens db"

lemma exec_keeps: "outbox_exec now op db = (new, db') \<Longrightarrow> keeps db db'"
  by (cases op)
    (auto simp: committed_def committed_only_def split: sum.splits prod.splits
      dest: keeps_claim_batch keeps_claim_by_id keeps_sent keeps_failed keeps_heartbeat keeps_assert_lease
      intro: keeps_reclaim)

lemma insert_ok:
  assumes "insert_outbox_event new db = Inr db'" and "fresh_event new" and "outbox_ok db"
  shows "outbox_ok db'" and "event_ids db' = add_mset (ob_id new) (event_ids db)"
    and "odb_events db' = odb_events db @ [new]"
proof -
  have n: "ob_id new \<notin> set (map ob_id (odb_events db))" and db': "db' = db\<lparr>odb_events := odb_events db @ [new]\<rparr>"
    using assms(1) by (auto simp: insert_outbox_event_def list_ex_iff split: if_splits)
  show "outbox_ok db'" using n assms(2,3) by (simp add: db' outbox_ok_def fresh_event_def row_ok_def)
qed (use assms(1) in \<open>auto simp: insert_outbox_event_def event_ids_def split: if_splits\<close>)

lemma run_ok: "outbox_run db0 tokens db \<Longrightarrow> outbox_ok db0 \<Longrightarrow> outbox_ok db \<and> event_ids db0 \<subseteq># event_ids db"
proof (induction rule: outbox_run.induct)
  case (operate tokens db now op new db')
  then show ?case using exec_keeps [OF operate.hyps(2)] by (auto simp: keeps_def outbox_le_def)
next
  case (enqueue tokens db new db')
  then show ?case using insert_ok [OF enqueue.hyps(4,2)] by (simp add: subset_mset.le_iff_add)
      (metis add_mset_add_single union_assoc)
qed simp

section \<open>Claims\<close>

definition claims_ok :: "outbox_db \<Rightarrow> lease_token list \<Rightarrow> outbox_db \<Rightarrow> bool" where
  "claims_ok db new db' \<longleftrightarrow>
     distinct new \<and> (\<forall>(i, g) \<in> set new. (\<exists>r \<in> set (odb_events db). ob_id r = i \<and> ob_lease_generation r < g)
       \<and> (\<forall>r \<in> set (odb_events db'). ob_id r = i \<longrightarrow> g \<le> ob_lease_generation r))"

lemma same_event:
  "outbox_ok db \<Longrightarrow> x \<in> set (odb_events db) \<Longrightarrow> r \<in> set (odb_events db) \<Longrightarrow> ob_id x = ob_id r \<Longrightarrow> x = r"
  by (auto simp: outbox_ok_def distinct_map dest: inj_onD)

lemma claimed_row_token [simp]:
  "ob_id (claimed_row cfg now r) = ob_id r"
  "ob_lease_generation (claimed_row cfg now r) = ob_lease_generation r + 1"
  by (simp_all add: claimed_row_def)

lemma claim_event_token:
  assumes "outbox_ok db" and "claim_event cfg now event db = Inr (Some row, db')"
  shows "claims_ok db [token_of row] db'" and "ob_id row = event"
proof -
  obtain r where r: "r \<in> set (odb_events db)" "ob_id r = event" "claimable cfg now r" "row = claimed_row cfg now r"
    "odb_events db' = odb_events (update_events (\<lambda>r. ob_id r = event \<and> claimable cfg now r) (claimed_row cfg now) db)"
    by (rule claim_event_row [OF assms(2)])
  show "ob_id row = event" using r(2,4) by simp
  have "ob_lease_generation x = ob_lease_generation r + 1" if x: "x \<in> set (odb_events db')" "ob_id x = event" for x
  proof -
    obtain y where y: "y \<in> set (odb_events db)"
        "x = (if ob_id y = event \<and> claimable cfg now y then claimed_row cfg now y else y)"
      using x(1) unfolding r(5) update_events_def by auto
    have "ob_id y = event" using x(2) y(2) by (cases "ob_id y = event \<and> claimable cfg now y") simp_all
    then have "y = r" using same_event [OF assms(1) y(1) r(1)] r(2) by simp
    then show ?thesis using y(2) r(2,3) by simp
  qed
  then show "claims_ok db [token_of row] db'"
    using r(1,2,4) by (auto simp: claims_ok_def token_of_def)
qed

lemma le_generation:
  assumes "outbox_le db db'" and "r' \<in> set (odb_events db')"
  obtains r where "r \<in> set (odb_events db)" "ob_id r = ob_id r'" "ob_lease_generation r \<le> ob_lease_generation r'"
  using assms unfolding outbox_le_def row_step_def by force

lemma claims_ok_later:
  assumes "claims_ok db new db1" and "outbox_le db1 db2"
  shows "claims_ok db new db2"
proof -
  have "g \<le> ob_lease_generation r'" if t: "(i, g) \<in> set new" and r': "r' \<in> set (odb_events db2)" "ob_id r' = i" for i g r'
  proof -
    obtain r where "r \<in> set (odb_events db1)" "ob_id r = i" "ob_lease_generation r \<le> ob_lease_generation r'"
      using le_generation [OF assms(2) r'(1)] r'(2) by auto
    then show ?thesis using assms(1) t unfolding claims_ok_def by fastforce
  qed
  then show ?thesis using assms(1) unfolding claims_ok_def by blast
qed

lemma claims_ok_earlier:
  assumes "outbox_le db db1" and "claims_ok db1 new db2"
  shows "claims_ok db new db2"
proof -
  have "\<exists>r \<in> set (odb_events db). ob_id r = i \<and> ob_lease_generation r < g" if t: "(i, g) \<in> set new" for i g
  proof -
    obtain r1 where "r1 \<in> set (odb_events db1)" "ob_id r1 = i" "ob_lease_generation r1 < g"
      using assms(2) t unfolding claims_ok_def by blast
    then show ?thesis using le_generation [OF assms(1)] by (metis le_less_trans)
  qed
  then show ?thesis using assms(2) unfolding claims_ok_def by blast
qed

lemma claim_loop_tokens:
  "claim_loop cfg now locked tries limit attempted db = Inr (rows, db') \<Longrightarrow> outbox_ok db \<Longrightarrow>
   claims_ok db (map token_of rows) db' \<and> (\<forall>r \<in> set rows. ob_id r \<notin> set attempted)"
proof (induction cfg now locked tries limit attempted db arbitrary: rows db' rule: claim_loop.induct)
  case (3 cfg now locked tries limit attempted db)
  show ?case
  proof (cases "find (\<lambda>r. claimable cfg now r \<and> \<not> List.member attempted (ob_id r) \<and> \<not> locked (ob_id r)) (odb_events db)")
    case None
    then show ?thesis using "3.prems" by (simp add: claims_ok_def)
  next
    case (Some candidate)
    obtain row db1 rest where c: "claim_candidate cfg now candidate db = Inr (row, db1)"
      and l: "claim_loop cfg now locked tries (if row = None then Suc limit else limit)
        (attempted @ [ob_id candidate]) db1 = Inr (rest, db')"
      and rows: "rows = (case row of None \<Rightarrow> rest | Some r \<Rightarrow> r # rest)"
      using "3.prems"(1) Some by (auto elim!: on_ok_InrE)
    have k: "outbox_ok db1" "outbox_le db db1"
      using keeps_claim_candidate [OF c] "3.prems"(2) by (auto simp: keeps_def)
    note ih = "3.IH" [OF Some l k(1)]
    have fresh: "ob_id candidate \<notin> set attempted"
      using find_SomeD [OF Some] by simp
    show ?thesis
    proof (cases row)
      case None
      then show ?thesis using ih rows claims_ok_earlier [OF k(2)] by auto
    next
      case (Some r)
      then have ce: "claim_event cfg now (ob_id candidate) db = Inr (Some r, db1)"
        using c by (auto elim: claim_candidate_cases)
      note t = claim_event_token [OF "3.prems"(2) ce]
      have "outbox_le db1 db'" using keeps_claim_loop [OF l] k(1) by (simp add: keeps_def)
      then have "claims_ok db [token_of r] db'" by (rule claims_ok_later [OF t(1)])
      moreover have "claims_ok db (map token_of rest) db'" using claims_ok_earlier [OF k(2)] ih by blast
      moreover have "token_of r \<notin> set (map token_of rest)" using ih t(2) by (auto simp: token_of_def)
      ultimately show ?thesis using ih rows Some fresh t(2) by (auto simp: claims_ok_def)
    qed
  qed
qed (simp_all add: claims_ok_def)

lemma exec_tokens:
  assumes "outbox_exec now op db = (new, db')" and ok: "outbox_ok db"
  shows "claims_ok db new db'"
proof (cases op)
  case (OpClaimBatch cfg locked limit)
  show ?thesis
  proof (cases "claimOutboxBatch cfg now locked limit db")
    case (Inr res)
    obtain rows where res: "res = (rows, db')" "new = map token_of rows"
      using assms(1) OpClaimBatch Inr by (cases res) simp
    obtain db1 where db1: "sweepExhaustedPending cfg now locked None limit db = Inr db1"
      "claim_loop cfg now locked 500 (nat (max 1 limit)) [] db1 = Inr (rows, db')"
      using Inr res unfolding claimOutboxBatch_def by (auto elim!: on_ok_InrE)
    have "outbox_ok db1" "outbox_le db db1" using keeps_sweep [OF db1(1)] ok by (simp_all add: keeps_def)
    then show ?thesis using claim_loop_tokens [OF db1(2)] claims_ok_earlier res(2) by blast
  qed (use assms(1) OpClaimBatch in \<open>simp add: claims_ok_def\<close>)
next
  case (OpClaimById cfg locked event)
  show ?thesis
  proof (cases "claimOutboxEventById cfg now locked event db")
    case (Inr res)
    obtain row where res: "res = (row, db')" "new = (case row of None \<Rightarrow> [] | Some r \<Rightarrow> [token_of r])"
      using assms(1) OpClaimById Inr by (cases res) simp
    obtain db1 where db1: "sweepExhaustedPending cfg now locked (Some event) 1 db = Inr db1"
      "claim_event cfg now event db1 = Inr (row, db')"
      using Inr res unfolding claimOutboxEventById_def by (auto elim!: on_ok_InrE)
    have "outbox_ok db1" "outbox_le db db1" using keeps_sweep [OF db1(1)] ok by (simp_all add: keeps_def)
    then show ?thesis
      using claim_event_token(1) [of db1 cfg now event _ db'] db1(2) claims_ok_earlier res(2)
      by (cases row) (auto simp: claims_ok_def [of _ "[]"])
  qed (use assms(1) OpClaimById in \<open>simp add: claims_ok_def\<close>)
qed (use assms(1) in \<open>auto simp: claims_ok_def\<close>)

definition tokens_ok :: "lease_token list \<Rightarrow> outbox_db \<Rightarrow> bool" where
  "tokens_ok tokens db \<longleftrightarrow> distinct tokens \<and> (\<forall>(i, g) \<in> set tokens. i \<in># event_ids db
     \<and> (\<forall>r \<in> set (odb_events db). ob_id r = i \<longrightarrow> g \<le> ob_lease_generation r))"

lemma run_tokens: "outbox_run db0 tokens db \<Longrightarrow> outbox_ok db0 \<Longrightarrow> tokens_ok tokens db"
proof (induction rule: outbox_run.induct)
  case (operate tokens db now op new db')
  have ok: "outbox_ok db" using run_ok [OF operate.hyps(1) operate.prems] by simp
  note c = exec_tokens [OF operate.hyps(2) ok]
  have le: "outbox_le db db'" using exec_keeps [OF operate.hyps(2)] ok by (simp add: keeps_def)
  then have ids: "event_ids db' = event_ids db" by (simp add: outbox_le_def)
  have old: "i \<in># event_ids db' \<and> (\<forall>r \<in> set (odb_events db'). ob_id r = i \<longrightarrow> g \<le> ob_lease_generation r)"
    if "(i, g) \<in> set tokens" for i g
    using operate.IH [OF operate.prems] that le ids
    unfolding tokens_ok_def outbox_le_def row_step_def by (fastforce intro: order_trans)
  have new: "i \<in># event_ids db' \<and> (\<forall>r \<in> set (odb_events db'). ob_id r = i \<longrightarrow> g \<le> ob_lease_generation r)"
    if "(i, g) \<in> set new" for i g
    using c that ids unfolding claims_ok_def by (fastforce simp: event_ids_def)
  have "(i, g) \<notin> set new" if "(i, g) \<in> set tokens" for i g
    using operate.IH [OF operate.prems] that c unfolding tokens_ok_def claims_ok_def by fastforce
  then have "set tokens \<inter> set new = {}" by auto
  then show ?case
    using operate.IH [OF operate.prems] c old new by (auto simp: tokens_ok_def claims_ok_def)
next
  case (enqueue tokens db new db')
  have ok: "outbox_ok db" using run_ok [OF enqueue.hyps(1) enqueue.prems] by simp
  show ?case
    using enqueue.IH [OF enqueue.prems] insert_ok(2,3) [OF enqueue.hyps(4,2) ok] enqueue.hyps(3)
    by (auto simp: tokens_ok_def)
qed (simp add: tokens_ok_def)

section \<open>Tokens that are used up\<close>

definition token_dead :: "lease_token \<Rightarrow> outbox_db \<Rightarrow> bool" where
  "token_dead t db \<longleftrightarrow> fst t \<in># event_ids db \<and> (\<forall>r \<in> set (odb_events db). ob_id r = fst t \<longrightarrow>
     snd t \<le> ob_lease_generation r \<and> \<not> (ob_status r = Processing \<and> ob_lease_generation r = snd t))"

lemma dead_le:
  assumes "token_dead t db" and "outbox_le db db'"
  shows "token_dead t db'"
proof -
  have "snd t \<le> ob_lease_generation r' \<and> \<not> (ob_status r' = Processing \<and> ob_lease_generation r' = snd t)"
    if r': "r' \<in> set (odb_events db')" "ob_id r' = fst t" for r'
  proof -
    obtain r where "r \<in> set (odb_events db)" and step: "row_step r r'"
      using assms(2) r'(1) by (auto simp: outbox_le_def)
    then have "snd t \<le> ob_lease_generation r \<and> \<not> (ob_status r = Processing \<and> ob_lease_generation r = snd t)"
      using assms(1) r'(2) by (auto simp: token_dead_def row_step_def)
    then show ?thesis using step by (auto simp: row_step_def)
  qed
  then show ?thesis using assms by (auto simp: token_dead_def outbox_le_def)
qed

lemma dead_run:
  "outbox_run db0 tokens db \<Longrightarrow> outbox_ok db0 \<Longrightarrow> token_dead t db0 \<Longrightarrow> token_dead t db"
proof (induction rule: outbox_run.induct)
  case (operate tokens db now op new db')
  have "outbox_ok db" using run_ok [OF operate.hyps(1)] operate.prems(1) by simp
  then show ?case
    using exec_keeps [OF operate.hyps(2)] operate.IH [OF operate.prems] by (auto simp: keeps_def intro: dead_le)
next
  case (enqueue tokens db new db')
  have ok: "outbox_ok db" using run_ok [OF enqueue.hyps(1)] enqueue.prems(1) by simp
  show ?case
    using enqueue.IH [OF enqueue.prems] insert_ok(2,3) [OF enqueue.hyps(4,2) ok] enqueue.hyps(3)
    by (auto simp: token_dead_def)
qed

lemma dead_token_fails:
  assumes "token_dead (i, g) db" and "requireLeaseGeneration g = Inr g"
  shows "markOutboxSent cfg now i g db = Inl (OutboxLeaseLost i)"
    and "markOutboxFailed cfg now sample i g e db = Inl (OutboxLeaseLost i)"
    and "heartbeatOutboxLease cfg now txid i g db = Inr (False, db)"
    and "assertLeaseForProviderIo cfg now txid i g m db = Inr (False, db)"
proof -
  have h: "\<not> held_by cfg i g r" if "r \<in> set (odb_events db)" for r
    using assms(1) that by (auto simp: token_dead_def held_by_def)
  then have "find (\<lambda>r. held_by cfg i g r \<and> lease_live now r) (odb_events db) = None"
    and "find (held_by cfg i g) (odb_events db) = None" by (auto intro: find_None)
  then show "markOutboxSent cfg now i g db = Inl (OutboxLeaseLost i)"
    and "markOutboxFailed cfg now sample i g e db = Inl (OutboxLeaseLost i)"
    and "heartbeatOutboxLease cfg now txid i g db = Inr (False, db)"
    and "assertLeaseForProviderIo cfg now txid i g m db = Inr (False, db)"
    using assms(2)
    by (simp_all add: markOutboxSent_def markOutboxFailed_def heartbeatOutboxLease_def assertLeaseForProviderIo_def Let_def)
qed

lemma requireLeaseGeneration_Inr: "requireLeaseGeneration g = Inr g' \<Longrightarrow> g' = g"
  by (auto simp: requireLeaseGeneration_def split: if_splits)

lemma update_dead:
  assumes ok: "outbox_ok db" and r: "r \<in> set (odb_events db)" "held_by cfg i g r" "P r"
    and f: "\<And>x. ob_id (f x) = ob_id x \<and> ob_lease_generation (f x) = ob_lease_generation x \<and> ob_status (f x) \<noteq> Processing"
    and e: "odb_events db' = odb_events (update_events P f db)" and d: "odb_dlq db' = odb_dlq db"
  shows "token_dead (i, g) db'"
proof -
  have only: "x' = f r" if x': "x' \<in> set (odb_events db')" "ob_id x' = i" for x'
  proof -
    obtain x where x: "x \<in> set (odb_events db)" "x' = (if P x then f x else x)"
      using x'(1) unfolding e update_events_def by auto
    have "ob_id x = ob_id r" using x(2) x'(2) f r(2) by (auto simp: held_by_def split: if_splits)
    then have "x = r" by (rule same_event [OF ok x(1) r(1)])
    then show ?thesis using x(2) r(3) by simp
  qed
  have fr: "ob_id (f r) = i" "ob_lease_generation (f r) = g" "ob_status (f r) \<noteq> Processing"
    using f r(2) by (simp_all add: held_by_def)
  have "f r \<in> set (odb_events db')" using r(1,3) unfolding e update_events_def by (auto intro: rev_image_eqI)
  then have "i \<in> set (map ob_id (odb_events db'))" using fr(1) by force
  then have "i \<in># event_ids db'" by (simp add: event_ids_def)
  then show ?thesis unfolding token_dead_def using only fr by (metis fst_conv order_refl snd_conv)
qed

lemma sent_dead:
  assumes "markOutboxSent cfg now i g db = Inr db'" and ok: "outbox_ok db"
  shows "token_dead (i, g) db'" and "requireLeaseGeneration g = Inr g"
proof -
  obtain g' where "requireLeaseGeneration g = Inr g'" using assms(1) unfolding markOutboxSent_def by (auto elim: on_ok_InrE)
  then show g: "requireLeaseGeneration g = Inr g" using requireLeaseGeneration_Inr by blast
  let ?P = "\<lambda>r. held_by cfg i g r \<and> lease_live now r"
  obtain r where f: "find ?P (odb_events db) = Some r"
    and a: "appendLifecycleAudit (audit_of cfg r Completion Processing Sent ''worker_completed'' Once NoMetadata)
      (update_events ?P (\<lambda>r. (released r)\<lparr>ob_status := Sent, ob_sent_at := Some now, ob_last_error := None\<rparr>) db) = Inr db'"
    using assms(1) g unfolding markOutboxSent_def Let_def by (auto split: option.splits)
  have r: "r \<in> set (odb_events db)" "held_by cfg i g r" "?P r" using find_SomeD [OF f] by simp_all
  note e = audit_effect(1,2) [OF a]
  show "token_dead (i, g) db'"
  proof (rule update_dead [where P = ?P, OF ok r])
    show "odb_dlq db' = odb_dlq db" by (simp add: e(2) update_events_def)
    show "odb_events db' = odb_events (update_events ?P
        (\<lambda>r. (released r)\<lparr>ob_status := Sent, ob_sent_at := Some now, ob_last_error := None\<rparr>) db)" by (rule e(1))
  qed (simp add: released_def)
qed

lemma failed_dead:
  assumes "markOutboxFailed cfg now sample i g e db = Inr db'" and ok: "outbox_ok db"
  shows "token_dead (i, g) db'" and "requireLeaseGeneration g = Inr g"
proof -
  obtain g' where "requireLeaseGeneration g = Inr g'" using assms(1) unfolding markOutboxFailed_def by (auto elim: on_ok_InrE)
  then show "requireLeaseGeneration g = Inr g" using requireLeaseGeneration_Inr by blast
  show "token_dead (i, g) db'"
    using assms(1)
  proof (cases rule: markOutboxFailed_cases)
    case (archived r db1)
    note e = audit_effect(1,2) [OF archived(4)]
    obtain d db2 where d: "ob_id d = i" and db2: "appendLifecycleAudit (audit_of cfg (r\<lparr>ob_last_error := Some (take 500 (wf_message e))\<rparr>) Dlq Processing Failed
        (if wf_kind e = PermanentFailure then ''permanent_failure'' else ''max_attempts_exhausted'') Once NoMetadata)
        (db1\<lparr>odb_dlq := odb_dlq db1 @ [d]\<rparr>) = Inr db2"
      and db': "db' = db2\<lparr>odb_events := filter (\<lambda>x. \<not> (ob_id x = ob_id r \<and> ob_lease_generation x = ob_lease_generation r)) (odb_events db2)\<rparr>"
      by (rule dlq_effect [OF archived(6)]) (use archived(2) in \<open>simp add: held_by_def\<close>)
    note e2 = audit_effect(1,2) [OF db2, simplified]
    have "ob_id x \<noteq> i" if "x \<in> set (odb_events db')" for x
      using that same_event [OF ok _ archived(1), of x] archived(2) by (auto simp: db' e e2 held_by_def)
    moreover have "i \<in># event_ids db'" using d by (simp add: db' event_ids_def e2)
    ultimately show ?thesis by (auto simp: token_dead_def)
  next
    case (retried r db1 t reason metadata)
    note e1 = audit_effect(1,2) [OF retried(4)] and e2 = audit_effect(1,2) [OF retried(8)]
    let ?P = "\<lambda>r. held_by cfg i g r \<and> lease_live now r"
    have P: "?P r" using retried(2,3) by simp
    show ?thesis
    proof (rule update_dead [where P = ?P, OF ok retried(1,2) P])
      show "odb_dlq db' = odb_dlq db" by (simp add: e1 e2 update_events_def)
      show "odb_events db' = odb_events (update_events ?P (handed_back t (take 500 (wf_message e))) db)"
        by (simp add: e1 e2 update_events_def)
    qed (simp add: handed_back_def released_def)
  qed
qed

section \<open>A live lease is exclusive\<close>

lemma update_keeps_row: "r \<in> set (odb_events db) \<Longrightarrow> \<not> P r \<Longrightarrow> r \<in> set (odb_events (update_events P f db))"
  by (force simp: update_events_def)

lemma audit_keeps_row: "appendLifecycleAudit a db = Inr db' \<Longrightarrow> r \<in> set (odb_events db) \<Longrightarrow> r \<in> set (odb_events db')"
  by (simp add: audit_effect)

lemma dlq_keeps_row:
  assumes "insertDlqFromLockedEvent cfg now event reason from req db = Inr db'"
    and "ob_id event \<noteq> ob_id r" and "r \<in> set (odb_events db)"
  shows "r \<in> set (odb_events db')"
proof -
  obtain x d db1 where a: "appendLifecycleAudit (audit_of cfg event Dlq from Failed reason Once NoMetadata)
        (db\<lparr>odb_dlq := odb_dlq db @ [d]\<rparr>) = Inr db1"
    and db': "db' = db1\<lparr>odb_events := filter (\<lambda>r. \<not> (ob_id r = ob_id event
        \<and> ob_lease_generation r = ob_lease_generation event)) (odb_events db1)\<rparr>"
    by (rule dlq_effect [OF assms(1)]) blast
  show ?thesis using audit_effect(1) [OF a] assms(2,3) by (auto simp: db')
qed

lemma quarantine_keeps_row:
  assumes "quarantinePendingEvent cfg event reason db = Inr db'"
    and "ob_status r = Processing" and "r \<in> set (odb_events db)"
  shows "r \<in> set (odb_events db')"
  using assms unfolding quarantinePendingEvent_def Let_def
  by (elim on_ok_InrE) (auto split: if_splits intro!: update_keeps_row dest: audit_keeps_row)

lemma sweep_event_keeps_row:
  assumes "sweep_event cfg now e db = Inr db'" and "ob_id e \<noteq> ob_id r"
    and "ob_status r = Processing" and "r \<in> set (odb_events db)"
  shows "r \<in> set (odb_events db')"
  using assms unfolding sweep_event_def
  by (auto simp: on_ok_Inr_iff split: sum.splits if_splits
      intro: quarantine_keeps_row dlq_keeps_row audit_keeps_row)

lemma sweep_all_keeps_row:
  "sweep_all cfg now es db = Inr db' \<Longrightarrow> \<forall>e \<in> set es. ob_id e \<noteq> ob_id r \<Longrightarrow> ob_status r = Processing \<Longrightarrow>
   r \<in> set (odb_events db) \<Longrightarrow> r \<in> set (odb_events db')"
  by (induction es arbitrary: db) (auto elim!: on_ok_InrE dest: sweep_event_keeps_row)

lemma sweep_keeps_row:
  assumes "sweepExhaustedPending cfg now locked event limit db = Inr db'" and ok: "outbox_ok db"
    and r: "ob_status r = Processing" "r \<in> set (odb_events db)"
  shows "r \<in> set (odb_events db')"
  using assms(1) unfolding sweepExhaustedPending_def
proof (rule sweep_all_keeps_row [OF _ ballI r])
  fix e assume "e \<in> set (take (case event of Some _ \<Rightarrow> 1 | None \<Rightarrow> nat (min 500 (max 20 (limit * 10))))
    (filter (\<lambda>r. due now r \<and> effectiveMaxAttempts cfg r \<le> ob_attempt_count r
      \<and> (case event of None \<Rightarrow> True | Some i \<Rightarrow> ob_id r = i) \<and> \<not> locked (ob_id r)) (odb_events db)))"
  then have "e \<in> set (odb_events db)" "due now e" by (auto dest: in_set_takeD)
  then show "ob_id e \<noteq> ob_id r" using same_event [OF ok _ r(2), of e] r(1) by (force simp: due_def)
qed

lemma claim_event_keeps_row:
  assumes "claim_event cfg now event db = Inr (row, db')" and "ob_status r = Processing" "r \<in> set (odb_events db)"
  shows "r \<in> set (odb_events db')"
  using assms unfolding claim_event_def Let_def
  by (auto split: option.splits elim!: on_ok_InrE audit_keeps_row intro!: update_keeps_row simp: claimable_def due_def)

lemma claim_candidate_keeps_row:
  assumes "claim_candidate cfg now candidate db = Inr (row, db')" and "ob_status r = Processing" "r \<in> set (odb_events db)"
  shows "r \<in> set (odb_events db')"
  using assms(1) by (rule claim_candidate_cases) (use assms(2,3) in \<open>auto intro: claim_event_keeps_row quarantine_keeps_row\<close>)

lemma claim_loop_keeps_row:
  "claim_loop cfg now locked tries limit attempted db = Inr (rows, db') \<Longrightarrow> ob_status r = Processing \<Longrightarrow>
   r \<in> set (odb_events db) \<Longrightarrow> r \<in> set (odb_events db')"
proof (induction cfg now locked tries limit attempted db arbitrary: rows db' rule: claim_loop.induct)
  case (3 cfg now locked tries limit attempted db)
  then show ?case
    by (auto split: option.splits elim!: on_ok_InrE dest: claim_candidate_keeps_row)
qed simp_all

lemma reclaim_event_keeps_row:
  assumes "reclaim_event cfg now e db = Inr db'" and "ob_id e \<noteq> ob_id r" and "r \<in> set (odb_events db)"
  shows "r \<in> set (odb_events db')"
  using assms unfolding reclaim_event_def Let_def
  by (elim on_ok_InrE)
    (auto split: if_splits elim!: on_ok_InrE intro: dlq_keeps_row audit_keeps_row intro!: update_keeps_row dest: audit_keeps_row)

lemma reclaim_all_keeps_row:
  "\<forall>e \<in> set es. ob_id e \<noteq> ob_id r \<Longrightarrow> r \<in> set (odb_events db) \<Longrightarrow> r \<in> set (odb_events (snd (reclaim_all cfg now es db)))"
  by (induction es arbitrary: db) (auto split: sum.splits prod.splits dest: reclaim_event_keeps_row, metis reclaim_event_keeps_row snd_conv)

lemma reclaim_keeps_row:
  assumes ok: "outbox_ok db" and r: "lease_live now r" "r \<in> set (odb_events db)"
  shows "r \<in> set (odb_events (snd (reclaimStuckProcessing cfg now locked db)))"
  unfolding reclaimStuckProcessing_def
proof (rule reclaim_all_keeps_row [OF ballI r(2)])
  fix e assume "e \<in> set (take 500 (filter (\<lambda>r. reclaimable now r \<and> \<not> locked (ob_id r)) (odb_events db)))"
  then have "e \<in> set (odb_events db)" "reclaimable now e" by (auto dest: in_set_takeD)
  then show "ob_id e \<noteq> ob_id r"
    using same_event [OF ok _ r(2), of e] r(1) by (force simp: reclaimable_def lease_live_def split: option.splits)
qed

fun op_worker :: "outbox_op \<Rightarrow> string" where
  "op_worker (OpClaimBatch cfg locked limit) = oc_worker cfg"
| "op_worker (OpClaimById cfg locked event) = oc_worker cfg"
| "op_worker (OpReclaim cfg locked) = oc_worker cfg"
| "op_worker (OpSent cfg event g) = oc_worker cfg"
| "op_worker (OpFailed cfg sample event g e) = oc_worker cfg"
| "op_worker (OpHeartbeat cfg txid event g) = oc_worker cfg"
| "op_worker (OpAssertLease cfg txid event g m) = oc_worker cfg"

lemma other_holder: "ob_worker_id r = Some w \<Longrightarrow> oc_worker cfg \<noteq> w \<Longrightarrow> \<not> held_by cfg event g r"
  by (auto simp: held_by_def)

lemma finishing_keeps_row:
  assumes ok: "outbox_ok db" and r: "r \<in> set (odb_events db)" and "\<And>event g. \<not> held_by cfg event g r"
  shows "markOutboxSent cfg now event g db = Inr db' \<Longrightarrow> r \<in> set (odb_events db')"
    and "heartbeatOutboxLease cfg now txid event g db = Inr (b, db') \<Longrightarrow> r \<in> set (odb_events db')"
    and "markOutboxFailed cfg now sample event g e db = Inr db' \<Longrightarrow> r \<in> set (odb_events db')"
proof -
  show "markOutboxSent cfg now event g db = Inr db' \<Longrightarrow> r \<in> set (odb_events db')"
    unfolding markOutboxSent_def Let_def using r assms(3)
    by (elim on_ok_InrE) (auto split: option.splits elim!: audit_keeps_row intro!: update_keeps_row)
  show "heartbeatOutboxLease cfg now txid event g db = Inr (b, db') \<Longrightarrow> r \<in> set (odb_events db')"
    unfolding heartbeatOutboxLease_def Let_def using r assms(3)
    by (elim on_ok_InrE) (auto split: option.splits elim!: on_ok_InrE audit_keeps_row intro!: update_keeps_row)
  assume "markOutboxFailed cfg now sample event g e db = Inr db'"
  then show "r \<in> set (odb_events db')"
  proof (cases rule: markOutboxFailed_cases)
    case (archived x db1)
    have "ob_id x \<noteq> ob_id r" using same_event [OF ok archived(1) r] archived(2) assms(3) by auto
    then show ?thesis using dlq_keeps_row [OF archived(6)] audit_keeps_row [OF archived(4) r] by simp
  next
    case (retried x db1 t reason metadata)
    then show ?thesis using audit_keeps_row [OF retried(4) r] assms(3)
      by (auto elim!: audit_keeps_row intro!: update_keeps_row)
  qed
qed

section \<open>Properties\<close>

text \<open>C22: No event is lost and none is handed out twice under the same lease: in every run of any number of
  workers and producers, each event of the start is still in the queue or in the dead-letter archive,
  and all tokens (event, lease generation) handed out by claims are different.\<close>

theorem outbox_no_loss_no_duplicate_token:
  assumes "outbox_ok db0" and "outbox_run db0 tokens db"
  shows "distinct tokens \<and> event_ids db0 \<subseteq># event_ids db \<and> outbox_ok db"
  using run_ok [OF assms(2,1)] run_tokens [OF assms(2,1)] by (simp add: tokens_ok_def)

text \<open>C21: A job is finished at most once per lease: after a completion, retry or archiving under a token has
  committed, every later attempt to complete, fail, extend or use that token for provider calls, by
  any worker, at any time and after any other operations, is refused and changes nothing.\<close>

theorem outbox_token_used_once:
  assumes "outbox_ok db" and "markOutboxSent cfg now i g db = Inr db1 \<or> markOutboxFailed cfg now sample i g e db = Inr db1"
    and "outbox_run db1 tokens db2"
  shows "markOutboxSent cfg' now' i g db2 = Inl (OutboxLeaseLost i)
    \<and> markOutboxFailed cfg' now' sample' i g e' db2 = Inl (OutboxLeaseLost i)
    \<and> heartbeatOutboxLease cfg' now' txid i g db2 = Inr (False, db2)
    \<and> assertLeaseForProviderIo cfg' now' txid i g m db2 = Inr (False, db2)"
proof -
  have both: "token_dead (i, g) db1 \<and> requireLeaseGeneration g = Inr g"
    using assms(2)
  proof
    assume "markOutboxSent cfg now i g db = Inr db1"
    from sent_dead [OF this assms(1)] show ?thesis by simp
  next
    assume "markOutboxFailed cfg now sample i g e db = Inr db1"
    from failed_dead [OF this assms(1)] show ?thesis by simp
  qed
  then have dead: "token_dead (i, g) db1" and g: "requireLeaseGeneration g = Inr g" by simp_all
  have "outbox_ok db1" using assms(1,2) keeps_sent keeps_failed by (auto simp: keeps_def)
  then have "token_dead (i, g) db2" using dead_run [OF assms(3) _ dead] by blast
  then show ?thesis by (simp add: dead_token_fails [OF _ g])
qed

text \<open>A stale worker is fenced: when an event was claimed again, the holder of the older token can no
  longer complete it, fail it, extend its lease or pass the check before a provider call.\<close>

theorem outbox_stale_token_fenced:
  assumes "outbox_ok db0" and "outbox_run db0 tokens db"
    and "(i, g) \<in> set tokens" and "(i, g') \<in> set tokens" and "g < g'" and "1 \<le> g" and "g \<le> 2 ^ 53 - 1"
  shows "markOutboxSent cfg now i g db = Inl (OutboxLeaseLost i)
    \<and> markOutboxFailed cfg now sample i g e db = Inl (OutboxLeaseLost i)
    \<and> heartbeatOutboxLease cfg now txid i g db = Inr (False, db)
    \<and> assertLeaseForProviderIo cfg now txid i g m db = Inr (False, db)"
proof -
  have t: "tokens_ok tokens db" by (rule run_tokens [OF assms(2,1)])
  have "token_dead (i, g) db"
    using t assms(3-5) unfolding tokens_ok_def token_dead_def by fastforce
  moreover have g: "requireLeaseGeneration g = Inr g" using assms(6,7) by (simp add: requireLeaseGeneration_def)
  ultimately show ?thesis by (simp add: dead_token_fails [OF _ g])
qed

text \<open>C23: A live lease is exclusive: while its lease has not expired, nothing another worker does (claiming,
  sweeping, reclaiming, or finishing under any token) changes or removes the row of the event.\<close>

theorem outbox_live_lease_exclusive:
  assumes "outbox_ok db" and "r \<in> set (odb_events db)" and "ob_status r = Processing"
    and "ob_worker_id r = Some w" and "lease_live now r" and "op_worker op \<noteq> w"
    and "outbox_exec now op db = (new, db')"
  shows "r \<in> set (odb_events db')"
proof -
  note row = assms(3,2)
  have other: "\<not> held_by cfg event g r" if "oc_worker cfg \<noteq> w" for cfg event g
    using other_holder assms(4) that by blast
  show ?thesis
  proof (cases op)
    case (OpClaimBatch cfg locked limit)
    then show ?thesis
      using assms(7) row sweep_keeps_row [OF _ assms(1) row]
      by (auto simp: claimOutboxBatch_def split: sum.splits elim!: on_ok_InrE intro: claim_loop_keeps_row)
  next
    case (OpClaimById cfg locked event)
    then show ?thesis
      using assms(7) row sweep_keeps_row [OF _ assms(1) row]
      by (auto simp: claimOutboxEventById_def split: sum.splits elim!: on_ok_InrE intro: claim_event_keeps_row)
  next
    case (OpReclaim cfg locked)
    then show ?thesis using assms(7) reclaim_keeps_row [OF assms(1,5,2)] by auto
  next
    case (OpAssertLease cfg txid event g m)
    note f = finishing_keeps_row(2) [OF assms(1,2) other]
    show ?thesis
      using assms(2,6,7) OpAssertLease f
      by (auto simp: assertLeaseForProviderIo_def committed_def on_ok_def split: sum.splits option.splits if_splits)
  qed (use assms(2,6,7) finishing_keeps_row [OF assms(1,2) other] in
      \<open>auto simp: committed_def committed_only_def split: sum.splits\<close>)
qed

section \<open>Witnesses\<close>

definition sample_cfg :: "string \<Rightarrow> outbox_cfg" where
  "sample_cfg w = \<lparr>oc_worker = w, oc_leaseMs = 60000, oc_raiseRowMaxAttempts = False,
     oc_policies = (\<lambda>_. \<lparr>rp_baseMs = Fin 1000, rp_capMs = Fin 900000, rp_maxAttempts = Fin 4, rp_jitterRatio = Fin 0\<rparr>),
     oc_workerMaxAttempts = 4\<rparr>"

definition sample_row :: outbox_row where
  "sample_row = \<lparr>ob_id = ''e1'', ob_event_type = ''charge_deal'', ob_aggregate_type = ''deal'',
     ob_aggregate_id = ''d1'', ob_payload = ''{}'', ob_status = Pending, ob_attempt_count = 0,
     ob_max_attempts = 4, ob_available_at = 0, ob_sent_at = None, ob_processing_started_at = None,
     ob_claimed_at = None, ob_lease_expires_at = None, ob_worker_id = None, ob_last_attempt_at = None,
     ob_last_heartbeat_at = None, ob_lease_generation = 0, ob_last_error = None,
     ob_correlation_id = ''c'', ob_request_id = ''r''\<rparr>"

definition sample_db :: outbox_db where
  "sample_db = \<lparr>odb_events = [sample_row], odb_dlq = [], odb_audit = []\<rparr>"

definition claim1 :: outbox_op where
  "claim1 = OpClaimById (sample_cfg ''w1'') (\<lambda>_. False) ''e1''"

definition db_claimed :: outbox_db where
  "db_claimed = snd (outbox_exec 100 claim1 sample_db)"

definition reclaim2 :: outbox_op where
  "reclaim2 = OpReclaim (sample_cfg ''w2'') (\<lambda>_. False)"

definition db_reclaimed :: outbox_db where
  "db_reclaimed = snd (outbox_exec 100000 reclaim2 db_claimed)"

definition claim3 :: outbox_op where
  "claim3 = OpClaimById (sample_cfg ''w2'') (\<lambda>_. False) ''e1''"

definition db_claimed_again :: outbox_db where
  "db_claimed_again = snd (outbox_exec 2000000 claim3 db_reclaimed)"

lemma sample_queue_ok: "outbox_ok sample_db" by code_simp

lemma sample_steps:
  shows "fst (outbox_exec 100 claim1 sample_db) = [(''e1'', 1)]"
    and "fst (outbox_exec 100000 reclaim2 db_claimed) = []"
    and "fst (outbox_exec 2000000 claim3 db_reclaimed) = [(''e1'', 2)]"
  by code_simp+

lemma sample_run: "outbox_run sample_db [(''e1'', 1)] db_claimed"
proof -
  have "outbox_exec 100 claim1 sample_db = ([(''e1'', 1)], db_claimed)"
    by (metis db_claimed_def prod.collapse sample_steps(1))
  from operate [OF start this] show ?thesis by simp
qed

lemma sample_run_again: "outbox_run sample_db [(''e1'', 1), (''e1'', 2)] db_claimed_again"
proof -
  have "outbox_exec 100000 reclaim2 db_claimed = ([], db_reclaimed)"
    by (metis db_reclaimed_def prod.collapse sample_steps(2))
  note r = operate [OF sample_run this]
  have "outbox_exec 2000000 claim3 db_reclaimed = ([(''e1'', 2)], db_claimed_again)"
    by (metis db_claimed_again_def prod.collapse sample_steps(3))
  from operate [OF r this] show ?thesis by simp
qed

lemma outbox_no_loss_no_duplicate_token_witness:
  "distinct [(''e1'', 1), (''e1'', 2::int)] \<and> event_ids sample_db \<subseteq># event_ids db_claimed_again \<and> outbox_ok db_claimed_again"
  by (rule outbox_no_loss_no_duplicate_token [OF sample_queue_ok sample_run_again])

lemma db_claimed_ok: "outbox_ok db_claimed" by code_simp

definition db_sent :: outbox_db where
  "db_sent = snd (outbox_exec 200 (OpSent (sample_cfg ''w1'') ''e1'' 1) db_claimed)"

lemma sample_sent: "markOutboxSent (sample_cfg ''w1'') 200 ''e1'' 1 db_claimed = Inr db_sent"
proof -
  have "\<not> isl (markOutboxSent (sample_cfg ''w1'') 200 ''e1'' 1 db_claimed)" by code_simp
  then show ?thesis by (auto simp: db_sent_def committed_only_def isl_def split: sum.splits)
qed

lemma outbox_token_used_once_witness:
  "markOutboxSent (sample_cfg ''w1'') 300 ''e1'' 1 db_sent = Inl (OutboxLeaseLost ''e1'')"
  using outbox_token_used_once [OF db_claimed_ok disjI1 [OF sample_sent] start] by blast

lemma outbox_stale_token_fenced_witness:
  "markOutboxSent (sample_cfg ''w1'') 2000001 ''e1'' 1 db_claimed_again = Inl (OutboxLeaseLost ''e1'')"
  using outbox_stale_token_fenced [OF sample_queue_ok sample_run_again, of "''e1''" 1 2 "sample_cfg ''w1''" 2000001] by simp

lemma outbox_live_lease_exclusive_witness:
  "hd (odb_events db_claimed) \<in> set (odb_events (snd (outbox_exec 30000 reclaim2 db_claimed)))"
proof (rule outbox_live_lease_exclusive [OF db_claimed_ok])
  show "hd (odb_events db_claimed) \<in> set (odb_events db_claimed)"
    and "ob_status (hd (odb_events db_claimed)) = Processing"
    and "ob_worker_id (hd (odb_events db_claimed)) = Some ''w1''"
    and "lease_live 30000 (hd (odb_events db_claimed))"
    by code_simp+
  show "op_worker reclaim2 \<noteq> ''w1''" by (simp add: reclaim2_def sample_cfg_def)
qed (simp add: prod_eq_iff)

end
