(* ===== verification/Lifecycle.thy ===== *)
theory Lifecycle
  imports Outbox
begin

text \<open>
  The lifecycle core of \<open>src/app.ts\<close>: the three state machines of deal, buyer and money, and
  \<open>atomicMultiTransition\<close>, the one transaction every state change goes through. The updates of the two
  tables run under the triggers of \<open>src/migrations/008\<close>, \<open>068\<close>, \<open>076\<close>, \<open>077\<close> and \<open>078\<close>, which are part of the
  model. The database record is extensible, so that the body a caller runs inside the transaction can
  work on further tables.
\<close>

section \<open>The state machines\<close>

datatype deal_state =
    D_Draft | D_PendingTarget | D_TargetReached | D_ClosedForJoining | D_ReadyForCharging
  | D_Charging | D_CompletionWindow | D_Completed | D_Failed | D_Cancelled

datatype buyer_state =
    B_NotJoined | B_JoinedAuthorized | B_LockedIn | B_ChargingAttempt | B_ChargedSuccess
  | B_ChargeFailedCompletion | B_Recovered | B_Dropped | B_DealCompleted | B_DealFailed

datatype money_state =
    M_NoFinancial | M_AuthHeld | M_AuthLocked | M_ChargeAttempt | M_ChargedSuccess
  | M_ChargeFailedRecovery | M_RecoveredCharge | M_AuthReleased | M_Refunded

fun DEAL_TRANSITIONS :: "deal_state \<Rightarrow> deal_state list" where
  "DEAL_TRANSITIONS D_Draft = [D_PendingTarget, D_Cancelled]"
| "DEAL_TRANSITIONS D_PendingTarget = [D_TargetReached, D_Failed, D_ClosedForJoining]"
| "DEAL_TRANSITIONS D_TargetReached = [D_ClosedForJoining]"
| "DEAL_TRANSITIONS D_ClosedForJoining = [D_ReadyForCharging, D_PendingTarget, D_TargetReached, D_Failed]"
| "DEAL_TRANSITIONS D_ReadyForCharging = [D_Charging]"
| "DEAL_TRANSITIONS D_Charging = [D_CompletionWindow]"
| "DEAL_TRANSITIONS D_CompletionWindow = [D_Completed, D_Failed]"
| "DEAL_TRANSITIONS D_Completed = []"
| "DEAL_TRANSITIONS D_Failed = []"
| "DEAL_TRANSITIONS D_Cancelled = []"

fun BUYER_TRANSITIONS :: "buyer_state \<Rightarrow> buyer_state list" where
  "BUYER_TRANSITIONS B_NotJoined = [B_JoinedAuthorized, B_DealFailed]"
| "BUYER_TRANSITIONS B_JoinedAuthorized = [B_LockedIn, B_DealFailed]"
| "BUYER_TRANSITIONS B_LockedIn = [B_ChargingAttempt, B_DealFailed]"
| "BUYER_TRANSITIONS B_ChargingAttempt = [B_ChargedSuccess, B_ChargeFailedCompletion, B_DealFailed]"
| "BUYER_TRANSITIONS B_ChargeFailedCompletion = [B_Recovered, B_Dropped, B_DealFailed]"
| "BUYER_TRANSITIONS B_ChargedSuccess = [B_DealCompleted, B_DealFailed]"
| "BUYER_TRANSITIONS B_Recovered = [B_DealCompleted, B_DealFailed]"
| "BUYER_TRANSITIONS B_Dropped = [B_DealFailed]"
| "BUYER_TRANSITIONS B_DealCompleted = []"
| "BUYER_TRANSITIONS B_DealFailed = []"

fun MONEY_TRANSITIONS :: "money_state \<Rightarrow> money_state list" where
  "MONEY_TRANSITIONS M_NoFinancial = [M_AuthHeld]"
| "MONEY_TRANSITIONS M_AuthHeld = [M_AuthLocked, M_AuthReleased]"
| "MONEY_TRANSITIONS M_AuthLocked = [M_ChargeAttempt, M_AuthReleased]"
| "MONEY_TRANSITIONS M_ChargeAttempt = [M_ChargedSuccess, M_ChargeFailedRecovery, M_AuthReleased]"
| "MONEY_TRANSITIONS M_ChargeFailedRecovery = [M_RecoveredCharge, M_AuthReleased]"
| "MONEY_TRANSITIONS M_ChargedSuccess = [M_Refunded]"
| "MONEY_TRANSITIONS M_RecoveredCharge = [M_Refunded]"
| "MONEY_TRANSITIONS M_AuthReleased = []"
| "MONEY_TRANSITIONS M_Refunded = []"

text \<open>The transition functions of the database: \<open>077\<close>, \<open>014\<close> and \<open>068\<close>.\<close>

definition is_valid_deal_transition :: "deal_state \<Rightarrow> deal_state \<Rightarrow> bool" where
  "is_valid_deal_transition f t \<longleftrightarrow>
     (f = D_Draft \<and> List.member [D_PendingTarget, D_Cancelled] t)
     \<or> (f = D_PendingTarget \<and> List.member [D_TargetReached, D_Failed, D_ClosedForJoining] t)
     \<or> (f = D_TargetReached \<and> t = D_ClosedForJoining)
     \<or> (f = D_ClosedForJoining \<and> List.member [D_ReadyForCharging, D_PendingTarget, D_TargetReached, D_Failed] t)
     \<or> (f = D_ReadyForCharging \<and> t = D_Charging)
     \<or> (f = D_Charging \<and> t = D_CompletionWindow)
     \<or> (f = D_CompletionWindow \<and> List.member [D_Completed, D_Failed] t)"

definition is_valid_buyer_transition :: "buyer_state \<Rightarrow> buyer_state \<Rightarrow> bool" where
  "is_valid_buyer_transition f t \<longleftrightarrow>
     (f = B_NotJoined \<and> List.member [B_JoinedAuthorized, B_DealFailed] t)
     \<or> (f = B_JoinedAuthorized \<and> List.member [B_LockedIn, B_DealFailed] t)
     \<or> (f = B_LockedIn \<and> List.member [B_ChargingAttempt, B_DealFailed] t)
     \<or> (f = B_ChargingAttempt \<and> List.member [B_ChargedSuccess, B_ChargeFailedCompletion, B_DealFailed] t)
     \<or> (f = B_ChargeFailedCompletion \<and> List.member [B_Recovered, B_Dropped, B_DealFailed] t)
     \<or> (f = B_ChargedSuccess \<and> List.member [B_DealCompleted, B_DealFailed] t)
     \<or> (f = B_Recovered \<and> List.member [B_DealCompleted, B_DealFailed] t)
     \<or> (f = B_Dropped \<and> t = B_DealFailed)"

definition is_valid_money_transition :: "money_state \<Rightarrow> money_state \<Rightarrow> bool" where
  "is_valid_money_transition f t \<longleftrightarrow>
     (f = M_NoFinancial \<and> t = M_AuthHeld)
     \<or> (f = M_AuthHeld \<and> List.member [M_AuthLocked, M_AuthReleased] t)
     \<or> (f = M_AuthLocked \<and> List.member [M_ChargeAttempt, M_AuthReleased] t)
     \<or> (f = M_ChargeAttempt \<and> List.member [M_ChargedSuccess, M_ChargeFailedRecovery, M_AuthReleased] t)
     \<or> (f = M_ChargeFailedRecovery \<and> List.member [M_RecoveredCharge, M_AuthReleased] t)
     \<or> (List.member [M_ChargedSuccess, M_RecoveredCharge] f \<and> t = M_Refunded)"

section \<open>The tables of a transition\<close>

datatype entity_type = Deal | Participant

text \<open>The state column an operation moves, with its two ends.\<close>

datatype state_change =
    DealStep deal_state deal_state
  | BuyerStep buyer_state buyer_state
  | MoneyStep money_state money_state

record transition_op =
  op_entityId :: string
  op_dealId :: "string option"
  op_change :: state_change
  op_payload :: string

fun change_entity :: "state_change \<Rightarrow> entity_type" where
  "change_entity (DealStep f t) = Deal"
| "change_entity (BuyerStep f t) = Participant"
| "change_entity (MoneyStep f t) = Participant"

record participant =
  pt_deal :: string
  pt_buyer :: buyer_state
  pt_money :: money_state

record audit_row =
  al_entityId :: string
  al_dealId :: "string option"
  al_change :: state_change
  al_action :: string
  al_request :: string
  al_correlation :: string
  al_key :: string
  al_payload :: string

record idempotency_row =
  il_entity :: entity_type
  il_entityId :: string
  il_action :: string
  il_key :: string
  il_response :: string

record lifecycle_db =
  ld_deals :: "string \<Rightarrow> deal_state option"
  ld_participants :: "string \<Rightarrow> participant option"
  ld_audit :: "audit_row list"
  ld_outbox :: outbox_db
  ld_idempotency :: "idempotency_row list"

record outbox_insert =
  oi_event_type :: string
  oi_aggregate_type :: string
  oi_aggregate_id :: string
  oi_payload :: string
  oi_available_at :: "int option"

datatype lifecycle_error =
    IllegalTransition state_change
  | StateConflict entity_type string state_change
  | EntityNotFound entity_type string
  | UniqueViolation string
  | TriggerRejected string state_change
  | BodyRejected string

section \<open>The triggers on the state columns\<close>

text \<open>The action names of a production database; the \<open>test.\<close> names are admitted only where tests run.\<close>

definition ACTION_NAMES :: "string list" where
  "ACTION_NAMES =
     [''participant.join_authorize'', ''deal.publish'', ''deal.target_reached'', ''deal.close_joining'',
      ''deal.reopen_joining'', ''deal.prepare_charging'', ''charging.start'', ''charging.capture_success'',
      ''charging.capture_failed'', ''charging.recovery_success'', ''charging.recovery_failed'',
      ''charging.to_completion_window'', ''charging.finalize_completed'', ''charging.finalize_failed'',
      ''deal.complete_participant'', ''deal.fail_participant'', ''deal.fail_participant_after_completed'',
      ''deal.deadline_check'', ''deal.cancel'', ''refund.issue'', ''authorization.release'']"

fun action_event :: "string \<Rightarrow> string option" where
  "action_event a =
     (if a = ''deal.publish'' then Some ''deadline_check''
      else if a = ''charging.start'' then Some ''charge_deal''
      else if a = ''charging.to_completion_window'' then Some ''finalize_deal''
      else if a = ''charging.finalize_failed'' then Some ''refund_issue''
      else if a = ''deal.cancel'' then Some ''cancel_refund'' else None)"

fun transition_event :: "state_change \<Rightarrow> string option" where
  "transition_event (DealStep D_Draft D_PendingTarget) = Some ''deadline_check''"
| "transition_event (DealStep D_ReadyForCharging D_Charging) = Some ''charge_deal''"
| "transition_event (DealStep D_Charging D_CompletionWindow) = Some ''finalize_deal''"
| "transition_event (DealStep D_CompletionWindow D_Failed) = Some ''refund_issue''"
| "transition_event (DealStep D_Draft D_Cancelled) = Some ''cancel_refund''"
| "transition_event _ = None"

text \<open>
  Rows the transaction itself wrote: \<open>db0\<close> is the database at its start. The audit log is append-only;
  a job counts when it was inserted since and is still pending.
\<close>

definition audit_row_written_in_tx :: "'a lifecycle_db_scheme \<Rightarrow> 'a lifecycle_db_scheme \<Rightarrow> string \<Rightarrow> string \<Rightarrow> state_change \<Rightarrow> bool" where
  "audit_row_written_in_tx db0 db action eid change \<longleftrightarrow>
     list_ex (\<lambda>a. al_entityId a = eid \<and> al_change a = change \<and> al_action a = action)
       (drop (length (ld_audit db0)) (ld_audit db))"

definition outbox_row_written_in_tx :: "'a lifecycle_db_scheme \<Rightarrow> 'a lifecycle_db_scheme \<Rightarrow> string \<Rightarrow> string \<Rightarrow> bool" where
  "outbox_row_written_in_tx db0 db eid event_type \<longleftrightarrow>
     list_ex (\<lambda>r. ob_aggregate_type r = ''deal'' \<and> ob_aggregate_id r = eid \<and> ob_event_type r = event_type
         \<and> ob_status r = Pending \<and> \<not> list_ex (\<lambda>r0. ob_id r0 = ob_id r) (odb_events (ld_outbox db0)))
       (odb_events (ld_outbox db))"

fun valid_change :: "state_change \<Rightarrow> bool" where
  "valid_change (DealStep f t) = is_valid_deal_transition f t"
| "valid_change (BuyerStep f t) = is_valid_buyer_transition f t"
| "valid_change (MoneyStep f t) = is_valid_money_transition f t"

definition row_enforce :: "'a lifecycle_db_scheme \<Rightarrow> 'a lifecycle_db_scheme \<Rightarrow> string \<Rightarrow> string \<Rightarrow> state_change \<Rightarrow> bool" where
  "row_enforce db0 db action eid change \<longleftrightarrow>
     List.member ACTION_NAMES action \<and> valid_change change \<and> audit_row_written_in_tx db0 db action eid change"

definition deals_outbox_enforce ::
    "'a lifecycle_db_scheme \<Rightarrow> 'a lifecycle_db_scheme \<Rightarrow> bool \<Rightarrow> string \<Rightarrow> string \<Rightarrow> state_change \<Rightarrow> bool" where
  "deals_outbox_enforce db0 db outbox_written action eid change \<longleftrightarrow>
     (action_event action = None \<and> transition_event change = None)
     \<or> (outbox_written
        \<and> (case action_event action of None \<Rightarrow> True | Some e \<Rightarrow> outbox_row_written_in_tx db0 db eid e)
        \<and> (case transition_event change of None \<Rightarrow> True | Some e \<Rightarrow> outbox_row_written_in_tx db0 db eid e))"

section \<open>One transition\<close>

definition assertValidTransition :: "state_change \<Rightarrow> lifecycle_error + unit" where
  "assertValidTransition change =
     (case change of
        DealStep f t \<Rightarrow> if List.member (DEAL_TRANSITIONS f) t then Inr () else Inl (IllegalTransition change)
      | BuyerStep f t \<Rightarrow> if List.member (BUYER_TRANSITIONS f) t then Inr () else Inl (IllegalTransition change)
      | MoneyStep f t \<Rightarrow> if List.member (MONEY_TRANSITIONS f) t then Inr () else Inl (IllegalTransition change))"

fun assert_all :: "transition_op list \<Rightarrow> lifecycle_error + unit" where
  "assert_all [] = Inr ()"
| "assert_all (op # ops) = on_ok (assertValidTransition (op_change op)) (\<lambda>_. assert_all ops)"

text \<open>\<open>readTransitionEntityState\<close>: \<open>None\<close> when there is no row, else whether the row is in the from-state.\<close>

definition readTransitionEntityState :: "transition_op \<Rightarrow> 'a lifecycle_db_scheme \<Rightarrow> bool option" where
  "readTransitionEntityState op db =
     (case op_change op of
        DealStep f t \<Rightarrow> map_option (\<lambda>s. s = f) (ld_deals db (op_entityId op))
      | BuyerStep f t \<Rightarrow> map_option (\<lambda>p. pt_buyer p = f) (ld_participants db (op_entityId op))
      | MoneyStep f t \<Rightarrow> map_option (\<lambda>p. pt_money p = f) (ld_participants db (op_entityId op)))"

fun recheck_all :: "transition_op list \<Rightarrow> 'a lifecycle_db_scheme \<Rightarrow> lifecycle_error + unit" where
  "recheck_all [] db = Inr ()"
| "recheck_all (op # ops) db =
     (case readTransitionEntityState op db of
        None \<Rightarrow> Inl (EntityNotFound (change_entity (op_change op)) (op_entityId op))
      | Some current \<Rightarrow>
          if current then recheck_all ops db
          else Inl (StateConflict (change_entity (op_change op)) (op_entityId op) (op_change op)))"

definition set_state :: "state_change \<Rightarrow> string \<Rightarrow> 'a lifecycle_db_scheme \<Rightarrow> 'a lifecycle_db_scheme" where
  "set_state change eid db =
     (case change of
        DealStep f t \<Rightarrow> db\<lparr>ld_deals := (ld_deals db)(eid \<mapsto> t)\<rparr>
      | BuyerStep f t \<Rightarrow> db\<lparr>ld_participants := (ld_participants db)(eid := map_option (pt_buyer_update (\<lambda>_. t)) (ld_participants db eid))\<rparr>
      | MoneyStep f t \<Rightarrow> db\<lparr>ld_participants := (ld_participants db)(eid := map_option (pt_money_update (\<lambda>_. t)) (ld_participants db eid))\<rparr>)"

text \<open>The compare-and-swap \<open>UPDATE\<close> of one operation under the triggers.\<close>

definition swap_state ::
    "'a lifecycle_db_scheme \<Rightarrow> bool \<Rightarrow> string \<Rightarrow> transition_op \<Rightarrow> 'a lifecycle_db_scheme \<Rightarrow> lifecycle_error + 'a lifecycle_db_scheme" where
  "swap_state db0 outbox_written action op db =
     (if readTransitionEntityState op db \<noteq> Some True
      then Inl (StateConflict (change_entity (op_change op)) (op_entityId op) (op_change op))
      else if row_enforce db0 db action (op_entityId op) (op_change op)
           \<and> (change_entity (op_change op) = Deal \<longrightarrow>
                deals_outbox_enforce db0 db outbox_written action (op_entityId op) (op_change op))
      then Inr (set_state (op_change op) (op_entityId op) db)
      else Inl (TriggerRejected (op_entityId op) (op_change op)))"

fun swap_all ::
    "'a lifecycle_db_scheme \<Rightarrow> bool \<Rightarrow> string \<Rightarrow> transition_op list \<Rightarrow> 'a lifecycle_db_scheme \<Rightarrow> lifecycle_error + 'a lifecycle_db_scheme" where
  "swap_all db0 outbox_written action [] db = Inr db"
| "swap_all db0 outbox_written action (op # ops) db =
     on_ok (swap_state db0 outbox_written action op db) (swap_all db0 outbox_written action ops)"

section \<open>The transaction\<close>

text \<open>
  \<open>ma_ops\<close> is the list given, or the one \<open>buildOpsInTx\<close> computes on the transaction's snapshot;
  \<open>ma_flag\<close> is the value the body gives to the setting \<open>siton.outbox_written\<close>, from the database it finds;
  \<open>ma_uuid\<close> is the identifier the database generates for the job.
\<close>

record 'db multi_args =
  ma_action :: string
  ma_request :: string
  ma_correlation :: "string option"
  ma_entity :: entity_type
  ma_entityId :: string
  ma_key :: string
  ma_ops :: "'db \<Rightarrow> lifecycle_error + transition_op list"
  ma_outbox :: "outbox_insert option"
  ma_response :: string
  ma_insideTx :: "('db \<Rightarrow> lifecycle_error + 'db) option"
  ma_serialize :: bool
  ma_uuid :: string
  ma_flag :: "('db \<Rightarrow> bool) option"

definition idempotency_match :: "'db multi_args \<Rightarrow> idempotency_row \<Rightarrow> bool" where
  "idempotency_match args r \<longleftrightarrow> il_entity r = ma_entity args \<and> il_entityId r = ma_entityId args
     \<and> il_action r = ma_action args \<and> il_key r = ma_key args"

definition insert_idempotency :: "'a lifecycle_db_scheme multi_args \<Rightarrow> 'a lifecycle_db_scheme \<Rightarrow> lifecycle_error + 'a lifecycle_db_scheme" where
  "insert_idempotency args db =
     (if list_ex (idempotency_match args) (ld_idempotency db) then Inl (UniqueViolation ''idempotency_log'')
      else Inr (db\<lparr>ld_idempotency := ld_idempotency db @ [\<lparr>il_entity = ma_entity args, il_entityId = ma_entityId args,
             il_action = ma_action args, il_key = ma_key args, il_response = ma_response args\<rparr>]\<rparr>))"

definition audit_row_of :: "'db multi_args \<Rightarrow> transition_op \<Rightarrow> audit_row" where
  "audit_row_of args op =
     \<lparr>al_entityId = op_entityId op, al_dealId = op_dealId op, al_change = op_change op, al_action = ma_action args,
      al_request = ma_request args,
      al_correlation = (case ma_correlation args of None \<Rightarrow> ma_request args | Some c \<Rightarrow> if c = '''' then ma_request args else c),
      al_key = ma_key args, al_payload = op_payload op\<rparr>"

definition new_job :: "'db multi_args \<Rightarrow> int \<Rightarrow> outbox_insert \<Rightarrow> outbox_row" where
  "new_job args now job =
     \<lparr>ob_id = ma_uuid args, ob_event_type = oi_event_type job, ob_aggregate_type = oi_aggregate_type job,
      ob_aggregate_id = oi_aggregate_id job, ob_payload = oi_payload job, ob_status = Pending,
      ob_attempt_count = 0, ob_max_attempts = 10,
      ob_available_at = (case oi_available_at job of None \<Rightarrow> now | Some t \<Rightarrow> t), ob_sent_at = None,
      ob_processing_started_at = None, ob_claimed_at = None, ob_lease_expires_at = None, ob_worker_id = None,
      ob_last_attempt_at = None, ob_last_heartbeat_at = None, ob_lease_generation = 0, ob_last_error = None,
      ob_correlation_id = (case ma_correlation args of None \<Rightarrow> ma_request args | Some c \<Rightarrow> if c = '''' then ma_request args else c),
      ob_request_id = ma_request args\<rparr>"

definition enqueue_job :: "'db multi_args \<Rightarrow> int \<Rightarrow> 'a lifecycle_db_scheme \<Rightarrow> lifecycle_error + 'a lifecycle_db_scheme" where
  "enqueue_job args now db =
     (case ma_outbox args of
        None \<Rightarrow> Inr db
      | Some job \<Rightarrow>
          (case insert_outbox_event (new_job args now job) (ld_outbox db) of
             Inl _ \<Rightarrow> Inl (UniqueViolation ''ux_outbox_one_pending_per_aggregate_event'')
           | Inr outbox \<Rightarrow> Inr (db\<lparr>ld_outbox := outbox\<rparr>)))"

definition outbox_flag :: "'db multi_args \<Rightarrow> 'db \<Rightarrow> bool" where
  "outbox_flag args db = (case ma_flag args of None \<Rightarrow> ma_outbox args \<noteq> None | Some flag \<Rightarrow> flag db)"

definition run_body :: "'a lifecycle_db_scheme multi_args \<Rightarrow> 'a lifecycle_db_scheme \<Rightarrow> lifecycle_error + 'a lifecycle_db_scheme" where
  "run_body args db = (case ma_insideTx args of None \<Rightarrow> Inr db | Some body \<Rightarrow> body db)"

record 'db outcome =
  mo_response :: string
  mo_replay :: bool
  mo_db :: 'db

definition durable_writes ::
    "'a lifecycle_db_scheme multi_args \<Rightarrow> int \<Rightarrow> transition_op list \<Rightarrow> 'a lifecycle_db_scheme \<Rightarrow> lifecycle_error + 'a lifecycle_db_scheme" where
  "durable_writes args now ops db =
     on_ok (enqueue_job args now (db\<lparr>ld_audit := ld_audit db @ map (audit_row_of args) ops\<rparr>)) (\<lambda>db1.
     on_ok (run_body args db1) (\<lambda>db2.
     on_ok (swap_all db (outbox_flag args db1) (ma_action args) ops db2) (\<lambda>db3.
       insert_idempotency args db3)))"

definition atomicMultiTransition ::
    "'a lifecycle_db_scheme multi_args \<Rightarrow> int \<Rightarrow> 'a lifecycle_db_scheme \<Rightarrow> lifecycle_error + 'a lifecycle_db_scheme outcome" where
  "atomicMultiTransition args now db =
     (case find (idempotency_match args) (ld_idempotency db) of
        Some r \<Rightarrow> Inr \<lparr>mo_response = il_response r, mo_replay = True, mo_db = db\<rparr>
      | None \<Rightarrow>
          on_ok (ma_ops args db) (\<lambda>ops.
          on_ok (if ops = [] \<and> ma_insideTx args = None \<and> ma_outbox args = None then insert_idempotency args db
                 else on_ok (assert_all ops) (\<lambda>_.
                      on_ok (if ma_serialize args then recheck_all ops db else Inr ()) (\<lambda>_.
                        durable_writes args now ops db))) (\<lambda>db'.
            Inr \<lparr>mo_response = ma_response args, mo_replay = False, mo_db = db'\<rparr>)))"

text \<open>\<open>withTx\<close>: a call that throws leaves the database it found.\<close>

definition after_tx :: "'db \<Rightarrow> lifecycle_error + 'db outcome \<Rightarrow> 'db" where
  "after_tx db r = (case r of Inl _ \<Rightarrow> db | Inr out \<Rightarrow> mo_db out)"

definition single_op :: "string \<Rightarrow> string option \<Rightarrow> state_change \<Rightarrow> string \<Rightarrow> transition_op" where
  "single_op entityId dealId change payload =
     \<lparr>op_entityId = entityId, op_dealId = dealId, op_change = change, op_payload = payload\<rparr>"

definition atomicTransition ::
    "string \<Rightarrow> string option \<Rightarrow> state_change \<Rightarrow> string \<Rightarrow> string \<Rightarrow> string \<Rightarrow> outbox_insert option \<Rightarrow> string \<Rightarrow> string \<Rightarrow>
     ('a lifecycle_db_scheme \<Rightarrow> lifecycle_error + 'a lifecycle_db_scheme) option \<Rightarrow> bool \<Rightarrow> string \<Rightarrow> int \<Rightarrow>
     'a lifecycle_db_scheme \<Rightarrow> lifecycle_error + 'a lifecycle_db_scheme outcome" where
  "atomicTransition entityId dealId change action request key outbox payload response insideTx serialize uuid =
     atomicMultiTransition
       \<lparr>ma_action = action, ma_request = request, ma_correlation = None, ma_entity = change_entity change,
        ma_entityId = entityId, ma_key = key, ma_ops = (\<lambda>_. Inr [single_op entityId dealId change payload]),
        ma_outbox = outbox, ma_response = response, ma_insideTx = insideTx, ma_serialize = serialize,
        ma_uuid = uuid, ma_flag = None\<rparr>"

end
