(* ===== verification/LifecycleRuns.thy ===== *)
theory LifecycleRuns
  imports Lifecycle
begin

text \<open>
  Runs of transitions: what any sequence of lifecycle calls, by any callers and with any keys, does to
  the states of a deal and of its participants. The state machines are instances of two locales of
  ranked transition matrices, the three state columns instances of a locale of audited columns.
\<close>

section \<open>Transition matrices\<close>

fun path :: "('s \<Rightarrow> 's list) \<Rightarrow> 's \<Rightarrow> 's list \<Rightarrow> bool" where
  "path succs s [] \<longleftrightarrow> True"
| "path succs s (t # ts) \<longleftrightarrow> t \<in> set (succs s) \<and> path succs t ts"

locale ranked_matrix =
  fixes succs :: "'s \<Rightarrow> 's list" and rank :: "'s \<Rightarrow> nat"
  assumes rank_mono: "t \<in> set (succs s) \<Longrightarrow> rank s \<le> rank t"
begin

lemma path_rank: "path succs s ts \<Longrightarrow> t \<in> set ts \<Longrightarrow> rank s \<le> rank t"
proof (induction ts arbitrary: s)
  case (Cons u us)
  then have "rank s \<le> rank u" using rank_mono by simp
  with Cons show ?case by (cases "t = u") (auto intro: order_trans)
qed simp

lemma terminal: "succs s = [] \<Longrightarrow> path succs s ts \<Longrightarrow> ts = []"
  by (cases ts) simp_all

end

locale acyclic_matrix = ranked_matrix +
  assumes rank_strict: "t \<in> set (succs s) \<Longrightarrow> rank s < rank t"
begin

lemma path_increasing: "path succs s ts \<Longrightarrow> sorted_wrt (<) (map rank (s # ts))"
proof (induction ts arbitrary: s)
  case (Cons u us)
  have "rank s < rank u" using Cons.prems rank_strict by simp
  moreover have "sorted_wrt (<) (map rank (u # us))" using Cons.prems Cons.IH [of u] by (simp only: path.simps)
  ultimately show ?case by auto
qed simp

lemma path_fresh: "path succs s ts \<Longrightarrow> t \<in> set ts \<Longrightarrow> rank s < rank t"
  using path_increasing by fastforce

lemma level_once: "path succs s ts \<Longrightarrow> (\<And>t. P t \<Longrightarrow> rank t = n) \<Longrightarrow> length (filter P ts) \<le> 1"
proof (induction ts arbitrary: s)
  case (Cons u us)
  then have p: "path succs u us" by simp
  show ?case
  proof (cases "P u")
    case True
    then have "filter P us = []" using Cons.prems(2) path_fresh [OF p] by (fastforce simp: filter_empty_conv)
    then show ?thesis by simp
  qed (use Cons p in simp)
qed simp

end

fun deal_rank :: "deal_state \<Rightarrow> nat" where
  "deal_rank D_Draft = 0"
| "deal_rank D_PendingTarget = 1"
| "deal_rank D_TargetReached = 1"
| "deal_rank D_ClosedForJoining = 1"
| "deal_rank D_ReadyForCharging = 2"
| "deal_rank D_Charging = 3"
| "deal_rank D_CompletionWindow = 4"
| "deal_rank D_Completed = 5"
| "deal_rank D_Failed = 5"
| "deal_rank D_Cancelled = 5"

fun buyer_rank :: "buyer_state \<Rightarrow> nat" where
  "buyer_rank B_NotJoined = 0"
| "buyer_rank B_JoinedAuthorized = 1"
| "buyer_rank B_LockedIn = 2"
| "buyer_rank B_ChargingAttempt = 3"
| "buyer_rank B_ChargeFailedCompletion = 4"
| "buyer_rank B_ChargedSuccess = 5"
| "buyer_rank B_Recovered = 5"
| "buyer_rank B_Dropped = 5"
| "buyer_rank B_DealCompleted = 6"
| "buyer_rank B_DealFailed = 6"

fun money_rank :: "money_state \<Rightarrow> nat" where
  "money_rank M_NoFinancial = 0"
| "money_rank M_AuthHeld = 1"
| "money_rank M_AuthLocked = 2"
| "money_rank M_ChargeAttempt = 3"
| "money_rank M_ChargeFailedRecovery = 4"
| "money_rank M_ChargedSuccess = 5"
| "money_rank M_RecoveredCharge = 5"
| "money_rank M_AuthReleased = 6"
| "money_rank M_Refunded = 6"

lemma deal_rank_mono: "t \<in> set (DEAL_TRANSITIONS s) \<Longrightarrow> deal_rank s \<le> deal_rank t"
  by (cases s) auto

lemma buyer_rank_less: "t \<in> set (BUYER_TRANSITIONS s) \<Longrightarrow> buyer_rank s < buyer_rank t"
  by (cases s) auto

lemma money_rank_less: "t \<in> set (MONEY_TRANSITIONS s) \<Longrightarrow> money_rank s < money_rank t"
  by (cases s) auto

interpretation deal_matrix: ranked_matrix DEAL_TRANSITIONS deal_rank
  by unfold_locales (rule deal_rank_mono)

interpretation buyer_matrix: acyclic_matrix BUYER_TRANSITIONS buyer_rank
  by unfold_locales (auto dest: buyer_rank_less)

interpretation money_matrix: acyclic_matrix MONEY_TRANSITIONS money_rank
  by unfold_locales (auto dest: money_rank_less)

lemma assertValidTransition_Inr:
  "assertValidTransition c = Inr () \<longleftrightarrow>
     (case c of DealStep f t \<Rightarrow> t \<in> set (DEAL_TRANSITIONS f)
      | BuyerStep f t \<Rightarrow> t \<in> set (BUYER_TRANSITIONS f)
      | MoneyStep f t \<Rightarrow> t \<in> set (MONEY_TRANSITIONS f))"
  by (cases c) (simp_all add: assertValidTransition_def)

lemma valid_deal: "is_valid_deal_transition f t \<longleftrightarrow> t \<in> set (DEAL_TRANSITIONS f)"
  by (cases f) (auto simp: is_valid_deal_transition_def)

lemma valid_buyer: "is_valid_buyer_transition f t \<longleftrightarrow> t \<in> set (BUYER_TRANSITIONS f)"
  by (cases f) (auto simp: is_valid_buyer_transition_def)

lemma valid_money: "is_valid_money_transition f t \<longleftrightarrow> t \<in> set (MONEY_TRANSITIONS f)"
  by (cases f) (auto simp: is_valid_money_transition_def)

section \<open>What a change did to a column\<close>

text \<open>
  A list of (from, to) steps explains a change of a column when it starts at the old value, each step
  starts where the last one ended, is in the matrix, and ends at the new value.
\<close>

fun chain :: "('s \<Rightarrow> 's list) \<Rightarrow> 's \<Rightarrow> ('s \<times> 's) list \<Rightarrow> 's \<Rightarrow> bool" where
  "chain succs s [] s' \<longleftrightarrow> s' = s"
| "chain succs s ((f, t) # steps) s' \<longleftrightarrow> f = s \<and> t \<in> set (succs f) \<and> chain succs t steps s'"

fun explains :: "('s \<Rightarrow> 's list) \<Rightarrow> 's option \<Rightarrow> ('s \<times> 's) list \<Rightarrow> 's option \<Rightarrow> bool" where
  "explains succs None steps s' \<longleftrightarrow> steps = [] \<and> s' = None"
| "explains succs (Some s) steps None \<longleftrightarrow> False"
| "explains succs (Some s) steps (Some s') \<longleftrightarrow> chain succs s steps s'"

lemma chain_append: "chain succs s (xs @ ys) s' \<longleftrightarrow> (\<exists>m. chain succs s xs m \<and> chain succs m ys s')"
  by (induction xs arbitrary: s) auto

lemma chain_path: "chain succs s steps s' \<Longrightarrow> path succs s (map snd steps) \<and> s' = last (s # map snd steps)"
  by (induction steps arbitrary: s) auto

lemma explains_refl [simp]: "explains succs s [] s"
  by (cases s) simp_all

lemma explains_append:
  "explains succs s xs m \<Longrightarrow> explains succs m ys s' \<Longrightarrow> explains succs s (xs @ ys) s'"
  by (cases s; cases m; cases s') (auto simp: chain_append)

lemma explains_Some: "explains succs (Some s) steps s' \<Longrightarrow> \<exists>t. s' = Some t \<and> chain succs s steps t"
  by (cases s') auto

lemma explains_path: "explains succs s steps s' \<Longrightarrow> (case s of None \<Rightarrow> steps = [] | Some x \<Rightarrow> path succs x (map snd steps))"
  by (cases s; cases s') (auto dest: chain_path)

text \<open>The steps of one entity in one column, among entity and change pairs.\<close>

fun steps_of :: "(state_change \<Rightarrow> ('s \<times> 's) option) \<Rightarrow> string \<Rightarrow> (string \<times> state_change) list \<Rightarrow> ('s \<times> 's) list" where
  "steps_of column eid [] = []"
| "steps_of column eid ((e, c) # rest) =
     (case column c of
        Some s \<Rightarrow> if e = eid then s # steps_of column eid rest else steps_of column eid rest
      | None \<Rightarrow> steps_of column eid rest)"

lemma steps_of_append [simp]: "steps_of column eid (xs @ ys) = steps_of column eid xs @ steps_of column eid ys"
  by (induction xs) (auto split: option.splits)

fun deal_column :: "state_change \<Rightarrow> (deal_state \<times> deal_state) option" where
  "deal_column (DealStep f t) = Some (f, t)"
| "deal_column _ = None"

fun buyer_column :: "state_change \<Rightarrow> (buyer_state \<times> buyer_state) option" where
  "buyer_column (BuyerStep f t) = Some (f, t)"
| "buyer_column _ = None"

fun money_column :: "state_change \<Rightarrow> (money_state \<times> money_state) option" where
  "money_column (MoneyStep f t) = Some (f, t)"
| "money_column _ = None"

definition op_steps :: "transition_op list \<Rightarrow> (string \<times> state_change) list" where
  "op_steps ops = map (\<lambda>op. (op_entityId op, op_change op)) ops"

definition audit_steps :: "audit_row list \<Rightarrow> (string \<times> state_change) list" where
  "audit_steps as = map (\<lambda>a. (al_entityId a, al_change a)) as"

lemma audit_steps_of: "audit_steps (map (audit_row_of args) ops) = op_steps ops"
  by (simp add: audit_steps_def op_steps_def audit_row_of_def)

lemma steps_append [simp]:
  "audit_steps (xs @ ys) = audit_steps xs @ audit_steps ys"
  by (simp add: audit_steps_def)

section \<open>Runs\<close>

definition same_lifecycle :: "'a lifecycle_db_scheme \<Rightarrow> 'a lifecycle_db_scheme \<Rightarrow> bool" where
  "same_lifecycle db db' \<longleftrightarrow> ld_deals db' = ld_deals db \<and> ld_participants db' = ld_participants db
     \<and> ld_audit db' = ld_audit db \<and> ld_idempotency db' = ld_idempotency db"

text \<open>The body of a call works on other tables only.\<close>

definition body_keeps :: "'a lifecycle_db_scheme multi_args \<Rightarrow> bool" where
  "body_keeps args \<longleftrightarrow> (\<forall>body. ma_insideTx args = Some body \<longrightarrow>
     (\<forall>db db'. body db = Inr db' \<longrightarrow> same_lifecycle db db'))"

inductive lifecycle_run :: "'a lifecycle_db_scheme \<Rightarrow> 'a lifecycle_db_scheme \<Rightarrow> bool" for db0 where
  begin_run: "lifecycle_run db0 db0"
| transition: "lifecycle_run db0 db \<Longrightarrow> body_keeps args \<Longrightarrow>
    lifecycle_run db0 (after_tx db (atomicMultiTransition args now db))"
| elsewhere: "lifecycle_run db0 db \<Longrightarrow> same_lifecycle db db' \<Longrightarrow> lifecycle_run db0 db'"

inductive_cases lifecycle_runE: "lifecycle_run db0 db"

text \<open>The facts about a committed, first-time call.\<close>

lemma enqueue_job_same: "enqueue_job args now db = Inr db' \<Longrightarrow> same_lifecycle db db'"
  by (auto simp: enqueue_job_def same_lifecycle_def split: option.splits sum.splits)

lemma run_body_same: "body_keeps args \<Longrightarrow> run_body args db = Inr db' \<Longrightarrow> same_lifecycle db db'"
  by (auto simp: run_body_def body_keeps_def same_lifecycle_def split: option.splits)

lemma same_lifecycle_trans: "same_lifecycle a b \<Longrightarrow> same_lifecycle b c \<Longrightarrow> same_lifecycle a c"
  by (simp add: same_lifecycle_def)

lemma insert_idempotency_Inr:
  "insert_idempotency args db = Inr db' \<Longrightarrow>
   ld_deals db' = ld_deals db \<and> ld_participants db' = ld_participants db \<and> ld_audit db' = ld_audit db
   \<and> ld_outbox db' = ld_outbox db
   \<and> \<not> list_ex (idempotency_match args) (ld_idempotency db)
   \<and> ld_idempotency db' = ld_idempotency db @ [\<lparr>il_entity = ma_entity args, il_entityId = ma_entityId args,
             il_action = ma_action args, il_key = ma_key args, il_response = ma_response args\<rparr>]"
  by (auto simp: insert_idempotency_def split: if_splits)

lemma set_state_keeps [simp]:
  "ld_audit (set_state c eid db) = ld_audit db"
  "ld_outbox (set_state c eid db) = ld_outbox db"
  "ld_idempotency (set_state c eid db) = ld_idempotency db"
  by (simp_all add: set_state_def split: state_change.splits)

lemma swap_all_keeps:
  "swap_all db0 w action ops db = Inr db' \<Longrightarrow>
   ld_audit db' = ld_audit db \<and> ld_outbox db' = ld_outbox db \<and> ld_idempotency db' = ld_idempotency db"
  by (induction ops arbitrary: db) (auto simp: swap_state_def elim!: on_ok_InrE split: if_splits)

lemma fresh_call_cases:
  assumes "atomicMultiTransition args now db = Inr out" and "\<not> mo_replay out"
  obtains (nothing_to_do) "ma_ops args db = Inr []" "insert_idempotency args db = Inr (mo_db out)"
      "mo_response out = ma_response args"
    | (moved) ops db1 db2 db3 where "ma_ops args db = Inr ops" "assert_all ops = Inr ()"
      "ma_serialize args \<Longrightarrow> recheck_all ops db = Inr ()"
      "enqueue_job args now (db\<lparr>ld_audit := ld_audit db @ map (audit_row_of args) ops\<rparr>) = Inr db1"
      "run_body args db1 = Inr db2"
      "swap_all db (outbox_flag args db1) (ma_action args) ops db2 = Inr db3"
      "insert_idempotency args db3 = Inr (mo_db out)" "mo_response out = ma_response args"
proof -
  have none: "find (idempotency_match args) (ld_idempotency db) = None"
    using assms unfolding atomicMultiTransition_def by (auto split: option.splits)
  then obtain ops db' where ops: "ma_ops args db = Inr ops"
    and step: "(if ops = [] \<and> ma_insideTx args = None \<and> ma_outbox args = None then insert_idempotency args db
                 else on_ok (assert_all ops) (\<lambda>_.
                      on_ok (if ma_serialize args then recheck_all ops db else Inr ()) (\<lambda>_.
                        durable_writes args now ops db))) = Inr db'"
    and out: "out = \<lparr>mo_response = ma_response args, mo_replay = False, mo_db = db'\<rparr>"
    using assms unfolding atomicMultiTransition_def by (auto elim!: on_ok_InrE)
  show thesis
  proof (cases "ops = [] \<and> ma_insideTx args = None \<and> ma_outbox args = None")
    case True
    then show thesis using nothing_to_do ops step out by simp
  next
    case False
    then have "assert_all ops = Inr ()" and "ma_serialize args \<Longrightarrow> recheck_all ops db = Inr ()"
      and "durable_writes args now ops db = Inr db'"
      using step by (auto elim!: on_ok_InrE)
    then show thesis using ops out unfolding durable_writes_def by (elim on_ok_InrE) (rule moved, simp_all)
  qed
qed


section \<open>Audited columns\<close>

text \<open>
  A column of the database that only transitions move, as the transaction treats it: \<open>read\<close> is the column,
  \<open>column\<close> the steps of a change in it, \<open>succs\<close> its transition matrix.
\<close>

locale audited_column =
  fixes read :: "'a lifecycle_db_scheme \<Rightarrow> string \<Rightarrow> 's option"
    and column :: "state_change \<Rightarrow> ('s \<times> 's) option"
    and succs :: "'s \<Rightarrow> 's list"
  assumes read_swap: "readTransitionEntityState op db = Some True \<Longrightarrow> column (op_change op) = Some (f, t) \<Longrightarrow>
      read db (op_entityId op) = Some f
      \<and> read (set_state (op_change op) (op_entityId op) db) = (read db)(op_entityId op \<mapsto> t)"
    and read_other: "readTransitionEntityState op db = Some True \<Longrightarrow> column (op_change op) = None \<Longrightarrow>
      read (set_state (op_change op) (op_entityId op) db) = read db"
    and step_valid: "assertValidTransition c = Inr () \<Longrightarrow> column c = Some (f, t) \<Longrightarrow> t \<in> set (succs f)"
    and read_same: "ld_deals db' = ld_deals db \<Longrightarrow> ld_participants db' = ld_participants db \<Longrightarrow> read db' = read db"
begin

lemma swap_explained:
  assumes "swap_state db0 w action op db = Inr db'" and "assertValidTransition (op_change op) = Inr ()"
  shows "explains succs (read db eid) (steps_of column eid [(op_entityId op, op_change op)]) (read db' eid)"
proof -
  have r: "readTransitionEntityState op db = Some True" and db': "db' = set_state (op_change op) (op_entityId op) db"
    using assms(1) by (auto simp: swap_state_def split: if_splits)
  show ?thesis
  proof (cases "column (op_change op)")
    case None
    then show ?thesis using read_other [OF r None] by (simp add: db')
  next
    case (Some s)
    obtain f t where s: "s = (f, t)" by (cases s)
    show ?thesis
      using read_swap [OF r Some [unfolded s]] step_valid [OF assms(2) Some [unfolded s]]
      by (auto simp: db' Some s)
  qed
qed

lemma swap_all_explained:
  "swap_all db0 w action ops db = Inr db' \<Longrightarrow> assert_all ops = Inr () \<Longrightarrow>
   explains succs (read db eid) (steps_of column eid (op_steps ops)) (read db' eid)"
proof (induction ops arbitrary: db)
  case (Cons op ops)
  obtain db1 where one: "swap_state db0 w action op db = Inr db1" and rest: "swap_all db0 w action ops db1 = Inr db'"
    using Cons.prems(1) by (auto elim!: on_ok_InrE)
  have "assertValidTransition (op_change op) = Inr ()" and "assert_all ops = Inr ()"
    using Cons.prems(2) by (auto elim!: on_ok_InrE)
  then have "explains succs (read db eid) (steps_of column eid [(op_entityId op, op_change op)]) (read db1 eid)"
    and "explains succs (read db1 eid) (steps_of column eid (op_steps ops)) (read db' eid)"
    using swap_explained [OF one] Cons.IH [OF rest] by simp_all
  then have "explains succs (read db eid)
      (steps_of column eid [(op_entityId op, op_change op)] @ steps_of column eid (op_steps ops)) (read db' eid)"
    by (rule explains_append)
  then show ?case by (simp only: steps_of_append [symmetric]) (simp add: op_steps_def)
qed (simp add: op_steps_def)

lemma call_explained:
  assumes "atomicMultiTransition args now db = Inr out" and "body_keeps args"
  shows "\<exists>new. ld_audit (mo_db out) = ld_audit db @ new
    \<and> explains succs (read db eid) (steps_of column eid (audit_steps new)) (read (mo_db out) eid)"
proof (cases "mo_replay out")
  case True
  then have "mo_db out = db" using assms(1) unfolding atomicMultiTransition_def
    by (auto split: option.splits elim!: on_ok_InrE)
  then show ?thesis by (intro exI [of _ "[]"]) (simp add: audit_steps_def)
next
  case False
  show ?thesis
  proof (cases rule: fresh_call_cases [OF assms(1) False])
    case 1
    then show ?thesis using insert_idempotency_Inr [OF 1(2)] read_same [of "mo_db out" db]
      by (intro exI [of _ "[]"]) (simp add: audit_steps_def)
  next
    case (2 ops db1 db2 db3)
    have s: "same_lifecycle (db\<lparr>ld_audit := ld_audit db @ map (audit_row_of args) ops\<rparr>) db2"
      using same_lifecycle_trans enqueue_job_same [OF 2(4)] run_body_same [OF assms(2) 2(5)] by blast
    have "read db2 = read db" using s read_same [of db2 db] by (simp add: same_lifecycle_def)
    moreover have "read (mo_db out) = read db3" using insert_idempotency_Inr [OF 2(7)] read_same by blast
    moreover have "ld_audit (mo_db out) = ld_audit db @ map (audit_row_of args) ops"
      using insert_idempotency_Inr [OF 2(7)] swap_all_keeps [OF 2(6)] s by (simp add: same_lifecycle_def)
    ultimately show ?thesis
      using swap_all_explained [OF 2(6) 2(2), of eid] by (auto simp: audit_steps_of)
  qed
qed

lemma run_explained:
  "lifecycle_run db0 db \<Longrightarrow> \<exists>new. ld_audit db = ld_audit db0 @ new
    \<and> (\<forall>eid. explains succs (read db0 eid) (steps_of column eid (audit_steps new)) (read db eid))"
proof (induction rule: lifecycle_run.induct)
  case begin_run
  then show ?case by (intro exI [of _ "[]"]) (simp add: audit_steps_def)
next
  case (transition db args now)
  then obtain new where new: "ld_audit db = ld_audit db0 @ new"
    "\<And>eid. explains succs (read db0 eid) (steps_of column eid (audit_steps new)) (read db eid)" by blast
  show ?case
  proof (cases "atomicMultiTransition args now db")
    case (Inl e)
    then show ?thesis using new by (auto simp: after_tx_def)
  next
    case (Inr out)
    have more: "\<exists>more. ld_audit (mo_db out) = ld_audit db @ more
        \<and> explains succs (read db eid) (steps_of column eid (audit_steps more)) (read (mo_db out) eid)" for eid
      by (rule call_explained [OF Inr transition.hyps(2)])
    obtain m where m: "ld_audit (mo_db out) = ld_audit db @ m" using more by blast
    have "explains succs (read db eid) (steps_of column eid (audit_steps m)) (read (mo_db out) eid)" for eid
      using more [of eid] m by auto
    then have "explains succs (read db0 eid) (steps_of column eid (audit_steps (new @ m))) (read (mo_db out) eid)" for eid
      using explains_append [OF new(2)] by simp
    then show ?thesis using m new(1) Inr by (intro exI [of _ "new @ m"]) (simp add: after_tx_def)
  qed
next
  case (elsewhere db db')
  then show ?case using read_same [of db' db] by (simp add: same_lifecycle_def)
qed

end

definition read_buyer :: "'a lifecycle_db_scheme \<Rightarrow> string \<Rightarrow> buyer_state option" where
  "read_buyer db p = map_option pt_buyer (ld_participants db p)"

definition read_money :: "'a lifecycle_db_scheme \<Rightarrow> string \<Rightarrow> money_state option" where
  "read_money db p = map_option pt_money (ld_participants db p)"

interpretation deal_log: audited_column ld_deals deal_column DEAL_TRANSITIONS
  by unfold_locales
    (auto simp: readTransitionEntityState_def set_state_def assertValidTransition_Inr split: state_change.splits)

interpretation buyer_log: audited_column read_buyer buyer_column BUYER_TRANSITIONS
  by unfold_locales
    (auto simp: readTransitionEntityState_def set_state_def assertValidTransition_Inr read_buyer_def fun_eq_iff
      split: state_change.splits)

interpretation money_log: audited_column read_money money_column MONEY_TRANSITIONS
  by unfold_locales
    (auto simp: readTransitionEntityState_def set_state_def assertValidTransition_Inr read_money_def fun_eq_iff
      split: state_change.splits)


section \<open>Properties\<close>

text \<open>C31: The code's transition guard and the database's agree on every pair of states of the three
  machines: \<open>assertValidTransition\<close> throws exactly when the trigger functions would refuse.\<close>

theorem transition_guards_agree:
  "assertValidTransition c = (if valid_change c then Inr () else Inl (IllegalTransition c))"
  by (cases c) (simp_all add: assertValidTransition_def valid_deal valid_buyer valid_money)

definition audit_since :: "'a lifecycle_db_scheme \<Rightarrow> 'a lifecycle_db_scheme \<Rightarrow> (string \<times> state_change) list" where
  "audit_since db0 db = audit_steps (drop (length (ld_audit db0)) (ld_audit db))"

lemma since_append: "ld_audit db = ld_audit db0 @ new \<Longrightarrow> audit_since db0 db = audit_steps new"
  by (simp add: audit_since_def)

lemma deal_run: "lifecycle_run db0 db \<Longrightarrow> explains DEAL_TRANSITIONS (ld_deals db0 d) (steps_of deal_column d (audit_since db0 db)) (ld_deals db d)"
  using deal_log.run_explained [of db0 db] since_append by fastforce

lemma buyer_run: "lifecycle_run db0 db \<Longrightarrow> explains BUYER_TRANSITIONS (read_buyer db0 p) (steps_of buyer_column p (audit_since db0 db)) (read_buyer db p)"
  using buyer_log.run_explained [of db0 db] since_append by fastforce

lemma money_run: "lifecycle_run db0 db \<Longrightarrow> explains MONEY_TRANSITIONS (read_money db0 p) (steps_of money_column p (audit_since db0 db)) (read_money db p)"
  using money_log.run_explained [of db0 db] since_append by fastforce

text \<open>C28: The audit trail is complete and exact: in every run of lifecycle calls, the rows appended to the
  audit log, read in order for one entity and one column, start at its old state, chain without a gap
  along the transition matrix, and end at its current state; an entity without rows has not moved.\<close>

theorem audit_trail_explains_states:
  assumes "lifecycle_run db0 db"
  shows "(\<forall>d. explains DEAL_TRANSITIONS (ld_deals db0 d) (steps_of deal_column d (audit_since db0 db)) (ld_deals db d))
    \<and> (\<forall>p. explains BUYER_TRANSITIONS (read_buyer db0 p) (steps_of buyer_column p (audit_since db0 db)) (read_buyer db p))
    \<and> (\<forall>p. explains MONEY_TRANSITIONS (read_money db0 p) (steps_of money_column p (audit_since db0 db)) (read_money db p))"
  using deal_run [OF assms] buyer_run [OF assms] money_run [OF assms] by blast

definition captured :: "money_state \<Rightarrow> bool" where
  "captured m \<longleftrightarrow> m = M_ChargedSuccess \<or> m = M_RecoveredCharge"

lemma captured_then: "captured m \<Longrightarrow> path MONEY_TRANSITIONS m ms \<Longrightarrow> M_AuthReleased \<notin> set ms"
proof -
  assume m: "captured m" and p: "path MONEY_TRANSITIONS m ms"
  show ?thesis
  proof (cases ms)
    case (Cons x xs)
    then have x: "x = M_Refunded" using m p by (auto simp: captured_def)
    then have "xs = []" using p Cons money_matrix.terminal [of M_Refunded xs] by simp
    with x Cons show ?thesis by simp
  qed simp
qed

lemma path_capture_release:
  "path MONEY_TRANSITIONS m ms \<Longrightarrow> M_AuthReleased \<in> set ms \<Longrightarrow> \<not> list_ex captured ms"
proof (induction ms arbitrary: m)
  case (Cons x xs)
  have p: "path MONEY_TRANSITIONS x xs" using Cons.prems(1) by simp
  show ?case
  proof (cases "x = M_AuthReleased")
    case True
    then show ?thesis using p money_matrix.terminal [of x xs] by (simp add: captured_def)
  next
    case False
    then have r: "M_AuthReleased \<in> set xs" using Cons.prems(2) by simp
    then show ?thesis using Cons.IH [OF p] captured_then [OF _ p] by auto
  qed
qed simp

text \<open>C27: One obligation is captured at most once: in every run, the money column of a participant enters a
  captured state at most once, is refunded at most once and released at most once, and never is a hold
  released for which money was captured.\<close>

theorem at_most_one_capture:
  assumes "lifecycle_run db0 db" and "moves = map snd (steps_of money_column p (audit_since db0 db))"
  shows "length (filter captured moves) \<le> 1 \<and> length (filter (\<lambda>m. m = M_Refunded) moves) \<le> 1
    \<and> length (filter (\<lambda>m. m = M_AuthReleased) moves) \<le> 1
    \<and> (list_ex captured moves \<longrightarrow> M_AuthReleased \<notin> set moves)"
proof (cases "read_money db0 p")
  case None
  then show ?thesis using explains_path [OF money_run [OF assms(1), of p]] assms(2) by simp
next
  case (Some m)
  then have p: "path MONEY_TRANSITIONS m moves"
    using explains_path [OF money_run [OF assms(1), of p]] assms(2) by simp
  have "length (filter captured moves) \<le> 1" by (rule money_matrix.level_once [OF p, of _ 5]) (auto simp: captured_def)
  moreover have "length (filter (\<lambda>m. m = M_Refunded) moves) \<le> 1" by (rule money_matrix.level_once [OF p, of _ 6]) simp
  moreover have "length (filter (\<lambda>m. m = M_AuthReleased) moves) \<le> 1" by (rule money_matrix.level_once [OF p, of _ 6]) simp
  ultimately show ?thesis using path_capture_release [OF p] by blast
qed

lemma chain_forward:
  assumes "chain DEAL_TRANSITIONS s steps s'"
  shows "deal_rank s \<le> deal_rank s' \<and> (DEAL_TRANSITIONS s = [] \<longrightarrow> s' = s)"
proof -
  have p: "path DEAL_TRANSITIONS s (map snd steps)" and l: "s' = last (s # map snd steps)"
    using chain_path [OF assms] by simp_all
  have "s' = s \<or> s' \<in> set (map snd steps)" using l last_in_set [of "map snd steps"] by (cases "map snd steps") simp_all
  then have "deal_rank s \<le> deal_rank s'" using deal_matrix.path_rank [OF p] by blast
  moreover have "DEAL_TRANSITIONS s = [] \<Longrightarrow> s' = s" using deal_matrix.terminal [OF _ p] l by simp
  ultimately show ?thesis by blast
qed

text \<open>A deal only moves forward: once it is ready for charging it is never open for joining again, and a
  completed, failed or cancelled deal never changes, whatever calls follow.\<close>

theorem deal_moves_forward:
  assumes "lifecycle_run db0 db" and "ld_deals db0 d = Some s"
  shows "\<exists>s'. ld_deals db d = Some s' \<and> deal_rank s \<le> deal_rank s' \<and> (DEAL_TRANSITIONS s = [] \<longrightarrow> s' = s)"
  using explains_Some [OF deal_run [OF assms(1), of d, unfolded assms(2)]] chain_forward by blast

section \<open>Repeated and racing calls\<close>

definition same_key :: "'db multi_args \<Rightarrow> 'db multi_args \<Rightarrow> bool" where
  "same_key a b \<longleftrightarrow> ma_entity a = ma_entity b \<and> ma_entityId a = ma_entityId b \<and> ma_action a = ma_action b \<and> ma_key a = ma_key b"

lemma call_log:
  assumes "atomicMultiTransition args now db = Inr out" and "body_keeps args"
  shows "\<exists>new. ld_idempotency (mo_db out) = ld_idempotency db @ new
    \<and> (\<exists>r. find (idempotency_match args) (ld_idempotency (mo_db out)) = Some r \<and> il_response r = mo_response out)"
proof (cases "find (idempotency_match args) (ld_idempotency db)")
  case (Some r)
  then have "out = \<lparr>mo_response = il_response r, mo_replay = True, mo_db = db\<rparr>"
    using assms(1) unfolding atomicMultiTransition_def by simp
  then show ?thesis using Some by simp
next
  case None
  then have fresh: "\<not> mo_replay out"
    using assms(1) unfolding atomicMultiTransition_def by (auto elim!: on_ok_InrE)
  have "ld_idempotency (mo_db out) = ld_idempotency db @ [\<lparr>il_entity = ma_entity args, il_entityId = ma_entityId args,
             il_action = ma_action args, il_key = ma_key args, il_response = ma_response args\<rparr>]
      \<and> mo_response out = ma_response args"
  proof (cases rule: fresh_call_cases [OF assms(1) fresh])
    case 1
    then show ?thesis using insert_idempotency_Inr [OF 1(2)] by simp
  next
    case (2 ops db1 db2 db3)
    have s: "same_lifecycle (db\<lparr>ld_audit := ld_audit db @ map (audit_row_of args) ops\<rparr>) db2"
      using same_lifecycle_trans enqueue_job_same [OF 2(4)] run_body_same [OF assms(2) 2(5)] by blast
    then show ?thesis using insert_idempotency_Inr [OF 2(7)] swap_all_keeps [OF 2(6)] 2(8)
      by (simp add: same_lifecycle_def)
  qed
  then show ?thesis using find_append_None [OF None] by (simp add: idempotency_match_def)
qed

lemma run_log: "lifecycle_run db0 db \<Longrightarrow> \<exists>new. ld_idempotency db = ld_idempotency db0 @ new"
proof (induction rule: lifecycle_run.induct)
  case (transition db args now)
  then show ?case
    by (cases "atomicMultiTransition args now db") (auto simp: after_tx_def dest: call_log [OF _ transition.hyps(2)])
qed (auto simp: same_lifecycle_def)

text \<open>C29: A transition is applied once per idempotency key: after a call succeeded, every later call with the same
  entity, action and key, after whatever other calls and with whatever operations, body or job, returns
  the recorded response as a replay and changes nothing.\<close>

theorem repeated_call_replays:
  assumes "atomicMultiTransition args now db = Inr out" and "body_keeps args"
    and "lifecycle_run (mo_db out) db2" and "same_key args args2"
  shows "atomicMultiTransition args2 now2 db2 = Inr \<lparr>mo_response = mo_response out, mo_replay = True, mo_db = db2\<rparr>"
proof -
  obtain r where r: "find (idempotency_match args) (ld_idempotency (mo_db out)) = Some r" "il_response r = mo_response out"
    using call_log [OF assms(1,2)] by blast
  have "idempotency_match args2 = idempotency_match args"
    using assms(4) by (simp add: idempotency_match_def same_key_def fun_eq_iff)
  moreover obtain new where "ld_idempotency db2 = ld_idempotency (mo_db out) @ new" using run_log [OF assms(3)] by blast
  ultimately have "find (idempotency_match args2) (ld_idempotency db2) = Some r"
    using find_append_Some [OF r(1)] by simp
  then show ?thesis using r(2) by (simp add: atomicMultiTransition_def)
qed

lemma assert_all_singleD: "assert_all [op] = Inr () \<Longrightarrow> assertValidTransition (op_change op) = Inr ()"
  by (auto elim!: on_ok_InrE)

text \<open>Two lifecycle calls racing on a deal: when both start from the same state, the first commit wins; the
  second, if its key differs, gets \<open>STATE_CONFLICT\<close> before it has written anything, whatever its job
  and body are.\<close>

theorem racing_call_conflicts:
  assumes "atomicTransition d dealId (DealStep f t) action request key outbox payload response insideTx ser uuid now db = Inr out"
    and "\<not> mo_replay out" and "\<And>body db db'. insideTx = Some body \<Longrightarrow> body db = Inr db' \<Longrightarrow> same_lifecycle db db'"
    and "t2 \<in> set (DEAL_TRANSITIONS f)"
    and "\<not> list_ex (\<lambda>r. il_entity r = Deal \<and> il_entityId r = d \<and> il_action r = action2 \<and> il_key r = key2)
          (ld_idempotency (mo_db out))"
  shows "atomicTransition d dealId2 (DealStep f t2) action2 request2 key2 outbox2 payload2 response2 insideTx2 True uuid2 now2 (mo_db out)
    = Inl (StateConflict Deal d (DealStep f t2))"
proof -
  let ?args = "\<lparr>ma_action = action, ma_request = request, ma_correlation = None, ma_entity = Deal,
        ma_entityId = d, ma_key = key, ma_ops = (\<lambda>_. Inr [single_op d dealId (DealStep f t) payload]),
        ma_outbox = outbox, ma_response = response, ma_insideTx = insideTx, ma_serialize = ser, ma_uuid = uuid, ma_flag = None\<rparr>"
  have call: "atomicMultiTransition ?args now db = Inr out" using assms(1) by (simp add: atomicTransition_def)
  have keeps: "body_keeps ?args" using assms(3) by (simp add: body_keeps_def)
  have moved: "ld_deals (mo_db out) d = Some t \<and> t \<in> set (DEAL_TRANSITIONS f)"
  proof (cases rule: fresh_call_cases [OF call assms(2)])
    case (2 ops db1 db2 db3)
    then have ops: "ops = [single_op d dealId (DealStep f t) payload]" by simp
    have "t \<in> set (DEAL_TRANSITIONS f)"
      using assert_all_singleD [of "single_op d dealId (DealStep f t) payload"] 2(2) ops
      by (simp add: assertValidTransition_Inr single_op_def)
    moreover have "ld_deals db3 d = Some t"
      using 2(6) ops by (auto simp: swap_state_def single_op_def set_state_def split: if_splits elim!: on_ok_InrE)
    ultimately show ?thesis using insert_idempotency_Inr [OF 2(7)] by simp
  qed simp
  have "t \<noteq> f" using moved by (cases f) auto
  then have "ld_deals (mo_db out) d = Some t" and "t \<noteq> f" using moved by simp_all
  moreover have "find (\<lambda>r. il_entity r = Deal \<and> il_entityId r = d \<and> il_action r = action2 \<and> il_key r = key2)
          (ld_idempotency (mo_db out)) = None"
    using assms(5) by (auto simp: find_None_iff list_ex_iff)
  ultimately show ?thesis
    using assms(4)
    by (simp add: atomicTransition_def atomicMultiTransition_def idempotency_match_def [abs_def] single_op_def
        assertValidTransition_def readTransitionEntityState_def)
qed

text \<open>C30: No deal enters a stage without the job that drives it: when a committed call contains a step that
  starts the deadline watch, the charging, the completion window, the refunds or the cancellation, the
  job of that stage for that deal is pending in the queue and was not there before.\<close>

theorem stage_commits_with_its_job:
  assumes "atomicMultiTransition args now db = Inr out" and "\<not> mo_replay out"
    and "ma_ops args db = Inr ops" and "op \<in> set ops" and "op_change op = DealStep f t"
    and "transition_event (DealStep f t) = Some e"
  shows "\<exists>r \<in> set (odb_events (ld_outbox (mo_db out))). ob_event_type r = e \<and> ob_aggregate_id r = op_entityId op
    \<and> ob_status r = Pending \<and> ob_id r \<notin> ob_id ` set (odb_events (ld_outbox db))"
proof (cases rule: fresh_call_cases [OF assms(1,2)])
  case 1
  then show ?thesis using assms(3,4) by simp
next
  case (2 ops' db1 db2 db3)
  have in_tx: "outbox_row_written_in_tx db db2 (op_entityId op) e" if "swap_all db w a xs dbx = Inr dby"
      "ld_outbox dbx = ld_outbox db2" "op \<in> set xs" for w a xs dbx dby
    using that
  proof (induction xs arbitrary: dbx)
    case (Cons x xs)
    obtain m where m: "swap_state db w a x dbx = Inr m" "swap_all db w a xs m = Inr dby"
      using Cons.prems(1) by (auto elim!: on_ok_InrE)
    have o: "ld_outbox m = ld_outbox db2" using m(1) Cons.prems(2) by (auto simp: swap_state_def split: if_splits)
    show ?case
    proof (cases "x = op")
      case True
      then have "outbox_row_written_in_tx db dbx (op_entityId op) e"
        using m(1) assms(5,6) by (auto simp: swap_state_def deals_outbox_enforce_def split: if_splits)
      then show ?thesis using Cons.prems(2) by (simp add: outbox_row_written_in_tx_def)
    qed (use Cons.IH [OF m(2) o] Cons.prems(3) in simp)
  qed simp
  have "ops' = ops" using 2(1) assms(3) by simp
  then have "outbox_row_written_in_tx db db2 (op_entityId op) e" using in_tx [OF 2(6)] assms(4) by simp
  moreover have "ld_outbox (mo_db out) = ld_outbox db2"
    using insert_idempotency_Inr [OF 2(7)] swap_all_keeps [OF 2(6)] by simp
  ultimately show ?thesis by (force simp: outbox_row_written_in_tx_def list_ex_iff)
qed


section \<open>Witnesses\<close>

definition demo_db :: lifecycle_db where
  "demo_db = \<lparr>ld_deals = [''d1'' \<mapsto> D_Draft], ld_participants = [''p1'' \<mapsto> \<lparr>pt_deal = ''d1'', pt_buyer = B_ChargingAttempt, pt_money = M_ChargeAttempt\<rparr>],
     ld_audit = [], ld_outbox = \<lparr>odb_events = [], odb_dlq = [], odb_audit = []\<rparr>, ld_idempotency = []\<rparr>"

definition publish_args :: "lifecycle_db multi_args" where
  "publish_args = \<lparr>ma_action = ''deal.publish'', ma_request = ''r1'', ma_correlation = None, ma_entity = Deal,
     ma_entityId = ''d1'', ma_key = ''k1'', ma_ops = (\<lambda>_. Inr [single_op ''d1'' (Some ''d1'') (DealStep D_Draft D_PendingTarget) ''{}'']),
     ma_outbox = Some \<lparr>oi_event_type = ''deadline_check'', oi_aggregate_type = ''deal'', oi_aggregate_id = ''d1'',
        oi_payload = ''{}'', oi_available_at = Some 1000\<rparr>,
     ma_response = ''ok'', ma_insideTx = None, ma_serialize = True, ma_uuid = ''u1'', ma_flag = None\<rparr>"

definition published :: "lifecycle_db outcome" where
  "published = (case atomicMultiTransition publish_args 5 demo_db of Inr out \<Rightarrow> out
     | Inl _ \<Rightarrow> \<lparr>mo_response = '''', mo_replay = True, mo_db = demo_db\<rparr>)"

lemma published_call: "atomicMultiTransition publish_args 5 demo_db = Inr published" "\<not> mo_replay published"
proof -
  have "\<not> isl (atomicMultiTransition publish_args 5 demo_db)" by code_simp
  then show "atomicMultiTransition publish_args 5 demo_db = Inr published"
    by (auto simp: published_def isl_def split: sum.splits)
  show "\<not> mo_replay published" by code_simp
qed

lemma publish_keeps: "body_keeps publish_args"
  by (simp add: body_keeps_def publish_args_def)

lemma publish_run: "lifecycle_run demo_db (mo_db published)"
  using transition [OF begin_run publish_keeps, of demo_db 5] by (simp add: published_call after_tx_def)

lemma audit_trail_explains_states_witness:
  "explains DEAL_TRANSITIONS (ld_deals demo_db ''d1'') (steps_of deal_column ''d1'' (audit_since demo_db (mo_db published)))
     (ld_deals (mo_db published) ''d1'')"
  using audit_trail_explains_states [OF publish_run] by blast

definition capture_args :: "lifecycle_db multi_args" where
  "capture_args = \<lparr>ma_action = ''charging.capture_success'', ma_request = ''w1'', ma_correlation = None, ma_entity = Participant,
     ma_entityId = ''p1'', ma_key = ''c1'', ma_ops = (\<lambda>_. Inr
        [single_op ''p1'' (Some ''d1'') (MoneyStep M_ChargeAttempt M_ChargedSuccess) ''{}'',
         single_op ''p1'' (Some ''d1'') (BuyerStep B_ChargingAttempt B_ChargedSuccess) ''{}'']),
     ma_outbox = None, ma_response = ''ok'', ma_insideTx = None, ma_serialize = False, ma_uuid = ''u2'', ma_flag = None\<rparr>"

definition db_captured :: lifecycle_db where
  "db_captured = after_tx demo_db (atomicMultiTransition capture_args 7 demo_db)"

lemma capture_run: "lifecycle_run demo_db db_captured"
  unfolding db_captured_def by (rule transition [OF begin_run]) (simp add: body_keeps_def capture_args_def)

lemma at_most_one_capture_witness:
  "map snd (steps_of money_column ''p1'' (audit_since demo_db db_captured)) = [M_ChargedSuccess]
   \<and> length (filter captured (map snd (steps_of money_column ''p1'' (audit_since demo_db db_captured)))) \<le> 1"
proof
  show "map snd (steps_of money_column ''p1'' (audit_since demo_db db_captured)) = [M_ChargedSuccess]" by code_simp
qed (use at_most_one_capture [OF capture_run refl] in blast)

lemma deal_moves_forward_witness: "\<exists>s'. ld_deals (mo_db published) ''d1'' = Some s' \<and> 0 \<le> deal_rank s'"
proof -
  have "ld_deals demo_db ''d1'' = Some D_Draft" by (simp add: demo_db_def)
  from deal_moves_forward [OF publish_run this] show ?thesis by auto
qed

lemma repeated_call_replays_witness:
  "atomicMultiTransition publish_args 9 (mo_db published) =
     Inr \<lparr>mo_response = mo_response published, mo_replay = True, mo_db = mo_db published\<rparr>"
  by (rule repeated_call_replays [OF published_call(1) publish_keeps begin_run]) (simp add: same_key_def)

lemma published_transition:
  "atomicTransition ''d1'' (Some ''d1'') (DealStep D_Draft D_PendingTarget) ''deal.publish'' ''r1'' ''k1''
     (ma_outbox publish_args) ''{}'' ''ok'' None True ''u1'' 5 demo_db = Inr published"
  using published_call(1) by (simp add: atomicTransition_def publish_args_def)

lemma racing_call_conflicts_witness:
  "atomicTransition ''d1'' None (DealStep D_Draft D_Cancelled) ''deal.cancel'' ''r2'' ''k2''
     (Some \<lparr>oi_event_type = ''cancel_refund'', oi_aggregate_type = ''deal'', oi_aggregate_id = ''d1'',
        oi_payload = ''{}'', oi_available_at = None\<rparr>) ''{}'' ''ok'' None True ''u3'' 6 (mo_db published)
   = Inl (StateConflict Deal ''d1'' (DealStep D_Draft D_Cancelled))"
proof (rule racing_call_conflicts [OF published_transition published_call(2)])
  show "\<not> list_ex (\<lambda>r. il_entity r = Deal \<and> il_entityId r = ''d1'' \<and> il_action r = ''deal.cancel'' \<and> il_key r = ''k2'')
      (ld_idempotency (mo_db published))" by code_simp
qed simp_all

lemma stage_commits_with_its_job_witness:
  "\<exists>r \<in> set (odb_events (ld_outbox (mo_db published))). ob_event_type r = ''deadline_check'' \<and> ob_aggregate_id r = ''d1''
     \<and> ob_status r = Pending \<and> ob_id r \<notin> ob_id ` set (odb_events (ld_outbox demo_db))"
  using stage_commits_with_its_job [OF published_call, of "[single_op ''d1'' (Some ''d1'') (DealStep D_Draft D_PendingTarget) ''{}'']"
      "single_op ''d1'' (Some ''d1'') (DealStep D_Draft D_PendingTarget) ''{}''" D_Draft D_PendingTarget "''deadline_check''"]
  by (simp add: publish_args_def single_op_def)

end
