(* ===== verification/PaymentAttempts.thy ===== *)
theory PaymentAttempts
  imports LifecycleRuns
begin

text \<open>
  \<open>src/payment_attempt_helpers.ts\<close>: the ledger of money operations. Every provider request of a
  participant has one row with its durable dispatch lifecycle; the rows are minted, armed for I/O under
  a worker lease, settled and retired here. Inserts and updates run under the triggers of
  \<open>src/migrations/050\<close>, \<open>067\<close>, \<open>068\<close> and \<open>071\<close>. The advisory lock on (participant, deal) makes every
  function one step; \<open>now\<close> is the database clock of the transaction. Rows are kept in the order of
  creation.
\<close>

section \<open>Rows\<close>

datatype result_class = R_Success | R_PermanentFail | R_TemporaryFail | R_Unknown

datatype attempt_type =
    A_ChargeStart | A_Recovery | A_Refund | A_DeadlineCheck | A_CancelRefund | A_Release | A_Reauthorize

datatype dispatch_state = DS_Recorded | DS_Dispatching | DS_Responded

datatype failure_evidence = EV_DispatchResponse | EV_StatusInference | EV_ProviderEvent | EV_Operator

text \<open>The two owner columns are written and cleared together.\<close>

type_synonym dispatch_owner = "string \<times> int"

record attempt_row =
  pa_participant :: string
  pa_deal :: string
  pa_type :: attempt_type
  pa_correlation :: string
  pa_result :: result_class
  pa_dispatch :: dispatch_state
  pa_owner :: "dispatch_owner option"
  pa_dispatched_at :: "int option"
  pa_reference :: "string option"
  pa_note :: "string option"
  pa_created_at :: int
  pa_horizon :: "int option"
  pa_evidence :: "failure_evidence option"
  pa_authoritative :: "bool option"

record payment_db = lifecycle_db +
  pd_attempts :: "attempt_row list"
  pd_window :: "string \<Rightarrow> int option"

definition MONEY_ATTEMPT_TYPES :: "attempt_type list" where
  "MONEY_ATTEMPT_TYPES = [A_ChargeStart, A_Recovery, A_Refund, A_CancelRefund, A_Release, A_Reauthorize]"

definition capture_side :: "attempt_type \<Rightarrow> bool" where
  "capture_side t \<longleftrightarrow> t = A_ChargeStart \<or> t = A_Recovery"

definition type_name :: "attempt_type \<Rightarrow> string" where
  "type_name t = (case t of A_ChargeStart \<Rightarrow> ''charge_start'' | A_Recovery \<Rightarrow> ''recovery'' | A_Refund \<Rightarrow> ''refund''
     | A_DeadlineCheck \<Rightarrow> ''deadline_check'' | A_CancelRefund \<Rightarrow> ''cancel_refund'' | A_Release \<Rightarrow> ''release''
     | A_Reauthorize \<Rightarrow> ''reauthorize'')"

definition of_obligation :: "string \<Rightarrow> string \<Rightarrow> attempt_row \<Rightarrow> bool" where
  "of_obligation p d r \<longleftrightarrow> pa_participant r = p \<and> pa_deal r = d"

definition is_identity :: "string \<Rightarrow> string \<Rightarrow> attempt_type \<Rightarrow> string \<Rightarrow> attempt_row \<Rightarrow> bool" where
  "is_identity p d t corr r \<longleftrightarrow> of_obligation p d r \<and> pa_type r = t \<and> pa_correlation r = corr"

text \<open>\<open>siton.payment_operation_in_flight\<close>: the owning job still holds a live lease.\<close>

definition payment_operation_in_flight :: "int \<Rightarrow> 'a lifecycle_db_scheme \<Rightarrow> dispatch_owner option \<Rightarrow> bool" where
  "payment_operation_in_flight now db owner =
     (case owner of
        None \<Rightarrow> False
      | Some (e, g) \<Rightarrow> list_ex (\<lambda>ev. ob_id ev = e \<and> ob_lease_generation ev = g \<and> ob_status ev = Processing
          \<and> lease_live now ev) (odb_events (ld_outbox db)))"

definition loadRows :: "string \<Rightarrow> string \<Rightarrow> 'a payment_db_scheme \<Rightarrow> attempt_row list" where
  "loadRows p d db = filter (of_obligation p d) (pd_attempts db)"

section \<open>The triggers on updates\<close>

definition guard_lifecycle ::
    "(dispatch_owner option \<Rightarrow> bool) \<Rightarrow> dispatch_owner option \<Rightarrow> attempt_row \<Rightarrow> attempt_row \<Rightarrow> lifecycle_error + attempt_row" where
  "guard_lifecycle in_flight setting old new =
     (if pa_result old = R_Success \<and> pa_result new \<noteq> R_Success
      then Inl (BodyRejected ''payment_attempt_terminal_downgrade'')
      else if pa_result old = R_PermanentFail \<and> pa_result new \<noteq> R_PermanentFail \<and> pa_result new \<noteq> R_Success
      then Inl (BodyRejected ''payment_attempt_terminal_downgrade'')
      else if pa_dispatch old = DS_Dispatching \<and> in_flight (pa_owner old) \<and> setting \<noteq> pa_owner old
           \<and> (pa_result new = R_PermanentFail \<or> pa_result new = R_TemporaryFail)
      then Inl (BodyRejected ''payment_attempt_in_flight_negative_settle'')
      else if pa_dispatch old = DS_Dispatching \<and> in_flight (pa_owner old) \<and> setting \<noteq> pa_owner old
           \<and> pa_dispatch new = DS_Dispatching \<and> pa_owner new \<noteq> pa_owner old
      then Inl (BodyRejected ''payment_attempt_dispatch_in_flight'')
      else if pa_dispatch old = DS_Dispatching \<and> in_flight (pa_owner old) \<and> setting \<noteq> pa_owner old
           \<and> pa_dispatch new = DS_Recorded
      then Inl (BodyRejected ''payment_attempt_in_flight_disarm'')
      else if pa_dispatch old = DS_Dispatching \<and> in_flight (pa_owner old) \<and> setting \<noteq> pa_owner old
           \<and> pa_result new \<noteq> R_Success
      then Inl (BodyRejected ''payment_attempt_in_flight_foreign_write'')
      else if pa_result new = R_Success \<or> pa_result new = R_PermanentFail
      then Inr (new\<lparr>pa_dispatch := DS_Responded\<rparr>)
      else Inr new)"

definition guard_horizon :: "attempt_row \<Rightarrow> attempt_row \<Rightarrow> attempt_row" where
  "guard_horizon old new =
     new\<lparr>pa_horizon := (case pa_horizon old of
           None \<Rightarrow> pa_horizon new
         | Some h \<Rightarrow> (case pa_horizon new of None \<Rightarrow> Some h | Some h' \<Rightarrow> if h' < h then Some h else Some h')),
         pa_evidence := (if pa_evidence old = Some EV_DispatchResponse then Some EV_DispatchResponse else pa_evidence new),
         pa_authoritative := (if pa_authoritative old \<noteq> None \<and> pa_authoritative new \<noteq> pa_authoritative old
             \<and> pa_authoritative new = Some True then pa_authoritative old else pa_authoritative new)\<rparr>"

definition update_guard ::
    "(dispatch_owner option \<Rightarrow> bool) \<Rightarrow> dispatch_owner option \<Rightarrow> attempt_row \<Rightarrow> attempt_row \<Rightarrow> lifecycle_error + attempt_row" where
  "update_guard in_flight setting old new =
     on_ok (guard_lifecycle in_flight setting old new) (\<lambda>r. Inr (guard_horizon old r))"

text \<open>An \<open>UPDATE\<close> with its row count; a rejected row aborts the statement.\<close>

fun update_rows ::
    "(attempt_row \<Rightarrow> attempt_row \<Rightarrow> lifecycle_error + attempt_row) \<Rightarrow> (attempt_row \<Rightarrow> bool) \<Rightarrow> (attempt_row \<Rightarrow> attempt_row) \<Rightarrow>
     attempt_row list \<Rightarrow> lifecycle_error + nat \<times> attempt_row list" where
  "update_rows guard P f [] = Inr (0, [])"
| "update_rows guard P f (r # rs) =
     on_ok (if P r then guard r (f r) else Inr r) (\<lambda>r'.
     on_ok (update_rows guard P f rs) (\<lambda>(n, rs'). Inr (if P r then Suc n else n, r' # rs')))"

definition update_attempts ::
    "int \<Rightarrow> dispatch_owner option \<Rightarrow> (attempt_row \<Rightarrow> bool) \<Rightarrow> (attempt_row \<Rightarrow> attempt_row) \<Rightarrow> 'a payment_db_scheme \<Rightarrow>
     lifecycle_error + nat \<times> 'a payment_db_scheme" where
  "update_attempts now setting P f db =
     on_ok (update_rows (update_guard (payment_operation_in_flight now db) setting) P f (pd_attempts db)) (\<lambda>(n, rows).
       Inr (n, db\<lparr>pd_attempts := rows\<rparr>))"

section \<open>The settlement fence and the triggers on inserts\<close>

datatype fence = FencedUntil int | FencedForever

definition unproven_failure :: "attempt_row \<Rightarrow> bool" where
  "unproven_failure r \<longleftrightarrow> capture_side (pa_type r) \<and> pa_result r = R_PermanentFail
     \<and> pa_evidence r \<noteq> Some EV_DispatchResponse \<and> pa_evidence r \<noteq> Some EV_Operator"

definition fence_of :: "int \<Rightarrow> attempt_row \<Rightarrow> fence option" where
  "fence_of now r =
     (if \<not> unproven_failure r then None
      else case pa_horizon r of
          None \<Rightarrow> Some FencedForever
        | Some h \<Rightarrow> if pa_authoritative r \<noteq> Some True then Some FencedForever
                    else if now < h then Some (FencedUntil h) else None)"

fun latest_fence :: "fence option \<Rightarrow> fence option \<Rightarrow> fence option" where
  "latest_fence None b = b"
| "latest_fence a None = a"
| "latest_fence (Some FencedForever) b = Some FencedForever"
| "latest_fence a (Some FencedForever) = Some FencedForever"
| "latest_fence (Some (FencedUntil x)) (Some (FencedUntil y)) = Some (FencedUntil (max x y))"

definition payment_capture_settlement_fence :: "int \<Rightarrow> string \<Rightarrow> string \<Rightarrow> 'a payment_db_scheme \<Rightarrow> fence option" where
  "payment_capture_settlement_fence now p d db = foldr (\<lambda>r. latest_fence (fence_of now r)) (loadRows p d db) None"

definition has_row :: "(attempt_row \<Rightarrow> bool) \<Rightarrow> string \<Rightarrow> string \<Rightarrow> 'a payment_db_scheme \<Rightarrow> bool" where
  "has_row P p d db \<longleftrightarrow> list_ex P (loadRows p d db)"

definition is_result :: "result_class \<Rightarrow> attempt_type \<Rightarrow> attempt_row \<Rightarrow> bool" where
  "is_result c t r \<longleftrightarrow> pa_type r = t \<and> pa_result r = c"

definition enforce_charge_attempt_rate_limit :: "int \<Rightarrow> attempt_row \<Rightarrow> 'a payment_db_scheme \<Rightarrow> bool" where
  "enforce_charge_attempt_rate_limit now new db \<longleftrightarrow>
     capture_side (pa_type new) \<longrightarrow>
       length (filter (\<lambda>r. capture_side (pa_type r) \<and> now - 1800000 < pa_created_at r)
         (loadRows (pa_participant new) (pa_deal new) db)) < 3"

definition guard_eligibility :: "attempt_row \<Rightarrow> 'a payment_db_scheme \<Rightarrow> lifecycle_error + unit" where
  "guard_eligibility new db =
     (let t = pa_type new; p = pa_participant new; d = pa_deal new
      in if \<not> List.member MONEY_ATTEMPT_TYPES t then Inr ()
         else if t = A_Reauthorize
         then (if has_row (is_result R_Unknown A_Reauthorize) p d db
               then Inl (BodyRejected ''reauthorization_identity_rotation_blocked'') else Inr ())
         else if (capture_side t \<or> t = A_Release) \<and> has_row (is_result R_Unknown A_Reauthorize) p d db
         then Inl (BodyRejected ''money_operation_blocked_by_unresolved_reauthorization'')
         else if has_row (\<lambda>r. is_result R_Unknown t r \<or> is_result R_Success t r) p d db
         then Inl (BodyRejected ''payment_attempt_identity_rotation_blocked'')
         else if t = A_Recovery \<and> has_row (\<lambda>r. is_result R_Unknown A_ChargeStart r \<or> is_result R_Success A_ChargeStart r) p d db
         then Inl (BodyRejected ''recovery_blocked_by_unresolved_capture'')
         else if (t = A_Refund \<or> t = A_CancelRefund \<or> t = A_Release)
              \<and> has_row (\<lambda>r. capture_side (pa_type r) \<and> pa_result r = R_Unknown) p d db
         then Inl (BodyRejected ''money_operation_blocked_by_unresolved_capture'')
         else if t = A_Release \<and> has_row (\<lambda>r. capture_side (pa_type r) \<and> pa_result r = R_Success) p d db
         then Inl (BodyRejected ''release_blocked_by_captured_money'')
         else Inr ())"

definition payment_release_conflict :: "string \<Rightarrow> string \<Rightarrow> 'a payment_db_scheme \<Rightarrow> bool" where
  "payment_release_conflict p d db \<longleftrightarrow>
     has_row (is_result R_Success A_Release) p d db \<or> has_row (is_result R_Unknown A_Release) p d db"

definition guard_settlement_fence :: "int \<Rightarrow> attempt_row \<Rightarrow> 'a payment_db_scheme \<Rightarrow> lifecycle_error + unit" where
  "guard_settlement_fence now new db =
     (let t = pa_type new; p = pa_participant new; d = pa_deal new
      in if (t = A_Recovery \<or> t = A_Release) \<and> payment_capture_settlement_fence now p d db \<noteq> None
         then Inl (BodyRejected ''money_operation_fenced'')
         else if capture_side t \<and> payment_release_conflict p d db then Inl (BodyRejected ''capture_blocked_by_release'')
         else Inr ())"

text \<open>
  \<open>INSERT ... ON CONFLICT DO NOTHING\<close> under the three triggers, which fire in the order of their names and
  admit an identity that exists.
\<close>

definition insert_attempt :: "int \<Rightarrow> attempt_row \<Rightarrow> 'a payment_db_scheme \<Rightarrow> lifecycle_error + 'a payment_db_scheme" where
  "insert_attempt now new db =
     (if list_ex (is_identity (pa_participant new) (pa_deal new) (pa_type new) (pa_correlation new)) (pd_attempts db)
      then Inr db
      else if \<not> enforce_charge_attempt_rate_limit now new db then Inl (BodyRejected ''charge_attempt_rate_limited'')
      else on_ok (guard_eligibility new db) (\<lambda>_.
           on_ok (guard_settlement_fence now new db) (\<lambda>_.
             Inr (db\<lparr>pd_attempts := pd_attempts db @ [new]\<rparr>))))"

definition new_attempt :: "int \<Rightarrow> string \<Rightarrow> string \<Rightarrow> attempt_type \<Rightarrow> string \<Rightarrow> attempt_row" where
  "new_attempt now p d t corr =
     \<lparr>pa_participant = p, pa_deal = d, pa_type = t, pa_correlation = corr, pa_result = R_Unknown,
      pa_dispatch = DS_Recorded, pa_owner = None, pa_dispatched_at = None, pa_reference = None, pa_note = None,
      pa_created_at = now, pa_horizon = None, pa_evidence = None, pa_authoritative = None\<rparr>"

definition recordAttemptBeforeIo ::
    "int \<Rightarrow> string \<Rightarrow> string \<Rightarrow> attempt_type \<Rightarrow> string \<Rightarrow> 'a payment_db_scheme \<Rightarrow> lifecycle_error + 'a payment_db_scheme" where
  "recordAttemptBeforeIo now p d t corr db = insert_attempt now (new_attempt now p d t corr) db"

section \<open>Reading\<close>

definition anyOperationInFlight :: "int \<Rightarrow> string \<Rightarrow> string \<Rightarrow> 'a payment_db_scheme \<Rightarrow> attempt_row option" where
  "anyOperationInFlight now p d db =
     find (\<lambda>r. pa_result r = R_Unknown \<and> pa_dispatch r = DS_Dispatching \<and> payment_operation_in_flight now db (pa_owner r))
       (loadRows p d db)"

definition assertNoInFlightOperationInTx :: "int \<Rightarrow> string \<Rightarrow> string \<Rightarrow> 'a payment_db_scheme \<Rightarrow> lifecycle_error + unit" where
  "assertNoInFlightOperationInTx now p d db =
     (if anyOperationInFlight now p d db = None then Inr () else Inl (BodyRejected ''payment_operation_in_flight''))"

definition neverDispatched :: "attempt_row \<Rightarrow> bool" where
  "neverDispatched r \<longleftrightarrow> pa_result r = R_Unknown \<and> pa_dispatch r = DS_Recorded"

definition loadAttemptLifecycle :: "string \<Rightarrow> string \<Rightarrow> attempt_type option \<Rightarrow> string \<Rightarrow> 'a payment_db_scheme \<Rightarrow> attempt_row option" where
  "loadAttemptLifecycle p d t corr db =
     find (\<lambda>r. pa_correlation r = corr \<and> (case t of None \<Rightarrow> True | Some a \<Rightarrow> pa_type r = a)) (loadRows p d db)"

section \<open>Retiring identities that never left the process\<close>

definition append_note :: "string option \<Rightarrow> string \<Rightarrow> string" where
  "append_note old new = (case old of None \<Rightarrow> new | Some n \<Rightarrow> n @ '' | '' @ new)"

definition retirable :: "string \<Rightarrow> string \<Rightarrow> attempt_type list \<Rightarrow> attempt_row \<Rightarrow> bool" where
  "retirable p d types r \<longleftrightarrow> of_obligation p d r \<and> List.member types (pa_type r) \<and> neverDispatched r
     \<and> pa_owner r = None \<and> pa_dispatched_at r = None"

definition retireNeverDispatchedInTx ::
    "int \<Rightarrow> string \<Rightarrow> string \<Rightarrow> attempt_type list \<Rightarrow> string \<Rightarrow> 'a payment_db_scheme \<Rightarrow>
     lifecycle_error + (attempt_type \<times> string) list \<times> 'a payment_db_scheme" where
  "retireNeverDispatchedInTx now p d types reason db =
     (if types = [] then Inr ([], db)
      else on_ok (update_attempts now None (retirable p d types)
             (\<lambda>r. r\<lparr>pa_result := R_TemporaryFail, pa_note := Some (append_note (pa_note r) (''never_dispatched:'' @ reason))\<rparr>) db) (\<lambda>(n, db').
           Inr (map (\<lambda>r. (pa_type r, pa_correlation r)) (filter (retirable p d types) (pd_attempts db)), db')))"

section \<open>Settling by anyone\<close>

datatype settle_answer = Settled | AlreadyTerminal | SettleMissing

definition settleAttemptInTx ::
    "int \<Rightarrow> string \<Rightarrow> string \<Rightarrow> attempt_type \<Rightarrow> string \<Rightarrow> result_class \<Rightarrow> string option \<Rightarrow> failure_evidence option \<Rightarrow>
     string option \<Rightarrow> 'a payment_db_scheme \<Rightarrow> lifecycle_error + settle_answer \<times> 'a payment_db_scheme" where
  "settleAttemptInTx now p d t corr result reference evidence note db =
     on_ok (if result \<noteq> R_Success then assertNoInFlightOperationInTx now p d db else Inr ()) (\<lambda>_.
       case find (is_identity p d t corr) (pd_attempts db) of
         None \<Rightarrow> Inr (SettleMissing, db)
       | Some row \<Rightarrow>
           if pa_result row = R_Success then Inr (AlreadyTerminal, db)
           else if pa_result row = R_PermanentFail \<and> result \<noteq> R_Success then Inr (AlreadyTerminal, db)
           else on_ok (update_attempts now None (is_identity p d t corr)
                  (\<lambda>r. r\<lparr>pa_result := result,
                     pa_dispatch := (if result = R_Success \<or> result = R_PermanentFail then DS_Responded else pa_dispatch r),
                     pa_reference := (case reference of None \<Rightarrow> pa_reference r | Some x \<Rightarrow> Some x),
                     pa_note := (case note of None \<Rightarrow> pa_note r | Some x \<Rightarrow> Some x),
                     pa_evidence := (if result = R_PermanentFail
                        then (case evidence of None \<Rightarrow> pa_evidence r | Some x \<Rightarrow> Some x) else pa_evidence r)\<rparr>) db) (\<lambda>(n, db').
                Inr (Settled, db')))"

section \<open>Minting an identity\<close>

record admitted_states =
  ad_money :: "money_state list"
  ad_buyer :: "buyer_state list option"

definition admits :: "admitted_states \<Rightarrow> participant \<Rightarrow> bool" where
  "admits a s \<longleftrightarrow> List.member (ad_money a) (pt_money s)
     \<and> (case ad_buyer a of None \<Rightarrow> True | Some bs \<Rightarrow> List.member bs (pt_buyer s))"

fun buyer_name :: "buyer_state \<Rightarrow> string" where
  "buyer_name B_NotJoined = ''NotJoined''"
| "buyer_name B_JoinedAuthorized = ''JoinedAuthorized''"
| "buyer_name B_LockedIn = ''LockedIn''"
| "buyer_name B_ChargingAttempt = ''ChargingAttempt''"
| "buyer_name B_ChargedSuccess = ''ChargedSuccess''"
| "buyer_name B_ChargeFailedCompletion = ''ChargeFailedCompletion''"
| "buyer_name B_Recovered = ''Recovered''"
| "buyer_name B_Dropped = ''Dropped''"
| "buyer_name B_DealCompleted = ''DealCompleted''"
| "buyer_name B_DealFailed = ''DealFailed''"

fun money_name :: "money_state \<Rightarrow> string" where
  "money_name M_NoFinancial = ''NoFinancial''"
| "money_name M_AuthHeld = ''AuthHeld''"
| "money_name M_AuthLocked = ''AuthLocked''"
| "money_name M_ChargeAttempt = ''ChargeAttempt''"
| "money_name M_ChargedSuccess = ''ChargedSuccess''"
| "money_name M_ChargeFailedRecovery = ''ChargeFailedRecovery''"
| "money_name M_RecoveredCharge = ''RecoveredCharge''"
| "money_name M_AuthReleased = ''AuthReleased''"
| "money_name M_Refunded = ''Refunded''"

definition state_changed_reason :: "participant option \<Rightarrow> string" where
  "state_changed_reason state = ''participant_state_changed:'' @
     (case state of None \<Rightarrow> ''missing/missing'' | Some s \<Rightarrow> buyer_name (pt_buyer s) @ ''/'' @ money_name (pt_money s))"

datatype begin_answer =
    BeginFresh string nat
  | BeginReuse string nat
  | BeginUnresolved string result_class dispatch_state nat
  | BeginInFlight string "dispatch_owner option"
  | BeginBlocked string attempt_type string result_class
  | BeginFenced string fence
  | BeginStateChanged "participant option" "(attempt_type \<times> string) list"

text \<open>The row of \<open>siton.participants\<close> for both keys.\<close>

definition participant_of :: "string \<Rightarrow> string \<Rightarrow> 'a lifecycle_db_scheme \<Rightarrow> participant option" where
  "participant_of p d db =
     (case ld_participants db p of None \<Rightarrow> None | Some s \<Rightarrow> if pt_deal s = d then Some s else None)"

definition conflicting_types :: "attempt_type \<Rightarrow> attempt_type list" where
  "conflicting_types t =
     (if t = A_Reauthorize then []
      else if capture_side t then [A_Release] else [A_ChargeStart, A_Recovery])"

text \<open>The rail that blocks the new operation, with the reason.\<close>

definition find_or :: "'b option \<Rightarrow> 'b option \<Rightarrow> 'b option" where
  "find_or a b = (case a of None \<Rightarrow> b | Some x \<Rightarrow> Some x)"

definition begin_blocking :: "attempt_type \<Rightarrow> attempt_row list \<Rightarrow> (attempt_row \<times> string) option" where
  "begin_blocking t rows =
     (let captureSide = filter (\<lambda>r. capture_side (pa_type r)) rows;
          releaseConflict = (if capture_side t
            then find_or (find (is_result R_Success A_Release) rows) (find (is_result R_Unknown A_Release) rows) else None);
          unresolvedReauthorization = (if t \<noteq> A_Reauthorize then find (is_result R_Unknown A_Reauthorize) rows else None);
          reauthorizationBlockedByCapture = (if t = A_Reauthorize
            then find (\<lambda>r. pa_result r = R_Unknown) captureSide else None)
      in if unresolvedReauthorization \<noteq> None \<and> (capture_side t \<or> t = A_Release)
         then Some (the unresolvedReauthorization,
                (if t = A_Release then ''release'' else ''capture'') @ ''_blocked_by_unresolved_reauthorization'')
         else case reauthorizationBlockedByCapture of
             Some r \<Rightarrow> Some (r, ''reauthorization_blocked_by_unresolved_capture'')
           | None \<Rightarrow>
               (case releaseConflict of
                  Some r \<Rightarrow> Some (r, if pa_result r = R_Success then ''capture_blocked_by_released_authorization''
                                  else ''capture_blocked_by_unresolved_release'')
                | None \<Rightarrow>
                    if t = A_Recovery
                    then map_option (\<lambda>r. (r, ''recovery_blocked_by_unresolved_or_executed_capture''))
                      (find (\<lambda>r. is_result R_Unknown A_ChargeStart r \<or> is_result R_Success A_ChargeStart r) rows)
                    else if t = A_Refund \<or> t = A_CancelRefund
                    then map_option (\<lambda>r. (r, ''refund_blocked_by_unresolved_capture''))
                      (find (\<lambda>r. pa_result r = R_Unknown) captureSide)
                    else if t = A_Release
                    then map_option (\<lambda>r. (r, if pa_result r = R_Success then ''release_blocked_by_captured_money''
                             else ''release_blocked_by_unresolved_capture''))
                      (find_or (find (\<lambda>r. pa_result r = R_Unknown) captureSide)
                               (find (\<lambda>r. pa_result r = R_Success) captureSide))
                    else None))"

text \<open>The same-type identity that is unresolved, the newest first.\<close>

definition unresolved_same_type :: "attempt_type \<Rightarrow> attempt_row list \<Rightarrow> attempt_row option" where
  "unresolved_same_type t rows =
     find (\<lambda>r. pa_result r = R_Unknown \<or> (pa_result r = R_Success \<and> t \<noteq> A_Reauthorize))
       (rev (filter (\<lambda>r. pa_type r = t) rows))"

definition mint_or_resume ::
    "int \<Rightarrow> string \<Rightarrow> string \<Rightarrow> attempt_type \<Rightarrow> (nat \<Rightarrow> string) \<Rightarrow> 'a payment_db_scheme \<Rightarrow>
     lifecycle_error + begin_answer \<times> 'a payment_db_scheme" where
  "mint_or_resume now p d t identity db =
     (let rows = loadRows p d db; sameType = filter (\<lambda>r. pa_type r = t) rows; n = length sameType
      in case begin_blocking t rows of
           Some (r, reason) \<Rightarrow> Inr (BeginBlocked reason (pa_type r) (pa_correlation r) (pa_result r), db)
         | None \<Rightarrow>
             (case (if t = A_Recovery \<or> t = A_Release then payment_capture_settlement_fence now p d db else None) of
                Some f \<Rightarrow> Inr (BeginFenced (type_name t @ (case f of FencedForever \<Rightarrow> ''_fenced_negative_finality_unproven''
                              | FencedUntil u \<Rightarrow> ''_fenced_by_settlement_horizon'')) f, db)
              | None \<Rightarrow>
                  (case unresolved_same_type t rows of
                     Some r \<Rightarrow>
                       Inr (if pa_result r = R_Unknown \<and> pa_dispatch r = DS_Dispatching
                               \<and> payment_operation_in_flight now db (pa_owner r)
                            then BeginInFlight (pa_correlation r) (pa_owner r)
                            else if neverDispatched r then BeginReuse (pa_correlation r) n
                            else BeginUnresolved (pa_correlation r) (pa_result r) (pa_dispatch r) n, db)
                   | None \<Rightarrow>
                       (let corr = identity (n + 1)
                        in on_ok (insert_attempt now (new_attempt now p d t corr) db) (\<lambda>db'.
                             Inr (BeginFresh corr (n + 1), db'))))))"

definition beginProviderAttempt ::
    "int \<Rightarrow> string \<Rightarrow> string \<Rightarrow> attempt_type \<Rightarrow> (nat \<Rightarrow> string) \<Rightarrow> admitted_states option \<Rightarrow> 'a payment_db_scheme \<Rightarrow>
     lifecycle_error + begin_answer \<times> 'a payment_db_scheme" where
  "beginProviderAttempt now p d t identity admitted db =
     (let state = participant_of p d db;
          admitted_now = (case admitted of None \<Rightarrow> True
            | Some a \<Rightarrow> (case state of None \<Rightarrow> False | Some s \<Rightarrow> admits a s))
      in if \<not> admitted_now
         then on_ok (retireNeverDispatchedInTx now p d [t] (state_changed_reason state) db) (\<lambda>(retired, db').
                Inr (BeginStateChanged state retired, db'))
         else on_ok (retireNeverDispatchedInTx now p d (conflicting_types t) (''superseded_by_'' @ type_name t) db) (\<lambda>(superseded, db').
                mint_or_resume now p d t identity db'))"

section \<open>Arming and settling by the dispatching owner\<close>

datatype arm_answer =
    Armed | ArmLeaseLost | ParticipantStateChanged | DealPhaseClosed | InFlightElsewhere | ResolvedElsewhere

record deal_gate =
  dg_states :: "deal_state list"
  dg_require_open_window :: bool

record arm_args =
  ar_participant :: string
  ar_deal :: string
  ar_type :: attempt_type
  ar_correlation :: string
  ar_event :: string
  ar_generation :: "int option"
  ar_worker :: string
  ar_min_lease_ms :: int
  ar_money_states :: "money_state list"
  ar_buyer_states :: "buyer_state list option"
  ar_reference :: "string option"
  ar_horizon_ms :: "int option"
  ar_authoritative :: "bool option"
  ar_gate :: "deal_gate option"

definition gate_open :: "int \<Rightarrow> string \<Rightarrow> deal_gate \<Rightarrow> 'a payment_db_scheme \<Rightarrow> bool" where
  "gate_open now d gate db =
     (case ld_deals db d of
        None \<Rightarrow> False
      | Some s \<Rightarrow> List.member (dg_states gate) s
          \<and> (dg_require_open_window gate \<longrightarrow> (case pd_window db d of None \<Rightarrow> False | Some t \<Rightarrow> now < t)))"

definition horizon_parameter :: "int option \<Rightarrow> int option" where
  "horizon_parameter ms = (case ms of None \<Rightarrow> None | Some m \<Rightarrow> if 0 < m then Some m else None)"

definition armed_row :: "int \<Rightarrow> arm_args \<Rightarrow> dispatch_owner \<Rightarrow> attempt_row \<Rightarrow> attempt_row" where
  "armed_row now args owner r =
     r\<lparr>pa_dispatch := DS_Dispatching, pa_owner := Some owner, pa_dispatched_at := Some now,
       pa_reference := (case ar_reference args of None \<Rightarrow> pa_reference r | Some x \<Rightarrow> Some x), pa_note := None,
       pa_horizon := (case horizon_parameter (ar_horizon_ms args) of
          None \<Rightarrow> pa_horizon r
        | Some ms \<Rightarrow> Some (case pa_horizon r of None \<Rightarrow> now + max ms 0 | Some h \<Rightarrow> max h (now + max ms 0))),
       pa_authoritative := (case ar_authoritative args of
          None \<Rightarrow> pa_authoritative r
        | Some a \<Rightarrow> Some ((case pa_authoritative r of None \<Rightarrow> a | Some b \<Rightarrow> b) \<and> a))\<rparr>"

definition armable :: "(dispatch_owner option \<Rightarrow> bool) \<Rightarrow> arm_args \<Rightarrow> dispatch_owner \<Rightarrow> attempt_row \<Rightarrow> bool" where
  "armable in_flight args owner r \<longleftrightarrow>
     is_identity (ar_participant args) (ar_deal args) (ar_type args) (ar_correlation args) r \<and> pa_result r = R_Unknown
     \<and> \<not> (pa_dispatch r = DS_Dispatching \<and> pa_owner r \<noteq> Some owner \<and> in_flight (pa_owner r))"

definition lease_for_io :: "int \<Rightarrow> arm_args \<Rightarrow> int \<Rightarrow> 'a lifecycle_db_scheme \<Rightarrow> bool" where
  "lease_for_io now args g db \<longleftrightarrow>
     list_ex (\<lambda>ev. ob_id ev = ar_event args \<and> ob_lease_generation ev = g \<and> ob_status ev = Processing
        \<and> ob_worker_id ev = Some (ar_worker args) \<and> lease_live (now + max 0 (ar_min_lease_ms args)) ev)
       (odb_events (ld_outbox db))"

definition armProviderDispatch ::
    "int \<Rightarrow> arm_args \<Rightarrow> 'a payment_db_scheme \<Rightarrow> lifecycle_error + arm_answer \<times> 'a payment_db_scheme" where
  "armProviderDispatch now args db =
     (case ar_generation args of
        None \<Rightarrow> Inr (ArmLeaseLost, db)
      | Some g \<Rightarrow>
          if g < 1 then Inr (ArmLeaseLost, db)
          else if \<not> lease_for_io now args g db then Inr (ArmLeaseLost, db)
          else if (case ar_gate args of None \<Rightarrow> False | Some gate \<Rightarrow> \<not> gate_open now (ar_deal args) gate db)
          then Inr (DealPhaseClosed, db)
          else if (case participant_of (ar_participant args) (ar_deal args) db of
                     None \<Rightarrow> True
                   | Some s \<Rightarrow> \<not> admits \<lparr>ad_money = ar_money_states args, ad_buyer = ar_buyer_states args\<rparr> s)
          then Inr (ParticipantStateChanged, db)
          else on_ok (update_attempts now (Some (ar_event args, g))
                 (armable (payment_operation_in_flight now db) args (ar_event args, g))
                 (armed_row now args (ar_event args, g)) db) (\<lambda>(n, db').
               if n = 1 then Inr (Armed, db')
               else case find (is_identity (ar_participant args) (ar_deal args) (ar_type args) (ar_correlation args)) (pd_attempts db') of
                   None \<Rightarrow> Inr (ResolvedElsewhere, db')
                 | Some r \<Rightarrow> Inr (if pa_result r \<noteq> R_Unknown then ResolvedElsewhere else InFlightElsewhere, db')))"

datatype dispatch_outcome = OutSuccess | OutPermanentFail | OutUnknown | OutPreDispatchFailure

datatype settle_dispatch_answer = DispatchSettled | ForeignOwner | DispatchMissing

definition ownerSetting :: "dispatch_owner \<Rightarrow> dispatch_owner option" where
  "ownerSetting owner = (if fst owner = '''' then None else Some owner)"

definition classifySettleRefusal :: "string \<Rightarrow> string \<Rightarrow> attempt_type \<Rightarrow> string \<Rightarrow> dispatch_owner \<Rightarrow> 'a payment_db_scheme \<Rightarrow> settle_dispatch_answer" where
  "classifySettleRefusal p d t corr owner db =
     (case find (is_identity p d t corr) (pd_attempts db) of
        None \<Rightarrow> DispatchMissing
      | Some r \<Rightarrow>
          if pa_result r = R_Success \<or> pa_result r = R_PermanentFail then DispatchSettled
          else if pa_owner r = Some owner \<or> (pa_owner r = None \<and> owner = ('''', 0)) then DispatchSettled
          else ForeignOwner)"

definition outcome_result :: "dispatch_outcome \<Rightarrow> result_class" where
  "outcome_result outcome =
     (case outcome of OutSuccess \<Rightarrow> R_Success | OutPermanentFail \<Rightarrow> R_PermanentFail | _ \<Rightarrow> R_Unknown)"

definition settled_row :: "result_class \<Rightarrow> string option \<Rightarrow> string option \<Rightarrow> attempt_row \<Rightarrow> attempt_row" where
  "settled_row result reference note r =
     r\<lparr>pa_result := (if pa_result r = R_Success then R_Success
          else if pa_result r = R_PermanentFail \<and> result \<noteq> R_Success then R_PermanentFail else result),
       pa_dispatch := DS_Responded,
       pa_reference := (case reference of None \<Rightarrow> pa_reference r | Some x \<Rightarrow> Some x),
       pa_note := (case note of None \<Rightarrow> pa_note r | Some x \<Rightarrow> Some x),
       pa_evidence := (if result = R_PermanentFail then Some EV_DispatchResponse else pa_evidence r)\<rparr>"

definition settleProviderDispatch ::
    "int \<Rightarrow> string \<Rightarrow> string \<Rightarrow> attempt_type \<Rightarrow> string \<Rightarrow> dispatch_owner \<Rightarrow> dispatch_outcome \<Rightarrow> string option \<Rightarrow> string option \<Rightarrow>
     ('a payment_db_scheme \<Rightarrow> lifecycle_error + 'a payment_db_scheme) option \<Rightarrow> 'a payment_db_scheme \<Rightarrow>
     lifecycle_error + settle_dispatch_answer \<times> 'a payment_db_scheme" where
  "settleProviderDispatch now p d t corr owner outcome reference note inside db =
     (if outcome = OutPreDispatchFailure
      then on_ok (update_attempts now (ownerSetting owner)
             (\<lambda>r. is_identity p d t corr r \<and> pa_result r = R_Unknown \<and> pa_dispatch r = DS_Dispatching \<and> pa_owner r = Some owner)
             (\<lambda>r. r\<lparr>pa_dispatch := DS_Recorded, pa_owner := None, pa_dispatched_at := None,
                pa_note := (case note of None \<Rightarrow> Some ''pre_dispatch_failure'' | Some x \<Rightarrow> Some x)\<rparr>) db) (\<lambda>(n, db').
           Inr (if n = 1 then DispatchSettled else classifySettleRefusal p d t corr owner db', db'))
      else on_ok (update_attempts now (ownerSetting owner)
             (\<lambda>r. is_identity p d t corr r \<and> (outcome = OutSuccess \<or> pa_owner r = None \<or> pa_owner r = Some owner))
             (settled_row (outcome_result outcome) reference note) db) (\<lambda>(n, db').
           if n = 1
           then on_ok (case inside of None \<Rightarrow> Inr db' | Some body \<Rightarrow> body db') (\<lambda>db''. Inr (DispatchSettled, db''))
           else Inr (classifySettleRefusal p d t corr owner db', db')))"

definition extendSettlementHorizon ::
    "int \<Rightarrow> string \<Rightarrow> string \<Rightarrow> attempt_type \<Rightarrow> string \<Rightarrow> int \<Rightarrow> 'a payment_db_scheme \<Rightarrow>
     lifecycle_error + bool \<times> 'a payment_db_scheme" where
  "extendSettlementHorizon now p d t corr ms db =
     (if ms \<le> 0 then Inr (False, db)
      else on_ok (update_attempts now None (is_identity p d t corr)
             (\<lambda>r. r\<lparr>pa_horizon := Some (case pa_horizon r of None \<Rightarrow> now + ms | Some h \<Rightarrow> max h (now + ms))\<rparr>) db) (\<lambda>(n, db').
           Inr (n = 1, db')))"

end
