(* ===== verification/AttemptRuns.thy ===== *)
theory AttemptRuns
  imports PaymentAttempts
begin

text \<open>
  What the operations of \<open>PaymentAttempts\<close> keep: how one row may evolve, what a foreign writer may do to a
  request in flight, and the invariants of the table over runs of any workers.
\<close>

section \<open>How a row evolves\<close>

definition same_identity :: "attempt_row \<Rightarrow> attempt_row \<Rightarrow> bool" where
  "same_identity r r' \<longleftrightarrow> pa_participant r' = pa_participant r \<and> pa_deal r' = pa_deal r \<and> pa_type r' = pa_type r
     \<and> pa_correlation r' = pa_correlation r \<and> pa_created_at r' = pa_created_at r"

definition trust_kept :: "attempt_row \<Rightarrow> attempt_row \<Rightarrow> bool" where
  "trust_kept r r' \<longleftrightarrow> (pa_authoritative r = Some False \<longrightarrow> pa_authoritative r' = Some False)"

definition attempt_step :: "attempt_row \<Rightarrow> attempt_row \<Rightarrow> bool" where
  "attempt_step r r' \<longleftrightarrow> same_identity r r'
     \<and> (pa_result r = R_Success \<longrightarrow> pa_result r' = R_Success)
     \<and> (pa_result r = R_PermanentFail \<longrightarrow> pa_result r' = R_PermanentFail \<or> pa_result r' = R_Success)
     \<and> (\<forall>h. pa_horizon r = Some h \<longrightarrow> (\<exists>h'. pa_horizon r' = Some h' \<and> h \<le> h'))
     \<and> (pa_evidence r = Some EV_DispatchResponse \<longrightarrow> pa_evidence r' = Some EV_DispatchResponse)
     \<and> trust_kept r r'"

lemma same_identity_refl [simp]: "same_identity r r"
  by (simp add: same_identity_def)

lemma same_identity_trans: "same_identity a b \<Longrightarrow> same_identity b c \<Longrightarrow> same_identity a c"
  by (simp add: same_identity_def)

lemma attempt_step_refl [simp]: "attempt_step r r"
  by (simp add: attempt_step_def trust_kept_def)

lemma attempt_step_trans:
  assumes "attempt_step a b" and "attempt_step b c"
  shows "attempt_step a c"
proof -
  have "same_identity a c" using assms same_identity_trans [of a b c] by (simp add: attempt_step_def)
  moreover have "\<exists>h'. pa_horizon c = Some h' \<and> h \<le> h'" if h: "pa_horizon a = Some h" for h
  proof -
    obtain h1 where h1: "pa_horizon b = Some h1" "h \<le> h1" using assms(1) h by (auto simp: attempt_step_def)
    obtain h2 where h2: "pa_horizon c = Some h2" "h1 \<le> h2" using assms(2) h1(1) by (auto simp: attempt_step_def)
    with h1 show ?thesis by auto
  qed
  moreover have "trust_kept a c" using assms by (simp add: attempt_step_def trust_kept_def)
  moreover have "pa_result a = R_Success \<Longrightarrow> pa_result c = R_Success"
    and "pa_result a = R_PermanentFail \<Longrightarrow> pa_result c = R_PermanentFail \<or> pa_result c = R_Success"
    and "pa_evidence a = Some EV_DispatchResponse \<Longrightarrow> pa_evidence c = Some EV_DispatchResponse"
    using assms by (auto simp: attempt_step_def)
  ultimately show ?thesis by (simp add: attempt_step_def)
qed

definition foreign_write :: "(dispatch_owner option \<Rightarrow> bool) \<Rightarrow> dispatch_owner option \<Rightarrow> attempt_row \<Rightarrow> bool" where
  "foreign_write fl s old \<longleftrightarrow> pa_dispatch old = DS_Dispatching \<and> fl (pa_owner old) \<and> s \<noteq> pa_owner old"

lemma guard_lifecycle_Inr:
  assumes "guard_lifecycle fl s old new = Inr r"
  shows "(r = new \<or> r = new\<lparr>pa_dispatch := DS_Responded\<rparr>)
    \<and> (pa_result old = R_Success \<longrightarrow> pa_result new = R_Success)
    \<and> (pa_result old = R_PermanentFail \<longrightarrow> pa_result new = R_PermanentFail \<or> pa_result new = R_Success)
    \<and> (foreign_write fl s old \<longrightarrow> pa_result new = R_Success)"
  using assms unfolding guard_lifecycle_def foreign_write_def
  by (cases "pa_result new"; cases "pa_result old"; simp split: if_split_asm)

lemma guard_horizon_keeps [simp]:
  "pa_result (guard_horizon old new) = pa_result new"
  "pa_dispatch (guard_horizon old new) = pa_dispatch new"
  "pa_owner (guard_horizon old new) = pa_owner new"
  "same_identity r (guard_horizon old new) = same_identity r new"
  by (simp_all add: guard_horizon_def same_identity_def)

lemma guard_horizon_step:
  "(pa_horizon old = Some h \<longrightarrow> (\<exists>h'. pa_horizon (guard_horizon old new) = Some h' \<and> h \<le> h'))
   \<and> (pa_evidence old = Some EV_DispatchResponse \<longrightarrow> pa_evidence (guard_horizon old new) = Some EV_DispatchResponse)"
  by (auto simp: guard_horizon_def split: option.splits)

lemma update_guard_step:
  assumes "update_guard fl s old new = Inr r" and "same_identity old new" and "trust_kept old new"
  shows "attempt_step old r \<and> (foreign_write fl s old \<longrightarrow> pa_result r = R_Success)"
proof -
  obtain m where m: "guard_lifecycle fl s old new = Inr m" and r: "r = guard_horizon old m"
    using assms(1) unfolding update_guard_def by (auto elim!: on_ok_InrE)
  note g = guard_lifecycle_Inr [OF m]
  have same: "same_identity old m" "pa_result m = pa_result new" "trust_kept old m"
    using g assms(2,3) by (auto simp: same_identity_def trust_kept_def)
  have "trust_kept old r" using same(3) by (simp add: r guard_horizon_def trust_kept_def)
  then show ?thesis unfolding attempt_step_def r using g same guard_horizon_step [of old _ m] by auto
qed

section \<open>How the table evolves\<close>

definition untouched_in_flight :: "(dispatch_owner option \<Rightarrow> bool) \<Rightarrow> dispatch_owner option \<Rightarrow> attempt_row \<Rightarrow> attempt_row \<Rightarrow> bool" where
  "untouched_in_flight fl s r r' \<longleftrightarrow> attempt_step r r' \<and>
     (foreign_write fl s r \<longrightarrow> r' = r \<or> pa_result r' = R_Success)"

lemma untouched_refl [simp]: "untouched_in_flight fl s r r"
  by (simp add: untouched_in_flight_def)

lemma update_rows_step:
  assumes "update_rows (update_guard fl s) P f rows = Inr (n, rows')"
    and "\<And>r. P r \<Longrightarrow> same_identity r (f r) \<and> trust_kept r (f r)"
  shows "list_all2 (untouched_in_flight fl s) rows rows' \<and> n = length (filter P rows)"
  using assms(1)
proof (induction rows arbitrary: n rows')
  case (Cons r rs)
  obtain r' m rs' where one: "(if P r then update_guard fl s r (f r) else Inr r) = Inr r'"
    and rest: "update_rows (update_guard fl s) P f rs = Inr (m, rs')"
    and out: "n = (if P r then Suc m else m)" "rows' = r' # rs'"
    using Cons.prems by (auto elim!: on_ok_InrE)
  have "untouched_in_flight fl s r r'"
  proof (cases "P r")
    case True
    then have "update_guard fl s r (f r) = Inr r'" using one by simp
    from update_guard_step [OF this] assms(2) [OF True] show ?thesis by (simp add: untouched_in_flight_def)
  qed (use one in simp)
  then show ?case using Cons.IH [OF rest] out by simp
qed simp

text \<open>Rows are only appended; the first ones evolve.\<close>

definition table_step :: "(dispatch_owner option \<Rightarrow> bool) \<Rightarrow> dispatch_owner option \<Rightarrow> attempt_row list \<Rightarrow> attempt_row list \<Rightarrow> bool" where
  "table_step fl s rows rows' \<longleftrightarrow>
     (\<exists>old new. rows' = old @ new \<and> list_all2 (untouched_in_flight fl s) rows old)"

lemma table_step_refl [simp]: "table_step fl s rows rows"
  unfolding table_step_def by (intro exI [of _ rows] exI [of _ "[]"]) (simp add: list_all2_refl)

lemma table_step_append: "table_step fl s rows (rows @ [x])"
  unfolding table_step_def by (intro exI [of _ rows] exI [of _ "[x]"]) (simp add: list_all2_refl)

lemma list_all2_image: "list_all2 Q xs ys \<Longrightarrow> x \<in> set xs \<Longrightarrow> \<exists>y \<in> set ys. Q x y"
  by (induction rule: list_all2_induct) auto

lemma table_step_row:
  assumes "table_step fl s rows rows'" and "r \<in> set rows"
  shows "\<exists>r' \<in> set rows'. untouched_in_flight fl s r r'"
  using assms list_all2_image [of "untouched_in_flight fl s" rows _ r] unfolding table_step_def by fastforce


section \<open>Operations\<close>

datatype attempt_op =
    OpRecord string string attempt_type string
  | OpRetire string string "attempt_type list" string
  | OpSettleAny string string attempt_type string result_class "string option" "failure_evidence option" "string option"
  | OpBegin string string attempt_type "nat \<Rightarrow> string" "admitted_states option"
  | OpArm arm_args
  | OpSettleDispatch string string attempt_type string dispatch_owner dispatch_outcome "string option" "string option"
  | OpExtend string string attempt_type string int

text \<open>The dispatch owner a transaction names itself, which the update trigger compares.\<close>

fun op_setting :: "attempt_op \<Rightarrow> dispatch_owner option" where
  "op_setting (OpArm args) = map_option (\<lambda>g. (ar_event args, g)) (ar_generation args)"
| "op_setting (OpSettleDispatch p d t corr owner outcome reference note) = ownerSetting owner"
| "op_setting _ = None"

definition committed_payment :: "'a payment_db_scheme \<Rightarrow> lifecycle_error + 'b \<times> 'a payment_db_scheme \<Rightarrow> 'a payment_db_scheme" where
  "committed_payment db r = (case r of Inl e \<Rightarrow> db | Inr (a, db') \<Rightarrow> db')"

fun attempt_exec :: "int \<Rightarrow> attempt_op \<Rightarrow> 'a payment_db_scheme \<Rightarrow> 'a payment_db_scheme" where
  "attempt_exec now (OpRecord p d t corr) db = (case recordAttemptBeforeIo now p d t corr db of Inl e \<Rightarrow> db | Inr db' \<Rightarrow> db')"
| "attempt_exec now (OpRetire p d types reason) db = committed_payment db (retireNeverDispatchedInTx now p d types reason db)"
| "attempt_exec now (OpSettleAny p d t corr result reference evidence note) db =
     committed_payment db (settleAttemptInTx now p d t corr result reference evidence note db)"
| "attempt_exec now (OpBegin p d t identity admitted) db =
     committed_payment db (beginProviderAttempt now p d t identity admitted db)"
| "attempt_exec now (OpArm args) db = committed_payment db (armProviderDispatch now args db)"
| "attempt_exec now (OpSettleDispatch p d t corr owner outcome reference note) db =
     committed_payment db (settleProviderDispatch now p d t corr owner outcome reference note None db)"
| "attempt_exec now (OpExtend p d t corr ms) db = committed_payment db (extendSettlementHorizon now p d t corr ms db)"

text \<open>The part of the database the operations leave alone, and the relation of the table before and after.\<close>

definition attempts_only :: "int \<Rightarrow> dispatch_owner option \<Rightarrow> 'a payment_db_scheme \<Rightarrow> 'a payment_db_scheme \<Rightarrow> bool" where
  "attempts_only now s db db' \<longleftrightarrow> (\<exists>rows. db' = db\<lparr>pd_attempts := rows\<rparr>)
     \<and> table_step (payment_operation_in_flight now db) s (pd_attempts db) (pd_attempts db')"

lemma attempts_only_refl [simp]: "attempts_only now s db db"
  unfolding attempts_only_def by (simp, rule exI [of _ "pd_attempts db"], simp)

lemma update_attempts_only:
  assumes "update_attempts now s P f db = Inr (n, db')"
    and "\<And>r. P r \<Longrightarrow> same_identity r (f r) \<and> trust_kept r (f r)"
  shows "attempts_only now s db db'" and "n = length (filter P (pd_attempts db))"
    and "list_all2 (untouched_in_flight (payment_operation_in_flight now db) s) (pd_attempts db) (pd_attempts db')"
proof -
  obtain rows where u: "update_rows (update_guard (payment_operation_in_flight now db) s) P f (pd_attempts db) = Inr (n, rows)"
    and db': "db' = db\<lparr>pd_attempts := rows\<rparr>"
    using assms(1) unfolding update_attempts_def by (auto elim!: on_ok_InrE)
  note step = update_rows_step [OF u assms(2)]
  then show "n = length (filter P (pd_attempts db))"
    and "list_all2 (untouched_in_flight (payment_operation_in_flight now db) s) (pd_attempts db) (pd_attempts db')"
    by (simp_all add: db')
  then show "attempts_only now s db db'" unfolding attempts_only_def table_step_def db' by force
qed

lemma insert_attempt_Inr:
  assumes "insert_attempt now new db = Inr db'"
  obtains (exists) "db' = db"
      "list_ex (is_identity (pa_participant new) (pa_deal new) (pa_type new) (pa_correlation new)) (pd_attempts db)"
    | (inserted) "db' = db\<lparr>pd_attempts := pd_attempts db @ [new]\<rparr>"
      "\<not> list_ex (is_identity (pa_participant new) (pa_deal new) (pa_type new) (pa_correlation new)) (pd_attempts db)"
      "enforce_charge_attempt_rate_limit now new db" "guard_eligibility new db = Inr ()"
      "guard_settlement_fence now new db = Inr ()"
  using assms unfolding insert_attempt_def by (auto elim!: on_ok_InrE split: if_splits)

lemma insert_attempts_only: "insert_attempt now new db = Inr db' \<Longrightarrow> attempts_only now s db db'"
  by (erule insert_attempt_Inr) (auto simp: attempts_only_def table_step_append)

lemmas row_updates = same_identity_def trust_kept_def settled_row_def armed_row_def

lemma retire_only:
  "retireNeverDispatchedInTx now p d types reason db = Inr (l, db') \<Longrightarrow> attempts_only now None db db'"
  unfolding retireNeverDispatchedInTx_def
  by (auto split: if_splits elim!: on_ok_InrE elim!: update_attempts_only(1) simp: row_updates)

lemma settle_any_only:
  "settleAttemptInTx now p d t corr result reference evidence note db = Inr (a, db') \<Longrightarrow> attempts_only now None db db'"
  unfolding settleAttemptInTx_def
  by (elim on_ok_InrE) (auto split: option.splits if_splits elim!: on_ok_InrE elim!: update_attempts_only(1) simp: row_updates)

lemma arm_only:
  "armProviderDispatch now args db = Inr (a, db') \<Longrightarrow> attempts_only now (op_setting (OpArm args)) db db'"
  unfolding armProviderDispatch_def
  by (auto split: option.splits if_splits elim!: on_ok_InrE elim!: update_attempts_only(1) simp: row_updates)

lemma settle_dispatch_only:
  "settleProviderDispatch now p d t corr owner outcome reference note None db = Inr (a, db') \<Longrightarrow>
   attempts_only now (ownerSetting owner) db db'"
  unfolding settleProviderDispatch_def
  by (auto split: if_splits elim!: on_ok_InrE elim!: update_attempts_only(1) simp: row_updates)

lemma extend_only: "extendSettlementHorizon now p d t corr ms db = Inr (b, db') \<Longrightarrow> attempts_only now None db db'"
  unfolding extendSettlementHorizon_def
  by (auto split: if_splits elim!: on_ok_InrE elim!: update_attempts_only(1) simp: row_updates)


lemma untouched_trans:
  "untouched_in_flight fl s a b \<Longrightarrow> untouched_in_flight fl s b c \<Longrightarrow> untouched_in_flight fl s a c"
  unfolding untouched_in_flight_def using attempt_step_trans [of a b c] by (auto simp: attempt_step_def)

lemma table_step_trans:
  assumes "table_step fl s a b" and "table_step fl s b c"
  shows "table_step fl s a c"
proof -
  obtain o1 n1 where b: "b = o1 @ n1" "list_all2 (untouched_in_flight fl s) a o1"
    using assms(1) unfolding table_step_def by blast
  obtain o2 n2 where c: "c = o2 @ n2" "list_all2 (untouched_in_flight fl s) b o2"
    using assms(2) unfolding table_step_def by blast
  obtain x y where o2: "o2 = x @ y" "list_all2 (untouched_in_flight fl s) o1 x"
    using c(2) unfolding b(1) by (auto simp: list_all2_append1)
  have "list_all2 (untouched_in_flight fl s) a x"
    by (rule list_all2_trans [OF untouched_trans b(2) o2(2)])
  then show ?thesis using c(1) o2(1) unfolding table_step_def by auto
qed

lemma in_flight_attempts [simp]:
  "payment_operation_in_flight now (db\<lparr>pd_attempts := rows\<rparr>) = payment_operation_in_flight now db"
  by (simp add: payment_operation_in_flight_def fun_eq_iff split: option.splits)

lemma attempts_only_trans: "attempts_only now s a b \<Longrightarrow> attempts_only now s b c \<Longrightarrow> attempts_only now s a c"
  unfolding attempts_only_def by (auto intro: table_step_trans)

lemma mint_only:
  "mint_or_resume now p d t identity db = Inr (a, db') \<Longrightarrow> attempts_only now s db db'"
  unfolding mint_or_resume_def Let_def
  by (auto split: option.splits elim!: on_ok_InrE insert_attempts_only)

lemma begin_only:
  "beginProviderAttempt now p d t identity admitted db = Inr (a, db') \<Longrightarrow> attempts_only now None db db'"
  unfolding beginProviderAttempt_def Let_def
  by (auto split: if_splits elim!: on_ok_InrE intro: retire_only attempts_only_trans [OF retire_only mint_only])

lemma exec_only: "attempts_only now (op_setting op) db (attempt_exec now op db)"
  by (cases op)
    (auto simp: committed_payment_def recordAttemptBeforeIo_def split: sum.splits
      intro: insert_attempts_only retire_only settle_any_only begin_only settle_dispatch_only extend_only
      arm_only [simplified])

text \<open>Runs: any workers, at any clock readings, while leases are claimed, lost and renewed in between.\<close>

inductive attempt_run :: "'a payment_db_scheme \<Rightarrow> 'a payment_db_scheme \<Rightarrow> bool" for db0 where
  begin_attempts: "attempt_run db0 db0"
| attempt: "attempt_run db0 db \<Longrightarrow> attempt_run db0 (attempt_exec now op db)"
| world: "attempt_run db0 db \<Longrightarrow> pd_attempts db' = pd_attempts db \<Longrightarrow> attempt_run db0 db'"

inductive_cases attempt_runE: "attempt_run db0 db"

lemma run_rows:
  "attempt_run db0 db \<Longrightarrow> \<exists>old new. pd_attempts db = old @ new \<and> list_all2 attempt_step (pd_attempts db0) old"
proof (induction rule: attempt_run.induct)
  case begin_attempts
  then show ?case by (intro exI [of _ "pd_attempts db0"] exI [of _ "[]"]) (simp add: list_all2_refl)
next
  case (attempt db now op)
  then obtain old new where on: "pd_attempts db = old @ new" "list_all2 attempt_step (pd_attempts db0) old" by blast
  obtain old2 new2 where on2: "pd_attempts (attempt_exec now op db) = old2 @ new2"
    "list_all2 (untouched_in_flight (payment_operation_in_flight now db) (op_setting op)) (pd_attempts db) old2"
    using exec_only [of now op db] unfolding attempts_only_def table_step_def by blast
  have "list_all2 attempt_step (pd_attempts db) old2"
    using on2(2) by (rule list_all2_mono) (simp add: untouched_in_flight_def)
  then obtain x y where xy: "old2 = x @ y" "list_all2 attempt_step old x"
    unfolding on(1) by (auto simp: list_all2_append1)
  have "list_all2 attempt_step (pd_attempts db0) x"
    by (rule list_all2_trans [OF attempt_step_trans on(2) xy(2)])
  then show ?case using on2(1) xy(1) by auto
qed auto

section \<open>Invariants of the table\<close>

lemma untouched_identity: "untouched_in_flight fl s r r' \<Longrightarrow> same_identity r r'"
  by (simp add: untouched_in_flight_def attempt_step_def)

text \<open>An invariant needs two laws only: rows that keep their identity keep it, and so does an admitted insert.\<close>

locale attempt_invariant =
  fixes Inv :: "attempt_row list \<Rightarrow> bool"
  assumes evolves: "list_all2 same_identity rows rows' \<Longrightarrow> Inv rows \<Longrightarrow> Inv rows'"
    and inserts: "insert_attempt now (new_attempt now p d t corr) (db :: 'a payment_db_scheme) = Inr db' \<Longrightarrow> Inv (pd_attempts db) \<Longrightarrow> Inv (pd_attempts db')"
begin

lemma update_keeps:
  assumes "update_attempts now s P f (db :: 'a payment_db_scheme) = Inr (n, db')"
    and "Inv (pd_attempts db)" and "\<And>r. P r \<Longrightarrow> same_identity r (f r) \<and> trust_kept r (f r)"
  shows "Inv (pd_attempts db')"
proof (rule evolves [OF _ assms(2)])
  show "list_all2 same_identity (pd_attempts db) (pd_attempts db')"
    by (rule list_all2_mono [OF update_attempts_only(3) [OF assms(1,3)] untouched_identity])
qed

lemma retire_keeps:
  "retireNeverDispatchedInTx now p d types reason (db :: 'a payment_db_scheme) = Inr (l, db') \<Longrightarrow>
   Inv (pd_attempts db) \<Longrightarrow> Inv (pd_attempts db')"
  unfolding retireNeverDispatchedInTx_def
  by (auto split: if_splits elim!: on_ok_InrE update_keeps simp: row_updates)

lemma begin_keeps:
  assumes "beginProviderAttempt now p d t identity admitted (db :: 'a payment_db_scheme) = Inr (a, db')"
    and "Inv (pd_attempts db)"
  shows "Inv (pd_attempts db')"
proof -
  have mint: "mint_or_resume now p d t identity dbx = Inr (b, dby) \<Longrightarrow> Inv (pd_attempts dbx) \<Longrightarrow> Inv (pd_attempts dby)"
    for dbx dby :: "'a payment_db_scheme" and b
    unfolding mint_or_resume_def Let_def by (auto split: option.splits elim!: on_ok_InrE dest: inserts)
  show ?thesis using assms unfolding beginProviderAttempt_def Let_def
    by (auto split: if_splits elim!: on_ok_InrE dest: retire_keeps mint)
qed

lemma attempt_exec_keeps:
  assumes "Inv (pd_attempts (db :: 'a payment_db_scheme))"
  shows "Inv (pd_attempts (attempt_exec now op db))"
proof (cases op)
  case (OpRecord p d t corr)
  then show ?thesis using assms by (auto simp: recordAttemptBeforeIo_def split: sum.splits dest: inserts)
next
  case (OpSettleAny p d t corr result reference evidence remark)
  then show ?thesis using assms
    by (auto simp: committed_payment_def settleAttemptInTx_def split: sum.splits option.splits if_splits
        elim!: on_ok_InrE update_keeps simp: row_updates)
next
  case (OpArm args)
  then show ?thesis using assms
    by (auto simp: committed_payment_def armProviderDispatch_def split: sum.splits option.splits if_splits
        elim!: on_ok_InrE update_keeps simp: row_updates)
next
  case (OpSettleDispatch p d t corr owner outcome reference remark)
  then show ?thesis using assms
    by (auto simp: committed_payment_def settleProviderDispatch_def split: sum.splits if_splits
        elim!: on_ok_InrE update_keeps simp: row_updates)
next
  case (OpExtend p d t corr ms)
  then show ?thesis using assms
    by (auto simp: committed_payment_def extendSettlementHorizon_def split: sum.splits if_splits
        elim!: on_ok_InrE update_keeps simp: row_updates)
qed (use assms in \<open>auto simp: committed_payment_def split: sum.splits dest: retire_keeps begin_keeps\<close>)

lemma attempt_run_keeps: "attempt_run (db0 :: 'a payment_db_scheme) db \<Longrightarrow> Inv (pd_attempts db0) \<Longrightarrow> Inv (pd_attempts db)"
  by (induction rule: attempt_run.induct) (simp_all add: attempt_exec_keeps)

end

definition identities_unique :: "attempt_row list \<Rightarrow> bool" where
  "identities_unique rows \<longleftrightarrow> distinct (map (\<lambda>r. (pa_participant r, pa_deal r, pa_type r, pa_correlation r)) rows)"

text \<open>At most three charge or recovery identities of an obligation in any half hour.\<close>

definition in_window :: "string \<Rightarrow> string \<Rightarrow> int \<Rightarrow> attempt_row \<Rightarrow> bool" where
  "in_window p d s r \<longleftrightarrow> of_obligation p d r \<and> capture_side (pa_type r) \<and> s < pa_created_at r \<and> pa_created_at r \<le> s + 1800000"

definition charges_capped :: "attempt_row list \<Rightarrow> bool" where
  "charges_capped rows \<longleftrightarrow> (\<forall>p d s. length (filter (in_window p d s) rows) \<le> 3)"

lemma map_same_identity:
  "list_all2 same_identity rows rows' \<Longrightarrow> (\<And>r r'. same_identity r r' \<Longrightarrow> g r' = g r) \<Longrightarrow> map g rows' = map g rows"
  by (induction rule: list_all2_induct) auto

lemma filter_same_identity:
  "list_all2 same_identity rows rows' \<Longrightarrow> (\<And>r r'. same_identity r r' \<Longrightarrow> P r' = P r) \<Longrightarrow>
   length (filter P rows') = length (filter P rows)"
  by (induction rule: list_all2_induct) auto

lemma unique_insert:
  assumes "insert_attempt now new db = Inr db'" and "identities_unique (pd_attempts db)"
  shows "identities_unique (pd_attempts db')"
  using assms(1)
proof (cases rule: insert_attempt_Inr)
  case inserted
  then show ?thesis using assms(2)
    by (auto simp: identities_unique_def list_ex_iff is_identity_def of_obligation_def)
qed (use assms(2) in simp)


lemma recent_rows:
  assumes "now \<le> s + 1800000"
  shows "length (filter (in_window p d s) rows) \<le>
    length (filter (\<lambda>r. capture_side (pa_type r) \<and> now - 1800000 < pa_created_at r) (filter (of_obligation p d) rows))"
proof -
  let ?recent = "\<lambda>r. of_obligation p d r \<and> capture_side (pa_type r) \<and> now - 1800000 < pa_created_at r"
  have "filter (in_window p d s) rows = filter (in_window p d s) (filter ?recent rows)"
    using assms by (auto simp: in_window_def intro!: filter_cong)
  then have "length (filter (in_window p d s) rows) \<le> length (filter ?recent rows)" by (metis length_filter_le)
  then show ?thesis by (simp add: conj_ac)
qed

lemma capped_insert:
  assumes "insert_attempt now (new_attempt now p d t corr) db = Inr db'" and "charges_capped (pd_attempts db)"
  shows "charges_capped (pd_attempts db')"
  using assms(1)
proof (cases rule: insert_attempt_Inr)
  case inserted
  let ?new = "new_attempt now p d t corr"
  show ?thesis unfolding charges_capped_def
  proof (intro allI)
    fix p' d' s
    have old: "length (filter (in_window p' d' s) (pd_attempts db)) \<le> 3" using assms(2) by (simp add: charges_capped_def)
    show "length (filter (in_window p' d' s) (pd_attempts db')) \<le> 3"
    proof (cases "in_window p' d' s ?new")
      case True
      then have new: "p' = p" "d' = d" "capture_side t" "now \<le> s + 1800000"
        by (simp_all add: in_window_def of_obligation_def new_attempt_def)
      have "length (filter (in_window p d s) (pd_attempts db)) < 3"
        using inserted(3) new(3) recent_rows [OF new(4), of p d "pd_attempts db"]
        by (simp add: enforce_charge_attempt_rate_limit_def new_attempt_def loadRows_def)
      then show ?thesis using inserted(1) True new(1,2) by simp
    qed (use old inserted(1) in simp)
  qed
qed (use assms(2) in simp)

interpretation unique_rows: attempt_invariant identities_unique
proof
  show "identities_unique rows'" if "list_all2 same_identity rows rows'" and "identities_unique rows" for rows rows'
  proof -
    have "map (\<lambda>r. (pa_participant r, pa_deal r, pa_type r, pa_correlation r)) rows'
        = map (\<lambda>r. (pa_participant r, pa_deal r, pa_type r, pa_correlation r)) rows"
      by (rule map_same_identity [OF that(1)]) (simp add: same_identity_def)
    then show ?thesis using that(2) by (simp only: identities_unique_def)
  qed
qed (rule unique_insert)

interpretation capped_rows: attempt_invariant charges_capped
proof
  show "charges_capped rows'" if "list_all2 same_identity rows rows'" and "charges_capped rows" for rows rows'
  proof -
    have "length (filter (in_window p d s) rows') = length (filter (in_window p d s) rows)" for p d s
      by (rule filter_same_identity [OF that(1)]) (simp add: same_identity_def in_window_def of_obligation_def)
    then show ?thesis using that(2) by (simp add: charges_capped_def)
  qed
qed (rule capped_insert)

section \<open>Minting\<close>

lemma latest_fence_None [simp]: "latest_fence a b = None \<longleftrightarrow> a = None \<and> b = None"
  by (cases "(a, b)" rule: latest_fence.cases) auto

lemma no_fence: "payment_capture_settlement_fence now p d db = None \<longleftrightarrow> (\<forall>r \<in> set (loadRows p d db). fence_of now r = None)"
proof -
  have "foldr (\<lambda>r. latest_fence (fence_of now r)) rows None = None \<longleftrightarrow> (\<forall>r \<in> set rows. fence_of now r = None)" for rows
    by (induction rows) simp_all
  then show ?thesis by (simp add: payment_capture_settlement_fence_def)
qed

text \<open>An operation on record as a temporary failure, or as a definite one on evidence that excludes a capture.\<close>

definition money_excluded :: "int \<Rightarrow> attempt_row \<Rightarrow> bool" where
  "money_excluded now r \<longleftrightarrow> pa_result r = R_TemporaryFail
     \<or> (pa_result r = R_PermanentFail
        \<and> (pa_evidence r = Some EV_DispatchResponse \<or> pa_evidence r = Some EV_Operator
           \<or> (pa_authoritative r = Some True \<and> (\<exists>h. pa_horizon r = Some h \<and> h \<le> now))))"

lemma unfenced_excluded:
  assumes "fence_of now r = None" and "capture_side (pa_type r)"
    and "pa_result r \<noteq> R_Unknown" and "pa_result r \<noteq> R_Success"
  shows "money_excluded now r"
  using assms by (cases "pa_result r") (auto simp: fence_of_def unproven_failure_def money_excluded_def split: option.splits if_splits)

lemma find_or_None [simp]: "find_or a b = None \<longleftrightarrow> a = None \<and> b = None"
  by (cases a) (simp_all add: find_or_def)

lemma unresolved_None:
  "unresolved_same_type t rows = None \<longleftrightarrow>
   (\<forall>r \<in> set rows. pa_type r = t \<longrightarrow> pa_result r \<noteq> R_Unknown \<and> (pa_result r = R_Success \<longrightarrow> t = A_Reauthorize))"
  by (auto simp: unresolved_same_type_def find_None_iff)

lemma not_blocked:
  assumes "begin_blocking t rows = None"
  shows "(capture_side t \<or> t = A_Release \<longrightarrow> (\<forall>r \<in> set rows. \<not> is_result R_Unknown A_Reauthorize r))
    \<and> (capture_side t \<longrightarrow> (\<forall>r \<in> set rows. \<not> is_result R_Success A_Release r \<and> \<not> is_result R_Unknown A_Release r))
    \<and> (t = A_Recovery \<longrightarrow> (\<forall>r \<in> set rows. \<not> is_result R_Unknown A_ChargeStart r \<and> \<not> is_result R_Success A_ChargeStart r))
    \<and> (t = A_Refund \<or> t = A_CancelRefund \<or> t = A_Release \<longrightarrow>
        (\<forall>r \<in> set rows. capture_side (pa_type r) \<longrightarrow> pa_result r \<noteq> R_Unknown))
    \<and> (t = A_Release \<longrightarrow> (\<forall>r \<in> set rows. capture_side (pa_type r) \<longrightarrow> pa_result r \<noteq> R_Success))"
  using assms unfolding begin_blocking_def Let_def
  by (cases t) (auto simp: capture_side_def find_None_iff split: option.splits if_splits)

lemma mint_fresh:
  assumes "mint_or_resume now p d t identity db = Inr (BeginFresh corr n, db')"
  shows "begin_blocking t (loadRows p d db) = None \<and> unresolved_same_type t (loadRows p d db) = None
    \<and> (t = A_Recovery \<or> t = A_Release \<longrightarrow> payment_capture_settlement_fence now p d db = None)
    \<and> insert_attempt now (new_attempt now p d t corr) db = Inr db'"
  using assms unfolding mint_or_resume_def Let_def
  by (auto split: option.splits if_splits elim!: on_ok_InrE)

lemma new_attempt_keys [simp]:
  "pa_participant (new_attempt now p d t corr) = p" "pa_deal (new_attempt now p d t corr) = d"
  "pa_type (new_attempt now p d t corr) = t" "pa_correlation (new_attempt now p d t corr) = corr"
  by (simp_all add: new_attempt_def)

lemma insert_rows: "insert_attempt now new db = Inr db' \<Longrightarrow> pd_attempts db' = pd_attempts db \<or> pd_attempts db' = pd_attempts db @ [new]"
  by (erule insert_attempt_Inr) simp_all

lemma begin_fresh:
  assumes "beginProviderAttempt now p d t identity admitted db = Inr (BeginFresh corr n, db')"
  obtains db1 where "mint_or_resume now p d t identity db1 = Inr (BeginFresh corr n, db')"
  using assms unfolding beginProviderAttempt_def Let_def by (auto split: if_splits elim!: on_ok_InrE)

section \<open>Properties\<close>

lemma fresh_excludes:
  assumes "beginProviderAttempt now p d t identity admitted db = Inr (BeginFresh corr n, db')"
    and "t = A_Recovery \<or> t = A_Release" and "r \<in> set (loadRows p d db')"
    and "capture_side (pa_type r)" and "pa_type r \<noteq> t \<or> pa_correlation r \<noteq> corr"
  shows "fence_of now r = None \<and> pa_result r \<noteq> R_Unknown \<and> pa_result r \<noteq> R_Success"
proof -
  obtain db1 where "mint_or_resume now p d t identity db1 = Inr (BeginFresh corr n, db')"
    by (rule begin_fresh [OF assms(1)])
  note m = mint_fresh [OF this]
  then have i: "insert_attempt now (new_attempt now p d t corr) db1 = Inr db'" by blast
  have r: "r \<in> set (loadRows p d db1)"
    using assms(3,5) insert_rows [OF i] by (auto simp: loadRows_def)
  have "fence_of now r = None" using m assms(2) r by (auto simp: no_fence)
  moreover have "pa_result r \<noteq> R_Unknown \<and> pa_result r \<noteq> R_Success"
    using m not_blocked [of t "loadRows p d db1"] assms(2,4) r
    by (auto simp: unresolved_None is_result_def capture_side_def)
  ultimately show ?thesis by simp
qed

text \<open>C32: No second capture while the first is open: when a recovery capture or a release gets a new identity,
  every other capture-side operation of the obligation is on record either as a temporary failure, whether
  it was sent or not, or as a definite failure: by the provider's answer to the exact request, by an
  operator, or by a finality authority whose settlement horizon has passed.\<close>

theorem second_capture_needs_proof:
  assumes "beginProviderAttempt now p d t identity admitted db = Inr (BeginFresh corr n, db')"
    and "t = A_Recovery \<or> t = A_Release" and "r \<in> set (loadRows p d db')"
    and "capture_side (pa_type r)" and "pa_type r \<noteq> t \<or> pa_correlation r \<noteq> corr"
  shows "money_excluded now r"
  using fresh_excludes [OF assms] unfenced_excluded assms(4) by blast


text \<open>C33: The ledger of money operations is append-only truth: in every run of any workers, no row is lost, an
  identity keeps its keys, an executed operation stays executed, a definite failure changes only to
  executed, a settlement horizon never moves back, exact decline evidence is never downgraded and a
  finality authority that was recorded as absent is never granted later.\<close>

theorem attempt_truth_is_monotone:
  assumes "attempt_run db0 db"
  shows "\<exists>old new. pd_attempts db = old @ new \<and> list_all2 attempt_step (pd_attempts db0) old"
  by (rule run_rows [OF assms])

text \<open>No participant is charged in a loop: from any database that respects it, every run keeps at most three
  charge or recovery identities of an obligation within any thirty minutes, and no identity twice.\<close>

theorem charge_attempts_capped:
  assumes "attempt_run db0 db" and "charges_capped (pd_attempts db0)" and "identities_unique (pd_attempts db0)"
  shows "charges_capped (pd_attempts db) \<and> identities_unique (pd_attempts db)"
  using capped_rows.attempt_run_keeps [OF assms(1,2)] unique_rows.attempt_run_keeps [OF assms(1,3)] by simp

text \<open>A request in flight is fenced: while the job that dispatched a row holds a live lease, no operation of
  another worker or of a reconciler can settle it negatively, re-arm it, disarm it or change it in any
  way, short of recording that the provider executed it.\<close>

theorem in_flight_row_protected:
  assumes "r \<in> set (pd_attempts db)" and "pa_dispatch r = DS_Dispatching"
    and "payment_operation_in_flight now db (pa_owner r)" and "op_setting op \<noteq> pa_owner r"
  shows "\<exists>r' \<in> set (pd_attempts (attempt_exec now op db)). same_identity r r' \<and> (r' = r \<or> pa_result r' = R_Success)"
proof -
  have "table_step (payment_operation_in_flight now db) (op_setting op) (pd_attempts db) (pd_attempts (attempt_exec now op db))"
    using exec_only [of now op db] by (simp add: attempts_only_def)
  from table_step_row [OF this assms(1)] show ?thesis
    using assms(2-4) by (auto simp: untouched_in_flight_def foreign_write_def attempt_step_def)
qed


lemma update_rows_total:
  "(\<And>r. P r \<Longrightarrow> \<exists>r'. guard r (f r) = Inr r') \<Longrightarrow> \<exists>n rows'. update_rows guard P f rows = Inr (n, rows')"
proof (induction rows)
  case (Cons r rs)
  then obtain n rs' where "update_rows guard P f rs = Inr (n, rs')" by blast
  moreover obtain r' where "(if P r then guard r (f r) else Inr r) = Inr r'" using Cons.prems by (cases "P r") auto
  ultimately show ?case by simp
qed simp

lemma retire_total: "retireNeverDispatchedInTx now p d types reason db \<noteq> Inl e"
proof (cases "types = []")
  case False
  let ?f = "\<lambda>r. r\<lparr>pa_result := R_TemporaryFail, pa_note := Some (append_note (pa_note r) (''never_dispatched:'' @ reason))\<rparr>"
  have "\<exists>r'. update_guard (payment_operation_in_flight now db) None r (?f r) = Inr r'" if "retirable p d types r" for r
    using that by (simp add: update_guard_def guard_lifecycle_def retirable_def neverDispatched_def)
  from update_rows_total [of "retirable p d types" "update_guard (payment_operation_in_flight now db) None" ?f, OF this]
  obtain n rows' where "update_rows (update_guard (payment_operation_in_flight now db) None) (retirable p d types) ?f
      (pd_attempts db) = Inr (n, rows')" by blast
  then show ?thesis using False by (simp add: retireNeverDispatchedInTx_def update_attempts_def)
qed (simp add: retireNeverDispatchedInTx_def)

lemma on_ok_InlE:
  assumes "on_ok r f = Inl e" and "\<And>e. r \<noteq> Inl e"
  obtains a where "r = Inr a" and "f a = Inl e"
  using assms by (cases r) auto

text \<open>The code decides before the database has to: when the code mints an identity, none of the
  eligibility, settlement and release triggers refuses it; the only error a mint can end with is the
  thirty-minute cap, so a trigger error means another writer.\<close>

theorem database_guards_are_a_backstop:
  fixes db :: "'a payment_db_scheme"
  assumes "beginProviderAttempt now p d t identity admitted db = Inl e"
  shows "e = BodyRejected ''charge_attempt_rate_limited''"
proof -
  have "\<exists>db1 :: 'a payment_db_scheme. mint_or_resume now p d t identity db1 = Inl e"
    using assms unfolding beginProviderAttempt_def Let_def
    by (auto split: if_splits elim!: on_ok_InlE [OF _ retire_total])
  then obtain db1 :: "'a payment_db_scheme" where m: "mint_or_resume now p d t identity db1 = Inl e" by blast
  let ?rows = "loadRows p d db1" and ?new = "new_attempt now p d t (identity (length (filter (\<lambda>r. pa_type r = t) (loadRows p d db1)) + 1))"
  have clear: "begin_blocking t ?rows = None" "unresolved_same_type t ?rows = None"
      "t = A_Recovery \<or> t = A_Release \<Longrightarrow> payment_capture_settlement_fence now p d db1 = None"
    and i: "insert_attempt now ?new db1 = Inl e"
    using m unfolding mint_or_resume_def Let_def
    by (auto split: option.splits if_splits simp: on_ok_def split: sum.splits)
  have hr: "has_row P p d db1 \<longleftrightarrow> (\<exists>r \<in> set ?rows. P r)" for P by (simp add: has_row_def list_ex_iff)
  note nb = not_blocked [OF clear(1)]
  have "capture_side t \<or> t = A_Release \<Longrightarrow> \<not> has_row (is_result R_Unknown A_Reauthorize) p d db1"
    and "t \<noteq> A_Reauthorize \<Longrightarrow> \<not> has_row (\<lambda>r. is_result R_Unknown t r \<or> is_result R_Success t r) p d db1"
    and "t = A_Reauthorize \<Longrightarrow> \<not> has_row (is_result R_Unknown A_Reauthorize) p d db1"
    and "t = A_Recovery \<Longrightarrow> \<not> has_row (\<lambda>r. is_result R_Unknown A_ChargeStart r \<or> is_result R_Success A_ChargeStart r) p d db1"
    and "t = A_Refund \<or> t = A_CancelRefund \<or> t = A_Release \<Longrightarrow>
      \<not> has_row (\<lambda>r. capture_side (pa_type r) \<and> pa_result r = R_Unknown) p d db1"
    and "t = A_Release \<Longrightarrow> \<not> has_row (\<lambda>r. capture_side (pa_type r) \<and> pa_result r = R_Success) p d db1"
    and conflict: "capture_side t \<Longrightarrow> \<not> payment_release_conflict p d db1"
    using nb clear(2) by (simp_all add: hr unresolved_None payment_release_conflict_def) (auto simp: is_result_def)
  then have "guard_eligibility ?new db1 = Inr ()"
    by (cases t) (simp_all add: guard_eligibility_def Let_def MONEY_ATTEMPT_TYPES_def capture_side_def)
  moreover have "guard_settlement_fence now ?new db1 = Inr ()"
    using clear(3) conflict by (auto simp: guard_settlement_fence_def Let_def)
  ultimately show ?thesis using i by (auto simp: insert_attempt_def split: if_splits)
qed


section \<open>Arming\<close>

lemma update_rows_spec:
  "update_rows guard P f rows = Inr (n, rows') \<Longrightarrow>
   list_all2 (\<lambda>r r'. if P r then guard r (f r) = Inr r' else r' = r) rows rows' \<and> n = length (filter P rows)"
proof (induction rows arbitrary: n rows')
  case (Cons r rs)
  obtain r' m rs' where one: "(if P r then guard r (f r) else Inr r) = Inr r'"
    and rest: "update_rows guard P f rs = Inr (m, rs')"
    and out: "n = (if P r then Suc m else m)" "rows' = r' # rs'"
    using Cons.prems by (auto elim!: on_ok_InrE)
  show ?case using Cons.IH [OF rest] one out by (cases "P r") simp_all
qed simp

lemma list_all2_preimage: "list_all2 Q xs ys \<Longrightarrow> y \<in> set ys \<Longrightarrow> \<exists>x \<in> set xs. Q x y"
  by (induction rule: list_all2_induct) auto

lemma unique_row:
  "identities_unique rows \<Longrightarrow> r \<in> set rows \<Longrightarrow> r0 \<in> set rows \<Longrightarrow> is_identity p d t corr r \<Longrightarrow> is_identity p d t corr r0 \<Longrightarrow> r = r0"
  by (auto simp: identities_unique_def distinct_map is_identity_def of_obligation_def dest: inj_onD)

definition arm_identity :: "arm_args \<Rightarrow> attempt_row \<Rightarrow> bool" where
  "arm_identity args = is_identity (ar_participant args) (ar_deal args) (ar_type args) (ar_correlation args)"

lemma arm_effect:
  assumes "armProviderDispatch now args db = Inr (Armed, db1)" and "identities_unique (pd_attempts db)"
  shows "\<exists>g. ar_generation args = Some g \<and> (\<forall>r' \<in> set (pd_attempts db1). arm_identity args r' \<longrightarrow>
      (\<exists>r \<in> set (pd_attempts db). arm_identity args r \<and> pa_result r = R_Unknown
        \<and> r' = guard_horizon r (armed_row now args (ar_event args, g) r)))"
proof -
  obtain g where g: "ar_generation args = Some g"
    and u: "update_attempts now (Some (ar_event args, g)) (armable (payment_operation_in_flight now db) args (ar_event args, g))
        (armed_row now args (ar_event args, g)) db = Inr (1, db1)"
    using assms(1) unfolding armProviderDispatch_def
    by (auto split: option.splits if_splits elim!: on_ok_InrE)
  let ?P = "armable (payment_operation_in_flight now db) args (ar_event args, g)"
  let ?f = "armed_row now args (ar_event args, g)"
  let ?guard = "update_guard (payment_operation_in_flight now db) (Some (ar_event args, g))"
  obtain rows where rows: "update_rows ?guard ?P ?f (pd_attempts db) = Inr (1, rows)" "db1 = db\<lparr>pd_attempts := rows\<rparr>"
    using u unfolding update_attempts_def by (auto elim!: on_ok_InrE)
  note spec = update_rows_spec [OF rows(1)]
  have "filter ?P (pd_attempts db) \<noteq> []" using spec by auto
  then obtain r0 where r0: "r0 \<in> set (pd_attempts db)" "?P r0" by (auto simp: filter_empty_conv)
  have "\<exists>r \<in> set (pd_attempts db). arm_identity args r \<and> pa_result r = R_Unknown \<and> r' = guard_horizon r (?f r)"
    if r': "r' \<in> set rows" "arm_identity args r'" for r'
  proof -
    obtain r where r: "r \<in> set (pd_attempts db)" "if ?P r then ?guard r (?f r) = Inr r' else r' = r"
      using list_all2_preimage [OF conjunct1 [OF spec] r'(1)] by blast
    have "same_identity r r'"
    proof (cases "?P r")
      case True
      then have "?guard r (?f r) = Inr r'" using r(2) by simp
      moreover have "same_identity r (?f r)" "trust_kept r (?f r)"
        by (simp_all add: row_updates split: option.splits)
      ultimately have "attempt_step r r'" by (rule conjunct1 [OF update_guard_step])
      then show ?thesis by (simp add: attempt_step_def)
    qed (use r(2) in simp)
    then have i: "arm_identity args r" using r'(2) by (simp add: arm_identity_def is_identity_def of_obligation_def same_identity_def)
    have "r = r0" using unique_row [OF assms(2) r(1) r0(1)] i r0(2) by (auto simp: arm_identity_def armable_def)
    then have P: "?P r" and "pa_result r = R_Unknown" using r0(2) by (simp_all add: armable_def)
    moreover have "pa_result (?f r) = pa_result r" by (simp add: armed_row_def)
    ultimately show ?thesis using r i
      by (auto simp: update_guard_def guard_lifecycle_def elim!: on_ok_InrE split: if_splits)
  qed
  then show ?thesis using g rows(2) by auto
qed

text \<open>One dispatch at a time: after a worker armed an operation, and as long as its job holds the lease,
  no other job can arm the same operation, whatever it asks for and whenever; it changes nothing.\<close>

theorem dispatch_is_exclusive:
  assumes "armProviderDispatch now args db = Inr (Armed, db1)" and "identities_unique (pd_attempts db)"
    and "ar_generation args = Some g" and "pd_attempts db2 = pd_attempts db1"
    and "payment_operation_in_flight now2 db2 (Some (ar_event args, g))"
    and "arm_identity args2 = arm_identity args" and "(ar_event args2, ar_generation args2) \<noteq> (ar_event args, Some g)"
    and "armProviderDispatch now2 args2 db2 = Inr (answer, db3)"
  shows "answer \<noteq> Armed \<and> pd_attempts db3 = pd_attempts db2"
proof -
  have armed: "pa_dispatch r = DS_Dispatching \<and> pa_owner r = Some (ar_event args, g)"
    if "r \<in> set (pd_attempts db2)" "arm_identity args2 r" for r
    using arm_effect [OF assms(1,2)] that assms(3,4,6) by (auto simp: armed_row_def)
  show ?thesis
  proof (cases "ar_generation args2")
    case None
    then show ?thesis using assms(8) by (simp add: armProviderDispatch_def)
  next
    case (Some g2)
    let ?P = "armable (payment_operation_in_flight now2 db2) args2 (ar_event args2, g2)"
    have no: "\<not> ?P r" if "r \<in> set (pd_attempts db2)" for r
      using armed [OF that] assms(5,7) Some by (auto simp: armable_def arm_identity_def)
    have same: "rows' = rows" if "list_all2 (\<lambda>r r'. if P r then Q r r' else r' = r) rows rows'" "\<And>r. r \<in> set rows \<Longrightarrow> \<not> P r"
      for P Q and rows rows' :: "attempt_row list"
      using that by (induction rule: list_all2_induct) auto
    have no_rows: "n = 0 \<and> pd_attempts dbx = pd_attempts db2" if u: "update_attempts now2 s ?P f db2 = Inr (n, dbx)" for s f n dbx
    proof -
      obtain rows where rows: "update_rows (update_guard (payment_operation_in_flight now2 db2) s) ?P f (pd_attempts db2) = Inr (n, rows)"
          "dbx = db2\<lparr>pd_attempts := rows\<rparr>"
        using u unfolding update_attempts_def by (auto elim!: on_ok_InrE)
      have "filter ?P (pd_attempts db2) = []" using no by (simp add: filter_empty_conv)
      then show ?thesis using same [OF conjunct1 [OF update_rows_spec [OF rows(1)]] no] update_rows_spec [OF rows(1)] rows(2)
        by simp
    qed
    show ?thesis
    proof (cases "answer = Armed \<or> db3 \<noteq> db2")
      case True
      then obtain s f n where "update_attempts now2 s ?P f db2 = Inr (n, db3)" "answer = Armed \<longrightarrow> n = 1"
        using assms(8) Some unfolding armProviderDispatch_def
        by (auto split: option.split_asm if_split_asm elim!: on_ok_InrE)
      then show ?thesis using no_rows by fastforce
    qed simp
  qed
qed

text \<open>A provider that settles synchronously is fenced for ever: the code passes no horizon at all when the
  provider's horizon is zero, so an operation armed for the first time keeps an empty horizon, and a
  failure later inferred from a status read fences recovery and release until an operator steps in,
  even when the provider's negative finality is authoritative.\<close>

theorem zero_horizon_fences_forever:
  assumes "armProviderDispatch now args db = Inr (Armed, db1)" and "identities_unique (pd_attempts db)"
    and "ar_horizon_ms args = Some 0" and "capture_side (ar_type args)"
    and "\<forall>r \<in> set (pd_attempts db). arm_identity args r \<longrightarrow> pa_horizon r = None"
    and "r \<in> set (pd_attempts db1)" and "arm_identity args r"
  shows "fence_of later (r\<lparr>pa_result := R_PermanentFail, pa_evidence := Some EV_StatusInference\<rparr>) = Some FencedForever"
proof -
  have "pa_horizon r = None"
    using arm_effect [OF assms(1,2)] assms(3,5,6,7) by (auto simp: guard_horizon_def armed_row_def horizon_parameter_def)
  then show ?thesis using assms(4,7) by (simp add: fence_of_def unproven_failure_def arm_identity_def is_identity_def)
qed


section \<open>Witnesses\<close>

definition job :: "string \<Rightarrow> string \<Rightarrow> outbox_row" where
  "job e w = \<lparr>ob_id = e, ob_event_type = ''charge_start'', ob_aggregate_type = ''deal'', ob_aggregate_id = ''d1'',
     ob_payload = ''{}'', ob_status = Processing, ob_attempt_count = 1, ob_max_attempts = 5, ob_available_at = 0,
     ob_sent_at = None, ob_processing_started_at = Some 1, ob_claimed_at = Some 1, ob_lease_expires_at = Some 900000,
     ob_worker_id = Some w, ob_last_attempt_at = Some 1, ob_last_heartbeat_at = Some 1, ob_lease_generation = 1,
     ob_last_error = None, ob_correlation_id = '''', ob_request_id = ''''\<rparr>"

definition charge_db :: "attempt_row list \<Rightarrow> payment_db" where
  "charge_db rows =
     \<lparr>ld_deals = [''d1'' \<mapsto> D_Charging],
      ld_participants = [''p1'' \<mapsto> \<lparr>pt_deal = ''d1'', pt_buyer = B_ChargingAttempt, pt_money = M_ChargeAttempt\<rparr>],
      ld_audit = [], ld_outbox = \<lparr>odb_events = [job ''e1'' ''w1'', job ''e2'' ''w2''], odb_dlq = [], odb_audit = []\<rparr>,
      ld_idempotency = [], pd_attempts = rows, pd_window = (\<lambda>_. None)\<rparr>"

definition arm_by :: "string \<Rightarrow> string \<Rightarrow> arm_args" where
  "arm_by e w = \<lparr>ar_participant = ''p1'', ar_deal = ''d1'', ar_type = A_ChargeStart, ar_correlation = ''c1'',
     ar_event = e, ar_generation = Some 1, ar_worker = w, ar_min_lease_ms = 1000, ar_money_states = [M_ChargeAttempt],
     ar_buyer_states = None, ar_reference = None, ar_horizon_ms = Some 0, ar_authoritative = Some True, ar_gate = None\<rparr>"

definition recorded_row :: attempt_row where
  "recorded_row = new_attempt 10 ''p1'' ''d1'' A_ChargeStart ''c1''"

definition declined_row :: attempt_row where
  "declined_row = recorded_row\<lparr>pa_result := R_PermanentFail, pa_dispatch := DS_Responded, pa_evidence := Some EV_DispatchResponse\<rparr>"

definition armed_db :: payment_db where
  "armed_db = committed_payment (charge_db [recorded_row]) (armProviderDispatch 20 (arm_by ''e1'' ''w1'') (charge_db [recorded_row]))"

lemma armed_call: "armProviderDispatch 20 (arm_by ''e1'' ''w1'') (charge_db [recorded_row]) = Inr (Armed, armed_db)"
proof -
  have "map_sum id fst (armProviderDispatch 20 (arm_by ''e1'' ''w1'') (charge_db [recorded_row])) = Inr Armed" by code_simp
  then show ?thesis
    by (cases "armProviderDispatch 20 (arm_by ''e1'' ''w1'') (charge_db [recorded_row])") (auto simp: armed_db_def committed_payment_def)
qed

lemma one_row_unique: "identities_unique (pd_attempts (charge_db [r]))"
  by (simp add: identities_unique_def charge_db_def)

definition recovered_db :: payment_db where
  "recovered_db = committed_payment (charge_db [declined_row])
     (beginProviderAttempt 50 ''p1'' ''d1'' A_Recovery (\<lambda>n. ''r1'') None (charge_db [declined_row]))"

lemma recovered_call:
  "beginProviderAttempt 50 ''p1'' ''d1'' A_Recovery (\<lambda>n. ''r1'') None (charge_db [declined_row]) = Inr (BeginFresh ''r1'' 1, recovered_db)"
proof -
  have "map_sum id fst (beginProviderAttempt 50 ''p1'' ''d1'' A_Recovery (\<lambda>n. ''r1'') None (charge_db [declined_row]))
    = Inr (BeginFresh ''r1'' 1)" by code_simp
  then show ?thesis
    by (cases "beginProviderAttempt 50 ''p1'' ''d1'' A_Recovery (\<lambda>n. ''r1'') None (charge_db [declined_row])")
      (auto simp: recovered_db_def committed_payment_def)
qed

lemma second_capture_needs_proof_witness: "money_excluded 50 declined_row"
proof (rule second_capture_needs_proof [OF recovered_call])
  show "declined_row \<in> set (loadRows ''p1'' ''d1'' recovered_db)" by code_simp
qed (simp_all add: declined_row_def recorded_row_def new_attempt_def capture_side_def)

definition demo_op :: attempt_op where
  "demo_op = OpArm (arm_by ''e1'' ''w1'')"

lemma demo_run: "attempt_run (charge_db [recorded_row]) (attempt_exec 20 demo_op (charge_db [recorded_row]))"
  by (rule attempt [OF begin_attempts])

lemma demo_exec: "attempt_exec 20 demo_op (charge_db [recorded_row]) = armed_db"
  by (simp add: demo_op_def armed_db_def)

lemma attempt_truth_is_monotone_witness:
  "\<exists>old new. pd_attempts armed_db = old @ new \<and> list_all2 attempt_step (pd_attempts (charge_db [recorded_row])) old"
  using attempt_truth_is_monotone [OF demo_run] by (simp add: demo_exec)

lemma charge_attempts_capped_witness:
  "charges_capped (pd_attempts armed_db) \<and> identities_unique (pd_attempts armed_db)"
proof -
  have "charges_capped (pd_attempts (charge_db [recorded_row]))" by (simp add: charges_capped_def charge_db_def)
  from charge_attempts_capped [OF demo_run this one_row_unique] show ?thesis by (simp add: demo_exec)
qed

lemma armed_row_dispatching: "pd_attempts armed_db = [recorded_row\<lparr>pa_dispatch := DS_Dispatching, pa_owner := Some (''e1'', 1),
    pa_dispatched_at := Some 20, pa_authoritative := Some True\<rparr>]"
  by code_simp

lemma in_flight_row_protected_witness:
  "\<exists>r' \<in> set (pd_attempts (attempt_exec 30 (OpSettleAny ''p1'' ''d1'' A_ChargeStart ''c1'' R_PermanentFail None None None) armed_db)).
     same_identity (hd (pd_attempts armed_db)) r' \<and> (r' = hd (pd_attempts armed_db) \<or> pa_result r' = R_Success)"
proof (rule in_flight_row_protected)
  show "payment_operation_in_flight 30 armed_db (pa_owner (hd (pd_attempts armed_db)))" by code_simp
qed (simp_all add: armed_row_dispatching)

lemma database_guards_are_a_backstop_witness:
  "projl (beginProviderAttempt 50 ''p1'' ''d1'' A_ChargeStart (\<lambda>n. ''c9'') None
     (charge_db [declined_row, declined_row\<lparr>pa_correlation := ''c2''\<rparr>, declined_row\<lparr>pa_correlation := ''c3''\<rparr>]))
   = BodyRejected ''charge_attempt_rate_limited''"
proof (rule database_guards_are_a_backstop)
  let ?call = "beginProviderAttempt 50 ''p1'' ''d1'' A_ChargeStart (\<lambda>n. ''c9'') None
      (charge_db [declined_row, declined_row\<lparr>pa_correlation := ''c2''\<rparr>, declined_row\<lparr>pa_correlation := ''c3''\<rparr>])"
  have "isl ?call" by code_simp
  then show "?call = Inl (projl ?call)" by simp
qed

lemma dispatch_is_exclusive_witness:
  "fst (projr (armProviderDispatch 30 (arm_by ''e2'' ''w2'') armed_db)) \<noteq> Armed
   \<and> pd_attempts (snd (projr (armProviderDispatch 30 (arm_by ''e2'' ''w2'') armed_db))) = pd_attempts armed_db"
proof (rule dispatch_is_exclusive [OF armed_call one_row_unique])
  show "payment_operation_in_flight 30 armed_db (Some (ar_event (arm_by ''e1'' ''w1''), 1))" by code_simp
  have "\<not> isl (armProviderDispatch 30 (arm_by ''e2'' ''w2'') armed_db)" by code_simp
  then show "armProviderDispatch 30 (arm_by ''e2'' ''w2'') armed_db = Inr (fst (projr (armProviderDispatch 30 (arm_by ''e2'' ''w2'') armed_db)),
    snd (projr (armProviderDispatch 30 (arm_by ''e2'' ''w2'') armed_db)))" by simp
qed (simp_all add: arm_by_def arm_identity_def)

lemma zero_horizon_fences_forever_witness:
  "fence_of 1000000000 (hd (pd_attempts armed_db)\<lparr>pa_result := R_PermanentFail, pa_evidence := Some EV_StatusInference\<rparr>)
   = Some FencedForever"
proof (rule zero_horizon_fences_forever [OF armed_call one_row_unique])
  show "arm_identity (arm_by ''e1'' ''w1'') (hd (pd_attempts armed_db))" by code_simp
qed (simp_all add: arm_by_def armed_row_dispatching capture_side_def charge_db_def recorded_row_def new_attempt_def)

end
