(* ===== verification/WebhookClaims.thy ===== *)
theory WebhookClaims
  imports LifecycleRuns RuntimeConfig
begin

text \<open>
  \<open>src/webhook_ingestion.ts\<close>: the claim protocol of provider events. Every delivery claims the row of
  its (provider, event id); the claim stamps a fresh token, and only the holder of the current token
  can finish the event. The envelope fields that the code keeps inside \<open>payload_jsonb\<close> (claim instant,
  claim token, classification reason, reclaim mark) are columns of the model; the payload is the rest.
  Each function is one or two transactions; a transaction is one step, \<open>now\<close> its database clock and the
  random token an argument.
\<close>

section \<open>Rows\<close>

datatype webhook_status = WPending | WProcessing | WProcessed | WIgnored | WFailed

record webhook_row =
  we_provider :: string
  we_event :: string
  we_status :: webhook_status
  we_received_at :: int
  we_processed_at :: "int option"
  we_payload :: string
  we_claimed_at :: "int option"
  we_token :: "string option"
  we_reason :: "string option"
  we_reclaimed_at :: "int option"
  we_deal :: "string option"
  we_participant :: "string option"

record webhook_input =
  wi_provider :: string
  wi_event :: string
  wi_payload :: string
  wi_deal :: "string option"
  wi_participant :: "string option"

record claim_result =
  cl_duplicate :: bool
  cl_should_process :: bool
  cl_status :: webhook_status
  cl_received_at :: int
  cl_processed_at :: "int option"
  cl_token :: "string option"

definition DEFAULT_WEBHOOK_PROCESSING_STALE_MS :: int where "DEFAULT_WEBHOOK_PROCESSING_STALE_MS = 300000"
definition MIN_WEBHOOK_PROCESSING_STALE_MS :: int where "MIN_WEBHOOK_PROCESSING_STALE_MS = 60000"

definition resolveStaleMs :: "jsnum option \<Rightarrow> env \<Rightarrow> int" where
  "resolveStaleMs explicit env =
     (let raw = (case explicit of
          Some n \<Rightarrow> n
        | None \<Rightarrow> (case env ''WEBHOOK_PROCESSING_STALE_MS'' of
              None \<Rightarrow> Fin (of_int DEFAULT_WEBHOOK_PROCESSING_STALE_MS)
            | Some s \<Rightarrow> if s = '''' then Fin (of_int DEFAULT_WEBHOOK_PROCESSING_STALE_MS) else number_of_string s));
          value = (case raw of Fin x \<Rightarrow> \<lfloor>x\<rfloor> | _ \<Rightarrow> DEFAULT_WEBHOOK_PROCESSING_STALE_MS)
      in max MIN_WEBHOOK_PROCESSING_STALE_MS value)"

definition is_event :: "string \<Rightarrow> string \<Rightarrow> webhook_row \<Rightarrow> bool" where
  "is_event provider eid r \<longleftrightarrow> we_provider r = provider \<and> we_event r = eid"

definition claim_instant :: "webhook_row \<Rightarrow> int" where
  "claim_instant r = (case we_claimed_at r of None \<Rightarrow> we_received_at r | Some t \<Rightarrow> t)"

text \<open>\<open>CLAIM_STALE_SQL\<close>\<close>

definition claim_stale :: "int \<Rightarrow> int \<Rightarrow> webhook_row \<Rightarrow> bool" where
  "claim_stale stale now r \<longleftrightarrow> claim_instant r \<le> now - stale"

section \<open>Operations\<close>

text \<open>
  The first transaction of \<open>claimEvent\<close>. A delivery whose insert loses the race re-reads the winner's
  row, which is the answer of the same delivery after the winner.
\<close>

definition claim_insert ::
    "int \<Rightarrow> string \<Rightarrow> webhook_input \<Rightarrow> webhook_row list \<Rightarrow> claim_result \<times> webhook_row list" where
  "claim_insert now token inp rows =
     (case find (is_event (wi_provider inp) (wi_event inp)) rows of
        None \<Rightarrow>
          (\<lparr>cl_duplicate = False, cl_should_process = True, cl_status = WProcessing, cl_received_at = now,
            cl_processed_at = None, cl_token = Some token\<rparr>,
           rows @ [\<lparr>we_provider = wi_provider inp, we_event = wi_event inp, we_status = WProcessing, we_received_at = now,
             we_processed_at = None, we_payload = wi_payload inp, we_claimed_at = Some now, we_token = Some token,
             we_reason = None, we_reclaimed_at = None, we_deal = wi_deal inp, we_participant = wi_participant inp\<rparr>])
      | Some r \<Rightarrow>
          (\<lparr>cl_duplicate = True, cl_should_process = False, cl_status = we_status r, cl_received_at = we_received_at r,
            cl_processed_at = we_processed_at r, cl_token = None\<rparr>, rows))"

definition reclaimable_event :: "int \<Rightarrow> int \<Rightarrow> webhook_row \<Rightarrow> bool" where
  "reclaimable_event stale now r \<longleftrightarrow>
     we_status r = WPending \<or> we_status r = WFailed \<or> (we_status r = WProcessing \<and> claim_stale stale now r)"

definition reclaimed :: "int \<Rightarrow> string \<Rightarrow> webhook_input \<Rightarrow> webhook_row \<Rightarrow> webhook_row" where
  "reclaimed now token inp r =
     r\<lparr>we_status := WProcessing, we_processed_at := None, we_payload := wi_payload inp, we_claimed_at := Some now,
       we_token := Some token, we_reason := None, we_reclaimed_at := None,
       we_deal := (case wi_deal inp of None \<Rightarrow> we_deal r | Some d \<Rightarrow> Some d),
       we_participant := (case wi_participant inp of None \<Rightarrow> we_participant r | Some p \<Rightarrow> Some p)\<rparr>"

text \<open>The second transaction of \<open>claimEvent\<close>, on the result of the first.\<close>

definition claim_again ::
    "int \<Rightarrow> int \<Rightarrow> string \<Rightarrow> webhook_input \<Rightarrow> claim_result \<Rightarrow> webhook_row list \<Rightarrow> claim_result \<times> webhook_row list" where
  "claim_again stale now token inp result rows =
     (if \<not> cl_duplicate result \<or> cl_status result = WProcessed \<or> cl_status result = WIgnored then (result, rows)
      else let P = (\<lambda>r. is_event (wi_provider inp) (wi_event inp) r \<and> reclaimable_event stale now r)
        in case find P rows of
             None \<Rightarrow> (result, rows)
           | Some r \<Rightarrow>
               (result\<lparr>cl_should_process := True, cl_status := WProcessing, cl_received_at := we_received_at r,
                  cl_processed_at := None, cl_token := Some token\<rparr>,
                map (\<lambda>r. if P r then reclaimed now token inp r else r) rows))"

definition claimEvent ::
    "int \<Rightarrow> int \<Rightarrow> string \<Rightarrow> webhook_input \<Rightarrow> webhook_row list \<Rightarrow> claim_result \<times> webhook_row list" where
  "claimEvent stale now token inp rows =
     (case claim_insert now token inp rows of (result, rows') \<Rightarrow> claim_again stale now token inp result rows')"

definition finished :: "int \<Rightarrow> webhook_status \<Rightarrow> string option \<Rightarrow> webhook_row \<Rightarrow> webhook_row" where
  "finished now status reason r =
     r\<lparr>we_status := status,
       we_reason := (case reason of None \<Rightarrow> we_reason r | Some x \<Rightarrow> if list_all (\<lambda>c. c = CHR '' '') x then we_reason r else Some x),
       we_processed_at := (if status = WProcessed \<or> status = WIgnored \<or> status = WFailed then Some now else we_processed_at r)\<rparr>"

definition held_with :: "string \<Rightarrow> string \<Rightarrow> string option \<Rightarrow> webhook_row \<Rightarrow> bool" where
  "held_with provider eid token r \<longleftrightarrow>
     is_event provider eid r \<and> we_status r = WProcessing \<and> token \<noteq> None \<and> we_token r = token"

definition markEvent ::
    "int \<Rightarrow> string \<Rightarrow> string \<Rightarrow> webhook_status \<Rightarrow> string option \<Rightarrow> string option \<Rightarrow> webhook_row list \<Rightarrow>
     webhook_row option \<times> webhook_row list" where
  "markEvent now provider eid status reason token rows =
     (map_option (finished now status reason) (find (held_with provider eid token) rows),
      map (\<lambda>r. if held_with provider eid token r then finished now status reason r else r) rows)"

definition swept :: "int \<Rightarrow> webhook_row \<Rightarrow> webhook_row" where
  "swept now r = r\<lparr>we_status := WPending, we_token := None, we_reclaimed_at := Some now\<rparr>"

text \<open>The sweep takes the oldest stale rows, at most \<open>limit\<close> of them.\<close>

definition stale_rows :: "int \<Rightarrow> int \<Rightarrow> int \<Rightarrow> webhook_row list \<Rightarrow> webhook_row list" where
  "stale_rows stale now limit rows =
     take (nat (max 1 limit))
       (sort_key we_received_at (filter (\<lambda>r. we_status r = WProcessing \<and> claim_stale stale now r) rows))"

definition reclaimStaleProcessing :: "int \<Rightarrow> int \<Rightarrow> int \<Rightarrow> webhook_row list \<Rightarrow> nat \<times> webhook_row list" where
  "reclaimStaleProcessing stale now limit rows =
     (let keys = map (\<lambda>r. (we_provider r, we_event r)) (stale_rows stale now limit rows);
          hit = (\<lambda>r. List.member keys (we_provider r, we_event r))
      in (length (filter hit rows), map (\<lambda>r. if hit r then swept now r else r) rows))"

section \<open>The abstract lock of an event\<close>

text \<open>
  What the protocol promises: an event is a lease lock. It is open, held with a token since an instant,
  or closed for ever. A claim opens a lease when the lock is open or the lease is stale; only the
  current token finishes.
\<close>

datatype lock = Open | Held "string option" int | Closed

datatype lock_action =
    Acquire int string
  | Finish string webhook_status
  | Expire int

fun lock_step :: "int \<Rightarrow> lock \<Rightarrow> lock_action \<Rightarrow> lock option" where
  "lock_step stale Open (Acquire now t) = Some (Held (Some t) now)"
| "lock_step stale (Held h since) (Acquire now t) = (if since \<le> now - stale then Some (Held (Some t) now) else None)"
| "lock_step stale (Held h since) (Finish t s) =
     (if h = Some t
      then Some (if s = WProcessed \<or> s = WIgnored then Closed else if s = WProcessing then Held h since else Open)
      else None)"
| "lock_step stale (Held h since) (Expire now) = (if since \<le> now - stale then Some Open else None)"
| "lock_step stale _ _ = None"

fun lock_run :: "int \<Rightarrow> lock \<Rightarrow> lock_action list \<Rightarrow> lock option" where
  "lock_run stale l [] = Some l"
| "lock_run stale l (a # as) = (case lock_step stale l a of None \<Rightarrow> None | Some l' \<Rightarrow> lock_run stale l' as)"

definition lock_of_row :: "webhook_row \<Rightarrow> lock" where
  "lock_of_row r =
     (case we_status r of
        WPending \<Rightarrow> Open
      | WFailed \<Rightarrow> Open
      | WProcessing \<Rightarrow> Held (we_token r) (claim_instant r)
      | _ \<Rightarrow> Closed)"

definition lock_of :: "string \<times> string \<Rightarrow> webhook_row list \<Rightarrow> lock" where
  "lock_of key rows = (case find (is_event (fst key) (snd key)) rows of None \<Rightarrow> Open | Some r \<Rightarrow> lock_of_row r)"

definition events_unique :: "webhook_row list \<Rightarrow> bool" where
  "events_unique rows \<longleftrightarrow> distinct (map (\<lambda>r. (we_provider r, we_event r)) rows)"


section \<open>Runs\<close>

definition key_of :: "webhook_row \<Rightarrow> string \<times> string" where
  "key_of r = (we_provider r, we_event r)"

definition input_key :: "webhook_input \<Rightarrow> string \<times> string" where
  "input_key inp = (wi_provider inp, wi_event inp)"

type_synonym lock_trace = "((string \<times> string) \<times> lock_action) list"

definition trace_of :: "string \<times> string \<Rightarrow> lock_trace \<Rightarrow> lock_action list" where
  "trace_of key tr = map snd (filter (\<lambda>a. fst a = key) tr)"

definition fresh_token :: "string \<Rightarrow> webhook_row list \<Rightarrow> lock_trace \<Rightarrow> bool" where
  "fresh_token token rows0 tr \<longleftrightarrow> (\<forall>r \<in> set rows0. we_token r \<noteq> Some token) \<and> (\<forall>k now. (k, Acquire now token) \<notin> set tr)"

definition claimed_actions :: "int \<Rightarrow> string \<Rightarrow> webhook_input \<Rightarrow> claim_result \<Rightarrow> lock_trace" where
  "claimed_actions now token inp result = (if cl_token result = Some token then [(input_key inp, Acquire now token)] else [])"

definition swept_actions :: "int \<Rightarrow> webhook_row list \<Rightarrow> webhook_row list \<Rightarrow> lock_trace" where
  "swept_actions now rows rows' =
     map (\<lambda>(r, r'). (key_of r, Expire now)) (filter (\<lambda>(r, r'). r' = swept now r \<and> we_status r = WProcessing) (zip rows rows'))"

text \<open>
  Any interleaving of the transactions of any processors: first and second transaction of a claim (the
  second with the result of any first one), finishing with any token, the sweep. The database
  generates a new token for every claim.
\<close>

inductive webhook_run :: "int \<Rightarrow> webhook_row list \<Rightarrow> lock_trace \<Rightarrow> webhook_row list \<Rightarrow> bool" for stale rows0 where
  begin_webhooks: "webhook_run stale rows0 [] rows0"
| first_claim: "webhook_run stale rows0 tr rows \<Longrightarrow> fresh_token token rows0 tr \<Longrightarrow> claim_insert now token inp rows = (result, rows') \<Longrightarrow>
    webhook_run stale rows0 (tr @ claimed_actions now token inp result) rows'"
| second_claim: "webhook_run stale rows0 tr rows \<Longrightarrow> fresh_token token rows0 tr \<Longrightarrow> cl_token before \<noteq> Some token \<Longrightarrow>
    claim_again stale now token inp before rows = (result, rows') \<Longrightarrow>
    webhook_run stale rows0 (tr @ claimed_actions now token inp result) rows'"
| mark: "webhook_run stale rows0 tr rows \<Longrightarrow> markEvent now provider eid status reason (Some token) rows = (answer, rows') \<Longrightarrow>
    webhook_run stale rows0 (tr @ (if answer = None then [] else [((provider, eid), Finish token status)])) rows'"
| sweep: "webhook_run stale rows0 tr rows \<Longrightarrow> reclaimStaleProcessing stale now limit rows = (n, rows') \<Longrightarrow>
    webhook_run stale rows0 (tr @ swept_actions now rows rows') rows'"

section \<open>One step on one lock\<close>

lemma lock_run_append:
  "lock_run stale l (as @ bs) = (case lock_run stale l as of None \<Rightarrow> None | Some l' \<Rightarrow> lock_run stale l' bs)"
  by (induction as arbitrary: l) (simp_all split: option.splits)

lemma trace_of_simps [simp]:
  "trace_of key [] = []"
  "trace_of key (tr @ tr') = trace_of key tr @ trace_of key tr'"
  "trace_of key ((k, a) # tr) = (if k = key then a # trace_of key tr else trace_of key tr)"
  by (simp_all add: trace_of_def)

lemma is_event_key: "is_event p e r \<longleftrightarrow> key_of r = (p, e)"
  by (auto simp: is_event_def key_of_def)

lemma unique_find:
  "events_unique rows \<Longrightarrow> find (\<lambda>r. is_event p e r \<and> Q r) rows =
     (case find (is_event p e) rows of None \<Rightarrow> None | Some r \<Rightarrow> if Q r then Some r else None)"
proof (induction rows)
  case (Cons r rows)
  have no: "find (\<lambda>r. is_event p e r \<and> Q r) rows = None" if "is_event p e r"
    using that Cons.prems by (auto simp: find_None_iff events_unique_def is_event_def image_iff)
  show ?case using Cons no by (auto simp: events_unique_def split: option.splits)
qed simp

lemma unique_find_Some:
  assumes "events_unique rows" and "find (\<lambda>r. is_event p e r \<and> Q r) rows = Some r"
  shows "find (is_event p e) rows = Some r \<and> Q r"
  using assms(2) unfolding unique_find [OF assms(1)] by (simp split: option.split_asm if_split_asm)

lemma find_map_key:
  "(\<And>r. P (f r) = P r) \<Longrightarrow> find P (map f rows) = map_option f (find P rows)"
  by (induction rows) auto

text \<open>An update that keeps keys and leaves rows of other keys alone.\<close>

lemma lock_of_map:
  assumes "\<And>r. key_of (f r) = key_of r"
  shows "lock_of key (map f rows) = (case find (is_event (fst key) (snd key)) rows of None \<Rightarrow> Open | Some r \<Rightarrow> lock_of_row (f r))"
  unfolding lock_of_def using assms by (subst find_map_key) (auto simp: is_event_key split: option.splits)

lemma lock_of_map_same:
  assumes "\<And>r. key_of (f r) = key_of r" and "\<And>r. r \<in> set rows \<Longrightarrow> key_of r = key \<Longrightarrow> lock_of_row (f r) = lock_of_row r"
  shows "lock_of key (map f rows) = lock_of key rows"
proof (cases "find (is_event (fst key) (snd key)) rows")
  case (Some r)
  then show ?thesis using assms(2) [of r] find_SomeD [OF Some] unfolding lock_of_map [of f, OF assms(1)] unfolding lock_of_def
    by (simp add: is_event_key)
qed (simp add: lock_of_map [of f, OF assms(1)] lock_of_def [of _ rows])

lemma keys_map: "(\<And>r. key_of (f r) = key_of r) \<Longrightarrow> events_unique (map f rows) = events_unique rows"
  by (auto simp: events_unique_def key_of_def fun_eq_iff o_def)

lemma update_keys [simp]:
  "key_of (reclaimed now token inp r) = key_of r" "key_of (finished now status reason r) = key_of r" "key_of (swept now r) = key_of r"
  by (simp_all add: key_of_def reclaimed_def finished_def swept_def)

lemma lock_reclaimed [simp]: "lock_of_row (reclaimed now token inp r) = Held (Some token) now"
  by (simp add: lock_of_row_def reclaimed_def claim_instant_def)

lemma lock_finished:
  "we_status r = WProcessing \<Longrightarrow> lock_of_row (finished now status reason r) =
     (case status of WProcessed \<Rightarrow> Closed | WIgnored \<Rightarrow> Closed | WProcessing \<Rightarrow> Held (we_token r) (claim_instant r) | _ \<Rightarrow> Open)"
  by (cases status) (simp_all add: lock_of_row_def finished_def claim_instant_def split: option.splits)

lemma lock_swept [simp]: "lock_of_row (swept now r) = Open"
  by (simp add: lock_of_row_def swept_def)

lemma reclaimable_lock:
  "reclaimable_event stale now r \<longleftrightarrow> lock_step stale (lock_of_row r) (Acquire now t) = Some (Held (Some t) now)"
  by (cases "we_status r") (auto simp: reclaimable_event_def claim_stale_def lock_of_row_def)

lemma claim_insert_step:
  assumes "claim_insert now token inp rows = (result, rows')" and "events_unique rows"
  shows "events_unique rows'
    \<and> lock_run stale (lock_of key rows) (trace_of key (claimed_actions now token inp result)) = Some (lock_of key rows')"
proof (cases "find (is_event (wi_provider inp) (wi_event inp)) rows")
  case None
  then have out: "result = \<lparr>cl_duplicate = False, cl_should_process = True, cl_status = WProcessing, cl_received_at = now,
      cl_processed_at = None, cl_token = Some token\<rparr>"
    and rows': "rows' = rows @ [\<lparr>we_provider = wi_provider inp, we_event = wi_event inp, we_status = WProcessing, we_received_at = now,
      we_processed_at = None, we_payload = wi_payload inp, we_claimed_at = Some now, we_token = Some token,
      we_reason = None, we_reclaimed_at = None, we_deal = wi_deal inp, we_participant = wi_participant inp\<rparr>]" (is "_ = rows @ [?new]")
    using assms(1) by (auto simp: claim_insert_def)
  have "events_unique rows'"
    using assms(2) None by (auto simp: rows' events_unique_def find_None_iff is_event_def)
  moreover have "lock_of (input_key inp) rows = Open" "lock_of (input_key inp) rows' = Held (Some token) now"
    using None by (simp_all add: lock_of_def input_key_def rows' find_append_None lock_of_row_def claim_instant_def is_event_def)
  moreover have "lock_of key rows' = lock_of key rows" if "key \<noteq> input_key inp"
    unfolding rows' lock_of_def
    by (cases "find (is_event (fst key) (snd key)) rows")
      (use that in \<open>auto simp: find_append_None find_append_Some is_event_def input_key_def prod_eq_iff\<close>)
  ultimately show ?thesis by (cases "key = input_key inp") (auto simp: claimed_actions_def out)
next
  case (Some r)
  then show ?thesis using assms(1,2) by (auto simp: claim_insert_def claimed_actions_def)
qed

lemma claim_again_step:
  assumes "claim_again stale now token inp before rows = (result, rows')" and "events_unique rows" and "cl_token before \<noteq> Some token"
  shows "events_unique rows'
    \<and> lock_run stale (lock_of key rows) (trace_of key (claimed_actions now token inp result)) = Some (lock_of key rows')"
proof -
  let ?P = "\<lambda>r. is_event (wi_provider inp) (wi_event inp) r \<and> reclaimable_event stale now r"
  show ?thesis
  proof (cases "result = before \<and> rows' = rows")
    case True
    then show ?thesis using assms(2,3) by (simp add: claimed_actions_def)
  next
    case False
    then have out: "(case find ?P rows of None \<Rightarrow> (before, rows)
       | Some r \<Rightarrow> (before\<lparr>cl_should_process := True, cl_status := WProcessing, cl_received_at := we_received_at r,
                  cl_processed_at := None, cl_token := Some token\<rparr>,
                map (\<lambda>r. if ?P r then reclaimed now token inp r else r) rows)) = (result, rows')"
      using assms(1) unfolding claim_again_def Let_def by (simp only: split: if_split_asm) simp
    with False obtain r where r: "find ?P rows = Some r" by (cases "find ?P rows") simp_all
    then have t: "cl_token result = Some token"
      and rows': "rows' = map (\<lambda>r. if ?P r then reclaimed now token inp r else r) rows" using out by auto
    have find: "find (is_event (wi_provider inp) (wi_event inp)) rows = Some r" "reclaimable_event stale now r"
      using unique_find_Some [OF assms(2) r] by simp_all
    have keys: "key_of (if ?P r then reclaimed now token inp r else r) = key_of r" for r by simp
    have "events_unique rows'" using assms(2) keys_map [of _ rows, OF keys] by (simp add: rows')
    moreover have "lock_of (input_key inp) rows' = Held (Some token) now"
      unfolding rows' lock_of_map [of _ _ rows, OF keys] using find find_SomeD [OF find(1)] by (simp add: input_key_def)
    moreover have "lock_of (input_key inp) rows = lock_of_row r" using find(1) by (simp add: lock_of_def input_key_def)
    moreover have "lock_of key rows' = lock_of key rows" if "key \<noteq> input_key inp"
      unfolding rows' by (rule lock_of_map_same [OF keys]) (use that in \<open>auto simp: is_event_key input_key_def\<close>)
    ultimately show ?thesis using find(2) reclaimable_lock [of stale now r token]
      by (cases "key = input_key inp") (auto simp: claimed_actions_def t)
  qed
qed


lemma mark_step:
  assumes "markEvent now provider eid status reason (Some token) rows = (answer, rows')" and "events_unique rows"
  shows "events_unique rows' \<and> lock_run stale (lock_of key rows)
      (trace_of key (if answer = None then [] else [((provider, eid), Finish token status)])) = Some (lock_of key rows')"
proof -
  let ?P = "held_with provider eid (Some token)"
  let ?f = "\<lambda>r. if ?P r then finished now status reason r else r"
  have a: "answer = map_option (finished now status reason) (find ?P rows)" and rows': "rows' = map ?f rows"
    using assms(1) by (simp_all add: markEvent_def)
  have keys: "key_of (?f r) = key_of r" for r by simp
  have u: "events_unique rows'" using assms(2) keys_map [of ?f rows, OF keys] by (simp add: rows')
  have split: "?P = (\<lambda>r. is_event provider eid r \<and> (we_status r = WProcessing \<and> we_token r = Some token))"
    by (auto simp: held_with_def fun_eq_iff)
  show ?thesis
  proof (cases "find ?P rows")
    case None
    then have "?f r = r" if "r \<in> set rows" for r using that by (auto simp: find_None_iff)
    then have "rows' = rows" unfolding rows' by (simp add: map_idI)
    then show ?thesis using u None by (simp add: a)
  next
    case (Some r)
    then have "find (\<lambda>r. is_event provider eid r \<and> (we_status r = WProcessing \<and> we_token r = Some token)) rows = Some r"
      by (simp only: split)
    from unique_find_Some [OF assms(2) this]
    have r: "find (is_event provider eid) rows = Some r" "we_status r = WProcessing" "we_token r = Some token" by simp_all
    have "lock_of (provider, eid) rows' = lock_of_row (finished now status reason r)"
      unfolding rows' lock_of_map [of ?f, OF keys] using r find_SomeD [OF r(1)] by (simp add: held_with_def)
    moreover have "lock_of (provider, eid) rows = lock_of_row r" using r(1) by (simp add: lock_of_def)
    moreover have "lock_of key rows' = lock_of key rows" if "key \<noteq> (provider, eid)"
      unfolding rows' by (rule lock_of_map_same [of ?f, OF keys]) (use that in \<open>auto simp: held_with_def is_event_key\<close>)
    moreover have "lock_of_row r = Held (Some token) (claim_instant r)" using r by (simp add: lock_of_row_def)
    ultimately show ?thesis using u r(2,3) Some
      by (cases "key = (provider, eid)"; cases status) (simp_all add: a lock_finished)
  qed
qed

lemma swept_differs: "we_status r = WProcessing \<Longrightarrow> r \<noteq> swept now r"
  by (metis swept_def webhook_row.select_convs(3) webhook_row.surjective webhook_row.update_convs(3,8,10) webhook_status.distinct(1))

lemma swept_actions_map:
  "swept_actions now rows (map (\<lambda>r. if hit r then swept now r else r) rows) =
     map (\<lambda>r. (key_of r, Expire now)) (filter (\<lambda>r. hit r \<and> we_status r = WProcessing) rows)"
  by (induction rows) (auto simp: swept_actions_def swept_differs)

lemma trace_of_rows:
  "events_unique rows \<Longrightarrow> trace_of key (map (\<lambda>r. (key_of r, a)) (filter Q rows)) =
     (case find (is_event (fst key) (snd key)) rows of None \<Rightarrow> [] | Some r \<Rightarrow> if Q r then [a] else [])"
proof (induction rows)
  case (Cons r rows)
  have none: "filter (\<lambda>x. key_of x = key) rows = []" if "key_of r = key"
    using that Cons.prems by (auto simp: events_unique_def filter_empty_conv key_of_def image_iff)
  have "trace_of key (map (\<lambda>r. (key_of r, a)) (filter Q rows)) = map (\<lambda>_. a) (filter Q (filter (\<lambda>x. key_of x = key) rows))"
    by (induction rows) (auto simp: trace_of_def)
  moreover have "find (\<lambda>x. key_of x = key) rows = None" if "key_of r = key"
    using none [OF that] by (simp add: find_None_iff filter_empty_conv)
  ultimately show ?case using Cons none by (auto simp: events_unique_def is_event_key [abs_def] split: option.splits)
qed (simp add: trace_of_def)

lemma sweep_step:
  assumes "reclaimStaleProcessing stale now limit rows = (n, rows')" and "events_unique rows"
  shows "events_unique rows'
    \<and> lock_run stale (lock_of key rows) (trace_of key (swept_actions now rows rows')) = Some (lock_of key rows')"
proof -
  let ?hit = "\<lambda>r. List.member (map (\<lambda>r. (we_provider r, we_event r)) (stale_rows stale now limit rows)) (we_provider r, we_event r)"
  let ?f = "\<lambda>r. if ?hit r then swept now r else r"
  have rows': "rows' = map ?f rows" using assms(1) by (simp add: reclaimStaleProcessing_def Let_def)
  have keys: "key_of (?f r) = key_of r" for r by simp
  have hit: "we_status r = WProcessing \<and> claim_stale stale now r" if "r \<in> set rows" "?hit r" for r
  proof -
    from that(2) obtain r' where r': "r' \<in> set (stale_rows stale now limit rows)" "key_of r' = key_of r"
      by (auto simp: key_of_def)
    then have "r' \<in> set rows \<and> we_status r' = WProcessing \<and> claim_stale stale now r'"
      by (auto simp: stale_rows_def dest!: in_set_takeD)
    moreover from this have "r' = r" using assms(2) that(1) r'(2) by (auto simp: events_unique_def distinct_map key_of_def dest: inj_onD)
    ultimately show ?thesis by simp
  qed
  have u: "events_unique rows'" using assms(2) keys_map [of ?f rows, OF keys] by (simp add: rows')
  have t: "trace_of key (swept_actions now rows rows') =
      (case find (is_event (fst key) (snd key)) rows of None \<Rightarrow> [] | Some r \<Rightarrow> if ?hit r \<and> we_status r = WProcessing then [Expire now] else [])"
    unfolding rows' swept_actions_map by (rule trace_of_rows [OF assms(2)])
  have l: "lock_of key rows' = (case find (is_event (fst key) (snd key)) rows of None \<Rightarrow> Open | Some r \<Rightarrow> lock_of_row (?f r))"
    unfolding rows' by (rule lock_of_map [of ?f, OF keys])
  show ?thesis
  proof (cases "find (is_event (fst key) (snd key)) rows")
    case None
    then show ?thesis using u t l by (simp add: lock_of_def)
  next
    case (Some r)
    then have k: "lock_of key rows = lock_of_row r" and m: "r \<in> set rows" using find_SomeD [OF Some] by (simp_all add: lock_of_def)
    show ?thesis
    proof (cases "?hit r")
      case True
      then show ?thesis using u t l k Some hit [OF m True] by (simp add: lock_of_row_def [of r] claim_stale_def)
    qed (use u t l k Some in simp)
  qed
qed


section \<open>The protocol refines the lock\<close>

lemma run_unique: "webhook_run stale rows0 tr rows \<Longrightarrow> events_unique rows0 \<Longrightarrow> events_unique rows"
proof (induction rule: webhook_run.induct)
  case (first_claim tr rows token now inp result rows')
  then show ?case using claim_insert_step by blast
next
  case (second_claim tr rows token before now inp result rows')
  then show ?case using claim_again_step by blast
next
  case (mark tr rows now provider eid status reason token answer rows')
  then show ?case using mark_step by blast
next
  case (sweep tr rows now limit n rows')
  then show ?case using sweep_step by blast
qed

lemma run_lock:
  assumes "webhook_run stale rows0 tr rows" and "events_unique rows0"
  shows "lock_run stale (lock_of key rows0) (trace_of key tr) = Some (lock_of key rows)"
  using assms
proof (induction rule: webhook_run.induct)
  case (first_claim tr rows token now inp result rows')
  then show ?case using claim_insert_step [OF first_claim(3)] run_unique by (simp add: lock_run_append)
next
  case (second_claim tr rows token before now inp result rows')
  then show ?case using claim_again_step [OF second_claim(4)] run_unique by (simp add: lock_run_append)
next
  case (mark tr rows now provider eid status reason token answer rows')
  then show ?case using mark_step [OF mark(2)] run_unique by (simp only: lock_run_append trace_of_simps) simp
next
  case (sweep tr rows now limit n rows')
  then show ?case using sweep_step [OF sweep(2)] run_unique by (simp add: lock_run_append)
qed simp

text \<open>C34: The claim protocol is a lease lock: whatever processors, redeliveries and sweeps interleave, the
  actions on every event are a run of the abstract lock, which opens a lease only when the event is open
  or its lease is stale, lets only the current token finish, and never leaves the closed state.\<close>

theorem webhook_refines_lock:
  assumes "webhook_run stale rows0 tr rows" and "events_unique rows0"
  shows "lock_run stale (lock_of key rows0) (trace_of key tr) = Some (lock_of key rows)"
  by (rule run_lock [OF assms])

fun claim_tokens :: "lock_action list \<Rightarrow> string list" where
  "claim_tokens [] = []"
| "claim_tokens (Acquire now t # as) = t # claim_tokens as"
| "claim_tokens (a # as) = claim_tokens as"

fun finish_tokens :: "lock_action list \<Rightarrow> string list" where
  "finish_tokens [] = []"
| "finish_tokens (Finish t s # as) = (if s = WProcessing then finish_tokens as else t # finish_tokens as)"
| "finish_tokens (a # as) = finish_tokens as"

fun acknowledges :: "lock_action \<Rightarrow> bool" where
  "acknowledges (Finish t s) \<longleftrightarrow> s = WProcessed \<or> s = WIgnored"
| "acknowledges _ \<longleftrightarrow> False"

definition held_token :: "lock \<Rightarrow> string set" where
  "held_token l = (case l of Held (Some t) since \<Rightarrow> {t} | _ \<Rightarrow> {})"

lemma lock_acknowledged_once:
  "lock_run stale l as = Some l' \<Longrightarrow> length (filter acknowledges as) \<le> (if l = Closed then 0 else 1)"
proof (induction as arbitrary: l)
  case (Cons a as)
  obtain l1 where step: "lock_step stale l a = Some l1" and rest: "lock_run stale l1 as = Some l'"
    using Cons.prems by (auto split: option.splits)
  show ?case
    using Cons.IH [OF rest] step by (cases l; cases a) (auto split: if_splits)
qed simp

lemma lock_tokens_once:
  "lock_run stale l as = Some l' \<Longrightarrow> distinct (claim_tokens as) \<Longrightarrow> held_token l \<inter> set (claim_tokens as) = {} \<Longrightarrow>
   distinct (finish_tokens as) \<and> set (finish_tokens as) \<subseteq> held_token l \<union> set (claim_tokens as)"
proof (induction as arbitrary: l)
  case (Cons a as)
  obtain l1 where step: "lock_step stale l a = Some l1" and rest: "lock_run stale l1 as = Some l'"
    using Cons.prems by (auto split: option.splits)
  note IH = Cons.IH [OF rest]
  show ?case
  proof (cases a)
    case (Acquire now t)
    then have "l1 = Held (Some t) now" using step by (cases l) (auto split: if_splits)
    then show ?thesis using IH Cons.prems Acquire by (auto simp: held_token_def)
  next
    case (Finish t s)
    then obtain since where "l = Held (Some t) since" "l1 = (if s = WProcessed \<or> s = WIgnored then Closed
        else if s = WProcessing then Held (Some t) since else Open)"
      using step by (cases l) (auto split: if_splits)
    then show ?thesis using IH Cons.prems Finish by (auto simp: held_token_def split: if_splits)
  next
    case (Expire now)
    then have "l1 = Open" using step by (cases l) (auto split: if_splits)
    then show ?thesis using IH Cons.prems Expire by (auto simp: held_token_def)
  qed
qed simp

lemma claim_tokens_append [simp]: "claim_tokens (as @ bs) = claim_tokens as @ claim_tokens bs"
  by (induction as rule: claim_tokens.induct) simp_all

lemma claim_tokens_sweep: "claim_tokens (map snd (swept_actions now rows rows')) = []"
proof -
  have "claim_tokens (map snd (map (\<lambda>(r, r'). (k r, Expire now)) xs)) = []" for k :: "webhook_row \<Rightarrow> string \<times> string" and xs
    by (induction xs) auto
  then show ?thesis by (simp add: swept_actions_def)
qed

lemma in_claim_tokens: "t \<in> set (claim_tokens as) \<longleftrightarrow> (\<exists>now. Acquire now t \<in> set as)"
  by (induction as rule: claim_tokens.induct) auto

lemma webhook_run_tokens:
  "webhook_run stale rows0 tr rows \<Longrightarrow> distinct (claim_tokens (map snd tr))
     \<and> (\<forall>t \<in> set (claim_tokens (map snd tr)). \<forall>r \<in> set rows0. we_token r \<noteq> Some t)"
  by (induction rule: webhook_run.induct)
    (auto simp: claimed_actions_def claim_tokens_sweep fresh_token_def in_claim_tokens split: if_splits)

lemma claim_tokens_filter:
  "distinct (claim_tokens (map snd tr)) \<Longrightarrow> distinct (claim_tokens (trace_of key tr))"
  "set (claim_tokens (trace_of key tr)) \<subseteq> set (claim_tokens (map snd tr))"
proof -
  show sub: "set (claim_tokens (trace_of key tr)) \<subseteq> set (claim_tokens (map snd tr))" for tr :: lock_trace
    by (force simp: trace_of_def in_claim_tokens)
  show "distinct (claim_tokens (map snd tr)) \<Longrightarrow> distinct (claim_tokens (trace_of key tr))"
  proof (induction tr)
    case (Cons a tr)
    obtain k act where [simp]: "a = (k, act)" by (cases a)
    show ?case using Cons sub [of tr] by (cases act) auto
  qed simp
qed

text \<open>No provider event is acknowledged twice and no claim finishes twice: in any run, an event reaches
  processed or ignored at most once, and the tokens that finish it are pairwise distinct, so a processor
  that stalled and was replaced is fenced out.\<close>

theorem webhook_acknowledged_once:
  assumes "webhook_run stale rows0 tr rows" and "events_unique rows0"
  shows "length (filter acknowledges (trace_of key tr)) \<le> 1 \<and> distinct (finish_tokens (trace_of key tr))"
proof -
  note run = run_lock [OF assms, of key]
  note fresh = webhook_run_tokens [OF assms(1)] and sub = claim_tokens_filter [where tr = tr and key = key]
  have "held_token (lock_of key rows0) \<inter> set (claim_tokens (trace_of key tr)) = {}"
    using fresh sub(2)
    by (auto simp: lock_of_def lock_of_row_def held_token_def dest!: find_SomeD split: option.splits webhook_status.splits)
  then show ?thesis using lock_acknowledged_once [OF run] lock_tokens_once [OF run] sub(1) fresh by (auto split: if_splits)
qed

lemma claim_admitted:
  assumes "claimEvent stale now token inp rows = (result, rows')" and "events_unique rows"
    and "lock_of (input_key inp) rows \<noteq> Closed"
    and "\<And>h since. lock_of (input_key inp) rows = Held h since \<Longrightarrow> since \<le> now - stale"
  shows "cl_should_process result \<and> cl_token result = Some token
    \<and> (\<exists>r. fst (markEvent later (wi_provider inp) (wi_event inp) status reason (cl_token result) rows') = Some r \<and> we_status r = status)"
proof -
  have finishable: "\<exists>r. fst (markEvent later (wi_provider inp) (wi_event inp) status reason (Some token) rows') = Some r \<and> we_status r = status"
    if "r \<in> set rows'" "held_with (wi_provider inp) (wi_event inp) (Some token) r" for r
  proof (cases "find (held_with (wi_provider inp) (wi_event inp) (Some token)) rows'")
    case None
    then show ?thesis using that by (auto simp: find_None_iff)
  qed (simp add: markEvent_def finished_def)
  show ?thesis
  proof (cases "find (is_event (wi_provider inp) (wi_event inp)) rows")
    case None
    then have "claimEvent stale now token inp rows = claim_insert now token inp rows"
      by (simp add: claimEvent_def claim_insert_def claim_again_def)
    then have "cl_should_process result \<and> cl_token result = Some token
        \<and> (\<exists>r \<in> set rows'. held_with (wi_provider inp) (wi_event inp) (Some token) r)"
      using assms(1) None by (auto simp: claim_insert_def held_with_def is_event_def)
    then show ?thesis using finishable by auto
  next
    case (Some r)
    then have l: "lock_of (input_key inp) rows = lock_of_row r" by (simp add: lock_of_def input_key_def)
    then have rec: "reclaimable_event stale now r" and open_status: "we_status r \<noteq> WProcessed \<and> we_status r \<noteq> WIgnored"
      using assms(3,4) by (cases "we_status r"; auto simp: lock_of_row_def reclaimable_event_def claim_stale_def)+
    let ?P = "\<lambda>r. is_event (wi_provider inp) (wi_event inp) r \<and> reclaimable_event stale now r"
    have "find ?P rows = Some r" unfolding unique_find [OF assms(2)] using Some rec by simp
    then have "cl_should_process result" "cl_token result = Some token"
      and rows': "rows' = map (\<lambda>r. if ?P r then reclaimed now token inp r else r) rows"
      using assms(1) Some open_status by (auto simp: claimEvent_def claim_insert_def claim_again_def Let_def)
    moreover have "reclaimed now token inp r \<in> set rows'"
      using find_SomeD [OF Some] rec unfolding rows' by force
    moreover have "held_with (wi_provider inp) (wi_event inp) (Some token) (reclaimed now token inp r)"
      using find_SomeD [OF Some] by (simp add: held_with_def reclaimed_def is_event_def)
    ultimately show ?thesis using finishable by simp
  qed
qed

lemma claim_holds:
  assumes "claimEvent stale now token inp rows = (result, rows')" and "events_unique rows" and "cl_should_process result"
  shows "events_unique rows' \<and> cl_token result = Some token \<and> lock_of (input_key inp) rows' = Held (Some token) now"
proof -
  obtain res1 rows1 where c1: "claim_insert now token inp rows = (res1, rows1)"
    and c2: "claim_again stale now token inp res1 rows1 = (result, rows')"
    using assms(1) by (auto simp: claimEvent_def split: prod.splits)
  note s1 = claim_insert_step [OF c1 assms(2), of stale "input_key inp"]
  show ?thesis
  proof (cases "cl_duplicate res1")
    case False
    then have same: "result = res1" "rows' = rows1" using c2 by (simp_all add: claim_again_def)
    have "cl_token res1 = Some token" using c1 False by (auto simp: claim_insert_def split: option.splits)
    then show ?thesis using s1 same by (cases "lock_of (input_key inp) rows") (auto simp: claimed_actions_def split: if_splits)
  next
    case True
    then have "cl_token res1 = None" "\<not> cl_should_process res1"
      using c1 by (auto simp: claim_insert_def split: option.splits)
    moreover have "cl_token result = Some token" if "result \<noteq> res1"
      using c2 that by (auto simp: claim_again_def Let_def split: if_split_asm option.split_asm)
    ultimately have t: "cl_token result = Some token" using assms(3) by auto
    then show ?thesis using claim_again_step [OF c2 conjunct1 [OF s1], of "input_key inp"] \<open>cl_token res1 = None\<close>
      by (cases "lock_of (input_key inp) rows1") (auto simp: claimed_actions_def split: if_splits)
  qed
qed

text \<open>An event marked failed by its claimant is open again.\<close>

lemma failed_reopens:
  assumes "events_unique rows" and "lock_of (provider, eid) rows = Held (Some token) since"
  shows "lock_of (provider, eid) (snd (markEvent now provider eid WFailed reason (Some token) rows)) = Open"
proof -
  obtain r where r: "find (is_event provider eid) rows = Some r" "we_status r = WProcessing" "we_token r = Some token"
    using assms(2) by (auto simp: lock_of_def lock_of_row_def split: option.splits webhook_status.splits)
  then have "find (held_with provider eid (Some token)) rows \<noteq> None"
    using find_SomeD [OF r(1)] by (auto simp: find_None_iff held_with_def)
  then have "fst (markEvent now provider eid WFailed reason (Some token) rows) \<noteq> None" by (simp add: markEvent_def)
  then have "lock_run 0 (lock_of (provider, eid) rows) [Finish token WFailed] =
      Some (lock_of (provider, eid) (snd (markEvent now provider eid WFailed reason (Some token) rows)))"
    using mark_step [OF prod.collapse [symmetric] assms(1), where stale = 0 and key = "(provider, eid)"
        and provider = provider and eid = eid and status = WFailed and reason = reason and token = token and now = now]
    by (simp del: not_None_eq lock_run.simps)
  then show ?thesis unfolding assms(2) by simp
qed

text \<open>C35: No provider event is swallowed: a delivery of an event that is new, pending, failed, or claimed by a
  processor that has been silent for the stale bound, is handed to the caller for processing, with a
  claim that the caller can finish.\<close>

theorem webhook_never_swallowed:
  assumes "claimEvent stale now token inp rows = (result, rows')" and "events_unique rows"
    and "lock_of (input_key inp) rows \<noteq> Closed"
    and "\<And>h since. lock_of (input_key inp) rows = Held h since \<Longrightarrow> since \<le> now - stale"
  shows "cl_should_process result \<and> cl_token result = Some token
    \<and> (\<exists>r. fst (markEvent later (wi_provider inp) (wi_event inp) status reason (cl_token result) rows') = Some r \<and> we_status r = status)"
  by (rule claim_admitted [OF assms])

lemma resolveStaleMs_min: "60000 \<le> resolveStaleMs explicit env"
  by (simp add: resolveStaleMs_def Let_def MIN_WEBHOOK_PROCESSING_STALE_MS_def)

section \<open>Witnesses\<close>

definition delivery :: webhook_input where
  "delivery = \<lparr>wi_provider = ''grow'', wi_event = ''evt1'', wi_payload = ''{}'', wi_deal = Some ''d1'', wi_participant = Some ''p1''\<rparr>"

definition rows_claimed :: "webhook_row list" where
  "rows_claimed = snd (claim_insert 1000 ''t1'' delivery [])"

definition rows_taken_over :: "webhook_row list" where
  "rows_taken_over = snd (claimEvent 60000 70000 ''t2'' delivery rows_claimed)"

lemma no_events: "events_unique []"
  by (simp add: events_unique_def)

lemma delivery_run: "webhook_run 60000 [] [((''grow'', ''evt1''), Acquire 1000 ''t1'')] rows_claimed"
proof -
  obtain result where c: "claim_insert 1000 ''t1'' delivery [] = (result, rows_claimed)" and t: "cl_token result = Some ''t1''"
    by (simp add: rows_claimed_def claim_insert_def)
  have "webhook_run 60000 [] ([] @ claimed_actions 1000 ''t1'' delivery result) rows_claimed"
    by (rule first_claim [OF begin_webhooks _ c]) (simp add: fresh_token_def)
  then show ?thesis by (simp add: claimed_actions_def t input_key_def delivery_def)
qed

lemma delivery_finished:
  "webhook_run 60000 [] [((''grow'', ''evt1''), Acquire 1000 ''t1''), ((''grow'', ''evt1''), Finish ''t1'' WProcessed)]
     (snd (markEvent 2000 ''grow'' ''evt1'' WProcessed None (Some ''t1'') rows_claimed))"
proof -
  have "fst (markEvent 2000 ''grow'' ''evt1'' WProcessed None (Some ''t1'') rows_claimed) \<noteq> None" by code_simp
  then show ?thesis
    using webhook_run.mark [OF delivery_run, of 2000 "''grow''" "''evt1''" WProcessed None "''t1''", OF prod.collapse [symmetric]] by (simp del: not_None_eq)
qed

lemma webhook_refines_lock_witness:
  "lock_run 60000 Open [Acquire 1000 ''t1'', Finish ''t1'' WProcessed] =
     Some (lock_of (''grow'', ''evt1'') (snd (markEvent 2000 ''grow'' ''evt1'' WProcessed None (Some ''t1'') rows_claimed)))"
  using webhook_refines_lock [OF delivery_finished no_events, of "(''grow'', ''evt1'')"] by (simp add: lock_of_def)

lemma webhook_acknowledged_once_witness: "length (filter acknowledges [Acquire 1000 ''t1'', Finish ''t1'' WProcessed]) \<le> 1"
  using webhook_acknowledged_once [OF delivery_finished no_events, of "(''grow'', ''evt1'')"] by simp

lemma webhook_never_swallowed_witness:
  "cl_should_process (fst (claimEvent 60000 70000 ''t2'' delivery rows_claimed))"
proof -
  have "claimEvent 60000 70000 ''t2'' delivery rows_claimed = (fst (claimEvent 60000 70000 ''t2'' delivery rows_claimed), rows_taken_over)"
    by (simp add: rows_taken_over_def)
  moreover have "events_unique rows_claimed" by (simp add: events_unique_def rows_claimed_def claim_insert_def)
  moreover have "lock_of (input_key delivery) rows_claimed = Held (Some ''t1'') 1000" by code_simp
  ultimately show ?thesis using webhook_never_swallowed [of 60000 70000 "''t2''" delivery rows_claimed _ rows_taken_over] by simp
qed

end
