(* ===== verification/PaymentEvents.thy ===== *)
theory PaymentEvents
  imports FeeLedger AttemptRuns WebhookClaims
begin

text \<open>
  Provider events from delivery to committed money truth: \<open>src/payment_reconciliation.ts\<close> (which
  participant and operation an event is about, and what it may do) and the part of \<open>src/app.ts\<close> that
  applies it (\<open>applyPaymentWebhookClassification\<close>, \<open>recordLateMoneyEffectException\<close>,
  \<open>ingestAndProcessPaymentEvent\<close>). The database joins the tables of the lifecycle, the attempt ledger,
  the fee ledger and the webhook claims with the operator cases. The texts of cases and notes that only
  an operator reads are not modelled; a case is its key. Notifications and the scheduling of a release
  after the commit are returned as follow-ups: the code sends them best-effort.
\<close>

section \<open>Events, targets and cases\<close>

record event_payload =
  pl_amount_minor :: jsval
  pl_amount_received :: jsval
  pl_currency :: jsval
  pl_source :: jsval

record provider_event =
  pe_provider :: string
  pe_event :: string
  pe_type :: string
  pe_correlation :: "string option"
  pe_participant :: "string option"
  pe_deal :: "string option"
  pe_reference :: "string option"
  pe_payload :: event_payload

record reconciliation_target =
  rt_participant :: string
  rt_deal :: string
  rt_type :: attempt_type
  rt_correlation :: "string option"
  rt_buyer :: buyer_state
  rt_money :: money_state
  rt_unverified :: bool

text \<open>
  The keys of the cases; the code truncates them to 200 characters and hashes the set of identities.
  \<open>KeyedCase\<close> is a key the payment rails write out.
\<close>

datatype case_key =
    AmountMismatch string string string
  | LateEffect string string
  | DualCapture string "string set"
  | KeyedCase string

record case_row =
  oc_key :: case_key
  oc_open :: bool
  oc_correlation :: "string option"

text \<open>\<open>payment_authorization_bindings\<close>: amount and currency of the binding a participant consumed.\<close>

record money_db = payment_db +
  md_fees :: fee_db
  md_cases :: "case_row list"
  md_webhooks :: "webhook_row list"
  md_bindings :: "string \<Rightarrow> (int option \<times> string option) option"

text \<open>\<open>a || b\<close> on texts.\<close>

definition text_or :: "string option \<Rightarrow> string option \<Rightarrow> string option" where
  "text_or a b = (case a of None \<Rightarrow> b | Some s \<Rightarrow> if s = '''' then b else Some s)"

definition or_null :: "string option \<Rightarrow> string option" where
  "or_null a = text_or a None"

definition openPaymentOperationalCaseInTx :: "case_key \<Rightarrow> string option \<Rightarrow> case_row list \<Rightarrow> case_row list" where
  "openPaymentOperationalCaseInTx key correlation rows =
     (if list_ex (\<lambda>r. oc_key r = key \<and> oc_open r) rows then rows
      else rows @ [\<lparr>oc_key = key, oc_open = True, oc_correlation = or_null correlation\<rparr>])"

section \<open>Which operation an event is about\<close>

definition MONEY_OPERATION_EVENTS :: "string list" where
  "MONEY_OPERATION_EVENTS = [''charge_captured'', ''charge_failed'', ''recovery_captured'', ''recovery_failed'', ''refund_issued'']"

definition isMoneyOperationEvent :: "string \<Rightarrow> bool" where
  "isMoneyOperationEvent eventType = List.member MONEY_OPERATION_EVENTS eventType"

definition correlationFamilyMatches :: "string \<Rightarrow> attempt_type \<Rightarrow> bool" where
  "correlationFamilyMatches eventType t \<longleftrightarrow>
     (if eventType = ''charge_captured'' \<or> eventType = ''charge_failed'' then t = A_ChargeStart
      else if eventType = ''recovery_captured'' \<or> eventType = ''recovery_failed'' then t = A_Recovery
      else if eventType = ''refund_issued'' then t = A_Refund \<or> t = A_CancelRefund
      else True)"

definition attemptTypeFromEventType :: "string \<Rightarrow> attempt_type option" where
  "attemptTypeFromEventType eventType =
     (if eventType = ''charge_captured'' \<or> eventType = ''charge_failed'' then Some A_ChargeStart
      else if eventType = ''recovery_captured'' \<or> eventType = ''recovery_failed'' then Some A_Recovery
      else if eventType = ''refund_issued'' then Some A_Refund
      else None)"

definition inferredAttemptType :: "string \<Rightarrow> participant \<Rightarrow> attempt_type" where
  "inferredAttemptType eventType s =
     (case attemptTypeFromEventType eventType of
        Some t \<Rightarrow> t
      | None \<Rightarrow>
          if pt_money s = M_ChargedSuccess \<or> pt_money s = M_RecoveredCharge \<or> pt_money s = M_Refunded then A_Refund
          else if pt_buyer s = B_ChargeFailedCompletion \<or> pt_money s = M_ChargeFailedRecovery then A_Recovery
          else A_ChargeStart)"

text \<open>The newest attempt with the correlation the event names, joined with its participant.\<close>

definition named_correlation :: "provider_event \<Rightarrow> string option" where
  "named_correlation ev = or_null (pe_correlation ev)"

definition fromAttempt :: "provider_event \<Rightarrow> 'a payment_db_scheme \<Rightarrow> attempt_row option" where
  "fromAttempt ev db =
     (case named_correlation ev of
        None \<Rightarrow> None
      | Some c \<Rightarrow> find (\<lambda>r. pa_correlation r = c \<and> ld_participants db (pa_participant r) \<noteq> None) (rev (pd_attempts db)))"

definition participant_target :: "provider_event \<Rightarrow> bool \<Rightarrow> 'a payment_db_scheme \<Rightarrow> reconciliation_target option" where
  "participant_target ev unverified db =
     (case or_null (pe_participant ev) of
        None \<Rightarrow> None
      | Some p \<Rightarrow>
          (case ld_participants db p of
             None \<Rightarrow> None
           | Some s \<Rightarrow>
               let t = inferredAttemptType (pe_type ev) s;
                   types = (if t = A_Refund then [A_Refund, A_CancelRefund] else [t]);
                   latest = find (\<lambda>r. List.member types (pa_type r)) (rev (loadRows p (pt_deal s) db))
               in Some \<lparr>rt_participant = p, rt_deal = pt_deal s,
                    rt_type = (case latest of None \<Rightarrow> t | Some r \<Rightarrow> pa_type r),
                    rt_correlation = (case pe_correlation ev of Some c \<Rightarrow> Some c | None \<Rightarrow> map_option pa_correlation latest),
                    rt_buyer = pt_buyer s, rt_money = pt_money s, rt_unverified = unverified\<rparr>))"

definition resolveTarget :: "provider_event \<Rightarrow> 'a payment_db_scheme \<Rightarrow> reconciliation_target option" where
  "resolveTarget ev db =
     (case fromAttempt ev db of
        Some r \<Rightarrow>
          if correlationFamilyMatches (pe_type ev) (pa_type r)
          then (case ld_participants db (pa_participant r) of
                  None \<Rightarrow> None
                | Some s \<Rightarrow> Some \<lparr>rt_participant = pa_participant r, rt_deal = pa_deal r, rt_type = pa_type r,
                    rt_correlation = Some (pa_correlation r), rt_buyer = pt_buyer s, rt_money = pt_money s, rt_unverified = False\<rparr>)
          else participant_target ev False db
      | None \<Rightarrow> participant_target ev (named_correlation ev \<noteq> None \<and> isMoneyOperationEvent (pe_type ev)) db)"

section \<open>What an event may do\<close>

type_synonym classification = "webhook_status \<times> string"

definition classifyEventUnchecked :: "string \<Rightarrow> reconciliation_target option \<Rightarrow> classification" where
  "classifyEventUnchecked eventType target =
     (if eventType = ''payment_authorized'' \<or> eventType = ''payment_failed'' then (WProcessed, ''authorization_event_recorded'')
      else case target of
        None \<Rightarrow> (WFailed, ''missing_correlation_target'')
      | Some t \<Rightarrow>
          if eventType = ''charge_captured''
          then (if rt_buyer t = B_ChargedSuccess \<and> rt_money t = M_ChargedSuccess then (WIgnored, ''already_captured'')
                else if rt_buyer t \<noteq> B_ChargingAttempt \<or> rt_money t \<noteq> M_ChargeAttempt then (WIgnored, ''not_waiting_for_charge_capture'')
                else (WProcessed, ''capture_success''))
          else if eventType = ''charge_failed''
          then (if rt_buyer t = B_ChargeFailedCompletion \<and> rt_money t = M_ChargeFailedRecovery then (WIgnored, ''already_marked_charge_failed'')
                else if rt_buyer t \<noteq> B_ChargingAttempt \<or> rt_money t \<noteq> M_ChargeAttempt then (WIgnored, ''not_waiting_for_charge_failure'')
                else (WProcessed, ''capture_failed''))
          else if eventType = ''recovery_captured''
          then (if rt_buyer t = B_Recovered \<and> rt_money t = M_RecoveredCharge then (WIgnored, ''already_recovered'')
                else if rt_buyer t \<noteq> B_ChargeFailedCompletion \<or> rt_money t \<noteq> M_ChargeFailedRecovery then (WIgnored, ''not_waiting_for_recovery_success'')
                else (WProcessed, ''recovery_success''))
          else if eventType = ''recovery_failed''
          then (if rt_buyer t = B_Dropped then (WIgnored, ''already_recovery_failed'')
                else if rt_buyer t \<noteq> B_ChargeFailedCompletion \<or> rt_money t \<noteq> M_ChargeFailedRecovery then (WIgnored, ''not_waiting_for_recovery_failure'')
                else (WProcessed, ''recovery_failed''))
          else if eventType = ''refund_issued''
          then (if rt_money t = M_Refunded then (WIgnored, ''already_refunded'')
                else if rt_money t \<noteq> M_ChargedSuccess \<and> rt_money t \<noteq> M_RecoveredCharge then (WIgnored, ''not_waiting_for_refund'')
                else (WProcessed, ''refund_issued''))
          else (WIgnored, ''unsupported_event_type''))"

definition classifyEvent :: "string \<Rightarrow> reconciliation_target option \<Rightarrow> classification" where
  "classifyEvent eventType target =
     (let verdict = classifyEventUnchecked eventType target
      in if fst verdict = WProcessed \<and> (case target of None \<Rightarrow> False | Some t \<Rightarrow> rt_unverified t) \<and> isMoneyOperationEvent eventType
         then (WFailed, ''unverified_correlation'') else verdict)"

section \<open>Late effects\<close>

text \<open>
  \<open>readCaptureSideIdentityEvidence\<close>: the distinct capture-side operations known to be executed, the
  reported one included, and whether the provider had declined exactly the reported request.
  \<open>readable\<close> says whether the read succeeded.
\<close>

datatype capture_evidence = Unreadable | Confirmed "string set" bool

definition identity_text :: "attempt_type \<Rightarrow> string \<Rightarrow> string" where
  "identity_text t c = type_name t @ '':'' @ c"

definition reported_correlation :: "provider_event \<Rightarrow> reconciliation_target \<Rightarrow> string" where
  "reported_correlation ev target =
     js_trim (case text_or (pe_correlation ev) (rt_correlation target) of None \<Rightarrow> '''' | Some c \<Rightarrow> c)"

definition reported_identity :: "provider_event \<Rightarrow> reconciliation_target \<Rightarrow> string set" where
  "reported_identity ev target =
     (if reported_correlation ev target = '''' then {}
      else if pe_type ev = ''charge_captured'' then {identity_text A_ChargeStart (reported_correlation ev target)}
      else if pe_type ev = ''recovery_captured'' then {identity_text A_Recovery (reported_correlation ev target)}
      else {})"

definition readCaptureSideIdentityEvidence ::
    "bool \<Rightarrow> reconciliation_target \<Rightarrow> provider_event \<Rightarrow> 'a payment_db_scheme \<Rightarrow> capture_evidence" where
  "readCaptureSideIdentityEvidence readable target ev db =
     (if \<not> readable then Unreadable
      else let rows = loadRows (rt_participant target) (rt_deal target) db;
               executed = set (map (\<lambda>r. identity_text (pa_type r) (pa_correlation r))
                 (filter (\<lambda>r. capture_side (pa_type r) \<and> pa_result r = R_Success) rows));
               reported = reported_correlation ev target;
               reportedRow = (if reported = '''' then None
                 else find (\<lambda>r. pa_correlation r = reported \<and> pa_type r = rt_type target) rows)
           in Confirmed (executed \<union> reported_identity ev target)
                (case reportedRow of
                   None \<Rightarrow> False
                 | Some r \<Rightarrow> pa_result r = R_PermanentFail
                     \<and> (pa_evidence r = Some EV_DispatchResponse \<or> pa_evidence r = Some EV_Operator)))"

definition lateEffectFamilyMatches :: "string \<Rightarrow> attempt_type \<Rightarrow> bool" where
  "lateEffectFamilyMatches eventType t \<longleftrightarrow>
     (eventType = ''charge_captured'' \<and> t = A_ChargeStart) \<or> (eventType = ''recovery_captured'' \<and> t = A_Recovery)
     \<or> (eventType = ''refund_issued'' \<and> (t = A_Refund \<or> t = A_CancelRefund))"

definition is_capture_event :: "string \<Rightarrow> bool" where
  "is_capture_event eventType \<longleftrightarrow> eventType = ''charge_captured'' \<or> eventType = ''recovery_captured''"

definition capturedMoneyStates :: "money_state list" where
  "capturedMoneyStates = [M_ChargedSuccess, M_RecoveredCharge, M_Refunded]"

definition late_correlation :: "provider_event \<Rightarrow> reconciliation_target \<Rightarrow> string option" where
  "late_correlation ev target =
     (if lateEffectFamilyMatches (pe_type ev) (rt_type target) then or_null (text_or (pe_correlation ev) (rt_correlation target)) else None)"

definition late_contradiction :: "provider_event \<Rightarrow> reconciliation_target \<Rightarrow> string set \<Rightarrow> bool" where
  "late_contradiction ev target identities \<longleftrightarrow>
     (is_capture_event (pe_type ev) \<and> \<not> List.member capturedMoneyStates (rt_money target))
     \<or> 2 \<le> card identities
     \<or> (pe_type ev = ''refund_issued'' \<and> rt_money target \<noteq> M_Refunded)"

definition late_case :: "provider_event \<Rightarrow> reconciliation_target \<Rightarrow> string set \<Rightarrow> case_key" where
  "late_case ev target identities =
     (if 2 \<le> card identities then DualCapture (rt_participant target) identities
      else LateEffect (rt_participant target) (pe_type ev))"

definition recordLateMoneyEffectException ::
    "bool \<Rightarrow> int \<Rightarrow> provider_event \<Rightarrow> reconciliation_target \<Rightarrow> string \<Rightarrow> 'a money_db_scheme \<Rightarrow> lifecycle_error + 'a money_db_scheme" where
  "recordLateMoneyEffectException readable now ev target reason db =
     (case (if is_capture_event (pe_type ev) then readCaptureSideIdentityEvidence readable target ev db else Confirmed {} False) of
        Unreadable \<Rightarrow> Inl (BodyRejected ''payment_dual_capture_evidence_unavailable'')
      | Confirmed identities declined \<Rightarrow>
          if \<not> late_contradiction ev target identities then Inr db
          else on_ok (case late_correlation ev target of
                 None \<Rightarrow> Inr db
               | Some c \<Rightarrow>
                   on_ok (settleAttemptInTx now (rt_participant target) (rt_deal target) (rt_type target) c R_Success
                     (pe_reference ev) None (Some (''late_money_effect:'' @ pe_type ev @ '':'' @ reason)) db) (\<lambda>(a, db'). Inr db')) (\<lambda>db1.
               Inr (db1\<lparr>md_cases := openPaymentOperationalCaseInTx (late_case ev target identities)
                      (late_correlation ev target) (md_cases db1)\<rparr>)))"

section \<open>The money an event declares\<close>

definition paymentMinorAmount :: "jsnum \<Rightarrow> jsnum \<Rightarrow> jsnum \<Rightarrow> jsnum" where
  "paymentMinorAmount qty pricePerUnit deliveryCost =
     (let total = js_add (js_mul qty pricePerUnit) deliveryCost in js_max (Fin 0) (js_round (js_mul total (Fin 100))))"

definition nullish :: "jsval \<Rightarrow> bool" where
  "nullish v \<longleftrightarrow> v = JUndef \<or> v = JNull"

definition upper_char :: "char \<Rightarrow> char" where
  "upper_char c = (if 97 \<le> (of_char c :: nat) \<and> (of_char c :: nat) \<le> 122
                   then char_of (of_char c - 32 :: nat) else c)"

text \<open>\<open>String(v)\<close> of a value that is not nullish; the text of a number is the argument.\<close>

definition js_text :: "(jsnum \<Rightarrow> string) \<Rightarrow> jsval \<Rightarrow> string" where
  "js_text number_text v =
     (case v of JStr s \<Rightarrow> s | JNum n \<Rightarrow> number_text n | JBool b \<Rightarrow> if b then ''true'' else ''false''
      | JObj \<Rightarrow> ''[object Object]'' | _ \<Rightarrow> '''')"

record declared_money =
  dm_amount_minor :: "jsnum option"
  dm_currency :: "string option"
  dm_malformed :: bool

definition declaredEventMoney :: "(jsnum \<Rightarrow> string) \<Rightarrow> event_payload \<Rightarrow> declared_money" where
  "declaredEventMoney number_text source =
     (let rawAmount = (if nullish (pl_amount_minor source) then pl_amount_received source else pl_amount_minor source);
          rawCurrency = pl_currency source;
          parsed = (case rawAmount of JNum n \<Rightarrow> n | v \<Rightarrow> number_of_string (js_trim (js_text number_text v)));
          declared = \<not> nullish rawAmount \<and> rawAmount \<noteq> JStr '''';
          valid = is_integer parsed \<and> js_le (Fin 0) parsed;
          currency = js_trim (js_text number_text rawCurrency)
      in \<lparr>dm_amount_minor = (if declared \<and> valid then Some parsed else None),
          dm_currency = (if \<not> nullish rawCurrency \<and> currency \<noteq> '''' then Some (map upper_char currency) else None),
          dm_malformed = (declared \<and> \<not> valid)\<rparr>)"

definition expectedCaptureObligation :: "string \<Rightarrow> string \<Rightarrow> 'a money_db_scheme \<Rightarrow> jsnum option \<times> string" where
  "expectedCaptureObligation participant deal db =
     (case fd_participants (md_fees db) participant of
        None \<Rightarrow> (None, ''ILS'')
      | Some row \<Rightarrow>
          if cr_deal row \<noteq> deal then (None, ''ILS'')
          else let own = paymentMinorAmount (cr_qty row) (cr_price row) (cr_delivery row)
            in case md_bindings db participant of
                 None \<Rightarrow> (Some own, ''ILS'')
               | Some (amount, currency) \<Rightarrow>
                   (Some (case amount of None \<Rightarrow> own | Some n \<Rightarrow> js_of_rat (of_int n)),
                    map upper_char (case or_null currency of None \<Rightarrow> ''ILS'' | Some c \<Rightarrow> c)))"

text \<open>Whether the money a capture event declares differs from the obligation it would settle.\<close>

definition declared_mismatch :: "(jsnum \<Rightarrow> string) \<Rightarrow> provider_event \<Rightarrow> reconciliation_target \<Rightarrow> 'a money_db_scheme \<Rightarrow> bool" where
  "declared_mismatch number_text ev target db =
     (let declared = declaredEventMoney number_text (pe_payload ev);
          (amount, currency) = expectedCaptureObligation (rt_participant target) (rt_deal target) db
      in dm_malformed declared
         \<or> (case dm_amount_minor declared of
              None \<Rightarrow> False
            | Some n \<Rightarrow> (case amount of None \<Rightarrow> True | Some m \<Rightarrow> \<not> js_eq n m))
         \<or> (case dm_currency declared of None \<Rightarrow> False | Some c \<Rightarrow> c \<noteq> currency))"


section \<open>Applying an event\<close>

definition inferredSources :: "string list" where
  "inferredSources = [''payment_reconcile_worker'', ''prior_attempt_resolution'', ''recovery_preflight'', ''finalize_preflight'']"

definition failureEvidence :: "provider_event \<Rightarrow> failure_evidence" where
  "failureEvidence ev =
     (case pl_source (pe_payload ev) of
        JStr s \<Rightarrow> if List.member inferredSources s then EV_StatusInference else EV_ProviderEvent
      | _ \<Rightarrow> EV_ProviderEvent)"

definition settleTargetAttemptInTx ::
    "int \<Rightarrow> provider_event \<Rightarrow> reconciliation_target \<Rightarrow> string \<Rightarrow> result_class \<Rightarrow> 'a money_db_scheme \<Rightarrow> lifecycle_error + 'a money_db_scheme" where
  "settleTargetAttemptInTx now ev target reason result db =
     (case or_null (rt_correlation target) of
        None \<Rightarrow> Inr db
      | Some c \<Rightarrow>
          on_ok (settleAttemptInTx now (rt_participant target) (rt_deal target) (rt_type target) c result (pe_reference ev)
             (if result = R_PermanentFail then Some (failureEvidence ev) else None)
             (Some (pe_type ev @ '':'' @ reason)) db) (\<lambda>(a, db'). Inr db'))"

definition fee_event_of :: "fee_event_type \<Rightarrow> provider_event \<Rightarrow> reconciliation_target \<Rightarrow> money_state \<Rightarrow> fee_event" where
  "fee_event_of t ev target source =
     \<lparr>fe_participant = rt_participant target, fe_deal = rt_deal target, fe_event_type = t, fe_provider = pe_provider ev,
      fe_provider_event = Some (pe_event ev), fe_reference = pe_reference ev,
      fe_correlation = (case pe_correlation ev of None \<Rightarrow> rt_correlation target | Some c \<Rightarrow> Some c),
      fe_source_money_state = money_name source\<rparr>"

definition fee_ledger_in_tx :: "env \<Rightarrow> fee_event \<Rightarrow> 'a money_db_scheme \<Rightarrow> lifecycle_error + 'a money_db_scheme" where
  "fee_ledger_in_tx env event db =
     (case recordProviderFinancialEventInTx env (md_fees db) event of
        Inl e \<Rightarrow> Inl (BodyRejected ''platform_fee_money'')
      | Inr (fees, status) \<Rightarrow> Inr (db\<lparr>md_fees := fees\<rparr>))"

text \<open>The body of a positive event: the verdict of the operation, then the fee ledger.\<close>

definition money_body ::
    "env \<Rightarrow> int \<Rightarrow> provider_event \<Rightarrow> reconciliation_target \<Rightarrow> string \<Rightarrow> fee_event_type \<Rightarrow> money_state \<Rightarrow> 'a money_db_scheme \<Rightarrow>
     lifecycle_error + 'a money_db_scheme" where
  "money_body env now ev target reason t source db =
     on_ok (settleTargetAttemptInTx now ev target reason R_Success db) (fee_ledger_in_tx env (fee_event_of t ev target source))"

definition event_key :: "string \<Rightarrow> provider_event \<Rightarrow> reconciliation_target \<Rightarrow> string" where
  "event_key prefix ev target = prefix @ '':'' @ pe_provider ev @ '':'' @ pe_event ev @ '':'' @ rt_participant target"

text \<open>The payload of the audit rows: the five fields in their order.\<close>

definition event_payload_text :: "provider_event \<Rightarrow> string \<Rightarrow> string" where
  "event_payload_text ev reason =
     (let field = (\<lambda>v. (case v of None \<Rightarrow> ''null'' | Some s \<Rightarrow> s) @ '','')
      in field (Some (pe_provider ev)) @ field (Some (pe_event ev)) @ field (pe_reference ev) @ field (pe_correlation ev) @ reason)"

definition participant_call ::
    "string \<Rightarrow> string \<Rightarrow> provider_event \<Rightarrow> reconciliation_target \<Rightarrow> string \<Rightarrow> state_change list \<Rightarrow>
     ('a money_db_scheme \<Rightarrow> lifecycle_error + 'a money_db_scheme) \<Rightarrow> 'a money_db_scheme multi_args" where
  "participant_call action prefix ev target reason changes body =
     \<lparr>ma_action = action, ma_request = ''webhook:'' @ pe_event ev, ma_correlation = None, ma_entity = Participant,
      ma_entityId = rt_participant target, ma_key = event_key prefix ev target,
      ma_ops = (\<lambda>_. Inr (map (\<lambda>c. single_op (rt_participant target) (Some (rt_deal target)) c (event_payload_text ev reason)) changes)),
      ma_outbox = None, ma_response = '''', ma_insideTx = Some body, ma_serialize = False, ma_uuid = '''', ma_flag = None\<rparr>"

datatype follow_up = NotifyChargeSucceeded | NotifyChargeFailed | SchedulePaymentRelease | NotifyRefundIssued | IssueRefundReceipt

text \<open>The call of every event type.\<close>

definition capture_success_call ::
    "env \<Rightarrow> int \<Rightarrow> provider_event \<Rightarrow> reconciliation_target \<Rightarrow> string \<Rightarrow> 'a money_db_scheme multi_args" where
  "capture_success_call env now ev target reason =
     participant_call ''charging.capture_success'' ''capture-success'' ev target reason
       [MoneyStep M_ChargeAttempt M_ChargedSuccess, BuyerStep B_ChargingAttempt B_ChargedSuccess]
       (money_body env now ev target reason ChargeCaptured M_ChargedSuccess)"

definition capture_failed_call :: "int \<Rightarrow> provider_event \<Rightarrow> reconciliation_target \<Rightarrow> string \<Rightarrow> 'a money_db_scheme multi_args" where
  "capture_failed_call now ev target reason =
     participant_call ''charging.capture_failed'' ''capture-fail'' ev target reason
       [MoneyStep M_ChargeAttempt M_ChargeFailedRecovery, BuyerStep B_ChargingAttempt B_ChargeFailedCompletion]
       (settleTargetAttemptInTx now ev target reason R_PermanentFail)"

definition recovery_success_call ::
    "env \<Rightarrow> int \<Rightarrow> provider_event \<Rightarrow> reconciliation_target \<Rightarrow> string \<Rightarrow> 'a money_db_scheme multi_args" where
  "recovery_success_call env now ev target reason =
     participant_call ''charging.recovery_success'' ''recovery-success'' ev target reason
       [MoneyStep M_ChargeFailedRecovery M_RecoveredCharge, BuyerStep B_ChargeFailedCompletion B_Recovered]
       (money_body env now ev target reason RecoveryCaptured M_RecoveredCharge)"

definition recovery_failed_call :: "int \<Rightarrow> provider_event \<Rightarrow> reconciliation_target \<Rightarrow> string \<Rightarrow> 'a money_db_scheme multi_args" where
  "recovery_failed_call now ev target reason =
     participant_call ''charging.recovery_failed'' ''recovery-fail'' ev target reason
       [BuyerStep B_ChargeFailedCompletion B_Dropped]
       (settleTargetAttemptInTx now ev target reason R_PermanentFail)"

definition refund_issued_call ::
    "env \<Rightarrow> int \<Rightarrow> provider_event \<Rightarrow> reconciliation_target \<Rightarrow> string \<Rightarrow> 'a money_db_scheme multi_args" where
  "refund_issued_call env now ev target reason =
     participant_call ''refund.issue'' ''refund-issued'' ev target reason
       [MoneyStep (rt_money target) M_Refunded]
       (money_body env now ev target reason RefundIssued (rt_money target))"

text \<open>The call with what follows its commit; other event types have none.\<close>

definition event_call ::
    "env \<Rightarrow> int \<Rightarrow> provider_event \<Rightarrow> reconciliation_target \<Rightarrow> string \<Rightarrow> ('a money_db_scheme multi_args \<times> follow_up list) option" where
  "event_call env now ev target reason =
     (if pe_type ev = ''charge_captured'' then Some (capture_success_call env now ev target reason, [NotifyChargeSucceeded])
      else if pe_type ev = ''charge_failed'' then Some (capture_failed_call now ev target reason, [NotifyChargeFailed])
      else if pe_type ev = ''recovery_captured'' then Some (recovery_success_call env now ev target reason, [])
      else if pe_type ev = ''recovery_failed'' then Some (recovery_failed_call now ev target reason, [SchedulePaymentRelease])
      else if pe_type ev = ''refund_issued'' then Some (refund_issued_call env now ev target reason, [NotifyRefundIssued, IssueRefundReceipt])
      else None)"

lemmas event_calls = event_call_def capture_success_call_def capture_failed_call_def recovery_success_call_def
  recovery_failed_call_def refund_issued_call_def

record apply_env =
  ae_env :: env
  ae_number_text :: "jsnum \<Rightarrow> string"
  ae_readable :: bool
  ae_error_text :: "lifecycle_error \<Rightarrow> string"

datatype apply_answer = Applied "follow_up list" | HeldForReview | NothingToApply

definition applyPaymentWebhookClassification ::
    "apply_env \<Rightarrow> int \<Rightarrow> provider_event \<Rightarrow> reconciliation_target option \<Rightarrow> classification \<Rightarrow> 'a money_db_scheme \<Rightarrow>
     lifecycle_error + apply_answer \<times> 'a money_db_scheme" where
  "applyPaymentWebhookClassification ae now ev target0 cls db =
     (case (if fst cls = WProcessed then target0 else None) of
        None \<Rightarrow> Inr (NothingToApply, db)
      | Some target \<Rightarrow>
          if is_capture_event (pe_type ev) \<and> declared_mismatch (ae_number_text ae) ev target db
          then Inr (HeldForReview, db\<lparr>md_cases := openPaymentOperationalCaseInTx
                 (AmountMismatch (rt_participant target) (pe_provider ev) (pe_event ev))
                 (text_or (pe_correlation ev) (rt_correlation target)) (md_cases db)\<rparr>)
          else case event_call (ae_env ae) now ev target (snd cls) of
              None \<Rightarrow> Inr (NothingToApply, db)
            | Some (call, follow) \<Rightarrow>
                on_ok (atomicMultiTransition call now db) (\<lambda>out. Inr (Applied follow, mo_db out)))"

section \<open>From delivery to acknowledgement\<close>

datatype ingest_answer = DuplicateEvent webhook_status | Acknowledged bool webhook_status string "follow_up list"

definition webhook_input_of :: "provider_event \<Rightarrow> string \<Rightarrow> webhook_input" where
  "webhook_input_of ev payload =
     \<lparr>wi_provider = pe_provider ev, wi_event = pe_event ev, wi_payload = payload, wi_deal = pe_deal ev, wi_participant = pe_participant ev\<rparr>"

definition mark_in :: "int \<Rightarrow> provider_event \<Rightarrow> webhook_status \<Rightarrow> string \<Rightarrow> string option \<Rightarrow> 'a money_db_scheme \<Rightarrow> 'a money_db_scheme" where
  "mark_in now ev status reason token db =
     db\<lparr>md_webhooks := snd (markEvent now (pe_provider ev) (pe_event ev) status (Some reason) token (md_webhooks db))\<rparr>"

text \<open>What happens between the claim and the acknowledgement.\<close>

definition process_event ::
    "apply_env \<Rightarrow> int \<Rightarrow> provider_event \<Rightarrow> 'a money_db_scheme \<Rightarrow> lifecycle_error + classification \<times> follow_up list \<times> 'a money_db_scheme" where
  "process_event ae now ev db =
     (let target = resolveTarget ev db; cls = classifyEvent (pe_type ev) target
      in on_ok (case (if fst cls = WIgnored then target else None) of
                  None \<Rightarrow> Inr db
                | Some t \<Rightarrow> recordLateMoneyEffectException (ae_readable ae) now ev t (snd cls) db) (\<lambda>db1.
         on_ok (applyPaymentWebhookClassification ae now ev target cls db1) (\<lambda>(answer, db2).
           Inr (case answer of
                  HeldForReview \<Rightarrow> ((WIgnored, ''capture_amount_mismatch_held_for_review''), [], db2)
                | Applied follow \<Rightarrow> (cls, follow, db2)
                | NothingToApply \<Rightarrow> (cls, [], db2)))))"

definition ingestAndProcessPaymentEvent ::
    "apply_env \<Rightarrow> int \<Rightarrow> int \<Rightarrow> string \<Rightarrow> string \<Rightarrow> provider_event \<Rightarrow> 'a money_db_scheme \<Rightarrow>
     (lifecycle_error + ingest_answer) \<times> 'a money_db_scheme" where
  "ingestAndProcessPaymentEvent ae stale now token payload ev db =
     (case claimEvent stale now token (webhook_input_of ev payload) (md_webhooks db) of
        (ingested, rows) \<Rightarrow>
          let db0 = db\<lparr>md_webhooks := rows\<rparr>
          in if cl_duplicate ingested \<and> \<not> cl_should_process ingested then (Inr (DuplicateEvent (cl_status ingested)), db0)
             else case process_event ae now ev db0 of
                 Inl e \<Rightarrow> (Inl e, mark_in now ev WFailed (take 240 (ae_error_text ae e)) (cl_token ingested) db0)
               | Inr ((status, reason), follow, db1) \<Rightarrow>
                   (Inr (Acknowledged (cl_duplicate ingested) status reason follow),
                    mark_in now ev status reason (cl_token ingested) db1))"

end
