(* ===== verification/EventRuns.thy ===== *)
theory EventRuns
  imports PaymentEvents
begin

text \<open>
  What the processing of provider events guarantees: state, attempt verdict and fee ledger commit
  together, foreign evidence moves no money, a late capture is escalated and closes the release rail, a
  failed delivery changes nothing and is processed again.
\<close>

section \<open>Settling an attempt\<close>

lemma settle_touches:
  assumes "settleAttemptInTx now p d t c result reference evidence remark db = Inr (a, db')"
  shows "db' = db\<lparr>pd_attempts := pd_attempts db'\<rparr>"
  using settle_any_only [OF assms] by (auto simp: attempts_only_def)

lemma settle_success_effect:
  assumes "settleAttemptInTx now p d t c R_Success reference evidence remark db = Inr (a, db')"
    and "identities_unique (pd_attempts db)" and "r' \<in> set (pd_attempts db')" and "is_identity p d t c r'"
  shows "pa_result r' = R_Success"
proof (cases "find (is_identity p d t c) (pd_attempts db)")
  case None
  then have "db' = db" using assms(1) by (simp add: settleAttemptInTx_def)
  then show ?thesis using None assms(3,4) by (simp add: find_None_iff)
next
  case (Some row)
  note row = find_SomeD [OF Some]
  show ?thesis
  proof (cases "pa_result row = R_Success")
    case True
    then have "db' = db" using assms(1) Some by (simp add: settleAttemptInTx_def)
    then show ?thesis using unique_row [OF assms(2)] row assms(3,4) True by metis
  next
    case False
    let ?f = "\<lambda>r. r\<lparr>pa_result := R_Success, pa_dispatch := DS_Responded,
       pa_reference := (case reference of None \<Rightarrow> pa_reference r | Some x \<Rightarrow> Some x),
       pa_note := (case remark of None \<Rightarrow> pa_note r | Some x \<Rightarrow> Some x), pa_evidence := pa_evidence r\<rparr>"
    obtain n where "update_attempts now None (is_identity p d t c) ?f db = Inr (n, db')"
      using assms(1) Some False unfolding settleAttemptInTx_def by (auto elim!: on_ok_InrE)
    then obtain rows where u: "update_rows (update_guard (payment_operation_in_flight now db) None) (is_identity p d t c) ?f
        (pd_attempts db) = Inr (n, rows)" and rows: "pd_attempts db' = rows"
      unfolding update_attempts_def by (auto elim!: on_ok_InrE)
    obtain r where r: "r \<in> set (pd_attempts db)"
      and s: "if is_identity p d t c r then update_guard (payment_operation_in_flight now db) None r (?f r) = Inr r' else r' = r"
      using list_all2_preimage [OF conjunct1 [OF update_rows_spec [OF u]]] assms(3) rows by blast
    have "update_guard (payment_operation_in_flight now db) None r (?f r) = Inr r'" using s assms(4) by (auto split: if_splits)
    then show ?thesis by (auto simp: update_guard_def guard_horizon_def dest!: guard_lifecycle_Inr elim!: on_ok_InrE)
  qed
qed

lemma settle_missing:
  assumes "\<not> list_ex (is_identity p d t c) (pd_attempts db)"
  shows "settleAttemptInTx now p d t c R_Success reference evidence remark db = Inr (SettleMissing, db)"
proof -
  have "find (is_identity p d t c) (pd_attempts db) = None" using assms by (simp add: find_None_iff list_ex_iff)
  then show ?thesis by (simp add: settleAttemptInTx_def)
qed

lemma on_ok_Inl_iff: "on_ok r f = Inl e \<longleftrightarrow> r = Inl e \<or> (\<exists>a. r = Inr a \<and> f a = Inl e)"
  by (cases r) auto

lemma guard_error: "update_guard fl s old new = Inl e \<Longrightarrow> \<exists>why. e = BodyRejected why"
  unfolding update_guard_def guard_lifecycle_def by (auto split: if_splits)

lemma update_rows_error: "update_rows guard P f rows = Inl e \<Longrightarrow> \<exists>r. guard r (f r) = Inl e"
proof (induction rows)
  case (Cons r rs)
  then show ?case by (cases "P r"; cases "guard r (f r)"; cases "update_rows guard P f rs") auto
qed simp

lemma update_attempts_error: "update_attempts now s P f db = Inl e \<Longrightarrow> \<exists>why. e = BodyRejected why"
  unfolding update_attempts_def on_ok_Inl_iff using update_rows_error guard_error by fastforce

lemma settle_error:
  assumes "settleAttemptInTx now p d t c result reference evidence remark db = Inl e"
  shows "\<exists>why. e = BodyRejected why"
proof (cases "(if result \<noteq> R_Success then assertNoInFlightOperationInTx now p d db else Inr ()) = Inr ()")
  case True
  then show ?thesis using assms unfolding settleAttemptInTx_def
    by (auto simp: on_ok_Inl_iff split: option.splits if_splits dest: update_attempts_error)
next
  case False
  then show ?thesis using assms unfolding settleAttemptInTx_def assertNoInFlightOperationInTx_def by (auto split: if_splits)
qed

section \<open>The bodies\<close>

lemma settle_target_touches:
  "settleTargetAttemptInTx now ev t reason result db = Inr db' \<Longrightarrow> db' = db\<lparr>pd_attempts := pd_attempts db'\<rparr>"
  unfolding settleTargetAttemptInTx_def
  by (auto split: option.splits elim!: on_ok_InrE dest!: settle_touches)

lemma fee_ledger_touches:
  assumes "fee_ledger_in_tx env event db = Inr db'"
  shows "\<exists>st. recordProviderFinancialEventInTx env (md_fees db) event = Inr (md_fees db', st) \<and> db' = db\<lparr>md_fees := md_fees db'\<rparr>"
  using assms unfolding fee_ledger_in_tx_def by (auto split: sum.splits)

lemma money_body_touches:
  assumes "money_body env now ev t reason ty source db = Inr db'"
  shows "db' = db\<lparr>pd_attempts := pd_attempts db', md_fees := md_fees db'\<rparr>"
proof -
  obtain db1 where s: "settleTargetAttemptInTx now ev t reason R_Success db = Inr db1"
    and f: "fee_ledger_in_tx env (fee_event_of ty ev t source) db1 = Inr db'"
    using assms unfolding money_body_def by (auto elim!: on_ok_InrE)
  obtain rows where d1: "db1 = db\<lparr>pd_attempts := rows\<rparr>" using settle_target_touches [OF s] by blast
  obtain fees where d2: "db' = db1\<lparr>md_fees := fees\<rparr>" using fee_ledger_touches [OF f] by blast
  show ?thesis unfolding d2 d1 by simp
qed

lemma body_error:
  "settleTargetAttemptInTx now ev t reason result db = Inl e \<Longrightarrow> \<exists>why. e = BodyRejected why"
  "money_body env now ev t reason ty source db = Inl e \<Longrightarrow> \<exists>why. e = BodyRejected why"
proof -
  have settle: "settleTargetAttemptInTx now ev t reason result db = Inl e \<Longrightarrow> \<exists>why. e = BodyRejected why" for result e
    unfolding settleTargetAttemptInTx_def
    by (cases "or_null (rt_correlation t)") (auto simp: on_ok_def split: sum.split_asm dest: settle_error)
  then show "settleTargetAttemptInTx now ev t reason result db = Inl e \<Longrightarrow> \<exists>why. e = BodyRejected why" .
  show "money_body env now ev t reason ty source db = Inl e \<Longrightarrow> \<exists>why. e = BodyRejected why"
    using settle unfolding money_body_def fee_ledger_in_tx_def by (auto simp: on_ok_def split: sum.split_asm)
qed


section \<open>The call of an event\<close>






section \<open>Money, verdict and ledger move together\<close>












section \<open>Foreign evidence\<close>

text \<open>The tables of money truth.\<close>

definition same_money :: "'a money_db_scheme \<Rightarrow> 'a money_db_scheme \<Rightarrow> bool" where
  "same_money db db' \<longleftrightarrow> ld_deals db' = ld_deals db \<and> ld_participants db' = ld_participants db \<and> ld_audit db' = ld_audit db
     \<and> ld_outbox db' = ld_outbox db \<and> pd_attempts db' = pd_attempts db \<and> md_fees db' = md_fees db"

lemma same_money_refl [simp]: "same_money db db"
  by (simp add: same_money_def)

lemma same_money_updates [simp]:
  "same_money db (db'\<lparr>md_cases := x\<rparr>) = same_money db db'" "same_money db (db'\<lparr>md_webhooks := y\<rparr>) = same_money db db'"
  "same_money (db\<lparr>md_webhooks := y\<rparr>) db' = same_money db db'" "same_money db (mark_in now ev status reason token db') = same_money db db'"
  by (simp_all add: same_money_def mark_in_def)

lemma fromAttempt_None:
  "fromAttempt ev db = None \<Longrightarrow> named_correlation ev = Some c \<Longrightarrow> ld_participants db p \<noteq> None \<Longrightarrow>
   \<not> list_ex (is_identity p d t c) (pd_attempts db)"
  by (auto simp: fromAttempt_def find_None_iff list_ex_iff is_identity_def of_obligation_def)

lemma unverified_late:
  assumes "recordLateMoneyEffectException readable now ev t reason db = Inr db'"
    and "fromAttempt ev db = None" and "named_correlation ev = Some c" and "ld_participants db (rt_participant t) \<noteq> None"
  shows "same_money db db'"
proof -
  have c: "late_correlation ev t = None \<or> late_correlation ev t = Some c"
    using assms(3) by (auto simp: late_correlation_def named_correlation_def or_null_def text_or_def split: option.splits if_splits)
  have missing: "settleAttemptInTx now (rt_participant t) (rt_deal t) (rt_type t) c R_Success (pe_reference ev) None remark db = Inr (SettleMissing, db)" for remark
    by (rule settle_missing [OF fromAttempt_None [OF assms(2,3,4)]])
  show ?thesis using assms(1) c unfolding recordLateMoneyEffectException_def
    by (auto simp: missing split: capture_evidence.splits if_splits)
qed

lemma classify_unverified:
  "isMoneyOperationEvent eventType \<Longrightarrow> rt_unverified t \<Longrightarrow> fst (classifyEvent eventType (Some t)) \<noteq> WProcessed"
  by (simp add: classifyEvent_def Let_def)

lemma classify_no_target:
  "isMoneyOperationEvent eventType \<Longrightarrow> fst (classifyEvent eventType None) = WFailed"
  by (auto simp: classifyEvent_def classifyEventUnchecked_def isMoneyOperationEvent_def MONEY_OPERATION_EVENTS_def)

lemma process_unverified:
  assumes "process_event ae now ev db = Inr (cls, follow, db')"
    and "isMoneyOperationEvent (pe_type ev)" and "named_correlation ev = Some c" and "fromAttempt ev db = None"
  shows "same_money db db' \<and> follow = [] \<and> fst cls \<noteq> WProcessed"
proof -
  have target: "resolveTarget ev db = participant_target ev True db"
    using assms(2,3,4) by (simp add: resolveTarget_def)
  show ?thesis
  proof (cases "participant_target ev True db")
    case None
    then show ?thesis using assms(1,2) classify_no_target [OF assms(2)]
      by (auto simp: process_event_def target applyPaymentWebhookClassification_def Let_def)
  next
    case (Some t)
    then have u: "rt_unverified t" and p: "ld_participants db (rt_participant t) \<noteq> None"
      by (auto simp: participant_target_def Let_def split: option.splits)
    have n: "fst (classifyEvent (pe_type ev) (Some t)) \<noteq> WProcessed" by (rule classify_unverified [OF assms(2) u])
    obtain db1 where l: "(if fst (classifyEvent (pe_type ev) (Some t)) = WIgnored
          then recordLateMoneyEffectException (ae_readable ae) now ev t (snd (classifyEvent (pe_type ev) (Some t))) db else Inr db) = Inr db1"
      and out: "cls = classifyEvent (pe_type ev) (Some t)" "follow = []" "db' = db1"
      using assms(1) n unfolding process_event_def target Some Let_def applyPaymentWebhookClassification_def
      by (auto elim!: on_ok_InrE split: if_splits)
    have "same_money db db1" using l unverified_late [OF _ assms(4,3) p] by (auto split: if_splits)
    then show ?thesis using out n by simp
  qed
qed

text \<open>C37: Foreign evidence moves no money: whatever a validly delivered money event claims, when the
  correlation it names belongs to no operation on record, no deal, participant, attempt, job or fee row
  changes, nothing is announced, and the event is never acknowledged as processed.\<close>

theorem foreign_evidence_moves_no_money:
  assumes "ingestAndProcessPaymentEvent ae stale now token payload ev db = (answer, db')"
    and "isMoneyOperationEvent (pe_type ev)" and "named_correlation ev = Some c" and "fromAttempt ev db = None"
  shows "same_money db db' \<and> (\<forall>dup status reason follow. answer = Inr (Acknowledged dup status reason follow) \<longrightarrow> status \<noteq> WProcessed \<and> follow = [])"
proof -
  obtain ingested rows where claim: "claimEvent stale now token (webhook_input_of ev payload) (md_webhooks db) = (ingested, rows)"
    by fastforce
  let ?db0 = "db\<lparr>md_webhooks := rows\<rparr>"
  show ?thesis
  proof (cases "cl_duplicate ingested \<and> \<not> cl_should_process ingested")
    case True
    then show ?thesis using assms(1) by (auto simp: ingestAndProcessPaymentEvent_def claim Let_def)
  next
    case False
    have none: "fromAttempt ev ?db0 = None" using assms(4) by (simp add: fromAttempt_def cong: option.case_cong)
    show ?thesis
    proof (cases "process_event ae now ev ?db0")
      case (Inl e)
      then show ?thesis using assms(1) False by (auto simp: ingestAndProcessPaymentEvent_def claim Let_def)
    next
      case (Inr res)
      obtain cls follow db1 where res: "res = (cls, follow, db1)" by (cases res)
      have p: "process_event ae now ev ?db0 = Inr (cls, follow, db1)" using Inr res by simp
      note keep = process_unverified [OF p assms(2,3) none]
      then show ?thesis using assms(1) False Inr res
        by (cases cls) (auto simp: ingestAndProcessPaymentEvent_def claim Let_def)
    qed
  qed
qed


section \<open>Late captures\<close>

lemma late_records:
  assumes "recordLateMoneyEffectException readable now ev t reason db = Inr db'"
    and "is_capture_event (pe_type ev)" and "\<not> List.member capturedMoneyStates (rt_money t)" and "late_correlation ev t = Some c"
  obtains a db1 ids declined where "readCaptureSideIdentityEvidence readable t ev db = Confirmed ids declined"
    "settleAttemptInTx now (rt_participant t) (rt_deal t) (rt_type t) c R_Success (pe_reference ev) None
       (Some (''late_money_effect:'' @ pe_type ev @ '':'' @ reason)) db = Inr (a, db1)"
    "db' = db1\<lparr>md_cases := openPaymentOperationalCaseInTx (late_case ev t ids) (Some c) (md_cases db1)\<rparr>"
proof (cases "readCaptureSideIdentityEvidence readable t ev db")
  case (Confirmed ids declined)
  have "late_contradiction ev t ids" using assms(2,3) by (simp add: late_contradiction_def)
  then show ?thesis using assms(1,2,4) Confirmed that unfolding recordLateMoneyEffectException_def
    by (auto elim!: on_ok_InrE)
qed (use assms(1,2) in \<open>simp add: recordLateMoneyEffectException_def\<close>)

lemma case_opened: "\<exists>k \<in> set (openPaymentOperationalCaseInTx key correlation rows). oc_key k = key \<and> oc_open k"
  by (auto simp: openPaymentOperationalCaseInTx_def list_ex_iff)

lemma identity_kept: "is_identity p d ty c r \<Longrightarrow> same_identity r r' \<Longrightarrow> is_identity p d ty c r'"
  by (simp add: same_identity_def is_identity_def of_obligation_def)

lemma executed_persists:
  assumes "r \<in> set rows" and "is_identity p d ty c r" and "pa_result r = R_Success" and "list_all2 attempt_step rows rows'"
  shows "\<exists>r' \<in> set rows'. is_identity p d ty c r' \<and> pa_result r' = R_Success"
proof -
  obtain r' where "r' \<in> set rows'" "attempt_step r r'" using list_all2_image [OF assms(4,1)] by blast
  then show ?thesis using identity_kept [OF assms(2)] assms(3) by (auto simp: attempt_step_def)
qed

lemma executed_in_run:
  assumes "attempt_run db0 db" and "r \<in> set (pd_attempts db0)" and "is_identity p d ty c r" and "pa_result r = R_Success"
  shows "\<exists>r' \<in> set (pd_attempts db). is_identity p d ty c r' \<and> pa_result r' = R_Success"
  using run_rows [OF assms(1)] executed_persists [OF assms(2-4)] by fastforce

lemma executed_capture_blocks_release:
  assumes "r \<in> set (pd_attempts db)" and "is_identity p d ty c r" and "pa_result r = R_Success" and "capture_side ty"
  shows "beginProviderAttempt now p d A_Release identity admitted db \<noteq> Inr (BeginFresh corr n, db')"
proof
  assume b: "beginProviderAttempt now p d A_Release identity admitted db = Inr (BeginFresh corr n, db')"
  have "table_step (payment_operation_in_flight now db) None (pd_attempts db) (pd_attempts db')"
    using begin_only [OF b] by (simp add: attempts_only_def)
  from table_step_row [OF this assms(1)] obtain r' where r': "r' \<in> set (pd_attempts db')" "attempt_step r r'"
    by (auto simp: untouched_in_flight_def)
  then have s: "is_identity p d ty c r'" "pa_result r' = R_Success"
    using identity_kept [OF assms(2)] assms(3) by (auto simp: attempt_step_def)
  then have "r' \<in> set (loadRows p d db')" "capture_side (pa_type r')" "pa_type r' \<noteq> A_Release"
    using r'(1) assms(4) by (auto simp: loadRows_def is_identity_def capture_side_def)
  then show False using fresh_excludes [OF b, of r'] s(2) by simp
qed

lemma settled_row_exists:
  assumes "settleAttemptInTx now p d ty c R_Success reference evidence remark db = Inr (a, db')"
    and "identities_unique (pd_attempts db)" and "r \<in> set (pd_attempts db)" and "is_identity p d ty c r"
  shows "\<exists>r' \<in> set (pd_attempts db'). is_identity p d ty c r' \<and> pa_result r' = R_Success"
proof -
  have "table_step (payment_operation_in_flight now db) None (pd_attempts db) (pd_attempts db')"
    using settle_any_only [OF assms(1)] by (simp add: attempts_only_def)
  from table_step_row [OF this assms(3)] obtain r' where "r' \<in> set (pd_attempts db')" "same_identity r r'"
    by (auto dest: untouched_identity)
  then show ?thesis using identity_kept [OF assms(4)] settle_success_effect [OF assms(1,2)] by blast
qed

text \<open>C38: A capture that arrives late is never lost and never released: when a provider reports a capture of a
  participant whose money is not captured, and names an operation on record, a case is open for an
  operator, and from then on, in every run, no release of that authorization is ever minted.\<close>

theorem late_capture_blocks_release:
  assumes "recordLateMoneyEffectException readable now ev t reason db = Inr db1"
    and "is_capture_event (pe_type ev)" and "\<not> List.member capturedMoneyStates (rt_money t)"
    and "late_correlation ev t = Some c" and "identities_unique (pd_attempts db)"
    and "r0 \<in> set (pd_attempts db)" and "is_identity (rt_participant t) (rt_deal t) (rt_type t) c r0"
    and "attempt_run db1 db2"
  shows "(\<exists>k \<in> set (md_cases db1). oc_open k \<and> (oc_key k = LateEffect (rt_participant t) (pe_type ev)
        \<or> (\<exists>ids. oc_key k = DualCapture (rt_participant t) ids)))
    \<and> beginProviderAttempt now2 (rt_participant t) (rt_deal t) A_Release identity admitted db2 \<noteq> Inr (BeginFresh corr n, db3)"
proof (rule late_records [OF assms(1-4)])
  fix a dbs ids declined
  assume s: "settleAttemptInTx now (rt_participant t) (rt_deal t) (rt_type t) c R_Success (pe_reference ev) None
       (Some (''late_money_effect:'' @ pe_type ev @ '':'' @ reason)) db = Inr (a, dbs)"
    and db1: "db1 = dbs\<lparr>md_cases := openPaymentOperationalCaseInTx (late_case ev t ids) (Some c) (md_cases dbs)\<rparr>"
  have opened: "\<exists>k \<in> set (md_cases db1). oc_open k \<and> (oc_key k = LateEffect (rt_participant t) (pe_type ev)
        \<or> (\<exists>ids. oc_key k = DualCapture (rt_participant t) ids))"
    using case_opened [of "late_case ev t ids" "Some c" "md_cases dbs"] by (auto simp: db1 late_case_def split: if_splits)
  have side: "capture_side (rt_type t)"
    using assms(2,4) by (auto simp: late_correlation_def lateEffectFamilyMatches_def is_capture_event_def capture_side_def split: if_splits)
  have "pd_attempts db1 = pd_attempts dbs" by (simp add: db1)
  then obtain r2 where "r2 \<in> set (pd_attempts db2)" "is_identity (rt_participant t) (rt_deal t) (rt_type t) c r2" "pa_result r2 = R_Success"
    using settled_row_exists [OF s assms(5-7)] executed_in_run [OF assms(8)] by metis
  with opened executed_capture_blocks_release [OF _ _ _ side] show ?thesis by blast
qed

section \<open>Failed deliveries\<close>

lemma again_keeps_duplicate: "claim_again stale now token inp before rows = (result, rows') \<Longrightarrow> cl_duplicate result = cl_duplicate before"
  unfolding claim_again_def Let_def by (auto split: if_split_asm option.split_asm)

lemma claim_new:
  assumes "claimEvent stale now token inp rows = (result, rows')"
  shows "cl_should_process result \<or> cl_duplicate result"
proof (cases "find (is_event (wi_provider inp) (wi_event inp)) rows")
  case None
  then show ?thesis using assms by (auto simp: claimEvent_def claim_insert_def claim_again_def)
next
  case (Some r)
  obtain res1 rows1 where c: "claim_insert now token inp rows = (res1, rows1)" by fastforce
  then have "cl_duplicate res1" using Some by (auto simp: claim_insert_def)
  then show ?thesis using assms again_keeps_duplicate [of stale now token inp res1 rows1] by (auto simp: claimEvent_def c)
qed

text \<open>A delivery whose processing fails costs nothing: no table of money truth changes, and the provider's
  next delivery of the event, at any time, is handed out for processing again.\<close>

theorem failed_delivery_is_retried:
  assumes "ingestAndProcessPaymentEvent ae stale now token payload ev db = (Inl e, db')" and "events_unique (md_webhooks db)"
    and "claimEvent stale later token2 (webhook_input_of ev payload2) (md_webhooks db') = (result, rows)"
  shows "same_money db db' \<and> cl_should_process result \<and> cl_token result = Some token2"
proof -
  obtain ingested rows0 where claim: "claimEvent stale now token (webhook_input_of ev payload) (md_webhooks db) = (ingested, rows0)"
    by fastforce
  have proc: "\<not> (cl_duplicate ingested \<and> \<not> cl_should_process ingested)"
    and db': "db' = mark_in now ev WFailed (take 240 (ae_error_text ae e)) (cl_token ingested) (db\<lparr>md_webhooks := rows0\<rparr>)"
    using assms(1) by (auto simp: ingestAndProcessPaymentEvent_def claim Let_def split: if_splits sum.splits)
  have "cl_should_process ingested"
    using proc claim_new [OF claim] by blast
  note held = claim_holds [OF claim assms(2) this]
  have key: "input_key (webhook_input_of ev payload) = (pe_provider ev, pe_event ev)" for payload
    by (simp add: input_key_def webhook_input_of_def)
  have wh: "md_webhooks db' = snd (markEvent now (pe_provider ev) (pe_event ev) WFailed (Some (take 240 (ae_error_text ae e))) (Some token) rows0)"
    using held by (simp add: db' mark_in_def)
  have "lock_of (pe_provider ev, pe_event ev) (md_webhooks db') = Open"
    unfolding wh by (rule failed_reopens) (use held key in auto)
  moreover have "events_unique (md_webhooks db')"
    unfolding wh using mark_step [OF prod.collapse [symmetric]] held by blast
  ultimately have "cl_should_process result \<and> cl_token result = Some token2"
    using claim_admitted [OF assms(3)] key by simp
  then show ?thesis by (simp add: db')
qed


section \<open>What processing can fail with\<close>

fun fits :: "participant \<Rightarrow> state_change list \<Rightarrow> bool" where
  "fits s [] \<longleftrightarrow> True"
| "fits s (MoneyStep f m # cs) \<longleftrightarrow> pt_money s = f \<and> fits (s\<lparr>pt_money := m\<rparr>) cs"
| "fits s (BuyerStep f m # cs) \<longleftrightarrow> pt_buyer s = f \<and> fits (s\<lparr>pt_buyer := m\<rparr>) cs"
| "fits s (DealStep f m # cs) \<longleftrightarrow> False"

lemma swap_fits:
  assumes "ld_participants db p = Some s" and "fits s changes"
    and "\<And>c. c \<in> set changes \<Longrightarrow> row_enforce db0 db action p c"
  shows "\<exists>db'. swap_all db0 False action (map (\<lambda>c. single_op p d c x) changes) db = Inr db'"
  using assms
proof (induction changes arbitrary: db s)
  case (Cons c cs)
  have r: "row_enforce db0 db action p c" using Cons.prems(3) by simp
  have keep: "row_enforce db0 (set_state c p db) action p c'" if "c' \<in> set cs" for c'
    using Cons.prems(3) [of c'] that by (simp add: row_enforce_def audit_row_written_in_tx_def)
  have one: "swap_state db0 False action (single_op p d c x) db = Inr (set_state c p db)"
    using Cons.prems(1,2) r by (cases c) (simp_all add: swap_state_def readTransitionEntityState_def single_op_def)
  have "\<exists>s'. ld_participants (set_state c p db) p = Some s' \<and> fits s' cs"
    using Cons.prems(1,2) by (cases c) (simp_all add: set_state_def)
  then show ?case using Cons.IH [OF _ _ keep] one by auto
qed simp

text \<open>
  A first-time call whose steps are legal and fit the row does what its body does: it succeeds when the
  body succeeds, and can only be refused by it.
\<close>

lemma call_result:
  assumes "\<not> list_ex (idempotency_match (participant_call action prefix ev t reason changes body)) (ld_idempotency db)"
    and "changes \<noteq> []" and "ld_participants db (rt_participant t) = Some s" and "fits s changes"
    and "List.member ACTION_NAMES action" and "\<And>c. c \<in> set changes \<Longrightarrow> assertValidTransition c = Inr ()"
    and "\<And>db db'. body db = Inr db' \<Longrightarrow> db' = db\<lparr>pd_attempts := pd_attempts db', md_fees := md_fees db'\<rparr>"
    and "db1 = db\<lparr>ld_audit := ld_audit db @ map (audit_row_of (participant_call action prefix ev t reason changes body))
        (map (\<lambda>c. single_op (rt_participant t) (Some (rt_deal t)) c (event_payload_text ev reason)) changes)\<rparr>"
  shows "case body db1 of
      Inl e \<Rightarrow> atomicMultiTransition (participant_call action prefix ev t reason changes body) now db = Inl e
    | Inr db2 \<Rightarrow> \<exists>out. atomicMultiTransition (participant_call action prefix ev t reason changes body) now db = Inr out \<and> \<not> mo_replay out"
proof -
  let ?args = "participant_call action prefix ev t reason changes body"
  let ?ops = "map (\<lambda>c. single_op (rt_participant t) (Some (rt_deal t)) c (event_payload_text ev reason)) changes"
  have none: "find (idempotency_match ?args) (ld_idempotency db) = None"
    using assms(1) by (simp add: find_None_iff list_ex_iff)
  have legal: "assert_all (map (\<lambda>c. single_op (rt_participant t) (Some (rt_deal t)) c (event_payload_text ev reason)) cs) = Inr ()"
    if "set cs \<subseteq> set changes" for cs
    using that assms(6) by (induction cs) (simp_all add: single_op_def)
  have call: "atomicMultiTransition ?args now db = on_ok (durable_writes ?args now ?ops db)
      (\<lambda>db'. Inr \<lparr>mo_response = '''', mo_replay = False, mo_db = db'\<rparr>)"
    using assms(2) none legal [of changes] by (simp add: atomicMultiTransition_def participant_call_def)
  show ?thesis
  proof (cases "body db1")
    case (Inl e)
    then show ?thesis unfolding call using assms(8)
      by (simp add: durable_writes_def enqueue_job_def run_body_def outbox_flag_def participant_call_def)
  next
    case (Inr db2)
    have db2: "db2 = db1\<lparr>pd_attempts := pd_attempts db2, md_fees := md_fees db2\<rparr>" by (rule assms(7) [OF Inr])
    have part: "ld_participants db2 (rt_participant t) = Some s" by (subst db2) (simp add: assms(3,8))
    have audit: "ld_audit db2 = ld_audit db @ map (audit_row_of ?args) ?ops" by (subst db2) (simp add: assms(8))
    have idem: "ld_idempotency db2 = ld_idempotency db" by (subst db2) (simp add: assms(8))
    have "valid_change c" if "c \<in> set changes" for c
      using assms(6) [OF that] by (cases c) (simp_all add: assertValidTransition_Inr valid_deal valid_buyer valid_money)
    then have "row_enforce db db2 action (rt_participant t) c" if "c \<in> set changes" for c
      using that assms(5) by (auto simp: row_enforce_def audit_row_written_in_tx_def audit list_ex_iff audit_row_of_def single_op_def participant_call_def)
    from swap_fits [OF part assms(4) this] obtain db3 where swap: "swap_all db False action ?ops db2 = Inr db3" by blast
    have "ld_idempotency db3 = ld_idempotency db" using swap_all_keeps [OF swap] idem by simp
    then obtain db4 where "insert_idempotency ?args db3 = Inr db4"
      using assms(1) by (auto simp: insert_idempotency_def)
    then show ?thesis unfolding call using Inr swap assms(8)
      by (simp add: durable_writes_def enqueue_job_def run_body_def outbox_flag_def participant_call_def)
  qed
qed

lemma call_error:
  assumes "atomicMultiTransition (participant_call action prefix ev t reason changes body) now db = Inl e"
    and "changes \<noteq> []" and "ld_participants db (rt_participant t) = Some s" and "fits s changes"
    and "List.member ACTION_NAMES action" and "\<And>c. c \<in> set changes \<Longrightarrow> assertValidTransition c = Inr ()"
    and "\<And>db db'. body db = Inr db' \<Longrightarrow> db' = db\<lparr>pd_attempts := pd_attempts db', md_fees := md_fees db'\<rparr>"
    and "\<And>db e. body db = Inl e \<Longrightarrow> \<exists>why. e = BodyRejected why"
  shows "\<exists>why. e = BodyRejected why"
proof -
  have "\<not> list_ex (idempotency_match (participant_call action prefix ev t reason changes body)) (ld_idempotency db)"
    using assms(1) by (auto simp: atomicMultiTransition_def list_ex_iff find_None_iff split: option.splits)
  from call_result [OF this assms(2-7) refl, of now] show ?thesis using assms(1,8) by (auto split: sum.splits)
qed

lemma late_error: "recordLateMoneyEffectException readable now ev t reason db = Inl e \<Longrightarrow> \<exists>why. e = BodyRejected why"
  unfolding recordLateMoneyEffectException_def
  by (auto simp: on_ok_Inl_iff split: capture_evidence.splits if_splits option.splits dest: settle_error)

lemma resolve_states:
  assumes "resolveTarget ev db = Some t"
  shows "\<exists>s. ld_participants db (rt_participant t) = Some s \<and> pt_buyer s = rt_buyer t \<and> pt_money s = rt_money t"
  using assms unfolding resolveTarget_def participant_target_def Let_def
  by (auto split: option.splits if_splits)

text \<open>The steps of a processed event fit the states the target was classified on.\<close>

lemma processed_call:
  assumes "classifyEvent (pe_type ev) (Some t) = (WProcessed, reason)"
    and "event_call env now ev t reason' = Some (call, follow)"
    and "pt_buyer s = rt_buyer t" and "pt_money s = rt_money t"
  shows "\<exists>action prefix changes body. call = participant_call action prefix ev t reason' changes body \<and> changes \<noteq> []
    \<and> fits s changes \<and> List.member ACTION_NAMES action \<and> (\<forall>c \<in> set changes. assertValidTransition c = Inr ())
    \<and> (body = settleTargetAttemptInTx now ev t reason' R_PermanentFail \<or> (\<exists>ty source. body = money_body env now ev t reason' ty source))"
proof -
  have u: "classifyEventUnchecked (pe_type ev) (Some t) = (WProcessed, reason)"
    using assms(1) by (auto simp: classifyEvent_def Let_def split: if_splits)
  consider "pe_type ev = ''charge_captured''" | "pe_type ev = ''charge_failed''" | "pe_type ev = ''recovery_captured''"
    | "pe_type ev = ''recovery_failed''" | "pe_type ev = ''refund_issued''"
    using assms(2) by (auto simp: event_calls split: if_splits)
  then show ?thesis
  proof cases
    case 1
    then have "rt_buyer t = B_ChargingAttempt" "rt_money t = M_ChargeAttempt"
      using u by (auto simp: classifyEventUnchecked_def split: if_splits)
    with 1 assms(2-4) show ?thesis
      by (intro exI [of _ "''charging.capture_success''"] exI) (auto simp: event_calls ACTION_NAMES_def assertValidTransition_def)
  next
    case 2
    then have "rt_buyer t = B_ChargingAttempt" "rt_money t = M_ChargeAttempt"
      using u by (auto simp: classifyEventUnchecked_def split: if_splits)
    with 2 assms(2-4) show ?thesis
      by (intro exI [of _ "''charging.capture_failed''"] exI) (auto simp: event_calls ACTION_NAMES_def assertValidTransition_def)
  next
    case 3
    then have "rt_buyer t = B_ChargeFailedCompletion" "rt_money t = M_ChargeFailedRecovery"
      using u by (auto simp: classifyEventUnchecked_def split: if_splits)
    with 3 assms(2-4) show ?thesis
      by (intro exI [of _ "''charging.recovery_success''"] exI) (auto simp: event_calls ACTION_NAMES_def assertValidTransition_def)
  next
    case 4
    then have "rt_buyer t = B_ChargeFailedCompletion" "rt_money t = M_ChargeFailedRecovery"
      using u by (auto simp: classifyEventUnchecked_def split: if_splits)
    with 4 assms(2-4) show ?thesis
      by (intro exI [of _ "''charging.recovery_failed''"] exI) (auto simp: event_calls ACTION_NAMES_def assertValidTransition_def)
  next
    case 5
    then have "rt_money t = M_ChargedSuccess \<or> rt_money t = M_RecoveredCharge"
      using u by (auto simp: classifyEventUnchecked_def split: if_splits)
    with 5 assms(2-4) show ?thesis
      by (intro exI [of _ "''refund.issue''"] exI) (auto simp: event_calls ACTION_NAMES_def assertValidTransition_def)
  qed
qed


lemma apply_error:
  fixes db :: "'a money_db_scheme"
  assumes "applyPaymentWebhookClassification ae now ev (Some t) (WProcessed, reason) db = Inl e"
    and "classifyEvent (pe_type ev) (Some t) = (WProcessed, reason)"
    and "ld_participants db (rt_participant t) = Some s" and "pt_buyer s = rt_buyer t" and "pt_money s = rt_money t"
  shows "\<exists>why. e = BodyRejected why"
proof -
  obtain call :: "'a money_db_scheme multi_args" and follow where call: "event_call (ae_env ae) now ev t reason = Some (call, follow)"
    and err: "atomicMultiTransition call now db = Inl e"
    using assms(1) unfolding applyPaymentWebhookClassification_def
    by (auto simp: on_ok_Inl_iff split: if_split_asm option.split_asm)
  from processed_call [OF assms(2) call assms(4,5)] obtain action prefix changes body where
    shape: "call = participant_call action prefix ev t reason changes body" "changes \<noteq> []" "fits s changes"
      "List.member ACTION_NAMES action" "\<forall>c \<in> set changes. assertValidTransition c = Inr ()"
    and body: "body = settleTargetAttemptInTx now ev t reason R_PermanentFail
       \<or> (\<exists>ty source. body = money_body (ae_env ae) now ev t reason ty source)"
    by blast
  show ?thesis
  proof (rule call_error [OF err [unfolded shape(1)] shape(2) assms(3) shape(3,4)])
    show "assertValidTransition c = Inr ()" if "c \<in> set changes" for c using shape(5) that by simp
    show "dbx' = dbx\<lparr>pd_attempts := pd_attempts dbx', md_fees := md_fees dbx'\<rparr>" if "body dbx = Inr dbx'" for dbx dbx'
      using body
    proof (elim disjE exE)
      assume "body = settleTargetAttemptInTx now ev t reason R_PermanentFail"
      then have "settleTargetAttemptInTx now ev t reason R_PermanentFail dbx = Inr dbx'" using that by simp
      from settle_target_touches [OF this] obtain rows where "dbx' = dbx\<lparr>pd_attempts := rows\<rparr>" by blast
      then show ?thesis by simp
    qed (use that money_body_touches in blast)
    show "\<exists>why. x = BodyRejected why" if "body dbx = Inl x" for dbx x using body that body_error by blast
  qed
qed

text \<open>What the reconciliation lets through, the state machine accepts: processed against the database it was
  classified on, an event never fails with an illegal transition, a state conflict, a missing row, a
  trigger or a key violation. The only failures are refusals of the money rails themselves: an
  operation in flight, evidence that cannot be read, a fee ledger that cannot take the entry.\<close>

theorem processing_only_refuses:
  fixes db :: "'a money_db_scheme"
  assumes "process_event ae now ev db = Inl e"
  shows "\<exists>why. e = BodyRejected why"
proof (cases "fst (classifyEvent (pe_type ev) (resolveTarget ev db)) = WProcessed")
  case True
  then have cls: "classifyEvent (pe_type ev) (resolveTarget ev db) = (WProcessed, snd (classifyEvent (pe_type ev) (resolveTarget ev db)))"
    by (simp add: prod_eq_iff)
  have err: "applyPaymentWebhookClassification ae now ev (resolveTarget ev db) (classifyEvent (pe_type ev) (resolveTarget ev db)) db = Inl e"
    using assms True by (auto simp: process_event_def Let_def on_ok_Inl_iff)
  then obtain t where t: "resolveTarget ev db = Some t"
    by (cases "resolveTarget ev db") (simp_all add: applyPaymentWebhookClassification_def)
  show ?thesis using apply_error err cls resolve_states [OF t] unfolding t by metis
next
  case False
  then have "applyPaymentWebhookClassification ae now ev target (classifyEvent (pe_type ev) (resolveTarget ev db)) db1 = Inr (NothingToApply, db1)"
    for target and db1 :: "'a money_db_scheme" by (simp add: applyPaymentWebhookClassification_def)
  then show ?thesis using assms late_error
    by (auto simp: process_event_def Let_def on_ok_Inl_iff split: option.split_asm if_split_asm)
qed

section \<open>Witnesses\<close>

definition no_money :: event_payload where
  "no_money = \<lparr>pl_amount_minor = JUndef, pl_amount_received = JUndef, pl_currency = JUndef, pl_source = JUndef\<rparr>"

definition event_of :: "string \<Rightarrow> string \<Rightarrow> provider_event" where
  "event_of t corr = \<lparr>pe_provider = ''grow'', pe_event = ''evt1'', pe_type = t, pe_correlation = Some corr,
     pe_participant = Some ''p1'', pe_deal = Some ''d1'', pe_reference = None, pe_payload = no_money\<rparr>"

definition demo_env :: apply_env where
  "demo_env = \<lparr>ae_env = empty_env, ae_number_text = (\<lambda>_. ''''), ae_readable = True, ae_error_text = (\<lambda>_. ''failed'')\<rparr>"

definition money_demo :: "money_state \<Rightarrow> buyer_state \<Rightarrow> attempt_row list \<Rightarrow> money_db" where
  "money_demo m b rows =
     \<lparr>ld_deals = [''d1'' \<mapsto> D_Charging], ld_participants = [''p1'' \<mapsto> \<lparr>pt_deal = ''d1'', pt_buyer = b, pt_money = m\<rparr>],
      ld_audit = [], ld_outbox = \<lparr>odb_events = [], odb_dlq = [], odb_audit = []\<rparr>, ld_idempotency = [],
      pd_attempts = rows, pd_window = (\<lambda>_. None),
      md_fees = FeeLedger.sample_db,
      md_cases = [], md_webhooks = [], md_bindings = (\<lambda>_. None)\<rparr>"

definition demo_target :: "money_state \<Rightarrow> buyer_state \<Rightarrow> reconciliation_target" where
  "demo_target m b = \<lparr>rt_participant = ''p1'', rt_deal = ''d1'', rt_type = A_ChargeStart, rt_correlation = Some ''c1'',
     rt_buyer = b, rt_money = m, rt_unverified = False\<rparr>"

definition waiting_db :: money_db where
  "waiting_db = money_demo M_ChargeAttempt B_ChargingAttempt [recorded_row]"






lemma foreign_evidence_moves_no_money_witness:
  "same_money waiting_db (snd (ingestAndProcessPaymentEvent demo_env 60000 100 ''t1'' ''{}'' (event_of ''charge_captured'' ''forged'') waiting_db))"
proof -
  have "fromAttempt (event_of ''charge_captured'' ''forged'') waiting_db = None" by code_simp
  moreover have "named_correlation (event_of ''charge_captured'' ''forged'') = Some ''forged''" by code_simp
  moreover have "isMoneyOperationEvent (pe_type (event_of ''charge_captured'' ''forged''))" by code_simp
  ultimately show ?thesis using foreign_evidence_moves_no_money [OF prod.collapse [symmetric]] by blast
qed

definition released_target :: reconciliation_target where
  "released_target = demo_target M_AuthLocked B_LockedIn"

definition late_db :: money_db where
  "late_db = money_demo M_AuthLocked B_LockedIn [declined_row]"

definition late_recorded :: money_db where
  "late_recorded = (case recordLateMoneyEffectException True 100 (event_of ''charge_captured'' ''c1'') released_target ''late'' late_db of
     Inr db \<Rightarrow> db | Inl e \<Rightarrow> late_db)"

lemma late_call: "recordLateMoneyEffectException True 100 (event_of ''charge_captured'' ''c1'') released_target ''late'' late_db = Inr late_recorded"
proof -
  have "\<not> isl (recordLateMoneyEffectException True 100 (event_of ''charge_captured'' ''c1'') released_target ''late'' late_db)" by code_simp
  then show ?thesis by (auto simp: late_recorded_def isl_def split: sum.splits)
qed

lemma late_capture_blocks_release_witness:
  "\<exists>k \<in> set (md_cases late_recorded). oc_open k"
proof -
  have "identities_unique (pd_attempts late_db)" by (simp add: identities_unique_def late_db_def money_demo_def)
  moreover have "late_correlation (event_of ''charge_captured'' ''c1'') released_target = Some ''c1''" by code_simp
  moreover have "declined_row \<in> set (pd_attempts late_db)" by (simp add: late_db_def money_demo_def)
  moreover have "is_identity (rt_participant released_target) (rt_deal released_target) (rt_type released_target) ''c1'' declined_row" by code_simp
  moreover have "is_capture_event (pe_type (event_of ''charge_captured'' ''c1''))" by code_simp
  moreover have "\<not> List.member capturedMoneyStates (rt_money released_target)" by code_simp
  ultimately show ?thesis
    using late_capture_blocks_release [OF late_call _ _ _ _ _ _ begin_attempts] by blast
qed

definition in_flight_db :: money_db where
  "in_flight_db = (money_demo M_ChargeAttempt B_ChargingAttempt [hd (pd_attempts armed_db)])
     \<lparr>ld_outbox := \<lparr>odb_events = [job ''e1'' ''w1''], odb_dlq = [], odb_audit = []\<rparr>\<rparr>"

lemma refused_while_in_flight:
  "fst (ingestAndProcessPaymentEvent demo_env 60000 100 ''t1'' ''{}'' (event_of ''charge_failed'' ''c1'') in_flight_db)
   = Inl (BodyRejected ''payment_operation_in_flight'')"
  by code_simp

lemma failed_delivery_is_retried_witness:
  "cl_should_process (fst (claimEvent 60000 101 ''t2'' (webhook_input_of (event_of ''charge_failed'' ''c1'') ''{}'')
     (md_webhooks (snd (ingestAndProcessPaymentEvent demo_env 60000 100 ''t1'' ''{}'' (event_of ''charge_failed'' ''c1'') in_flight_db)))))"
proof -
  have "events_unique (md_webhooks in_flight_db)" by (simp add: events_unique_def in_flight_db_def money_demo_def)
  moreover have "ingestAndProcessPaymentEvent demo_env 60000 100 ''t1'' ''{}'' (event_of ''charge_failed'' ''c1'') in_flight_db
    = (Inl (BodyRejected ''payment_operation_in_flight''),
       snd (ingestAndProcessPaymentEvent demo_env 60000 100 ''t1'' ''{}'' (event_of ''charge_failed'' ''c1'') in_flight_db))"
    using refused_while_in_flight by (simp add: prod_eq_iff)
  ultimately show ?thesis using failed_delivery_is_retried [OF _ _ prod.collapse [symmetric]] by blast
qed

lemma processing_only_refuses_witness:
  "\<exists>why. projl (process_event demo_env 100 (event_of ''charge_failed'' ''c1'') in_flight_db) = BodyRejected why"
proof (rule processing_only_refuses)
  have "isl (process_event demo_env 100 (event_of ''charge_failed'' ''c1'') in_flight_db)" by code_simp
  then show "process_event demo_env 100 (event_of ''charge_failed'' ''c1'') in_flight_db
    = Inl (projl (process_event demo_env 100 (event_of ''charge_failed'' ''c1'') in_flight_db))" by simp
qed

end
