(* ===== verification/PayoutRail.thy ===== *)
theory PayoutRail
  imports FeeLedger Lifecycle
begin

text \<open>
  \<open>src/payout_rail.ts\<close>: how the money of a completed deal reaches the seller. A settlement per deal is
  recomputed from the fee ledger; when it is ready, one batch with an item per captured participant is
  written, and \<open>PayoutDispatch\<close> sends it to the provider. The tables are those of \<open>src/migrations/021\<close> with
  the triggers and checks of \<open>077\<close>. Amounts are whole agorot. Every transaction takes the lock of its deal
  first, so a transaction is one step. A settlement is named by its deal, which is unique. Identifiers the
  database draws and the clock are arguments.
\<close>

section \<open>The life of a payout\<close>

datatype payout_status =
  PO_Pending | PO_Ready | PO_Batched | PO_Processing | PO_Failed | PO_Returned | PO_Paid | PO_Reconciled

definition PAYOUT_LIFECYCLE_STATUSES :: "payout_status list" where
  "PAYOUT_LIFECYCLE_STATUSES =
     [PO_Pending, PO_Ready, PO_Batched, PO_Processing, PO_Failed, PO_Returned, PO_Paid, PO_Reconciled]"

fun PAYOUT_STATUS_RANK :: "payout_status \<Rightarrow> nat" where
  "PAYOUT_STATUS_RANK PO_Pending = 0"
| "PAYOUT_STATUS_RANK PO_Ready = 0"
| "PAYOUT_STATUS_RANK PO_Batched = 2"
| "PAYOUT_STATUS_RANK PO_Processing = 3"
| "PAYOUT_STATUS_RANK PO_Failed = 4"
| "PAYOUT_STATUS_RANK PO_Returned = 4"
| "PAYOUT_STATUS_RANK PO_Paid = 5"
| "PAYOUT_STATUS_RANK PO_Reconciled = 6"

text \<open>\<open>None\<close> is the null, absent or empty status; other strings are excluded by the check of \<open>021\<close>.\<close>

definition canAdvancePayoutStatus :: "payout_status option \<Rightarrow> payout_status \<Rightarrow> bool" where
  "canAdvancePayoutStatus from_status to =
     (case from_status of
        None \<Rightarrow> True
      | Some s \<Rightarrow> s = to \<or> PAYOUT_STATUS_RANK s = 0 \<or> PAYOUT_STATUS_RANK s < PAYOUT_STATUS_RANK to)"

definition payoutStatusesAdvanceableTo :: "payout_status \<Rightarrow> payout_status list" where
  "payoutStatusesAdvanceableTo to = filter (\<lambda>s. canAdvancePayoutStatus (Some s) to) PAYOUT_LIFECYCLE_STATUSES"

definition PRE_BATCH_STATUSES :: "payout_status list" where
  "PRE_BATCH_STATUSES = [PO_Pending, PO_Ready]"

definition PAYABLE_PARTICIPANT_MONEY_STATES :: "money_state list" where
  "PAYABLE_PARTICIPANT_MONEY_STATES = [M_ChargedSuccess, M_RecoveredCharge]"

definition payoutDispatchCorrelationId :: "string \<Rightarrow> string" where
  "payoutDispatchCorrelationId batch = ''seller-payout-create:'' @ batch"

text \<open>\<open>enforce_payout_status_forward_only\<close> raises exactly here.\<close>

definition payout_status_regression :: "payout_status \<Rightarrow> payout_status \<Rightarrow> bool" where
  "payout_status_regression old new \<longleftrightarrow>
     new \<noteq> old \<and> 0 < PAYOUT_STATUS_RANK old \<and> PAYOUT_STATUS_RANK new \<le> PAYOUT_STATUS_RANK old"

section \<open>Tables\<close>

datatype account_status = AccountActive | AccountReview | AccountHold

datatype blocking_reason =
    DealStateReason deal_state | SellerSettlementStatus account_status | NoGrossCollected | SellerNetNonPositive
  | DealAlreadyPayouted | OpenBlockingReconciliationCase | OpenMoneyMismatch | PayoutFreezeActive
  | SellerNetChangedSinceBatch | RefundsAddedSinceBatch

datatype flag_type = PauseJoining | PauseCharging | PayoutFreeze | ContentTakedown
datatype flag_scope = ScopeGlobal | ScopeDeal | ScopeSeller | ScopeParticipant | ScopePayout | ScopeContent

record control_flag =
  cf_type :: flag_type
  cf_scope :: flag_scope
  cf_scope_id :: string
  cf_active :: bool
  cf_expires :: "int option"

record payout_deal =
  pl_seller :: string
  pl_state :: deal_state

record payout_participant =
  pp_id :: string
  pp_deal :: string
  pp_buyer :: buyer_state
  pp_money :: money_state

text \<open>The amount columns a settlement calculation, a settlement and a batch share.\<close>

record payout_amounts =
  am_gross :: int
  am_fee :: int
  am_refunds :: int
  am_reserve :: int
  am_net :: int
  am_payout :: int
  am_paid :: int
  am_failed :: int
  am_returned :: int
  am_blocked :: int
  am_delayed :: int

record settlement_row =
  sr_deal :: string
  sr_seller :: string
  sr_batch :: "string option"
  sr_status :: payout_status
  sr_amounts :: payout_amounts
  sr_mismatch :: int
  sr_events :: int
  sr_has_mismatch :: bool
  sr_has_case :: bool
  sr_blockers :: "blocking_reason list"
  sr_correlation :: string

datatype payout_result_class = PX_Success | PX_PermanentFail | PX_TemporaryFail | PX_Unknown

datatype payout_error_mark =
    DispatchHeldMark "blocking_reason list" | DispatchBlockedMark | CreatePermanentFailMark
  | CreateOutcomeUnknownMark payout_result_class | ProviderLookupMark payout_status | LookupInconclusiveMark
  | ReconciliationMismatchMark | OperatorAttestedFailedMark

record batch_row =
  br_id :: string
  br_deal :: string
  br_seller :: string
  br_status :: payout_status
  br_provider :: string
  br_reference :: "string option"
  br_correlation :: string
  br_settlement_count :: int
  br_item_count :: int
  br_amounts :: payout_amounts
  br_blockers :: "blocking_reason list"
  br_executed :: bool
  br_created_payout_at :: "int option"
  br_paid_at :: "int option"
  br_reconciled_at :: "int option"
  br_last_error :: "payout_error_mark option"

record item_row =
  im_batch :: string
  im_settlement :: string
  im_participant :: string
  im_deal :: string
  im_seller :: string
  im_status :: payout_status
  im_correlation :: string
  im_gross :: int
  im_fee :: int
  im_refunds :: int
  im_reserve :: int
  im_net :: int
  im_payout :: int
  im_events :: int
  im_buyer :: buyer_state
  im_money :: money_state
  im_reference :: "string option"
  im_executed :: bool

datatype payout_attempt_type = PT_Prepare | PT_CreatePayout | PT_GetPayoutStatus | PT_CancelPayout | PT_ReconcilePayout

record payout_attempt =
  pt_batch :: string
  pt_type :: payout_attempt_type
  pt_result :: payout_result_class
  pt_status :: "payout_status option"
  pt_correlation :: string
  pt_reference :: "string option"

datatype payout_case_type =
    CaseDispatchOutcomeUnknown | CaseSettlementChanged | CaseBatchItemTotalMismatch | CaseAmountMismatch
  | CaseRefundAfterDispatch

record payout_case =
  pc_settlement :: "string option"
  pc_batch :: "string option"
  pc_seller :: string
  pc_deal :: string
  pc_open :: bool
  pc_type :: payout_case_type
  pc_correlation :: string
  pc_blocking :: bool
  pc_expected :: int
  pc_observed :: int
  pc_expected_items :: int
  pc_observed_items :: int

record payout_db =
  py_deals :: "string \<Rightarrow> payout_deal option"
  py_accounts :: "string \<Rightarrow> account_status option"
  py_flags :: "control_flag list"
  py_participants :: "payout_participant list"
  py_ledger :: "fee_row list"
  py_settlements :: "settlement_row list"
  py_batches :: "batch_row list"
  py_items :: "item_row list"
  py_attempts :: "payout_attempt list"
  py_cases :: "payout_case list"
  py_outbox :: outbox_db

datatype payout_error =
    RefundsTotalDecrease | PaidAmountDecrease | PayoutAmountFrozen | PayoutStatusRegression
  | PayoutCheckViolation string | PayoutDuplicate string
  | PayoutBatchNotFound | SettlementMissingForReconcile
  | PayoutPermanentFail string
  | PayoutDispatchHeld "blocking_reason list" | PayoutDispatchBlocked "blocking_reason list"
  | CreatePayoutOutcomeUnknown payout_result_class | PayoutLookupInconclusive payout_result_class
  | ReconcilePayoutRetry payout_result_class

section \<open>Guarded writes\<close>

text \<open>An UPDATE changes the rows of its WHERE; the first row a trigger or check refuses aborts it.\<close>

fun update_where :: "('r \<Rightarrow> bool) \<Rightarrow> ('r \<Rightarrow> 'r) \<Rightarrow> ('r \<Rightarrow> 'r \<Rightarrow> 'e option) \<Rightarrow> 'r list \<Rightarrow> 'e + 'r list" where
  "update_where P f guard [] = Inr []"
| "update_where P f guard (r # rows) =
     (if P r
      then (case guard r (f r) of
              Some e \<Rightarrow> Inl e
            | None \<Rightarrow> on_ok (update_where P f guard rows) (\<lambda>rest. Inr (f r # rest)))
      else on_ok (update_where P f guard rows) (\<lambda>rest. Inr (r # rest)))"

text \<open>The three checks of \<open>077\<close> on settlements, those on batches and on items.\<close>

definition settlement_check :: "settlement_row \<Rightarrow> payout_error option" where
  "settlement_check r =
     (let a = sr_amounts r in
      if am_gross a < 0 \<or> am_refunds a < 0 \<or> am_reserve a < 0 \<or> am_payout a < 0 \<or> am_paid a < 0
         \<or> am_blocked a < 0 \<or> am_delayed a < 0
      then Some (PayoutCheckViolation ''seller_settlements_amounts_non_negative'')
      else if am_payout a < am_paid a then Some (PayoutCheckViolation ''seller_settlements_paid_le_payout'')
      else if List.member PRE_BATCH_STATUSES (sr_status r) \<and> max (am_net a) 0 < am_payout a
      then Some (PayoutCheckViolation ''seller_settlements_prebatch_payout_le_net'')
      else None)"

text \<open>The triggers run before the checks, in the order of their names.\<close>

definition settlement_guard :: "settlement_row \<Rightarrow> settlement_row \<Rightarrow> payout_error option" where
  "settlement_guard old new =
     (if am_refunds (sr_amounts new) < am_refunds (sr_amounts old) then Some RefundsTotalDecrease
      else if am_paid (sr_amounts new) < am_paid (sr_amounts old) then Some PaidAmountDecrease
      else if \<not> List.member PRE_BATCH_STATUSES (sr_status old) \<and> am_payout (sr_amounts new) \<noteq> am_payout (sr_amounts old)
      then Some PayoutAmountFrozen
      else if payout_status_regression (sr_status old) (sr_status new) then Some PayoutStatusRegression
      else settlement_check new)"

definition batch_check :: "batch_row \<Rightarrow> payout_error option" where
  "batch_check r =
     (let a = br_amounts r in
      if am_gross a < 0 \<or> am_refunds a < 0 \<or> am_reserve a < 0 \<or> am_payout a < 0 \<or> am_paid a < 0
      then Some (PayoutCheckViolation ''seller_payout_batches_amounts_non_negative'')
      else if am_payout a < am_paid a then Some (PayoutCheckViolation ''seller_payout_batches_paid_le_payout'')
      else if am_net a < am_payout a then Some (PayoutCheckViolation ''seller_payout_batches_payout_le_net'')
      else None)"

definition batch_guard :: "batch_row \<Rightarrow> batch_row \<Rightarrow> payout_error option" where
  "batch_guard old new =
     (if payout_status_regression (br_status old) (br_status new) then Some PayoutStatusRegression
      else batch_check new)"

definition item_check :: "item_row \<Rightarrow> payout_error option" where
  "item_check r =
     (if im_gross r < 0 \<or> im_refunds r < 0 \<or> im_reserve r < 0 \<or> im_payout r < 0
      then Some (PayoutCheckViolation ''seller_payout_batch_items_amounts_non_negative'')
      else if im_net r < im_payout r then Some (PayoutCheckViolation ''seller_payout_batch_items_payout_le_net'')
      else None)"

definition item_guard :: "item_row \<Rightarrow> item_row \<Rightarrow> payout_error option" where
  "item_guard old new =
     (if payout_status_regression (im_status old) (im_status new) then Some PayoutStatusRegression
      else item_check new)"

definition update_settlements ::
    "(settlement_row \<Rightarrow> bool) \<Rightarrow> (settlement_row \<Rightarrow> settlement_row) \<Rightarrow> payout_db \<Rightarrow> payout_error + payout_db" where
  "update_settlements P f db =
     on_ok (update_where P f settlement_guard (py_settlements db)) (\<lambda>rows. Inr (db\<lparr>py_settlements := rows\<rparr>))"

definition update_batches ::
    "(batch_row \<Rightarrow> bool) \<Rightarrow> (batch_row \<Rightarrow> batch_row) \<Rightarrow> payout_db \<Rightarrow> payout_error + payout_db" where
  "update_batches P f db =
     on_ok (update_where P f batch_guard (py_batches db)) (\<lambda>rows. Inr (db\<lparr>py_batches := rows\<rparr>))"

definition update_items ::
    "(item_row \<Rightarrow> bool) \<Rightarrow> (item_row \<Rightarrow> item_row) \<Rightarrow> payout_db \<Rightarrow> payout_error + payout_db" where
  "update_items P f db =
     on_ok (update_where P f item_guard (py_items db)) (\<lambda>rows. Inr (db\<lparr>py_items := rows\<rparr>))"

definition batch_of :: "string \<Rightarrow> payout_db \<Rightarrow> batch_row option" where
  "batch_of batch db = find (\<lambda>r. br_id r = batch) (py_batches db)"

text \<open>
  \<open>advanceBatchTreeInTx\<close>; the further SET fragments read the row as it was, so they are applied to it
  before the status is set.
\<close>

definition advanceBatchTreeInTx ::
    "string \<Rightarrow> payout_status \<Rightarrow> (batch_row \<Rightarrow> batch_row) \<Rightarrow> (item_row \<Rightarrow> item_row) \<Rightarrow> (settlement_row \<Rightarrow> settlement_row) \<Rightarrow>
     payout_db \<Rightarrow> payout_error + payout_db" where
  "advanceBatchTreeInTx batch to set_batch set_item set_settlement db =
     (let allowed = List.member (payoutStatusesAdvanceableTo to) in
      on_ok (update_batches (\<lambda>r. br_id r = batch \<and> allowed (br_status r))
               (\<lambda>r. (set_batch r)\<lparr>br_status := to\<rparr>) db) (\<lambda>db1.
      on_ok (update_items (\<lambda>r. im_batch r = batch \<and> allowed (im_status r))
               (\<lambda>r. (set_item r)\<lparr>im_status := to\<rparr>) db1) (\<lambda>db2.
      update_settlements (\<lambda>r. sr_batch r = Some batch \<and> allowed (sr_status r))
        (\<lambda>r. (set_settlement r)\<lparr>sr_status := to\<rparr>) db2)))"

definition blocking_case_open :: "string \<Rightarrow> payout_db \<Rightarrow> bool" where
  "blocking_case_open deal db \<longleftrightarrow> list_ex (\<lambda>c. pc_deal c = deal \<and> pc_open c \<and> pc_blocking c) (py_cases db)"

definition refreshSettlementCaseFlagInTx :: "string \<Rightarrow> payout_db \<Rightarrow> payout_error + payout_db" where
  "refreshSettlementCaseFlagInTx deal db =
     (let present = blocking_case_open deal db in
      update_settlements (\<lambda>r. sr_deal r = deal)
        (\<lambda>r. r\<lparr>sr_has_case := present,
               sr_blockers := (if present then sr_blockers r
                               else filter (\<lambda>x. x \<noteq> OpenBlockingReconciliationCase) (sr_blockers r))\<rparr>) db)"

section \<open>The settlement of a deal\<close>

record settlement_calculation =
  sc_seller :: string
  sc_deal :: string
  sc_state :: deal_state
  sc_amounts :: payout_amounts
  sc_events :: int
  sc_blocking_reasons :: "blocking_reason list"
  sc_open_case :: bool
  sc_open_mismatch :: bool
  sc_existing :: "payout_status list"
  sc_eligible :: bool
  sc_status :: payout_status

text \<open>\<open>uniqueStrings\<close> keeps the first occurrence; absent reasons are not in the list to begin with.\<close>

definition uniqueReasons :: "blocking_reason list \<Rightarrow> blocking_reason list" where
  "uniqueReasons rs = rev (remdups (rev rs))"

definition firstBlockingStatus :: "payout_status list \<Rightarrow> payout_status option" where
  "firstBlockingStatus statuses =
     (if List.member statuses PO_Paid then Some PO_Paid
      else if List.member statuses PO_Reconciled then Some PO_Reconciled
      else if List.member statuses PO_Processing then Some PO_Processing
      else if List.member statuses PO_Batched then Some PO_Batched
      else if List.member statuses PO_Returned then Some PO_Returned
      else if List.member statuses PO_Failed then Some PO_Failed
      else None)"

definition deriveSettlementStatus ::
    "deal_state \<Rightarrow> bool \<Rightarrow> int \<Rightarrow> blocking_reason list \<Rightarrow> payout_status list \<Rightarrow> bool \<Rightarrow> payout_status" where
  "deriveSettlementStatus state eligible payout_amount blocking existing freeze =
     (case firstBlockingStatus existing of
        Some s \<Rightarrow> s
      | None \<Rightarrow>
          (if freeze then PO_Pending
           else if state \<noteq> D_Completed then PO_Pending
           else if \<not> eligible then PO_Pending
           else if blocking \<noteq> [] then PO_Pending
           else if payout_amount \<le> 0 then PO_Returned
           else PO_Ready))"

definition ledger_of_deal :: "string \<Rightarrow> payout_db \<Rightarrow> fee_amounts list" where
  "ledger_of_deal deal db = map fr_amounts (filter (\<lambda>r. fr_deal r = deal) (py_ledger db))"

text \<open>The sums of the two ledger queries, over any selection of entries.\<close>

definition gross_collected :: "fee_amounts list \<Rightarrow> int" where
  "gross_collected as = sum_list (map (\<lambda>a. if 0 < fa_gross a then fa_gross a else 0) as)"

definition refunds_total :: "fee_amounts list \<Rightarrow> int" where
  "refunds_total as = sum_list (map (\<lambda>a. if fa_gross a < 0 then \<bar>fa_gross a\<bar> else 0) as)"

definition fee_total :: "fee_amounts list \<Rightarrow> int" where
  "fee_total as = sum_list (map fa_platform_fee_total as)"

definition seller_net :: "fee_amounts list \<Rightarrow> int" where
  "seller_net as = sum_list (map fa_seller_net as)"

definition existing_payout_statuses :: "string \<Rightarrow> string option \<Rightarrow> payout_db \<Rightarrow> payout_status list" where
  "existing_payout_statuses deal excluded db =
     remdups (map im_status (filter (\<lambda>r. im_deal r = deal \<and> Some (im_batch r) \<noteq> excluded) (py_items db)))"

definition payout_freeze_active :: "int \<Rightarrow> string \<Rightarrow> string \<Rightarrow> payout_db \<Rightarrow> bool" where
  "payout_freeze_active now seller deal db \<longleftrightarrow>
     list_ex (\<lambda>f. cf_type f = PayoutFreeze \<and> cf_active f
        \<and> (case cf_expires f of None \<Rightarrow> True | Some t \<Rightarrow> now < t)
        \<and> ((cf_scope f = ScopeGlobal \<and> cf_scope_id f = ''global'')
           \<or> (cf_scope f = ScopeSeller \<and> cf_scope_id f = seller)
           \<or> (cf_scope f = ScopeDeal \<and> cf_scope_id f = deal))) (py_flags db)"

definition blocking_reasons_of ::
    "deal_state \<Rightarrow> account_status \<Rightarrow> int \<Rightarrow> int \<Rightarrow> payout_status list \<Rightarrow> bool \<Rightarrow> bool \<Rightarrow> blocking_reason list" where
  "blocking_reasons_of state account gross net existing open_case freeze = uniqueReasons (
     (if state \<noteq> D_Completed then [DealStateReason state] else [])
     @ (if account \<noteq> AccountActive then [SellerSettlementStatus account] else [])
     @ (if gross \<le> 0 then [NoGrossCollected] else [])
     @ (if net \<le> 0 then [SellerNetNonPositive] else [])
     @ (if list_ex (\<lambda>s. List.member [PO_Batched, PO_Processing, PO_Paid, PO_Reconciled] s) existing
        then [DealAlreadyPayouted] else [])
     @ (if open_case then [OpenBlockingReconciliationCase] else [])
     @ (if net < 0 then [OpenMoneyMismatch] else [])
     @ (if freeze then [PayoutFreezeActive] else []))"

text \<open>\<open>reason.includes("reconciliation") || reason.includes("mismatch")\<close>: of the reasons of this function, these two.\<close>

definition delays_payout :: "blocking_reason \<Rightarrow> bool" where
  "delays_payout r \<longleftrightarrow> r = OpenBlockingReconciliationCase \<or> r = OpenMoneyMismatch"

definition settlement_amounts_of :: "fee_amounts list \<Rightarrow> payout_status list \<Rightarrow> blocking_reason list \<Rightarrow> payout_amounts" where
  "settlement_amounts_of ledger existing blocking =
     (let reserve = 0;
          net = seller_net ledger - reserve;
          eligible = (blocking = []);
          has = List.member existing
      in \<lparr>am_gross = gross_collected ledger, am_fee = fee_total ledger, am_refunds = refunds_total ledger,
          am_reserve = reserve, am_net = net,
          am_payout = (if eligible then net else 0),
          am_paid = (if has PO_Paid \<or> has PO_Reconciled then net else 0),
          am_failed = (if has PO_Failed then net else 0),
          am_returned = (if has PO_Returned then net else 0),
          am_blocked = (if \<not> eligible \<and> 0 < net then net else 0),
          am_delayed = (if \<not> eligible \<and> list_ex delays_payout blocking then max 0 net else 0)\<rparr>)"

definition calculateSellerSettlementForDealInTx ::
    "int \<Rightarrow> string \<Rightarrow> string option \<Rightarrow> payout_db \<Rightarrow> settlement_calculation option" where
  "calculateSellerSettlementForDealInTx now deal excluded db =
     (case py_deals db deal of
        None \<Rightarrow> None
      | Some d \<Rightarrow>
          (case py_accounts db (pl_seller d) of
             None \<Rightarrow> None
           | Some account \<Rightarrow>
               (let ledger = ledger_of_deal deal db;
                    existing = existing_payout_statuses deal excluded db;
                    open_case = blocking_case_open deal db;
                    freeze = payout_freeze_active now (pl_seller d) deal db;
                    blocking = blocking_reasons_of (pl_state d) account (gross_collected ledger) (seller_net ledger)
                                 existing open_case freeze;
                    amounts = settlement_amounts_of ledger existing blocking
                in Some \<lparr>sc_seller = pl_seller d, sc_deal = deal, sc_state = pl_state d, sc_amounts = amounts,
                         sc_events = int (length ledger), sc_blocking_reasons = blocking, sc_open_case = open_case,
                         sc_open_mismatch = (am_net amounts < 0), sc_existing = existing,
                         sc_eligible = (blocking = []),
                         sc_status = deriveSettlementStatus (pl_state d) (blocking = []) (am_payout amounts)
                                       blocking existing freeze\<rparr>)))"

text \<open>
  \<open>upsertSellerSettlementInTx\<close>. The checks apply to the proposed row even when a row of the deal exists and
  is updated instead: PostgreSQL checks it before it looks for the conflict.
\<close>

definition proposed_settlement :: "settlement_calculation \<Rightarrow> string \<Rightarrow> settlement_row" where
  "proposed_settlement c correlation =
     \<lparr>sr_deal = sc_deal c, sr_seller = sc_seller c, sr_batch = None, sr_status = sc_status c,
      sr_amounts = sc_amounts c, sr_mismatch = (if sc_open_mismatch c then am_net (sc_amounts c) else 0),
      sr_events = sc_events c, sr_has_mismatch = sc_open_mismatch c, sr_has_case = sc_open_case c,
      sr_blockers = sc_blocking_reasons c, sr_correlation = correlation\<rparr>"

definition merged_settlement :: "settlement_row \<Rightarrow> settlement_row \<Rightarrow> settlement_row" where
  "merged_settlement new old =
     (let a = sr_amounts old; b = sr_amounts new;
          payout = (if List.member PRE_BATCH_STATUSES (sr_status old) then am_payout b else am_payout a)
      in old\<lparr>sr_status := (if List.member (payoutStatusesAdvanceableTo (sr_status new)) (sr_status old)
                           then sr_status new else sr_status old),
             sr_amounts := b\<lparr>am_refunds := max (am_refunds a) (am_refunds b), am_payout := payout,
                             am_paid := max (am_paid a) (min (am_paid b) payout)\<rparr>,
             sr_mismatch := sr_mismatch new, sr_events := sr_events new,
             sr_has_mismatch := sr_has_mismatch new, sr_has_case := sr_has_case new,
             sr_blockers := sr_blockers new, sr_correlation := sr_correlation new\<rparr>)"

definition settlement_of :: "string \<Rightarrow> payout_db \<Rightarrow> settlement_row option" where
  "settlement_of deal db = find (\<lambda>r. sr_deal r = deal) (py_settlements db)"

definition upsertSellerSettlementInTx ::
    "settlement_calculation \<Rightarrow> string \<Rightarrow> payout_db \<Rightarrow> payout_error + payout_db" where
  "upsertSellerSettlementInTx c correlation db =
     (let new = proposed_settlement c correlation in
      case settlement_check new of
        Some e \<Rightarrow> Inl e
      | None \<Rightarrow>
          (case settlement_of (sc_deal c) db of
             None \<Rightarrow> Inr (db\<lparr>py_settlements := py_settlements db @ [new]\<rparr>)
           | Some _ \<Rightarrow> update_settlements (\<lambda>r. sr_deal r = sc_deal c) (merged_settlement new) db))"

section \<open>Blocking cases and jobs\<close>

text \<open>The unique index of \<open>077\<close> admits one open case of a type for a batch.\<close>

definition createBlockingReconciliationCase :: "payout_case \<Rightarrow> payout_db \<Rightarrow> payout_error + payout_db" where
  "createBlockingReconciliationCase new db =
     (if pc_batch new \<noteq> None
         \<and> list_ex (\<lambda>c. pc_open c \<and> pc_batch c = pc_batch new \<and> pc_type c = pc_type new) (py_cases db)
      then Inl (PayoutDuplicate ''uq_seller_payout_recon_cases_open_per_batch_type'')
      else Inr (db\<lparr>py_cases := py_cases db @ [new]\<rparr>))"

definition ensureOpenBlockingCase :: "payout_case \<Rightarrow> payout_db \<Rightarrow> payout_error + payout_db" where
  "ensureOpenBlockingCase new db =
     on_ok (if list_ex (\<lambda>c. pc_deal c = pc_deal new \<and> pc_type c = pc_type new \<and> pc_open c \<and> pc_batch c = pc_batch new)
               (py_cases db)
            then Inr db else createBlockingReconciliationCase new db) (\<lambda>db1.
       update_settlements (\<lambda>r. sr_deal r = pc_deal new)
         (\<lambda>r. r\<lparr>sr_has_case := True,
                sr_blockers := remdups (sr_blockers r @ [OpenBlockingReconciliationCase])\<rparr>) db1)"

definition dispatch_unknown_open :: "string \<Rightarrow> payout_db \<Rightarrow> bool" where
  "dispatch_unknown_open batch db \<longleftrightarrow>
     list_ex (\<lambda>c. pc_batch c = Some batch \<and> pc_type c = CaseDispatchOutcomeUnknown \<and> pc_open c) (py_cases db)"

definition resolveDispatchUnknownCasesInTx :: "batch_row \<Rightarrow> payout_db \<Rightarrow> payout_error + payout_db" where
  "resolveDispatchUnknownCasesInTx batch db =
     refreshSettlementCaseFlagInTx (br_deal batch)
       (db\<lparr>py_cases := map (\<lambda>c. if pc_batch c = Some (br_id batch) \<and> pc_type c = CaseDispatchOutcomeUnknown \<and> pc_open c
                               then c\<lparr>pc_open := False\<rparr> else c) (py_cases db)\<rparr>)"

definition settlementIdForBatchInTx :: "string \<Rightarrow> payout_db \<Rightarrow> string option" where
  "settlementIdForBatchInTx batch db =
     map_option sr_deal (find (\<lambda>r. sr_batch r = Some batch) (py_settlements db))"

text \<open>\<open>insertOutboxEventIfMissing\<close>, with the identifier of the new row as an argument.\<close>

definition insertOutboxEventIfMissing ::
    "string \<Rightarrow> int \<Rightarrow> string \<Rightarrow> string \<Rightarrow> string \<Rightarrow> string \<Rightarrow> payout_db \<Rightarrow> payout_error + bool \<times> payout_db" where
  "insertOutboxEventIfMissing uuid now event_type aggregate_type aggregate_id payload db =
     (if list_ex (\<lambda>r. ob_event_type r = event_type \<and> ob_aggregate_type r = aggregate_type
            \<and> ob_aggregate_id r = aggregate_id \<and> List.member [Pending, Processing, Sent] (ob_status r))
          (odb_events (py_outbox db))
      then Inr (False, db)
      else (case insert_outbox_event
                   \<lparr>ob_id = uuid, ob_event_type = event_type, ob_aggregate_type = aggregate_type,
                    ob_aggregate_id = aggregate_id, ob_payload = payload, ob_status = Pending,
                    ob_attempt_count = 0, ob_max_attempts = 10, ob_available_at = now, ob_sent_at = None,
                    ob_processing_started_at = None, ob_claimed_at = None, ob_lease_expires_at = None,
                    ob_worker_id = None, ob_last_attempt_at = None, ob_last_heartbeat_at = None,
                    ob_lease_generation = 0, ob_last_error = None, ob_correlation_id = '''',
                    ob_request_id = ''''\<rparr> (py_outbox db) of
              Inl _ \<Rightarrow> Inl (PayoutDuplicate ''ux_outbox_one_pending_per_aggregate_event'')
            | Inr outbox \<Rightarrow> Inr (True, db\<lparr>py_outbox := outbox\<rparr>)))"

text \<open>
  \<open>recordAttempt\<close>: the payout item of a new row is null, and a unique constraint never treats two nulls as
  equal, so the ON CONFLICT of the statement never applies.
\<close>

definition recordAttempt ::
    "string \<Rightarrow> payout_attempt_type \<Rightarrow> payout_result_class \<Rightarrow> payout_status option \<Rightarrow> string \<Rightarrow> string option \<Rightarrow>
     payout_db \<Rightarrow> payout_db" where
  "recordAttempt batch kind result status correlation reference db =
     db\<lparr>py_attempts := py_attempts db @ [\<lparr>pt_batch = batch, pt_type = kind, pt_result = result,
          pt_status = status, pt_correlation = correlation, pt_reference = reference\<rparr>]\<rparr>"

section \<open>Preparing a batch\<close>

text \<open>The ledger entries of a participant; the join of the query keeps participants with at least one.\<close>

definition ledger_of_participant :: "string \<Rightarrow> payout_db \<Rightarrow> fee_row list" where
  "ledger_of_participant participant db = filter (\<lambda>r. fr_participant r = participant) (py_ledger db)"

record participant_money =
  pm_participant :: payout_participant
  pm_gross :: int
  pm_fee :: int
  pm_refunds :: int
  pm_net :: int
  pm_events :: int
  pm_refund_entries :: int

definition participant_money_of :: "payout_db \<Rightarrow> payout_participant \<Rightarrow> participant_money" where
  "participant_money_of db p =
     (let rows = ledger_of_participant (pp_id p) db; as = map fr_amounts rows
      in \<lparr>pm_participant = p, pm_gross = gross_collected as, pm_fee = fee_total as, pm_refunds = refunds_total as,
          pm_net = seller_net as, pm_events = int (length rows),
          pm_refund_entries = int (length (filter (\<lambda>r. fr_entry r = RefundAdjustment \<or> fa_gross (fr_amounts r) < 0) rows))\<rparr>)"

definition participant_rows :: "string \<Rightarrow> payout_db \<Rightarrow> participant_money list" where
  "participant_rows deal db =
     map (participant_money_of db)
       (filter (\<lambda>p. pp_deal p = deal \<and> ledger_of_participant (pp_id p) db \<noteq> []) (py_participants db))"

datatype exclusion_reason = RefundAdjustmentPresent | MoneyStateNotPayable money_state | ParticipantNetNonPositive

definition exclusion_of :: "participant_money \<Rightarrow> exclusion_reason option" where
  "exclusion_of m =
     (if 0 < pm_refund_entries m then Some RefundAdjustmentPresent
      else if \<not> List.member PAYABLE_PARTICIPANT_MONEY_STATES (pp_money (pm_participant m))
      then Some (MoneyStateNotPayable (pp_money (pm_participant m)))
      else if pm_net m \<le> 0 then Some ParticipantNetNonPositive
      else None)"

definition payable_participants :: "string \<Rightarrow> payout_db \<Rightarrow> participant_money list" where
  "payable_participants deal db = filter (\<lambda>m. exclusion_of m = None) (participant_rows deal db)"

text \<open>\<open>summarizeBatchFromSettlements\<close>\<close>

definition no_amounts :: payout_amounts where
  "no_amounts = \<lparr>am_gross = 0, am_fee = 0, am_refunds = 0, am_reserve = 0, am_net = 0, am_payout = 0, am_paid = 0,
                 am_failed = 0, am_returned = 0, am_blocked = 0, am_delayed = 0\<rparr>"

definition add_amounts :: "payout_amounts \<Rightarrow> payout_amounts \<Rightarrow> payout_amounts" where
  "add_amounts a b =
     \<lparr>am_gross = am_gross a + am_gross b, am_fee = am_fee a + am_fee b, am_refunds = am_refunds a + am_refunds b,
      am_reserve = am_reserve a + am_reserve b, am_net = am_net a + am_net b, am_payout = am_payout a + am_payout b,
      am_paid = am_paid a + am_paid b, am_failed = am_failed a + am_failed b,
      am_returned = am_returned a + am_returned b, am_blocked = am_blocked a + am_blocked b,
      am_delayed = am_delayed a + am_delayed b\<rparr>"

record batch_calculation =
  bc_seller :: string
  bc_settlement_count :: int
  bc_amounts :: payout_amounts
  bc_status :: payout_status

definition summarizeBatchFromSettlements :: "settlement_calculation list \<Rightarrow> batch_calculation" where
  "summarizeBatchFromSettlements ss =
     \<lparr>bc_seller = (case ss of [] \<Rightarrow> '''' | s # _ \<Rightarrow> sc_seller s), bc_settlement_count = int (length ss),
      bc_amounts = foldl add_amounts no_amounts (map sc_amounts ss),
      bc_status = (if ss \<noteq> [] \<and> list_all (\<lambda>s. sc_status s = PO_Ready) ss then PO_Ready else PO_Pending)\<rparr>"

definition replaceSettlementBatchLink :: "string \<Rightarrow> string \<Rightarrow> payout_db \<Rightarrow> payout_error + payout_db" where
  "replaceSettlementBatchLink deal batch db =
     update_settlements (\<lambda>r. sr_deal r = deal \<and> List.member (payoutStatusesAdvanceableTo PO_Batched) (sr_status r))
       (\<lambda>r. r\<lparr>sr_batch := Some batch, sr_status := PO_Batched\<rparr>) db"

definition insert_batch :: "batch_row \<Rightarrow> payout_db \<Rightarrow> payout_error + payout_db" where
  "insert_batch new db =
     (case batch_check new of
        Some e \<Rightarrow> Inl e
      | None \<Rightarrow>
          if list_ex (\<lambda>r. br_id r = br_id new \<or> br_deal r = br_deal new) (py_batches db)
          then Inl (PayoutDuplicate ''seller_payout_batches'')
          else Inr (db\<lparr>py_batches := py_batches db @ [new]\<rparr>))"

definition insert_item :: "item_row \<Rightarrow> payout_db \<Rightarrow> payout_error + payout_db" where
  "insert_item new db =
     (case item_check new of
        Some e \<Rightarrow> Inl e
      | None \<Rightarrow>
          if list_ex (\<lambda>r. im_participant r = im_participant new) (py_items db)
          then Inl (PayoutDuplicate ''seller_payout_batch_items'')
          else Inr (db\<lparr>py_items := py_items db @ [new]\<rparr>))"

fun insert_items :: "item_row list \<Rightarrow> payout_db \<Rightarrow> payout_error + payout_db" where
  "insert_items [] db = Inr db"
| "insert_items (r # rest) db = on_ok (insert_item r db) (insert_items rest)"

definition item_for :: "string \<Rightarrow> string \<Rightarrow> string \<Rightarrow> string \<Rightarrow> participant_money \<Rightarrow> item_row" where
  "item_for batch deal seller correlation m =
     \<lparr>im_batch = batch, im_settlement = deal, im_participant = pp_id (pm_participant m), im_deal = deal,
      im_seller = seller, im_status = PO_Batched, im_correlation = correlation, im_gross = pm_gross m,
      im_fee = pm_fee m, im_refunds = pm_refunds m, im_reserve = 0, im_net = pm_net m, im_payout = pm_net m,
      im_events = pm_events m, im_buyer = pp_buyer (pm_participant m), im_money = pp_money (pm_participant m),
      im_reference = None, im_executed = False\<rparr>"

record prepare_args =
  pr_deal :: string
  pr_correlation :: "string option"
  pr_provider :: string
  pr_new_batch :: string
  pr_new_event :: string

datatype prepare_result =
    PrepareDealNotFound | PrepareNotReady payout_status | PrepareDuplicateIgnored string
  | PrepareTotalMismatch | PrepareBatched string

text \<open>The blocking case when the payable participants do not add up to the settlement.\<close>

definition refuse_mismatched_batch ::
    "settlement_calculation \<Rightarrow> string \<Rightarrow> participant_money list \<Rightarrow> participant_money list \<Rightarrow> payout_db \<Rightarrow>
     payout_error + prepare_result \<times> payout_db" where
  "refuse_mismatched_batch calc correlation rows payable db =
     on_ok (ensureOpenBlockingCase
              \<lparr>pc_settlement = Some (sc_deal calc), pc_batch = None, pc_seller = sc_seller calc,
               pc_deal = sc_deal calc, pc_open = True, pc_type = CaseBatchItemTotalMismatch,
               pc_correlation = correlation, pc_blocking = True, pc_expected = am_payout (sc_amounts calc),
               pc_observed = sum_list (map pm_net payable), pc_expected_items = int (length rows),
               pc_observed_items = int (length payable)\<rparr> db) (\<lambda>db1.
     on_ok (update_settlements (\<lambda>r. sr_deal r = sc_deal calc \<and> List.member PRE_BATCH_STATUSES (sr_status r))
              (\<lambda>r. r\<lparr>sr_status := PO_Pending, sr_amounts := (sr_amounts r)\<lparr>am_payout := 0\<rparr>\<rparr>) db1) (\<lambda>db2.
       Inr (PrepareTotalMismatch, db2)))"

definition write_batch ::
    "int \<Rightarrow> prepare_args \<Rightarrow> settlement_calculation \<Rightarrow> string \<Rightarrow> participant_money list \<Rightarrow> payout_db \<Rightarrow>
     payout_error + prepare_result \<times> payout_db" where
  "write_batch now args calc correlation payable db =
     (let calculation = summarizeBatchFromSettlements [calc]; batch = pr_new_batch args in
      on_ok (insert_batch
              \<lparr>br_id = batch, br_deal = sc_deal calc, br_seller = sc_seller calc, br_status = PO_Batched,
               br_provider = pr_provider args, br_reference = None, br_correlation = correlation,
               br_settlement_count = bc_settlement_count calculation, br_item_count = 0,
               br_amounts = bc_amounts calculation, br_blockers = sc_blocking_reasons calc, br_executed = False,
               br_created_payout_at = None, br_paid_at = None, br_reconciled_at = None, br_last_error = None\<rparr> db) (\<lambda>db1.
      on_ok (replaceSettlementBatchLink (sc_deal calc) batch db1) (\<lambda>db2.
      on_ok (insert_items (map (item_for batch (pr_deal args) (sc_seller calc) correlation) payable)
              (recordAttempt batch PT_Prepare PX_Success (Some PO_Batched) correlation None db2)) (\<lambda>db3.
      on_ok (update_batches (\<lambda>r. br_id r = batch) (\<lambda>r. r\<lparr>br_item_count := int (length payable)\<rparr>) db3) (\<lambda>db4.
      on_ok (insertOutboxEventIfMissing (pr_new_event args) now ''seller_payout_dispatch'' ''seller_payout_batch'' batch batch db4)
        (\<lambda>(_, db5). Inr (PrepareBatched batch, db5)))))))"

definition prepareBatchForDeal :: "int \<Rightarrow> prepare_args \<Rightarrow> payout_db \<Rightarrow> payout_error + prepare_result \<times> payout_db" where
  "prepareBatchForDeal now args db =
     (let correlation = (case pr_correlation args of Some c \<Rightarrow> c | None \<Rightarrow> ''seller-payout-prepare:'' @ pr_deal args) in
      case calculateSellerSettlementForDealInTx now (pr_deal args) None db of
        None \<Rightarrow> Inr (PrepareDealNotFound, db)
      | Some calc \<Rightarrow>
          on_ok (upsertSellerSettlementInTx calc correlation db) (\<lambda>db1.
            (case settlement_of (pr_deal args) db1 of
               None \<Rightarrow> Inr (PrepareNotReady (sc_status calc), db1)
             | Some settlement \<Rightarrow>
                 if sc_status calc \<noteq> PO_Ready \<or> sr_status settlement \<noteq> PO_Ready
                 then Inr (PrepareNotReady (sr_status settlement), db1)
                 else (case find (\<lambda>r. br_deal r = pr_deal args) (py_batches db1) of
                         Some b \<Rightarrow> Inr (PrepareDuplicateIgnored (br_id b), db1)
                       | None \<Rightarrow>
                           (let rows = participant_rows (pr_deal args) db1;
                                payable = payable_participants (pr_deal args) db1
                            in if payable = [] \<or> sum_list (map pm_net payable) \<noteq> am_payout (sc_amounts calc)
                               then refuse_mismatched_batch calc correlation rows payable db1
                               else write_batch now args calc correlation payable db1)))))"

definition enqueuePrepareForDeal :: "string \<Rightarrow> int \<Rightarrow> string \<Rightarrow> payout_db \<Rightarrow> payout_error + bool \<times> payout_db" where
  "enqueuePrepareForDeal uuid now deal db =
     (case py_deals db deal of
        None \<Rightarrow> Inr (False, db)
      | Some _ \<Rightarrow> insertOutboxEventIfMissing uuid now ''seller_payout_prepare'' ''deal'' deal deal db)"

section \<open>Reports\<close>

text \<open>Rows are listed in the order of their insertion, or newest first.\<close>

record batch_snapshot =
  sn_batch :: batch_row
  sn_settlements :: "settlement_row list"
  sn_items :: "item_row list"
  sn_attempts :: "payout_attempt list"
  sn_cases :: "payout_case list"

definition loadBatchSnapshot :: "string \<Rightarrow> payout_db \<Rightarrow> batch_snapshot option" where
  "loadBatchSnapshot batch db =
     map_option (\<lambda>b. \<lparr>sn_batch = b, sn_settlements = filter (\<lambda>r. sr_batch r = Some batch) (py_settlements db),
        sn_items = filter (\<lambda>r. im_batch r = batch) (py_items db),
        sn_attempts = rev (filter (\<lambda>r. pt_batch r = batch) (py_attempts db)),
        sn_cases = rev (filter (\<lambda>r. pc_batch r = Some batch) (py_cases db))\<rparr>) (batch_of batch db)"

record deal_summary =
  ds_settlement :: "settlement_row option"
  ds_batches :: "batch_row list"
  ds_items :: "item_row list"
  ds_cases :: "payout_case list"

definition getDealPayoutSummary :: "string \<Rightarrow> payout_db \<Rightarrow> deal_summary" where
  "getDealPayoutSummary deal db =
     \<lparr>ds_settlement = settlement_of deal db, ds_batches = rev (filter (\<lambda>r. br_deal r = deal) (py_batches db)),
      ds_items = rev (filter (\<lambda>r. im_deal r = deal) (py_items db)),
      ds_cases = rev (filter (\<lambda>r. pc_deal r = deal) (py_cases db))\<rparr>"

record status_summary =
  ss_settlements :: "(payout_status \<times> int) list"
  ss_ready_amount :: int
  ss_blocked_amount :: int
  ss_delayed_amount :: int
  ss_batches :: "(payout_status \<times> int) list"
  ss_batched_amount :: int
  ss_open_cases :: int

definition count_by_status :: "payout_status list \<Rightarrow> (payout_status \<times> int) list" where
  "count_by_status statuses = map (\<lambda>s. (s, int (length (filter (\<lambda>t. t = s) statuses)))) PAYOUT_LIFECYCLE_STATUSES"

definition payoutStatusSummary :: "payout_db \<Rightarrow> status_summary" where
  "payoutStatusSummary db =
     (let ss = py_settlements db; bs = py_batches db in
      \<lparr>ss_settlements = count_by_status (map sr_status ss),
       ss_ready_amount = sum_list (map (am_payout \<circ> sr_amounts) (filter (\<lambda>r. sr_status r = PO_Ready) ss)),
       ss_blocked_amount = sum_list (map (am_blocked \<circ> sr_amounts) ss),
       ss_delayed_amount = sum_list (map (am_delayed \<circ> sr_amounts) ss),
       ss_batches = count_by_status (map br_status bs),
       ss_batched_amount = sum_list (map (am_payout \<circ> br_amounts)
          (filter (\<lambda>r. List.member [PO_Batched, PO_Processing, PO_Paid, PO_Reconciled] (br_status r)) bs)),
       ss_open_cases = int (length (filter (\<lambda>c. pc_open c \<and> pc_blocking c) (py_cases db)))\<rparr>)"

end
