(* ===== verification/PayoutDispatch.thy ===== *)
theory PayoutDispatch
  imports PayoutRail
begin

text \<open>
  The second half of \<open>src/payout_rail.ts\<close>: a batch is dispatched to the payout provider, looked up when the
  answer was lost, attested by an operator, and reconciled. Each of these is a transaction that decides, a
  call of the provider, and a transaction that records its answer; other transactions may commit in between.
  The answers of the provider are arguments.
\<close>

section \<open>Answers of the payout provider\<close>

record payout_answer =
  an_class :: payout_result_class
  an_status :: "payout_status option"
  an_reference :: "string option"
  an_executed :: bool

record reconcile_answer = payout_answer +
  an_matched :: bool
  an_observed_items :: int

text \<open>A call that throws or times out; its raw error text is not kept.\<close>

definition unknownProviderResult :: payout_answer where
  "unknownProviderResult = \<lparr>an_class = PX_Unknown, an_status = None, an_reference = None, an_executed = False\<rparr>"

definition answer_or_unknown :: "payout_answer option \<Rightarrow> payout_answer" where
  "answer_or_unknown answer = (case answer of None \<Rightarrow> unknownProviderResult | Some a \<Rightarrow> a)"

text \<open>
  \<open>applyProviderAcceptedInTx\<close>: any confirmed status but paid and reconciled counts as processing. The
  transaction clock fills the two timestamps that are still empty.
\<close>

definition accepted_target :: "payout_answer \<Rightarrow> payout_status" where
  "accepted_target a = (if an_status a = Some PO_Paid \<or> an_status a = Some PO_Reconciled then PO_Paid else PO_Processing)"

definition coalesce :: "'a option \<Rightarrow> 'a option \<Rightarrow> 'a option" where
  "coalesce a b = (case a of None \<Rightarrow> b | Some _ \<Rightarrow> a)"

definition accepted_batch :: "int \<Rightarrow> payout_answer \<Rightarrow> batch_row \<Rightarrow> batch_row" where
  "accepted_batch now a r =
     (let r1 = r\<lparr>br_reference := coalesce (an_reference a) (br_reference r), br_executed := an_executed a,
                 br_created_payout_at := coalesce (br_created_payout_at r) (Some now), br_last_error := None\<rparr>
      in if accepted_target a = PO_Paid
         then r1\<lparr>br_amounts := (br_amounts r)\<lparr>am_paid := am_payout (br_amounts r)\<rparr>,
                 br_paid_at := coalesce (br_paid_at r) (Some now)\<rparr>
         else r1)"

definition accepted_item :: "payout_answer \<Rightarrow> item_row \<Rightarrow> item_row" where
  "accepted_item a r = r\<lparr>im_reference := coalesce (an_reference a) (im_reference r), im_executed := an_executed a\<rparr>"

definition paid_settlement :: "settlement_row \<Rightarrow> settlement_row" where
  "paid_settlement r =
     r\<lparr>sr_amounts := (sr_amounts r)\<lparr>am_paid := max (am_paid (sr_amounts r)) (am_payout (sr_amounts r))\<rparr>\<rparr>"

definition failed_settlement :: "settlement_row \<Rightarrow> settlement_row" where
  "failed_settlement r = r\<lparr>sr_amounts := (sr_amounts r)\<lparr>am_failed := am_payout (sr_amounts r)\<rparr>\<rparr>"

definition returned_settlement :: "settlement_row \<Rightarrow> settlement_row" where
  "returned_settlement r = r\<lparr>sr_amounts := (sr_amounts r)\<lparr>am_returned := am_payout (sr_amounts r)\<rparr>\<rparr>"

definition applyProviderAcceptedInTx ::
    "string \<Rightarrow> int \<Rightarrow> batch_row \<Rightarrow> payout_answer \<Rightarrow> payout_db \<Rightarrow> payout_error + payout_db" where
  "applyProviderAcceptedInTx uuid now batch a db =
     on_ok (advanceBatchTreeInTx (br_id batch) (accepted_target a) (accepted_batch now a) (accepted_item a)
              (if accepted_target a = PO_Paid then paid_settlement else (\<lambda>r. r)) db) (\<lambda>db1.
     on_ok (resolveDispatchUnknownCasesInTx batch db1) (\<lambda>db2.
     on_ok (insertOutboxEventIfMissing uuid now ''seller_payout_reconcile'' ''seller_payout_batch'' (br_id batch)
              (br_id batch) db2) (\<lambda>(_, db3). Inr db3)))"

section \<open>Attestation by an operator\<close>

definition attested_outcome :: "string \<Rightarrow> payout_status option" where
  "attested_outcome s =
     (if s = ''processing'' then Some PO_Processing else if s = ''paid'' then Some PO_Paid
      else if s = ''failed'' then Some PO_Failed else None)"

definition reference_char :: "char \<Rightarrow> bool" where
  "reference_char c \<longleftrightarrow>
     (let n = (of_char c :: nat) in
        (of_char CHR ''A'' \<le> n \<and> n \<le> of_char CHR ''Z'') \<or> (of_char CHR ''a'' \<le> n \<and> n \<le> of_char CHR ''z'')
        \<or> (of_char CHR ''0'' \<le> n \<and> n \<le> of_char CHR ''9'') \<or> List.member ''._:/#-'' c)"

text \<open>\<open>/^[A-Za-z0-9._:/#-]{3,200}$/\<close> on the trimmed value, which must be the value itself.\<close>

definition isValidAttestedProviderReference :: "string \<Rightarrow> bool" where
  "isValidAttestedProviderReference value \<longleftrightarrow>
     3 \<le> length (js_trim value) \<and> length (js_trim value) \<le> 200 \<and> list_all reference_char (js_trim value)
     \<and> js_trim value = value"

record attestation =
  at_batch :: string
  at_outcome :: string
  at_reference :: string
  at_action :: string

datatype attest_result =
    Attested payout_status | AttestedOutcomeInvalid | ProviderReferenceRequired | AttestedBatchNotFound
  | NoOpenDispatchUnknownCase | PayoutBatchNotProcessing payout_status

definition apply_attestation ::
    "string \<Rightarrow> int \<Rightarrow> attestation \<Rightarrow> payout_status \<Rightarrow> batch_row \<Rightarrow> payout_db \<Rightarrow> payout_error + attest_result \<times> payout_db" where
  "apply_attestation uuid now args outcome batch db =
     (let db1 = recordAttempt (at_batch args) PT_GetPayoutStatus PX_Success (Some outcome)
                  (''admin-attestation:'' @ at_action args) (Some (at_reference args)) db
      in if outcome = PO_Failed
         then on_ok (advanceBatchTreeInTx (at_batch args) PO_Failed
                       (\<lambda>r. r\<lparr>br_last_error := Some OperatorAttestedFailedMark\<rparr>) (\<lambda>r. r) failed_settlement db1) (\<lambda>db2.
              on_ok (resolveDispatchUnknownCasesInTx batch db2) (\<lambda>db3. Inr (Attested PO_Failed, db3)))
         else on_ok (applyProviderAcceptedInTx uuid now batch
                       \<lparr>an_class = PX_Success, an_status = Some outcome, an_reference = Some (at_reference args),
                        an_executed = True\<rparr> db1) (\<lambda>db2. Inr (Attested outcome, db2)))"

definition resolveDispatchUnknownByAttestationInTx ::
    "string \<Rightarrow> int \<Rightarrow> attestation \<Rightarrow> payout_db \<Rightarrow> payout_error + attest_result \<times> payout_db" where
  "resolveDispatchUnknownByAttestationInTx uuid now args db =
     (case attested_outcome (at_outcome args) of
        None \<Rightarrow> Inr (AttestedOutcomeInvalid, db)
      | Some outcome \<Rightarrow>
          if \<not> isValidAttestedProviderReference (at_reference args) then Inr (ProviderReferenceRequired, db)
          else (case batch_of (at_batch args) db of
                  None \<Rightarrow> Inr (AttestedBatchNotFound, db)
                | Some batch \<Rightarrow>
                    if \<not> dispatch_unknown_open (at_batch args) db then Inr (NoOpenDispatchUnknownCase, db)
                    else if br_status batch \<noteq> PO_Processing then Inr (PayoutBatchNotProcessing (br_status batch), db)
                    else apply_attestation uuid now args outcome batch db))"

section \<open>Dispatch\<close>

definition openDispatchUnknownCaseInTx :: "batch_row \<Rightarrow> string \<Rightarrow> payout_db \<Rightarrow> payout_error + payout_db" where
  "openDispatchUnknownCaseInTx batch correlation db =
     ensureOpenBlockingCase
       \<lparr>pc_settlement = settlementIdForBatchInTx (br_id batch) db, pc_batch = Some (br_id batch),
        pc_seller = br_seller batch, pc_deal = br_deal batch, pc_open = True, pc_type = CaseDispatchOutcomeUnknown,
        pc_correlation = correlation, pc_blocking = True, pc_expected = am_payout (br_amounts batch),
        pc_observed = 0, pc_expected_items = br_item_count batch, pc_observed_items = 0\<rparr> db"

definition set_last_error :: "string \<Rightarrow> payout_error_mark \<Rightarrow> payout_db \<Rightarrow> payout_error + payout_db" where
  "set_last_error batch mark db = update_batches (\<lambda>r. br_id r = batch) (\<lambda>r. r\<lparr>br_last_error := Some mark\<rparr>) db"

datatype dispatch_mode =
    DispatchSkip | DispatchLookup | DispatchHeld "blocking_reason list" | DispatchBlocked "blocking_reason list"
  | DispatchCreate batch_row

definition hold_reason :: "blocking_reason \<Rightarrow> bool" where
  "hold_reason r = (case r of PayoutFreezeActive \<Rightarrow> True | SellerSettlementStatus _ \<Rightarrow> True | _ \<Rightarrow> False)"

definition drift_reasons :: "settlement_calculation \<Rightarrow> batch_row \<Rightarrow> blocking_reason list" where
  "drift_reasons fresh batch = uniqueReasons (sc_blocking_reasons fresh
     @ (if am_net (sc_amounts fresh) \<noteq> am_payout (br_amounts batch) then [SellerNetChangedSinceBatch] else [])
     @ (if am_refunds (br_amounts batch) < am_refunds (sc_amounts fresh) then [RefundsAddedSinceBatch] else []))"

definition hold_dispatch :: "string \<Rightarrow> blocking_reason list \<Rightarrow> payout_db \<Rightarrow> payout_error + dispatch_mode \<times> payout_db" where
  "hold_dispatch batch reasons db =
     on_ok (set_last_error batch (DispatchHeldMark reasons) db) (\<lambda>db1. Inr (DispatchHeld reasons, db1))"

definition block_dispatch ::
    "batch_row \<Rightarrow> settlement_calculation \<Rightarrow> blocking_reason list \<Rightarrow> payout_db \<Rightarrow> payout_error + dispatch_mode \<times> payout_db" where
  "block_dispatch batch fresh reasons db =
     on_ok (ensureOpenBlockingCase
              \<lparr>pc_settlement = settlementIdForBatchInTx (br_id batch) db, pc_batch = Some (br_id batch),
               pc_seller = br_seller batch, pc_deal = br_deal batch, pc_open = True, pc_type = CaseSettlementChanged,
               pc_correlation = payoutDispatchCorrelationId (br_id batch), pc_blocking = True,
               pc_expected = am_payout (br_amounts batch), pc_observed = am_net (sc_amounts fresh),
               pc_expected_items = br_item_count batch, pc_observed_items = br_item_count batch\<rparr> db) (\<lambda>db1.
     on_ok (set_last_error (br_id batch) DispatchBlockedMark db1) (\<lambda>db2. Inr (DispatchBlocked reasons, db2)))"

definition mark_dispatch :: "string \<Rightarrow> payout_db \<Rightarrow> payout_error + dispatch_mode \<times> payout_db" where
  "mark_dispatch batch db =
     (let correlation = payoutDispatchCorrelationId batch in
      on_ok (advanceBatchTreeInTx batch PO_Processing (\<lambda>r. r\<lparr>br_correlation := correlation\<rparr>)
               (\<lambda>r. r\<lparr>im_correlation := correlation\<rparr>) (\<lambda>r. r\<lparr>sr_correlation := correlation\<rparr>) db) (\<lambda>db1.
        (let db2 = recordAttempt batch PT_CreatePayout PX_Unknown (Some PO_Processing) correlation None db1 in
         case batch_of batch db2 of
           None \<Rightarrow> Inl PayoutBatchNotFound
         | Some r \<Rightarrow> Inr (DispatchCreate r, db2))))"

text \<open>The first transaction of \<open>dispatchBatch\<close>.\<close>

definition dispatch_begin :: "int \<Rightarrow> string \<Rightarrow> payout_db \<Rightarrow> payout_error + dispatch_mode \<times> payout_db" where
  "dispatch_begin now batch_id db =
     (case batch_of batch_id db of
        None \<Rightarrow> Inl PayoutBatchNotFound
      | Some batch \<Rightarrow>
          if br_status batch = PO_Paid \<or> br_status batch = PO_Reconciled then Inr (DispatchSkip, db)
          else if br_status batch = PO_Processing then Inr (DispatchLookup, db)
          else if \<not> List.member [PO_Batched, PO_Ready] (br_status batch)
          then Inl (PayoutPermanentFail ''payout_batch_not_dispatchable'')
          else (case calculateSellerSettlementForDealInTx now (br_deal batch) (Some batch_id) db of
                  None \<Rightarrow> Inl (PayoutPermanentFail ''payout_batch_settlement_missing'')
                | Some fresh \<Rightarrow>
                    (let holds = filter hold_reason (sc_blocking_reasons fresh);
                         drift = drift_reasons fresh batch
                     in if holds \<noteq> [] then hold_dispatch batch_id holds db
                        else if drift \<noteq> [] then block_dispatch batch fresh drift db
                        else mark_dispatch batch_id db)))"

datatype payout_dispatch_outcome = OutcomeAccepted | OutcomeFailed | OutcomeUnknown

text \<open>The transaction that records the answer of \<open>createPayout\<close>; it does not look at the status of the batch.\<close>

definition create_accepted :: "payout_answer \<Rightarrow> bool" where
  "create_accepted a \<longleftrightarrow> an_class a = PX_Success
     \<and> List.member [PO_Processing, PO_Paid, PO_Reconciled] (case an_status a of None \<Rightarrow> PO_Processing | Some s \<Rightarrow> s)"

definition dispatch_finish ::
    "string \<Rightarrow> int \<Rightarrow> string \<Rightarrow> payout_answer \<Rightarrow> payout_db \<Rightarrow> payout_error + payout_dispatch_outcome \<times> payout_db" where
  "dispatch_finish uuid now batch_id a db =
     (case batch_of batch_id db of
        None \<Rightarrow> Inl PayoutBatchNotFound
      | Some current \<Rightarrow>
          (let correlation = payoutDispatchCorrelationId batch_id;
               db1 = recordAttempt batch_id PT_CreatePayout (an_class a) (an_status a) correlation (an_reference a) db
           in if create_accepted a
              then on_ok (applyProviderAcceptedInTx uuid now current
                            (a\<lparr>an_status := Some (case an_status a of None \<Rightarrow> PO_Processing | Some s \<Rightarrow> s)\<rparr>) db1)
                     (\<lambda>db2. Inr (OutcomeAccepted, db2))
              else if an_class a = PX_PermanentFail
              then on_ok (advanceBatchTreeInTx batch_id PO_Failed
                            (\<lambda>r. r\<lparr>br_last_error := Some CreatePermanentFailMark\<rparr>) (\<lambda>r. r) failed_settlement db1)
                     (\<lambda>db2. Inr (OutcomeFailed, db2))
              else on_ok (set_last_error batch_id (CreateOutcomeUnknownMark (an_class a)) db1) (\<lambda>db2.
                   on_ok (openDispatchUnknownCaseInTx current correlation db2) (\<lambda>db3. Inr (OutcomeUnknown, db3)))))"

section \<open>Lookup\<close>

datatype lookup_outcome = LookupSuperseded | LookupAccepted | LookupFailed | LookupInconclusive

text \<open>The second transaction of \<open>lookupBatchPayoutStatus\<close>.\<close>

definition lookup_finish ::
    "string \<Rightarrow> int \<Rightarrow> string \<Rightarrow> payout_answer \<Rightarrow> payout_db \<Rightarrow> payout_error + lookup_outcome \<times> payout_db" where
  "lookup_finish uuid now batch_id a db =
     (case batch_of batch_id db of
        None \<Rightarrow> Inl PayoutBatchNotFound
      | Some current \<Rightarrow>
          (let correlation = payoutDispatchCorrelationId batch_id;
               db1 = recordAttempt batch_id PT_GetPayoutStatus (an_class a) (an_status a) correlation (an_reference a) db
           in if br_status current \<noteq> PO_Processing then Inr (LookupSuperseded, db1)
              else if an_class a = PX_Success
                \<and> (an_status a = Some PO_Processing \<or> an_status a = Some PO_Paid \<or> an_status a = Some PO_Reconciled)
              then on_ok (applyProviderAcceptedInTx uuid now current a db1) (\<lambda>db2. Inr (LookupAccepted, db2))
              else if an_class a = PX_Success \<and> an_status a = Some PO_Failed
              then on_ok (advanceBatchTreeInTx batch_id PO_Failed
                            (\<lambda>r. r\<lparr>br_last_error := Some (ProviderLookupMark PO_Failed)\<rparr>) (\<lambda>r. r) failed_settlement db1) (\<lambda>db2.
                   on_ok (resolveDispatchUnknownCasesInTx current db2) (\<lambda>db3. Inr (LookupFailed, db3)))
              else if an_class a = PX_Success \<and> an_status a = Some PO_Returned
              then on_ok (advanceBatchTreeInTx batch_id PO_Returned
                            (\<lambda>r. r\<lparr>br_last_error := Some (ProviderLookupMark PO_Returned)\<rparr>) (\<lambda>r. r) returned_settlement db1) (\<lambda>db2.
                   on_ok (resolveDispatchUnknownCasesInTx current db2) (\<lambda>db3. Inr (LookupFailed, db3)))
              else on_ok (set_last_error batch_id LookupInconclusiveMark db1) (\<lambda>db2.
                   on_ok (openDispatchUnknownCaseInTx current correlation db2) (\<lambda>db3. Inr (LookupInconclusive, db3)))))"

text \<open>
  The whole of \<open>lookupBatchPayoutStatus\<close> and of \<open>dispatchBatch\<close>: \<open>meanwhile\<close> is what other transactions
  commit during the call of the provider. A result that is thrown after a commit keeps the database.
\<close>

record payout_request =
  rq_batch :: string
  rq_seller :: string
  rq_amount :: int
  rq_items :: int
  rq_reference :: "string option"
  rq_correlation :: string

datatype lookup_result = LookupNotRequired payout_status | LookupDone "payout_status option" lookup_outcome

definition lookupBatchPayoutStatus ::
    "string \<Rightarrow> int \<Rightarrow> (payout_request \<Rightarrow> payout_answer option) \<Rightarrow> (payout_db \<Rightarrow> payout_db) \<Rightarrow> string \<Rightarrow> payout_db \<Rightarrow>
     (payout_error + lookup_result) \<times> payout_db" where
  "lookupBatchPayoutStatus uuid now getPayoutStatus meanwhile batch_id db =
     (case batch_of batch_id db of
        None \<Rightarrow> (Inl PayoutBatchNotFound, db)
      | Some head \<Rightarrow>
          if br_status head \<noteq> PO_Processing then (Inr (LookupNotRequired (br_status head)), db)
          else (let a = answer_or_unknown (getPayoutStatus
                          \<lparr>rq_batch = batch_id, rq_seller = br_seller head, rq_amount = 0, rq_items = 0,
                           rq_reference = br_reference head, rq_correlation = payoutDispatchCorrelationId batch_id\<rparr>);
                    db1 = meanwhile db
                in case lookup_finish uuid now batch_id a db1 of
                     Inl e \<Rightarrow> (Inl e, db1)
                   | Inr (LookupInconclusive, db2) \<Rightarrow> (Inl (PayoutLookupInconclusive (an_class a)), db2)
                   | Inr (outcome, db2) \<Rightarrow> (Inr (LookupDone (an_status a) outcome), db2)))"

datatype dispatch_result = DispatchAlreadyClosed | DispatchLooked lookup_result | DispatchStatus "payout_status option"

definition dispatchBatch ::
    "string \<Rightarrow> int \<Rightarrow> (payout_request \<Rightarrow> payout_answer option) \<Rightarrow> (payout_request \<Rightarrow> payout_answer option) \<Rightarrow>
     (payout_db \<Rightarrow> payout_db) \<Rightarrow> string \<Rightarrow> payout_db \<Rightarrow> (payout_error + dispatch_result) \<times> payout_db" where
  "dispatchBatch uuid now createPayout getPayoutStatus meanwhile batch_id db =
     (case dispatch_begin now batch_id db of
        Inl e \<Rightarrow> (Inl e, db)
      | Inr (DispatchSkip, db1) \<Rightarrow> (Inr DispatchAlreadyClosed, db1)
      | Inr (DispatchHeld reasons, db1) \<Rightarrow> (Inl (PayoutDispatchHeld reasons), db1)
      | Inr (DispatchBlocked reasons, db1) \<Rightarrow> (Inl (PayoutDispatchBlocked reasons), db1)
      | Inr (DispatchLookup, db1) \<Rightarrow>
          (case lookupBatchPayoutStatus uuid now getPayoutStatus meanwhile batch_id db1 of
             (Inl e, db2) \<Rightarrow> (Inl e, db2)
           | (Inr l, db2) \<Rightarrow> (Inr (DispatchLooked l), db2))
      | Inr (DispatchCreate batch, db1) \<Rightarrow>
          (let a = answer_or_unknown (createPayout
                     \<lparr>rq_batch = batch_id, rq_seller = br_seller batch, rq_amount = am_payout (br_amounts batch),
                      rq_items = br_item_count batch, rq_reference = None,
                      rq_correlation = payoutDispatchCorrelationId batch_id\<rparr>);
               db2 = meanwhile db1
           in case dispatch_finish uuid now batch_id a db2 of
                Inl e \<Rightarrow> (Inl e, db2)
              | Inr (OutcomeUnknown, db3) \<Rightarrow> (Inl (CreatePayoutOutcomeUnknown (an_class a)), db3)
              | Inr (_, db3) \<Rightarrow> (Inr (DispatchStatus (an_status a)), db3)))"

section \<open>Reconciliation\<close>

datatype reconcile_mode = ReconcileSkip | ReconcileCall batch_row int

definition reconcile_begin :: "int \<Rightarrow> string \<Rightarrow> payout_db \<Rightarrow> payout_error + reconcile_mode" where
  "reconcile_begin now batch_id db =
     (case batch_of batch_id db of
        None \<Rightarrow> Inl PayoutBatchNotFound
      | Some batch \<Rightarrow>
          if br_status batch = PO_Reconciled then Inr ReconcileSkip
          else if \<not> List.member [PO_Processing, PO_Paid] (br_status batch)
          then Inl (PayoutPermanentFail ''payout_batch_not_reconcilable'')
          else if dispatch_unknown_open batch_id db
          then Inl (PayoutPermanentFail ''payout_reconcile_blocked_dispatch_outcome_unknown'')
          else (case calculateSellerSettlementForDealInTx now (br_deal batch) (Some batch_id) db of
                  None \<Rightarrow> Inl SettlementMissingForReconcile
                | Some observed \<Rightarrow> Inr (ReconcileCall batch (am_net (sc_amounts observed)))))"

datatype reconcile_outcome =
    ReconcileRetryLater | ReconcileAlready | ReconcileSuperseded | ReconcileMatched | ReconcileMismatched

definition matched_batch :: "int \<Rightarrow> reconcile_answer \<Rightarrow> batch_row \<Rightarrow> batch_row" where
  "matched_batch now a r = r\<lparr>br_reconciled_at := Some now, br_last_error := None, br_executed := an_executed a\<rparr>"

definition reconcile_matched ::
    "int \<Rightarrow> reconcile_answer \<Rightarrow> batch_row \<Rightarrow> payout_db \<Rightarrow> payout_error + reconcile_outcome \<times> payout_db" where
  "reconcile_matched now a batch db =
     on_ok (advanceBatchTreeInTx (br_id batch) PO_Reconciled (matched_batch now a) (\<lambda>r. r) paid_settlement db) (\<lambda>db1.
     on_ok (refreshSettlementCaseFlagInTx (br_deal batch)
              (db1\<lparr>py_cases := map (\<lambda>c. if pc_batch c = Some (br_id batch) \<and> pc_open c \<and> pc_type c \<noteq> CaseDispatchOutcomeUnknown
                                       then c\<lparr>pc_open := False\<rparr> else c) (py_cases db1)\<rparr>)) (\<lambda>db2.
       Inr (ReconcileMatched, db2)))"

definition mismatched_settlement :: "settlement_row \<Rightarrow> settlement_row" where
  "mismatched_settlement r =
     r\<lparr>sr_has_mismatch := True, sr_has_case := True,
       sr_blockers := [OpenBlockingReconciliationCase, OpenMoneyMismatch],
       sr_mismatch := am_payout (sr_amounts r) - am_net (sr_amounts r),
       sr_amounts := (sr_amounts r)\<lparr>am_delayed := max (am_net (sr_amounts r)) 0\<rparr>\<rparr>"

definition reconcile_mismatched ::
    "int \<Rightarrow> string \<Rightarrow> reconcile_answer \<Rightarrow> batch_row \<Rightarrow> settlement_calculation \<Rightarrow> payout_db \<Rightarrow>
     payout_error + reconcile_outcome \<times> payout_db" where
  "reconcile_mismatched now correlation a batch fresh db =
     on_ok (advanceBatchTreeInTx (br_id batch) PO_Failed (\<lambda>r. r\<lparr>br_reconciled_at := Some now\<rparr>) (\<lambda>r. r) (\<lambda>r. r) db) (\<lambda>db1.
     on_ok (set_last_error (br_id batch) ReconciliationMismatchMark db1) (\<lambda>db2.
     on_ok (update_settlements (\<lambda>r. sr_batch r = Some (br_id batch)) mismatched_settlement db2) (\<lambda>db3.
     on_ok (ensureOpenBlockingCase
              \<lparr>pc_settlement = Some (br_deal batch), pc_batch = Some (br_id batch), pc_seller = br_seller batch,
               pc_deal = br_deal batch, pc_open = True,
               pc_type = (if am_refunds (br_amounts batch) < am_refunds (sc_amounts fresh)
                          then CaseRefundAfterDispatch else CaseAmountMismatch),
               pc_correlation = correlation, pc_blocking = True, pc_expected = am_payout (br_amounts batch),
               pc_observed = am_net (sc_amounts fresh), pc_expected_items = br_item_count batch,
               pc_observed_items = an_observed_items a\<rparr> db3) (\<lambda>db4.
       Inr (ReconcileMismatched, db4)))))"

text \<open>The last transaction of \<open>reconcileBatch\<close>; \<open>observed\<close> is the amount its first transaction read.\<close>

definition reconcile_finish ::
    "int \<Rightarrow> string \<Rightarrow> string \<Rightarrow> int \<Rightarrow> reconcile_answer \<Rightarrow> payout_db \<Rightarrow> payout_error + reconcile_outcome \<times> payout_db" where
  "reconcile_finish now correlation batch_id observed a db =
     (case batch_of batch_id db of
        None \<Rightarrow> Inl PayoutBatchNotFound
      | Some batch \<Rightarrow>
          (case calculateSellerSettlementForDealInTx now (br_deal batch) (Some batch_id) db of
             None \<Rightarrow> Inl SettlementMissingForReconcile
           | Some fresh \<Rightarrow>
               on_ok (upsertSellerSettlementInTx fresh correlation db) (\<lambda>db1.
                 (let db2 = recordAttempt batch_id PT_ReconcilePayout (an_class a) (an_status a) correlation (an_reference a) db1 in
                  if an_class a \<noteq> PX_Success then Inr (ReconcileRetryLater, db2)
                  else if br_status batch = PO_Reconciled then Inr (ReconcileAlready, db2)
                  else if \<not> List.member [PO_Processing, PO_Paid] (br_status batch) then Inr (ReconcileSuperseded, db2)
                  else if an_matched a \<and> am_net (sc_amounts fresh) = am_payout (br_amounts batch)
                          \<and> am_net (sc_amounts fresh) = observed
                  then reconcile_matched now a batch db2
                  else reconcile_mismatched now correlation a batch fresh db2))))"

definition unknown_reconcile :: reconcile_answer where
  "unknown_reconcile = \<lparr>an_class = PX_Unknown, an_status = None, an_reference = None, an_executed = False,
                        an_matched = False, an_observed_items = 0\<rparr>"

record reconcile_request =
  rr_batch :: string
  rr_seller :: string
  rr_expected_items :: int
  rr_expected_amount :: int
  rr_observed_items :: int
  rr_observed_amount :: int
  rr_reference :: "string option"
  rr_correlation :: string

datatype reconcile_result = ReconciledAlready | ReconcileStatus "payout_status option"

definition reconcileBatch ::
    "int \<Rightarrow> (reconcile_request \<Rightarrow> reconcile_answer option) \<Rightarrow> (payout_db \<Rightarrow> payout_db) \<Rightarrow> string \<Rightarrow> string \<Rightarrow> payout_db \<Rightarrow>
     (payout_error + reconcile_result) \<times> payout_db" where
  "reconcileBatch now reconcilePayout meanwhile batch_id event db =
     (let correlation = ''seller-payout-reconcile:'' @ batch_id @ '':'' @ event in
      case reconcile_begin now batch_id db of
        Inl e \<Rightarrow> (Inl e, db)
      | Inr ReconcileSkip \<Rightarrow> (Inr ReconciledAlready, db)
      | Inr (ReconcileCall batch observed) \<Rightarrow>
          (let a = (case reconcilePayout
                      \<lparr>rr_batch = batch_id, rr_seller = br_seller batch, rr_expected_items = br_item_count batch,
                       rr_expected_amount = am_payout (br_amounts batch), rr_observed_items = br_item_count batch,
                       rr_observed_amount = observed, rr_reference = br_reference batch,
                       rr_correlation = correlation\<rparr> of None \<Rightarrow> unknown_reconcile | Some a \<Rightarrow> a);
               db1 = meanwhile db
           in case reconcile_finish now correlation batch_id observed a db1 of
                Inl e \<Rightarrow> (Inl e, db1)
              | Inr (ReconcileRetryLater, db2) \<Rightarrow> (Inl (ReconcilePayoutRetry (an_class a)), db2)
              | Inr (_, db2) \<Rightarrow> (Inr (ReconcileStatus (an_status a)), db2)))"

end
