(* ===== verification/GrowingTable.thy ===== *)
theory GrowingTable
  imports Prelude
begin

text \<open>
  Tables of which the program never deletes a row: the locale \<open>growing_table\<close> states the contract of the
  order its rows move in, and what follows for the whole table.
\<close>

definition evolves :: "('r \<Rightarrow> 'r \<Rightarrow> bool) \<Rightarrow> 'r list \<Rightarrow> 'r list \<Rightarrow> bool" where
  "evolves le rows rows' \<longleftrightarrow> (\<exists>old new. rows' = old @ new \<and> list_all2 le rows old)"

text \<open>The contract of a table: its rows are related by a preorder that keeps their key.\<close>

locale growing_table =
  fixes le :: "'r \<Rightarrow> 'r \<Rightarrow> bool" and key :: "'r \<Rightarrow> 'k"
  assumes le_refl: "le r r"
    and le_trans: "le r s \<Longrightarrow> le s t \<Longrightarrow> le r t"
    and le_key: "le r s \<Longrightarrow> key s = key r"
begin

lemma grows_refl: "evolves le rows rows"
  unfolding evolves_def by (intro exI [of _ rows] exI [of _ "[]"]) (simp add: list_all2_refl le_refl)

lemma grows_append: "evolves le rows (rows @ extra)"
  unfolding evolves_def by (intro exI [of _ rows] exI [of _ extra]) (simp add: list_all2_refl le_refl)

lemma grows_map: "(\<And>r. r \<in> set rows \<Longrightarrow> le r (f r)) \<Longrightarrow> evolves le rows (map f rows)"
  unfolding evolves_def
  by (intro exI [of _ "map f rows"] exI [of _ "[]"]) (simp add: list_all2_map2 list_all2_same)

lemma grows_trans:
  assumes "evolves le xs ys" and "evolves le ys zs"
  shows "evolves le xs zs"
proof -
  from assms(1) obtain xs' extra where ys: "ys = xs' @ extra" and 1: "list_all2 le xs xs'"
    unfolding evolves_def by blast
  from assms(2) obtain ys' rest where zs: "zs = ys' @ rest" and 2: "list_all2 le ys ys'"
    unfolding evolves_def by blast
  from 2 obtain us vs where ys': "ys' = us @ vs" and 3: "list_all2 le xs' us"
    unfolding ys by (auto simp: list_all2_append1)
  have "list_all2 le xs us" using 1 3 by (rule list_all2_trans [rotated]) (rule le_trans)
  then show ?thesis unfolding evolves_def zs ys' by (metis append.assoc)
qed

lemma grows_find:
  assumes "evolves le rows rows'" and "find (\<lambda>r. key r = k) rows = Some r"
  shows "\<exists>r'. find (\<lambda>r. key r = k) rows' = Some r' \<and> le r r'"
proof -
  from assms(1) obtain old new where e: "rows' = old @ new" and l: "list_all2 le rows old"
    unfolding evolves_def by blast
  from l assms(2) have "\<exists>r'. find (\<lambda>r. key r = k) old = Some r' \<and> le r r'"
    by (induction rule: list_all2_induct) (auto split: if_splits dest: le_key)
  then show ?thesis unfolding e by (metis find_append_Some)
qed

end

lemma evolves_mem: "evolves le rows rows' \<Longrightarrow> r \<in> set rows \<Longrightarrow> \<exists>r' \<in> set rows'. le r r'"
proof -
  assume "evolves le rows rows'" and r: "r \<in> set rows"
  then obtain old new where e: "rows' = old @ new" and l: "list_all2 le rows old" unfolding evolves_def by blast
  from l r have "\<exists>r' \<in> set old. le r r'" by (induction rule: list_all2_induct) auto
  then show "\<exists>r' \<in> set rows'. le r r'" by (auto simp: e)
qed

end
