(* ===== verification/PayoutRuns.thy ===== *)
theory PayoutRuns
  imports PayoutDispatch GrowingTable
begin

text \<open>
  What the payout rail guarantees over any interleaving of its transactions, with provider calls, crashes,
  refunds and operators in between: a deal is sent to the provider at most once, recorded truth only moves
  forward, and the amounts sent are those of the ledger.
\<close>

section \<open>The orders on the rows\<close>

definition status_le :: "payout_status \<Rightarrow> payout_status \<Rightarrow> bool" where
  "status_le s t \<longleftrightarrow> canAdvancePayoutStatus (Some s) t"

lemma status_le_iff: "status_le s t \<longleftrightarrow> s = t \<or> PAYOUT_STATUS_RANK s = 0 \<or> PAYOUT_STATUS_RANK s < PAYOUT_STATUS_RANK t"
  by (simp add: status_le_def canAdvancePayoutStatus_def)

lemma status_le_refl [simp]: "status_le s s"
  by (simp add: status_le_iff)

lemma status_le_trans: "status_le s t \<Longrightarrow> status_le t u \<Longrightarrow> status_le s u"
  by (auto simp: status_le_iff)

lemma status_le_rank: "status_le s t \<Longrightarrow> 0 < PAYOUT_STATUS_RANK s \<Longrightarrow> PAYOUT_STATUS_RANK s \<le> PAYOUT_STATUS_RANK t"
  by (auto simp: status_le_iff)

lemma no_regression: "\<not> payout_status_regression s t \<longleftrightarrow> status_le s t"
  by (auto simp: payout_status_regression_def status_le_iff)

lemma in_PRE_BATCH [simp]: "s \<in> set PRE_BATCH_STATUSES \<longleftrightarrow> PAYOUT_STATUS_RANK s = 0"
  by (cases s) (simp_all add: PRE_BATCH_STATUSES_def)

lemma advanceable_iff [simp]: "s \<in> set (payoutStatusesAdvanceableTo t) \<longleftrightarrow> status_le s t"
  by (cases s) (simp_all add: payoutStatusesAdvanceableTo_def PAYOUT_LIFECYCLE_STATUSES_def status_le_def)

text \<open>How a row of each table may change.\<close>

definition batch_same :: "batch_row \<Rightarrow> batch_row \<Rightarrow> bool" where
  "batch_same r s \<longleftrightarrow> br_id s = br_id r \<and> br_deal s = br_deal r \<and> br_seller s = br_seller r
     \<and> am_payout (br_amounts s) = am_payout (br_amounts r) \<and> am_net (br_amounts s) = am_net (br_amounts r)
     \<and> am_gross (br_amounts s) = am_gross (br_amounts r) \<and> am_fee (br_amounts s) = am_fee (br_amounts r)
     \<and> am_refunds (br_amounts s) = am_refunds (br_amounts r)"

definition batch_le :: "batch_row \<Rightarrow> batch_row \<Rightarrow> bool" where
  "batch_le r s \<longleftrightarrow> batch_same r s \<and> status_le (br_status r) (br_status s)"

definition item_same :: "item_row \<Rightarrow> item_row \<Rightarrow> bool" where
  "item_same r s \<longleftrightarrow> im_batch s = im_batch r \<and> im_participant s = im_participant r \<and> im_deal s = im_deal r
     \<and> im_seller s = im_seller r \<and> im_payout s = im_payout r \<and> im_net s = im_net r \<and> im_gross s = im_gross r
     \<and> im_fee s = im_fee r \<and> im_refunds s = im_refunds r"

definition item_le :: "item_row \<Rightarrow> item_row \<Rightarrow> bool" where
  "item_le r s \<longleftrightarrow> item_same r s \<and> status_le (im_status r) (im_status s)"

definition settlement_le :: "settlement_row \<Rightarrow> settlement_row \<Rightarrow> bool" where
  "settlement_le r s \<longleftrightarrow> sr_deal s = sr_deal r \<and> status_le (sr_status r) (sr_status s)
     \<and> am_refunds (sr_amounts r) \<le> am_refunds (sr_amounts s) \<and> am_paid (sr_amounts r) \<le> am_paid (sr_amounts s)
     \<and> (0 < PAYOUT_STATUS_RANK (sr_status r) \<longrightarrow> am_payout (sr_amounts s) = am_payout (sr_amounts r))"

definition case_le :: "payout_case \<Rightarrow> payout_case \<Rightarrow> bool" where
  "case_le c d \<longleftrightarrow> d = c \<or> d = c\<lparr>pc_open := False\<rparr>"

interpretation batches: growing_table batch_le br_id
  by unfold_locales (auto simp: batch_le_def batch_same_def intro: status_le_trans)

interpretation items: growing_table item_le im_participant
  by unfold_locales (auto simp: item_le_def item_same_def intro: status_le_trans)

interpretation settlements: growing_table settlement_le sr_deal
proof unfold_locales
  fix r s t assume rs: "settlement_le r s" and st: "settlement_le s t"
  then have "status_le (sr_status r) (sr_status t)" unfolding settlement_le_def by (blast intro: status_le_trans)
  moreover have "am_payout (sr_amounts t) = am_payout (sr_amounts r)" if "0 < PAYOUT_STATUS_RANK (sr_status r)"
    using rs st status_le_rank [of "sr_status r" "sr_status s"] that unfolding settlement_le_def by linarith
  ultimately show "settlement_le r t" using rs st unfolding settlement_le_def by auto
qed (simp_all add: settlement_le_def)

interpretation pcases: growing_table case_le pc_type
  by unfold_locales (auto simp: case_le_def)

section \<open>What every transaction keeps\<close>

lemma update_where_Inr:
  assumes "update_where P f guard rows = Inr rows'"
  shows "rows' = map (\<lambda>r. if P r then f r else r) rows" and "\<And>r. r \<in> set rows \<Longrightarrow> P r \<Longrightarrow> guard r (f r) = None"
proof -
  have "rows' = map (\<lambda>r. if P r then f r else r) rows \<and> (\<forall>r \<in> set rows. P r \<longrightarrow> guard r (f r) = None)"
    using assms
  proof (induction rows arbitrary: rows')
    case (Cons r rows)
    show ?case
    proof (cases "P r")
      case True
      with Cons.prems obtain rest where "guard r (f r) = None" "update_where P f guard rows = Inr rest" "rows' = f r # rest"
        by (auto simp: on_ok_Inr_iff split: option.splits)
      then show ?thesis using Cons.IH True by auto
    next
      case False
      with Cons.prems obtain rest where "update_where P f guard rows = Inr rest" "rows' = r # rest"
        by (auto simp: on_ok_Inr_iff)
      then show ?thesis using Cons.IH False by auto
    qed
  qed simp
  then show "rows' = map (\<lambda>r. if P r then f r else r) rows" and "\<And>r. r \<in> set rows \<Longrightarrow> P r \<Longrightarrow> guard r (f r) = None"
    by blast+
qed

lemma update_where_ok:
  "(\<And>r. r \<in> set rows \<Longrightarrow> P r \<Longrightarrow> guard r (f r) = None)
   \<Longrightarrow> update_where P f guard rows = Inr (map (\<lambda>r. if P r then f r else r) rows)"
  by (induction rows) simp_all

lemma batch_guard_None: "batch_guard r s = None \<Longrightarrow> status_le (br_status r) (br_status s)"
  using no_regression by (auto simp: batch_guard_def split: if_splits)

lemma item_guard_None: "item_guard r s = None \<Longrightarrow> status_le (im_status r) (im_status s)"
  using no_regression by (auto simp: item_guard_def split: if_splits)

lemma settlement_guard_None: "settlement_guard r s = None \<Longrightarrow> sr_deal s = sr_deal r \<Longrightarrow> settlement_le r s"
  using no_regression by (auto simp: settlement_guard_def settlement_le_def split: if_splits)

text \<open>The unique constraints of the tables.\<close>

definition keys_ok :: "payout_db \<Rightarrow> bool" where
  "keys_ok db \<longleftrightarrow> distinct (map br_id (py_batches db)) \<and> distinct (map br_deal (py_batches db))
     \<and> distinct (map im_participant (py_items db)) \<and> distinct (map sr_deal (py_settlements db))"

text \<open>The tables of the rail after a transaction, against those before it.\<close>

definition rail_le :: "payout_db \<Rightarrow> payout_db \<Rightarrow> bool" where
  "rail_le db db' \<longleftrightarrow> evolves batch_le (py_batches db) (py_batches db') \<and> evolves item_le (py_items db) (py_items db')
     \<and> evolves settlement_le (py_settlements db) (py_settlements db') \<and> evolves case_le (py_cases db) (py_cases db')
     \<and> (keys_ok db \<longrightarrow> keys_ok db')"

lemma rail_le_refl [simp]: "rail_le db db"
  by (simp add: rail_le_def batches.grows_refl items.grows_refl settlements.grows_refl pcases.grows_refl)

lemma rail_le_trans: "rail_le a b \<Longrightarrow> rail_le b c \<Longrightarrow> rail_le a c"
  unfolding rail_le_def
  by (blast intro: batches.grows_trans items.grows_trans settlements.grows_trans pcases.grows_trans)

lemmas table_refl = batches.grows_refl items.grows_refl settlements.grows_refl pcases.grows_refl

lemma update_batches_rail:
  assumes "update_batches P f db = Inr db'" and "\<And>r. P r \<Longrightarrow> batch_same r (f r)"
  shows "rail_le db db'"
proof -
  from assms(1) obtain rows where u: "update_where P f batch_guard (py_batches db) = Inr rows"
      and db': "db' = db\<lparr>py_batches := rows\<rparr>"
    by (auto simp: update_batches_def on_ok_Inr_iff)
  have "evolves batch_le (py_batches db) rows"
    unfolding update_where_Inr(1) [OF u]
    using update_where_Inr(2) [OF u] assms(2)
    by (intro batches.grows_map) (auto simp: batch_le_def batch_same_def dest: batch_guard_None)
  moreover have "map br_id rows = map br_id (py_batches db)" and "map br_deal rows = map br_deal (py_batches db)"
    unfolding update_where_Inr(1) [OF u] using assms(2) by (auto simp: batch_same_def)
  ultimately show ?thesis by (simp add: db' rail_le_def table_refl keys_ok_def)
qed

lemma update_items_rail:
  assumes "update_items P f db = Inr db'" and "\<And>r. P r \<Longrightarrow> item_same r (f r)"
  shows "rail_le db db'"
proof -
  from assms(1) obtain rows where u: "update_where P f item_guard (py_items db) = Inr rows"
      and db': "db' = db\<lparr>py_items := rows\<rparr>"
    by (auto simp: update_items_def on_ok_Inr_iff)
  have "evolves item_le (py_items db) rows"
    unfolding update_where_Inr(1) [OF u]
    using update_where_Inr(2) [OF u] assms(2)
    by (intro items.grows_map) (auto simp: item_le_def item_same_def dest: item_guard_None)
  moreover have "map im_participant rows = map im_participant (py_items db)"
    unfolding update_where_Inr(1) [OF u] using assms(2) by (auto simp: item_same_def)
  ultimately show ?thesis by (simp add: db' rail_le_def table_refl keys_ok_def)
qed

lemma update_settlements_rail:
  assumes "update_settlements P f db = Inr db'" and "\<And>r. sr_deal (f r) = sr_deal r"
  shows "rail_le db db'"
proof -
  from assms(1) obtain rows where u: "update_where P f settlement_guard (py_settlements db) = Inr rows"
      and db': "db' = db\<lparr>py_settlements := rows\<rparr>"
    by (auto simp: update_settlements_def on_ok_Inr_iff)
  have "evolves settlement_le (py_settlements db) rows"
    unfolding update_where_Inr(1) [OF u]
    using update_where_Inr(2) [OF u] assms(2)
    by (intro settlements.grows_map) (auto simp: settlements.le_refl intro: settlement_guard_None)
  moreover have "map sr_deal rows = map sr_deal (py_settlements db)"
    unfolding update_where_Inr(1) [OF u] using assms(2) by auto
  ultimately show ?thesis by (simp add: db' rail_le_def table_refl keys_ok_def)
qed

text \<open>The tables one write does not touch.\<close>

lemma update_batches_frame:
  "update_batches P f db = Inr db' \<Longrightarrow> \<exists>rows. db' = db\<lparr>py_batches := rows\<rparr> \<and> rows = map (\<lambda>r. if P r then f r else r) (py_batches db)"
  by (auto simp: update_batches_def on_ok_Inr_iff dest: update_where_Inr(1))

lemma update_items_frame:
  "update_items P f db = Inr db' \<Longrightarrow> \<exists>rows. db' = db\<lparr>py_items := rows\<rparr> \<and> rows = map (\<lambda>r. if P r then f r else r) (py_items db)"
  by (auto simp: update_items_def on_ok_Inr_iff dest: update_where_Inr(1))

lemma update_settlements_frame:
  "update_settlements P f db = Inr db'
   \<Longrightarrow> \<exists>rows. db' = db\<lparr>py_settlements := rows\<rparr> \<and> rows = map (\<lambda>r. if P r then f r else r) (py_settlements db)"
  by (auto simp: update_settlements_def on_ok_Inr_iff dest: update_where_Inr(1))

lemma cases_rail: "(\<And>c. case_le c (f c)) \<Longrightarrow> rail_le db (db\<lparr>py_cases := map f (py_cases db)\<rparr>)"
  by (simp add: rail_le_def table_refl pcases.grows_map keys_ok_def)

lemma recordAttempt_rail [simp]: "rail_le db (recordAttempt b k r s c ref db)"
  by (simp add: recordAttempt_def rail_le_def table_refl keys_ok_def)

lemma advance_rail:
  assumes "advanceBatchTreeInTx b to fb fi fs db = Inr db'"
    and "\<And>r. batch_same r (fb r)" and "\<And>r. item_same r (fi r)" and "\<And>r. sr_deal (fs r) = sr_deal r"
  shows "rail_le db db'"
proof -
  from assms(1) obtain db1 db2 where
      1: "update_batches (\<lambda>r. br_id r = b \<and> List.member (payoutStatusesAdvanceableTo to) (br_status r))
            (\<lambda>r. (fb r)\<lparr>br_status := to\<rparr>) db = Inr db1"
    and 2: "update_items (\<lambda>r. im_batch r = b \<and> List.member (payoutStatusesAdvanceableTo to) (im_status r))
            (\<lambda>r. (fi r)\<lparr>im_status := to\<rparr>) db1 = Inr db2"
    and 3: "update_settlements (\<lambda>r. sr_batch r = Some b \<and> List.member (payoutStatusesAdvanceableTo to) (sr_status r))
            (\<lambda>r. (fs r)\<lparr>sr_status := to\<rparr>) db2 = Inr db'"
    by (auto simp: advanceBatchTreeInTx_def Let_def on_ok_Inr_iff)
  have "rail_le db db1" using assms(2) by (intro update_batches_rail [OF 1]) (simp add: batch_same_def)
  moreover have "rail_le db1 db2" using assms(3) by (intro update_items_rail [OF 2]) (simp add: item_same_def)
  moreover have "rail_le db2 db'" using assms(4) by (intro update_settlements_rail [OF 3]) simp
  ultimately show ?thesis by (blast intro: rail_le_trans)
qed

lemma refresh_rail: "refreshSettlementCaseFlagInTx d db = Inr db' \<Longrightarrow> rail_le db db'"
  unfolding refreshSettlementCaseFlagInTx_def Let_def by (erule update_settlements_rail) simp

lemma resolve_rail: "resolveDispatchUnknownCasesInTx b db = Inr db' \<Longrightarrow> rail_le db db'"
  unfolding resolveDispatchUnknownCasesInTx_def
  by (rule rail_le_trans [OF cases_rail refresh_rail]) (auto simp: case_le_def)

lemma merged_deal [simp]: "sr_deal (merged_settlement new r) = sr_deal r"
  by (simp add: merged_settlement_def Let_def)

lemma upsert_rail:
  assumes "upsertSellerSettlementInTx c corr db = Inr db'"
  shows "rail_le db db'"
proof (cases "settlement_of (sc_deal c) db")
  case None
  then have "sc_deal c \<notin> set (map sr_deal (py_settlements db))" by (auto simp: settlement_of_def find_None_iff)
  moreover have "db' = db\<lparr>py_settlements := py_settlements db @ [proposed_settlement c corr]\<rparr>"
    using assms None by (simp add: upsertSellerSettlementInTx_def Let_def split: option.splits)
  ultimately show ?thesis
    by (simp add: rail_le_def table_refl settlements.grows_append keys_ok_def proposed_settlement_def)
next
  case (Some r)
  then have "update_settlements (\<lambda>r. sr_deal r = sc_deal c) (merged_settlement (proposed_settlement c corr)) db = Inr db'"
    using assms by (simp add: upsertSellerSettlementInTx_def Let_def split: option.splits)
  then show ?thesis by (rule update_settlements_rail) simp
qed

lemma ensure_rail: "ensureOpenBlockingCase new db = Inr db' \<Longrightarrow> rail_le db db'"
proof -
  assume "ensureOpenBlockingCase new db = Inr db'"
  then obtain db1 where 1: "(if list_ex (\<lambda>c. pc_deal c = pc_deal new \<and> pc_type c = pc_type new \<and> pc_open c \<and> pc_batch c = pc_batch new)
               (py_cases db) then Inr db else createBlockingReconciliationCase new db) = Inr db1"
    and 2: "update_settlements (\<lambda>r. sr_deal r = pc_deal new)
         (\<lambda>r. r\<lparr>sr_has_case := True, sr_blockers := remdups (sr_blockers r @ [OpenBlockingReconciliationCase])\<rparr>) db1 = Inr db'"
    by (auto simp: ensureOpenBlockingCase_def on_ok_Inr_iff)
  have "rail_le db db1" using 1
    by (auto simp: createBlockingReconciliationCase_def rail_le_def table_refl keys_ok_def pcases.grows_append split: if_splits)
  moreover have "rail_le db1 db'" by (rule update_settlements_rail [OF 2]) simp
  ultimately show ?thesis by (rule rail_le_trans)
qed

lemma outbox_frame: "insertOutboxEventIfMissing u now et agg ai p db = Inr (x, db') \<Longrightarrow> \<exists>ob. db' = db\<lparr>py_outbox := ob\<rparr>"
  unfolding insertOutboxEventIfMissing_def
  by (split if_splits; (split sum.splits)?) (auto intro: exI [of _ "py_outbox db"])

lemma outbox_rail: "insertOutboxEventIfMissing u now et agg ai p db = Inr (x, db') \<Longrightarrow> rail_le db db'"
  by (drule outbox_frame) (auto simp: rail_le_def table_refl keys_ok_def)

lemma last_error_rail: "set_last_error b m db = Inr db' \<Longrightarrow> rail_le db db'"
  unfolding set_last_error_def by (erule update_batches_rail) (simp add: batch_same_def)

lemma unknown_case_rail: "openDispatchUnknownCaseInTx b c db = Inr db' \<Longrightarrow> rail_le db db'"
  unfolding openDispatchUnknownCaseInTx_def by (rule ensure_rail)

lemma accepted_rail:
  assumes "applyProviderAcceptedInTx u now b a db = Inr db'"
  shows "rail_le db db'"
proof -
  from assms obtain db1 db2 x where
      1: "advanceBatchTreeInTx (br_id b) (accepted_target a) (accepted_batch now a) (accepted_item a)
            (if accepted_target a = PO_Paid then paid_settlement else (\<lambda>r. r)) db = Inr db1"
    and 2: "resolveDispatchUnknownCasesInTx b db1 = Inr db2"
    and 3: "insertOutboxEventIfMissing u now ''seller_payout_reconcile'' ''seller_payout_batch'' (br_id b) (br_id b) db2 = Inr (x, db')"
    by (auto simp: applyProviderAcceptedInTx_def on_ok_Inr_iff)
  have "rail_le db db1"
    by (rule advance_rail [OF 1])
      (simp_all add: accepted_batch_def accepted_item_def paid_settlement_def batch_same_def item_same_def Let_def)
  from this resolve_rail [OF 2] outbox_rail [OF 3] show ?thesis by (blast intro: rail_le_trans)
qed

lemma fail_rail:
  assumes "advanceBatchTreeInTx b to (\<lambda>r. r\<lparr>br_last_error := m\<rparr>) (\<lambda>r. r) fs db = Inr db'" and "\<And>r. sr_deal (fs r) = sr_deal r"
  shows "rail_le db db'"
  by (rule advance_rail [OF assms(1)]) (simp_all add: batch_same_def item_same_def assms(2))

lemma settlement_deals [simp]:
  "sr_deal (failed_settlement r) = sr_deal r" "sr_deal (returned_settlement r) = sr_deal r"
  "sr_deal (paid_settlement r) = sr_deal r" "sr_deal (mismatched_settlement r) = sr_deal r"
  by (simp_all add: failed_settlement_def returned_settlement_def paid_settlement_def mismatched_settlement_def)

lemma recorded_trans: "rail_le (recordAttempt b k r s c ref db) db' \<Longrightarrow> rail_le db db'"
  by (blast intro: rail_le_trans recordAttempt_rail)

lemma attest_rail:
  assumes "resolveDispatchUnknownByAttestationInTx u now args db = Inr (x, db')"
  shows "rail_le db db'"
proof (cases "x = Attested PO_Failed \<or> x = Attested PO_Paid \<or> x = Attested PO_Processing")
  case True
  then obtain o' batch where "apply_attestation u now args o' batch db = Inr (x, db')"
    using assms by (auto simp: resolveDispatchUnknownByAttestationInTx_def split: option.splits if_splits)
  then show ?thesis
    by (auto simp: apply_attestation_def Let_def on_ok_Inr_iff split: if_splits
        dest!: fail_rail accepted_rail resolve_rail intro: recorded_trans rail_le_trans)
next
  case False
  then show ?thesis using assms
    by (auto simp: resolveDispatchUnknownByAttestationInTx_def apply_attestation_def Let_def on_ok_Inr_iff attested_outcome_def
        split: option.splits if_splits)
qed

lemma dispatch_begin_rail:
  assumes "dispatch_begin now b db = Inr (mode, db')"
  shows "rail_le db db'"
proof -
  have hold: "rail_le db db'" if "hold_dispatch b rs db = Inr (mode, db')" for rs
    using that by (auto simp: hold_dispatch_def on_ok_Inr_iff dest: last_error_rail)
  have block: "rail_le db db'" if "block_dispatch r c rs db = Inr (mode, db')" for r c rs
    using that by (auto simp: block_dispatch_def on_ok_Inr_iff dest!: ensure_rail last_error_rail intro: rail_le_trans)
  have mark: "rail_le db db'" if "mark_dispatch b db = Inr (mode, db')"
  proof -
    let ?c = "payoutDispatchCorrelationId b"
    from that obtain db1 where a: "advanceBatchTreeInTx b PO_Processing (\<lambda>r. r\<lparr>br_correlation := ?c\<rparr>)
               (\<lambda>r. r\<lparr>im_correlation := ?c\<rparr>) (\<lambda>r. r\<lparr>sr_correlation := ?c\<rparr>) db = Inr db1"
        and d: "db' = recordAttempt b PT_CreatePayout PX_Unknown (Some PO_Processing) ?c None db1"
      by (auto simp: mark_dispatch_def Let_def on_ok_Inr_iff split: option.splits)
    have "rail_le db db1" by (rule advance_rail [OF a]) (simp_all add: batch_same_def item_same_def)
    then show ?thesis unfolding d by (blast intro: rail_le_trans recordAttempt_rail)
  qed
  show ?thesis using assms hold block mark
    by (auto simp: dispatch_begin_def Let_def split: option.splits if_splits)
qed

lemma dispatch_finish_rail:
  assumes "dispatch_finish u now b a db = Inr (x, db')"
  shows "rail_le db db'"
  using assms
  by (auto simp: dispatch_finish_def Let_def on_ok_Inr_iff split: option.splits if_splits
      dest!: fail_rail accepted_rail last_error_rail unknown_case_rail intro: recorded_trans rail_le_trans)

lemma lookup_finish_rail:
  assumes "lookup_finish u now b a db = Inr (x, db')"
  shows "rail_le db db'"
  using assms
  by (auto simp: lookup_finish_def Let_def on_ok_Inr_iff split: option.splits if_splits
      dest!: fail_rail accepted_rail last_error_rail unknown_case_rail resolve_rail intro: recorded_trans rail_le_trans)

lemma reconcile_matched_rail:
  assumes "reconcile_matched now a batch db = Inr (x, db')"
  shows "rail_le db db'"
proof -
  let ?f = "\<lambda>c. if pc_batch c = Some (br_id batch) \<and> pc_open c \<and> pc_type c \<noteq> CaseDispatchOutcomeUnknown then c\<lparr>pc_open := False\<rparr> else c"
  from assms obtain db1 where
      1: "advanceBatchTreeInTx (br_id batch) PO_Reconciled (matched_batch now a) (\<lambda>r. r) paid_settlement db = Inr db1"
    and 2: "refreshSettlementCaseFlagInTx (br_deal batch) (db1\<lparr>py_cases := map ?f (py_cases db1)\<rparr>) = Inr db'"
    by (auto simp: reconcile_matched_def on_ok_Inr_iff)
  have "rail_le db db1" by (rule advance_rail [OF 1]) (simp_all add: matched_batch_def batch_same_def item_same_def)
  moreover have "rail_le db1 (db1\<lparr>py_cases := map ?f (py_cases db1)\<rparr>)" by (rule cases_rail) (simp add: case_le_def)
  ultimately show ?thesis using refresh_rail [OF 2] by (blast intro: rail_le_trans)
qed

lemma reconcile_mismatched_rail:
  assumes "reconcile_mismatched now corr a batch fresh db = Inr (x, db')"
  shows "rail_le db db'"
proof -
  from assms obtain db1 db2 db3 new where
      1: "advanceBatchTreeInTx (br_id batch) PO_Failed (\<lambda>r. r\<lparr>br_reconciled_at := Some now\<rparr>) (\<lambda>r. r) (\<lambda>r. r) db = Inr db1"
    and 2: "set_last_error (br_id batch) ReconciliationMismatchMark db1 = Inr db2"
    and 3: "update_settlements (\<lambda>r. sr_batch r = Some (br_id batch)) mismatched_settlement db2 = Inr db3"
    and 4: "ensureOpenBlockingCase new db3 = Inr db'"
    by (auto simp: reconcile_mismatched_def on_ok_Inr_iff)
  have "rail_le db db1" by (rule advance_rail [OF 1]) (simp_all add: batch_same_def item_same_def)
  moreover have "rail_le db2 db3" by (rule update_settlements_rail [OF 3]) simp
  ultimately show ?thesis using last_error_rail [OF 2] ensure_rail [OF 4] by (blast intro: rail_le_trans)
qed

lemma reconcile_finish_rail:
  assumes "reconcile_finish now corr b obs a db = Inr (x, db')"
  shows "rail_le db db'"
proof -
  from assms obtain batch fresh db1 where u: "upsertSellerSettlementInTx fresh corr db = Inr db1"
    and r: "(let db2 = recordAttempt b PT_ReconcilePayout (an_class a) (an_status a) corr (an_reference a) db1 in
                  if an_class a \<noteq> PX_Success then Inr (ReconcileRetryLater, db2)
                  else if br_status batch = PO_Reconciled then Inr (ReconcileAlready, db2)
                  else if \<not> List.member [PO_Processing, PO_Paid] (br_status batch) then Inr (ReconcileSuperseded, db2)
                  else if an_matched a \<and> am_net (sc_amounts fresh) = am_payout (br_amounts batch)
                          \<and> am_net (sc_amounts fresh) = obs
                  then reconcile_matched now a batch db2
                  else reconcile_mismatched now corr a batch fresh db2) = Inr (x, db')"
    by (auto simp: reconcile_finish_def on_ok_Inr_iff split: option.splits)
  have "rail_le db1 db'" using r
    by (auto simp: Let_def split: if_splits dest!: reconcile_matched_rail reconcile_mismatched_rail intro: recorded_trans)
  with upsert_rail [OF u] show ?thesis by (rule rail_le_trans)
qed

lemma insert_item_rail: "insert_item r db = Inr db' \<Longrightarrow> rail_le db db'"
  by (auto simp: insert_item_def rail_le_def table_refl items.grows_append keys_ok_def list_ex_iff split: option.splits if_splits) metis

lemma insert_items_rail: "insert_items rs db = Inr db' \<Longrightarrow> rail_le db db'"
  by (induction rs arbitrary: db) (auto simp: on_ok_Inr_iff dest!: insert_item_rail intro: rail_le_trans)

lemma insert_batch_rail: "insert_batch r db = Inr db' \<Longrightarrow> rail_le db db'"
  by (auto simp: insert_batch_def rail_le_def table_refl batches.grows_append keys_ok_def list_ex_iff split: option.splits if_splits) metis+

lemma link_rail: "replaceSettlementBatchLink d b db = Inr db' \<Longrightarrow> rail_le db db'"
  unfolding replaceSettlementBatchLink_def by (erule update_settlements_rail) simp

lemma write_batch_rail:
  assumes "write_batch now args calc corr payable db = Inr (x, db')"
  shows "rail_le db db'"
proof -
  from assms obtain r db1 db2 db3 db4 items y where
      1: "insert_batch r db = Inr db1" and 2: "replaceSettlementBatchLink (sc_deal calc) (pr_new_batch args) db1 = Inr db2"
    and 3: "insert_items items (recordAttempt (pr_new_batch args) PT_Prepare PX_Success (Some PO_Batched) corr None db2) = Inr db3"
    and 4: "update_batches (\<lambda>r. br_id r = pr_new_batch args) (\<lambda>r. r\<lparr>br_item_count := int (length payable)\<rparr>) db3 = Inr db4"
    and 5: "insertOutboxEventIfMissing (pr_new_event args) now ''seller_payout_dispatch'' ''seller_payout_batch''
              (pr_new_batch args) (pr_new_batch args) db4 = Inr (y, db')"
    by (auto simp: write_batch_def Let_def on_ok_Inr_iff)
  have "rail_le db3 db4" by (rule update_batches_rail [OF 4]) (simp add: batch_same_def)
  then show ?thesis
    using insert_batch_rail [OF 1] link_rail [OF 2] recorded_trans [OF insert_items_rail [OF 3]] outbox_rail [OF 5]
    by (blast intro: rail_le_trans)
qed

lemma refuse_rail:
  assumes "refuse_mismatched_batch calc corr rows payable db = Inr (x, db')"
  shows "rail_le db db'"
proof -
  from assms obtain new db1 where 1: "ensureOpenBlockingCase new db = Inr db1"
    and 2: "update_settlements (\<lambda>r. sr_deal r = sc_deal calc \<and> List.member PRE_BATCH_STATUSES (sr_status r))
              (\<lambda>r. r\<lparr>sr_status := PO_Pending, sr_amounts := (sr_amounts r)\<lparr>am_payout := 0\<rparr>\<rparr>) db1 = Inr db'"
    by (auto simp: refuse_mismatched_batch_def on_ok_Inr_iff)
  have "rail_le db1 db'" by (rule update_settlements_rail [OF 2]) simp
  with ensure_rail [OF 1] show ?thesis by (rule rail_le_trans)
qed

lemma prepare_rail:
  assumes "prepareBatchForDeal now args db = Inr (x, db')"
  shows "rail_le db db'"
  using assms
  by (auto simp: prepareBatchForDeal_def Let_def on_ok_Inr_iff split: option.splits if_splits
      dest!: upsert_rail write_batch_rail refuse_rail intro: rail_le_trans)

lemma enqueue_prepare_rail: "enqueuePrepareForDeal u now d db = Inr (x, db') \<Longrightarrow> rail_le db db'"
  by (auto simp: enqueuePrepareForDeal_def split: option.splits dest: outbox_rail)

section \<open>Interleavings\<close>

text \<open>
  \<open>ra_inflight\<close> holds the batches with a \<open>createPayout\<close> call whose answer is not recorded yet,
  \<open>ra_created\<close> the batches of all calls ever sent, \<open>ra_reconciling\<close> the reconciliations between their two
  transactions with the amount the first one read. A transaction that throws is no step.
\<close>

record rail =
  ra_db :: payout_db
  ra_inflight :: "string list"
  ra_created :: "batch_row list"
  ra_reconciling :: "(string \<times> int) list"

definition same_rail :: "payout_db \<Rightarrow> payout_db \<Rightarrow> bool" where
  "same_rail db db' \<longleftrightarrow> py_settlements db' = py_settlements db \<and> py_batches db' = py_batches db
     \<and> py_items db' = py_items db \<and> py_attempts db' = py_attempts db \<and> py_cases db' = py_cases db"

fun requests_of :: "dispatch_mode \<Rightarrow> batch_row list" where
  "requests_of (DispatchCreate r) = [r]"
| "requests_of _ = []"

inductive rail_step :: "rail \<Rightarrow> rail \<Rightarrow> bool" where
  outside: "same_rail (ra_db s) db' \<Longrightarrow> rail_step s (s\<lparr>ra_db := db'\<rparr>)"
| enqueue: "enqueuePrepareForDeal u now d (ra_db s) = Inr (x, db') \<Longrightarrow> rail_step s (s\<lparr>ra_db := db'\<rparr>)"
| prepare: "prepareBatchForDeal now args (ra_db s) = Inr (x, db') \<Longrightarrow> rail_step s (s\<lparr>ra_db := db'\<rparr>)"
| dispatch: "dispatch_begin now b (ra_db s) = Inr (mode, db')
     \<Longrightarrow> rail_step s (s\<lparr>ra_db := db', ra_inflight := map br_id (requests_of mode) @ ra_inflight s,
                       ra_created := requests_of mode @ ra_created s\<rparr>)"
| answer: "b \<in> set (ra_inflight s) \<Longrightarrow> dispatch_finish u now b a (ra_db s) = Inr (x, db')
     \<Longrightarrow> rail_step s (s\<lparr>ra_db := db', ra_inflight := remove1 b (ra_inflight s)\<rparr>)"
| crash: "rail_step s (s\<lparr>ra_inflight := remove1 b (ra_inflight s)\<rparr>)"
| lookup: "lookup_finish u now b a (ra_db s) = Inr (x, db') \<Longrightarrow> rail_step s (s\<lparr>ra_db := db'\<rparr>)"
| attest: "resolveDispatchUnknownByAttestationInTx u now att (ra_db s) = Inr (r, db') \<Longrightarrow> rail_step s (s\<lparr>ra_db := db'\<rparr>)"
| reconcile: "reconcile_begin now b (ra_db s) = Inr (ReconcileCall row observed)
     \<Longrightarrow> rail_step s (s\<lparr>ra_reconciling := (b, observed) # ra_reconciling s\<rparr>)"
| reconciled: "(b, observed) \<in> set (ra_reconciling s) \<Longrightarrow> reconcile_finish now corr b observed ra (ra_db s) = Inr (y, db')
     \<Longrightarrow> rail_step s (s\<lparr>ra_db := db', ra_reconciling := remove1 (b, observed) (ra_reconciling s)\<rparr>)"

inductive_cases rail_stepE: "rail_step s s'"

lemma same_rail_le: "same_rail db db' \<Longrightarrow> rail_le db db'"
  by (simp add: same_rail_def rail_le_def table_refl keys_ok_def)

lemma step_rail: "rail_step s s' \<Longrightarrow> rail_le (ra_db s) (ra_db s')"
  by (erule rail_stepE)
    (simp_all add: same_rail_le enqueue_prepare_rail prepare_rail dispatch_begin_rail dispatch_finish_rail
      lookup_finish_rail attest_rail reconcile_finish_rail)

lemma run_rail: "rail_step\<^sup>*\<^sup>* s s' \<Longrightarrow> rail_le (ra_db s) (ra_db s')"
  by (induction rule: rtranclp_induct) (auto dest: step_rail intro: rail_le_trans)

lemma batch_persists:
  assumes "rail_le db db'" and "batch_of b db = Some r"
  shows "\<exists>r'. batch_of b db' = Some r' \<and> batch_le r r'"
  using batches.grows_find [of "py_batches db" "py_batches db'" b r] assms by (simp add: rail_le_def batch_of_def)

lemma settlement_persists:
  assumes "rail_le db db'" and "settlement_of d db = Some r"
  shows "\<exists>r'. settlement_of d db' = Some r' \<and> settlement_le r r'"
  using settlements.grows_find [of "py_settlements db" "py_settlements db'" d r] assms by (simp add: rail_le_def settlement_of_def)

section \<open>One call per deal\<close>

lemma find_map_id:
  "(\<And>r. key (f r) = key r) \<Longrightarrow> find (\<lambda>r. key r = k) (map f rows) = map_option f (find (\<lambda>r. key r = k) rows)"
  by (induction rows) auto

text \<open>What advancing a batch does to its row.\<close>

lemma advance_effect:
  assumes "advanceBatchTreeInTx b to fb fi fs db = Inr db'" and "batch_of b db = Some r" and "\<And>r. br_id (fb r) = br_id r"
  shows "batch_of b db' = Some (if status_le (br_status r) to then (fb r)\<lparr>br_status := to\<rparr> else r)"
    and "py_cases db' = py_cases db"
proof -
  let ?f = "\<lambda>r. if br_id r = b \<and> List.member (payoutStatusesAdvanceableTo to) (br_status r) then (fb r)\<lparr>br_status := to\<rparr> else r"
  from assms(1) obtain db2 db3 where "update_batches (\<lambda>r. br_id r = b \<and> List.member (payoutStatusesAdvanceableTo to) (br_status r))
               (\<lambda>r. (fb r)\<lparr>br_status := to\<rparr>) db = Inr db2"
      and "update_items (\<lambda>r. im_batch r = b \<and> List.member (payoutStatusesAdvanceableTo to) (im_status r))
               (\<lambda>r. (fi r)\<lparr>im_status := to\<rparr>) db2 = Inr db3"
      and "update_settlements (\<lambda>r. sr_batch r = Some b \<and> List.member (payoutStatusesAdvanceableTo to) (sr_status r))
               (\<lambda>r. (fs r)\<lparr>sr_status := to\<rparr>) db3 = Inr db'"
    by (auto simp: advanceBatchTreeInTx_def Let_def on_ok_Inr_iff)
  then have rows: "py_batches db' = map ?f (py_batches db)" and "py_cases db' = py_cases db"
    by (auto dest!: update_batches_frame update_items_frame update_settlements_frame)
  then show "py_cases db' = py_cases db" by simp
  have "batch_of b db' = Some (?f r)"
    using assms(2,3) by (simp add: batch_of_def rows find_map_id)
  moreover have "br_id r = b" using assms(2) by (auto simp: batch_of_def dest: find_SomeD)
  ultimately show "batch_of b db' = Some (if status_le (br_status r) to then (fb r)\<lparr>br_status := to\<rparr> else r)"
    by simp
qed

text \<open>What the first transaction of a dispatch does when it decides to call the provider.\<close>

lemma mark_dispatch_row:
  assumes "mark_dispatch b db = Inr (DispatchCreate r', db')" and "batch_of b db = Some r"
    and "status_le (br_status r) PO_Processing"
  shows "batch_of b db' = Some r'" and "br_status r' = PO_Processing" and "batch_same r r'" and "br_id r' = b"
proof -
  let ?c = "payoutDispatchCorrelationId b"
  from assms(1) obtain db1 where a: "advanceBatchTreeInTx b PO_Processing (\<lambda>r. r\<lparr>br_correlation := ?c\<rparr>)
             (\<lambda>r. r\<lparr>im_correlation := ?c\<rparr>) (\<lambda>r. r\<lparr>sr_correlation := ?c\<rparr>) db = Inr db1"
      and d: "db' = recordAttempt b PT_CreatePayout PX_Unknown (Some PO_Processing) ?c None db1"
      and r': "batch_of b db' = Some r'"
    by (auto simp: mark_dispatch_def Let_def on_ok_Inr_iff split: option.splits)
  have "batch_of b db1 = Some (r\<lparr>br_correlation := ?c, br_status := PO_Processing\<rparr>)"
    using advance_effect(1) [OF a assms(2)] assms(3) by simp
  with r' have "r' = r\<lparr>br_correlation := ?c, br_status := PO_Processing\<rparr>"
    by (simp add: d batch_of_def recordAttempt_def)
  moreover have "br_id r = b" using assms(2) by (auto simp: batch_of_def dest: find_SomeD)
  ultimately show "batch_of b db' = Some r'" and "br_status r' = PO_Processing" and "batch_same r r'" and "br_id r' = b"
    using r' by (simp_all add: batch_same_def)
qed

lemma dispatch_create:
  assumes "dispatch_begin now b db = Inr (DispatchCreate r', db')"
  obtains r fresh where "batch_of b db = Some r" and "br_status r \<in> {PO_Batched, PO_Ready}"
    and "calculateSellerSettlementForDealInTx now (br_deal r) (Some b) db = Some fresh"
    and "filter hold_reason (sc_blocking_reasons fresh) = []" and "drift_reasons fresh r = []"
    and "batch_of b db' = Some r'" and "br_status r' = PO_Processing" and "batch_same r r'" and "br_id r' = b"
    and "mark_dispatch b db = Inr (DispatchCreate r', db')"
proof -
  from assms obtain r where r: "batch_of b db = Some r"
    by (auto simp: dispatch_begin_def split: option.splits)
  from assms r have st: "br_status r \<in> {PO_Batched, PO_Ready}"
    by (auto simp: dispatch_begin_def split: if_splits)
  from assms r st obtain fresh where f: "calculateSellerSettlementForDealInTx now (br_deal r) (Some b) db = Some fresh"
    by (auto simp: dispatch_begin_def split: option.splits if_splits)
  have hd: "filter hold_reason (sc_blocking_reasons fresh) = []" and dr: "drift_reasons fresh r = []"
      and m: "mark_dispatch b db = Inr (DispatchCreate r', db')"
    using assms r st f
    by (auto simp: dispatch_begin_def Let_def hold_dispatch_def block_dispatch_def on_ok_Inr_iff split: if_splits)
  have "status_le (br_status r) PO_Processing" using st by (auto simp: status_le_iff)
  note row = mark_dispatch_row [OF m r this]
  show ?thesis by (rule that [OF r st f hd dr row m])
qed

definition created_ok :: "rail \<Rightarrow> bool" where
  "created_ok s \<longleftrightarrow> keys_ok (ra_db s) \<and> distinct (map br_id (ra_created s))
     \<and> (\<forall>c\<in>set (ra_created s). \<exists>r. batch_of (br_id c) (ra_db s) = Some r \<and> batch_same c r
          \<and> 3 \<le> PAYOUT_STATUS_RANK (br_status r))"

lemma batch_same_trans: "batch_same a b \<Longrightarrow> batch_same b c \<Longrightarrow> batch_same a c"
  by (simp add: batch_same_def)

lemma created_rows_persist:
  assumes "rail_le db db'" and "batch_of b db = Some r" and "3 \<le> PAYOUT_STATUS_RANK (br_status r)"
  shows "\<exists>r'. batch_of b db' = Some r' \<and> batch_same r r' \<and> 3 \<le> PAYOUT_STATUS_RANK (br_status r')"
proof -
  from batch_persists [OF assms(1,2)] obtain r' where r': "batch_of b db' = Some r'" and le: "batch_le r r'" by blast
  have "PAYOUT_STATUS_RANK (br_status r) \<le> PAYOUT_STATUS_RANK (br_status r')"
    using le assms(3) by (intro status_le_rank) (auto simp: batch_le_def)
  with r' le assms(3) show ?thesis by (auto simp: batch_le_def)
qed

lemma created_step:
  assumes "rail_step s s'" and "created_ok s"
  shows "created_ok s'"
proof -
  have le: "rail_le (ra_db s) (ra_db s')" by (rule step_rail [OF assms(1)])
  have keys: "keys_ok (ra_db s')" using le assms(2) by (simp add: rail_le_def created_ok_def)
  have old: "\<exists>r. batch_of (br_id c) (ra_db s') = Some r \<and> batch_same c r \<and> 3 \<le> PAYOUT_STATUS_RANK (br_status r)"
    if c: "c \<in> set (ra_created s)" for c
  proof -
    from assms(2) c obtain r where "batch_of (br_id c) (ra_db s) = Some r" "batch_same c r" "3 \<le> PAYOUT_STATUS_RANK (br_status r)"
      unfolding created_ok_def by blast
    with created_rows_persist [OF le] show ?thesis by (blast intro: batch_same_trans)
  qed
  show ?thesis
  proof (cases "ra_created s' = ra_created s")
    case True
    then show ?thesis using keys old assms(2) by (auto simp: created_ok_def)
  next
    case False
    then obtain now b mode db' where d: "dispatch_begin now b (ra_db s) = Inr (mode, db')"
        and s': "ra_created s' = requests_of mode @ ra_created s" "ra_db s' = db'"
      using assms(1) by (auto elim!: rail_stepE)
    with False obtain c where c: "mode = DispatchCreate c" by (cases mode) auto
    from d [unfolded c] obtain r where r: "batch_of b (ra_db s) = Some r" "br_status r \<in> {PO_Batched, PO_Ready}"
        and r': "batch_of b db' = Some c" "br_status c = PO_Processing" "br_id c = b"
      by (rule dispatch_create)
    have "br_id c \<notin> br_id ` set (ra_created s)"
    proof
      assume "br_id c \<in> br_id ` set (ra_created s)"
      then obtain c' where "c' \<in> set (ra_created s)" and "br_id c' = b" using r'(3) by auto
      then have "\<exists>q. batch_of b (ra_db s) = Some q \<and> 3 \<le> PAYOUT_STATUS_RANK (br_status q)"
        using assms(2) unfolding created_ok_def by blast
      then show False using r by auto
    qed
    then show ?thesis using keys old assms(2) r' by (auto simp: created_ok_def s' c batch_same_def)
  qed
qed

lemma created_run: "rail_step\<^sup>*\<^sup>* s s' \<Longrightarrow> created_ok s \<Longrightarrow> created_ok s'"
  by (induction rule: rtranclp_induct) (auto intro: created_step)

lemma created_deals:
  assumes "created_ok s"
  shows "distinct (map br_deal (ra_created s))"
proof -
  have inj: "c = d" if "c \<in> set (ra_created s)" "d \<in> set (ra_created s)" "br_deal c = br_deal d" for c d
  proof -
    from that assms obtain q r where q: "batch_of (br_id c) (ra_db s) = Some q" "br_deal q = br_deal c"
        and r: "batch_of (br_id d) (ra_db s) = Some r" "br_deal r = br_deal d"
      unfolding created_ok_def batch_same_def by blast
    have "q \<in> set (py_batches (ra_db s))" "br_id q = br_id c" using q find_SomeD by (fastforce simp: batch_of_def)+
    moreover have "r \<in> set (py_batches (ra_db s))" "br_id r = br_id d" using r find_SomeD by (fastforce simp: batch_of_def)+
    moreover have "inj_on br_deal (set (py_batches (ra_db s)))"
      using assms by (simp add: created_ok_def keys_ok_def distinct_map)
    ultimately have "br_id c = br_id d" using q(2) r(2) that(3) by (metis inj_onD)
    then show "c = d" using assms that by (auto simp: created_ok_def distinct_map inj_on_def)
  qed
  then show ?thesis using assms by (auto simp: created_ok_def distinct_map inj_on_def)
qed

section \<open>What a late answer leaves behind\<close>

text \<open>A transaction that leaves batch \<open>b\<close> paid when it is, and its open case of an unknown outcome open.\<close>

definition leaves :: "string \<Rightarrow> payout_db \<Rightarrow> payout_db \<Rightarrow> bool" where
  "leaves b db db' \<longleftrightarrow>
     (\<forall>r. batch_of b db = Some r \<and> br_status r = PO_Paid \<longrightarrow> (\<exists>r'. batch_of b db' = Some r' \<and> br_status r' = PO_Paid))
     \<and> (dispatch_unknown_open b db \<longrightarrow> dispatch_unknown_open b db')"

lemma leaves_refl [simp]: "leaves b db db"
  by (simp add: leaves_def)

lemma leaves_trans: "leaves b db db1 \<Longrightarrow> leaves b db1 db2 \<Longrightarrow> leaves b db db2"
  unfolding leaves_def by blast

lemma leaves_frame:
  "py_batches db' = py_batches db \<Longrightarrow> py_cases db' = py_cases db \<Longrightarrow> leaves b db db'"
  by (simp add: leaves_def batch_of_def dispatch_unknown_open_def)

lemma leaves_settlements: "update_settlements P f db = Inr db' \<Longrightarrow> leaves b db db'"
  by (drule update_settlements_frame) (auto intro: leaves_frame)

lemma leaves_recorded [simp]: "leaves b db (recordAttempt b' k r s c ref db)"
  by (rule leaves_frame) (simp_all add: recordAttempt_def)

lemma leaves_batches:
  assumes "update_batches P f db = Inr db'" and "\<And>r. br_id (f r) = br_id r"
    and "\<And>r. P r \<Longrightarrow> br_id r = b \<Longrightarrow> br_status r = PO_Paid \<Longrightarrow> br_status (f r) = PO_Paid"
  shows "leaves b db db'"
proof -
  let ?g = "\<lambda>r. if P r then f r else r"
  have db': "db' = db\<lparr>py_batches := map ?g (py_batches db)\<rparr>" using update_batches_frame [OF assms(1)] by auto
  have "batch_of b db' = map_option ?g (batch_of b db)"
    using assms(2) by (simp add: db' batch_of_def find_map_id)
  moreover have "br_id r = b" if "batch_of b db = Some r" for r using that by (auto simp: batch_of_def dest: find_SomeD)
  ultimately show ?thesis using assms(3) by (auto simp: leaves_def dispatch_unknown_open_def db')
qed

lemma leaves_advance:
  assumes "advanceBatchTreeInTx b' to fb fi fs db = Inr db'" and "b' \<noteq> b \<or> to \<noteq> PO_Reconciled"
    and "\<And>r. br_id (fb r) = br_id r"
  shows "leaves b db db'"
proof -
  from assms(1) obtain db1 db2 where
      1: "update_batches (\<lambda>r. br_id r = b' \<and> List.member (payoutStatusesAdvanceableTo to) (br_status r))
            (\<lambda>r. (fb r)\<lparr>br_status := to\<rparr>) db = Inr db1"
    and 2: "update_items (\<lambda>r. im_batch r = b' \<and> List.member (payoutStatusesAdvanceableTo to) (im_status r))
            (\<lambda>r. (fi r)\<lparr>im_status := to\<rparr>) db1 = Inr db2"
    and 3: "update_settlements (\<lambda>r. sr_batch r = Some b' \<and> List.member (payoutStatusesAdvanceableTo to) (sr_status r))
            (\<lambda>r. (fs r)\<lparr>sr_status := to\<rparr>) db2 = Inr db'"
    by (auto simp: advanceBatchTreeInTx_def Let_def on_ok_Inr_iff)
  have "leaves b db db1"
    using assms(2,3) by (intro leaves_batches [OF 1]) (cases to; auto simp: status_le_iff)+
  moreover have "leaves b db1 db2" using update_items_frame [OF 2] by (auto intro: leaves_frame)
  ultimately show ?thesis using leaves_settlements [OF 3] by (blast intro: leaves_trans)
qed

lemma leaves_last_error: "set_last_error b' m db = Inr db' \<Longrightarrow> leaves b db db'"
  unfolding set_last_error_def by (erule leaves_batches) simp_all

lemma leaves_refresh: "refreshSettlementCaseFlagInTx d db = Inr db' \<Longrightarrow> leaves b db db'"
  unfolding refreshSettlementCaseFlagInTx_def Let_def by (rule leaves_settlements)

lemma leaves_cases:
  assumes "\<And>c. pc_batch (f c) = pc_batch c \<and> pc_type (f c) = pc_type c"
    and "\<And>c. pc_batch c = Some b \<Longrightarrow> pc_type c = CaseDispatchOutcomeUnknown \<Longrightarrow> pc_open (f c) = pc_open c"
  shows "leaves b db (db\<lparr>py_cases := map f (py_cases db)\<rparr>)"
proof -
  have "dispatch_unknown_open b (db\<lparr>py_cases := map f (py_cases db)\<rparr>)" if "dispatch_unknown_open b db"
    using that assms by (auto simp: dispatch_unknown_open_def list_ex_iff)
  then show ?thesis by (simp add: leaves_def batch_of_def)
qed

lemma leaves_resolve:
  assumes "resolveDispatchUnknownCasesInTx batch db = Inr db'" and "br_id batch \<noteq> b"
  shows "leaves b db db'"
  by (rule leaves_trans [OF leaves_cases leaves_refresh [OF assms(1) [unfolded resolveDispatchUnknownCasesInTx_def]]])
    (use assms(2) in simp_all)

lemma leaves_ensure: "ensureOpenBlockingCase new db = Inr db' \<Longrightarrow> leaves b db db'"
proof -
  assume "ensureOpenBlockingCase new db = Inr db'"
  then obtain db1 where 1: "(if list_ex (\<lambda>c. pc_deal c = pc_deal new \<and> pc_type c = pc_type new \<and> pc_open c \<and> pc_batch c = pc_batch new)
               (py_cases db) then Inr db else createBlockingReconciliationCase new db) = Inr db1"
    and 2: "update_settlements (\<lambda>r. sr_deal r = pc_deal new)
         (\<lambda>r. r\<lparr>sr_has_case := True, sr_blockers := remdups (sr_blockers r @ [OpenBlockingReconciliationCase])\<rparr>) db1 = Inr db'"
    by (auto simp: ensureOpenBlockingCase_def on_ok_Inr_iff)
  have "leaves b db db1" using 1
    by (auto simp: createBlockingReconciliationCase_def leaves_def batch_of_def dispatch_unknown_open_def split: if_splits)
  with leaves_settlements [OF 2] show ?thesis by (blast intro: leaves_trans)
qed

lemma leaves_outbox: "insertOutboxEventIfMissing u now et agg ai p db = Inr (x, db') \<Longrightarrow> leaves b db db'"
  by (drule outbox_frame) (auto intro: leaves_frame)

lemma leaves_unknown_case: "openDispatchUnknownCaseInTx r c db = Inr db' \<Longrightarrow> leaves b db db'"
  unfolding openDispatchUnknownCaseInTx_def by (rule leaves_ensure)

lemma accepted_batch_id [simp]: "br_id (accepted_batch now a r) = br_id r"
  by (simp add: accepted_batch_def Let_def)

lemma leaves_accepted:
  assumes "applyProviderAcceptedInTx u now batch a db = Inr db'" and "br_id batch \<noteq> b"
  shows "leaves b db db'"
proof -
  from assms(1) obtain db1 db2 x where
      1: "advanceBatchTreeInTx (br_id batch) (accepted_target a) (accepted_batch now a) (accepted_item a)
            (if accepted_target a = PO_Paid then paid_settlement else (\<lambda>r. r)) db = Inr db1"
    and 2: "resolveDispatchUnknownCasesInTx batch db1 = Inr db2"
    and 3: "insertOutboxEventIfMissing u now ''seller_payout_reconcile'' ''seller_payout_batch'' (br_id batch) (br_id batch) db2 = Inr (x, db')"
    by (auto simp: applyProviderAcceptedInTx_def on_ok_Inr_iff)
  have "leaves b db db1" using assms(2) by (intro leaves_advance [OF 1]) simp_all
  with leaves_resolve [OF 2 assms(2)] leaves_outbox [OF 3] show ?thesis by (blast intro: leaves_trans)
qed

lemma batch_of_id: "batch_of b db = Some r \<Longrightarrow> br_id r = b"
  by (auto simp: batch_of_def dest: find_SomeD)

lemma leaves_fail:
  "advanceBatchTreeInTx b' to (\<lambda>r. r\<lparr>br_last_error := m\<rparr>) (\<lambda>r. r) fs db = Inr db' \<Longrightarrow> b' \<noteq> b \<Longrightarrow> leaves b db db'"
  by (erule leaves_advance) simp_all

lemma leaves_recorded_trans: "leaves b (recordAttempt b' k r s c ref db) db' \<Longrightarrow> leaves b db db'"
  by (blast intro: leaves_trans leaves_recorded)

lemma leaves_attest:
  assumes "resolveDispatchUnknownByAttestationInTx u now args db = Inr (x, db')"
    and "batch_of b db = Some r" and "br_status r = PO_Paid"
  shows "leaves b db db'"
proof (cases "db' = db")
  case False
  then obtain o' batch where a: "apply_attestation u now args o' batch db = Inr (x, db')"
      and batch: "batch_of (at_batch args) db = Some batch" "br_status batch = PO_Processing"
    using assms(1) by (auto simp: resolveDispatchUnknownByAttestationInTx_def split: option.splits if_splits)
  have ne: "at_batch args \<noteq> b" using batch assms(2,3) by auto
  with batch_of_id [OF batch(1)] have "br_id batch \<noteq> b" by simp
  then show ?thesis using a ne
    by (auto simp: apply_attestation_def Let_def on_ok_Inr_iff split: if_splits
        dest!: leaves_fail leaves_accepted leaves_resolve intro: leaves_recorded_trans leaves_trans)
qed simp

lemma leaves_begin:
  assumes "dispatch_begin now b' db = Inr (mode, db')"
  shows "leaves b db db'"
proof -
  have hold: "leaves b db db'" if "hold_dispatch b' rs db = Inr (mode, db')" for rs
    using that by (auto simp: hold_dispatch_def on_ok_Inr_iff dest: leaves_last_error)
  have block: "leaves b db db'" if "block_dispatch r c rs db = Inr (mode, db')" for r c rs
    using that by (auto simp: block_dispatch_def on_ok_Inr_iff dest!: leaves_ensure leaves_last_error intro: leaves_trans)
  have mark: "leaves b db db'" if "mark_dispatch b' db = Inr (mode, db')"
  proof -
    let ?c = "payoutDispatchCorrelationId b'"
    from that obtain db1 where a: "advanceBatchTreeInTx b' PO_Processing (\<lambda>r. r\<lparr>br_correlation := ?c\<rparr>)
               (\<lambda>r. r\<lparr>im_correlation := ?c\<rparr>) (\<lambda>r. r\<lparr>sr_correlation := ?c\<rparr>) db = Inr db1"
        and d: "db' = recordAttempt b' PT_CreatePayout PX_Unknown (Some PO_Processing) ?c None db1"
      by (auto simp: mark_dispatch_def Let_def on_ok_Inr_iff split: option.splits)
    have "leaves b db db1" by (rule leaves_advance [OF a]) simp_all
    then show ?thesis unfolding d by (blast intro: leaves_trans leaves_recorded)
  qed
  show ?thesis using assms hold block mark
    by (auto simp: dispatch_begin_def Let_def split: option.splits if_splits)
qed

lemma leaves_finish:
  assumes "dispatch_finish u now b' a db = Inr (x, db')" and "b' \<noteq> b"
  shows "leaves b db db'"
proof -
  from assms(1) obtain batch where "batch_of b' db = Some batch" by (auto simp: dispatch_finish_def split: option.splits)
  moreover from this have "br_id batch \<noteq> b" using assms(2) batch_of_id by auto
  ultimately show ?thesis using assms
    by (auto simp: dispatch_finish_def Let_def on_ok_Inr_iff split: if_splits
        dest!: leaves_fail leaves_accepted leaves_last_error leaves_unknown_case intro: leaves_recorded_trans leaves_trans)
qed

lemma leaves_lookup:
  assumes "lookup_finish u now b' a db = Inr (x, db')" and "batch_of b db = Some r" and "br_status r = PO_Paid"
  shows "leaves b db db'"
proof (cases "b' = b")
  case True
  then show ?thesis using assms by (auto simp: lookup_finish_def Let_def)
next
  case False
  from assms(1) obtain batch where "batch_of b' db = Some batch" by (auto simp: lookup_finish_def split: option.splits)
  moreover from this have "br_id batch \<noteq> b" using False batch_of_id by auto
  ultimately show ?thesis using assms(1) False
    by (auto simp: lookup_finish_def Let_def on_ok_Inr_iff split: if_splits
        dest!: leaves_fail leaves_accepted leaves_last_error leaves_unknown_case leaves_resolve
        intro: leaves_recorded_trans leaves_trans)
qed

lemma leaves_upsert: "upsertSellerSettlementInTx c corr db = Inr db' \<Longrightarrow> leaves b db db'"
  by (auto simp: upsertSellerSettlementInTx_def Let_def split: option.splits dest: leaves_settlements intro: leaves_frame)

lemma leaves_reconcile:
  assumes "reconcile_finish now corr b' obs a db = Inr (x, db')" and "b' \<noteq> b"
  shows "leaves b db db'"
proof -
  from assms(1) obtain batch fresh db1 where batch: "batch_of b' db = Some batch"
    and u: "upsertSellerSettlementInTx fresh corr db = Inr db1"
    and r: "(let db2 = recordAttempt b' PT_ReconcilePayout (an_class a) (an_status a) corr (an_reference a) db1 in
                  if an_class a \<noteq> PX_Success then Inr (ReconcileRetryLater, db2)
                  else if br_status batch = PO_Reconciled then Inr (ReconcileAlready, db2)
                  else if \<not> List.member [PO_Processing, PO_Paid] (br_status batch) then Inr (ReconcileSuperseded, db2)
                  else if an_matched a \<and> am_net (sc_amounts fresh) = am_payout (br_amounts batch)
                          \<and> am_net (sc_amounts fresh) = obs
                  then reconcile_matched now a batch db2
                  else reconcile_mismatched now corr a batch fresh db2) = Inr (x, db')"
    by (auto simp: reconcile_finish_def on_ok_Inr_iff split: option.splits)
  have ne: "br_id batch \<noteq> b" using batch_of_id [OF batch] assms(2) by simp
  have matched: "leaves b d db'" if m: "reconcile_matched now a batch d = Inr (x, db')" for d
  proof -
    let ?f = "\<lambda>c. if pc_batch c = Some (br_id batch) \<and> pc_open c \<and> pc_type c \<noteq> CaseDispatchOutcomeUnknown then c\<lparr>pc_open := False\<rparr> else c"
    from m obtain d1 where
        1: "advanceBatchTreeInTx (br_id batch) PO_Reconciled (matched_batch now a) (\<lambda>r. r) paid_settlement d = Inr d1"
      and 2: "refreshSettlementCaseFlagInTx (br_deal batch) (d1\<lparr>py_cases := map ?f (py_cases d1)\<rparr>) = Inr db'"
      by (auto simp: reconcile_matched_def on_ok_Inr_iff)
    have "leaves b d d1" using ne by (intro leaves_advance [OF 1]) (simp_all add: matched_batch_def)
    moreover have "leaves b d1 (d1\<lparr>py_cases := map ?f (py_cases d1)\<rparr>)" by (rule leaves_cases) simp_all
    ultimately show ?thesis using leaves_refresh [OF 2] by (blast intro: leaves_trans)
  qed
  have mismatched: "leaves b d db'" if m: "reconcile_mismatched now corr a batch fresh d = Inr (x, db')" for d
  proof -
    from m obtain d1 d2 d3 new where
        1: "advanceBatchTreeInTx (br_id batch) PO_Failed (\<lambda>r. r\<lparr>br_reconciled_at := Some now\<rparr>) (\<lambda>r. r) (\<lambda>r. r) d = Inr d1"
      and 2: "set_last_error (br_id batch) ReconciliationMismatchMark d1 = Inr d2"
      and 3: "update_settlements (\<lambda>r. sr_batch r = Some (br_id batch)) mismatched_settlement d2 = Inr d3"
      and 4: "ensureOpenBlockingCase new d3 = Inr db'"
      by (auto simp: reconcile_mismatched_def on_ok_Inr_iff)
    have "leaves b d d1" by (rule leaves_advance [OF 1]) simp_all
    with leaves_last_error [OF 2] leaves_settlements [OF 3] leaves_ensure [OF 4] show ?thesis by (blast intro: leaves_trans)
  qed
  have "leaves b db1 db'" using r
    by (auto simp: Let_def split: if_splits intro: leaves_recorded_trans dest!: matched mismatched)
  with leaves_upsert [OF u] show ?thesis by (rule leaves_trans)
qed

lemma leaves_insert_item: "insert_item r db = Inr db' \<Longrightarrow> leaves b db db'"
  by (auto simp: insert_item_def intro: leaves_frame split: option.splits if_splits)

lemma leaves_insert_items: "insert_items rs db = Inr db' \<Longrightarrow> leaves b db db'"
  by (induction rs arbitrary: db) (auto simp: on_ok_Inr_iff dest!: leaves_insert_item intro: leaves_trans)

lemma leaves_enqueue: "enqueuePrepareForDeal u now d db = Inr (x, db') \<Longrightarrow> leaves b db db'"
  by (auto simp: enqueuePrepareForDeal_def split: option.splits dest: leaves_outbox)

lemma leaves_insert_batch: "insert_batch r db = Inr db' \<Longrightarrow> leaves b db db'"
  by (auto simp: insert_batch_def leaves_def batch_of_def dispatch_unknown_open_def find_append_Some split: option.splits if_splits)

lemma leaves_write_batch:
  assumes "write_batch now args calc corr payable db = Inr (x, db')"
  shows "leaves b db db'"
proof -
  from assms obtain r db1 db2 db3 db4 items y where
      1: "insert_batch r db = Inr db1" and 2: "replaceSettlementBatchLink (sc_deal calc) (pr_new_batch args) db1 = Inr db2"
    and 3: "insert_items items (recordAttempt (pr_new_batch args) PT_Prepare PX_Success (Some PO_Batched) corr None db2) = Inr db3"
    and 4: "update_batches (\<lambda>r. br_id r = pr_new_batch args) (\<lambda>r. r\<lparr>br_item_count := int (length payable)\<rparr>) db3 = Inr db4"
    and 5: "insertOutboxEventIfMissing (pr_new_event args) now ''seller_payout_dispatch'' ''seller_payout_batch''
              (pr_new_batch args) (pr_new_batch args) db4 = Inr (y, db')"
    by (auto simp: write_batch_def Let_def on_ok_Inr_iff)
  have "leaves b db3 db4" by (rule leaves_batches [OF 4]) simp_all
  then show ?thesis
    using leaves_insert_batch [OF 1] leaves_settlements [OF 2 [unfolded replaceSettlementBatchLink_def]]
      leaves_recorded_trans [OF leaves_insert_items [OF 3]] leaves_outbox [OF 5]
    by (blast intro: leaves_trans)
qed

lemma leaves_prepare:
  assumes "prepareBatchForDeal now args db = Inr (x, db')"
  shows "leaves b db db'"
proof -
  have refuse: "leaves b d db'" if r: "refuse_mismatched_batch calc corr rows payable d = Inr (x, db')" for calc corr rows payable d
    using r by (auto simp: refuse_mismatched_batch_def on_ok_Inr_iff dest!: leaves_ensure leaves_settlements intro: leaves_trans)
  show ?thesis using assms
    by (auto simp: prepareBatchForDeal_def Let_def on_ok_Inr_iff split: option.splits if_splits
        dest!: leaves_upsert leaves_write_batch refuse intro: leaves_trans)
qed

definition stranded :: "string \<Rightarrow> rail \<Rightarrow> bool" where
  "stranded b s \<longleftrightarrow> (\<exists>r. batch_of b (ra_db s) = Some r \<and> br_status r = PO_Paid) \<and> dispatch_unknown_open b (ra_db s)
     \<and> b \<notin> set (ra_inflight s) \<and> b \<notin> fst ` set (ra_reconciling s)"

lemma stranded_leaves:
  assumes "stranded b s" and "leaves b (ra_db s) db'"
    and "b \<notin> set inflight" and "b \<notin> fst ` set reconciling"
  shows "stranded b (s\<lparr>ra_db := db', ra_inflight := inflight, ra_created := c, ra_reconciling := reconciling\<rparr>)"
  using assms by (auto simp: stranded_def leaves_def)

lemma stranded_step:
  assumes "rail_step s s'" and "stranded b s"
  shows "stranded b s'"
proof -
  from assms(2) obtain r where r: "batch_of b (ra_db s) = Some r" "br_status r = PO_Paid"
      and inf: "b \<notin> set (ra_inflight s)" and rec: "b \<notin> fst ` set (ra_reconciling s)"
      and open_case: "dispatch_unknown_open b (ra_db s)"
    by (auto simp: stranded_def)
  have keep: "leaves b (ra_db s) db' \<Longrightarrow> stranded b (s\<lparr>ra_db := db'\<rparr>)" for db'
    using stranded_leaves [OF assms(2) _ inf rec, of db' "ra_created s"] by simp
  from assms(1) show ?thesis
  proof cases
    case (outside db')
    then show ?thesis by (auto intro!: keep leaves_frame simp: same_rail_def)
  next
    case (enqueue u now d x db')
    then show ?thesis by (auto intro: keep leaves_enqueue)
  next
    case (prepare now args x db')
    then show ?thesis by (auto intro: keep leaves_prepare)
  next
    case (dispatch now b' mode db')
    have "b \<notin> set (map br_id (requests_of mode))"
    proof
      assume a: "b \<in> set (map br_id (requests_of mode))"
      then obtain c where m: "mode = DispatchCreate c" and id: "br_id c = b" by (cases mode) auto
      from dispatch(2) [unfolded m] obtain q where "batch_of b' (ra_db s) = Some q" "br_status q \<in> {PO_Batched, PO_Ready}" "br_id c = b'"
        by (rule dispatch_create)
      with id r show False by auto
    qed
    then show ?thesis using dispatch assms(2) inf rec
      by (simp add: stranded_def) (use leaves_begin [OF dispatch(2), of b] r open_case in \<open>auto simp: leaves_def\<close>)
  next
    case (answer b' u now a x db')
    then have "b' \<noteq> b" using inf by auto
    with answer leaves_finish [of u now b' a "ra_db s" x db' b] r open_case inf rec show ?thesis
      by (auto simp: stranded_def leaves_def dest: notin_set_remove1)
  next
    case (crash b')
    then show ?thesis using assms(2) by (auto simp: stranded_def dest: notin_set_remove1)
  next
    case (lookup u now b' a x db')
    then show ?thesis using r by (auto intro: keep leaves_lookup)
  next
    case (attest u now att q db')
    then show ?thesis using r by (auto intro: keep leaves_attest)
  next
    case (reconcile now b' row observed)
    then have "b' \<noteq> b" using r open_case by (auto simp: reconcile_begin_def)
    then show ?thesis using reconcile assms(2) by (auto simp: stranded_def)
  next
    case (reconciled b' observed now corr ra y db')
    then have "b' \<noteq> b" using rec by force
    with reconciled leaves_reconcile [of now corr b' observed ra "ra_db s" y db' b] r open_case inf rec show ?thesis
      by (auto simp: stranded_def leaves_def dest: set_remove1_subset [THEN subsetD])
  qed
qed

lemma stranded_run: "rail_step\<^sup>*\<^sup>* s s' \<Longrightarrow> stranded b s \<Longrightarrow> stranded b s'"
  by (induction rule: rtranclp_induct) (auto intro: stranded_step)

section \<open>The calculation of a settlement\<close>

lemma uniqueReasons_Nil [simp]: "uniqueReasons rs = [] \<longleftrightarrow> rs = []"
  by (simp add: uniqueReasons_def)

lemma no_blocking_reasons:
  "blocking_reasons_of state account gross net existing open_case freeze = [] \<longleftrightarrow>
     state = D_Completed \<and> account = AccountActive \<and> 0 < gross \<and> 0 < net
     \<and> \<not> list_ex (\<lambda>s. List.member [PO_Batched, PO_Processing, PO_Paid, PO_Reconciled] s) existing
     \<and> \<not> open_case \<and> \<not> freeze"
  unfolding blocking_reasons_of_def uniqueReasons_Nil by (auto simp del: List.member_iff split: if_splits)

lemma calculation_SomeE:
  assumes "calculateSellerSettlementForDealInTx now deal ex db = Some c"
  obtains d account where "py_deals db deal = Some d" and "py_accounts db (pl_seller d) = Some account"
    and "sc_deal c = deal" and "sc_seller c = pl_seller d"
    and "sc_blocking_reasons c = blocking_reasons_of (pl_state d) account (gross_collected (ledger_of_deal deal db))
           (seller_net (ledger_of_deal deal db)) (existing_payout_statuses deal ex db) (blocking_case_open deal db)
           (payout_freeze_active now (pl_seller d) deal db)"
    and "sc_amounts c = settlement_amounts_of (ledger_of_deal deal db) (existing_payout_statuses deal ex db) (sc_blocking_reasons c)"
    and "sc_status c = deriveSettlementStatus (pl_state d) (sc_blocking_reasons c = []) (am_payout (sc_amounts c))
           (sc_blocking_reasons c) (existing_payout_statuses deal ex db) (payout_freeze_active now (pl_seller d) deal db)"
  using assms
  by (auto simp: calculateSellerSettlementForDealInTx_def Let_def split: option.splits)

lemma amounts_net: "am_net (settlement_amounts_of l e b) = seller_net l"
  by (simp add: settlement_amounts_of_def Let_def)

lemma amounts_refunds: "am_refunds (settlement_amounts_of l e b) = refunds_total l"
  by (simp add: settlement_amounts_of_def Let_def)

lemma amounts_payout: "am_payout (settlement_amounts_of l e b) = (if b = [] then seller_net l else 0)"
  by (simp add: settlement_amounts_of_def Let_def)

text \<open>C11: Over any interleaving of the transactions of the rail, with crashes, lost answers and
  arbitrary changes of the other tables in between, the provider is asked to pay a deal at most once, and
  the batch of every request has left the states a dispatch starts from, with the amount that was sent.\<close>

theorem payout_sent_once:
  assumes "rail_step\<^sup>*\<^sup>* s s'" and "keys_ok (ra_db s)" and "ra_created s = []"
  shows "distinct (map br_deal (ra_created s')) \<and> distinct (map br_id (ra_created s'))
    \<and> (\<forall>c\<in>set (ra_created s'). \<exists>r. batch_of (br_id c) (ra_db s') = Some r
         \<and> am_payout (br_amounts r) = am_payout (br_amounts c) \<and> PAYOUT_STATUS_RANK PO_Processing \<le> PAYOUT_STATUS_RANK (br_status r))"
proof -
  have "created_ok s" using assms(2,3) by (simp add: created_ok_def)
  with assms(1) have ok: "created_ok s'" by (rule created_run)
  then show ?thesis using created_deals [OF ok] by (fastforce simp: created_ok_def batch_same_def)
qed

text \<open>C12: A request to the provider is made for the seller net the ledger has at that moment, for a
  completed deal of an active seller without a freeze, an open blocking case, another batch under way or a
  refund since the batch was written; the batch is processing and the attempt is on record before the call.\<close>

theorem payout_request_is_current_truth:
  assumes "dispatch_begin now b db = Inr (DispatchCreate r, db')"
  shows "am_payout (br_amounts r) = seller_net (ledger_of_deal (br_deal r) db) \<and> 0 < am_payout (br_amounts r)
    \<and> refunds_total (ledger_of_deal (br_deal r) db) \<le> am_refunds (br_amounts r)
    \<and> (\<exists>d. py_deals db (br_deal r) = Some d \<and> pl_state d = D_Completed
          \<and> py_accounts db (pl_seller d) = Some AccountActive \<and> \<not> payout_freeze_active now (pl_seller d) (br_deal r) db)
    \<and> \<not> blocking_case_open (br_deal r) db
    \<and> set (existing_payout_statuses (br_deal r) (Some b) db) \<inter> {PO_Batched, PO_Processing, PO_Paid, PO_Reconciled} = {}
    \<and> batch_of b db' = Some r \<and> br_status r = PO_Processing
    \<and> last (py_attempts db') = \<lparr>pt_batch = b, pt_type = PT_CreatePayout, pt_result = PX_Unknown,
         pt_status = Some PO_Processing, pt_correlation = payoutDispatchCorrelationId b, pt_reference = None\<rparr>"
proof -
  from assms obtain r0 fresh where
      f: "calculateSellerSettlementForDealInTx now (br_deal r0) (Some b) db = Some fresh"
    and dr: "drift_reasons fresh r0 = []" and row: "batch_of b db' = Some r" "br_status r = PO_Processing" "batch_same r0 r"
    and m: "mark_dispatch b db = Inr (DispatchCreate r, db')"
    by (rule dispatch_create)
  from dr have nb: "sc_blocking_reasons fresh = []" and net: "am_net (sc_amounts fresh) = am_payout (br_amounts r0)"
      and ref: "\<not> am_refunds (br_amounts r0) < am_refunds (sc_amounts fresh)"
    by (auto simp: drift_reasons_def split: if_splits)
  from f obtain d account where d: "py_deals db (br_deal r0) = Some d" "py_accounts db (pl_seller d) = Some account"
      and br: "sc_blocking_reasons fresh = blocking_reasons_of (pl_state d) account (gross_collected (ledger_of_deal (br_deal r0) db))
           (seller_net (ledger_of_deal (br_deal r0) db)) (existing_payout_statuses (br_deal r0) (Some b) db)
           (blocking_case_open (br_deal r0) db) (payout_freeze_active now (pl_seller d) (br_deal r0) db)"
      and am: "sc_amounts fresh = settlement_amounts_of (ledger_of_deal (br_deal r0) db)
           (existing_payout_statuses (br_deal r0) (Some b) db) (sc_blocking_reasons fresh)"
    by (rule calculation_SomeE)
  note clear = nb [unfolded br no_blocking_reasons]
  have "last (py_attempts db') = \<lparr>pt_batch = b, pt_type = PT_CreatePayout, pt_result = PX_Unknown,
         pt_status = Some PO_Processing, pt_correlation = payoutDispatchCorrelationId b, pt_reference = None\<rparr>"
    using m by (auto simp: mark_dispatch_def Let_def on_ok_Inr_iff recordAttempt_def split: option.splits)
  moreover have "br_deal r0 = br_deal r" "am_payout (br_amounts r0) = am_payout (br_amounts r)"
      "am_refunds (br_amounts r0) = am_refunds (br_amounts r)"
    using row(3) by (simp_all add: batch_same_def)
  moreover have "set (existing_payout_statuses (br_deal r0) (Some b) db) \<inter> {PO_Batched, PO_Processing, PO_Paid, PO_Reconciled} = {}"
    using clear by (auto simp: list_ex_iff)
  ultimately show ?thesis using clear net ref d row(1,2) by (simp add: am amounts_net amounts_refunds)
qed

section \<open>The batch\<close>

lemma upsert_frame:
  "upsertSellerSettlementInTx c corr db = Inr db' \<Longrightarrow> \<exists>rows. db' = db\<lparr>py_settlements := rows\<rparr>"
  by (auto simp: upsertSellerSettlementInTx_def Let_def split: option.splits dest: update_settlements_frame)

lemma insert_items_frame:
  "insert_items rs db = Inr db' \<Longrightarrow> db' = db\<lparr>py_items := py_items db @ rs\<rparr>"
proof (induction rs arbitrary: db)
  case (Cons a rs)
  then have "insert_items rs (db\<lparr>py_items := py_items db @ [a]\<rparr>) = Inr db'"
    by (auto simp: on_ok_Inr_iff insert_item_def split: option.splits if_splits)
  from Cons.IH [OF this] show ?case by simp
qed simp

lemma write_batch_effect:
  assumes "write_batch now args calc corr payable db = Inr (x, db')"
  shows "x = PrepareBatched (pr_new_batch args)"
    and "\<exists>r. batch_of (pr_new_batch args) db' = Some r \<and> br_status r = PO_Batched \<and> br_deal r = sc_deal calc
           \<and> br_amounts r = add_amounts no_amounts (sc_amounts calc) \<and> br_item_count r = int (length payable)"
    and "py_items db' = py_items db @ map (item_for (pr_new_batch args) (pr_deal args) (sc_seller calc) corr) payable"
proof -
  let ?b = "pr_new_batch args"
  from assms obtain r db1 db2 db3 db4 y where
      1: "insert_batch r db = Inr db1" and 2: "replaceSettlementBatchLink (sc_deal calc) ?b db1 = Inr db2"
    and 3: "insert_items (map (item_for ?b (pr_deal args) (sc_seller calc) corr) payable)
              (recordAttempt ?b PT_Prepare PX_Success (Some PO_Batched) corr None db2) = Inr db3"
    and 4: "update_batches (\<lambda>r. br_id r = ?b) (\<lambda>r. r\<lparr>br_item_count := int (length payable)\<rparr>) db3 = Inr db4"
    and 5: "insertOutboxEventIfMissing (pr_new_event args) now ''seller_payout_dispatch'' ''seller_payout_batch'' ?b ?b db4 = Inr (y, db')"
    and x: "x = PrepareBatched ?b"
    and r: "br_id r = ?b" "br_status r = PO_Batched" "br_deal r = sc_deal calc"
           "br_amounts r = add_amounts no_amounts (sc_amounts calc)"
    by (auto simp: write_batch_def Let_def on_ok_Inr_iff summarizeBatchFromSettlements_def)
  let ?f = "\<lambda>r. if br_id r = ?b then r\<lparr>br_item_count := int (length payable)\<rparr> else r"
  from 1 have db1: "db1 = db\<lparr>py_batches := py_batches db @ [r]\<rparr>"
      and fresh: "find (\<lambda>q. br_id q = ?b) (py_batches db) = None"
    using r(1) by (auto simp: insert_batch_def find_None_iff list_ex_iff split: option.splits if_splits)
  obtain ss where db2: "db2 = db1\<lparr>py_settlements := ss\<rparr>"
    using update_settlements_frame [OF 2 [unfolded replaceSettlementBatchLink_def]] by blast
  have b3: "py_batches db3 = py_batches db @ [r]"
      and i3: "py_items db3 = py_items db @ map (item_for ?b (pr_deal args) (sc_seller calc) corr) payable"
    using insert_items_frame [OF 3] by (simp_all add: db2 db1 recordAttempt_def)
  have db4: "db4 = db3\<lparr>py_batches := map ?f (py_batches db3)\<rparr>" using update_batches_frame [OF 4] by blast
  obtain ob where db': "db' = db4\<lparr>py_outbox := ob\<rparr>" using outbox_frame [OF 5] by blast
  have "batch_of ?b db' = Some (?f r)"
    using fresh r(1) by (simp add: batch_of_def db' db4 b3 find_map_id find_append_None del: map_append)
  then show "\<exists>r. batch_of ?b db' = Some r \<and> br_status r = PO_Batched \<and> br_deal r = sc_deal calc
           \<and> br_amounts r = add_amounts no_amounts (sc_amounts calc) \<and> br_item_count r = int (length payable)"
    using r by simp
  show "py_items db' = py_items db @ map (item_for ?b (pr_deal args) (sc_seller calc) corr) payable"
    by (simp add: db' db4 i3)
  show "x = PrepareBatched ?b" by (rule x)
qed

lemma prepare_batchedE:
  assumes "prepareBatchForDeal now args db = Inr (PrepareBatched b, db')"
  obtains calc db1 corr where "calculateSellerSettlementForDealInTx now (pr_deal args) None db = Some calc"
    and "upsertSellerSettlementInTx calc corr db = Inr db1" and "sc_status calc = PO_Ready"
    and "payable_participants (pr_deal args) db1 \<noteq> []"
    and "sum_list (map pm_net (payable_participants (pr_deal args) db1)) = am_payout (sc_amounts calc)"
    and "write_batch now args calc corr (payable_participants (pr_deal args) db1) db1 = Inr (PrepareBatched b, db')"
proof -
  let ?corr = "case pr_correlation args of Some c \<Rightarrow> c | None \<Rightarrow> ''seller-payout-prepare:'' @ pr_deal args"
  from assms obtain calc where c: "calculateSellerSettlementForDealInTx now (pr_deal args) None db = Some calc"
    by (auto simp: prepareBatchForDeal_def Let_def split: option.splits)
  from assms c obtain db1 where u: "upsertSellerSettlementInTx calc ?corr db = Inr db1"
    unfolding prepareBatchForDeal_def Let_def by (auto simp: on_ok_Inr_iff)
  note p = assms [unfolded prepareBatchForDeal_def Let_def c option.case u on_ok_simps]
  from p obtain st where st: "settlement_of (pr_deal args) db1 = Some st" by (auto split: option.splits)
  from p st have rdy: "sc_status calc = PO_Ready" "sr_status st = PO_Ready" by (auto split: if_splits)
  from p st rdy have none: "find (\<lambda>r. br_deal r = pr_deal args) (py_batches db1) = None" by (auto split: option.splits)
  let ?pay = "payable_participants (pr_deal args) db1"
  have w: "?pay \<noteq> [] \<and> sum_list (map pm_net ?pay) = am_payout (sc_amounts calc)
      \<and> write_batch now args calc ?corr ?pay db1 = Inr (PrepareBatched b, db')"
    using p st rdy none by (auto simp: refuse_mismatched_batch_def on_ok_Inr_iff split: if_splits)
  show ?thesis by (rule that [OF c u rdy(1)]) (use w in blast)+
qed

text \<open>A participant with an item in the batch: captured, no refund or negative entry, a positive net.\<close>

definition owed_participant :: "string \<Rightarrow> payout_db \<Rightarrow> payout_participant \<Rightarrow> bool" where
  "owed_participant deal db p \<longleftrightarrow> pp_deal p = deal \<and> (pp_money p = M_ChargedSuccess \<or> pp_money p = M_RecoveredCharge)
     \<and> \<not> list_ex (\<lambda>e. fr_entry e = RefundAdjustment \<or> fa_gross (fr_amounts e) < 0) (ledger_of_participant (pp_id p) db)
     \<and> 0 < seller_net (map fr_amounts (ledger_of_participant (pp_id p) db))"

lemma payable_owed:
  "map (\<lambda>m. pp_id (pm_participant m)) (payable_participants deal db) = map pp_id (filter (owed_participant deal db) (py_participants db))"
proof -
  have "exclusion_of (participant_money_of db p) = None \<and> pp_deal p = deal \<and> ledger_of_participant (pp_id p) db \<noteq> []
      \<longleftrightarrow> owed_participant deal db p" for p
    by (auto simp: exclusion_of_def participant_money_of_def owed_participant_def Let_def PAYABLE_PARTICIPANT_MONEY_STATES_def
        filter_empty_conv list_ex_iff seller_net_def)
  then show ?thesis
    by (simp add: payable_participants_def participant_rows_def filter_map comp_def conj_comms participant_money_of_def Let_def)
qed

text \<open>C13: A batch that is written pays the seller exactly the seller net the fee ledger holds for the deal,
  split into one item for each participant of the deal whose money was captured, whose ledger has no
  refund and no negative entry and whose net is positive, in the order of the participants and for no
  others, each for the net of that participant's own ledger entries.\<close>

theorem batch_is_the_ledger:
  assumes "prepareBatchForDeal now args db = Inr (PrepareBatched b, db')"
  shows "\<exists>r items. batch_of b db' = Some r \<and> br_status r = PO_Batched \<and> br_deal r = pr_deal args
    \<and> am_payout (br_amounts r) = seller_net (ledger_of_deal (pr_deal args) db)
    \<and> py_items db' = py_items db @ items \<and> br_item_count r = int (length items) \<and> items \<noteq> []
    \<and> sum_list (map im_payout items) = am_payout (br_amounts r)
    \<and> map im_participant items = map pp_id (filter (owed_participant (pr_deal args) db) (py_participants db))
    \<and> list_all (\<lambda>i. im_batch i = b \<and> im_deal i = pr_deal args \<and> 0 < im_payout i
        \<and> im_payout i = seller_net (map fr_amounts (ledger_of_participant (im_participant i) db))
        \<and> \<not> list_ex (\<lambda>e. fr_entry e = RefundAdjustment) (ledger_of_participant (im_participant i) db)
        \<and> list_ex (\<lambda>p. pp_id p = im_participant i \<and> pp_deal p = pr_deal args
             \<and> (pp_money p = M_ChargedSuccess \<or> pp_money p = M_RecoveredCharge)) (py_participants db)) items"
proof -
  from assms obtain calc db1 corr where
      c: "calculateSellerSettlementForDealInTx now (pr_deal args) None db = Some calc"
    and u: "upsertSellerSettlementInTx calc corr db = Inr db1" and rdy: "sc_status calc = PO_Ready"
    and ne: "payable_participants (pr_deal args) db1 \<noteq> []"
    and tot: "sum_list (map pm_net (payable_participants (pr_deal args) db1)) = am_payout (sc_amounts calc)"
    and w: "write_batch now args calc corr (payable_participants (pr_deal args) db1) db1 = Inr (PrepareBatched b, db')"
    by (rule prepare_batchedE)
  let ?pay = "payable_participants (pr_deal args) db1"
  let ?items = "map (item_for b (pr_deal args) (sc_seller calc) corr) ?pay"
  from c have deal: "sc_deal calc = pr_deal args" by (rule calculation_SomeE)
  from c have nb: "sc_blocking_reasons calc = []"
    by (rule calculation_SomeE)
      (use rdy in \<open>auto simp: deriveSettlementStatus_def firstBlockingStatus_def simp del: List.member_iff split: if_splits\<close>)
  from c have amount: "am_payout (sc_amounts calc) = seller_net (ledger_of_deal (pr_deal args) db)"
    by (rule calculation_SomeE) (simp add: amounts_payout nb)
  have b: "b = pr_new_batch args" using write_batch_effect(1) [OF w] by simp
  obtain rows where db1: "db1 = db\<lparr>py_settlements := rows\<rparr>" using upsert_frame [OF u] by blast
  from write_batch_effect(2) [OF w] obtain r where r: "batch_of b db' = Some r" "br_status r = PO_Batched" "br_deal r = sc_deal calc"
      "br_amounts r = add_amounts no_amounts (sc_amounts calc)" "br_item_count r = int (length ?pay)"
    unfolding b by blast
  have items: "py_items db' = py_items db @ ?items" using write_batch_effect(3) [OF w] by (simp add: b db1)
  have "map im_payout ?items = map pm_net ?pay" by (simp add: item_for_def)
  from this tot have total: "sum_list (map im_payout ?items) = am_payout (sc_amounts calc)" by (simp only:)
  have each: "list_all (\<lambda>i. im_batch i = b \<and> im_deal i = pr_deal args \<and> 0 < im_payout i
        \<and> im_payout i = seller_net (map fr_amounts (ledger_of_participant (im_participant i) db))
        \<and> \<not> list_ex (\<lambda>e. fr_entry e = RefundAdjustment) (ledger_of_participant (im_participant i) db)
        \<and> list_ex (\<lambda>p. pp_id p = im_participant i \<and> pp_deal p = pr_deal args
             \<and> (pp_money p = M_ChargedSuccess \<or> pp_money p = M_RecoveredCharge)) (py_participants db)) ?items"
    by (auto simp: list_all_iff list_ex_iff payable_participants_def participant_rows_def participant_money_of_def
        exclusion_of_def item_for_def db1 Let_def ledger_of_participant_def PAYABLE_PARTICIPANT_MONEY_STATES_def
        filter_empty_conv split: if_splits)
  have "map im_participant ?items = map (\<lambda>m. pp_id (pm_participant m)) ?pay" by (simp add: item_for_def)
  moreover have "owed_participant (pr_deal args) db1 = owed_participant (pr_deal args) db" "py_participants db1 = py_participants db"
    by (simp_all add: db1 owed_participant_def ledger_of_participant_def fun_eq_iff)
  ultimately have who: "map im_participant ?items = map pp_id (filter (owed_participant (pr_deal args) db) (py_participants db))"
    using payable_owed [of "pr_deal args" db1] by metis
  show ?thesis
    using r items each total amount deal ne who
    by (intro exI [of _ r] exI [of _ ?items]) (simp add: add_amounts_def no_amounts_def)
qed

text \<open>C39: Recorded payout truth only moves forward: whatever the rail, its operators and the rest of
  the program do, a batch keeps its amount and its status never falls back, and a settlement keeps its status
  rank, never loses refunds or paid money and keeps its amount once it is in a batch.\<close>

theorem payout_truth_moves_forward:
  assumes "rail_step\<^sup>*\<^sup>* s s'" and "batch_of b (ra_db s) = Some r" and "settlement_of d (ra_db s) = Some t"
  shows "(\<exists>r'. batch_of b (ra_db s') = Some r' \<and> canAdvancePayoutStatus (Some (br_status r)) (br_status r')
            \<and> am_payout (br_amounts r') = am_payout (br_amounts r))
    \<and> (\<exists>t'. settlement_of d (ra_db s') = Some t' \<and> canAdvancePayoutStatus (Some (sr_status t)) (sr_status t')
            \<and> am_refunds (sr_amounts t) \<le> am_refunds (sr_amounts t') \<and> am_paid (sr_amounts t) \<le> am_paid (sr_amounts t')
            \<and> (sr_status t \<in> {PO_Pending, PO_Ready} \<or> am_payout (sr_amounts t') = am_payout (sr_amounts t)))"
proof -
  have le: "rail_le (ra_db s) (ra_db s')" using assms(1) by (rule run_rail)
  obtain r' where "batch_of b (ra_db s') = Some r'" "batch_le r r'" using batch_persists [OF le assms(2)] by blast
  moreover obtain t' where "settlement_of d (ra_db s') = Some t'" "settlement_le t t'"
    using settlement_persists [OF le assms(3)] by blast
  moreover have "sr_status t \<in> {PO_Pending, PO_Ready} \<or> 0 < PAYOUT_STATUS_RANK (sr_status t)"
    by (cases "sr_status t") simp_all
  ultimately show ?thesis by (auto simp: batch_le_def batch_same_def settlement_le_def status_le_def)
qed

section \<open>Outcomes of provider calls\<close>

lemma ensure_effect:
  assumes "ensureOpenBlockingCase new db = Inr db'" and "pc_open new"
  shows "list_ex (\<lambda>c. pc_deal c = pc_deal new \<and> pc_type c = pc_type new \<and> pc_open c \<and> pc_batch c = pc_batch new) (py_cases db')"
    and "py_batches db' = py_batches db"
    and "set (py_cases db) \<subseteq> set (py_cases db')"
proof -
  from assms(1) obtain db1 where 1: "(if list_ex (\<lambda>c. pc_deal c = pc_deal new \<and> pc_type c = pc_type new \<and> pc_open c \<and> pc_batch c = pc_batch new)
               (py_cases db) then Inr db else createBlockingReconciliationCase new db) = Inr db1"
    and 2: "update_settlements (\<lambda>r. sr_deal r = pc_deal new)
         (\<lambda>r. r\<lparr>sr_has_case := True, sr_blockers := remdups (sr_blockers r @ [OpenBlockingReconciliationCase])\<rparr>) db1 = Inr db'"
    by (auto simp: ensureOpenBlockingCase_def on_ok_Inr_iff)
  have c: "py_cases db' = py_cases db1" and b: "py_batches db' = py_batches db1"
    using update_settlements_frame [OF 2] by auto
  show "list_ex (\<lambda>c. pc_deal c = pc_deal new \<and> pc_type c = pc_type new \<and> pc_open c \<and> pc_batch c = pc_batch new) (py_cases db')"
    and "py_batches db' = py_batches db" and "set (py_cases db) \<subseteq> set (py_cases db')"
    using 1 assms(2) by (auto simp: c b createBlockingReconciliationCase_def split: if_splits)
qed

lemma last_error_effect:
  assumes "set_last_error b m db = Inr db'" and "batch_of b db = Some r"
  shows "batch_of b db' = Some (r\<lparr>br_last_error := Some m\<rparr>)" and "py_cases db' = py_cases db"
proof -
  let ?f = "\<lambda>r. if br_id r = b then r\<lparr>br_last_error := Some m\<rparr> else r"
  have db': "db' = db\<lparr>py_batches := map ?f (py_batches db)\<rparr>"
    using update_batches_frame [OF assms(1) [unfolded set_last_error_def]] by blast
  then show "py_cases db' = py_cases db" by simp
  have "batch_of b db' = map_option ?f (batch_of b db)" by (simp add: db' batch_of_def find_map_id)
  then show "batch_of b db' = Some (r\<lparr>br_last_error := Some m\<rparr>)" using assms(2) batch_of_id [OF assms(2)] by simp
qed

lemma batch_of_recorded [simp]: "batch_of b (recordAttempt b' k r s c ref db) = batch_of b db"
  by (simp add: batch_of_def recordAttempt_def)

lemma cases_recorded [simp]: "py_cases (recordAttempt b' k r s c ref db) = py_cases db"
  by (simp add: recordAttempt_def)

lemma finish_unknown:
  assumes "dispatch_finish u now b a db = Inr (OutcomeUnknown, db')" and "batch_of b db = Some r"
  shows "dispatch_unknown_open b db'" and "\<exists>r'. batch_of b db' = Some r' \<and> br_status r' = br_status r"
proof -
  let ?c = "payoutDispatchCorrelationId b"
  let ?db1 = "recordAttempt b PT_CreatePayout (an_class a) (an_status a) ?c (an_reference a) db"
  from assms obtain db2 where e: "set_last_error b (CreateOutcomeUnknownMark (an_class a)) ?db1 = Inr db2"
      and o: "openDispatchUnknownCaseInTx r ?c db2 = Inr db'"
    by (auto simp: dispatch_finish_def Let_def on_ok_Inr_iff split: if_splits)
  have id: "br_id r = b" by (rule batch_of_id [OF assms(2)])
  note en = ensure_effect [OF o [unfolded openDispatchUnknownCaseInTx_def], simplified]
  show "dispatch_unknown_open b db'" using en(1) id by (auto simp: dispatch_unknown_open_def list_ex_iff)
  have "batch_of b db2 = Some (r\<lparr>br_last_error := Some (CreateOutcomeUnknownMark (an_class a))\<rparr>)"
    by (rule last_error_effect(1) [OF e]) (simp add: assms(2))
  then show "\<exists>r'. batch_of b db' = Some r' \<and> br_status r' = br_status r" using en(2) by (simp add: batch_of_def)
qed

text \<open>When the answer of the provider is lost, the outcome is on record as unknown: the blocking case
  of the batch is open, a later dispatch looks the payout up instead of asking for it again, and a
  reconciliation is refused for good until the case is resolved.\<close>

theorem unknown_outcome_blocks:
  assumes "dispatch_finish u now b a db = Inr (OutcomeUnknown, db')" and "batch_of b db = Some r"
    and "br_status r = PO_Processing"
  shows "dispatch_unknown_open b db' \<and> dispatch_begin now' b db' = Inr (DispatchLookup, db')
    \<and> reconcile_begin now' b db' = Inl (PayoutPermanentFail ''payout_reconcile_blocked_dispatch_outcome_unknown'')"
proof -
  obtain r' where "batch_of b db' = Some r'" "br_status r' = PO_Processing"
    using finish_unknown(2) [OF assms(1,2)] assms(3) by auto
  then show ?thesis using finish_unknown(1) [OF assms(1,2)] by (simp add: dispatch_begin_def reconcile_begin_def)
qed

text \<open>C40: The transaction that records the answer of \<open>createPayout\<close> does not look at the status of the batch.
  When a lookup has meanwhile confirmed the payout as paid and the answer is then lost, it opens the case
  of an unknown outcome on a paid batch. If no other dispatch of the batch is under way and no reconciliation
  of it stands between its two transactions at that moment, then nothing the rail or an operator does ever
  closes the case: the batch stays paid and is never reconciled.
\<close>

theorem late_unknown_strands_paid_batch:
  assumes "dispatch_finish u now b a (ra_db s) = Inr (OutcomeUnknown, db')"
    and "batch_of b (ra_db s) = Some r" and "br_status r = PO_Paid"
    and "b \<notin> set (remove1 b (ra_inflight s))" and "b \<notin> fst ` set (ra_reconciling s)"
    and "rail_step\<^sup>*\<^sup>* (s\<lparr>ra_db := db', ra_inflight := remove1 b (ra_inflight s)\<rparr>) s'"
  shows "dispatch_unknown_open b (ra_db s') \<and> (\<exists>r'. batch_of b (ra_db s') = Some r' \<and> br_status r' = PO_Paid)"
proof -
  obtain r' where "batch_of b db' = Some r'" "br_status r' = PO_Paid"
    using finish_unknown(2) [OF assms(1,2)] assms(3) by auto
  then have "stranded b (s\<lparr>ra_db := db', ra_inflight := remove1 b (ra_inflight s)\<rparr>)"
    using finish_unknown(1) [OF assms(1,2)] assms(4,5) by (simp add: stranded_def)
  from stranded_run [OF assms(6) this] show ?thesis by (simp add: stranded_def)
qed

section \<open>Verdict of a reconciliation\<close>

text \<open>A reconciliation that the provider answered marks the batch reconciled exactly when the
  provider reports a match and the seller net of the ledger is the amount of the batch, before and after the
  call. Otherwise a blocking case is open for the deal; a batch under way becomes failed, a paid one stays
  paid.\<close>

theorem reconcile_verdict:
  assumes "reconcile_finish now corr b observed a db = Inr (x, db')" and "batch_of b db = Some r"
    and "br_status r = PO_Processing \<or> br_status r = PO_Paid" and "an_class a = PX_Success"
  defines "agrees \<equiv> an_matched a \<and> seller_net (ledger_of_deal (br_deal r) db) = am_payout (br_amounts r)
      \<and> observed = am_payout (br_amounts r)"
  shows "\<exists>r'. batch_of b db' = Some r'
    \<and> x = (if agrees then ReconcileMatched else ReconcileMismatched)
    \<and> br_status r' = (if agrees then PO_Reconciled else if br_status r = PO_Paid then PO_Paid else PO_Failed)
    \<and> (agrees \<or> list_ex (\<lambda>c. pc_deal c = br_deal r \<and> pc_batch c = Some b \<and> pc_open c
         \<and> (pc_type c = CaseRefundAfterDispatch \<or> pc_type c = CaseAmountMismatch)) (py_cases db'))"
proof -
  from assms(1,2) obtain fresh db1 where f: "calculateSellerSettlementForDealInTx now (br_deal r) (Some b) db = Some fresh"
    and u: "upsertSellerSettlementInTx fresh corr db = Inr db1"
    by (auto simp: reconcile_finish_def on_ok_Inr_iff split: option.splits)
  let ?db2 = "recordAttempt b PT_ReconcilePayout (an_class a) (an_status a) corr (an_reference a) db1"
  have net: "am_net (sc_amounts fresh) = seller_net (ledger_of_deal (br_deal r) db)"
    using f by (rule calculation_SomeE) (simp add: amounts_net)
  have id: "br_id r = b" by (rule batch_of_id [OF assms(2)])
  obtain rows where "db1 = db\<lparr>py_settlements := rows\<rparr>" using upsert_frame [OF u] by blast
  then have "py_batches db1 = py_batches db" by simp
  then have b2: "batch_of b ?db2 = Some r" using assms(2) by (simp add: batch_of_def [of b db1] batch_of_def [of b db])
  have agrees_iff: "agrees \<longleftrightarrow> an_matched a \<and> am_net (sc_amounts fresh) = am_payout (br_amounts r)
      \<and> am_net (sc_amounts fresh) = observed"
    by (auto simp: agrees_def net)
  have finish: "reconcile_finish now corr b observed a db
      = (if agrees then reconcile_matched now a r ?db2 else reconcile_mismatched now corr a r fresh ?db2)"
    unfolding agrees_iff using assms(3)
    by (elim disjE) (simp_all add: reconcile_finish_def assms(2,4) f u Let_def)
  note res = assms(1) [unfolded finish]
  show ?thesis
  proof (cases agrees)
    case True
    with res obtain d1 where x: "x = ReconcileMatched"
      and 1: "advanceBatchTreeInTx b PO_Reconciled (matched_batch now a) (\<lambda>r. r) paid_settlement ?db2 = Inr d1"
      and 2: "refreshSettlementCaseFlagInTx (br_deal r)
              (d1\<lparr>py_cases := map (\<lambda>c. if pc_batch c = Some b \<and> pc_open c \<and> pc_type c \<noteq> CaseDispatchOutcomeUnknown
                                       then c\<lparr>pc_open := False\<rparr> else c) (py_cases d1)\<rparr>) = Inr db'"
      by (auto simp: reconcile_matched_def on_ok_Inr_iff id)
    have "br_id (matched_batch now a r) = br_id r" for r by (simp add: matched_batch_def)
    from advance_effect(1) [OF 1 b2 this]
    have "batch_of b d1 = Some ((matched_batch now a r)\<lparr>br_status := PO_Reconciled\<rparr>)"
      using assms(3) by (elim disjE) (simp_all add: status_le_iff)
    moreover have "py_batches db' = py_batches d1"
      using update_settlements_frame [OF 2 [unfolded refreshSettlementCaseFlagInTx_def Let_def]] by auto
    ultimately show ?thesis using True x by (simp add: batch_of_def)
  next
    case False
    with res obtain d1 d2 d3 new where x: "x = ReconcileMismatched"
      and 1: "advanceBatchTreeInTx b PO_Failed (\<lambda>r. r\<lparr>br_reconciled_at := Some now\<rparr>) (\<lambda>r. r) (\<lambda>r. r) ?db2 = Inr d1"
      and 2: "set_last_error b ReconciliationMismatchMark d1 = Inr d2"
      and 3: "update_settlements (\<lambda>r. sr_batch r = Some b) mismatched_settlement d2 = Inr d3"
      and 4: "ensureOpenBlockingCase new d3 = Inr db'"
      and new: "pc_open new" "pc_deal new = br_deal r" "pc_batch new = Some b"
        "pc_type new = CaseRefundAfterDispatch \<or> pc_type new = CaseAmountMismatch"
      by (auto simp: reconcile_mismatched_def on_ok_Inr_iff id)
    let ?s = "if br_status r = PO_Paid then PO_Paid else PO_Failed"
    obtain r1 where r1: "batch_of b d1 = Some r1" "br_status r1 = ?s"
      using advance_effect(1) [OF 1 b2] assms(3) by (elim disjE) (simp_all add: status_le_iff)
    obtain r2 where r2: "batch_of b d2 = Some r2" "br_status r2 = ?s"
      using last_error_effect(1) [OF 2 r1(1)] r1(2) by simp
    have "py_batches db' = py_batches d2"
      using update_settlements_frame [OF 3] ensure_effect(2) [OF 4 new(1)] by auto
    then have "batch_of b db' = Some r2" using r2(1) by (simp add: batch_of_def)
    then show ?thesis using ensure_effect(1) [OF 4 new(1)] False x r2(2) new
      by (auto simp: list_ex_iff)
  qed
qed

section \<open>A repeated preparation\<close>

text \<open>The settlement of a deal whose payout is paid or reconciled and whose net in the ledger is still positive
  cannot be recomputed by \<open>prepareBatchForDeal\<close>: the proposed row has a paid amount above its payout amount
  of zero, and the check on the proposed row raises before the existing row is found. A redelivered job
  fails instead of answering with the status it finds.
\<close>

theorem paid_deal_prepare_throws:
  assumes "py_deals db (pr_deal args) = Some d" and "py_accounts db (pl_seller d) = Some account"
    and "0 < seller_net (ledger_of_deal (pr_deal args) db)"
    and "list_ex (\<lambda>i. im_deal i = pr_deal args \<and> (im_status i = PO_Paid \<or> im_status i = PO_Reconciled)) (py_items db)"
  shows "prepareBatchForDeal now args db = Inl (PayoutCheckViolation ''seller_settlements_paid_le_payout'')"
proof -
  let ?l = "ledger_of_deal (pr_deal args) db" and ?e = "existing_payout_statuses (pr_deal args) None db"
  from assms(4) obtain i where "i \<in> set (py_items db)" "im_deal i = pr_deal args" "im_status i = PO_Paid \<or> im_status i = PO_Reconciled"
    by (auto simp: list_ex_iff)
  then have paid: "PO_Paid \<in> set ?e \<or> PO_Reconciled \<in> set ?e"
    by (force simp: existing_payout_statuses_def)
  obtain calc where c: "calculateSellerSettlementForDealInTx now (pr_deal args) None db = Some calc"
    using assms(1,2) by (simp add: calculateSellerSettlementForDealInTx_def Let_def)
  from c have nb: "sc_blocking_reasons calc \<noteq> []"
    by (rule calculation_SomeE) (use paid in \<open>auto simp: no_blocking_reasons list_ex_iff\<close>)
  have "0 \<le> gross_collected ?l" and "0 \<le> refunds_total ?l"
    by (auto simp: gross_collected_def refunds_total_def intro!: sum_list_nonneg)
  moreover from c have "sc_amounts calc = settlement_amounts_of ?l ?e (sc_blocking_reasons calc)"
    by (rule calculation_SomeE)
  ultimately have "settlement_check (proposed_settlement calc corr) = Some (PayoutCheckViolation ''seller_settlements_paid_le_payout'')" for corr
    using assms(3) paid nb by (auto simp: settlement_check_def proposed_settlement_def settlement_amounts_of_def Let_def)
  then show ?thesis by (simp add: prepareBatchForDeal_def Let_def c upsertSellerSettlementInTx_def)
qed

section \<open>The code and the trigger\<close>

text \<open>The rule the code moves statuses by is the rule the database enforces, and the statement
  that advances a batch with its items and settlements never runs into the trigger.\<close>

theorem payout_guards_agree:
  "(canAdvancePayoutStatus (Some s) t \<longleftrightarrow> \<not> payout_status_regression s t)
   \<and> advanceBatchTreeInTx b t fb fi fs db \<noteq> Inl PayoutStatusRegression"
proof -
  have rows: "update_where P f guard rows \<noteq> Inl e" if "\<And>r. P r \<Longrightarrow> guard r (f r) \<noteq> Some e" for P f guard rows and e :: payout_error
    using that
  proof (induction rows)
    case (Cons r rows)
    then show ?case by (cases "update_where P f guard rows") (auto split: option.splits)
  qed simp
  have checks: "batch_check q \<noteq> Some PayoutStatusRegression" "item_check i \<noteq> Some PayoutStatusRegression"
      "settlement_check r \<noteq> Some PayoutStatusRegression" for q i r
    by (simp_all add: batch_check_def item_check_def settlement_check_def Let_def)
  have reg: "payout_status_regression x y \<longleftrightarrow> \<not> status_le x y" for x y using no_regression by blast
  have "update_batches (\<lambda>r. br_id r = b \<and> List.member (payoutStatusesAdvanceableTo t) (br_status r))
          (\<lambda>r. (fb r)\<lparr>br_status := t\<rparr>) db \<noteq> Inl PayoutStatusRegression" for db
  proof -
    have "update_where (\<lambda>r. br_id r = b \<and> List.member (payoutStatusesAdvanceableTo t) (br_status r)) (\<lambda>r. (fb r)\<lparr>br_status := t\<rparr>) batch_guard
        (py_batches db) \<noteq> Inl PayoutStatusRegression"
      by (rule rows) (simp add: batch_guard_def reg checks)
    then show ?thesis by (auto simp: update_batches_def on_ok_def split: sum.splits)
  qed
  moreover have "update_items (\<lambda>r. im_batch r = b \<and> List.member (payoutStatusesAdvanceableTo t) (im_status r))
          (\<lambda>r. (fi r)\<lparr>im_status := t\<rparr>) db \<noteq> Inl PayoutStatusRegression" for db
  proof -
    have "update_where (\<lambda>r. im_batch r = b \<and> List.member (payoutStatusesAdvanceableTo t) (im_status r)) (\<lambda>r. (fi r)\<lparr>im_status := t\<rparr>) item_guard
        (py_items db) \<noteq> Inl PayoutStatusRegression"
      by (rule rows) (simp add: item_guard_def reg checks)
    then show ?thesis by (auto simp: update_items_def on_ok_def split: sum.splits)
  qed
  moreover have "update_settlements (\<lambda>r. sr_batch r = Some b \<and> List.member (payoutStatusesAdvanceableTo t) (sr_status r))
          (\<lambda>r. (fs r)\<lparr>sr_status := t\<rparr>) db \<noteq> Inl PayoutStatusRegression" for db
  proof -
    have "update_where (\<lambda>r. sr_batch r = Some b \<and> List.member (payoutStatusesAdvanceableTo t) (sr_status r)) (\<lambda>r. (fs r)\<lparr>sr_status := t\<rparr>) settlement_guard
        (py_settlements db) \<noteq> Inl PayoutStatusRegression"
      by (rule rows) (simp add: settlement_guard_def reg checks)
    then show ?thesis by (auto simp: update_settlements_def on_ok_def split: sum.splits)
  qed
  ultimately have "advanceBatchTreeInTx b t fb fi fs db \<noteq> Inl PayoutStatusRegression"
    by (auto simp: advanceBatchTreeInTx_def Let_def on_ok_def split: sum.splits)
  then show ?thesis using no_regression by (simp add: status_le_def)
qed

section \<open>A deal with one captured participant\<close>

definition sample_entry :: fee_row where
  "sample_entry =
     \<lparr>fr_participant = ''p1'', fr_deal = ''d1'', fr_seller = ''s1'', fr_event_type = ChargeCaptured, fr_entry = ChargeEntry,
      fr_provider = ''grow'', fr_provider_event = Some ''e1'', fr_reference = None, fr_correlation = None,
      fr_source_money_state = ''ChargedSuccess'', fr_settlement_status = Recorded, fr_readiness = ReadyForSettlement,
      fr_amounts = \<lparr>fa_gross = 10000, fa_vat = 0, fa_fee_base = 10000, fa_rate = 800, fa_vat_rate = 1800,
                    fa_platform_fee_base = 800, fa_platform_fee_vat = 144, fa_platform_fee_total = 944,
                    fa_platform_fee = 944, fa_seller_net = 9056\<rparr>\<rparr>"

definition sample_rail_db :: payout_db where
  "sample_rail_db =
     \<lparr>py_deals = (\<lambda>d. if d = ''d1'' then Some \<lparr>pl_seller = ''s1'', pl_state = D_Completed\<rparr> else None),
      py_accounts = (\<lambda>s. if s = ''s1'' then Some AccountActive else None), py_flags = [],
      py_participants = [\<lparr>pp_id = ''p1'', pp_deal = ''d1'', pp_buyer = B_DealCompleted, pp_money = M_ChargedSuccess\<rparr>],
      py_ledger = [sample_entry], py_settlements = [], py_batches = [], py_items = [], py_attempts = [], py_cases = [],
      py_outbox = \<lparr>odb_events = [], odb_dlq = [], odb_audit = []\<rparr>\<rparr>"

definition sample_prepare :: prepare_args where
  "sample_prepare = \<lparr>pr_deal = ''d1'', pr_correlation = None, pr_provider = ''internal'', pr_new_batch = ''b1'', pr_new_event = ''o1''\<rparr>"

text \<open>The database after a step that succeeds.\<close>

definition after :: "payout_error + 'a \<times> payout_db \<Rightarrow> payout_db" where
  "after r = (case r of Inr (_, db) \<Rightarrow> db | Inl _ \<Rightarrow> sample_rail_db)"

definition gives :: "payout_error + 'a \<times> payout_db \<Rightarrow> 'a \<Rightarrow> bool" where
  "gives r x \<longleftrightarrow> (case r of Inr (y, _) \<Rightarrow> y = x | Inl _ \<Rightarrow> False)"

lemma gives_after: "gives r x \<Longrightarrow> r = Inr (x, after r)"
  by (auto simp: gives_def after_def split: sum.splits prod.splits)

definition batched_db :: payout_db where
  "batched_db = after (prepareBatchForDeal 5 sample_prepare sample_rail_db)"

lemma batched_ok: "prepareBatchForDeal 5 sample_prepare sample_rail_db = Inr (PrepareBatched ''b1'', batched_db)"
  unfolding batched_db_def by (rule gives_after) code_simp

definition sample_batch :: batch_row where
  "sample_batch =
     \<lparr>br_id = ''b1'', br_deal = ''d1'', br_seller = ''s1'', br_status = PO_Processing, br_provider = ''internal'', br_reference = None,
      br_correlation = ''seller-payout-create:b1'', br_settlement_count = 1, br_item_count = 1,
      br_amounts = \<lparr>am_gross = 10000, am_fee = 944, am_refunds = 0, am_reserve = 0, am_net = 9056, am_payout = 9056, am_paid = 0,
                     am_failed = 0, am_returned = 0, am_blocked = 0, am_delayed = 0\<rparr>,
      br_blockers = [], br_executed = False, br_created_payout_at = None, br_paid_at = None, br_reconciled_at = None,
      br_last_error = None\<rparr>"

definition processing_db :: payout_db where
  "processing_db = after (dispatch_begin 6 ''b1'' batched_db)"

lemma processing_ok: "dispatch_begin 6 ''b1'' batched_db = Inr (DispatchCreate sample_batch, processing_db)"
  unfolding processing_db_def by (rule gives_after) code_simp

definition paid_answer :: payout_answer where
  "paid_answer = \<lparr>an_class = PX_Success, an_status = Some PO_Paid, an_reference = Some ''ref-1'', an_executed = True\<rparr>"

definition paid_db :: payout_db where
  "paid_db = after (lookup_finish ''o2'' 7 ''b1'' paid_answer processing_db)"

lemma paid_ok: "lookup_finish ''o2'' 7 ''b1'' paid_answer processing_db = Inr (LookupAccepted, paid_db)"
  unfolding paid_db_def by (rule gives_after) code_simp

definition stranded_db :: payout_db where
  "stranded_db = after (dispatch_finish ''o3'' 8 ''b1'' unknownProviderResult paid_db)"

lemma stranded_ok: "dispatch_finish ''o3'' 8 ''b1'' unknownProviderResult paid_db = Inr (OutcomeUnknown, stranded_db)"
  unfolding stranded_db_def by (rule gives_after) code_simp

definition lost_db :: payout_db where
  "lost_db = after (dispatch_finish ''o3'' 8 ''b1'' unknownProviderResult processing_db)"

lemma lost_ok: "dispatch_finish ''o3'' 8 ''b1'' unknownProviderResult processing_db = Inr (OutcomeUnknown, lost_db)"
  unfolding lost_db_def by (rule gives_after) code_simp

definition matched_answer :: reconcile_answer where
  "matched_answer = \<lparr>an_class = PX_Success, an_status = Some PO_Reconciled, an_reference = Some ''ref-1'', an_executed = True,
                     an_matched = True, an_observed_items = 1\<rparr>"

definition reconciled_db :: payout_db where
  "reconciled_db = after (reconcile_finish 9 ''c'' ''b1'' 9056 matched_answer paid_db)"

lemma reconciled_ok: "reconcile_finish 9 ''c'' ''b1'' 9056 matched_answer paid_db = Inr (ReconcileMatched, reconciled_db)"
  unfolding reconciled_db_def by (rule gives_after) code_simp

section \<open>Witnesses\<close>

definition sample_rail :: rail where
  "sample_rail = \<lparr>ra_db = batched_db, ra_inflight = [], ra_created = [], ra_reconciling = []\<rparr>"

definition dispatched_rail :: rail where
  "dispatched_rail = \<lparr>ra_db = processing_db, ra_inflight = [''b1''], ra_created = [sample_batch], ra_reconciling = []\<rparr>"

definition paid_rail :: rail where
  "paid_rail = \<lparr>ra_db = paid_db, ra_inflight = [''b1''], ra_created = [sample_batch], ra_reconciling = []\<rparr>"

lemma sample_dispatch: "rail_step sample_rail dispatched_rail"
  using rail_step.dispatch [of 6 "''b1''" sample_rail, simplified sample_rail_def rail.simps, OF processing_ok]
  by (simp add: sample_rail_def dispatched_rail_def sample_batch_def)

lemma sample_paid: "rail_step dispatched_rail paid_rail"
  using rail_step.lookup [of "''o2''" 7 "''b1''" paid_answer dispatched_rail, simplified dispatched_rail_def rail.simps, OF paid_ok]
  by (simp add: dispatched_rail_def paid_rail_def)

lemma sample_rail_run: "rail_step\<^sup>*\<^sup>* sample_rail paid_rail"
  using sample_dispatch sample_paid by (meson converse_rtranclp_into_rtranclp r_into_rtranclp)

lemma payout_sent_once_witness:
  "rail_step\<^sup>*\<^sup>* sample_rail paid_rail \<and> ra_created paid_rail = [sample_batch] \<and> distinct (map br_deal (ra_created paid_rail))"
proof -
  have "keys_ok batched_db" by code_simp
  then show ?thesis using payout_sent_once [OF sample_rail_run] sample_rail_run
    by (simp add: sample_rail_def paid_rail_def)
qed

lemma payout_request_is_current_truth_witness:
  "dispatch_begin 6 ''b1'' batched_db = Inr (DispatchCreate sample_batch, processing_db)
   \<and> 9056 = seller_net (ledger_of_deal ''d1'' batched_db) \<and> batch_of ''b1'' processing_db = Some sample_batch"
  using payout_request_is_current_truth [OF processing_ok] processing_ok by (simp add: sample_batch_def)

lemma batch_is_the_ledger_witness:
  "\<exists>r. batch_of ''b1'' batched_db = Some r \<and> am_payout (br_amounts r) = seller_net (ledger_of_deal ''d1'' sample_rail_db)
     \<and> seller_net (ledger_of_deal ''d1'' sample_rail_db) = 9056"
proof -
  have "seller_net (ledger_of_deal ''d1'' sample_rail_db) = 9056" by code_simp
  then show ?thesis using batch_is_the_ledger [OF batched_ok] by (auto simp: sample_prepare_def)
qed

lemma payout_truth_moves_forward_witness:
  "\<exists>r r'. batch_of ''b1'' batched_db = Some r \<and> br_status r = PO_Batched \<and> batch_of ''b1'' paid_db = Some r'
     \<and> canAdvancePayoutStatus (Some PO_Batched) (br_status r')"
proof -
  have "case batch_of ''b1'' batched_db of Some r \<Rightarrow> br_status r = PO_Batched | None \<Rightarrow> False" by code_simp
  then obtain r where r: "batch_of ''b1'' batched_db = Some r" "br_status r = PO_Batched" by (auto split: option.splits)
  have "case settlement_of ''d1'' batched_db of Some t \<Rightarrow> sr_status t = PO_Batched | None \<Rightarrow> False" by code_simp
  then obtain t where t: "settlement_of ''d1'' batched_db = Some t" by (auto split: option.splits)
  have "batch_of ''b1'' (ra_db sample_rail) = Some r" "settlement_of ''d1'' (ra_db sample_rail) = Some t"
    using r t by (simp_all add: sample_rail_def)
  from payout_truth_moves_forward [OF sample_rail_run this] r show ?thesis by (auto simp: paid_rail_def)
qed

lemma batch_row_of: "(case batch_of b db of Some r \<Rightarrow> P r | None \<Rightarrow> False) \<longleftrightarrow> (\<exists>r. batch_of b db = Some r \<and> P r)"
  by (auto split: option.splits)

lemma unknown_outcome_blocks_witness:
  "dispatch_begin 9 ''b1'' lost_db = Inr (DispatchLookup, lost_db) \<and> dispatch_unknown_open ''b1'' lost_db"
proof -
  have "case batch_of ''b1'' processing_db of Some r \<Rightarrow> br_status r = PO_Processing | None \<Rightarrow> False" by code_simp
  then obtain r where "batch_of ''b1'' processing_db = Some r" "br_status r = PO_Processing" by (auto simp: batch_row_of)
  from unknown_outcome_blocks [OF lost_ok this] show ?thesis by blast
qed

lemma late_unknown_strands_paid_batch_witness:
  "dispatch_finish ''o3'' 8 ''b1'' unknownProviderResult (ra_db paid_rail) = Inr (OutcomeUnknown, stranded_db)
   \<and> dispatch_unknown_open ''b1'' stranded_db"
proof -
  have "case batch_of ''b1'' paid_db of Some r \<Rightarrow> br_status r = PO_Paid | None \<Rightarrow> False" by code_simp
  then obtain r where r: "batch_of ''b1'' (ra_db paid_rail) = Some r" "br_status r = PO_Paid" by (auto simp: batch_row_of paid_rail_def)
  have f: "dispatch_finish ''o3'' 8 ''b1'' unknownProviderResult (ra_db paid_rail) = Inr (OutcomeUnknown, stranded_db)"
    using stranded_ok by (simp add: paid_rail_def)
  from late_unknown_strands_paid_batch [OF f r _ _ rtranclp.rtrancl_refl] f show ?thesis by (simp add: paid_rail_def)
qed

lemma reconcile_verdict_witness: "\<exists>r. batch_of ''b1'' reconciled_db = Some r \<and> br_status r = PO_Reconciled"
proof -
  have "case batch_of ''b1'' paid_db of Some r \<Rightarrow> br_status r = PO_Paid \<and> br_deal r = ''d1'' \<and> am_payout (br_amounts r) = 9056 | None \<Rightarrow> False"
    by code_simp
  then obtain r where r: "batch_of ''b1'' paid_db = Some r" "br_status r = PO_Processing \<or> br_status r = PO_Paid"
      and d: "br_deal r = ''d1''" "am_payout (br_amounts r) = 9056" by (auto simp: batch_row_of)
  have "seller_net (ledger_of_deal ''d1'' paid_db) = 9056" by code_simp
  then show ?thesis using reconcile_verdict [OF reconciled_ok r] d by (simp add: matched_answer_def)
qed

lemma paid_deal_prepare_throws_witness:
  "prepareBatchForDeal 9 sample_prepare paid_db = Inl (PayoutCheckViolation ''seller_settlements_paid_le_payout'')"
proof -
  have a: "py_deals paid_db (pr_deal sample_prepare) = Some \<lparr>pl_seller = ''s1'', pl_state = D_Completed\<rparr>" by code_simp
  have b: "py_accounts paid_db (pl_seller \<lparr>pl_seller = ''s1'', pl_state = D_Completed\<rparr>) = Some AccountActive" by code_simp
  have c: "0 < seller_net (ledger_of_deal (pr_deal sample_prepare) paid_db)" by code_simp
  have d: "list_ex (\<lambda>i. im_deal i = pr_deal sample_prepare \<and> (im_status i = PO_Paid \<or> im_status i = PO_Reconciled)) (py_items paid_db)"
    by code_simp
  show ?thesis by (rule paid_deal_prepare_throws [OF a b c d])
qed

end
