(* ===== verification/OrderCode.thy ===== *)
theory OrderCode
  imports Prelude
begin

text \<open>
  The order code of \<open>src/physical_fulfillment.ts\<close>: how it is drawn, written, put into the address behind
  a QR image and read back from whatever a seller scans or types. A text that comes from outside is the
  list of its UTF-16 code units, so that the white space classes of the regular expressions and the
  percent encoding of addresses are the ones of JavaScript.
\<close>

section \<open>Texts as code units\<close>

type_synonym js_units = "nat list"

definition units_of :: "string \<Rightarrow> js_units" where
  "units_of s = map of_char s"

text \<open>\<open>\s\<close>, which is also what \<open>trim\<close> removes.\<close>

definition ws_unit :: "nat \<Rightarrow> bool" where
  "ws_unit u \<longleftrightarrow> (9 \<le> u \<and> u \<le> 13) \<or> u = 32 \<or> u = 160 \<or> u = 5760 \<or> (8192 \<le> u \<and> u \<le> 8202)
     \<or> u = 8232 \<or> u = 8233 \<or> u = 8239 \<or> u = 8287 \<or> u = 12288 \<or> u = 65279"

definition digit_unit :: "nat \<Rightarrow> bool" where
  "digit_unit u \<longleftrightarrow> 48 \<le> u \<and> u \<le> 57"

text \<open>Comparison under the flag \<open>i\<close>: no other unit folds onto an ASCII letter.\<close>

definition fold_case :: "nat \<Rightarrow> nat" where
  "fold_case u = (if 65 \<le> u \<and> u \<le> 90 then u + 32 else u)"

definition trim_units :: "js_units \<Rightarrow> js_units" where
  "trim_units s = rev (dropWhile ws_unit (rev (dropWhile ws_unit s)))"

section \<open>Percent encoding\<close>

definition unreserved :: "nat \<Rightarrow> bool" where
  "unreserved u \<longleftrightarrow> (48 \<le> u \<and> u \<le> 57) \<or> (65 \<le> u \<and> u \<le> 90) \<or> (97 \<le> u \<and> u \<le> 122)
     \<or> List.member (units_of ''-_.!~*'' @ [39, 40, 41]) u"

definition hex_digit :: "nat \<Rightarrow> nat" where
  "hex_digit n = (if n < 10 then 48 + n else 55 + n)"

definition pct :: "nat \<Rightarrow> js_units" where
  "pct b = [37, hex_digit (b div 16), hex_digit (b mod 16)]"

definition utf8_bytes :: "nat \<Rightarrow> nat list" where
  "utf8_bytes c =
     (if c < 128 then [c]
      else if c < 2048 then [192 + c div 64, 128 + c mod 64]
      else if c < 65536 then [224 + c div 4096, 128 + c div 64 mod 64, 128 + c mod 64]
      else [240 + c div 262144, 128 + c div 4096 mod 64, 128 + c div 64 mod 64, 128 + c mod 64])"

text \<open>\<open>encodeURIComponent\<close>: \<open>None\<close> is the error on a lone surrogate.\<close>

fun encodeURIComponent :: "js_units \<Rightarrow> js_units option" where
  "encodeURIComponent [] = Some []"
| "encodeURIComponent (u # s) =
     (if unreserved u then map_option ((#) u) (encodeURIComponent s)
      else if 56320 \<le> u \<and> u \<le> 57343 then None
      else if 55296 \<le> u \<and> u \<le> 56319
      then (case s of
              v # s' \<Rightarrow>
                if 56320 \<le> v \<and> v \<le> 57343
                then map_option ((@) (concat (map pct (utf8_bytes (65536 + (u - 55296) * 1024 + (v - 56320))))))
                       (encodeURIComponent s')
                else None
            | [] \<Rightarrow> None)
      else map_option ((@) (concat (map pct (utf8_bytes u)))) (encodeURIComponent s))"

definition hex_value :: "nat \<Rightarrow> nat option" where
  "hex_value u =
     (if 48 \<le> u \<and> u \<le> 57 then Some (u - 48)
      else if 65 \<le> u \<and> u \<le> 70 then Some (u - 55)
      else if 97 \<le> u \<and> u \<le> 102 then Some (u - 87) else None)"

datatype uri_piece = Plain nat | Octet nat

fun uri_pieces :: "js_units \<Rightarrow> uri_piece list option" where
  "uri_pieces [] = Some []"
| "uri_pieces (u # s) =
     (if u \<noteq> 37 then map_option ((#) (Plain u)) (uri_pieces s)
      else (case s of
              h # l # s' \<Rightarrow>
                (case (hex_value h, hex_value l) of
                   (Some a, Some b) \<Rightarrow> map_option ((#) (Octet (16 * a + b))) (uri_pieces s')
                 | _ \<Rightarrow> None)
            | _ \<Rightarrow> None))"

definition continuation :: "nat \<Rightarrow> bool" where
  "continuation b \<longleftrightarrow> 128 \<le> b \<and> b \<le> 191"

definition utf16 :: "nat \<Rightarrow> js_units" where
  "utf16 c = (if c < 65536 then [c] else [55296 + (c - 65536) div 1024, 56320 + (c - 65536) mod 1024])"

text \<open>Well-formed UTF-8 only: no overlong form, no surrogate, nothing beyond 10FFFF.\<close>

fun utf8_decode :: "uri_piece list \<Rightarrow> js_units option" where
  "utf8_decode [] = Some []"
| "utf8_decode (Plain u # r) = map_option ((#) u) (utf8_decode r)"
| "utf8_decode (Octet b # r) =
     (if b < 128 then map_option ((#) b) (utf8_decode r)
      else case r of
          Octet x # r1 \<Rightarrow>
            if \<not> continuation x then None
            else if 194 \<le> b \<and> b \<le> 223
            then map_option ((@) (utf16 ((b - 192) * 64 + (x - 128)))) (utf8_decode r1)
            else (case r1 of
                Octet y # r2 \<Rightarrow>
                  if \<not> continuation y then None
                  else if 224 \<le> b \<and> b \<le> 239
                  then (let c = (b - 224) * 4096 + (x - 128) * 64 + (y - 128)
                        in if c < 2048 \<or> (55296 \<le> c \<and> c \<le> 57343) then None
                           else map_option ((@) (utf16 c)) (utf8_decode r2))
                  else (case r2 of
                      Octet z # r3 \<Rightarrow>
                        if \<not> continuation z \<or> \<not> (240 \<le> b \<and> b \<le> 244) then None
                        else (let c = (b - 240) * 262144 + (x - 128) * 4096 + (y - 128) * 64 + (z - 128)
                              in if c < 65536 \<or> 1114111 < c then None
                                 else map_option ((@) (utf16 c)) (utf8_decode r3))
                    | _ \<Rightarrow> None)
              | _ \<Rightarrow> None)
        | _ \<Rightarrow> None)"

definition decodeURIComponent :: "js_units \<Rightarrow> js_units option" where
  "decodeURIComponent s = Option.bind (uri_pieces s) utf8_decode"

section \<open>Drawing and writing a code\<close>

definition ORDER_CODE_DIGITS :: nat where "ORDER_CODE_DIGITS = 8"

definition ORDER_CODE_PREFIX :: js_units where "ORDER_CODE_PREFIX = units_of ''CT''"

text \<open>
  The loop of \<open>generateOrderCodeDigits\<close> on the bytes the generator delivers; \<open>None\<close> when they run out
  before eight were accepted.
\<close>

fun draw_digits :: "nat list \<Rightarrow> js_units \<Rightarrow> js_units option" where
  "draw_digits [] out = (if ORDER_CODE_DIGITS \<le> length out then Some out else None)"
| "draw_digits (b # rest) out =
     (if ORDER_CODE_DIGITS \<le> length out then Some out
      else draw_digits rest (if b < 250 then out @ [48 + b mod 10] else out))"

definition generateOrderCodeDigits :: "nat list \<Rightarrow> js_units option" where
  "generateOrderCodeDigits bytes = draw_digits bytes []"

definition formatOrderCode :: "js_units \<Rightarrow> js_units" where
  "formatOrderCode digits =
     (let d = filter digit_unit digits
      in if length d \<noteq> ORDER_CODE_DIGITS then []
         else ORDER_CODE_PREFIX @ [45] @ take 4 d @ [45] @ drop 4 d)"

definition orderCodeLast4 :: "js_units \<Rightarrow> js_units" where
  "orderCodeLast4 digits = drop (length digits - 4) digits"

definition pickupQrPayload :: "js_units \<Rightarrow> js_units \<Rightarrow> js_units option" where
  "pickupQrPayload publicOrigin code =
     (let origin = rev (dropWhile (\<lambda>u. u = 47) (rev publicOrigin))
      in map_option (\<lambda>c. origin @ units_of ''/preview/#/seller/pickup?code='' @ c) (encodeURIComponent code))"

section \<open>Reading a code\<close>

text \<open>The first match of \<open>/[?&]code=([^&#\s]+)/i\<close>, its group.\<close>

definition value_unit :: "nat \<Rightarrow> bool" where
  "value_unit u \<longleftrightarrow> u \<noteq> 38 \<and> u \<noteq> 35 \<and> \<not> ws_unit u"

fun code_parameter :: "js_units \<Rightarrow> js_units option" where
  "code_parameter [] = None"
| "code_parameter (u # s) =
     (let v = takeWhile value_unit (drop 5 s)
      in if (u = 63 \<or> u = 38) \<and> map fold_case (take 5 s) = units_of ''code='' \<and> v \<noteq> [] then Some v
         else code_parameter s)"

text \<open>\<open>/^\s*ct[\s-]*/i\<close> removed.\<close>

definition strip_prefix :: "js_units \<Rightarrow> js_units" where
  "strip_prefix text =
     (let s = dropWhile ws_unit text
      in if map fold_case (take 2 s) = units_of ''ct'' then dropWhile (\<lambda>u. ws_unit u \<or> u = 45) (drop 2 s)
         else text)"

definition eight_digits :: "js_units \<Rightarrow> bool" where
  "eight_digits s \<longleftrightarrow> length s = 8 \<and> list_all digit_unit s"

definition normalizeOrderCodeInput :: "js_units option \<Rightarrow> js_units option" where
  "normalizeOrderCodeInput input =
     (let text = trim_units (case input of None \<Rightarrow> [] | Some s \<Rightarrow> s)
      in if text = [] \<or> 512 < length text then None
         else case (case code_parameter text of None \<Rightarrow> Some text | Some v \<Rightarrow> decodeURIComponent v) of
             None \<Rightarrow> None
           | Some text' \<Rightarrow>
               (let stripped = filter (\<lambda>u. \<not> (ws_unit u \<or> u = 45)) (strip_prefix text')
                in if eight_digits stripped then Some stripped else None))"

section \<open>Lemmas\<close>

lemmas literal_units = units_of_def

lemma digit_unit_facts:
  assumes "digit_unit u"
  shows "\<not> ws_unit u" and "u \<noteq> 45" and "u \<noteq> 37" and "u \<noteq> 38" and "u \<noteq> 35" and "u \<noteq> 63" and "unreserved u"
    and "fold_case u = u"
  using assms by (auto simp: digit_unit_def ws_unit_def unreserved_def fold_case_def)

lemma trim_id:
  assumes "s \<noteq> []" and "\<not> ws_unit (hd s)" and "\<not> ws_unit (last s)"
  shows "trim_units s = s"
proof -
  have "dropWhile ws_unit s = s" using assms(1,2) by (cases s) auto
  moreover have "dropWhile ws_unit (rev s) = rev s" using assms(1,3) by (cases s rule: rev_cases) auto
  ultimately show ?thesis by (simp add: trim_units_def)
qed

lemma trim_units_suffix:
  assumes "s \<noteq> []" and "\<not> ws_unit (last s)"
  shows "trim_units s = dropWhile ws_unit s"
proof -
  have "dropWhile ws_unit s \<noteq> []" using assms by (metis dropWhile_eq_Nil_conv last_in_set)
  moreover have "last (dropWhile ws_unit s) = last s"
    using assms by (metis calculation last_appendR takeWhile_dropWhile_id)
  ultimately have "dropWhile ws_unit (rev (dropWhile ws_unit s)) = rev (dropWhile ws_unit s)"
    using assms(2) by (cases "dropWhile ws_unit s" rule: rev_cases) auto
  then show ?thesis by (simp add: trim_units_def)
qed

lemma eight_digitsE:
  assumes "eight_digits d"
  obtains a b c e f g h i where "d = [a, b, c, e, f, g, h, i]"
    and "digit_unit a" "digit_unit b" "digit_unit c" "digit_unit e" "digit_unit f" "digit_unit g" "digit_unit h" "digit_unit i"
proof -
  have len: "length d = Suc (Suc (Suc (Suc (Suc (Suc (Suc (Suc 0)))))))" using assms by (simp add: eight_digits_def)
  then show thesis using assms that
    by (auto simp: eight_digits_def length_Suc_conv)
qed

lemma formatOrderCode_digits:
  assumes "eight_digits d"
  shows "formatOrderCode d = [67, 84, 45] @ take 4 d @ [45] @ drop 4 d"
proof -
  have "filter digit_unit d = d" using assms by (simp add: eight_digits_def list_all_iff)
  then show ?thesis
    using assms by (simp add: formatOrderCode_def eight_digits_def ORDER_CODE_DIGITS_def ORDER_CODE_PREFIX_def units_of_def)
qed

lemma encode_unreserved: "list_all unreserved s \<Longrightarrow> encodeURIComponent s = Some s"
  by (induction s) auto

lemma decode_plain:
  assumes "37 \<notin> set s"
  shows "decodeURIComponent s = Some s"
proof -
  have "uri_pieces s = Some (map Plain s)" using assms by (induction s) auto
  moreover have "utf8_decode (map Plain s) = Some s" by (induction s) auto
  ultimately show ?thesis by (simp add: decodeURIComponent_def)
qed

lemma code_parameter_none: "63 \<notin> set s \<Longrightarrow> 38 \<notin> set s \<Longrightarrow> code_parameter s = None"
  by (induction s) (auto simp: Let_def)

lemma code_parameter_prefix: "63 \<notin> set p \<Longrightarrow> 38 \<notin> set p \<Longrightarrow> code_parameter (p @ s) = code_parameter s"
  by (induction p) (auto simp: Let_def)

section \<open>Round trip\<close>

lemma normalize_eight: "normalizeOrderCodeInput x = Some d \<Longrightarrow> eight_digits d"
  by (auto simp: normalizeOrderCodeInput_def Let_def split: if_splits option.splits)

lemma draw_digits_eight:
  "draw_digits bytes out = Some d \<Longrightarrow> list_all digit_unit out \<Longrightarrow> length out \<le> 8 \<Longrightarrow> eight_digits d"
proof (induction bytes out rule: draw_digits.induct)
  case (1 out)
  then show ?case by (auto simp: eight_digits_def ORDER_CODE_DIGITS_def split: if_splits)
next
  case (2 b rest out)
  have "digit_unit (48 + b mod 10)" by (simp add: digit_unit_def)
  with 2 show ?case
    by (cases "8 \<le> length out"; cases "b < 250") (auto simp: eight_digits_def ORDER_CODE_DIGITS_def)
qed

lemma generated_eight: "generateOrderCodeDigits bytes = Some d \<Longrightarrow> eight_digits d"
  using draw_digits_eight [of bytes "[]" d] by (simp add: generateOrderCodeDigits_def)

text \<open>The bytes below 250 fall evenly on the ten digits.\<close>

lemma digits_uniform: "(k::nat) < 10 \<Longrightarrow> card {b. b < 250 \<and> b mod 10 = k} = 25"
proof -
  assume k: "k < 10"
  have "{b. b < 250 \<and> b mod 10 = k} = (\<lambda>i. 10 * i + k) ` {..<25::nat}" (is "?L = ?R")
  proof
    show "?L \<subseteq> ?R"
    proof
      fix b assume "b \<in> ?L"
      then have "b = 10 * (b div 10) + k" and "b div 10 < 25" by auto
      then show "b \<in> ?R" by blast
    qed
    show "?R \<subseteq> ?L" using k by auto
  qed
  moreover have "inj_on (\<lambda>i. 10 * i + k) {..<25::nat}" by (rule inj_onI) simp
  ultimately show ?thesis by (simp add: card_image)
qed

lemma drop_prefix_digits: "digit_unit u \<Longrightarrow> strip_prefix (u # s) = u # s"
  by (auto simp: strip_prefix_def digit_unit_facts digit_unit_def ws_unit_def fold_case_def units_of_def)

text \<open>The three forms a code is shown in, read back.\<close>

lemma normalize_bare:
  assumes "eight_digits d"
  shows "normalizeOrderCodeInput (Some d) = Some d"
  using assms
proof (rule eight_digitsE)
  fix a b c e f g h i
  assume d: "d = [a, b, c, e, f, g, h, i]" and digits: "digit_unit a" "digit_unit b" "digit_unit c" "digit_unit e"
    "digit_unit f" "digit_unit g" "digit_unit h" "digit_unit i"
  have "trim_units d = d" by (rule trim_id) (simp_all add: d digits digit_unit_facts)
  moreover have "code_parameter d = None"
    by (rule code_parameter_none) (use d digits digit_unit_facts in \<open>fastforce+\<close>)
  ultimately show ?thesis using assms
    by (simp add: normalizeOrderCodeInput_def d drop_prefix_digits digits digit_unit_facts)
qed

definition canonical_code :: "js_units \<Rightarrow> js_units" where
  "canonical_code d = [67, 84, 45] @ take 4 d @ [45] @ drop 4 d"

lemma canonical_units:
  assumes "eight_digits d"
  shows "length (canonical_code d) = 12" and "list_all unreserved (canonical_code d)"
    and "list_all value_unit (canonical_code d)" and "37 \<notin> set (canonical_code d)" and "63 \<notin> set (canonical_code d)"
    and "38 \<notin> set (canonical_code d)" and "\<not> ws_unit (last (canonical_code d))"
  by (rule eight_digitsE [OF assms];
      force simp: canonical_code_def value_unit_def digit_unit_facts unreserved_def units_of_def ws_unit_def digit_unit_def)+

lemma normalize_canonical:
  assumes "eight_digits d"
  shows "filter (\<lambda>u. \<not> (ws_unit u \<or> u = 45)) (strip_prefix (canonical_code d)) = d"
  using assms
  by (rule eight_digitsE)
     (simp add: canonical_code_def strip_prefix_def ws_unit_def [of 67] ws_unit_def [of 45] fold_case_def units_of_def
        digit_unit_facts)

lemma normalize_formatted:
  assumes d: "eight_digits d"
  shows "normalizeOrderCodeInput (Some (formatOrderCode d)) = Some d"
proof -
  have format: "formatOrderCode d = canonical_code d" using formatOrderCode_digits [OF d] by (simp add: canonical_code_def)
  have "trim_units (canonical_code d) = canonical_code d"
    by (rule trim_id) (use canonical_units(7) [OF d] in \<open>simp_all add: canonical_code_def ws_unit_def\<close>)
  moreover have "code_parameter (canonical_code d) = None"
    by (rule code_parameter_none) (use canonical_units [OF d] in simp_all)
  ultimately show ?thesis
    using canonical_units(1) [OF d] normalize_canonical [OF d] d
    by (auto simp: normalizeOrderCodeInput_def format Let_def)
qed

definition qr_address :: "js_units \<Rightarrow> js_units \<Rightarrow> js_units" where
  "qr_address origin d = rev (dropWhile (\<lambda>u. u = 47) (rev origin)) @ units_of ''/preview/#/seller/pickup?code='' @ canonical_code d"

lemma pickup_payload:
  assumes "eight_digits d"
  shows "pickupQrPayload origin (formatOrderCode d) = Some (qr_address origin d)"
  using encode_unreserved [OF canonical_units(2) [OF assms]] formatOrderCode_digits [OF assms]
  by (simp add: pickupQrPayload_def qr_address_def canonical_code_def)

lemma takeWhile_all_value: "list_all P s \<Longrightarrow> takeWhile P s = s"
  by (induction s) auto

lemma code_parameter_qr:
  assumes d: "eight_digits d"
  shows "code_parameter (units_of ''?code='' @ canonical_code d) = Some (canonical_code d)"
proof -
  have "canonical_code d \<noteq> []" by (simp add: canonical_code_def)
  then show ?thesis
    by (simp add: takeWhile_all_value [OF canonical_units(3) [OF d]] units_of_def fold_case_def Let_def)
qed

lemma normalize_qr:
  assumes d: "eight_digits d" and origin: "63 \<notin> set origin" "38 \<notin> set origin" "length origin \<le> 450"
  shows "normalizeOrderCodeInput (Some (qr_address origin d)) = Some d"
proof -
  define stem where "stem = rev (dropWhile (\<lambda>u. u = 47) (rev origin)) @ units_of ''/preview/#/seller/pickup''"
  have address: "qr_address origin d = stem @ units_of ''?code='' @ canonical_code d"
    by (simp add: qr_address_def stem_def units_of_def)
  define t where "t = trim_units (qr_address origin d)"
  have text_drop: "t = dropWhile ws_unit (qr_address origin d)"
    unfolding t_def by (rule trim_units_suffix) (use canonical_units [OF d] in \<open>auto simp: qr_address_def canonical_code_def\<close>)
  have stem_has: "35 \<in> set stem" by (simp add: stem_def units_of_def)
  have "\<not> ws_unit 35" by (simp add: ws_unit_def)
  with stem_has have text_eq: "t = dropWhile ws_unit stem @ units_of ''?code='' @ canonical_code d"
    by (simp only: text_drop address) (rule dropWhile_append1 [where x = 35])
  have free: "63 \<notin> set (dropWhile ws_unit stem)" "38 \<notin> set (dropWhile ws_unit stem)"
    using origin by (auto simp: stem_def units_of_def dest!: set_dropWhileD)
  have "length (rev (dropWhile (\<lambda>u. u = 47) (rev origin))) \<le> length origin"
    by (metis length_dropWhile_le length_rev)
  then have "length (qr_address origin d) \<le> 512"
    using origin canonical_units(1) [OF d] by (simp add: qr_address_def units_of_def)
  then have bound: "length t \<le> 512" unfolding text_drop by (meson length_dropWhile_le order_trans)
  have nonempty: "t \<noteq> []" by (simp add: text_eq canonical_code_def)
  have "code_parameter t = Some (canonical_code d)"
    using code_parameter_prefix [OF free] code_parameter_qr [OF d] by (simp add: text_eq)
  with bound nonempty decode_plain [OF canonical_units(4) [OF d]] normalize_canonical [OF d] d show ?thesis
    by (auto simp: normalizeOrderCodeInput_def Let_def simp flip: t_def)
qed

text \<open>C26: An order code survives every way it is shown. The digits a mint drew, or the digits any accepted
  input was read as, are eight decimal digits; written as CT-NNNN-NNNN, typed bare, or scanned as the full
  address behind the QR image of any origin without a query (up to 450 units long), they are read back as
  the same digits.\<close>

theorem order_code_round_trip:
  assumes "generateOrderCodeDigits bytes = Some d \<or> normalizeOrderCodeInput input = Some d"
    and "63 \<notin> set origin" and "38 \<notin> set origin" and "length origin \<le> 450"
  shows "eight_digits d
    \<and> normalizeOrderCodeInput (Some (formatOrderCode d)) = Some d
    \<and> normalizeOrderCodeInput (Some d) = Some d
    \<and> Option.bind (pickupQrPayload origin (formatOrderCode d)) (\<lambda>q. normalizeOrderCodeInput (Some q)) = Some d"
proof -
  have d: "eight_digits d" using assms(1) generated_eight normalize_eight by blast
  then show ?thesis
    using normalize_formatted normalize_bare pickup_payload [OF d] normalize_qr [OF d assms(2-4)] by simp
qed

lemma order_code_round_trip_witness:
  "generateOrderCodeDigits [251, 17, 254, 8, 99, 250, 40, 31, 2, 123, 56] = Some (units_of ''78901236'')
   \<and> normalizeOrderCodeInput (Some (units_of '' ct 7890-1236'')) = Some (units_of ''78901236'')
   \<and> Option.bind (pickupQrPayload (units_of ''https://siton.example//'') (formatOrderCode (units_of ''78901236'')))
        (\<lambda>q. normalizeOrderCodeInput (Some q)) = Some (units_of ''78901236'')"
proof -
  have drawn: "generateOrderCodeDigits [251, 17, 254, 8, 99, 250, 40, 31, 2, 123, 56] = Some (units_of ''78901236'')"
    by (simp add: generateOrderCodeDigits_def ORDER_CODE_DIGITS_def units_of_def)
  moreover have "normalizeOrderCodeInput (Some (units_of '' ct 7890-1236'')) = Some (units_of ''78901236'')"
    by (simp add: normalizeOrderCodeInput_def Let_def trim_units_def units_of_def ws_unit_def strip_prefix_def
        fold_case_def eight_digits_def digit_unit_def)
  moreover have origin: "63 \<notin> set (units_of ''https://siton.example//'')" "38 \<notin> set (units_of ''https://siton.example//'')"
    "length (units_of ''https://siton.example//'') \<le> 450" by (simp_all add: units_of_def)
  moreover have "Option.bind (pickupQrPayload (units_of ''https://siton.example//'') (formatOrderCode (units_of ''78901236'')))
        (\<lambda>q. normalizeOrderCodeInput (Some q)) = Some (units_of ''78901236'')"
    using order_code_round_trip [OF disjI1 [OF drawn] origin] by blast
  ultimately show ?thesis by blast
qed

end
