(* ===== verification/Fulfillment.thy ===== *)
theory Fulfillment
  imports OrderCode RuntimeConfig Lifecycle
begin

text \<open>
  What a buyer receives for a captured payment: \<open>src/deal_types.ts\<close> (who may receive units, and issuing
  them), \<open>src/physical_fulfillment.ts\<close> (the order code and the handover of a physical order), the
  redemption of a single unit in \<open>src/seller_fulfillment_routes.ts\<close> and of a receipt in
  \<open>src/receipt_trust.ts\<close>. Every function runs in one transaction that holds the locks of its order.
  Units live in \<open>siton.fulfillment_units\<close>, whose unique key (deal, participant, index) stands for the
  generated identifier. Titles, addresses, contact data and the texts shown are not modelled.
\<close>

section \<open>Rows\<close>

datatype deal_type = PhysicalProduct | Voucher | Ticket

datatype fulfillment_kind = PhysicalDelivery | VoucherCode | EventTicket

datatype unit_status = FU_Pending | FU_Issued | FU_Sent | FU_Redeemed | FU_Expired | FU_Voided

type_synonym unit_key = "string \<times> string \<times> int"

record handoff_record =
  hr_seller :: string
  hr_actor :: string
  hr_request :: string
  hr_key :: string
  hr_source :: string
  hr_qty :: int

text \<open>The last five fields are the keys of \<open>metadata_jsonb\<close> and the receipt columns.\<close>

record fulfillment_unit =
  fu_deal :: string
  fu_participant :: string
  fu_index :: int
  fu_type :: deal_type
  fu_kind :: fulfillment_kind
  fu_code_hash :: "string option"
  fu_last4 :: "js_units option"
  fu_status :: unit_status
  fu_redeemed_at :: "int option"
  fu_order_code :: "js_units option"
  fu_handoff :: "handoff_record option"
  fu_receipt_code :: "string option"
  fu_redeemed_by :: "string option"

definition unit_key :: "fulfillment_unit \<Rightarrow> unit_key" where
  "unit_key u = (fu_deal u, fu_participant u, fu_index u)"

record buyer_row =
  br_deal :: string
  br_buyer :: buyer_state
  br_money :: money_state
  br_qty :: int
  br_method :: "string option"

record deal_row =
  dr_seller :: "string option"
  dr_state :: deal_state
  dr_type :: deal_type

record replay_row =
  rp_participant :: string
  rp_key :: string
  rp_fulfilled_at :: "int option"
  rp_units_marked :: nat

record security_event =
  se_seller :: string
  se_type :: string
  se_actor :: string
  se_reason :: string
  se_request :: "string option"
  se_key :: "string option"
  se_participant :: string
  se_qty :: int
  se_units :: "unit_key list"
  se_last4 :: "js_units option"

text \<open>\<open>fb_ids\<close> lists the participants in the order they joined.\<close>

record fulfil_db =
  fb_ids :: "string list"
  fb_participants :: "string \<Rightarrow> buyer_row option"
  fb_deals :: "string \<Rightarrow> deal_row option"
  fb_units :: "fulfillment_unit list"
  fb_replays :: "replay_row list"
  fb_events :: "security_event list"

section \<open>Who may receive units\<close>

definition decideFulfillmentIssuance :: "deal_state \<Rightarrow> buyer_state \<Rightarrow> money_state \<Rightarrow> bool \<times> string" where
  "decideFulfillmentIssuance dealState buyerState moneyState =
     (if dealState \<noteq> D_Completed then (False, ''deal_not_completed'')
      else if buyerState \<noteq> B_DealCompleted then (False, ''buyer_not_completed'')
      else if moneyState \<noteq> M_ChargedSuccess \<and> moneyState \<noteq> M_RecoveredCharge then (False, ''money_not_settled'')
      else (True, ''eligible''))"

definition fulfillmentKindForDealType :: "deal_type \<Rightarrow> fulfillment_kind" where
  "fulfillmentKindForDealType t = (case t of Voucher \<Rightarrow> VoucherCode | Ticket \<Rightarrow> EventTicket | _ \<Rightarrow> PhysicalDelivery)"

definition CODE_ALPHABET :: js_units where
  "CODE_ALPHABET = units_of ''ABCDEFGHJKLMNPQRSTUVWXYZ23456789''"

definition generateFulfillmentCode :: "nat list \<Rightarrow> nat \<Rightarrow> js_units" where
  "generateFulfillmentCode bytes n =
     map (\<lambda>i. CODE_ALPHABET ! ((if i < length bytes then bytes ! i else 0) mod length CODE_ALPHABET)) [0..<n]"

definition lastFour :: "js_units \<Rightarrow> js_units" where
  "lastFour code = drop (length code - 4) code"

section \<open>Issuing\<close>

text \<open>What the caller is told about a unit; the plain code only when it was issued just now.\<close>

record issued_unit =
  iu_index :: int
  iu_status :: unit_status
  iu_last4 :: "js_units option"
  iu_plaintext :: "js_units option"

definition of_order :: "string \<Rightarrow> string \<Rightarrow> fulfillment_unit \<Rightarrow> bool" where
  "of_order d p u \<longleftrightarrow> fu_deal u = d \<and> fu_participant u = p"

definition existing_units :: "string \<Rightarrow> string \<Rightarrow> fulfillment_unit list \<Rightarrow> fulfillment_unit list" where
  "existing_units d p units = sort_key fu_index (filter (of_order d p) units)"

definition reported :: "fulfillment_unit \<Rightarrow> js_units option \<Rightarrow> issued_unit" where
  "reported u plain = \<lparr>iu_index = fu_index u, iu_status = fu_status u, iu_last4 = fu_last4 u, iu_plaintext = plain\<rparr>"

text \<open>\<open>sha256\<close> is the digest in hexadecimal, \<open>bytes\<close> the random bytes drawn for a unit.\<close>

definition fresh_unit ::
    "(js_units \<Rightarrow> string) \<Rightarrow> (int \<Rightarrow> nat list) \<Rightarrow> string \<Rightarrow> string \<Rightarrow> deal_type \<Rightarrow> int \<Rightarrow> fulfillment_unit \<times> js_units option" where
  "fresh_unit sha256 bytes d p t i =
     (let plain = (if t \<noteq> PhysicalProduct then Some (generateFulfillmentCode (bytes i) 16) else None)
      in (\<lparr>fu_deal = d, fu_participant = p, fu_index = i, fu_type = t, fu_kind = fulfillmentKindForDealType t,
           fu_code_hash = map_option sha256 plain, fu_last4 = map_option lastFour plain, fu_status = FU_Issued,
           fu_redeemed_at = None, fu_order_code = None, fu_handoff = None, fu_receipt_code = None,
           fu_redeemed_by = None\<rparr>, plain))"

text \<open>The loop over the missing indices; \<open>ON CONFLICT DO NOTHING\<close> on the unique key.\<close>

fun issue_indices ::
    "(int \<Rightarrow> fulfillment_unit \<times> js_units option) \<Rightarrow> int list \<Rightarrow> fulfillment_unit list \<Rightarrow> issued_unit list \<times> fulfillment_unit list" where
  "issue_indices build [] units = ([], units)"
| "issue_indices build (i # is) units =
     (let (u, plain) = build i
      in if list_ex (\<lambda>v. unit_key v = unit_key u) units then issue_indices build is units
         else (let (out, units') = issue_indices build is (units @ [u]) in (reported u plain # out, units')))"

definition issueFulfillmentUnitsForParticipant ::
    "(js_units \<Rightarrow> string) \<Rightarrow> (int \<Rightarrow> nat list) \<Rightarrow> string \<Rightarrow> string \<Rightarrow> int \<Rightarrow> deal_type \<Rightarrow> fulfillment_unit list \<Rightarrow>
     issued_unit list \<times> fulfillment_unit list" where
  "issueFulfillmentUnitsForParticipant sha256 bytes d p qty t units =
     (let existing = existing_units d p units
      in if existing \<noteq> [] \<and> qty \<le> int (length existing) then (map (\<lambda>u. reported u None) existing, units)
         else (let (out, units') = issue_indices (fresh_unit sha256 bytes d p t) [int (length existing) + 1..qty] units
               in (rev (map (\<lambda>u. reported u None) existing) @ out, units')))"

section \<open>The physical order\<close>

record physical_order =
  po_participant :: string
  po_deal :: string
  po_seller :: string
  po_deal_state :: deal_state
  po_type :: deal_type
  po_buyer :: buyer_state
  po_money :: money_state
  po_qty :: int
  po_method :: "string option"
  po_units :: "fulfillment_unit list"

definition loadUnits :: "string \<Rightarrow> fulfillment_unit list \<Rightarrow> fulfillment_unit list" where
  "loadUnits p units = sort_key fu_index (filter (\<lambda>u. fu_participant u = p) units)"

text \<open>\<open>mapOrderRow\<close> of the joined row.\<close>

definition mapOrderRow :: "string \<Rightarrow> buyer_row \<Rightarrow> deal_row \<Rightarrow> fulfillment_unit list \<Rightarrow> physical_order" where
  "mapOrderRow p b d units =
     \<lparr>po_participant = p, po_deal = br_deal b, po_seller = (case dr_seller d of None \<Rightarrow> '''' | Some s \<Rightarrow> s),
      po_deal_state = dr_state d, po_type = dr_type d, po_buyer = br_buyer b, po_money = br_money b,
      po_qty = max 1 (if br_qty b = 0 then 1 else br_qty b), po_method = br_method b, po_units = units\<rparr>"

definition loadPhysicalOrderByParticipant :: "string \<Rightarrow> fulfil_db \<Rightarrow> physical_order option" where
  "loadPhysicalOrderByParticipant p db =
     (case fb_participants db p of
        None \<Rightarrow> None
      | Some b \<Rightarrow> (case fb_deals db (br_deal b) of
            None \<Rightarrow> None
          | Some d \<Rightarrow> Some (mapOrderRow p b d (loadUnits p (fb_units db)))))"

text \<open>\<open>/^CT-\d{4}-\d{4}$/\<close>\<close>

definition well_formed_code :: "js_units \<Rightarrow> bool" where
  "well_formed_code c \<longleftrightarrow> length c = 12 \<and> take 3 c = units_of ''CT-'' \<and> list_all digit_unit (take 4 (drop 3 c))
     \<and> c ! 7 = 45 \<and> list_all digit_unit (drop 8 c)"

fun first_code :: "fulfillment_unit list \<Rightarrow> js_units option" where
  "first_code [] = None"
| "first_code (u # us) =
     (case fu_order_code u of
        Some c \<Rightarrow> if well_formed_code c then Some c else first_code us
      | None \<Rightarrow> first_code us)"

definition orderCodeOf :: "physical_order \<Rightarrow> js_units option" where
  "orderCodeOf order = first_code (po_units order)"

record unit_summary =
  us_total :: nat
  us_issued :: nat
  us_redeemed :: nat
  us_voided :: nat
  us_redeemed_at :: "int option"

definition handable :: "fulfillment_unit \<Rightarrow> bool" where
  "handable u \<longleftrightarrow> fu_status u = FU_Issued \<or> fu_status u = FU_Sent \<or> fu_status u = FU_Pending"

definition later_of :: "int option \<Rightarrow> int option \<Rightarrow> int option" where
  "later_of redeemedAt at_time =
     (case at_time of
        None \<Rightarrow> redeemedAt
      | Some t \<Rightarrow> (case redeemedAt of None \<Rightarrow> Some t | Some r \<Rightarrow> if r < t then Some t else Some r))"

fun count_units :: "fulfillment_unit list \<Rightarrow> unit_summary \<Rightarrow> unit_summary" where
  "count_units [] s = s"
| "count_units (u # us) s =
     count_units us
       (if handable u then s\<lparr>us_issued := us_issued s + 1\<rparr>
        else if fu_status u = FU_Redeemed
        then s\<lparr>us_redeemed := us_redeemed s + 1, us_redeemed_at := later_of (us_redeemed_at s) (fu_redeemed_at u)\<rparr>
        else s\<lparr>us_voided := us_voided s + 1\<rparr>)"

definition summarizeUnits :: "fulfillment_unit list \<Rightarrow> unit_summary" where
  "summarizeUnits rows =
     count_units rows \<lparr>us_total = length rows, us_issued = 0, us_redeemed = 0, us_voided = 0, us_redeemed_at = None\<rparr>"

section \<open>The verdict\<close>

datatype buyer_pickup_state =
    BP_not_applicable | BP_deal_open | BP_payment_pending | BP_deal_failed | BP_deal_cancelled
  | BP_unavailable | BP_ready | BP_fulfilled

datatype seller_verdict = SV_ready | SV_already_fulfilled | SV_not_ready

datatype not_ready_reason =
    NR_payment_incomplete | NR_deal_not_completed | NR_deal_failed | NR_deal_cancelled
  | NR_refunded | NR_not_eligible | NR_units_unavailable | NR_not_physical

record pickup_verdict =
  pv_buyer :: buyer_pickup_state
  pv_seller :: seller_verdict
  pv_reason :: "not_ready_reason option"
  pv_eligible :: bool
  pv_paid :: bool

definition verdict :: "buyer_pickup_state \<Rightarrow> seller_verdict \<Rightarrow> not_ready_reason option \<Rightarrow> bool \<Rightarrow> bool \<Rightarrow> pickup_verdict" where
  "verdict b s r e paid = \<lparr>pv_buyer = b, pv_seller = s, pv_reason = r, pv_eligible = e, pv_paid = paid\<rparr>"

definition decidePhysicalFulfillment ::
    "deal_type \<Rightarrow> deal_state \<Rightarrow> buyer_state \<Rightarrow> money_state \<Rightarrow> unit_summary \<Rightarrow> pickup_verdict" where
  "decidePhysicalFulfillment dealType dealState buyerState moneyState units =
     (let paid = (moneyState = M_ChargedSuccess \<or> moneyState = M_RecoveredCharge)
      in if dealType \<noteq> PhysicalProduct then verdict BP_not_applicable SV_not_ready (Some NR_not_physical) False paid
         else if dealState = D_Cancelled then verdict BP_deal_cancelled SV_not_ready (Some NR_deal_cancelled) False paid
         else if dealState = D_Failed then verdict BP_deal_failed SV_not_ready (Some NR_deal_failed) False paid
         else if moneyState = M_Refunded then verdict BP_unavailable SV_not_ready (Some NR_refunded) False False
         else (case decideFulfillmentIssuance dealState buyerState moneyState of
             (False, reason) \<Rightarrow>
               if reason = ''deal_not_completed'' then verdict BP_deal_open SV_not_ready (Some NR_deal_not_completed) False paid
               else if moneyState = M_AuthReleased \<or> buyerState = B_Dropped \<or> buyerState = B_DealFailed
               then verdict BP_unavailable SV_not_ready (Some NR_not_eligible) False paid
               else verdict BP_payment_pending SV_not_ready (Some NR_payment_incomplete) False paid
           | (True, _) \<Rightarrow>
               if 0 < us_total units \<and> us_issued units = 0 \<and> us_redeemed units = 0
               then verdict BP_unavailable SV_not_ready (Some NR_units_unavailable) True paid
               else if 0 < us_total units \<and> us_issued units = 0 \<and> 0 < us_redeemed units
               then verdict BP_fulfilled SV_already_fulfilled None True paid
               else verdict BP_ready SV_ready None True paid))"

definition verdict_of :: "physical_order \<Rightarrow> pickup_verdict" where
  "verdict_of order =
     decidePhysicalFulfillment (po_type order) (po_deal_state order) (po_buyer order) (po_money order)
       (summarizeUnits (po_units order))"

section \<open>The credential\<close>

record draw_env =
  de_sha256 :: "js_units \<Rightarrow> string"
  de_bytes :: "int \<Rightarrow> nat list"
  de_digits :: "js_units list"

definition code_taken :: "js_units \<Rightarrow> fulfillment_unit list \<Rightarrow> bool" where
  "code_taken code units \<longleftrightarrow> list_ex (\<lambda>u. fu_order_code u = Some code) units"

definition stamp_code :: "string \<Rightarrow> js_units \<Rightarrow> js_units \<Rightarrow> fulfillment_unit \<Rightarrow> fulfillment_unit" where
  "stamp_code p code last4 u =
     (if fu_participant u = p \<and> fu_order_code u = None then u\<lparr>fu_order_code := Some code, fu_last4 := Some last4\<rparr> else u)"

text \<open>The attempts of the mint loop, one list of drawn digits each.\<close>

fun mint_code :: "js_units list \<Rightarrow> physical_order \<Rightarrow> fulfil_db \<Rightarrow> physical_order \<times> fulfil_db" where
  "mint_code [] order db = (order, db)"
| "mint_code (digits # rest) order db =
     (let code = formatOrderCode digits
      in if code_taken code (fb_units db) then mint_code rest order db
         else let db' = db\<lparr>fb_units := map (stamp_code (po_participant order) code (orderCodeLast4 digits)) (fb_units db)\<rparr>;
                  order' = (case loadPhysicalOrderByParticipant (po_participant order) db' of None \<Rightarrow> order | Some o' \<Rightarrow> o')
              in if orderCodeOf order' \<noteq> None then (order', db') else mint_code rest order' db')"

definition ensurePhysicalOrderCredential :: "draw_env \<Rightarrow> physical_order \<Rightarrow> fulfil_db \<Rightarrow> physical_order \<times> fulfil_db" where
  "ensurePhysicalOrderCredential env order db =
     (if po_type order \<noteq> PhysicalProduct then (order, db)
      else if \<not> pv_eligible (verdict_of order) then (order, db)
      else let missing = int (length (po_units order)) < po_qty order;
               db1 = (if missing
                 then db\<lparr>fb_units := snd (issueFulfillmentUnitsForParticipant (de_sha256 env) (de_bytes env)
                            (po_deal order) (po_participant order) (po_qty order) (po_type order) (fb_units db))\<rparr>
                 else db)
           in case (if missing then loadPhysicalOrderByParticipant (po_participant order) db1 else Some order) of
               None \<Rightarrow> (order, db1)
             | Some refreshed \<Rightarrow>
                 if orderCodeOf refreshed \<noteq> None then (refreshed, db1)
                 else mint_code (take 8 (de_digits env)) refreshed db1)"

text \<open>The order a code names among the orders of one seller, and whether it names several.\<close>

definition code_matches :: "string \<Rightarrow> js_units \<Rightarrow> fulfil_db \<Rightarrow> string list" where
  "code_matches seller code db =
     remdups (map fu_participant (filter (\<lambda>u.
        (case fb_deals db (fu_deal u) of None \<Rightarrow> False | Some d \<Rightarrow> dr_seller d = Some seller)
        \<and> fu_type u = PhysicalProduct \<and> fu_order_code u = Some code) (fb_units db)))"

definition findSellerOrderByCode :: "string \<Rightarrow> js_units \<Rightarrow> fulfil_db \<Rightarrow> physical_order option \<times> bool" where
  "findSellerOrderByCode seller digits db =
     (let code = formatOrderCode digits
      in if code = [] then (None, False)
         else case code_matches seller code db of
             [] \<Rightarrow> (None, False)
           | [p] \<Rightarrow>
               (case loadPhysicalOrderByParticipant p db of
                  None \<Rightarrow> (None, False)
                | Some order \<Rightarrow> if po_seller order = seller then (Some order, False) else (None, False))
           | _ \<Rightarrow> (None, True))"

section \<open>The handover\<close>

datatype handoff_failure =
    HF_not_found
  | HF_ambiguous
  | HF_not_ready not_ready_reason physical_order
  | HF_qty_mismatch int int physical_order

datatype handoff_outcome =
    Handed bool bool physical_order "int option" nat
  | Refused handoff_failure

record handoff_args =
  ha_seller :: string
  ha_participant :: string
  ha_digits :: "js_units option"
  ha_expected :: "int option"
  ha_source :: string
  ha_actor :: string
  ha_request :: string
  ha_key :: string

definition find_replay :: "handoff_args \<Rightarrow> fulfil_db \<Rightarrow> replay_row option" where
  "find_replay args db = find (\<lambda>r. rp_participant r = ha_participant args \<and> rp_key r = ha_key args) (fb_replays db)"

definition replayed :: "handoff_args \<Rightarrow> fulfil_db \<Rightarrow> handoff_outcome option" where
  "replayed args db =
     (case find_replay args db of
        None \<Rightarrow> None
      | Some stored \<Rightarrow>
          (case loadPhysicalOrderByParticipant (ha_participant args) db of
             None \<Rightarrow> None
           | Some order \<Rightarrow>
               if po_seller order = ha_seller args
               then Some (Handed True True order
                 (case rp_fulfilled_at stored of Some t \<Rightarrow> Some t | None \<Rightarrow> us_redeemed_at (summarizeUnits (po_units order))) 0)
               else None))"

definition code_refused :: "handoff_args \<Rightarrow> physical_order \<Rightarrow> bool" where
  "code_refused args order \<longleftrightarrow>
     (case ha_digits args of
        None \<Rightarrow> False
      | Some digits \<Rightarrow> digits \<noteq> []
          \<and> (formatOrderCode digits = [] \<or> orderCodeOf order \<noteq> Some (formatOrderCode digits)))"

definition to_hand :: "string \<Rightarrow> fulfillment_unit \<Rightarrow> bool" where
  "to_hand p u \<longleftrightarrow> fu_participant u = p \<and> fu_type u = PhysicalProduct \<and> handable u"

definition hand_unit :: "int \<Rightarrow> handoff_args \<Rightarrow> physical_order \<Rightarrow> fulfillment_unit \<Rightarrow> fulfillment_unit" where
  "hand_unit now args order u =
     (if to_hand (po_participant order) u
      then u\<lparr>fu_status := FU_Redeemed, fu_redeemed_at := Some now,
             fu_handoff := Some \<lparr>hr_seller = ha_seller args, hr_actor = ha_actor args, hr_request = ha_request args,
               hr_key = ha_key args, hr_source = ha_source args, hr_qty = po_qty order\<rparr>\<rparr>
      else u)"

text \<open>\<open>ON CONFLICT DO NOTHING\<close> on the key of the idempotency log.\<close>

definition insert_replay :: "replay_row \<Rightarrow> replay_row list \<Rightarrow> replay_row list" where
  "insert_replay r rows =
     (if list_ex (\<lambda>x. rp_participant x = rp_participant r \<and> rp_key x = rp_key r) rows then rows else rows @ [r])"

definition write_handoff :: "int \<Rightarrow> handoff_args \<Rightarrow> physical_order \<Rightarrow> fulfil_db \<Rightarrow> handoff_outcome \<times> fulfil_db" where
  "write_handoff now args order db =
     (let marked = filter (to_hand (po_participant order)) (fb_units db);
          db1 = db\<lparr>fb_units := map (hand_unit now args order) (fb_units db)\<rparr>;
          after = (case loadPhysicalOrderByParticipant (po_participant order) db1 of None \<Rightarrow> order | Some o' \<Rightarrow> o');
          afterUnits = summarizeUnits (po_units after)
      in if marked = [] then (Handed True False after (us_redeemed_at afterUnits) 0, db1)
         else (Handed False False after (us_redeemed_at afterUnits) (length marked),
               db1\<lparr>fb_events := fb_events db1 @ [\<lparr>se_seller = ha_seller args, se_type = ''fulfillment.handoff'',
                      se_actor = ha_actor args, se_reason = ha_source args, se_request = Some (ha_request args),
                      se_key = Some (ha_key args), se_participant = po_participant after, se_qty = po_qty after,
                      se_units = map unit_key marked, se_last4 = map_option orderCodeLast4 (orderCodeOf after)\<rparr>],
                    fb_replays := insert_replay \<lparr>rp_participant = po_participant after, rp_key = ha_key args,
                      rp_fulfilled_at = us_redeemed_at afterUnits, rp_units_marked = length marked\<rparr> (fb_replays db1)\<rparr>))"

definition handoffPhysicalOrder :: "draw_env \<Rightarrow> int \<Rightarrow> handoff_args \<Rightarrow> fulfil_db \<Rightarrow> handoff_outcome \<times> fulfil_db" where
  "handoffPhysicalOrder env now args db =
     (case replayed args db of
        Some outcome \<Rightarrow> (outcome, db)
      | None \<Rightarrow>
          (case loadPhysicalOrderByParticipant (ha_participant args) db of
             None \<Rightarrow> (Refused HF_not_found, db)
           | Some locked \<Rightarrow>
               if po_seller locked \<noteq> ha_seller args \<or> code_refused args locked then (Refused HF_not_found, db)
               else (case ensurePhysicalOrderCredential env locked db of
                   (order, db1) \<Rightarrow>
                     (let v = verdict_of order
                      in if pv_seller v = SV_already_fulfilled
                         then (Handed True False order (us_redeemed_at (summarizeUnits (po_units order))) 0, db1)
                         else if pv_seller v \<noteq> SV_ready \<or> \<not> pv_eligible v
                         then (Refused (HF_not_ready (case pv_reason v of None \<Rightarrow> NR_not_eligible | Some r \<Rightarrow> r) order), db1)
                         else case ha_expected args of
                             Some q \<Rightarrow> if q \<noteq> po_qty order then (Refused (HF_qty_mismatch q (po_qty order) order), db1)
                                       else write_handoff now args order db1
                           | None \<Rightarrow> write_handoff now args order db1))))"

section \<open>What buyer and operator see\<close>

datatype physical_method = PM_pickup | PM_delivery | PM_unknown

text \<open>The stored types are lower case without padding; the option types of pickup are the two listed.\<close>

definition isPickupOptionType :: "string \<Rightarrow> bool" where
  "isPickupOptionType optionType \<longleftrightarrow> List.member [''pickup'', ''distribution_point''] optionType"

definition methodForDeliveryType :: "string option \<Rightarrow> physical_method" where
  "methodForDeliveryType deliveryMethodType =
     (let t = js_lower (js_trim (case deliveryMethodType of None \<Rightarrow> '''' | Some s \<Rightarrow> s))
      in if t = '''' then PM_unknown
         else if isPickupOptionType t then PM_pickup
         else if t = ''delivery'' then PM_delivery else PM_unknown)"

record buyer_pickup =
  by_state :: buyer_pickup_state
  by_method :: physical_method
  by_order_code :: "js_units option"
  by_qr_payload :: "js_units option"
  by_fulfilled_at :: "int option"

definition buyerPickupProjection :: "js_units \<Rightarrow> physical_order \<Rightarrow> buyer_pickup" where
  "buyerPickupProjection publicOrigin order =
     (let state = pv_buyer (verdict_of order);
          method = methodForDeliveryType (po_method order);
          code = (if state = BP_ready \<or> state = BP_fulfilled then orderCodeOf order else None)
      in \<lparr>by_state = state, by_method = method, by_order_code = code,
          by_qr_payload = (case code of Some c \<Rightarrow> if method = PM_pickup then pickupQrPayload publicOrigin c else None | None \<Rightarrow> None),
          by_fulfilled_at = (if state = BP_fulfilled then us_redeemed_at (summarizeUnits (po_units order)) else None)\<rparr>)"

text \<open>The counts of \<open>dealFulfillmentSnapshot\<close>: awaiting, fulfilled, blocked.\<close>

fun count_orders :: "physical_order list \<Rightarrow> nat \<times> nat \<times> nat \<Rightarrow> nat \<times> nat \<times> nat" where
  "count_orders [] counts = counts"
| "count_orders (order # rest) (awaiting, fulfilled, blocked) =
     count_orders rest
       (let v = verdict_of order
        in if pv_seller v = SV_ready then (awaiting + 1, fulfilled, blocked)
           else if pv_seller v = SV_already_fulfilled then (awaiting, fulfilled + 1, blocked)
           else if pv_paid v then (awaiting, fulfilled, blocked + 1)
           else (awaiting, fulfilled, blocked))"

definition deal_orders :: "string \<Rightarrow> fulfil_db \<Rightarrow> physical_order list" where
  "deal_orders d db =
     List.map_filter (\<lambda>p. case loadPhysicalOrderByParticipant p db of
         Some order \<Rightarrow> if po_deal order = d then Some order else None | None \<Rightarrow> None) (fb_ids db)"

definition dealFulfillmentSnapshot :: "string \<Rightarrow> fulfil_db \<Rightarrow> nat \<times> nat \<times> nat" where
  "dealFulfillmentSnapshot d db =
     count_orders (filter (\<lambda>order. po_type order = PhysicalProduct) (deal_orders d db)) (0, 0, 0)"

section \<open>Issuing after completion\<close>

text \<open>\<open>issueFulfillmentForCompletedDeal\<close> of \<open>app.ts\<close>: one transaction per participant.\<close>

definition issue_for :: "draw_env \<Rightarrow> string \<Rightarrow> string \<Rightarrow> int \<Rightarrow> deal_type \<Rightarrow> fulfil_db \<Rightarrow> fulfil_db" where
  "issue_for env d p qty t db =
     db\<lparr>fb_units := snd (issueFulfillmentUnitsForParticipant (de_sha256 env) (de_bytes env) d p qty t (fb_units db))\<rparr>"

definition completed_eligible :: "string \<Rightarrow> fulfil_db \<Rightarrow> (string \<times> int) list" where
  "completed_eligible d db =
     List.map_filter (\<lambda>p. case fb_participants db p of
         None \<Rightarrow> None
       | Some b \<Rightarrow> if br_deal b = d \<and> br_buyer b = B_DealCompleted
                      \<and> (br_money b = M_ChargedSuccess \<or> br_money b = M_RecoveredCharge)
                   then Some (p, br_qty b) else None) (fb_ids db)"

definition issueFulfillmentForCompletedDeal :: "draw_env \<Rightarrow> string \<Rightarrow> fulfil_db \<Rightarrow> fulfil_db" where
  "issueFulfillmentForCompletedDeal env d db =
     (case fb_deals db d of
        None \<Rightarrow> db
      | Some deal \<Rightarrow>
          if dr_state deal \<noteq> D_Completed then db
          else fold (\<lambda>(p, qty). issue_for env d p (max 1 (if qty = 0 then 1 else qty)) (dr_type deal)) (completed_eligible d db) db)"

section \<open>Redeeming one unit\<close>

datatype fulfil_error =
    FE_unit_not_found | FE_unit_forbidden | FE_deal_not_completed | FE_not_entitled
  | FE_not_redeemable unit_status
  | FE_receipt_not_found | FE_receipt_not_entitled | FE_receipt_locator_taken | FE_no_unit

definition stored_seller :: "deal_row \<Rightarrow> string" where
  "stored_seller d = (case dr_seller d of None \<Rightarrow> '''' | Some s \<Rightarrow> s)"

definition redeem_key :: "int \<Rightarrow> unit_key \<Rightarrow> fulfillment_unit \<Rightarrow> fulfillment_unit" where
  "redeem_key now k u =
     (if unit_key u = k \<and> (fu_status u = FU_Issued \<or> fu_status u = FU_Sent)
      then u\<lparr>fu_status := FU_Redeemed, fu_redeemed_at := Some now\<rparr> else u)"

text \<open>The answer tells whether the unit had been redeemed before.\<close>

definition redeem_unit :: "int \<Rightarrow> string \<Rightarrow> unit_key \<Rightarrow> fulfil_db \<Rightarrow> fulfil_error + bool \<times> fulfil_db" where
  "redeem_unit now seller k db =
     (case find (\<lambda>u. unit_key u = k) (fb_units db) of
        None \<Rightarrow> Inl FE_unit_not_found
      | Some u \<Rightarrow>
          (case (fb_deals db (fu_deal u), fb_participants db (fu_participant u)) of
             (Some d, Some b) \<Rightarrow>
               if stored_seller d \<noteq> seller then Inl FE_unit_forbidden
               else if dr_state d \<noteq> D_Completed then Inl FE_deal_not_completed
               else if \<not> fst (decideFulfillmentIssuance (dr_state d) (br_buyer b) (br_money b)) then Inl FE_not_entitled
               else if fu_status u = FU_Redeemed then Inr (True, db)
               else if fu_status u \<noteq> FU_Issued \<and> fu_status u \<noteq> FU_Sent then Inl (FE_not_redeemable (fu_status u))
               else Inr (False, db\<lparr>fb_units := map (redeem_key now k) (fb_units db)\<rparr>)
           | _ \<Rightarrow> Inl FE_unit_not_found))"

section \<open>Receipts\<close>

record receipt =
  rc_quantity :: int
  rc_remaining :: nat
  rc_redeemed :: bool
  rc_redeemed_at :: "int option"

text \<open>The code of a receipt is unique on the first units (migration \<open>066\<close>).\<close>

definition stamp_receipt :: "string \<Rightarrow> string \<Rightarrow> fulfillment_unit \<Rightarrow> fulfillment_unit" where
  "stamp_receipt p code u = (if fu_participant u = p then u\<lparr>fu_receipt_code := Some code\<rparr> else u)"

definition locator_taken :: "string \<Rightarrow> string \<Rightarrow> fulfillment_unit list \<Rightarrow> bool" where
  "locator_taken p code units \<longleftrightarrow>
     list_ex (\<lambda>u. fu_participant u \<noteq> p \<and> fu_index u = 1 \<and> fu_receipt_code u = Some code) units"

definition receipt_of :: "int \<Rightarrow> fulfillment_unit list \<Rightarrow> receipt" where
  "receipt_of qty units =
     \<lparr>rc_quantity = qty, rc_remaining = length (filter (\<lambda>u. fu_status u \<noteq> FU_Redeemed) units),
      rc_redeemed = list_all (\<lambda>u. fu_status u = FU_Redeemed) units,
      rc_redeemed_at = Option.bind (find (\<lambda>u. fu_redeemed_at u \<noteq> None) units) fu_redeemed_at\<rparr>"

definition receiptForOrder ::
    "draw_env \<Rightarrow> string \<Rightarrow> string \<Rightarrow> buyer_row \<Rightarrow> deal_row \<Rightarrow> fulfil_db \<Rightarrow> fulfil_error + receipt option \<times> fulfil_db" where
  "receiptForOrder env random p b d db =
     (if \<not> fst (decideFulfillmentIssuance (dr_state d) (br_buyer b) (br_money b)) then Inr (None, db)
      else let db1 = issue_for env (br_deal b) p (br_qty b) (dr_type d) db;
               units = loadUnits p (fb_units db1)
           in if int (length units) \<noteq> br_qty b
                 \<or> list_ex (\<lambda>u. fu_status u \<noteq> FU_Issued \<and> fu_status u \<noteq> FU_Sent \<and> fu_status u \<noteq> FU_Redeemed) units
              then Inr (None, db1)
              else if units = [] then Inl FE_no_unit
              else if fu_receipt_code (hd units) \<noteq> None then Inr (Some (receipt_of (br_qty b) units), db1)
              else if locator_taken p random (fb_units db1) then Inl FE_receipt_locator_taken
              else Inr (Some (receipt_of (br_qty b) units), db1\<lparr>fb_units := map (stamp_receipt p random) (fb_units db1)\<rparr>))"

definition redeem_participant :: "int \<Rightarrow> string \<Rightarrow> string \<Rightarrow> fulfillment_unit \<Rightarrow> fulfillment_unit" where
  "redeem_participant now p actor u =
     (if fu_participant u = p \<and> (fu_status u = FU_Issued \<or> fu_status u = FU_Sent)
      then u\<lparr>fu_status := FU_Redeemed, fu_redeemed_at := Some now, fu_redeemed_by := Some actor\<rparr> else u)"

definition redeemReceipt ::
    "draw_env \<Rightarrow> string \<Rightarrow> int \<Rightarrow> string \<Rightarrow> string \<Rightarrow> string \<Rightarrow> fulfil_db \<Rightarrow> fulfil_error + (bool \<times> receipt option) \<times> fulfil_db" where
  "redeemReceipt env random now seller p actor db =
     (case fb_participants db p of
        None \<Rightarrow> Inl FE_receipt_not_found
      | Some b \<Rightarrow>
          (case fb_deals db (br_deal b) of
             None \<Rightarrow> Inl FE_receipt_not_found
           | Some d \<Rightarrow>
               if dr_seller d \<noteq> Some seller then Inl FE_receipt_not_found
               else on_ok (receiptForOrder env random p b d db) (\<lambda>(receipt, db1).
                 case receipt of
                   None \<Rightarrow> Inl FE_receipt_not_entitled
                 | Some r \<Rightarrow>
                     if rc_redeemed r then Inr ((True, Some r), db1)
                     else let db2 = db1\<lparr>fb_units := map (redeem_participant now p actor) (fb_units db1),
                                fb_events := fb_events db1 @ [\<lparr>se_seller = seller, se_type = ''fulfillment.redeem'',
                                  se_actor = actor, se_reason = ''seller_confirmation'', se_request = None, se_key = None,
                                  se_participant = p, se_qty = br_qty b, se_units = [], se_last4 = None\<rparr>]\<rparr>
                          in on_ok (receiptForOrder env random p b d db2) (\<lambda>(receipt', db3). Inr ((False, receipt'), db3)))))"

end
