(* ===== verification/FulfillmentRuns.thy ===== *)
theory FulfillmentRuns
  imports Fulfillment GrowingTable
begin

text \<open>
  What the fulfillment rail guarantees over any sequence of its transactions, while the rest of the
  program moves participants and deals: units are handed over once and only to those entitled, and the
  code of an order stays its own.
\<close>

section \<open>How units evolve\<close>

definition redeemed :: "fulfillment_unit \<Rightarrow> bool" where
  "redeemed u \<longleftrightarrow> fu_status u = FU_Redeemed"

definition unit_le :: "fulfillment_unit \<Rightarrow> fulfillment_unit \<Rightarrow> bool" where
  "unit_le u v \<longleftrightarrow> unit_key v = unit_key u \<and> fu_type v = fu_type u
     \<and> (fu_order_code u \<noteq> None \<longrightarrow> fu_order_code v = fu_order_code u)
     \<and> (if redeemed u then redeemed v \<and> fu_redeemed_at v = fu_redeemed_at u \<and> fu_handoff v = fu_handoff u
        else redeemed v \<or> fu_status v = fu_status u)"

interpretation unit_table: growing_table unit_le unit_key
  by unfold_locales (auto simp: unit_le_def redeemed_def split: if_splits)

definition new_unit :: "string \<Rightarrow> string \<Rightarrow> deal_type \<Rightarrow> fulfillment_unit \<Rightarrow> bool" where
  "new_unit d p t u \<longleftrightarrow> of_order d p u \<and> fu_type u = t \<and> fu_status u = FU_Issued \<and> fu_order_code u = None \<and> fu_handoff u = None"

definition dense_units :: "fulfillment_unit list \<Rightarrow> bool" where
  "dense_units units \<longleftrightarrow> distinct (map unit_key units)
     \<and> (\<forall>d p. fu_index ` set (filter (of_order d p) units) = {1..int (length (filter (of_order d p) units))})"

lemma unit_key_eq: "unit_key u = unit_key v \<longleftrightarrow> fu_deal u = fu_deal v \<and> fu_participant u = fu_participant v \<and> fu_index u = fu_index v"
  by (simp add: unit_key_def)

lemma dense_append:
  assumes dense: "dense_units units" and u: "of_order d p u" "fu_index u = int (length (filter (of_order d p) units)) + 1"
  shows "dense_units (units @ [u])" and "\<not> list_ex (\<lambda>v. unit_key v = unit_key u) units"
proof -
  have not_there: "unit_key v \<noteq> unit_key u" if v: "v \<in> set units" for v
  proof
    assume "unit_key v = unit_key u"
    then have vu: "of_order d p v" "fu_index v = fu_index u" using u(1) by (auto simp: unit_key_eq of_order_def)
    have "fu_index v \<in> fu_index ` set (filter (of_order d p) units)" using v vu(1) by simp
    with vu have "fu_index u \<in> fu_index ` set (filter (of_order d p) units)" by simp
    with dense u(2) show False by (auto simp: dense_units_def)
  qed
  then show "\<not> list_ex (\<lambda>v. unit_key v = unit_key u) units" by (auto simp: list_ex_iff)
  have "fu_index ` set (filter (of_order d' p') (units @ [u])) = {1..int (length (filter (of_order d' p') (units @ [u])))}" for d' p'
  proof (cases "of_order d' p' u")
    case True
    then have "d' = d" "p' = p" using u(1) by (auto simp: of_order_def)
    then show ?thesis using dense u by (auto simp: dense_units_def)
  next
    case False
    then show ?thesis using dense by (auto simp: dense_units_def)
  qed
  moreover have "unit_key u \<notin> unit_key ` set units" using not_there by (metis imageE)
  then have "distinct (map unit_key (units @ [u]))" using dense by (simp add: dense_units_def)
  ultimately show "dense_units (units @ [u])" unfolding dense_units_def by blast
qed

lemma issue_indices_grows:
  assumes "dense_units units" and "a = int (length (filter (of_order d p) units)) + 1"
    and "issue_indices (fresh_unit sha256 bytes d p t) [a..q] units = (out, units')"
  shows "\<exists>new. units' = units @ new \<and> list_all (new_unit d p t) new \<and> dense_units units' \<and> length new = nat (q + 1 - a)"
  using assms
proof (induction "nat (q + 1 - a)" arbitrary: a units out units')
  case 0
  then have "[a..q] = []" by simp
  with 0 show ?case by simp
next
  case (Suc n)
  then have upto: "[a..q] = a # [a + 1..q]" by (simp add: upto.simps)
  obtain u plain where u: "fresh_unit sha256 bytes d p t a = (u, plain)" by fastforce
  then have fresh: "new_unit d p t u" "fu_index u = a" by (auto simp: fresh_unit_def new_unit_def of_order_def Let_def)
  then have order: "of_order d p u" by (simp add: new_unit_def)
  have idx: "fu_index u = int (length (filter (of_order d p) units)) + 1" using fresh Suc.prems(2) by simp
  from dense_append [OF Suc.prems(1) order idx]
  have dense: "dense_units (units @ [u])" and absent: "\<not> list_ex (\<lambda>v. unit_key v = unit_key u) units" by blast+
  obtain out1 units1 where rec: "issue_indices (fresh_unit sha256 bytes d p t) [a + 1..q] (units @ [u]) = (out1, units1)" by fastforce
  have "units' = units1" using Suc.prems(3) absent rec by (simp add: upto u)
  moreover have "\<exists>new. units1 = (units @ [u]) @ new \<and> list_all (new_unit d p t) new \<and> dense_units units1
      \<and> length new = nat (q + 1 - (a + 1))"
    by (rule Suc.hyps(1) [OF _ dense _ rec]) (use Suc.hyps(2) Suc.prems(2) order in auto)
  moreover have "Suc (nat (q + 1 - (a + 1))) = nat (q + 1 - a)" using Suc.hyps(2) by arith
  ultimately obtain new where "units' = units @ (u # new)" "list_all (new_unit d p t) (u # new)" "dense_units units'"
    "length (u # new) = nat (q + 1 - a)"
    using fresh by auto
  then show ?case by blast
qed

lemma length_existing: "length (existing_units d p units) = length (filter (of_order d p) units)"
  by (simp add: existing_units_def)

lemma issue_grows:
  assumes "dense_units units"
  shows "\<exists>new. snd (issueFulfillmentUnitsForParticipant sha256 bytes d p qty t units) = units @ new
    \<and> list_all (new_unit d p t) new \<and> dense_units (units @ new) \<and> qty \<le> int (length (filter (of_order d p) (units @ new)))"
proof (cases "existing_units d p units \<noteq> [] \<and> qty \<le> int (length (existing_units d p units))")
  case True
  then show ?thesis using assms by (simp add: issueFulfillmentUnitsForParticipant_def length_existing)
next
  case False
  obtain out units' where run: "issue_indices (fresh_unit sha256 bytes d p t) [int (length (existing_units d p units)) + 1..qty] units = (out, units')"
    by fastforce
  from issue_indices_grows [OF assms _ run] obtain new where new: "units' = units @ new" "list_all (new_unit d p t) new" "dense_units units'"
    "length new = nat (qty - int (length (filter (of_order d p) units)))"
    by (auto simp: length_existing)
  have "filter (of_order d p) new = new" using new(2) by (auto simp: list_all_iff new_unit_def intro: filter_True)
  then have "qty \<le> int (length (filter (of_order d p) (units @ new)))" using new(4) by simp
  then show ?thesis using False run new by (auto simp: issueFulfillmentUnitsForParticipant_def Let_def)
qed

section \<open>The invariant\<close>

definition coded :: "fulfillment_unit \<Rightarrow> bool" where
  "coded u \<longleftrightarrow> fu_order_code u \<noteq> None"

definition unit_row_ok :: "fulfil_db \<Rightarrow> fulfillment_unit \<Rightarrow> bool" where
  "unit_row_ok db u \<longleftrightarrow>
     (\<exists>b d. fb_participants db (fu_participant u) = Some b \<and> br_deal b = fu_deal u
        \<and> fb_deals db (fu_deal u) = Some d \<and> dr_type d = fu_type u)"

definition code_ok :: "fulfillment_unit list \<Rightarrow> fulfillment_unit \<Rightarrow> bool" where
  "code_ok units u \<longleftrightarrow> coded u \<longrightarrow>
     fu_type u = PhysicalProduct \<and> (\<exists>ds. eight_digits ds \<and> fu_order_code u = Some (formatOrderCode ds))
     \<and> (\<exists>v \<in> set units. fu_participant v = fu_participant u \<and> fu_index v = 1 \<and> coded v)"

definition handoffs :: "security_event list \<Rightarrow> unit_key list" where
  "handoffs events = concat (map se_units (filter (\<lambda>e. se_type e = ''fulfillment.handoff'') events))"

definition fulfil_ok :: "fulfil_db \<Rightarrow> bool" where
  "fulfil_ok db \<longleftrightarrow>
     dense_units (fb_units db)
     \<and> (\<forall>u \<in> set (fb_units db). unit_row_ok db u \<and> code_ok (fb_units db) u)
     \<and> (\<forall>u \<in> set (fb_units db). \<forall>v \<in> set (fb_units db). coded u \<and> fu_order_code u = fu_order_code v \<longrightarrow> fu_participant u = fu_participant v)
     \<and> distinct (handoffs (fb_events db))
     \<and> (\<forall>k \<in> set (handoffs (fb_events db)). \<exists>u \<in> set (fb_units db). unit_key u = k \<and> redeemed u)"

lemma fulfil_okI:
  assumes "dense_units (fb_units db)" and "\<And>u. u \<in> set (fb_units db) \<Longrightarrow> unit_row_ok db u"
    and "\<And>u. u \<in> set (fb_units db) \<Longrightarrow> code_ok (fb_units db) u"
    and "\<And>u v. u \<in> set (fb_units db) \<Longrightarrow> v \<in> set (fb_units db) \<Longrightarrow> coded u \<Longrightarrow> fu_order_code u = fu_order_code v
           \<Longrightarrow> fu_participant u = fu_participant v"
    and "distinct (handoffs (fb_events db))"
    and "\<And>k. k \<in> set (handoffs (fb_events db)) \<Longrightarrow> \<exists>u \<in> set (fb_units db). unit_key u = k \<and> redeemed u"
  shows "fulfil_ok db"
  using assms unfolding fulfil_ok_def by blast

lemma fulfil_okD:
  assumes "fulfil_ok db"
  shows "dense_units (fb_units db)" and "\<And>u. u \<in> set (fb_units db) \<Longrightarrow> unit_row_ok db u"
    and "\<And>u. u \<in> set (fb_units db) \<Longrightarrow> code_ok (fb_units db) u"
    and "\<And>u v. u \<in> set (fb_units db) \<Longrightarrow> v \<in> set (fb_units db) \<Longrightarrow> coded u \<Longrightarrow> fu_order_code u = fu_order_code v
           \<Longrightarrow> fu_participant u = fu_participant v"
    and "distinct (handoffs (fb_events db))"
    and "\<And>k. k \<in> set (handoffs (fb_events db)) \<Longrightarrow> \<exists>u \<in> set (fb_units db). unit_key u = k \<and> redeemed u"
  using assms unfolding fulfil_ok_def by blast+

text \<open>A change that rewrites units in place, keeping key and type.\<close>

lemma dense_map:
  assumes dense: "dense_units units" and key: "\<And>u. unit_key (f u) = unit_key u"
  shows "dense_units (map f units)"
proof -
  have order: "of_order d p (f u) = of_order d p u" for d p u
    using key [of u] by (simp add: unit_key_eq of_order_def)
  have index: "fu_index (f u) = fu_index u" for u using key [of u] by (simp add: unit_key_eq)
  have "filter (of_order d p) (map f units) = map f (filter (of_order d p) units)" for d p
    by (simp add: filter_map comp_def order)
  then show ?thesis using dense by (simp add: dense_units_def comp_def key index image_image)
qed

text \<open>In place, without touching a code.\<close>

lemma keeps_codes_map:
  assumes ok: "fulfil_ok db" and le: "\<And>u. unit_le u (f u)" and code: "\<And>u. fu_order_code (f u) = fu_order_code u"
    and events: "distinct (handoffs events)"
    and handed: "\<And>k. k \<in> set (handoffs events) \<Longrightarrow> k \<in> set (handoffs (fb_events db)) \<or> (\<exists>u \<in> set (fb_units db). unit_key u = k \<and> redeemed (f u))"
    and db': "fb_units db' = map f (fb_units db)" "fb_events db' = events"
      "fb_participants db' = fb_participants db" "fb_deals db' = fb_deals db"
  shows "fulfil_ok db'"
proof (rule fulfil_okI)
  note D = fulfil_okD [OF ok]
  have key: "unit_key (f u) = unit_key u" for u using le [of u] by (simp add: unit_le_def)
  then have part: "fu_participant (f u) = fu_participant u" and idx: "fu_index (f u) = fu_index u" and dl: "fu_deal (f u) = fu_deal u" for u
    by (simp_all add: unit_key_eq)
  have type: "fu_type (f u) = fu_type u" for u using le [of u] by (simp add: unit_le_def)
  have coded_f: "coded (f u) = coded u" for u by (simp add: coded_def code)
  show "dense_units (fb_units db')" using dense_map [OF D(1) key] by (simp add: db')
  show "unit_row_ok db' u" if "u \<in> set (fb_units db')" for u
    using that D(2) by (auto simp: db' unit_row_ok_def part dl type)
  show "code_ok (fb_units db') u" if "u \<in> set (fb_units db')" for u
  proof -
    from that obtain u0 where u0: "u0 \<in> set (fb_units db)" "u = f u0" by (auto simp: db')
    have "code_ok (fb_units db) u0" using D(3) u0(1) .
    then show ?thesis by (auto simp: code_ok_def db' u0(2) coded_f part idx code type)
  qed
  show "fu_participant u = fu_participant v"
    if "u \<in> set (fb_units db')" "v \<in> set (fb_units db')" "coded u" "fu_order_code u = fu_order_code v" for u v
  proof -
    from that(1,2) obtain u0 v0 where "u0 \<in> set (fb_units db)" "u = f u0" "v0 \<in> set (fb_units db)" "v = f v0"
      by (auto simp: db')
    with that(3,4) D(4) [of u0 v0] show ?thesis by (simp add: coded_f part code)
  qed
  show "distinct (handoffs (fb_events db'))" using events by (simp add: db')
  show "\<exists>u \<in> set (fb_units db'). unit_key u = k \<and> redeemed u" if k: "k \<in> set (handoffs (fb_events db'))" for k
  proof -
    from k handed [of k] D(6) [of k] obtain u where u: "u \<in> set (fb_units db)" "unit_key u = k" "redeemed u \<or> redeemed (f u)"
      by (auto simp: db')
    then have "redeemed (f u)" using le [of u] by (auto simp: unit_le_def split: if_splits)
    then show ?thesis using u key by (auto simp: db')
  qed
qed

text \<open>New units at the end.\<close>

lemma keeps_append:
  assumes ok: "fulfil_ok db" and dense: "dense_units (fb_units db @ new)" and new: "list_all (new_unit d p t) new"
    and row: "fb_participants db p = Some b" "br_deal b = d" "fb_deals db d = Some dl" "dr_type dl = t"
    and db': "fb_units db' = fb_units db @ new" "fb_events db' = fb_events db"
      "fb_participants db' = fb_participants db" "fb_deals db' = fb_deals db"
  shows "fulfil_ok db'"
proof (rule fulfil_okI)
  note D = fulfil_okD [OF ok]
  have fresh: "\<not> coded u \<and> of_order d p u \<and> fu_type u = t" if "u \<in> set new" for u
    using new that by (auto simp: list_all_iff new_unit_def coded_def)
  show "dense_units (fb_units db')" using dense by (simp add: db')
  show "unit_row_ok db' u" if "u \<in> set (fb_units db')" for u
    using that D(2) [of u] fresh [of u] row by (auto simp: db' unit_row_ok_def of_order_def)
  show "code_ok (fb_units db') u" if "u \<in> set (fb_units db')" for u
    using that D(3) [of u] fresh [of u] by (auto simp: db' code_ok_def)
  show "fu_participant u = fu_participant v"
    if "u \<in> set (fb_units db')" "v \<in> set (fb_units db')" "coded u" "fu_order_code u = fu_order_code v" for u v
  proof -
    have "coded v" using that by (simp add: coded_def)
    then show ?thesis using that D(4) [of u v] fresh by (auto simp: db')
  qed
  show "distinct (handoffs (fb_events db'))" using D(5) by (simp add: db')
  show "\<exists>u \<in> set (fb_units db'). unit_key u = k \<and> redeemed u" if "k \<in> set (handoffs (fb_events db'))" for k
    using that D(6) [of k] by (auto simp: db')
qed

section \<open>Steps\<close>

text \<open>Participants who may receive units, by the rows of this moment.\<close>

definition entitled :: "fulfil_db \<Rightarrow> string \<Rightarrow> bool" where
  "entitled db p \<longleftrightarrow>
     (\<exists>b d. fb_participants db p = Some b \<and> fb_deals db (br_deal b) = Some d \<and> dr_state d = D_Completed
        \<and> br_buyer b = B_DealCompleted \<and> (br_money b = M_ChargedSuccess \<or> br_money b = M_RecoveredCharge))"

text \<open>No row is lost, and a unit is newly redeemed only for a participant in \<open>P\<close>.\<close>

definition unit_step :: "(string \<Rightarrow> bool) \<Rightarrow> fulfil_db \<Rightarrow> fulfil_db \<Rightarrow> bool" where
  "unit_step P db db' \<longleftrightarrow> evolves unit_le (fb_units db) (fb_units db')
     \<and> (\<forall>u \<in> set (fb_units db'). redeemed u \<longrightarrow>
          (\<exists>v \<in> set (fb_units db). unit_key v = unit_key u \<and> redeemed v) \<or> P (fu_participant u))
     \<and> fb_participants db' = fb_participants db \<and> fb_deals db' = fb_deals db \<and> fb_ids db' = fb_ids db"

lemma unit_step_refl: "unit_step P db db"
  by (auto simp: unit_step_def intro: unit_table.grows_refl)

lemma unit_step_trans: "unit_step P db db1 \<Longrightarrow> unit_step P db1 db2 \<Longrightarrow> unit_step P db db2"
  unfolding unit_step_def
proof (elim conjE, intro conjI)
  assume "evolves unit_le (fb_units db) (fb_units db1)" "evolves unit_le (fb_units db1) (fb_units db2)"
  then show "evolves unit_le (fb_units db) (fb_units db2)" by (rule unit_table.grows_trans)
next
  assume 1: "\<forall>u\<in>set (fb_units db1). redeemed u \<longrightarrow>
          (\<exists>v\<in>set (fb_units db). unit_key v = unit_key u \<and> redeemed v) \<or> P (fu_participant u)"
    and 2: "\<forall>u\<in>set (fb_units db2). redeemed u \<longrightarrow>
          (\<exists>v\<in>set (fb_units db1). unit_key v = unit_key u \<and> redeemed v) \<or> P (fu_participant u)"
  show "\<forall>u\<in>set (fb_units db2). redeemed u \<longrightarrow>
          (\<exists>v\<in>set (fb_units db). unit_key v = unit_key u \<and> redeemed v) \<or> P (fu_participant u)"
  proof (intro ballI impI)
    fix u assume "u \<in> set (fb_units db2)" "redeemed u"
    with 2 consider v where "v \<in> set (fb_units db1)" "unit_key v = unit_key u" "redeemed v" | "P (fu_participant u)" by blast
    then show "(\<exists>v\<in>set (fb_units db). unit_key v = unit_key u \<and> redeemed v) \<or> P (fu_participant u)"
    proof cases
      case 1
      with \<open>\<forall>u\<in>set (fb_units db1). _ u\<close> have "(\<exists>w\<in>set (fb_units db). unit_key w = unit_key v \<and> redeemed w) \<or> P (fu_participant v)" by blast
      then show ?thesis using 1 by (simp add: unit_key_eq)
    qed simp
  qed
qed simp_all

lemma unit_step_map:
  assumes "\<And>u. unit_le u (f u)" and "\<And>u. u \<in> set (fb_units db) \<Longrightarrow> redeemed (f u) \<Longrightarrow> \<not> redeemed u \<Longrightarrow> P (fu_participant u)"
    and "fb_units db' = map f (fb_units db)" "fb_participants db' = fb_participants db" "fb_deals db' = fb_deals db" "fb_ids db' = fb_ids db"
  shows "unit_step P db db'"
proof -
  have "(\<exists>v \<in> set (fb_units db). unit_key v = unit_key (f u) \<and> redeemed v) \<or> P (fu_participant (f u))"
    if "u \<in> set (fb_units db)" "redeemed (f u)" for u
    using that assms(1) [of u] assms(2) [of u] by (auto simp: unit_le_def unit_key_eq)
  then show ?thesis using assms unit_table.grows_map [of "fb_units db" f] by (auto simp: unit_step_def)
qed

lemma unit_step_append:
  assumes "list_all (new_unit d p t) new" and "fb_units db' = fb_units db @ new"
    and "fb_participants db' = fb_participants db" "fb_deals db' = fb_deals db" "fb_ids db' = fb_ids db"
  shows "unit_step P db db'"
  using assms unit_table.grows_append
  by (auto simp: unit_step_def list_all_iff new_unit_def redeemed_def)

text \<open>The operations on units, each once.\<close>

lemma stamp_le: "unit_le u (stamp_code p code last4 u)"
  by (simp add: unit_le_def stamp_code_def unit_key_def redeemed_def)

lemma stamp_ok:
  assumes ok: "fulfil_ok db" and ds: "eight_digits ds" and free: "\<not> code_taken (formatOrderCode ds) (fb_units db)"
    and b: "fb_participants db p = Some b" and d: "fb_deals db (br_deal b) = Some d" "dr_type d = PhysicalProduct"
    and db': "fb_units db' = map (stamp_code p (formatOrderCode ds) last4) (fb_units db)" "fb_events db' = fb_events db"
      "fb_participants db' = fb_participants db" "fb_deals db' = fb_deals db"
  shows "fulfil_ok db'"
proof (rule fulfil_okI)
  note D = fulfil_okD [OF ok]
  define f where "f = stamp_code p (formatOrderCode ds) last4"
  have f: "unit_key (f u) = unit_key u" "fu_participant (f u) = fu_participant u" "fu_index (f u) = fu_index u"
    "fu_deal (f u) = fu_deal u" "fu_type (f u) = fu_type u" "redeemed (f u) = redeemed u"
    "coded (f u) = (coded u \<or> fu_participant u = p)" for u
    by (auto simp: f_def stamp_code_def unit_key_def redeemed_def coded_def)
  have code: "fu_order_code (f u) = (if fu_participant u = p \<and> \<not> coded u then Some (formatOrderCode ds) else fu_order_code u)" for u
    by (auto simp: f_def stamp_code_def coded_def)
  note db' = db' [folded f_def]
  show "dense_units (fb_units db')" using dense_map [OF D(1) f(1)] by (simp add: db')
  show "unit_row_ok db' u" if "u \<in> set (fb_units db')" for u
    using that D(2) by (auto simp: db' unit_row_ok_def f)
  show "code_ok (fb_units db') u" if "u \<in> set (fb_units db')" for u
  proof -
    from that obtain u0 where u0: "u0 \<in> set (fb_units db)" "u = f u0" by (auto simp: db')
    show ?thesis
    proof (cases "coded u0")
      case True
      with D(3) [OF u0(1)] show ?thesis by (auto simp: code_ok_def db' u0(2) f code)
    next
      case False
      have "\<exists>v \<in> set (fb_units db). fu_participant v = p \<and> fu_index v = 1" if "fu_participant u0 = p"
      proof -
        have "u0 \<in> set (filter (of_order (fu_deal u0) p) (fb_units db))" using u0 that by (simp add: of_order_def)
        then have "0 < length (filter (of_order (fu_deal u0) p) (fb_units db))" by (metis length_pos_if_in_set)
        then have "1 \<in> {1..int (length (filter (of_order (fu_deal u0) p) (fb_units db)))}" by (simp add: Suc_le_eq)
        then have "1 \<in> fu_index ` set (filter (of_order (fu_deal u0) p) (fb_units db))"
          using D(1) unfolding dense_units_def by blast
        then show ?thesis by (auto simp: of_order_def)
      qed
      moreover have "fu_type u0 = PhysicalProduct" if "fu_participant u0 = p"
        using D(2) [OF u0(1)] that b d by (auto simp: unit_row_ok_def)
      ultimately show ?thesis using False ds by (auto simp: code_ok_def db' u0(2) f code)
    qed
  qed
  show "fu_participant u = fu_participant v"
    if uv: "u \<in> set (fb_units db')" "v \<in> set (fb_units db')" "coded u" "fu_order_code u = fu_order_code v" for u v
  proof -
    from uv(1,2) obtain u0 v0 where 0: "u0 \<in> set (fb_units db)" "u = f u0" "v0 \<in> set (fb_units db)" "v = f v0"
      by (auto simp: db')
    have not_taken: "fu_order_code w \<noteq> Some (formatOrderCode ds)" if "w \<in> set (fb_units db)" for w
      using free that by (auto simp: code_taken_def list_ex_iff)
    show ?thesis
    proof (cases "coded u0"; cases "coded v0")
      assume "coded u0" "coded v0"
      with uv 0 D(4) [of u0 v0] show ?thesis by (simp add: f code)
    next
      assume "coded u0" "\<not> coded v0"
      with uv(3,4) 0 not_taken [of u0] show ?thesis by (auto simp: f code coded_def split: if_splits)
    next
      assume "\<not> coded u0" "coded v0"
      with uv(3,4) 0 not_taken [of v0] show ?thesis by (auto simp: f code coded_def split: if_splits)
    next
      assume n: "\<not> coded u0" "\<not> coded v0"
      with uv(3) 0 have "fu_participant u0 = p" by (simp add: f)
      then have "fu_order_code u = Some (formatOrderCode ds)" using n 0 by (simp add: code)
      with uv(4) n 0 have "fu_participant v0 = p" by (auto simp: code coded_def split: if_splits)
      then show ?thesis using \<open>fu_participant u0 = p\<close> 0 by (simp add: f)
    qed
  qed
  show "distinct (handoffs (fb_events db'))" using D(5) by (simp add: db')
  show "\<exists>u \<in> set (fb_units db'). unit_key u = k \<and> redeemed u" if "k \<in> set (handoffs (fb_events db'))" for k
    using that D(6) [of k] by (auto simp: db' f)
qed

text \<open>An order a transaction works on belongs to its participant and deal.\<close>

definition names_order :: "physical_order \<Rightarrow> fulfil_db \<Rightarrow> bool" where
  "names_order order db \<longleftrightarrow>
     (\<exists>b d. fb_participants db (po_participant order) = Some b \<and> br_deal b = po_deal order
        \<and> fb_deals db (po_deal order) = Some d \<and> dr_type d = po_type order)"

lemma loaded_names: "loadPhysicalOrderByParticipant p db = Some order \<Longrightarrow> names_order order db \<and> po_participant order = p"
  by (auto simp: loadPhysicalOrderByParticipant_def names_order_def mapOrderRow_def split: option.splits)

lemma names_order_same:
  "names_order order db \<Longrightarrow> fb_participants db' = fb_participants db \<Longrightarrow> fb_deals db' = fb_deals db \<Longrightarrow> names_order order db'"
  by (simp add: names_order_def)

lemma issue_for_ok:
  assumes ok: "fulfil_ok db" and row: "fb_participants db p = Some b" "br_deal b = d" "fb_deals db d = Some dl" "dr_type dl = t"
  shows "fulfil_ok (issue_for env d p qty t db) \<and> unit_step P db (issue_for env d p qty t db)
    \<and> fb_events (issue_for env d p qty t db) = fb_events db"
proof -
  from issue_grows [OF fulfil_okD(1) [OF ok]] obtain new
    where new: "snd (issueFulfillmentUnitsForParticipant (de_sha256 env) (de_bytes env) d p qty t (fb_units db)) = fb_units db @ new"
      "list_all (new_unit d p t) new" "dense_units (fb_units db @ new)" by blast
  have "fulfil_ok (issue_for env d p qty t db)"
    by (rule keeps_append [OF ok new(3,2) row]) (simp_all add: issue_for_def new(1))
  moreover have "unit_step P db (issue_for env d p qty t db)"
    by (rule unit_step_append [OF new(2)]) (simp_all add: issue_for_def new(1))
  ultimately show ?thesis by (simp add: issue_for_def)
qed

lemma mint_code_ok:
  assumes "mint_code digits order db = (order', db')" and "list_all eight_digits digits" and "fulfil_ok db"
    and "names_order order db" and "po_type order = PhysicalProduct"
  shows "fulfil_ok db' \<and> unit_step P db db' \<and> fb_events db' = fb_events db
    \<and> (order' = order \<and> db' = db \<or> loadPhysicalOrderByParticipant (po_participant order) db' = Some order')"
  using assms
proof (induction digits arbitrary: order db)
  case (Cons ds rest)
  let ?code = "formatOrderCode ds"
  define db1 where "db1 = db\<lparr>fb_units := map (stamp_code (po_participant order) ?code (orderCodeLast4 ds)) (fb_units db)\<rparr>"
  show ?case
  proof (cases "code_taken ?code (fb_units db)")
    case True
    with Cons show ?thesis by (simp add: Let_def)
  next
    case False
    from Cons.prems(4,5) obtain b d where b: "fb_participants db (po_participant order) = Some b" "fb_deals db (br_deal b) = Some d"
      "dr_type d = PhysicalProduct" by (auto simp: names_order_def)
    have ok1: "fulfil_ok db1"
      by (rule stamp_ok [OF Cons.prems(3) _ False b, where ?last4.0 = "orderCodeLast4 ds"]) (use Cons.prems(2) in \<open>simp_all add: db1_def\<close>)
    have step1: "unit_step P db db1"
      by (rule unit_step_map [where f = "stamp_code (po_participant order) ?code (orderCodeLast4 ds)", OF stamp_le]) (simp_all add: db1_def stamp_code_def redeemed_def split: if_splits)
    have names1: "names_order order db1" using Cons.prems(4) by (simp add: names_order_def db1_def)
    then obtain order1 where load1: "loadPhysicalOrderByParticipant (po_participant order) db1 = Some order1"
      by (auto simp: names_order_def loadPhysicalOrderByParticipant_def)
    have names2: "names_order order1 db1" and same: "po_participant order1 = po_participant order" using loaded_names [OF load1] by auto
    have type1: "po_type order1 = PhysicalProduct"
      using load1 b by (auto simp: loadPhysicalOrderByParticipant_def mapOrderRow_def db1_def)
    have events1: "fb_events db1 = fb_events db" by (simp add: db1_def)
    show ?thesis
    proof (cases "orderCodeOf order1")
      case (Some c)
      then have "order' = order1" "db' = db1" using Cons.prems(1) False load1 by (simp_all add: Let_def flip: db1_def)
      then show ?thesis using ok1 step1 load1 events1 by simp
    next
      case None
      then have rec: "mint_code rest order1 db1 = (order', db')" using Cons.prems(1) False load1 by (simp add: Let_def flip: db1_def)
      from Cons.IH [OF rec _ ok1 names2 type1] Cons.prems(2) step1 load1 events1 same show ?thesis
        by (auto intro: unit_step_trans)
    qed
  qed
qed (simp add: unit_step_refl)

definition draws_ok :: "draw_env \<Rightarrow> bool" where
  "draws_ok env \<longleftrightarrow> list_all eight_digits (de_digits env)"

lemma ensure_ok:
  assumes run: "ensurePhysicalOrderCredential env order db = (order', db')" and env: "draws_ok env" and ok: "fulfil_ok db"
    and names: "names_order order db"
  shows "fulfil_ok db' \<and> unit_step P db db' \<and> fb_events db' = fb_events db
    \<and> (order' = order \<and> db' = db \<or> loadPhysicalOrderByParticipant (po_participant order) db' = Some order')
    \<and> names_order order' db' \<and> po_participant order' = po_participant order"
proof (cases "po_type order = PhysicalProduct \<and> pv_eligible (verdict_of order)")
  case False
  then have "ensurePhysicalOrderCredential env order db = (order, db)" by (simp add: ensurePhysicalOrderCredential_def)
  then have "order' = order" "db' = db" using run by simp_all
  then show ?thesis using ok names by (simp add: unit_step_refl)
next
  case True
  define missing where "missing \<longleftrightarrow> int (length (po_units order)) < po_qty order"
  define db1 where "db1 = (if missing then issue_for env (po_deal order) (po_participant order) (po_qty order) (po_type order) db else db)"
  from names obtain b d where row: "fb_participants db (po_participant order) = Some b" "br_deal b = po_deal order"
    "fb_deals db (po_deal order) = Some d" "dr_type d = po_type order" by (auto simp: names_order_def)
  have 1: "fulfil_ok db1" "unit_step P db db1" "fb_events db1 = fb_events db"
    using issue_for_ok [OF ok row, of env "po_qty order" P] ok by (auto simp: db1_def unit_step_refl)
  have names1: "names_order order db1" by (rule names_order_same [OF names]) (use 1(2) in \<open>simp_all add: unit_step_def\<close>)
  obtain order1 where order1: "(if missing then loadPhysicalOrderByParticipant (po_participant order) db1 else Some order) = Some order1"
    "names_order order1 db1" "po_participant order1 = po_participant order" "po_type order1 = PhysicalProduct"
    "\<not> missing \<Longrightarrow> order1 = order"
  proof (cases missing)
    case True
    from names1 obtain o1 where o1: "loadPhysicalOrderByParticipant (po_participant order) db1 = Some o1"
      by (auto simp: names_order_def loadPhysicalOrderByParticipant_def)
    moreover have "po_type o1 = PhysicalProduct" using o1 names1 \<open>po_type order = _ \<and> _\<close>
      by (auto simp: names_order_def loadPhysicalOrderByParticipant_def mapOrderRow_def)
    ultimately show ?thesis using that loaded_names [OF o1] True by simp
  next
    case False
    then show ?thesis using that names1 True \<open>po_type order = _ \<and> _\<close> by simp
  qed
  have run1: "(if orderCodeOf order1 \<noteq> None then (order1, db1) else mint_code (take 8 (de_digits env)) order1 db1) = (order', db')"
    using run True order1(1)
    by (simp add: ensurePhysicalOrderCredential_def Let_def db1_def missing_def issue_for_def split: if_splits)
  show ?thesis
  proof (cases "orderCodeOf order1")
    case (Some c)
    then have eq: "order' = order1" "db' = db1" using run1 by simp_all
    show ?thesis using 1 order1 unfolding eq by (cases missing) (auto simp: db1_def)
  next
    case None
    then have mint: "mint_code (take 8 (de_digits env)) order1 db1 = (order', db')" using run1 by simp
    have "list_all eight_digits (take 8 (de_digits env))" using env by (auto simp: draws_ok_def list_all_iff dest: in_set_takeD)
    from mint_code_ok [OF mint this 1(1) order1(2,4)]
    have 2: "fulfil_ok db'" "unit_step P db1 db'" "fb_events db' = fb_events db1"
      "order' = order1 \<and> db' = db1 \<or> loadPhysicalOrderByParticipant (po_participant order1) db' = Some order'" by auto
    have names': "names_order order' db' \<and> po_participant order' = po_participant order"
      using 2(4) order1(2,3) loaded_names by auto
    have "order' = order \<and> db' = db \<or> loadPhysicalOrderByParticipant (po_participant order) db' = Some order'"
      using 2(4) order1 by (cases missing) (auto simp: db1_def)
    then show ?thesis using 1 2 names' unit_step_trans by auto
  qed
qed

section \<open>Handing over and redeeming\<close>

lemma eligible_order:
  assumes "pv_eligible (verdict_of order)"
  shows "po_type order = PhysicalProduct \<and> po_deal_state order = D_Completed \<and> po_buyer order = B_DealCompleted
    \<and> (po_money order = M_ChargedSuccess \<or> po_money order = M_RecoveredCharge)"
  using assms
  by (auto simp: verdict_of_def decidePhysicalFulfillment_def decideFulfillmentIssuance_def verdict_def Let_def split: if_splits)

lemma eligible_entitled:
  assumes "loadPhysicalOrderByParticipant p db = Some order" and "pv_eligible (verdict_of order)"
  shows "entitled db p"
  using assms(1) eligible_order [OF assms(2)]
  by (auto simp: loadPhysicalOrderByParticipant_def mapOrderRow_def entitled_def split: option.splits)

lemma entitled_same:
  "fb_participants db' = fb_participants db \<Longrightarrow> fb_deals db' = fb_deals db \<Longrightarrow> entitled db' = entitled db"
  by (simp add: entitled_def fun_eq_iff)

lemma handoffs_append: "handoffs (events @ [e]) = handoffs events @ (if se_type e = ''fulfillment.handoff'' then se_units e else [])"
  by (simp add: handoffs_def)

lemma hand_le: "unit_le u (hand_unit now args order u)"
  by (auto simp: unit_le_def hand_unit_def to_hand_def handable_def redeemed_def unit_key_def)

lemma same_unit: "dense_units units \<Longrightarrow> u \<in> set units \<Longrightarrow> v \<in> set units \<Longrightarrow> unit_key u = unit_key v \<Longrightarrow> u = v"
  unfolding dense_units_def by (metis eq_key_imp_eq_value distinct_map inj_onD)

lemma write_handoff_ok:
  assumes run: "write_handoff now args order db = (outcome, db')" and ok: "fulfil_ok db" and P: "P (po_participant order)"
    and names: "names_order order db"
  shows "fulfil_ok db' \<and> unit_step P db db'"
proof -
  note D = fulfil_okD [OF ok]
  define marked where "marked = filter (to_hand (po_participant order)) (fb_units db)"
  have units: "fb_units db' = map (hand_unit now args order) (fb_units db)"
    and same: "fb_participants db' = fb_participants db" "fb_deals db' = fb_deals db" "fb_ids db' = fb_ids db"
    using run by (auto simp: write_handoff_def Let_def split: if_splits)
  have new: "redeemed (hand_unit now args order u) \<Longrightarrow> \<not> redeemed u \<Longrightarrow> P (fu_participant u)" for u
    using P by (auto simp: hand_unit_def to_hand_def split: if_splits)
  have step: "unit_step P db db'" by (rule unit_step_map [OF hand_le _ units same]) (use new in blast)
  have events: "handoffs (fb_events db') = handoffs (fb_events db) @ map unit_key marked"
    using run by (auto simp: write_handoff_def Let_def handoffs_append simp flip: marked_def split: if_splits)
  have fresh: "unit_key u \<notin> set (handoffs (fb_events db))" if "u \<in> set marked" for u
  proof
    assume "unit_key u \<in> set (handoffs (fb_events db))"
    with D(6) obtain v where "v \<in> set (fb_units db)" "unit_key v = unit_key u" "redeemed v" by blast
    moreover have "u \<in> set (fb_units db)" "\<not> redeemed u"
      using that by (auto simp: marked_def to_hand_def handable_def redeemed_def)
    ultimately show False using same_unit [OF D(1)] by blast
  qed
  have "distinct (map unit_key marked)" using D(1) unfolding marked_def dense_units_def by (blast intro: distinct_map_filter)
  then have distinct: "distinct (handoffs (fb_events db'))" using D(5) fresh by (auto simp: events)
  have "fulfil_ok db'"
  proof (rule keeps_codes_map [OF ok hand_le _ distinct _ units refl same(1,2)])
    show "fu_order_code (hand_unit now args order u) = fu_order_code u" for u by (simp add: hand_unit_def)
    show "k \<in> set (handoffs (fb_events db)) \<or> (\<exists>u \<in> set (fb_units db). unit_key u = k \<and> redeemed (hand_unit now args order u))"
      if "k \<in> set (handoffs (fb_events db'))" for k
      using that by (auto simp: events marked_def hand_unit_def redeemed_def)
  qed
  with step show ?thesis by blast
qed

lemma handoff_ok:
  assumes run: "handoffPhysicalOrder env now args db = (outcome, db')" and env: "draws_ok env" and ok: "fulfil_ok db"
  shows "fulfil_ok db' \<and> unit_step (entitled db) db db'"
proof (cases "replayed args db")
  case (Some r)
  then show ?thesis using run ok by (simp add: handoffPhysicalOrder_def unit_step_refl)
next
  case None
  show ?thesis
  proof (cases "loadPhysicalOrderByParticipant (ha_participant args) db")
    case load0: None
    then show ?thesis using run ok None by (simp add: handoffPhysicalOrder_def unit_step_refl)
  next
    case (Some locked)
    obtain order db1 where ensure: "ensurePhysicalOrderCredential env locked db = (order, db1)" by fastforce
    have names: "names_order locked db" "po_participant locked = ha_participant args" using loaded_names [OF Some] by auto
    from ensure_ok [OF ensure env ok names(1)]
    have 1: "fulfil_ok db1" "unit_step (entitled db) db db1" "names_order order db1" "po_participant order = ha_participant args"
      and load: "loadPhysicalOrderByParticipant (ha_participant args) db1 = Some order"
      using names Some by auto
    have ent: "entitled db1 = entitled db" using 1(2) by (intro entitled_same) (simp_all add: unit_step_def)
    have written: "fulfil_ok db2 \<and> unit_step (entitled db) db db2"
      if "write_handoff now args order db1 = (outcome', db2)" "pv_eligible (verdict_of order)" for outcome' db2
    proof -
      have "entitled db (po_participant order)" using eligible_entitled [OF load that(2)] 1(4) ent by simp
      from write_handoff_ok [where P = "entitled db", OF that(1) 1(1) this 1(3)] show ?thesis
        using unit_step_trans [OF 1(2)] by blast
    qed
    show ?thesis
    proof (cases "po_seller locked \<noteq> ha_seller args \<or> code_refused args locked")
      case True
      then show ?thesis using run None Some ok by (auto simp: handoffPhysicalOrder_def unit_step_refl)
    next
      case False
      then have body: "(let v = verdict_of order
                      in if pv_seller v = SV_already_fulfilled
                         then (Handed True False order (us_redeemed_at (summarizeUnits (po_units order))) 0, db1)
                         else if pv_seller v \<noteq> SV_ready \<or> \<not> pv_eligible v
                         then (Refused (HF_not_ready (case pv_reason v of None \<Rightarrow> NR_not_eligible | Some r \<Rightarrow> r) order), db1)
                         else case ha_expected args of
                             Some q \<Rightarrow> if q \<noteq> po_qty order then (Refused (HF_qty_mismatch q (po_qty order) order), db1)
                                       else write_handoff now args order db1
                           | None \<Rightarrow> write_handoff now args order db1) = (outcome, db')"
        using run None Some ensure by (simp add: handoffPhysicalOrder_def)
      show ?thesis
      proof (cases "db' = db1")
        case True
        then show ?thesis using 1 by simp
      next
        case False
        then have "write_handoff now args order db1 = (outcome, db')" "pv_eligible (verdict_of order)"
          using body by (auto simp: Let_def split: if_splits option.splits)
        then show ?thesis by (rule written)
      qed
    qed
  qed
qed

lemma redeem_key_le: "unit_le u (redeem_key now k u)"
  by (auto simp: unit_le_def redeem_key_def redeemed_def unit_key_def)

lemma redeem_unit_ok:
  assumes run: "redeem_unit now seller k db = Inr (again, db')" and ok: "fulfil_ok db"
  shows "fulfil_ok db' \<and> unit_step (entitled db) db db'"
proof (cases "db' = db")
  case True
  then show ?thesis using ok by (simp add: unit_step_refl)
next
  case False
  with run obtain u d b where u: "find (\<lambda>u. unit_key u = k) (fb_units db) = Some u" "fb_deals db (fu_deal u) = Some d"
    "fb_participants db (fu_participant u) = Some b" "fst (decideFulfillmentIssuance (dr_state d) (br_buyer b) (br_money b))"
    and units: "fb_units db' = map (redeem_key now k) (fb_units db)" and same: "fb_participants db' = fb_participants db"
      "fb_deals db' = fb_deals db" "fb_ids db' = fb_ids db" "fb_events db' = fb_events db"
    by (auto simp: redeem_unit_def split: option.splits if_splits)
  have mem: "u \<in> set (fb_units db)" "unit_key u = k" using find_SomeD [OF u(1)] by auto
  then have "br_deal b = fu_deal u" using fulfil_okD(2) [OF ok mem(1)] u(3) by (auto simp: unit_row_ok_def)
  then have ent: "entitled db (fu_participant u)"
    using u by (auto simp: entitled_def decideFulfillmentIssuance_def split: if_splits)
  have "unit_step (entitled db) db db'"
  proof (rule unit_step_map [OF redeem_key_le _ units same(1-3)])
    fix v assume "v \<in> set (fb_units db)" "redeemed (redeem_key now k v)" "\<not> redeemed v"
    then have "unit_key v = k" by (auto simp: redeem_key_def redeemed_def split: if_splits)
    with mem(2) have "unit_key v = unit_key u" by simp
    with ent show "entitled db (fu_participant v)" by (simp add: unit_key_eq)
  qed
  moreover have "fulfil_ok db'"
    by (rule keeps_codes_map [OF ok redeem_key_le _ _ _ units same(4,1,2)])
       (use fulfil_okD(5) [OF ok] in \<open>auto simp: redeem_key_def\<close>)
  ultimately show ?thesis by blast
qed

lemma stamp_receipt_le: "unit_le u (stamp_receipt p code u)"
  by (auto simp: unit_le_def stamp_receipt_def redeemed_def unit_key_def)

lemma redeem_participant_le: "unit_le u (redeem_participant now p actor u)"
  by (auto simp: unit_le_def redeem_participant_def redeemed_def unit_key_def)

lemma receipt_ok:
  assumes run: "receiptForOrder env random p b d db = Inr (answer, db')" and ok: "fulfil_ok db"
    and row: "fb_participants db p = Some b" "fb_deals db (br_deal b) = Some d"
  shows "fulfil_ok db' \<and> unit_step P db db' \<and> fb_events db' = fb_events db \<and> (answer \<noteq> None \<longrightarrow> entitled db p)"
proof -
  define db1 where "db1 = issue_for env (br_deal b) p (br_qty b) (dr_type d) db"
  from issue_for_ok [OF ok row(1) refl row(2) refl, of env "br_qty b" P]
  have 1: "fulfil_ok db1" "unit_step P db db1" "fb_events db1 = fb_events db" by (simp_all add: db1_def)
  consider "db' = db" "answer = None" | "db' = db1" "entitled db p"
    | "db' = db1\<lparr>fb_units := map (stamp_receipt p random) (fb_units db1)\<rparr>" "entitled db p"
    using run row
    by (auto simp: receiptForOrder_def Let_def entitled_def decideFulfillmentIssuance_def simp flip: db1_def split: if_splits)
  then show ?thesis
  proof cases
    case 1
    then show ?thesis using ok by (simp add: unit_step_refl)
  next
    case 2
    then show ?thesis using 1 by simp
  next
    case 3
    have "unit_step P db1 db'"
      by (rule unit_step_map [where f = "stamp_receipt p random", OF stamp_receipt_le])
         (auto simp: 3 stamp_receipt_def redeemed_def split: if_splits)
    moreover have "fulfil_ok db'"
      by (rule keeps_codes_map [where f = "stamp_receipt p random" and events = "fb_events db1", OF 1(1) stamp_receipt_le])
         (use fulfil_okD(5) [OF 1(1)] in \<open>auto simp: 3 stamp_receipt_def\<close>)
    ultimately show ?thesis using 1 3 unit_step_trans by auto
  qed
qed

lemma redeem_receipt_ok:
  assumes run: "redeemReceipt env random now seller p actor db = Inr (answer, db')" and ok: "fulfil_ok db"
  shows "fulfil_ok db' \<and> unit_step (entitled db) db db'"
proof -
  from run obtain b d r db1 where row: "fb_participants db p = Some b" "fb_deals db (br_deal b) = Some d"
    and first: "receiptForOrder env random p b d db = Inr (Some r, db1)"
    and rest: "(if rc_redeemed r then Inr ((True, Some r), db1)
                     else let db2 = db1\<lparr>fb_units := map (redeem_participant now p actor) (fb_units db1),
                                fb_events := fb_events db1 @ [\<lparr>se_seller = seller, se_type = ''fulfillment.redeem'',
                                  se_actor = actor, se_reason = ''seller_confirmation'', se_request = None, se_key = None,
                                  se_participant = p, se_qty = br_qty b, se_units = [], se_last4 = None\<rparr>]\<rparr>
                          in on_ok (receiptForOrder env random p b d db2) (\<lambda>(receipt', db3). Inr ((False, receipt'), db3)))
            = Inr (answer, db')"
    by (auto simp: redeemReceipt_def on_ok_Inr_iff split: option.splits if_splits prod.splits)
  from receipt_ok [OF first ok row, of "entitled db"]
  have 1: "fulfil_ok db1" "unit_step (entitled db) db db1" "entitled db p" by simp_all
  show ?thesis
  proof (cases "rc_redeemed r")
    case True
    then show ?thesis using rest 1 by simp
  next
    case False
    define db2 where "db2 = db1\<lparr>fb_units := map (redeem_participant now p actor) (fb_units db1),
                                fb_events := fb_events db1 @ [\<lparr>se_seller = seller, se_type = ''fulfillment.redeem'',
                                  se_actor = actor, se_reason = ''seller_confirmation'', se_request = None, se_key = None,
                                  se_participant = p, se_qty = br_qty b, se_units = [], se_last4 = None\<rparr>]\<rparr>"
    from rest False obtain receipt' where second: "receiptForOrder env random p b d db2 = Inr (receipt', db')"
      by (auto simp: Let_def on_ok_Inr_iff db2_def)
    have row1: "fb_participants db1 = fb_participants db" "fb_deals db1 = fb_deals db"
      using 1(2) by (simp_all add: unit_step_def)
    have step2: "unit_step (entitled db) db1 db2"
    proof (rule unit_step_map [where f = "redeem_participant now p actor", OF redeem_participant_le])
      fix u assume "u \<in> set (fb_units db1)" "redeemed (redeem_participant now p actor u)" "\<not> redeemed u"
      then have "fu_participant u = p" by (auto simp: redeem_participant_def split: if_splits)
      then show "entitled db (fu_participant u)" using 1(3) by simp
    qed (simp_all add: db2_def)
    have events2: "handoffs (fb_events db2) = handoffs (fb_events db1)" by (simp add: db2_def handoffs_append)
    have ok2: "fulfil_ok db2"
      by (rule keeps_codes_map [where f = "redeem_participant now p actor" and events = "fb_events db2", OF 1(1) redeem_participant_le])
         (use fulfil_okD(5) [OF 1(1)] events2 in \<open>auto simp: db2_def redeem_participant_def\<close>)
    from receipt_ok [OF second ok2, of "entitled db"] row row1
    have "fulfil_ok db'" "unit_step (entitled db) db2 db'" by (simp_all add: db2_def)
    then show ?thesis using 1(2) step2 unit_step_trans by blast
  qed
qed

lemma completed_ok:
  assumes ok: "fulfil_ok db"
  shows "fulfil_ok (issueFulfillmentForCompletedDeal env d db) \<and> unit_step P db (issueFulfillmentForCompletedDeal env d db)"
proof (cases "fb_deals db d")
  case None
  then show ?thesis using ok by (simp add: issueFulfillmentForCompletedDeal_def unit_step_refl)
next
  case (Some deal)
  have run: "fulfil_ok db2 \<and> unit_step P db0 db2"
    if "fold (\<lambda>(p, qty). issue_for env d p (max 1 (if qty = 0 then 1 else qty)) (dr_type deal)) es db0 = db2"
      and "fulfil_ok db0" and "fb_deals db0 d = Some deal"
      and "\<And>p q. (p, q) \<in> set es \<Longrightarrow> \<exists>b. fb_participants db0 p = Some b \<and> br_deal b = d" for es db0 db2
    using that
  proof (induction es arbitrary: db0)
    case (Cons e es)
    obtain p q where e: "e = (p, q)" by fastforce
    define db1 where "db1 = issue_for env d p (max 1 (if q = 0 then 1 else q)) (dr_type deal) db0"
    from Cons.prems(4) [of p q] obtain b where b: "fb_participants db0 p = Some b" "br_deal b = d" by (auto simp: e)
    have 1: "fulfil_ok db1" "unit_step P db0 db1"
      using issue_for_ok [OF Cons.prems(2) b Cons.prems(3) refl, of env _ P] by (auto simp: db1_def)
    have same: "fb_participants db1 = fb_participants db0" "fb_deals db1 = fb_deals db0" using 1(2) by (simp_all add: unit_step_def)
    have "fulfil_ok db2 \<and> unit_step P db1 db2"
    proof (rule Cons.IH [OF _ 1(1)])
      show "fold (\<lambda>(p, qty). issue_for env d p (max 1 (if qty = 0 then 1 else qty)) (dr_type deal)) es db1 = db2"
        using Cons.prems(1) by (simp add: e db1_def)
    qed (use Cons.prems(3,4) same in auto)
    then show ?case using 1(2) unit_step_trans by blast
  qed (simp add: unit_step_refl)
  have "\<exists>b. fb_participants db p = Some b \<and> br_deal b = d" if "(p, q) \<in> set (completed_eligible d db)" for p q
    using that by (auto simp: completed_eligible_def List.map_filter_def split: option.splits if_splits)
  then show ?thesis
    using run [OF refl ok Some, of "completed_eligible d db"] ok Some
    by (simp add: issueFulfillmentForCompletedDeal_def unit_step_refl)
qed

section \<open>Runs\<close>

text \<open>
  The rest of the program moves participants and deals at will; it deletes neither, moves no participant to
  another deal and does not change the type of a deal.
\<close>

definition outside_step :: "fulfil_db \<Rightarrow> fulfil_db \<Rightarrow> bool" where
  "outside_step db db' \<longleftrightarrow> fb_units db' = fb_units db \<and> fb_events db' = fb_events db \<and> fb_replays db' = fb_replays db
     \<and> (\<forall>p b. fb_participants db p = Some b \<longrightarrow> (\<exists>b'. fb_participants db' p = Some b' \<and> br_deal b' = br_deal b))
     \<and> (\<forall>i d. fb_deals db i = Some d \<longrightarrow> (\<exists>d'. fb_deals db' i = Some d' \<and> dr_type d' = dr_type d))"

text \<open>
  The credential is also ensured when an order is only shown; that order may have been read before other
  transactions committed.
\<close>

inductive fulfil_step :: "fulfil_db \<Rightarrow> fulfil_db \<Rightarrow> bool" where
  handoff: "draws_ok env \<Longrightarrow> handoffPhysicalOrder env now args db = (outcome, db') \<Longrightarrow> fulfil_step db db'"
| shown: "draws_ok env \<Longrightarrow> names_order order db \<Longrightarrow> ensurePhysicalOrderCredential env order db = (order', db') \<Longrightarrow> fulfil_step db db'"
| unit_redeemed: "redeem_unit now seller k db = Inr (again, db') \<Longrightarrow> fulfil_step db db'"
| receipt_shown: "fb_participants db p = Some b \<Longrightarrow> fb_deals db (br_deal b) = Some d
    \<Longrightarrow> receiptForOrder env random p b d db = Inr (answer, db') \<Longrightarrow> fulfil_step db db'"
| receipt_redeemed: "redeemReceipt env random now seller p actor db = Inr (answer, db') \<Longrightarrow> fulfil_step db db'"
| completed: "fulfil_step db (issueFulfillmentForCompletedDeal env d db)"
| outside: "outside_step db db' \<Longrightarrow> fulfil_step db db'"

inductive fulfil_run :: "fulfil_db \<Rightarrow> fulfil_db \<Rightarrow> bool" where
  start: "fulfil_run db db"
| more_steps: "fulfil_run db db1 \<Longrightarrow> fulfil_step db1 db2 \<Longrightarrow> fulfil_run db db2"

definition nothing_issued :: "fulfil_db \<Rightarrow> bool" where
  "nothing_issued db \<longleftrightarrow> fb_units db = [] \<and> fb_events db = [] \<and> fb_replays db = []"

lemma nothing_issued_ok: "nothing_issued db \<Longrightarrow> fulfil_ok db"
  by (rule fulfil_okI) (simp_all add: nothing_issued_def dense_units_def handoffs_def)

lemma outside_ok: "outside_step db db' \<Longrightarrow> fulfil_ok db \<Longrightarrow> fulfil_ok db'"
proof (rule fulfil_okI)
  assume out: "outside_step db db'" and ok: "fulfil_ok db"
  note D = fulfil_okD [OF ok]
  have same: "fb_units db' = fb_units db" "fb_events db' = fb_events db" using out by (simp_all add: outside_step_def)
  show "dense_units (fb_units db')" using D(1) same by simp
  show "unit_row_ok db' u" if "u \<in> set (fb_units db')" for u
  proof -
    from D(2) [of u] that same obtain b d where "fb_participants db (fu_participant u) = Some b" "br_deal b = fu_deal u"
      "fb_deals db (fu_deal u) = Some d" "dr_type d = fu_type u" by (auto simp: unit_row_ok_def)
    with out show ?thesis unfolding outside_step_def unit_row_ok_def by metis
  qed
  show "code_ok (fb_units db') u" if "u \<in> set (fb_units db')" for u using D(3) [of u] that same by simp
  show "fu_participant u = fu_participant v"
    if "u \<in> set (fb_units db')" "v \<in> set (fb_units db')" "coded u" "fu_order_code u = fu_order_code v" for u v
    using D(4) [of u v] that same by simp
  show "distinct (handoffs (fb_events db'))" using D(5) same by simp
  show "\<exists>u \<in> set (fb_units db'). unit_key u = k \<and> redeemed u" if "k \<in> set (handoffs (fb_events db'))" for k
    using D(6) [of k] that same by simp
qed

text \<open>Every step keeps the invariant, and moves units only as \<open>unit_step\<close> allows.\<close>

lemma fulfil_step_ok:
  assumes "fulfil_step db db'" and "fulfil_ok db"
  shows "fulfil_ok db' \<and> evolves unit_le (fb_units db) (fb_units db')
    \<and> (\<forall>u \<in> set (fb_units db'). redeemed u \<longrightarrow>
          (\<exists>v \<in> set (fb_units db). unit_key v = unit_key u \<and> redeemed v) \<or> entitled db (fu_participant u))"
  using assms(1)
proof cases
  case (handoff env now args outcome)
  from handoff_ok [OF this(2,1) assms(2)] show ?thesis by (simp add: unit_step_def)
next
  case (shown env order order')
  from ensure_ok [OF this(3,1) assms(2) this(2), of "entitled db"] show ?thesis by (simp add: unit_step_def)
next
  case (unit_redeemed now seller k again)
  from redeem_unit_ok [OF this assms(2)] show ?thesis by (simp add: unit_step_def)
next
  case (receipt_shown p b d env random answer)
  from receipt_ok [OF this(3) assms(2) this(1,2), of "entitled db"] show ?thesis by (simp add: unit_step_def)
next
  case (receipt_redeemed env random now seller p actor answer)
  from redeem_receipt_ok [OF this assms(2)] show ?thesis by (simp add: unit_step_def)
next
  case (completed env d)
  from completed_ok [OF assms(2), of env d "entitled db"] show ?thesis by (simp add: completed unit_step_def)
next
  case outside
  then have "fb_units db' = fb_units db" by (simp add: outside_step_def)
  then show ?thesis using outside_ok [OF outside assms(2)] by (auto intro: unit_table.grows_refl)
qed

lemma fulfil_run_ok:
  assumes "fulfil_run db db'" and "fulfil_ok db"
  shows "fulfil_ok db' \<and> evolves unit_le (fb_units db) (fb_units db')"
  using assms
proof induction
  case (more_steps db db1 db2)
  then have "fulfil_ok db1" "evolves unit_le (fb_units db) (fb_units db1)" by auto
  with fulfil_step_ok [OF more_steps.hyps(2)] show ?case using unit_table.grows_trans by blast
qed (auto intro: unit_table.grows_refl)

section \<open>The code of an order\<close>

lemma first_code_mem: "first_code us = Some c \<Longrightarrow> \<exists>u \<in> set us. fu_order_code u = Some c"
  by (induction us) (auto split: option.splits if_splits)

lemma shown_code:
  assumes ok: "fulfil_ok db" and load: "loadPhysicalOrderByParticipant p db = Some order" and code: "orderCodeOf order = Some c"
  obtains u ds where "u \<in> set (fb_units db)" "fu_participant u = p" "fu_deal u = po_deal order" "fu_order_code u = Some c"
    "fu_type u = PhysicalProduct" "eight_digits ds" "c = formatOrderCode ds"
proof -
  from first_code_mem code load obtain u where u: "u \<in> set (fb_units db)" "fu_participant u = p" "fu_order_code u = Some c"
    by (fastforce simp: orderCodeOf_def loadPhysicalOrderByParticipant_def mapOrderRow_def loadUnits_def split: option.splits)
  have "coded u" using u(3) by (simp add: coded_def)
  with fulfil_okD(3) [OF ok u(1)] obtain ds where "fu_type u = PhysicalProduct" "eight_digits ds" "c = formatOrderCode ds"
    using u(3) by (auto simp: code_ok_def)
  moreover have "fu_deal u = po_deal order"
    using fulfil_okD(2) [OF ok u(1)] u(2) load
    by (auto simp: unit_row_ok_def loadPhysicalOrderByParticipant_def mapOrderRow_def split: option.splits)
  ultimately show thesis using that u by blast
qed

lemma remdups_single: "set xs = {x} \<Longrightarrow> remdups xs = [x]"
proof -
  assume "set xs = {x}"
  then have x: "set (remdups xs) = {x}" and d: "distinct (remdups xs)" by simp_all
  from x obtain y ys where l: "remdups xs = y # ys" by (cases "remdups xs") auto
  with x d have "y = x" "x \<notin> set ys" "set ys \<subseteq> {x}" by auto
  then show "remdups xs = [x]" using l by (cases ys) auto
qed

lemma code_finds_order:
  assumes ok: "fulfil_ok db" and load: "loadPhysicalOrderByParticipant p db = Some order" and code: "orderCodeOf order = Some c"
    and d: "fb_deals db (po_deal order) = Some d"
  obtains ds where "eight_digits ds" "c = formatOrderCode ds"
    "\<And>s. dr_seller d = Some s \<Longrightarrow> findSellerOrderByCode s ds db = (Some order, False)"
    "\<And>s. dr_seller d \<noteq> Some s \<Longrightarrow> findSellerOrderByCode s ds db = (None, False)"
proof -
  from shown_code [OF ok load code] obtain u ds where u: "u \<in> set (fb_units db)" "fu_participant u = p" "fu_deal u = po_deal order"
    "fu_order_code u = Some c" "fu_type u = PhysicalProduct" and ds: "eight_digits ds" "c = formatOrderCode ds" by blast
  have nonempty: "formatOrderCode ds \<noteq> []" using formatOrderCode_digits [OF ds(1)] by simp
  have mine: "fu_participant v = p \<and> fu_deal v = po_deal order" if "v \<in> set (fb_units db)" "fu_order_code v = Some c" for v
  proof -
    have "fu_participant v = p"
      using fulfil_okD(4) [OF ok that(1) u(1)] that(2) u(2,4) by (simp add: coded_def)
    moreover have "fu_deal v = fu_deal u"
      using fulfil_okD(2) [OF ok that(1)] fulfil_okD(2) [OF ok u(1)] calculation u(2) by (auto simp: unit_row_ok_def)
    ultimately show ?thesis using u(3) by simp
  qed
  have yes: "findSellerOrderByCode s ds db = (Some order, False)" if s: "dr_seller d = Some s" for s
  proof -
    have "set (map fu_participant (filter (\<lambda>u. (case fb_deals db (fu_deal u) of None \<Rightarrow> False | Some d \<Rightarrow> dr_seller d = Some s)
        \<and> fu_type u = PhysicalProduct \<and> fu_order_code u = Some c) (fb_units db))) = {p}" (is "set (map _ ?matching) = _")
    proof
      show "set (map fu_participant ?matching) \<subseteq> {p}" using mine by auto
      have "u \<in> set ?matching" using u d s by simp
      then have "fu_participant u \<in> set (map fu_participant ?matching)" by (simp del: set_filter)
      then show "{p} \<subseteq> set (map fu_participant ?matching)" using u(2) by simp
    qed
    then have "code_matches s c db = [p]" unfolding code_matches_def by (rule remdups_single)
    moreover have "po_seller order = s"
      using load d s by (auto simp: loadPhysicalOrderByParticipant_def mapOrderRow_def split: option.splits)
    ultimately show ?thesis using load nonempty by (simp add: findSellerOrderByCode_def ds(2))
  qed
  have no: "findSellerOrderByCode s ds db = (None, False)" if s: "dr_seller d \<noteq> Some s" for s
  proof -
    have "filter (\<lambda>u. (case fb_deals db (fu_deal u) of None \<Rightarrow> False | Some d \<Rightarrow> dr_seller d = Some s)
        \<and> fu_type u = PhysicalProduct \<and> fu_order_code u = Some c) (fb_units db) = []"
      using d s mine by (auto simp: filter_empty_conv)
    then have "code_matches s c db = []" by (simp add: code_matches_def)
    then show ?thesis using nonempty by (simp add: findSellerOrderByCode_def ds(2))
  qed
  show thesis by (rule that [OF ds yes no])
qed

section \<open>The second handover\<close>

definition unit_state :: "fulfillment_unit \<Rightarrow> unit_key \<times> unit_status \<times> int option" where
  "unit_state u = (unit_key u, fu_status u, fu_redeemed_at u)"

definition unit_states :: "fulfil_db \<Rightarrow> (unit_key \<times> unit_status \<times> int option) list" where
  "unit_states db = map unit_state (fb_units db)"

definition units_of_participant :: "string \<Rightarrow> fulfil_db \<Rightarrow> fulfillment_unit list" where
  "units_of_participant p db = filter (\<lambda>u. fu_participant u = p) (fb_units db)"

lemma states_of_participant:
  "unit_states db' = unit_states db \<Longrightarrow> map unit_state (units_of_participant p db') = map unit_state (units_of_participant p db)"
proof -
  assume "unit_states db' = unit_states db"
  then have "filter (\<lambda>((d, q, i), s). q = p) (unit_states db') = filter (\<lambda>((d, q, i), s). q = p) (unit_states db)" by simp
  then show ?thesis by (simp add: unit_states_def units_of_participant_def filter_map comp_def unit_state_def unit_key_def)
qed

lemma states_handable:
  "map unit_state us = map unit_state vs \<Longrightarrow> length (filter handable us) = length (filter handable vs)
     \<and> length (filter redeemed us) = length (filter redeemed vs) \<and> length us = length vs"
proof -
  assume same: "map unit_state us = map unit_state vs"
  have handable: "length (filter handable us) = length (filter (\<lambda>(k, s, t). s = FU_Issued \<or> s = FU_Sent \<or> s = FU_Pending) (map unit_state us))" for us
    by (simp add: filter_map comp_def unit_state_def handable_def [abs_def])
  have redeemed: "length (filter redeemed us) = length (filter (\<lambda>(k, s, t). s = FU_Redeemed) (map unit_state us))" for us
    by (simp add: filter_map comp_def unit_state_def redeemed_def [abs_def])
  have "length us = length vs" using arg_cong [OF same, of length] by simp
  then show ?thesis unfolding handable [of us] handable [of vs] redeemed [of us] redeemed [of vs] same by blast
qed

lemma loaded_units: "loadPhysicalOrderByParticipant p db = Some order \<Longrightarrow> mset (po_units order) = mset (units_of_participant p db)"
  by (auto simp: loadPhysicalOrderByParticipant_def mapOrderRow_def loadUnits_def units_of_participant_def split: option.splits)

lemma mset_filter_length: "mset us = mset vs \<Longrightarrow> length (filter P us) = length (filter P vs) \<and> length us = length vs"
  by (metis mset_filter size_mset)

lemma count_units_counts:
  "us_issued (count_units us s) = us_issued s + length (filter handable us)
   \<and> us_redeemed (count_units us s) = us_redeemed s + length (filter redeemed us) \<and> us_total (count_units us s) = us_total s"
  by (induction us arbitrary: s) (auto simp: handable_def redeemed_def)

lemma eligible_iff:
  "pv_eligible (verdict_of order) \<longleftrightarrow> po_type order = PhysicalProduct \<and> po_deal_state order = D_Completed
     \<and> po_buyer order = B_DealCompleted \<and> (po_money order = M_ChargedSuccess \<or> po_money order = M_RecoveredCharge)"
  by (auto simp: verdict_of_def decidePhysicalFulfillment_def decideFulfillmentIssuance_def verdict_def Let_def)

lemma verdict_fulfilled:
  assumes "pv_eligible (verdict_of order)" and "filter handable (po_units order) = []" and "filter redeemed (po_units order) \<noteq> []"
  shows "pv_seller (verdict_of order) = SV_already_fulfilled"
proof -
  have "us_issued (summarizeUnits (po_units order)) = 0" "0 < us_redeemed (summarizeUnits (po_units order))"
    using assms by (simp_all add: summarizeUnits_def count_units_counts)
  moreover have "0 < us_total (summarizeUnits (po_units order))"
    using assms(3) by (cases "po_units order") (simp_all add: summarizeUnits_def count_units_counts)
  moreover have "po_money order = M_ChargedSuccess \<or> po_money order = M_RecoveredCharge"
    and "po_type order = PhysicalProduct" "po_deal_state order = D_Completed" "po_buyer order = B_DealCompleted"
    using assms(1) by (simp_all add: eligible_iff)
  ultimately show ?thesis
    by (elim disjE) (simp_all add: verdict_of_def decidePhysicalFulfillment_def decideFulfillmentIssuance_def verdict_def)
qed

lemma verdict_fulfilledD:
  assumes "pv_eligible (verdict_of order)" and "pv_seller (verdict_of order) = SV_already_fulfilled"
  shows "filter handable (po_units order) = [] \<and> filter redeemed (po_units order) \<noteq> []"
proof -
  have "po_money order = M_ChargedSuccess \<or> po_money order = M_RecoveredCharge"
    and "po_type order = PhysicalProduct" "po_deal_state order = D_Completed" "po_buyer order = B_DealCompleted"
    using assms(1) by (simp_all add: eligible_iff)
  with assms(2) have "us_issued (summarizeUnits (po_units order)) = 0 \<and> 0 < us_redeemed (summarizeUnits (po_units order))"
    by (elim disjE)
       (simp_all add: verdict_of_def decidePhysicalFulfillment_def decideFulfillmentIssuance_def verdict_def split: if_splits)
  then show ?thesis by (simp add: summarizeUnits_def count_units_counts)
qed

lemma mint_code_states: "unit_states (snd (mint_code digits order db)) = unit_states db"
proof (induction digits arbitrary: order db)
  case (Cons ds rest)
  have "unit_states (db\<lparr>fb_units := map (stamp_code p c l) (fb_units db)\<rparr>) = unit_states db" for p c l
    by (auto simp: unit_states_def stamp_code_def unit_state_def unit_key_def)
  then show ?case by (simp add: Let_def Cons.IH)
qed simp

text \<open>After the credential was ensured for an eligible order, none of its units is missing.\<close>

lemma ensure_complete:
  assumes run: "ensurePhysicalOrderCredential env locked db = (order, db1)" and ok: "fulfil_ok db"
    and load: "loadPhysicalOrderByParticipant p db = Some locked" and eligible: "pv_eligible (verdict_of locked)"
  shows "po_qty locked \<le> int (length (units_of_participant p db1))"
    and "po_qty locked \<le> int (length (po_units locked)) \<Longrightarrow> unit_states db1 = unit_states db"
proof -
  note D = fulfil_okD [OF ok]
  have type: "po_type locked = PhysicalProduct" using eligible by (simp add: eligible_iff)
  have len: "length (po_units locked) = length (units_of_participant p db)"
    using mset_filter_length loaded_units [OF load] by blast
  have p: "po_participant locked = p" using loaded_names [OF load] by simp
  define missing where "missing \<longleftrightarrow> int (length (po_units locked)) < po_qty locked"
  define db2 where "db2 = (if missing then issue_for env (po_deal locked) p (po_qty locked) (po_type locked) db else db)"
  have "ensurePhysicalOrderCredential env locked db =
      (case (if missing then loadPhysicalOrderByParticipant p db2 else Some locked) of
         None \<Rightarrow> (locked, db2)
       | Some refreshed \<Rightarrow> if orderCodeOf refreshed \<noteq> None then (refreshed, db2)
                           else mint_code (take 8 (de_digits env)) refreshed db2)"
    using type eligible p
    by (cases "int (length (po_units locked)) < po_qty locked")
       (simp_all add: ensurePhysicalOrderCredential_def Let_def db2_def missing_def issue_for_def cong: option.case_cong if_cong)
  then have "(case (if missing then loadPhysicalOrderByParticipant p db2 else Some locked) of
         None \<Rightarrow> (locked, db2)
       | Some refreshed \<Rightarrow> if orderCodeOf refreshed \<noteq> None then (refreshed, db2)
                           else mint_code (take 8 (de_digits env)) refreshed db2) = (order, db1)" using run by simp
  then have "db1 = db2 \<or> (\<exists>digits o'. mint_code digits o' db2 = (order, db1))"
    by (auto split: option.splits if_splits)
  then have "db1 = db2 \<or> (\<exists>digits o'. db1 = snd (mint_code digits o' db2))" by (metis snd_conv)
  then have states: "unit_states db1 = unit_states db2" using mint_code_states by auto
  have "po_qty locked \<le> int (length (units_of_participant p db2))"
  proof (cases missing)
    case True
    from issue_grows [OF D(1)] obtain new
      where new: "snd (issueFulfillmentUnitsForParticipant (de_sha256 env) (de_bytes env) (po_deal locked) p (po_qty locked) (po_type locked) (fb_units db)) = fb_units db @ new"
        "po_qty locked \<le> int (length (filter (of_order (po_deal locked) p) (fb_units db @ new)))" by blast
    have "length (filter (of_order (po_deal locked) p) xs) \<le> length (filter (\<lambda>u. fu_participant u = p) xs)" for xs
      by (induction xs) (auto simp: of_order_def)
    with new(2) have "po_qty locked \<le> int (length (filter (\<lambda>u. fu_participant u = p) (fb_units db @ new)))"
      by (meson int_ops(1) of_nat_mono order_trans)
    then show ?thesis using True by (simp add: db2_def issue_for_def new(1) units_of_participant_def)
  next
    case False
    then show ?thesis by (simp add: db2_def missing_def len)
  qed
  moreover have "length (units_of_participant p db1) = length (units_of_participant p db2)"
    using states_of_participant [OF states] by (metis length_map)
  ultimately show "po_qty locked \<le> int (length (units_of_participant p db1))" by simp
  show "unit_states db1 = unit_states db" if "po_qty locked \<le> int (length (po_units locked))"
    using that states by (simp add: db2_def missing_def)
qed

lemma handoffE:
  assumes "handoffPhysicalOrder env now args db = (Handed False r order t n, db')"
  obtains locked order0 db1 where "loadPhysicalOrderByParticipant (ha_participant args) db = Some locked"
    "po_seller locked = ha_seller args" "ensurePhysicalOrderCredential env locked db = (order0, db1)"
    "pv_eligible (verdict_of order0)" "write_handoff now args order0 db1 = (Handed False r order t n, db')"
proof -
  have fresh: "replayed args db = None"
    using assms by (auto simp: handoffPhysicalOrder_def replayed_def split: option.splits if_splits)
  then obtain locked where load: "loadPhysicalOrderByParticipant (ha_participant args) db = Some locked"
    using assms by (auto simp: handoffPhysicalOrder_def split: option.splits)
  obtain order0 db1 where ensure: "ensurePhysicalOrderCredential env locked db = (order0, db1)" by fastforce
  have "po_seller locked = ha_seller args \<and> pv_eligible (verdict_of order0) \<and> write_handoff now args order0 db1 = (Handed False r order t n, db')"
    using assms fresh load ensure
    by (auto simp: handoffPhysicalOrder_def Let_def split: if_splits option.splits)
  with that load ensure show thesis by blast
qed

lemma write_handoff_effect:
  assumes "write_handoff now args order0 db1 = (Handed False r order t n, db')"
  shows "0 < n" and "r = False" and "fb_units db' = map (hand_unit now args order0) (fb_units db1)"
    and "\<exists>u \<in> set (fb_units db1). to_hand (po_participant order0) u"
    and "fb_participants db' = fb_participants db1" and "fb_deals db' = fb_deals db1"
  using assms by (auto simp: write_handoff_def Let_def filter_empty_conv split: if_splits)

lemma after_handoff:
  assumes run: "handoffPhysicalOrder env now args db = (Handed False r order t n, db')" and ok: "fulfil_ok db" and env: "draws_ok env"
  obtains order' where "loadPhysicalOrderByParticipant (ha_participant args) db' = Some order'" "po_seller order' = ha_seller args"
    "pv_seller (verdict_of order') = SV_already_fulfilled" "pv_eligible (verdict_of order')"
    "po_qty order' \<le> int (length (po_units order'))" "0 < n"
proof -
  define p where "p = ha_participant args"
  from run obtain locked order0 db1 where load: "loadPhysicalOrderByParticipant p db = Some locked"
    and seller: "po_seller locked = ha_seller args" and ensure: "ensurePhysicalOrderCredential env locked db = (order0, db1)"
    and eligible: "pv_eligible (verdict_of order0)" and written: "write_handoff now args order0 db1 = (Handed False r order t n, db')"
    unfolding p_def by (rule handoffE)
  note effect = write_handoff_effect [OF written]
  have names: "names_order locked db" "po_participant locked = p" using loaded_names [OF load] by auto
  from ensure_ok [OF ensure env ok names(1), of "\<lambda>_. False"]
  have 1: "fulfil_ok db1" "unit_step (\<lambda>_. False) db db1" "po_participant order0 = p"
    and load1: "loadPhysicalOrderByParticipant p db1 = Some order0" using names load by auto
  have same: "fb_participants db' = fb_participants db" "fb_deals db' = fb_deals db"
    using effect(5,6) 1(2) by (simp_all add: unit_step_def)
  from load same obtain order' where load': "loadPhysicalOrderByParticipant p db' = Some order'"
    by (auto simp: loadPhysicalOrderByParticipant_def split: option.splits)
  have fields: "po_seller order' = po_seller locked" "po_qty order' = po_qty locked" "po_type order' = po_type order0"
    "po_deal_state order' = po_deal_state order0" "po_buyer order' = po_buyer order0" "po_money order' = po_money order0"
    "po_type order' = po_type locked" "po_deal_state order' = po_deal_state locked" "po_buyer order' = po_buyer locked" "po_money order' = po_money locked"
    using load load1 load' same effect(5,6)
    by (auto simp: loadPhysicalOrderByParticipant_def mapOrderRow_def split: option.splits)
  have eligible': "pv_eligible (verdict_of order')" using eligible fields by (simp add: eligible_iff)
  have eligible0: "pv_eligible (verdict_of locked)" using eligible' fields by (simp add: eligible_iff)
  have units': "units_of_participant p db' = map (hand_unit now args order0) (units_of_participant p db1)"
    unfolding units_of_participant_def effect(3) by (simp add: filter_map comp_def hand_unit_def cong: filter_cong)
  have type: "fu_type u = PhysicalProduct" if "u \<in> set (units_of_participant p db1)" for u
  proof -
    from that have "u \<in> set (fb_units db1)" "fu_participant u = p" by (auto simp: units_of_participant_def)
    with fulfil_okD(2) [OF 1(1)] load1 eligible show ?thesis
      by (fastforce simp: unit_row_ok_def loadPhysicalOrderByParticipant_def mapOrderRow_def eligible_iff split: option.splits)
  qed
  have "\<not> handable (hand_unit now args order0 u)" if u: "u \<in> set (units_of_participant p db1)" for u
    using type [OF u] u 1(3) by (auto simp: hand_unit_def to_hand_def handable_def units_of_participant_def)
  then have "filter handable (units_of_participant p db') = []" by (auto simp: units' filter_empty_conv)
  then have none: "filter handable (po_units order') = []"
    using mset_filter_length [OF loaded_units [OF load'], of handable] by simp
  from effect(4) obtain u where "u \<in> set (fb_units db1)" "to_hand p u" using 1(3) by auto
  then have "u \<in> set (units_of_participant p db1)" "redeemed (hand_unit now args order0 u)"
    by (simp_all add: units_of_participant_def hand_unit_def redeemed_def 1(3)) (simp add: to_hand_def)
  then have "hand_unit now args order0 u \<in> set (filter redeemed (units_of_participant p db'))" by (simp add: units')
  then have some: "filter redeemed (po_units order') \<noteq> []"
    using mset_filter_length [OF loaded_units [OF load'], of redeemed] by (metis length_0_conv length_pos_if_in_set less_irrefl)
  have "po_qty order' \<le> int (length (po_units order'))"
    using ensure_complete(1) [OF ensure ok load eligible0] mset_filter_length [OF loaded_units [OF load'], of redeemed]
    by (simp add: fields units')
  then show thesis
    using that [OF load' [unfolded p_def]] fields(1) seller verdict_fulfilled [OF eligible' none some] eligible' effect(1) by simp
qed

lemma second_handover:
  assumes load: "loadPhysicalOrderByParticipant (ha_participant args) db = Some order" and seller: "po_seller order = ha_seller args"
    and fulfilled: "pv_seller (verdict_of order) = SV_already_fulfilled" "pv_eligible (verdict_of order)"
    and complete: "po_qty order \<le> int (length (po_units order))" and digits: "ha_digits args = None"
    and ok: "fulfil_ok db" and env: "draws_ok env"
  shows "\<exists>replay order' t db'. handoffPhysicalOrder env now args db = (Handed True replay order' t 0, db')
    \<and> fb_events db' = fb_events db \<and> unit_states db' = unit_states db"
proof (cases "replayed args db")
  case (Some answer)
  then obtain replay order' t where "answer = Handed True replay order' t 0"
    by (auto simp: replayed_def split: option.splits if_splits)
  then show ?thesis using Some by (auto simp: handoffPhysicalOrder_def)
next
  case None
  obtain order1 db1 where ensure: "ensurePhysicalOrderCredential env order db = (order1, db1)" by fastforce
  have names: "names_order order db" "po_participant order = ha_participant args" using loaded_names [OF load] by auto
  from ensure_ok [OF ensure env ok names(1), of "\<lambda>_. False"]
  have 1: "unit_step (\<lambda>_. False) db db1" "fb_events db1 = fb_events db" "order1 = order \<and> db1 = db \<or>
      loadPhysicalOrderByParticipant (ha_participant args) db1 = Some order1" using names by auto
  have states: "unit_states db1 = unit_states db" by (rule ensure_complete(2) [OF ensure ok load fulfilled(2) complete])
  have load1: "loadPhysicalOrderByParticipant (ha_participant args) db1 = Some order1" using 1(3) load by auto
  have "pv_eligible (verdict_of order1)"
    using fulfilled(2) load load1 1(1)
    by (auto simp: eligible_iff unit_step_def loadPhysicalOrderByParticipant_def mapOrderRow_def split: option.splits)
  moreover have counts: "length (filter handable (po_units order1)) = length (filter handable (po_units order))"
    "length (filter redeemed (po_units order1)) = length (filter redeemed (po_units order))"
    using states_handable [OF states_of_participant [OF states]]
      mset_filter_length [OF loaded_units [OF load]] mset_filter_length [OF loaded_units [OF load1]] by metis+
  moreover have "filter handable (po_units order) = []" "filter redeemed (po_units order) \<noteq> []"
    using verdict_fulfilledD [OF fulfilled(2,1)] by simp_all
  ultimately have "pv_seller (verdict_of order1) = SV_already_fulfilled"
    by (intro verdict_fulfilled) auto
  then have "handoffPhysicalOrder env now args db
      = (Handed True False order1 (us_redeemed_at (summarizeUnits (po_units order1))) 0, db1)"
    using None load seller ensure digits by (simp add: handoffPhysicalOrder_def code_refused_def)
  then show ?thesis using 1(2) states by blast
qed

section \<open>What the rail guarantees\<close>

text \<open>C24: A unit is handed over once. Whatever sequence of handovers, redemptions, receipts, readings and
  issuings runs, from a database where nothing was issued, and however the rest of the program moves
  participants and deals in between: no unit is named by two handover events of the audit trail, each unit
  they name is redeemed, and a unit that was redeemed at any moment stays redeemed ever after, with the
  same instant and the same record of who handed it over.\<close>

theorem unit_handed_over_once:
  assumes "nothing_issued start_db" and "fulfil_run start_db db" and "fulfil_run db db'"
  shows "distinct (handoffs (fb_events db'))
    \<and> (\<forall>k \<in> set (handoffs (fb_events db')). \<exists>u \<in> set (fb_units db'). unit_key u = k \<and> redeemed u)
    \<and> (\<forall>u \<in> set (fb_units db). redeemed u \<longrightarrow>
         (\<exists>u' \<in> set (fb_units db'). unit_key u' = unit_key u \<and> redeemed u'
            \<and> fu_redeemed_at u' = fu_redeemed_at u \<and> fu_handoff u' = fu_handoff u))"
proof -
  have ok: "fulfil_ok db" using fulfil_run_ok [OF assms(2)] nothing_issued_ok [OF assms(1)] by blast
  have ok': "fulfil_ok db'" and le: "evolves unit_le (fb_units db) (fb_units db')"
    using fulfil_run_ok [OF assms(3) ok] by blast+
  have "\<exists>u' \<in> set (fb_units db'). unit_key u' = unit_key u \<and> redeemed u'
            \<and> fu_redeemed_at u' = fu_redeemed_at u \<and> fu_handoff u' = fu_handoff u"
    if "u \<in> set (fb_units db)" "redeemed u" for u
    using evolves_mem [OF le that(1)] that(2) by (auto simp: unit_le_def)
  with fulfil_okD(5,6) [OF ok'] show ?thesis by blast
qed

text \<open>C25: Nothing is handed over without a captured payment. If a transaction of the fulfillment rail, in any
  state it can be in, leaves a unit redeemed that was not redeemed before, then at that moment the deal of
  the unit is Completed, its buyer is DealCompleted and the money is charged and not refunded.\<close>

theorem redeemed_only_when_entitled:
  assumes "nothing_issued start_db" and "fulfil_run start_db db" and "fulfil_step db db'"
    and "u \<in> set (fb_units db')" and "redeemed u"
    and "\<not> (\<exists>v \<in> set (fb_units db). unit_key v = unit_key u \<and> redeemed v)"
  shows "entitled db (fu_participant u)"
  using fulfil_step_ok [OF assms(3)] fulfil_run_ok [OF assms(2)] nothing_issued_ok [OF assms(1)] assms(4-6) by blast

text \<open>What the buyer shows is what the seller finds. In every state the rail can reach, the address behind
  the QR image of an order is read back as digits under which the seller of the deal finds exactly this
  order, never an ambiguous answer, while for every other seller the code is unknown.\<close>

theorem scanned_code_finds_order:
  assumes "nothing_issued start_db" and "fulfil_run start_db db" and "loadPhysicalOrderByParticipant p db = Some order"
    and "by_qr_payload (buyerPickupProjection origin order) = Some qr" and "fb_deals db (po_deal order) = Some d"
    and "63 \<notin> set origin" and "38 \<notin> set origin" and "length origin \<le> 450"
  shows "\<exists>digits. normalizeOrderCodeInput (Some qr) = Some digits
    \<and> (\<forall>seller. findSellerOrderByCode seller digits db = (if dr_seller d = Some seller then (Some order, False) else (None, False)))"
proof -
  have ok: "fulfil_ok db" using fulfil_run_ok [OF assms(2)] nothing_issued_ok [OF assms(1)] by blast
  from assms(4) obtain c where code: "orderCodeOf order = Some c" and qr: "pickupQrPayload origin c = Some qr"
    by (auto simp: buyerPickupProjection_def Let_def split: if_splits option.splits)
  obtain ds where ds: "eight_digits ds" "c = formatOrderCode ds"
    and yes: "\<And>s. dr_seller d = Some s \<Longrightarrow> findSellerOrderByCode s ds db = (Some order, False)"
    and no: "\<And>s. dr_seller d \<noteq> Some s \<Longrightarrow> findSellerOrderByCode s ds db = (None, False)"
    by (rule code_finds_order [OF ok assms(3) code assms(5)]) (rule that)
  have "qr = qr_address origin ds" using qr pickup_payload [OF ds(1)] by (simp add: ds(2))
  then have "normalizeOrderCodeInput (Some qr) = Some ds" using normalize_qr [OF ds(1) assms(6-8)] by simp
  then show ?thesis using yes no by auto
qed

text \<open>Handing over twice in a row changes nothing the second time. Called again on the database a handover left,
  by the same seller for the same participant and without a code, with the same key or another, the
  handover succeeds, answers zero marked units, writes no event and changes the state of no unit.\<close>

theorem second_handover_changes_nothing:
  assumes "nothing_issued start_db" and "fulfil_run start_db db" and "draws_ok env" and "draws_ok env2"
    and "handoffPhysicalOrder env now args db = (Handed False r order t n, db')"
    and "ha_participant args2 = ha_participant args" and "ha_seller args2 = ha_seller args" and "ha_digits args2 = None"
  shows "0 < n \<and> (\<exists>replay order2 t2 db2. handoffPhysicalOrder env2 now2 args2 db' = (Handed True replay order2 t2 0, db2)
    \<and> fb_events db2 = fb_events db' \<and> unit_states db2 = unit_states db')"
proof -
  have ok: "fulfil_ok db" using fulfil_run_ok [OF assms(2)] nothing_issued_ok [OF assms(1)] by blast
  have ok': "fulfil_ok db'" using handoff_ok [OF assms(5,3) ok] by blast
  obtain order' where o': "loadPhysicalOrderByParticipant (ha_participant args) db' = Some order'" "po_seller order' = ha_seller args"
    "pv_seller (verdict_of order') = SV_already_fulfilled" "pv_eligible (verdict_of order')"
    "po_qty order' \<le> int (length (po_units order'))" "0 < n"
    by (rule after_handoff [OF assms(5) ok assms(3)])
  then show ?thesis
    using second_handover [of args2 db' order' env2 now2] assms(4,6-8) ok' by simp
qed

section \<open>A handover, concretely\<close>

definition pickup_sample :: fulfil_db where
  "pickup_sample =
     \<lparr>fb_ids = [''p1''],
      fb_participants = [''p1'' \<mapsto> \<lparr>br_deal = ''d1'', br_buyer = B_DealCompleted, br_money = M_ChargedSuccess, br_qty = 2,
                                  br_method = Some ''pickup''\<rparr>],
      fb_deals = [''d1'' \<mapsto> \<lparr>dr_seller = Some ''s1'', dr_state = D_Completed, dr_type = PhysicalProduct\<rparr>],
      fb_units = [], fb_replays = [], fb_events = []\<rparr>"

definition sample_draws :: draw_env where
  "sample_draws = \<lparr>de_sha256 = (\<lambda>_. ''''), de_bytes = (\<lambda>_. []), de_digits = [[49, 50, 51, 52, 53, 54, 55, 56]]\<rparr>"

definition sample_handoff :: handoff_args where
  "sample_handoff = \<lparr>ha_seller = ''s1'', ha_participant = ''p1'', ha_digits = None, ha_expected = Some 2, ha_source = ''scan'',
     ha_actor = ''seller:s1'', ha_request = ''r1'', ha_key = ''k1''\<rparr>"

definition handed_db :: fulfil_db where
  "handed_db = snd (handoffPhysicalOrder sample_draws 100 sample_handoff pickup_sample)"

definition handed_two :: "handoff_outcome \<Rightarrow> bool" where
  "handed_two outcome = (case outcome of Handed again r order t n \<Rightarrow> \<not> again \<and> n = 2 | _ \<Rightarrow> False)"

lemma sample_handed: "handed_two (fst (handoffPhysicalOrder sample_draws 100 sample_handoff pickup_sample))"
  by code_simp

lemma sample_handed_units: "map unit_state (fb_units handed_db) = [((''d1'', ''p1'', 1), FU_Redeemed, Some 100), ((''d1'', ''p1'', 2), FU_Redeemed, Some 100)]"
  by code_simp

lemma sample_draws_ok: "draws_ok sample_draws"
  by (simp add: draws_ok_def sample_draws_def eight_digits_def digit_unit_def)

lemma sample_nothing: "nothing_issued pickup_sample"
  by (simp add: nothing_issued_def pickup_sample_def)

lemma sample_step: "fulfil_step pickup_sample handed_db"
  unfolding handed_db_def by (rule fulfil_step.handoff [OF sample_draws_ok prod.collapse [symmetric]])

lemma sample_outcome:
  obtains r order t where "handoffPhysicalOrder sample_draws 100 sample_handoff pickup_sample = (Handed False r order t 2, handed_db)"
proof -
  obtain outcome where eq: "handoffPhysicalOrder sample_draws 100 sample_handoff pickup_sample = (outcome, handed_db)"
    unfolding handed_db_def by (metis prod.collapse)
  with sample_handed have "handed_two outcome" by simp
  then show thesis using that eq by (cases outcome) (auto simp: handed_two_def)
qed

text \<open>The database with one redeemed unit.\<close>

lemma sample_redeemed: "\<exists>u \<in> set (fb_units handed_db). redeemed u \<and> fu_participant u = ''p1'' \<and> fu_redeemed_at u = Some 100"
proof -
  have "((''d1'', ''p1'', 1), FU_Redeemed, Some 100) \<in> set (map unit_state (fb_units handed_db))" by (simp add: sample_handed_units)
  then obtain u where "u \<in> set (fb_units handed_db)" "unit_state u = ((''d1'', ''p1'', 1), FU_Redeemed, Some 100)" by force
  then show ?thesis by (intro bexI [of _ u]) (auto simp: unit_state_def unit_key_def redeemed_def)
qed

lemma unit_handed_over_once_witness:
  "distinct (handoffs (fb_events handed_db)) \<and> length (handoffs (fb_events handed_db)) = 2
   \<and> (\<exists>u \<in> set (fb_units handed_db). redeemed u \<and> fu_redeemed_at u = Some 100)"
proof -
  have "length (handoffs (fb_events handed_db)) = 2" by code_simp
  moreover have "fulfil_run pickup_sample handed_db" by (rule fulfil_run.more_steps [OF fulfil_run.start sample_step])
  ultimately show ?thesis
    using unit_handed_over_once [OF sample_nothing _ fulfil_run.start] sample_redeemed by blast
qed

lemma redeemed_only_when_entitled_witness: "entitled pickup_sample ''p1''"
proof -
  from sample_redeemed obtain u where u: "u \<in> set (fb_units handed_db)" "redeemed u" "fu_participant u = ''p1''" by blast
  have "\<not> (\<exists>v \<in> set (fb_units pickup_sample). unit_key v = unit_key u \<and> redeemed v)" by (simp add: pickup_sample_def)
  from redeemed_only_when_entitled [OF sample_nothing fulfil_run.start sample_step u(1,2) this] u(3) show ?thesis by simp
qed

definition handed_order :: physical_order where
  "handed_order = the (loadPhysicalOrderByParticipant ''p1'' handed_db)"

definition sample_origin :: js_units where
  "sample_origin = units_of ''https://siton.example''"

lemma scanned_code_finds_order_witness:
  "\<exists>digits. normalizeOrderCodeInput (by_qr_payload (buyerPickupProjection sample_origin handed_order)) = Some digits
     \<and> findSellerOrderByCode ''s1'' digits handed_db = (Some handed_order, False)
     \<and> findSellerOrderByCode ''s2'' digits handed_db = (None, False)"
proof -
  have "loadPhysicalOrderByParticipant ''p1'' handed_db \<noteq> None" by code_simp
  then have load: "loadPhysicalOrderByParticipant ''p1'' handed_db = Some handed_order" by (auto simp: handed_order_def)
  have "by_qr_payload (buyerPickupProjection sample_origin handed_order) \<noteq> None" by code_simp
  then obtain qr where qr: "by_qr_payload (buyerPickupProjection sample_origin handed_order) = Some qr" by blast
  have run: "fulfil_run pickup_sample handed_db" by (rule fulfil_run.more_steps [OF fulfil_run.start sample_step])
  have "map_option dr_seller (fb_deals handed_db (po_deal handed_order)) = Some (Some ''s1'')" by code_simp
  then obtain d where d: "fb_deals handed_db (po_deal handed_order) = Some d" "dr_seller d = Some ''s1''" by auto
  have origin: "63 \<notin> set sample_origin" "38 \<notin> set sample_origin" "length sample_origin \<le> 450" by code_simp+
  from scanned_code_finds_order [OF sample_nothing run load qr d(1) origin] d(2) qr show ?thesis by auto
qed

lemma second_handover_changes_nothing_witness:
  "\<exists>replay order2 t2 db2. handoffPhysicalOrder sample_draws 200 sample_handoff handed_db = (Handed True replay order2 t2 0, db2)
     \<and> unit_states db2 = unit_states handed_db"
proof -
  obtain r order t where first: "handoffPhysicalOrder sample_draws 100 sample_handoff pickup_sample = (Handed False r order t 2, handed_db)"
    by (rule sample_outcome)
  have "ha_digits sample_handoff = None" by (simp add: sample_handoff_def)
  from second_handover_changes_nothing [OF sample_nothing fulfil_run.start sample_draws_ok sample_draws_ok first refl refl this]
  show ?thesis by blast
qed

end
