(* ===== verification/PaymentRails.thy ===== *)
theory PaymentRails
  imports EventRuns
begin

text \<open>
  What the payment jobs of the worker share (\<open>src/app.ts\<close>, with \<open>src/payment_binding.ts\<close> and the
  contract of \<open>src/payment_provider.ts\<close>): a job is a sequence of transactions and provider requests.
  Between two steps other workers and webhooks may commit, a step may fail, and a request may be
  answered in any way, so all three are arguments of a run. What a job has committed stays when it
  stops. The log and the texts of cases are not modelled.
\<close>

section \<open>The provider\<close>

datatype provider_operation = OpAuthorization | OpCapture | OpRelease | OpRefund

datatype provider_state = PAuthorized | PCaptured | PReleased | PRefunded | PFailed | PPending | PUnknown

record ambiguity_policy =
  ap_same_identity_repeat_safe :: bool
  ap_negative_status_authoritative :: bool
  ap_settlement_horizon_ms :: int

definition FAIL_CLOSED_AMBIGUITY_POLICY :: ambiguity_policy where
  "FAIL_CLOSED_AMBIGUITY_POLICY =
     \<lparr>ap_same_identity_repeat_safe = False, ap_negative_status_authoritative = False, ap_settlement_horizon_ms = 24 * 60 * 60 * 1000\<rparr>"

text \<open>Amounts are in agorot and every request is in ILS.\<close>

record money_input =
  mi_amount :: jsnum
  mi_participant :: string
  mi_deal :: string
  mi_buyer :: string
  mi_correlation :: string
  mi_request :: string
  mi_authorization :: "string option"
  mi_capture :: "string option"

record reauthorize_input =
  ri_method :: string
  ri_amount :: jsnum
  ri_participant :: string
  ri_deal :: string
  ri_buyer :: string
  ri_replaced :: string
  ri_correlation :: string
  ri_request :: string

datatype provider_call =
    CaptureCall money_input
  | RecoverCall money_input bool
  | RefundCall money_input
  | ReleaseCall money_input
  | ReauthorizeCall reauthorize_input
  | StatusCall string provider_operation string

record execution_result =
  xr_provider :: string
  xr_class :: result_class
  xr_dispatched :: "bool option"
  xr_configuration_fault :: bool
  xr_reference :: "string option"
  xr_correlation :: "string option"
  xr_event :: "string option"
  xr_unusable :: bool
  xr_failure_code :: "string option"

record status_result =
  sr_reference :: "string option"
  sr_state :: provider_state
  sr_amount :: "jsnum option"
  sr_currency :: "string option"
  sr_final :: bool
  sr_matches :: "bool option"

datatype reauthorize_result =
    Reauthorized string "string option" bool "int option"
  | NotReauthorized string bool "bool option"

text \<open>The answers are indexed by the step of the run; \<open>None\<close> is a call that throws.\<close>

record provider =
  pv_code :: string
  pv_policy :: "ambiguity_policy option"
  pv_capture :: "nat \<Rightarrow> money_input \<Rightarrow> execution_result option"
  pv_recover :: "nat \<Rightarrow> money_input \<Rightarrow> execution_result option"
  pv_refund :: "nat \<Rightarrow> money_input \<Rightarrow> execution_result option"
  pv_release :: "(nat \<Rightarrow> money_input \<Rightarrow> execution_result option) option"
  pv_reauthorize :: "(nat \<Rightarrow> reauthorize_input \<Rightarrow> reauthorize_result option) option"
  pv_status :: "(nat \<Rightarrow> string \<Rightarrow> provider_operation \<Rightarrow> status_result option) option"

definition providerAmbiguityPolicy :: "provider \<Rightarrow> ambiguity_policy" where
  "providerAmbiguityPolicy pv = (case pv_policy pv of Some p \<Rightarrow> p | None \<Rightarrow> FAIL_CLOSED_AMBIGUITY_POLICY)"

definition classifyMoneyOutcome :: "execution_result \<Rightarrow> dispatch_outcome" where
  "classifyMoneyOutcome result =
     (if xr_class result = R_Success then OutSuccess
      else if xr_class result = R_PermanentFail then OutPermanentFail
      else if xr_class result = R_TemporaryFail \<and> xr_dispatched result = Some False then OutPreDispatchFailure
      else OutUnknown)"

section \<open>The database of the jobs\<close>

text \<open>
  The authorization binding a participant consumed; \<open>md_bindings\<close> holds the amount and currency of the
  same row. \<open>wd_ids\<close> are the participants in the order of creation, \<open>wd_methods\<close> the newest active stored
  instrument of a buyer at a provider.
\<close>

record auth_binding =
  ab_buyer :: string
  ab_authorization :: string
  ab_reference :: "string option"
  ab_expires :: "int option"
  ab_method :: "string option"
  ab_established :: int
  ab_replaced :: "string option"
  ab_renewals :: int
  ab_reason :: "string option"

record worker_db = money_db +
  wd_ids :: "string list"
  wd_buyer :: "string \<Rightarrow> string"
  wd_threshold :: "string \<Rightarrow> int"
  wd_deadline :: "string \<Rightarrow> int option"
  wd_auths :: "string \<Rightarrow> auth_binding option"
  wd_methods :: "string \<Rightarrow> string \<Rightarrow> string option"

definition members_of :: "string \<Rightarrow> 'a worker_db_scheme \<Rightarrow> string list" where
  "members_of d db = filter (\<lambda>p. participant_of p d db \<noteq> None) (wd_ids db)"

definition in_states :: "string \<Rightarrow> string \<Rightarrow> (buyer_state \<Rightarrow> money_state \<Rightarrow> bool) \<Rightarrow> 'a worker_db_scheme \<Rightarrow> bool" where
  "in_states p d P db = (case participant_of p d db of None \<Rightarrow> False | Some s \<Rightarrow> P (pt_buyer s) (pt_money s))"

text \<open>
  A payload is the text of its fields in their order, each closed by a comma, \<open>null\<close> for an absent one;
  the identifiers and references the jobs read back contain no comma.
\<close>

definition payload_text :: "string option list \<Rightarrow> string" where
  "payload_text vs = concat (map (\<lambda>v. (case v of None \<Rightarrow> ''null'' | Some s \<Rightarrow> s) @ '','') vs)"

fun payload_field :: "nat \<Rightarrow> string \<Rightarrow> string option" where
  "payload_field 0 text = (let f = takeWhile (\<lambda>c. c \<noteq> CHR '','') text in if f = ''null'' \<or> f = text then None else Some f)"
| "payload_field (Suc n) text = payload_field n (drop 1 (dropWhile (\<lambda>c. c \<noteq> CHR '','') text))"

text \<open>A field of the newest audit row of a participant with one of the actions.\<close>

definition audit_field :: "string list \<Rightarrow> nat \<Rightarrow> string \<Rightarrow> 'a lifecycle_db_scheme \<Rightarrow> string option" where
  "audit_field actions n p db =
     (case find (\<lambda>a. change_entity (al_change a) = Participant \<and> al_entityId a = p \<and> List.member actions (al_action a)) (rev (ld_audit db)) of
        None \<Rightarrow> None
      | Some a \<Rightarrow> payload_field n (al_payload a))"

definition join_authorization :: "string \<Rightarrow> 'a lifecycle_db_scheme \<Rightarrow> string option" where
  "join_authorization = audit_field [''participant.join_authorize''] 0"

definition authorization_reference :: "string \<Rightarrow> 'a worker_db_scheme \<Rightarrow> string" where
  "authorization_reference p db =
     (case text_or (case wd_auths db p of None \<Rightarrow> None | Some b \<Rightarrow> ab_reference b) (join_authorization p db) of
        None \<Rightarrow> '''' | Some s \<Rightarrow> s)"

definition amount_due :: "string \<Rightarrow> 'a worker_db_scheme \<Rightarrow> jsnum" where
  "amount_due p db =
     (case fd_participants (md_fees db) p of
        None \<Rightarrow> paymentMinorAmount (Fin 0) (Fin 0) (Fin 0)
      | Some row \<Rightarrow> paymentMinorAmount (cr_qty row) (cr_price row) (cr_delivery row))"

section \<open>Jobs\<close>

datatype job_stop =
    Deferred string int
  | PermanentStop string
  | LeaseLost string
  | Thrown lifecycle_error
  | JobError string
  | ProviderThrew
  | ConnectionLost

text \<open>What a job leaves to best-effort calls outside the model.\<close>

datatype job_follow =
    EventFollow follow_up string
  | NotifyParticipant string string
  | NotifySeller string string
  | ChargeReceipt string
  | IssueFulfillment string
  | PreparePayout string

text \<open>Every provider request is recorded with the database the job had committed or read just before it.\<close>

record 'db job_state =
  js_step :: nat
  js_calls :: "(provider_call \<times> 'db) list"
  js_follow :: "job_follow list"
  js_db :: 'db

record 'db job_env =
  je_now :: "nat \<Rightarrow> int"
  je_uuid :: "nat \<Rightarrow> string"
  je_others :: "nat \<Rightarrow> 'db \<Rightarrow> 'db"
  je_fails :: "nat \<Rightarrow> bool"
  je_provider :: provider
  je_apply :: apply_env
  je_stale :: int
  je_cfg :: outbox_cfg
  je_window_minutes :: int
  je_io_margin :: int
  je_renewal_margin :: int

type_synonym ('db, 'a) job = "'db job_state \<Rightarrow> (job_stop + 'a) \<times> 'db job_state"

definition jreturn :: "'a \<Rightarrow> ('db, 'a) job" where
  "jreturn a s = (Inr a, s)"

definition jstop :: "job_stop \<Rightarrow> ('db, 'a) job" where
  "jstop e s = (Inl e, s)"

definition jbind :: "('db, 'a) job \<Rightarrow> ('a \<Rightarrow> ('db, 'b) job) \<Rightarrow> ('db, 'b) job" where
  "jbind m f s = (case m s of (Inl e, s') \<Rightarrow> (Inl e, s') | (Inr a, s') \<Rightarrow> f a s')"

text \<open>\<open>.catch(() => d)\<close>: what the call committed stays.\<close>

definition jcatch :: "('db, 'a) job \<Rightarrow> 'a \<Rightarrow> ('db, 'a) job" where
  "jcatch m d s = (case m s of (Inl e, s') \<Rightarrow> (Inr d, s') | r \<Rightarrow> r)"

text \<open>
  One transaction on what the others left: a body that throws rolls back. A job whose process dies is one
  whose steps all fail from some step on.
\<close>

definition jtx :: "'db job_env \<Rightarrow> (int \<Rightarrow> string \<Rightarrow> 'db \<Rightarrow> job_stop + 'a \<times> 'db) \<Rightarrow> ('db, 'a) job" where
  "jtx env body s =
     (let n = js_step s; db = je_others env n (js_db s); s1 = s\<lparr>js_step := Suc n, js_db := db\<rparr>
      in if je_fails env n then (Inl ConnectionLost, s1)
         else case body (je_now env n) (je_uuid env n) db of
             Inl e \<Rightarrow> (Inl e, s1)
           | Inr (a, db') \<Rightarrow> (Inr a, s1\<lparr>js_db := db'\<rparr>))"

definition jread :: "'db job_env \<Rightarrow> (int \<Rightarrow> 'db \<Rightarrow> 'a) \<Rightarrow> ('db, 'a) job" where
  "jread env f = jtx env (\<lambda>now uuid db. Inr (f now db, db))"

definition jwrite :: "'db job_env \<Rightarrow> (int \<Rightarrow> string \<Rightarrow> 'db \<Rightarrow> 'db) \<Rightarrow> ('db, unit) job" where
  "jwrite env f = jtx env (\<lambda>now uuid db. Inr ((), f now uuid db))"

definition jledger :: "'db job_env \<Rightarrow> (int \<Rightarrow> 'db \<Rightarrow> lifecycle_error + 'a \<times> 'db) \<Rightarrow> ('db, 'a) job" where
  "jledger env f = jtx env (\<lambda>now uuid db. map_error Thrown (f now db))"

text \<open>The worker's clock, and a request to the provider.\<close>

definition jnow :: "'db job_env \<Rightarrow> ('db, int) job" where
  "jnow env s = (Inr (je_now env (js_step s)), s)"

definition jcall :: "'db job_env \<Rightarrow> provider_call \<Rightarrow> (nat \<Rightarrow> 'a option) \<Rightarrow> ('db, 'a) job" where
  "jcall env call answer s =
     (let n = js_step s
      in if je_fails env n then (Inl ConnectionLost, s\<lparr>js_step := Suc n\<rparr>)
         else (case answer n of None \<Rightarrow> Inl ProviderThrew | Some a \<Rightarrow> Inr a, s\<lparr>js_step := Suc n, js_calls := js_calls s @ [(call, js_db s)]\<rparr>))"

definition jfollow :: "job_follow list \<Rightarrow> ('db, unit) job" where
  "jfollow fs s = (Inr (), s\<lparr>js_follow := js_follow s @ fs\<rparr>)"

fun jfor :: "'a list \<Rightarrow> ('a \<Rightarrow> ('db, unit) job) \<Rightarrow> ('db, unit) job" where
  "jfor [] f = jreturn ()"
| "jfor (x # xs) f = jbind (f x) (\<lambda>_. jfor xs f)"

section \<open>Cases and jobs\<close>

definition openPaymentOperationalCase :: "('a worker_db_scheme) job_env \<Rightarrow> string \<Rightarrow> string option \<Rightarrow> ('a worker_db_scheme, unit) job" where
  "openPaymentOperationalCase env autoKey correlation =
     jcatch (jwrite env (\<lambda>now uuid db. db\<lparr>md_cases := openPaymentOperationalCaseInTx (KeyedCase autoKey) correlation (md_cases db)\<rparr>)) ()"

text \<open>\<open>INSERT ... ON CONFLICT DO NOTHING\<close> of a pending job, with its row count.\<close>

definition pending_job :: "string \<Rightarrow> string \<Rightarrow> string \<Rightarrow> string \<Rightarrow> string \<Rightarrow> int \<Rightarrow> outbox_row" where
  "pending_job uuid event_type aggregate_type aggregate_id payload available_at =
     \<lparr>ob_id = uuid, ob_event_type = event_type, ob_aggregate_type = aggregate_type, ob_aggregate_id = aggregate_id,
      ob_payload = payload, ob_status = Pending, ob_attempt_count = 0, ob_max_attempts = 10, ob_available_at = available_at,
      ob_sent_at = None, ob_processing_started_at = None, ob_claimed_at = None, ob_lease_expires_at = None,
      ob_worker_id = None, ob_last_attempt_at = None, ob_last_heartbeat_at = None, ob_lease_generation = 0,
      ob_last_error = None, ob_correlation_id = '''', ob_request_id = ''''\<rparr>"

definition enqueue_once :: "outbox_row \<Rightarrow> 'a lifecycle_db_scheme \<Rightarrow> bool \<times> 'a lifecycle_db_scheme" where
  "enqueue_once row db =
     (case insert_outbox_event row (ld_outbox db) of
        Inl e \<Rightarrow> (False, db)
      | Inr outbox \<Rightarrow> (True, db\<lparr>ld_outbox := outbox\<rparr>))"

definition live_job :: "string \<Rightarrow> string \<Rightarrow> string \<Rightarrow> outbox_row \<Rightarrow> bool" where
  "live_job event_type aggregate_type aggregate_id r \<longleftrightarrow>
     ob_event_type r = event_type \<and> ob_aggregate_type r = aggregate_type \<and> ob_aggregate_id r = aggregate_id
     \<and> (ob_status r = Pending \<or> ob_status r = Processing)"

record reconcile_payload =
  rp_participant :: string
  rp_deal :: string
  rp_type :: attempt_type
  rp_correlation :: string
  rp_operation :: provider_operation
  rp_reference :: "string option"
  rp_reason :: string

definition operation_name :: "provider_operation \<Rightarrow> string" where
  "operation_name operation = (case operation of OpAuthorization \<Rightarrow> ''authorization'' | OpCapture \<Rightarrow> ''capture''
     | OpRelease \<Rightarrow> ''release'' | OpRefund \<Rightarrow> ''refund'')"

definition reconcile_text :: "reconcile_payload \<Rightarrow> string" where
  "reconcile_text p = payload_text [Some (rp_participant p), Some (rp_deal p), Some (type_name (rp_type p)), Some (rp_correlation p),
     Some (operation_name (rp_operation p)), rp_reference p, Some (rp_reason p)]"

datatype schedule_answer = Scheduled | AlreadyPending | QueuedBehind

definition schedule_reconcile_in_tx :: "reconcile_payload \<Rightarrow> int \<Rightarrow> string \<Rightarrow> 'a lifecycle_db_scheme \<Rightarrow> schedule_answer \<times> 'a lifecycle_db_scheme" where
  "schedule_reconcile_in_tx args now uuid db =
     (case enqueue_once (pending_job uuid ''payment_reconcile'' ''participant'' (rp_participant args) (reconcile_text args) now) db of
        (True, db') \<Rightarrow> (Scheduled, db')
      | (False, db') \<Rightarrow>
          (case find (live_job ''payment_reconcile'' ''participant'' (rp_participant args)) (odb_events (ld_outbox db')) of
             None \<Rightarrow> (AlreadyPending, db')
           | Some r \<Rightarrow>
               (case payload_field 3 (ob_payload r) of
                  None \<Rightarrow> (AlreadyPending, db')
                | Some c \<Rightarrow> (if c = '''' \<or> c = rp_correlation args then AlreadyPending else QueuedBehind, db'))))"

definition schedulePaymentReconcile :: "('a worker_db_scheme) job_env \<Rightarrow> reconcile_payload \<Rightarrow> ('a worker_db_scheme, schedule_answer) job" where
  "schedulePaymentReconcile env args =
     jbind (jtx env (\<lambda>now uuid db. Inr (schedule_reconcile_in_tx args now uuid db))) (\<lambda>outcome.
     jbind (if outcome = QueuedBehind
            then openPaymentOperationalCase env
                   (''payment-reconcile-queued-behind:'' @ rp_participant args @ '':'' @ rp_correlation args) (Some (rp_correlation args))
            else jreturn ()) (\<lambda>_.
       jreturn outcome))"

definition schedulePaymentRelease :: "('a worker_db_scheme) job_env \<Rightarrow> string \<Rightarrow> string \<Rightarrow> string \<Rightarrow> ('a worker_db_scheme, unit) job" where
  "schedulePaymentRelease env p d reason =
     jwrite env (\<lambda>now uuid db. snd (enqueue_once (pending_job uuid ''payment_release'' ''participant'' p
       (payload_text [Some p, Some d, Some reason]) now) db))"

definition held_money :: "money_state \<Rightarrow> bool" where
  "held_money m \<longleftrightarrow> List.member [M_AuthHeld, M_AuthLocked, M_ChargeFailedRecovery, M_ChargeAttempt] m"

definition scheduleAuthorizationReleasesForDeal :: "('a worker_db_scheme) job_env \<Rightarrow> string \<Rightarrow> string \<Rightarrow> ('a worker_db_scheme, unit) job" where
  "scheduleAuthorizationReleasesForDeal env d reason =
     jbind (jread env (\<lambda>now db. filter (\<lambda>p. in_states p d (\<lambda>b. held_money) db) (members_of d db))) (\<lambda>held.
       jfor held (\<lambda>p. jcatch (schedulePaymentRelease env p d reason) ()))"

section \<open>Authority of the job\<close>

record job_event =
  ev_uuid :: string
  ev_type :: string
  ev_aggregate :: string
  ev_generation :: "int option"
  ev_attempts :: int
  ev_max_attempts :: int

text \<open>A job that is not under a lease is not fenced here; its arm is refused below.\<close>

definition assertOutboxLeaseForProviderIo :: "('a worker_db_scheme) job_env \<Rightarrow> job_event \<Rightarrow> ('a worker_db_scheme, unit) job" where
  "assertOutboxLeaseForProviderIo env event =
     (case ev_generation event of
        None \<Rightarrow> jreturn ()
      | Some g \<Rightarrow>
          if g < 1 then jreturn ()
          else jbind (jtx env (\<lambda>now uuid db.
                 case assertLeaseForProviderIo (je_cfg env) now uuid (ev_uuid event) g (je_io_margin env) (ld_outbox db) of
                   Inl e \<Rightarrow> Inl (LeaseLost (ev_uuid event))
                 | Inr (owned, outbox) \<Rightarrow> Inr (owned, db\<lparr>ld_outbox := outbox\<rparr>))) (\<lambda>owned.
               if owned then jreturn () else jstop (LeaseLost (ev_uuid event))))"

text \<open>What every money request of a job is about.\<close>

record money_operation =
  io_event :: job_event
  io_participant :: string
  io_deal :: string
  io_type :: attempt_type
  io_correlation :: string

definition owner_of :: "job_event \<Rightarrow> dispatch_owner" where
  "owner_of event = (ev_uuid event, case ev_generation event of None \<Rightarrow> 0 | Some g \<Rightarrow> g)"

definition arm_request :: "('a worker_db_scheme) job_env \<Rightarrow> money_operation \<Rightarrow> money_state list \<Rightarrow> buyer_state list option \<Rightarrow> string option \<Rightarrow> deal_gate option \<Rightarrow> arm_args" where
  "arm_request env op moneys buyers reference gate =
     (let policy = providerAmbiguityPolicy (je_provider env)
      in \<lparr>ar_participant = io_participant op, ar_deal = io_deal op, ar_type = io_type op, ar_correlation = io_correlation op,
          ar_event = ev_uuid (io_event op), ar_generation = ev_generation (io_event op), ar_worker = oc_worker (je_cfg env),
          ar_min_lease_ms = 0, ar_money_states = moneys, ar_buyer_states = buyers, ar_reference = reference,
          ar_horizon_ms = (if capture_side (io_type op) then Some (ap_settlement_horizon_ms policy) else None),
          ar_authoritative = (if capture_side (io_type op) then Some (ap_negative_status_authoritative policy) else None),
          ar_gate = gate\<rparr>)"

definition armMoneyOperation ::
    "('a worker_db_scheme) job_env \<Rightarrow> money_operation \<Rightarrow> money_state list \<Rightarrow> buyer_state list option \<Rightarrow> string option \<Rightarrow> deal_gate option \<Rightarrow>
     ('a worker_db_scheme, bool) job" where
  "armMoneyOperation env op moneys buyers reference gate =
     jbind (assertOutboxLeaseForProviderIo env (io_event op)) (\<lambda>_.
     jbind (jledger env (\<lambda>now. armProviderDispatch now (arm_request env op moneys buyers reference gate))) (\<lambda>armed.
       if armed = Armed then jreturn True
       else if armed = ArmLeaseLost then jstop (LeaseLost (ev_uuid (io_event op)))
       else if armed = DealPhaseClosed
       then jbind (jcatch (jledger env (\<lambda>now. retireNeverDispatchedInTx now (io_participant op) (io_deal op) [io_type op]
                     ''arm_refused:deal_phase_closed'')) []) (\<lambda>_. jreturn False)
       else jreturn False))"

definition settleOwnedMoneyOperation ::
    "('a worker_db_scheme) job_env \<Rightarrow> money_operation \<Rightarrow> dispatch_outcome \<Rightarrow> string option \<Rightarrow> string option \<Rightarrow>
     (int \<Rightarrow> 'a worker_db_scheme \<Rightarrow> lifecycle_error + 'a worker_db_scheme) option \<Rightarrow> ('a worker_db_scheme, unit) job" where
  "settleOwnedMoneyOperation env op outcome reference note inside =
     jbind (jledger env (\<lambda>now. settleProviderDispatch now (io_participant op) (io_deal op) (io_type op) (io_correlation op)
              (owner_of (io_event op)) outcome reference note (map_option (\<lambda>body. body now) inside))) (\<lambda>settled.
       case settled of
         DispatchSettled \<Rightarrow> jreturn ()
       | ForeignOwner \<Rightarrow> jstop (LeaseLost (ev_uuid (io_event op)))
       | DispatchMissing \<Rightarrow> jstop (JobError (''payment_attempt_identity_missing '' @ type_name (io_type op) @ '' '' @ io_correlation op)))"

section \<open>Transitions and events of a job\<close>

text \<open>
  The bodies of the finalizer throw a deferral by its reason; it is retried after the margin of one
  provider call.
\<close>

definition stop_of :: "'db job_env \<Rightarrow> int \<Rightarrow> lifecycle_error \<Rightarrow> job_stop" where
  "stop_of env now e =
     (case e of
        BodyRejected reason \<Rightarrow>
          if take 9 reason = ''finalize_'' then Deferred reason (now + je_io_margin env) else Thrown e
      | _ \<Rightarrow> Thrown e)"

definition jtransition ::
    "('a worker_db_scheme) job_env \<Rightarrow> (int \<Rightarrow> string \<Rightarrow> 'a worker_db_scheme multi_args) \<Rightarrow> ('a worker_db_scheme, unit) job" where
  "jtransition env call =
     jtx env (\<lambda>now uuid db. case atomicMultiTransition (call now uuid) now db of
         Inl e \<Rightarrow> Inl (stop_of env now e)
       | Inr out \<Rightarrow> Inr ((), Lifecycle.mo_db out))"

definition participant_args ::
    "string \<Rightarrow> string \<Rightarrow> state_change \<Rightarrow> string \<Rightarrow> string \<Rightarrow> string \<Rightarrow> string \<Rightarrow> ('db \<Rightarrow> lifecycle_error + 'db) option \<Rightarrow> 'db multi_args" where
  "participant_args p d change action request key payload inside =
     \<lparr>ma_action = action, ma_request = request, ma_correlation = None, ma_entity = change_entity change, ma_entityId = p,
      ma_key = key, ma_ops = (\<lambda>_. Inr [single_op p (Some d) change payload]), ma_outbox = None, ma_response = '''',
      ma_insideTx = inside, ma_serialize = False, ma_uuid = '''', ma_flag = None\<rparr>"

definition source_payload :: "string \<Rightarrow> event_payload" where
  "source_payload source = \<lparr>pl_amount_minor = JUndef, pl_amount_received = JUndef, pl_currency = JUndef, pl_source = JStr source\<rparr>"

definition follow_of :: "provider_event \<Rightarrow> ingest_answer \<Rightarrow> job_follow list" where
  "follow_of ev answer =
     (case answer of
        DuplicateEvent status \<Rightarrow> []
      | Acknowledged duplicate status reason follow \<Rightarrow>
          map (\<lambda>f. EventFollow f (case pe_participant ev of None \<Rightarrow> '''' | Some p \<Rightarrow> p)) follow)"

text \<open>An event the job reports itself: claim, processing and mark commit whatever the outcome.\<close>

definition jingest :: "('a worker_db_scheme) job_env \<Rightarrow> provider_event \<Rightarrow> ('a worker_db_scheme, unit) job" where
  "jingest env ev =
     jbind (jtx env (\<lambda>now uuid db. Inr (ingestAndProcessPaymentEvent (je_apply env) (je_stale env) now uuid
              (payload_text [Some (pe_event ev), pe_reference ev]) ev db))) (\<lambda>answer.
       case answer of
         Inl e \<Rightarrow> jstop (Thrown e)
       | Inr a \<Rightarrow> jfollow (follow_of ev a))"

definition job_money_event ::
    "string \<Rightarrow> string \<Rightarrow> string \<Rightarrow> string option \<Rightarrow> string \<Rightarrow> string \<Rightarrow> string option \<Rightarrow> string \<Rightarrow> provider_event" where
  "job_money_event provider event event_type correlation p d reference source =
     \<lparr>pe_provider = provider, pe_event = event, pe_type = event_type, pe_correlation = correlation, pe_participant = Some p,
      pe_deal = Some d, pe_reference = reference, pe_payload = source_payload source\<rparr>"

definition mark_binding_released :: "string \<Rightarrow> string \<Rightarrow> 'a worker_db_scheme \<Rightarrow> 'a worker_db_scheme" where
  "mark_binding_released p reason db =
     db\<lparr>wd_auths := (wd_auths db)(p := map_option (ab_reason_update (\<lambda>_. Some (if reason = '''' then ''released'' else take 200 reason))) (wd_auths db p))\<rparr>"

definition release_admitted :: "money_state \<Rightarrow> attempt_row list \<Rightarrow> bool" where
  "release_admitted m rows \<longleftrightarrow>
     (if m = M_ChargeAttempt
      then \<not> list_ex (\<lambda>r. capture_side (pa_type r) \<and> (pa_result r = R_Unknown \<or> pa_result r = R_Success)) rows
      else List.member [M_AuthHeld, M_AuthLocked, M_ChargeFailedRecovery] m)"

definition applyAuthorizationRelease ::
    "('a worker_db_scheme) job_env \<Rightarrow> string \<Rightarrow> string \<Rightarrow> string \<Rightarrow> string option \<Rightarrow> ('a worker_db_scheme, bool) job" where
  "applyAuthorizationRelease env p d request correlation =
     jbind (jread env (\<lambda>now db. participant_of p d db)) (\<lambda>row.
       case row of
         None \<Rightarrow> jreturn False
       | Some s \<Rightarrow>
           jbind (if pt_money s = M_ChargeAttempt then jread env (\<lambda>now db. loadRows p d db) else jreturn []) (\<lambda>rows.
             if \<not> release_admitted (pt_money s) rows then jreturn False
             else jbind (jtransition env (\<lambda>now uuid. participant_args p d (MoneyStep (pt_money s) M_AuthReleased)
                     ''authorization.release'' request (''auth-release:'' @ d @ '':'' @ p) (payload_text [or_null correlation]) None)) (\<lambda>_.
                  jbind (jcatch (jwrite env (\<lambda>now uuid. mark_binding_released p ''authorization_released'')) ()) (\<lambda>_.
                    jreturn True))))"

section \<open>Operations that stand in the way\<close>

definition blocking_operation :: "attempt_type \<Rightarrow> provider_operation" where
  "blocking_operation t =
     (if t = A_Refund \<or> t = A_CancelRefund then OpRefund
      else if t = A_Release then OpRelease
      else if t = A_Reauthorize then OpAuthorization else OpCapture)"

definition handleBlockedMoneyOperation ::
    "('a worker_db_scheme) job_env \<Rightarrow> string \<Rightarrow> string \<Rightarrow> attempt_type \<Rightarrow> attempt_type \<times> string \<times> result_class \<Rightarrow> string option \<Rightarrow>
     ('a worker_db_scheme, unit) job" where
  "handleBlockedMoneyOperation env p d t blocking reference =
     (case blocking of (bt, bc, br) \<Rightarrow>
        jbind (if br = R_Unknown
               then jbind (if blocking_operation bt = OpAuthorization
                           then jread env (\<lambda>now db. case loadAttemptLifecycle p d (Some A_Reauthorize) bc db of
                                  None \<Rightarrow> None | Some r \<Rightarrow> pa_reference r)
                           else jreturn reference) (\<lambda>blockingReference.
                    jbind (schedulePaymentReconcile env \<lparr>rp_participant = p, rp_deal = d, rp_type = bt, rp_correlation = bc,
                        rp_operation = blocking_operation bt, rp_reference = blockingReference,
                        rp_reason = ''blocks_'' @ type_name t\<rparr>) (\<lambda>_. jreturn ()))
               else jreturn ()) (\<lambda>_.
          openPaymentOperationalCase env (''payment-operation-blocked:'' @ p @ '':'' @ type_name t) (Some bc)))"

datatype prior_resolution = PriorApplied | PriorReuse | PriorDeferred | PriorBlocked

record prior_args =
  pr_operation :: provider_operation
  pr_type :: attempt_type
  pr_participant :: string
  pr_deal :: string
  pr_correlation :: string
  pr_dispatch :: "dispatch_state option"
  pr_reference :: "string option"
  pr_amount :: "jsnum option"
  pr_currency :: "string option"
  pr_event :: string

definition prior_key :: "string \<Rightarrow> prior_args \<Rightarrow> string" where
  "prior_key prefix a = prefix @ '':'' @ pr_participant a @ '':'' @ type_name (pr_type a)"

definition reuseAfterNegative :: "('a worker_db_scheme) job_env \<Rightarrow> prior_args \<Rightarrow> ('a worker_db_scheme, prior_resolution) job" where
  "reuseAfterNegative env a =
     (let policy = providerAmbiguityPolicy (je_provider env)
      in if ap_negative_status_authoritative policy \<or> ap_same_identity_repeat_safe policy then jreturn PriorReuse
         else jbind (openPaymentOperationalCase env (prior_key ''payment-outcome-unresolved'' a @ '':'' @ pr_correlation a) (Some (pr_correlation a)))
                (\<lambda>_. jreturn PriorBlocked))"

definition finalizePrior :: "('a worker_db_scheme) job_env \<Rightarrow> prior_args \<Rightarrow> result_class \<Rightarrow> ('a worker_db_scheme, settle_answer) job" where
  "finalizePrior env a result =
     jledger env (\<lambda>now. settleAttemptInTx now (pr_participant a) (pr_deal a) (pr_type a) (pr_correlation a) result None
       (if result = R_PermanentFail then Some EV_StatusInference else None) (Some ''prior_attempt_resolution''))"

definition truthy :: "string option \<Rightarrow> bool" where
  "truthy s \<longleftrightarrow> or_null s \<noteq> None"

definition trimmed :: "string option \<Rightarrow> string" where
  "trimmed s = js_trim (case s of None \<Rightarrow> '''' | Some t \<Rightarrow> t)"

definition foreign_currency :: "string option \<Rightarrow> status_result \<Rightarrow> bool" where
  "foreign_currency expected status \<longleftrightarrow>
     (let e = map upper_char (trimmed expected)
      in e \<noteq> '''' \<and> (case or_null (sr_currency status) of None \<Rightarrow> False | Some c \<Rightarrow> map upper_char c \<noteq> e))"

definition foreign_amount :: "jsnum option \<Rightarrow> status_result \<Rightarrow> bool" where
  "foreign_amount expected status \<longleftrightarrow>
     (case (sr_amount status, expected) of (Some n, Some m) \<Rightarrow> is_integer n \<and> \<not> js_eq n m | _ \<Rightarrow> False)"

text \<open>The case of an answer that is not about this operation.\<close>

definition prior_status_refusal :: "prior_args \<Rightarrow> status_result \<Rightarrow> string option" where
  "prior_status_refusal a status =
     (if pr_operation a \<noteq> OpRelease \<and> foreign_amount (pr_amount a) status then Some (prior_key ''payment-reconcile-amount-mismatch'' a)
      else if pr_operation a \<noteq> OpRelease \<and> foreign_currency (pr_currency a) status then Some (prior_key ''payment-reconcile-currency-mismatch'' a)
      else if sr_matches status = Some False then Some (prior_key ''payment-reconcile-reference-mismatch'' a)
      else None)"

definition prior_ingest :: "('a worker_db_scheme) job_env \<Rightarrow> prior_args \<Rightarrow> status_result \<Rightarrow> string \<Rightarrow> ('a worker_db_scheme, unit) job" where
  "prior_ingest env a status eventType =
     jingest env (job_money_event (pv_code (je_provider env)) (''reconcile:'' @ pr_correlation a @ '':'' @ eventType) eventType
       (Some (pr_correlation a)) (pr_participant a) (pr_deal a)
       (text_or (sr_reference status) (Some (trimmed (pr_reference a)))) ''prior_attempt_resolution'')"

definition applied_as :: "('a worker_db_scheme) job_env \<Rightarrow> prior_args \<Rightarrow> status_result \<Rightarrow> string \<Rightarrow> result_class \<Rightarrow> ('a worker_db_scheme, prior_resolution) job" where
  "applied_as env a status eventType result =
     jbind (prior_ingest env a status eventType) (\<lambda>_. jbind (finalizePrior env a result) (\<lambda>_. jreturn PriorApplied))"

definition prior_deferred :: "('a worker_db_scheme) job_env \<Rightarrow> prior_args \<Rightarrow> ('a worker_db_scheme, prior_resolution) job" where
  "prior_deferred env a =
     jbind (schedulePaymentReconcile env \<lparr>rp_participant = pr_participant a, rp_deal = pr_deal a, rp_type = pr_type a,
         rp_correlation = pr_correlation a, rp_operation = pr_operation a, rp_reference = Some (trimmed (pr_reference a)),
         rp_reason = ''prior_attempt_unresolved_before_new_operation''\<rparr>) (\<lambda>_. jreturn PriorDeferred)"

definition prior_verdict :: "('a worker_db_scheme) job_env \<Rightarrow> prior_args \<Rightarrow> status_result \<Rightarrow> ('a worker_db_scheme, prior_resolution) job" where
  "prior_verdict env a status =
     (if pr_operation a = OpCapture
      then (if sr_state status = PCaptured
            then applied_as env a status (if pr_type a = A_Recovery then ''recovery_captured'' else ''charge_captured'') R_Success
            else if sr_state status = PFailed
            then (if \<not> ap_negative_status_authoritative (providerAmbiguityPolicy (je_provider env)) then reuseAfterNegative env a
                  else applied_as env a status (if pr_type a = A_Recovery then ''recovery_failed'' else ''charge_failed'') R_PermanentFail)
            else if sr_state status = PAuthorized \<and> sr_final status then reuseAfterNegative env a
            else prior_deferred env a)
      else if pr_operation a = OpRefund
      then (if sr_state status = PRefunded then applied_as env a status ''refund_issued'' R_Success
            else if sr_state status = PCaptured \<and> sr_final status then reuseAfterNegative env a
            else prior_deferred env a)
      else (if sr_state status = PReleased
            then jbind (applyAuthorizationRelease env (pr_participant a) (pr_deal a) (''worker:'' @ pr_event a) (Some (pr_correlation a))) (\<lambda>_.
                 jbind (finalizePrior env a R_Success) (\<lambda>_. jreturn PriorApplied))
            else if sr_state status = PAuthorized \<and> sr_final status then reuseAfterNegative env a
            else if sr_state status = PCaptured
            then jbind (openPaymentOperationalCase env (''payment-reconcile-release-captured:'' @ pr_participant a) (Some (pr_correlation a)))
                   (\<lambda>_. jreturn PriorBlocked)
            else prior_deferred env a))"

definition resolvePriorProviderAttempt :: "('a worker_db_scheme) job_env \<Rightarrow> prior_args \<Rightarrow> ('a worker_db_scheme, prior_resolution) job" where
  "resolvePriorProviderAttempt env a =
     (if pr_dispatch a = Some DS_Recorded then jreturn PriorReuse
      else let reference = trimmed (pr_reference a)
        in case (if reference = '''' then None else pv_status (je_provider env)) of
             None \<Rightarrow> jbind (openPaymentOperationalCase env (prior_key ''payment-prior-attempt-unverifiable'' a) (Some (pr_correlation a)))
                         (\<lambda>_. jreturn PriorBlocked)
           | Some answer \<Rightarrow>
               jbind (jcall env (StatusCall reference (pr_operation a) (pr_correlation a)) (\<lambda>n. answer n reference (pr_operation a))) (\<lambda>status.
                 case prior_status_refusal a status of
                   Some key \<Rightarrow> jbind (openPaymentOperationalCase env key (Some (pr_correlation a))) (\<lambda>_. jreturn PriorBlocked)
                 | None \<Rightarrow> prior_verdict env a status))"

end
