(* ===== verification/CaptureRail.thy ===== *)
theory CaptureRail
  imports PaymentRails
begin

text \<open>
  The charge rail of \<open>src/app.ts\<close>: \<open>handleChargeDealEvent\<close> captures every participant of a deal once,
  behind a gate that renews an expired authorization (\<open>src/authorization_lifecycle.ts\<close> and the renewal
  operations of \<open>src/payment_binding.ts\<close>), and then opens the completion window. A capture the provider
  declines because of the instrument is renewed and captured again once: the loop of the code is a partial
  function here, and its termination is a theorem. The recovery rail shares the gate and the handling of
  the answer.
\<close>

section \<open>The authorization instrument\<close>

datatype authorization_usability = Usable | Expired | Undeclared

definition assessAuthorizationUsability :: "int option \<Rightarrow> int \<Rightarrow> int \<Rightarrow> authorization_usability" where
  "assessAuthorizationUsability expires_at nowMs marginMs =
     (case expires_at of None \<Rightarrow> Undeclared | Some t \<Rightarrow> if t - marginMs \<le> nowMs then Expired else Usable)"

definition isAuthorizationUnusableResult :: "execution_result \<Rightarrow> bool" where
  "isAuthorizationUnusableResult result \<longleftrightarrow> xr_class result = R_PermanentFail \<and> xr_unusable result"

fun nat_text :: "nat \<Rightarrow> string" where
  "nat_text n = (if n < 10 then [char_of (48 + n)] else nat_text (n div 10) @ [char_of (48 + n mod 10)])"

declare nat_text.simps [simp del]

definition reauthorizationIdentity :: "string \<Rightarrow> string \<Rightarrow> nat \<Rightarrow> string" where
  "reauthorizationIdentity eventId p n = ''reauth:'' @ eventId @ '':n'' @ nat_text n @ '':'' @ p"

record renewal_source =
  rn_binding :: "auth_binding option"
  rn_method :: "string option"

definition resolveRenewalSourceForParticipant :: "string \<Rightarrow> string \<Rightarrow> 'a worker_db_scheme \<Rightarrow> renewal_source" where
  "resolveRenewalSourceForParticipant p provider db =
     (case wd_auths db p of
        None \<Rightarrow> \<lparr>rn_binding = None, rn_method = None\<rparr>
      | Some b \<Rightarrow>
          \<lparr>rn_binding = Some b,
           rn_method = (if truthy (ab_method b) then ab_method b
             else or_null (Some (trimmed (wd_methods db (ab_buyer b) provider))))\<rparr>)"

definition renewed_binding :: "int \<Rightarrow> string \<Rightarrow> string option \<Rightarrow> int option \<Rightarrow> string \<Rightarrow> auth_binding \<Rightarrow> auth_binding" where
  "renewed_binding now new_authorization new_reference expires_at correlation b =
     b\<lparr>ab_replaced := Some (ab_authorization b), ab_authorization := new_authorization,
       ab_reference := text_or new_reference (Some new_authorization), ab_expires := expires_at, ab_established := now,
       ab_renewals := ab_renewals b + 1, ab_reason := Some (''authorization_renewed:'' @ take 160 correlation)\<rparr>"

definition applyAuthorizationRenewalInTx ::
    "string \<Rightarrow> string \<Rightarrow> string option \<Rightarrow> int option \<Rightarrow> string \<Rightarrow> int \<Rightarrow> 'a worker_db_scheme \<Rightarrow> 'a worker_db_scheme" where
  "applyAuthorizationRenewalInTx p new_authorization new_reference expires_at correlation now db =
     (case wd_auths db p of
        None \<Rightarrow> db
      | Some b \<Rightarrow>
          if ab_authorization b = new_authorization then db
          else db\<lparr>wd_auths := (wd_auths db)(p \<mapsto> renewed_binding now new_authorization new_reference expires_at correlation b)\<rparr>)"

definition markAuthorizationUnusableInTx :: "string \<Rightarrow> string option \<Rightarrow> int \<Rightarrow> 'a worker_db_scheme \<Rightarrow> 'a worker_db_scheme" where
  "markAuthorizationUnusableInTx p reason now db =
     db\<lparr>wd_auths := (wd_auths db)(p := map_option (\<lambda>b. b\<lparr>
          ab_expires := Some (case ab_expires b of None \<Rightarrow> now | Some t \<Rightarrow> min t now),
          ab_reason := Some (''authorization_unusable:'' @ take 160 (case or_null reason of None \<Rightarrow> ''provider_declared'' | Some r \<Rightarrow> r))\<rparr>) (wd_auths db p))\<rparr>"

definition updateProviderReferenceForParticipant :: "string \<Rightarrow> string \<Rightarrow> 'a worker_db_scheme \<Rightarrow> 'a worker_db_scheme" where
  "updateProviderReferenceForParticipant p reference db =
     (if js_trim reference = '''' then db
      else db\<lparr>wd_auths := (wd_auths db)(p := map_option (ab_reference_update (\<lambda>_. Some reference)) (wd_auths db p))\<rparr>)"

text \<open>A renewal the provider has declined for the current instrument is not repeated.\<close>

definition renewal_declined :: "auth_binding \<Rightarrow> attempt_row list \<Rightarrow> bool" where
  "renewal_declined b rows \<longleftrightarrow>
     (case find (\<lambda>r. pa_type r = A_Reauthorize) (rev rows) of
        None \<Rightarrow> False
      | Some r \<Rightarrow> pa_result r = R_PermanentFail \<and> ab_established b \<le> pa_created_at r)"

definition renewalEligibilityForParticipant :: "('a worker_db_scheme) job_env \<Rightarrow> string \<Rightarrow> string \<Rightarrow> ('a worker_db_scheme, bool \<times> renewal_source) job" where
  "renewalEligibilityForParticipant env p d =
     jbind (jread env (\<lambda>now. resolveRenewalSourceForParticipant p (pv_code (je_provider env)))) (\<lambda>source.
       case rn_binding source of
         None \<Rightarrow> jreturn (False, source)
       | Some b \<Rightarrow>
           if pv_reauthorize (je_provider env) = None \<or> rn_method source = None then jreturn (False, source)
           else jbind (jread env (\<lambda>now. loadRows p d)) (\<lambda>rows. jreturn (\<not> renewal_declined b rows, source)))"

section \<open>The gate in front of a capture\<close>

datatype authorization_gate = GateProceed "string option" bool | GateDefer int | GateSkip

datatype rail = ChargeRail | RecoveryRail

fun rail_type :: "rail \<Rightarrow> attempt_type" where
  "rail_type ChargeRail = A_ChargeStart"
| "rail_type RecoveryRail = A_Recovery"

fun rail_admitted :: "rail \<Rightarrow> admitted_states" where
  "rail_admitted ChargeRail = \<lparr>ad_money = [M_ChargeAttempt], ad_buyer = Some [B_ChargingAttempt]\<rparr>"
| "rail_admitted RecoveryRail = \<lparr>ad_money = [M_ChargeFailedRecovery], ad_buyer = Some [B_ChargeFailedCompletion]\<rparr>"

text \<open>What a rail knows of the participant it works on.\<close>

record rail_participant =
  rl_participant :: string
  rl_deal :: string
  rl_buyer :: string
  rl_amount :: jsnum
  rl_authorization :: string

definition jdefer :: "('a worker_db_scheme) job_env \<Rightarrow> ('a worker_db_scheme, authorization_gate) job" where
  "jdefer env = jbind (jnow env) (\<lambda>now. jreturn (GateDefer (now + je_io_margin env)))"

definition jbegin ::
    "('a worker_db_scheme) job_env \<Rightarrow> string \<Rightarrow> string \<Rightarrow> attempt_type \<Rightarrow> (nat \<Rightarrow> string) \<Rightarrow> admitted_states option \<Rightarrow>
     ('a worker_db_scheme, begin_answer) job" where
  "jbegin env p d t identity admitted = jledger env (\<lambda>now. beginProviderAttempt now p d t identity admitted)"

text \<open>A renewal that may have reached the provider: \<open>None\<close> when the same identity is sent again.\<close>

definition confirm_renewal :: "string \<Rightarrow> string \<Rightarrow> string \<Rightarrow> string \<Rightarrow> int \<Rightarrow> 'a worker_db_scheme \<Rightarrow> lifecycle_error + unit \<times> 'a worker_db_scheme" where
  "confirm_renewal p d correlation reference now db =
     on_ok (settleAttemptInTx now p d A_Reauthorize correlation R_Success (Some reference) None
              (Some ''prior_reauthorization_confirmed_by_status'') db) (\<lambda>(a, db1).
       Inr ((), applyAuthorizationRenewalInTx p reference (Some reference) None correlation now db1))"

definition resolve_prior_renewal ::
    "('a worker_db_scheme) job_env \<Rightarrow> rail_participant \<Rightarrow> string option \<Rightarrow> string \<Rightarrow> ('a worker_db_scheme, authorization_gate option) job" where
  "resolve_prior_renewal env rp current correlation =
     (let p = rl_participant rp; d = rl_deal rp; policy = providerAmbiguityPolicy (je_provider env)
      in jbind (jread env (\<lambda>now. loadAttemptLifecycle p d (Some A_Reauthorize) correlation)) (\<lambda>row.
           let knownReference = trimmed (case row of None \<Rightarrow> None | Some r \<Rightarrow> pa_reference r)
           in case (if knownReference = '''' then None else pv_status (je_provider env)) of
                Some answer \<Rightarrow>
                  jbind (jcall env (StatusCall knownReference OpAuthorization correlation) (\<lambda>n. answer n knownReference OpAuthorization)) (\<lambda>status.
                    let confirmed = (case or_null (sr_reference status) of None \<Rightarrow> knownReference | Some r \<Rightarrow> r)
                    in if sr_state status = PAuthorized \<and> sr_matches status \<noteq> Some False
                       then jbind (jledger env (confirm_renewal p d correlation confirmed)) (\<lambda>_. jreturn (Some (GateProceed (Some confirmed) True)))
                       else if sr_state status = PFailed \<and> sr_final status \<and> ap_negative_status_authoritative policy
                       then jbind (jledger env (\<lambda>now. settleAttemptInTx now p d A_Reauthorize correlation R_PermanentFail None
                              (Some EV_StatusInference) (Some ''prior_reauthorization_not_executed''))) (\<lambda>_.
                            jreturn (Some (GateProceed current False)))
                       else jbind (schedulePaymentReconcile env \<lparr>rp_participant = p, rp_deal = d, rp_type = A_Reauthorize, rp_correlation = correlation,
                              rp_operation = OpAuthorization, rp_reference = Some knownReference, rp_reason = ''prior_reauthorization_unresolved''\<rparr>) (\<lambda>_.
                            jbind (jdefer env) (\<lambda>g. jreturn (Some g))))
              | None \<Rightarrow>
                  if ap_same_identity_repeat_safe policy then jreturn None
                  else jbind (openPaymentOperationalCase env (''payment-reauthorization-unresolved:'' @ p) (Some correlation)) (\<lambda>_.
                         jreturn (Some GateSkip))))"

text \<open>What the answer to a renewal makes of the identity, the binding and the gate.\<close>

definition answer_renewal ::
    "('a worker_db_scheme) job_env \<Rightarrow> money_operation \<Rightarrow> string option \<Rightarrow> reauthorize_result \<Rightarrow> ('a worker_db_scheme, authorization_gate) job" where
  "answer_renewal env op current result =
     (let p = io_participant op; d = io_deal op; correlation = io_correlation op
      in case result of
           Reauthorized authorization reference pending expires_at \<Rightarrow>
             if \<not> pending
             then jbind (settleOwnedMoneyOperation env op OutSuccess reference (Some ''authorization_renewed'')
                    (Some (\<lambda>now db. Inr (applyAuthorizationRenewalInTx p authorization reference expires_at correlation now db)))) (\<lambda>_.
                  jreturn (GateProceed (text_or reference (Some authorization)) True))
             else jbind (settleOwnedMoneyOperation env op OutUnknown reference (Some ''reauthorization_pending_provider_confirmation'') None) (\<lambda>_.
                  jbind (schedulePaymentReconcile env \<lparr>rp_participant = p, rp_deal = d, rp_type = A_Reauthorize, rp_correlation = correlation,
                     rp_operation = OpAuthorization, rp_reference = text_or reference (Some authorization), rp_reason = ''reauthorization_pending''\<rparr>) (\<lambda>_.
                    jdefer env))
         | NotReauthorized error retryable dispatched \<Rightarrow>
             if dispatched = Some False
             then jbind (settleOwnedMoneyOperation env op OutPreDispatchFailure None (Some (''pre_dispatch_failure:'' @ error)) None) (\<lambda>_.
                  jbind (openPaymentOperationalCase env (''payment-reauthorization-unavailable:'' @ p) (Some correlation)) (\<lambda>_.
                    jreturn (GateProceed current False)))
             else if retryable
             then jbind (settleOwnedMoneyOperation env op OutUnknown None (Some (''reauthorization_outcome_unknown:'' @ error)) None) (\<lambda>_. jdefer env)
             else jbind (settleOwnedMoneyOperation env op OutPermanentFail None (Some (''reauthorization_declined:'' @ error)) None) (\<lambda>_.
                  jreturn (GateProceed current False)))"

text \<open>Arming a renewal and sending it.\<close>

definition send_renewal ::
    "('a worker_db_scheme) job_env \<Rightarrow> job_event \<Rightarrow> rail \<Rightarrow> rail_participant \<Rightarrow> auth_binding \<Rightarrow> string \<Rightarrow> string option \<Rightarrow> string \<Rightarrow>
     ('a worker_db_scheme, authorization_gate) job" where
  "send_renewal env event rail rp binding method current correlation =
     (let p = rl_participant rp; d = rl_deal rp;
          op = \<lparr>io_event = event, io_participant = p, io_deal = d, io_type = A_Reauthorize, io_correlation = correlation\<rparr>;
          input = \<lparr>ri_method = method, ri_amount = rl_amount rp, ri_participant = p, ri_deal = d, ri_buyer = rl_buyer rp,
             ri_replaced = ab_authorization binding, ri_correlation = correlation, ri_request = ''worker:'' @ ev_uuid event\<rparr>
      in jbind (armMoneyOperation env op (ad_money (rail_admitted rail)) (ad_buyer (rail_admitted rail)) None None) (\<lambda>armed.
           if \<not> armed then jreturn GateSkip
           else case pv_reauthorize (je_provider env) of
               None \<Rightarrow> jstop ProviderThrew
             | Some answer \<Rightarrow> jbind (jcall env (ReauthorizeCall input) (\<lambda>n. answer n input)) (answer_renewal env op current)))"

definition renew_authorization ::
    "('a worker_db_scheme) job_env \<Rightarrow> job_event \<Rightarrow> rail \<Rightarrow> rail_participant \<Rightarrow> auth_binding \<Rightarrow> string \<Rightarrow> string option \<Rightarrow>
     ('a worker_db_scheme, authorization_gate) job" where
  "renew_authorization env event rail rp binding method current =
     (let p = rl_participant rp; d = rl_deal rp; send = send_renewal env event rail rp binding method current
      in jbind (jbegin env p d A_Reauthorize (reauthorizationIdentity (ev_uuid event) p) (Some (rail_admitted rail))) (\<lambda>attempt.
           case attempt of
             BeginStateChanged state retired \<Rightarrow> jreturn GateSkip
           | BeginFenced reason f \<Rightarrow> jreturn GateSkip
           | BeginBlocked reason bt bc br \<Rightarrow>
               jbind (handleBlockedMoneyOperation env p d A_Reauthorize (bt, bc, br) current) (\<lambda>_.
                 if br = R_Unknown then jdefer env else jreturn GateSkip)
           | BeginInFlight c owner \<Rightarrow> jdefer env
           | BeginUnresolved c result dispatch n \<Rightarrow>
               jbind (resolve_prior_renewal env rp current c) (\<lambda>gate. case gate of Some g \<Rightarrow> jreturn g | None \<Rightarrow> send c)
           | BeginReuse c n \<Rightarrow> send c
           | BeginFresh c n \<Rightarrow> send c))"

definition ensureUsableAuthorizationForCapture ::
    "('a worker_db_scheme) job_env \<Rightarrow> job_event \<Rightarrow> rail \<Rightarrow> rail_participant \<Rightarrow> ('a worker_db_scheme, authorization_gate) job" where
  "ensureUsableAuthorizationForCapture env event rail rp =
     jbind (renewalEligibilityForParticipant env (rl_participant rp) (rl_deal rp)) (\<lambda>(eligible, source).
       let current = or_null (Some (trimmed (text_or (case rn_binding source of None \<Rightarrow> None | Some b \<Rightarrow> ab_reference b) (Some (rl_authorization rp)))))
       in case rn_binding source of
            None \<Rightarrow> jreturn (GateProceed current False)
          | Some binding \<Rightarrow>
              jbind (jnow env) (\<lambda>now.
                if assessAuthorizationUsability (ab_expires binding) now (je_renewal_margin env) \<noteq> Expired \<or> \<not> eligible
                then jreturn (GateProceed current False)
                else renew_authorization env event rail rp binding (case rn_method source of None \<Rightarrow> '''' | Some m \<Rightarrow> m) current))"

section \<open>One capture request\<close>

datatype once_outcome = OnceDone "int option" | RenewAndRetry

fun class_name :: "result_class \<Rightarrow> string" where
  "class_name R_Success = ''success''"
| "class_name R_PermanentFail = ''permanent_fail''"
| "class_name R_TemporaryFail = ''temporary_fail''"
| "class_name R_Unknown = ''unknown''"

fun rail_identity :: "rail \<Rightarrow> string \<Rightarrow> string \<Rightarrow> nat \<Rightarrow> string" where
  "rail_identity ChargeRail eventId p n = ''capture:'' @ eventId @ '':n'' @ nat_text n @ '':'' @ p"
| "rail_identity RecoveryRail eventId p n = ''recovery:'' @ eventId @ '':n'' @ nat_text n @ '':'' @ p"

fun rail_source :: "rail \<Rightarrow> string" where
  "rail_source ChargeRail = ''capture_worker''"
| "rail_source RecoveryRail = ''recovery_worker''"

fun rail_gate :: "rail \<Rightarrow> deal_gate option" where
  "rail_gate ChargeRail = None"
| "rail_gate RecoveryRail = Some \<lparr>dg_states = [D_CompletionWindow], dg_require_open_window = True\<rparr>"

text \<open>The recovery request carries that the job read the window as open.\<close>

fun rail_request :: "('a worker_db_scheme) job_env \<Rightarrow> rail \<Rightarrow> money_input \<Rightarrow> ('a worker_db_scheme, execution_result) job" where
  "rail_request env ChargeRail input = jcall env (CaptureCall input) (\<lambda>n. pv_capture (je_provider env) n input)"
| "rail_request env RecoveryRail input = jcall env (RecoverCall input True) (\<lambda>n. pv_recover (je_provider env) n input)"

definition unknown_note :: "execution_result \<Rightarrow> string" where
  "unknown_note result =
     (if xr_class result = R_Success then ''success_without_reconciliation_event''
      else ''provider_outcome_unknown:'' @ class_name (xr_class result) @ (if xr_configuration_fault result then '':configuration_fault'' else ''''))"

definition unknown_reason :: "execution_result \<Rightarrow> string" where
  "unknown_reason result = (if xr_class result = R_Success then ''success_without_reconciliation_event'' else ''provider_outcome_unknown'')"

text \<open>An answer with a declared outcome is committed as an event; anything else is unknown and reconciled.\<close>

definition commit_answer ::
    "('a worker_db_scheme) job_env \<Rightarrow> rail \<Rightarrow> money_operation \<Rightarrow> string option \<Rightarrow> execution_result \<Rightarrow> ('a worker_db_scheme, once_outcome) job" where
  "commit_answer env rail op authorization result =
     (let p = io_participant op; d = io_deal op; outcome = classifyMoneyOutcome result;
          reference = text_or (xr_reference result) authorization
      in case (if outcome = OutSuccess \<or> outcome = OutPermanentFail then or_null (xr_event result) else None) of
           Some eventType \<Rightarrow>
             jbind (settleOwnedMoneyOperation env op outcome reference None None) (\<lambda>_.
             jbind (jingest env (job_money_event (xr_provider result) (ev_uuid (io_event op) @ '':'' @ p @ '':'' @ eventType) eventType
                      (text_or (xr_correlation result) (Some (io_correlation op))) p d reference (rail_source rail))) (\<lambda>_.
             jbind (case (if outcome = OutSuccess then or_null (xr_reference result) else None) of
                      None \<Rightarrow> jreturn ()
                    | Some r \<Rightarrow> jcatch (jwrite env (\<lambda>now uuid. updateProviderReferenceForParticipant p r)) ()) (\<lambda>_.
               jreturn (OnceDone None))))
         | None \<Rightarrow>
             jbind (settleOwnedMoneyOperation env op OutUnknown reference (Some (unknown_note result)) None) (\<lambda>_.
             jbind (schedulePaymentReconcile env \<lparr>rp_participant = p, rp_deal = d, rp_type = io_type op, rp_correlation = io_correlation op,
                      rp_operation = OpCapture, rp_reference = reference, rp_reason = unknown_reason result\<rparr>) (\<lambda>_.
               jreturn (OnceDone None))))"

definition answer_capture ::
    "('a worker_db_scheme) job_env \<Rightarrow> rail \<Rightarrow> money_operation \<Rightarrow> string option \<Rightarrow> bool \<Rightarrow> execution_result \<Rightarrow>
     ('a worker_db_scheme, once_outcome) job" where
  "answer_capture env rail op authorization allow_renewal_retry result =
     (let p = io_participant op; outcome = classifyMoneyOutcome result; reference = text_or (xr_reference result) authorization
      in if outcome = OutPreDispatchFailure
         then jbind (settleOwnedMoneyOperation env op OutPreDispatchFailure reference (Some (''pre_dispatch_failure:'' @ xr_provider result)) None) (\<lambda>_.
                jstop (JobError (''temporary_fail '' @ (if rail = ChargeRail then ''capture'' else ''recovery'') @ '' participant '' @ p)))
         else if outcome = OutPermanentFail \<and> isAuthorizationUnusableResult result \<and> allow_renewal_retry
         then jbind (renewalEligibilityForParticipant env p (io_deal op)) (\<lambda>(eligible, source).
                if eligible
                then jbind (settleOwnedMoneyOperation env op OutPermanentFail reference
                       (Some (''authorization_unusable:'' @ (case or_null (xr_failure_code result) of None \<Rightarrow> ''provider_declared'' | Some c \<Rightarrow> c)))
                       (Some (\<lambda>now db. Inr (markAuthorizationUnusableInTx p (xr_failure_code result) now db)))) (\<lambda>_.
                     jreturn RenewAndRetry)
                else commit_answer env rail op authorization result)
         else commit_answer env rail op authorization result)"

definition send_capture ::
    "('a worker_db_scheme) job_env \<Rightarrow> job_event \<Rightarrow> rail \<Rightarrow> rail_participant \<Rightarrow> bool \<Rightarrow> string \<Rightarrow> ('a worker_db_scheme, once_outcome) job" where
  "send_capture env event rail rp allow_renewal_retry correlation =
     (let p = rl_participant rp; d = rl_deal rp; authorization = or_null (Some (rl_authorization rp));
          op = \<lparr>io_event = event, io_participant = p, io_deal = d, io_type = rail_type rail, io_correlation = correlation\<rparr>;
          input = \<lparr>mi_amount = rl_amount rp, mi_participant = p, mi_deal = d, mi_buyer = rl_buyer rp, mi_correlation = correlation,
             mi_request = ''worker:'' @ ev_uuid event, mi_authorization = authorization, mi_capture = None\<rparr>
      in jbind (armMoneyOperation env op (ad_money (rail_admitted rail)) (ad_buyer (rail_admitted rail)) authorization (rail_gate rail)) (\<lambda>armed.
           if \<not> armed then jreturn (OnceDone None)
           else jbind (rail_request env rail input) (answer_capture env rail op authorization allow_renewal_retry)))"

text \<open>Residual refusals: a released hold is recorded as released, an unresolved release holds the job.\<close>

definition capture_blocked ::
    "('a worker_db_scheme) job_env \<Rightarrow> job_event \<Rightarrow> rail \<Rightarrow> rail_participant \<Rightarrow> string \<Rightarrow> attempt_type \<times> string \<times> result_class \<Rightarrow>
     ('a worker_db_scheme, once_outcome) job" where
  "capture_blocked env event rail rp reason blocking =
     (let p = rl_participant rp; d = rl_deal rp; correlation = fst (snd blocking)
      in if reason = ''capture_blocked_by_released_authorization''
         then jbind (applyAuthorizationRelease env p d (''worker:'' @ ev_uuid event) (Some correlation)) (\<lambda>_.
              jbind (openPaymentOperationalCase env (''payment-capture-refused-released-hold:'' @ p) (Some correlation)) (\<lambda>_.
                jreturn (OnceDone None)))
         else jbind (handleBlockedMoneyOperation env p d (rail_type rail) blocking (or_null (Some (rl_authorization rp)))) (\<lambda>_.
                if reason = ''capture_blocked_by_unresolved_release''
                then jbind (jnow env) (\<lambda>now. jreturn (OnceDone (Some (now + je_io_margin env))))
                else jreturn (OnceDone None)))"

definition prior_capture :: "job_event \<Rightarrow> rail \<Rightarrow> rail_participant \<Rightarrow> string \<Rightarrow> dispatch_state \<Rightarrow> prior_args" where
  "prior_capture event rail rp correlation dispatch =
     \<lparr>pr_operation = OpCapture, pr_type = rail_type rail, pr_participant = rl_participant rp, pr_deal = rl_deal rp,
      pr_correlation = correlation, pr_dispatch = Some dispatch, pr_reference = or_null (Some (rl_authorization rp)),
      pr_amount = Some (rl_amount rp), pr_currency = Some ''ILS'', pr_event = ev_uuid event\<rparr>"

fun fenced_hold :: "rail \<Rightarrow> fence \<Rightarrow> int option" where
  "fenced_hold RecoveryRail (FencedUntil t) = Some t"
| "fenced_hold _ _ = None"

definition captureParticipantOnce ::
    "('a worker_db_scheme) job_env \<Rightarrow> job_event \<Rightarrow> rail \<Rightarrow> rail_participant \<Rightarrow> bool \<Rightarrow> ('a worker_db_scheme, once_outcome) job" where
  "captureParticipantOnce env event rail rp allow_renewal_retry =
     (let send = send_capture env event rail rp allow_renewal_retry
      in jbind (jbegin env (rl_participant rp) (rl_deal rp) (rail_type rail) (rail_identity rail (ev_uuid event) (rl_participant rp))
                  (Some (rail_admitted rail))) (\<lambda>attempt.
           case attempt of
             BeginStateChanged state retired \<Rightarrow> jreturn (OnceDone None)
           | BeginBlocked reason bt bc br \<Rightarrow> capture_blocked env event rail rp reason (bt, bc, br)
           | BeginInFlight c owner \<Rightarrow> jreturn (OnceDone None)
           | BeginFenced reason f \<Rightarrow> jreturn (OnceDone (fenced_hold rail f))
           | BeginUnresolved c result dispatch n \<Rightarrow>
               jbind (resolvePriorProviderAttempt env (prior_capture event rail rp c dispatch)) (\<lambda>resolution.
                 if resolution = PriorReuse then send c else jreturn (OnceDone None))
           | BeginReuse c n \<Rightarrow> send c
           | BeginFresh c n \<Rightarrow> send c))"

section \<open>The loop of a rail\<close>

partial_function (option) rail_loop ::
    "('a worker_db_scheme) job_env \<Rightarrow> job_event \<Rightarrow> rail \<Rightarrow> rail_participant \<Rightarrow> int \<Rightarrow> ('a worker_db_scheme) job_state \<Rightarrow>
     ((job_stop + int option) \<times> ('a worker_db_scheme) job_state) option" where
  "rail_loop env event rail rp budget s =
     (case ensureUsableAuthorizationForCapture env event rail rp s of
        (Inl e, s1) \<Rightarrow> Some (Inl e, s1)
      | (Inr (GateDefer t), s1) \<Rightarrow> Some (Inr (Some t), s1)
      | (Inr GateSkip, s1) \<Rightarrow> Some (Inr None, s1)
      | (Inr (GateProceed authorization renewed), s1) \<Rightarrow>
          (case captureParticipantOnce env event rail
                  (rp\<lparr>rl_authorization := (case authorization of None \<Rightarrow> '''' | Some a \<Rightarrow> a)\<rparr>) (0 < budget) s1 of
             (Inl e, s2) \<Rightarrow> Some (Inl e, s2)
           | (Inr (OnceDone hold), s2) \<Rightarrow> Some (Inr hold, s2)
           | (Inr RenewAndRetry, s2) \<Rightarrow> if 0 < budget then rail_loop env event rail rp (budget - 1) s2 else Some (Inr None, s2)))"

definition earliest :: "int option \<Rightarrow> int option \<Rightarrow> int option" where
  "earliest a b = (case (a, b) of (None, _) \<Rightarrow> b | (_, None) \<Rightarrow> a | (Some x, Some y) \<Rightarrow> Some (if y < x then y else x))"

type_synonym ('db, 'a) run = "'db job_state \<Rightarrow> ((job_stop + 'a) \<times> 'db job_state) option"

fun hold_all :: "('p \<Rightarrow> ('db, int option) run) \<Rightarrow> 'p list \<Rightarrow> int option \<Rightarrow> ('db, int option) run" where
  "hold_all step [] hold s = Some (Inr hold, s)"
| "hold_all step (p # ps) hold s =
     (case step p s of
        None \<Rightarrow> None
      | Some (Inl e, s1) \<Rightarrow> Some (Inl e, s1)
      | Some (Inr h, s1) \<Rightarrow> hold_all step ps (earliest hold h) s1)"

definition run_then :: "('db, 'a) run \<Rightarrow> ('a \<Rightarrow> ('db, 'b) job) \<Rightarrow> ('db, 'b) run" where
  "run_then m f s = map_option (\<lambda>(r, s1). case r of Inl e \<Rightarrow> (Inl e, s1) | Inr a \<Rightarrow> f a s1) (m s)"

definition job_then :: "('db, 'a) job \<Rightarrow> ('a \<Rightarrow> ('db, 'b) run) \<Rightarrow> ('db, 'b) run" where
  "job_then m f s = (case m s of (Inl e, s1) \<Rightarrow> Some (Inl e, s1) | (Inr a, s1) \<Rightarrow> f a s1)"

section \<open>The charge job\<close>

definition rail_participant_of :: "string \<Rightarrow> 'a worker_db_scheme \<Rightarrow> string \<Rightarrow> rail_participant" where
  "rail_participant_of d db p =
     \<lparr>rl_participant = p, rl_deal = d, rl_buyer = wd_buyer db p, rl_amount = amount_due p db,
      rl_authorization = authorization_reference p db\<rparr>"

definition charge_snapshot :: "string \<Rightarrow> 'a worker_db_scheme \<Rightarrow> rail_participant list" where
  "charge_snapshot d db =
     map (rail_participant_of d db)
       (filter (\<lambda>p. in_states p d (\<lambda>b m. b = B_ChargingAttempt \<and> m = M_ChargeAttempt) db) (members_of d db))"

definition setCompletionWindowOnce :: "int \<Rightarrow> int \<Rightarrow> string \<Rightarrow> 'a worker_db_scheme \<Rightarrow> lifecycle_error + int \<times> 'a worker_db_scheme" where
  "setCompletionWindowOnce minutes now d db =
     (if ld_deals db d = None then Inl (BodyRejected ''deal not found'')
      else case pd_window db d of
          Some t \<Rightarrow> Inr (t, db)
        | None \<Rightarrow> Inr (now + minutes * 60000, db\<lparr>pd_window := (pd_window db)(d \<mapsto> now + minutes * 60000)\<rparr>))"

definition recoverable :: "buyer_state \<Rightarrow> money_state \<Rightarrow> bool" where
  "recoverable b m \<longleftrightarrow> b = B_ChargeFailedCompletion \<and> m = M_ChargeFailedRecovery"

definition deal_job :: "string \<Rightarrow> string \<Rightarrow> string \<Rightarrow> int \<Rightarrow> outbox_row" where
  "deal_job uuid event_type d available_at = pending_job uuid event_type ''deal'' d (payload_text [Some d]) available_at"

definition to_window_body :: "int \<Rightarrow> string \<Rightarrow> int \<Rightarrow> string \<Rightarrow> 'a worker_db_scheme \<Rightarrow> lifecycle_error + 'a worker_db_scheme" where
  "to_window_body minutes d now uuid db =
     on_ok (setCompletionWindowOnce minutes now d db) (\<lambda>(window, db1).
       let db2 = snd (enqueue_once (deal_job uuid ''finalize_deal'' d window) db1)
       in Inr (if list_ex (\<lambda>p. in_states p d recoverable db2) (members_of d db2)
               then snd (enqueue_once (deal_job (uuid @ ''-recovery'') ''recovery_deal'' d now) db2) else db2))"

definition to_window_args :: "int \<Rightarrow> string \<Rightarrow> string \<Rightarrow> int \<Rightarrow> int \<Rightarrow> string \<Rightarrow> 'a worker_db_scheme multi_args" where
  "to_window_args minutes eventId d window now uuid =
     \<lparr>ma_action = ''charging.to_completion_window'', ma_request = ''worker:'' @ eventId, ma_correlation = None, ma_entity = Deal,
      ma_entityId = d, ma_key = ''deal-to-window:'' @ eventId @ '':'' @ d,
      ma_ops = (\<lambda>_. Inr [single_op d (Some d) (DealStep D_Charging D_CompletionWindow) (payload_text [Some (nat_text (nat window))])]),
      ma_outbox = None, ma_response = '''', ma_insideTx = Some (to_window_body minutes d now uuid), ma_serialize = False, ma_uuid = uuid,
      ma_flag = Some (\<lambda>db. fst (enqueue_once (deal_job uuid ''finalize_deal'' d now) db))\<rparr>"

fun append_completions :: "outbox_cfg \<Rightarrow> outbox_row list \<Rightarrow> outbox_db \<Rightarrow> outbox_error + outbox_db" where
  "append_completions cfg [] db = Inr db"
| "append_completions cfg (r # rs) db =
     (let a = audit_of cfg r Completion Pending Sent ''obsolete_after_terminal_deal'' (NamedSuffix ''obsolete-deadline'') NoMetadata
      in if list_ex (\<lambda>b. oa_event b = oa_event a \<and> oa_generation b = oa_generation a \<and> oa_action b = oa_action a \<and> oa_suffix b = oa_suffix a) (odb_audit db)
         then Inl (OutboxAuditConflict (ob_id r))
         else append_completions cfg rs (db\<lparr>odb_audit := odb_audit db @ [a]\<rparr>))"

definition obsolete_deadline :: "string \<Rightarrow> outbox_row \<Rightarrow> bool" where
  "obsolete_deadline d r \<longleftrightarrow> ob_aggregate_id r = d \<and> ob_event_type r = ''deadline_check'' \<and> ob_status r = Pending"

definition cleanup_obsolete :: "outbox_cfg \<Rightarrow> int \<Rightarrow> string \<Rightarrow> outbox_db \<Rightarrow> outbox_error + outbox_db" where
  "cleanup_obsolete cfg now d db =
     append_completions cfg (filter (obsolete_deadline d) (odb_events db))
       (update_events (obsolete_deadline d) (\<lambda>r. r\<lparr>ob_status := Sent, ob_sent_at := Some now, ob_last_error := Some ''obsolete_after_terminal_deal''\<rparr>) db)"

definition cleanupObsoleteDealOutboxEvents :: "('a worker_db_scheme) job_env \<Rightarrow> string \<Rightarrow> ('a worker_db_scheme, unit) job" where
  "cleanupObsoleteDealOutboxEvents env d =
     jtx env (\<lambda>now uuid db. case cleanup_obsolete (je_cfg env) now d (ld_outbox db) of
         Inl e \<Rightarrow> Inl (JobError ''operational_recovery_audit'')
       | Inr outbox \<Rightarrow> Inr ((), db\<lparr>ld_outbox := outbox\<rparr>))"

definition open_completion_window :: "('a worker_db_scheme) job_env \<Rightarrow> string \<Rightarrow> string \<Rightarrow> ('a worker_db_scheme, unit) job" where
  "open_completion_window env eventId d =
     jbind (jtx env (\<lambda>now uuid db. if ld_deals db d = None then Inl (JobError ''deal not found'')
              else Inr (case pd_window db d of Some t \<Rightarrow> t | None \<Rightarrow> now + je_window_minutes env * 60000, db))) (\<lambda>window.
     jbind (jtransition env (to_window_args (je_window_minutes env) eventId d window)) (\<lambda>_.
       cleanupObsoleteDealOutboxEvents env d))"

definition charge_finish :: "('a worker_db_scheme) job_env \<Rightarrow> string \<Rightarrow> string \<Rightarrow> int option \<Rightarrow> ('a worker_db_scheme, unit) job" where
  "charge_finish env eventId d hold =
     (case hold of
        Some t \<Rightarrow> jstop (Deferred (''charge_held_behind_unresolved_release deal '' @ d) t)
      | None \<Rightarrow> open_completion_window env eventId d)"

definition handleChargeDealEvent :: "('a worker_db_scheme) job_env \<Rightarrow> job_event \<Rightarrow> ('a worker_db_scheme, unit) run" where
  "handleChargeDealEvent env event =
     job_then (jread env (\<lambda>now. charge_snapshot (ev_aggregate event))) (\<lambda>participants.
       run_then (hold_all (\<lambda>rp. rail_loop env event ChargeRail rp 1) participants None)
         (charge_finish env (ev_uuid event) (ev_aggregate event)))"

end
