(* ===== verification/RecoveryRail.thy ===== *)
theory RecoveryRail
  imports CaptureRail
begin

text \<open>
  The recovery rail of \<open>src/app.ts\<close>: a second capture of an obligation whose first capture failed, only
  inside an open completion window, outside every settlement fence, and after the original authorization
  was read twice at the provider. The verdict of the two reads is a function of its own.
\<close>

section \<open>The last look at the original capture\<close>

datatype preflight_context = InRecovery | InFinalize

datatype preflight_verdict =
    ForeignAnswer | ForeignCapture | CapturedAlready | StillPending | Flapping
  | UnverifiableProceed | Unverifiable | NegativeUnproven | NegativeProven

datatype preflight = PreflightProceed | PreflightCaptured | PreflightAmbiguous

definition preflight_verdict :: "ambiguity_policy \<Rightarrow> bool \<Rightarrow> jsnum option \<Rightarrow> string option \<Rightarrow> status_result \<Rightarrow> status_result \<Rightarrow> preflight_verdict" where
  "preflight_verdict policy exactDecline amount currency first second =
     (let reads = [first, second]
      in if list_ex (\<lambda>r. sr_matches r = Some False \<or> foreign_currency currency r) reads then ForeignAnswer
         else case find (\<lambda>r. sr_state r = PCaptured) reads of
             Some r \<Rightarrow> if foreign_amount amount r \<or> foreign_currency currency r then ForeignCapture else CapturedAlready
           | None \<Rightarrow>
               if list_ex (\<lambda>r. sr_state r = PPending) reads then StillPending
               else if sr_state first \<noteq> sr_state second \<or> sr_final first \<noteq> sr_final second then Flapping
               else if list_all (\<lambda>r. sr_state r = PUnknown) reads then (if exactDecline then UnverifiableProceed else Unverifiable)
               else if \<not> exactDecline \<and> \<not> ap_negative_status_authoritative policy then NegativeUnproven
               else NegativeProven)"

record preflight_args =
  pf_participant :: string
  pf_deal :: string
  pf_authorization :: string
  pf_event :: string
  pf_amount :: jsnum
  pf_context :: preflight_context

definition preflight_source :: "preflight_context \<Rightarrow> string" where
  "preflight_source c = (case c of InRecovery \<Rightarrow> ''recovery_preflight'' | InFinalize \<Rightarrow> ''finalize_preflight'')"

definition newest_capture :: "attempt_row list \<Rightarrow> attempt_row option" where
  "newest_capture rows = find (\<lambda>r. capture_side (pa_type r)) (rev rows)"

definition preflight_reference :: "string \<Rightarrow> attempt_row list \<Rightarrow> string" where
  "preflight_reference authorization rows =
     trimmed (text_or (case find (\<lambda>r. capture_side (pa_type r) \<and> truthy (pa_reference r)) (rev rows) of
        None \<Rightarrow> None | Some r \<Rightarrow> pa_reference r) (Some authorization))"

definition exact_decline :: "attempt_row option \<Rightarrow> bool" where
  "exact_decline target \<longleftrightarrow>
     (case target of
        None \<Rightarrow> False
      | Some r \<Rightarrow> pa_result r = R_PermanentFail \<and> (pa_evidence r = Some EV_DispatchResponse \<or> pa_evidence r = Some EV_Operator))"

definition jtry :: "('db, 'a) job \<Rightarrow> ('db, 'a option) job" where
  "jtry m s = (case m s of (Inl e, s') \<Rightarrow> (Inr None, s') | (Inr a, s') \<Rightarrow> (Inr (Some a), s'))"

definition preflight_read ::
    "('a worker_db_scheme) job_env \<Rightarrow> preflight_args \<Rightarrow> string \<Rightarrow> (nat \<Rightarrow> string \<Rightarrow> provider_operation \<Rightarrow> status_result option) \<Rightarrow> string \<Rightarrow>
     ('a worker_db_scheme, status_result option) job" where
  "preflight_read env a reference answer i =
     jtry (jcall env (StatusCall reference OpCapture (preflight_source (pf_context a) @ '':'' @ pf_event a @ '':'' @ pf_participant a @ '':'' @ i))
       (\<lambda>n. answer n reference OpCapture))"

definition late_event :: "attempt_row option \<Rightarrow> string" where
  "late_event target = (case target of Some r \<Rightarrow> if pa_type r = A_Recovery then ''recovery_captured'' else ''charge_captured'' | None \<Rightarrow> ''charge_captured'')"

definition preflight_case :: "('a worker_db_scheme) job_env \<Rightarrow> string \<Rightarrow> preflight_args \<Rightarrow> attempt_row option \<Rightarrow> preflight \<Rightarrow> ('a worker_db_scheme, preflight) job" where
  "preflight_case env prefix a target verdict =
     jbind (openPaymentOperationalCase env (prefix @ '':'' @ pf_participant a) (map_option pa_correlation target)) (\<lambda>_. jreturn verdict)"

definition ingest_late_capture ::
    "('a worker_db_scheme) job_env \<Rightarrow> preflight_args \<Rightarrow> attempt_row option \<Rightarrow> string \<Rightarrow> status_result \<Rightarrow> ('a worker_db_scheme, unit) job" where
  "ingest_late_capture env a target reference status =
     jcatch (jingest env (job_money_event (pv_code (je_provider env))
       (preflight_source (pf_context a) @ '':'' @ pf_participant a @ '':'' @ late_event target
          @ (case target of None \<Rightarrow> '''' | Some r \<Rightarrow> '':'' @ pa_correlation r))
       (late_event target) (map_option pa_correlation target) (pf_participant a) (pf_deal a)
       (text_or (sr_reference status) (Some reference)) (preflight_source (pf_context a)))) ()"

definition preflight_effects ::
    "('a worker_db_scheme) job_env \<Rightarrow> preflight_args \<Rightarrow> attempt_row option \<Rightarrow> string \<Rightarrow> status_result \<Rightarrow> preflight_verdict \<Rightarrow>
     ('a worker_db_scheme, preflight) job" where
  "preflight_effects env a target reference answered verdict =
     (case verdict of
        ForeignAnswer \<Rightarrow> preflight_case env ''payment-recovery-preflight-mismatch'' a target PreflightAmbiguous
      | ForeignCapture \<Rightarrow> preflight_case env ''payment-recovery-preflight-mismatch'' a target PreflightAmbiguous
      | CapturedAlready \<Rightarrow>
          jbind (ingest_late_capture env a target reference answered) (\<lambda>_.
            preflight_case env ''payment-recovery-preflight-captured'' a target PreflightCaptured)
      | StillPending \<Rightarrow>
          jbind (case target of
                   None \<Rightarrow> jreturn False
                 | Some r \<Rightarrow>
                     if 0 < ap_settlement_horizon_ms (providerAmbiguityPolicy (je_provider env))
                     then jcatch (jledger env (\<lambda>now. extendSettlementHorizon now (pf_participant a) (pf_deal a) (pa_type r) (pa_correlation r)
                            (ap_settlement_horizon_ms (providerAmbiguityPolicy (je_provider env))))) False
                     else jreturn False) (\<lambda>_. jreturn PreflightAmbiguous)
      | Flapping \<Rightarrow> preflight_case env ''payment-recovery-preflight-flapping'' a target PreflightAmbiguous
      | UnverifiableProceed \<Rightarrow> jreturn PreflightProceed
      | Unverifiable \<Rightarrow> preflight_case env ''payment-recovery-preflight-unverifiable'' a target PreflightAmbiguous
      | NegativeUnproven \<Rightarrow> preflight_case env ''payment-recovery-negative-finality-unproven'' a target PreflightAmbiguous
      | NegativeProven \<Rightarrow> jreturn PreflightProceed)"

definition verifyOriginalCaptureBeforeRecovery ::
    "('a worker_db_scheme) job_env \<Rightarrow> preflight_args \<Rightarrow> ('a worker_db_scheme, preflight) job" where
  "verifyOriginalCaptureBeforeRecovery env a =
     jbind (jread env (\<lambda>now. loadRows (pf_participant a) (pf_deal a))) (\<lambda>rows.
       let reference = preflight_reference (pf_authorization a) rows; target = newest_capture rows
       in case (if reference = '''' then None else pv_status (je_provider env)) of
            None \<Rightarrow> jreturn PreflightProceed
          | Some answer \<Rightarrow>
              if list_ex (\<lambda>r. is_result R_Unknown A_Recovery r \<or> is_result R_Success A_Recovery r) rows then jreturn PreflightProceed
              else jbind (preflight_read env a reference answer ''1'') (\<lambda>r1.
                   case r1 of
                     None \<Rightarrow> jreturn PreflightAmbiguous
                   | Some first \<Rightarrow>
                       jbind (preflight_read env a reference answer ''2'') (\<lambda>r2.
                         case r2 of
                           None \<Rightarrow> jreturn PreflightAmbiguous
                         | Some second \<Rightarrow>
                             preflight_effects env a target reference (if sr_state first = PCaptured then first else second)
                               (preflight_verdict (providerAmbiguityPolicy (je_provider env)) (exact_decline target)
                                  (Some (pf_amount a)) (Some ''ILS'') first second))))"

section \<open>The recovery job\<close>

definition recovery_snapshot :: "string \<Rightarrow> 'a worker_db_scheme \<Rightarrow> rail_participant list" where
  "recovery_snapshot d db = map (rail_participant_of d db) (filter (\<lambda>p. in_states p d recoverable db) (members_of d db))"

text \<open>Whether a participant may be recovered now; otherwise when the job should look again.\<close>

definition recovery_ready :: "('a worker_db_scheme) job_env \<Rightarrow> job_event \<Rightarrow> rail_participant \<Rightarrow> ('a worker_db_scheme, int option + unit) job" where
  "recovery_ready env event rp =
     (let p = rl_participant rp; d = rl_deal rp
      in jbind (jread env (\<lambda>now. payment_capture_settlement_fence now p d)) (\<lambda>fence.
           case fence of
             Some FencedForever \<Rightarrow>
               jbind (openPaymentOperationalCase env (''payment-recovery-negative-finality-unproven:'' @ p) None) (\<lambda>_. jreturn (Inl None))
           | Some (FencedUntil t) \<Rightarrow>
               jbind (openPaymentOperationalCase env (''payment-recovery-settlement-horizon:'' @ p) None) (\<lambda>_. jreturn (Inl (Some t)))
           | None \<Rightarrow>
               jbind (verifyOriginalCaptureBeforeRecovery env \<lparr>pf_participant = p, pf_deal = d, pf_authorization = rl_authorization rp,
                        pf_event = ev_uuid event, pf_amount = rl_amount rp, pf_context = InRecovery\<rparr>) (\<lambda>preflight.
                 case preflight of
                   PreflightCaptured \<Rightarrow> jreturn (Inl None)
                 | PreflightAmbiguous \<Rightarrow> jbind (jnow env) (\<lambda>now. jreturn (Inl (Some (now + je_io_margin env))))
                 | PreflightProceed \<Rightarrow> jreturn (Inr ()))))"

definition recover_participant :: "('a worker_db_scheme) job_env \<Rightarrow> job_event \<Rightarrow> rail_participant \<Rightarrow> ('a worker_db_scheme, int option) run" where
  "recover_participant env event rp =
     job_then (recovery_ready env event rp) (\<lambda>ready.
       case ready of
         Inl hold \<Rightarrow> (\<lambda>s. Some (Inr hold, s))
       | Inr u \<Rightarrow> rail_loop env event RecoveryRail rp 1)"

definition recovery_finish :: "string \<Rightarrow> int option \<Rightarrow> ('db, unit) job" where
  "recovery_finish d hold =
     (case hold of None \<Rightarrow> jreturn () | Some t \<Rightarrow> jstop (Deferred (''recovery_held deal '' @ d) t))"

definition recovery_phase :: "('a worker_db_scheme) job_env \<Rightarrow> string \<Rightarrow> ('a worker_db_scheme, bool) job" where
  "recovery_phase env d =
     jbind (jtx env (\<lambda>now uuid db. case ld_deals db d of
              None \<Rightarrow> Inl (JobError ''deal not found'')
            | Some state \<Rightarrow> Inr ((state, pd_window db d), db))) (\<lambda>(state, window).
       if state \<noteq> D_CompletionWindow \<or> window = None then jreturn False
       else jread env (\<lambda>now db. case pd_window db d of None \<Rightarrow> False | Some t \<Rightarrow> now < t))"

definition handleRecoveryDealEvent :: "('a worker_db_scheme) job_env \<Rightarrow> job_event \<Rightarrow> ('a worker_db_scheme, unit) run" where
  "handleRecoveryDealEvent env event =
     (let d = ev_aggregate event
      in job_then (recovery_phase env d) (\<lambda>withinWindow.
           if \<not> withinWindow then (\<lambda>s. Some (Inr (), s))
           else job_then (jread env (\<lambda>now. recovery_snapshot d)) (\<lambda>participants.
                  run_then (hold_all (recover_participant env event) participants None) (recovery_finish d))))"

end
