(* ===== verification/DealFinalize.thy ===== *)
theory DealFinalize
  imports RecoveryRail "HOL-Library.Char_ord" "HOL-Library.List_Lexorder"
begin

text \<open>
  The terminal decision of a deal (\<open>handleFinalizeDealEvent\<close> of \<open>src/app.ts\<close>): after the completion
  window the deal is completed when enough units were captured, else failed, never while a capture is
  unresolved. The decision is validated again in the transaction that takes it. Then every participant is
  completed or failed, holds are released, and a failed deal has its refund job. The deadline job and the
  maintenance that brings a stalled finalize back are here too.
\<close>

section \<open>Counting units\<close>

definition units_of :: "string \<Rightarrow> 'a worker_db_scheme \<Rightarrow> rat" where
  "units_of p db = (case fd_participants (md_fees db) p of None \<Rightarrow> 0 | Some row \<Rightarrow> (case cr_qty row of Fin q \<Rightarrow> q | _ \<Rightarrow> 0))"

definition sum_units :: "string list \<Rightarrow> 'a worker_db_scheme \<Rightarrow> rat" where
  "sum_units ps db = sum_list (map (\<lambda>p. units_of p db) ps)"

definition sumJoinedUnits :: "string \<Rightarrow> 'a worker_db_scheme \<Rightarrow> rat" where
  "sumJoinedUnits d db = sum_units (filter (\<lambda>p. in_states p d (\<lambda>b m. b \<noteq> B_DealFailed \<and> b \<noteq> B_Dropped) db) (members_of d db)) db"

definition captured_money :: "money_state \<Rightarrow> bool" where
  "captured_money m \<longleftrightarrow> m = M_ChargedSuccess \<or> m = M_RecoveredCharge"

definition sumCapturedUnits :: "string \<Rightarrow> 'a worker_db_scheme \<Rightarrow> rat" where
  "sumCapturedUnits d db = sum_units (filter (\<lambda>p. in_states p d (\<lambda>b. captured_money) db) (members_of d db)) db"

section \<open>Failing the participants of a deal\<close>

definition buyer_states_of :: "string \<Rightarrow> 'a worker_db_scheme \<Rightarrow> (string \<times> buyer_state) list" where
  "buyer_states_of d db =
     map (\<lambda>p. (p, case participant_of p d db of None \<Rightarrow> B_NotJoined | Some s \<Rightarrow> pt_buyer s)) (members_of d db)"

definition fail_participant_args :: "string \<Rightarrow> string \<Rightarrow> string \<Rightarrow> buyer_state \<Rightarrow> 'db multi_args" where
  "fail_participant_args request d p b =
     participant_args p d (BuyerStep b B_DealFailed) ''deal.fail_participant'' request (''p-dealfailed:'' @ d @ '':'' @ p) '''' None"

definition failAllParticipantsForDeal :: "('a worker_db_scheme) job_env \<Rightarrow> string \<Rightarrow> string \<Rightarrow> ('a worker_db_scheme, unit) job" where
  "failAllParticipantsForDeal env d request =
     jbind (jread env (\<lambda>now. buyer_states_of d)) (\<lambda>ps.
       jfor ps (\<lambda>(p, b).
         if b = B_DealFailed \<or> b = B_DealCompleted \<or> \<not> List.member (BUYER_TRANSITIONS b) B_DealFailed then jreturn ()
         else jtransition env (\<lambda>now uuid. fail_participant_args request d p b)))"

text \<open>The capture-side identities that forbid failing a participant of a completed deal.\<close>

definition capture_may_have_moved :: "attempt_row \<Rightarrow> bool" where
  "capture_may_have_moved r \<longleftrightarrow> capture_side (pa_type r) \<and> pa_result r \<noteq> R_PermanentFail
     \<and> \<not> (pa_result r = R_TemporaryFail \<and> pa_dispatch r = DS_Recorded \<and> pa_dispatched_at r = None)"

definition no_capture_in_flight :: "string \<Rightarrow> string \<Rightarrow> 'a worker_db_scheme \<Rightarrow> lifecycle_error + 'a worker_db_scheme" where
  "no_capture_in_flight p d db =
     (if list_ex capture_may_have_moved (loadRows p d db)
      then Inl (BodyRejected ''finalize_participant_capture_in_flight'') else Inr db)"

definition complete_participant_args :: "string \<Rightarrow> string \<Rightarrow> string \<Rightarrow> buyer_state \<Rightarrow> 'db multi_args" where
  "complete_participant_args request d p b =
     participant_args p d (BuyerStep b B_DealCompleted) ''deal.complete_participant'' request (''p-dealcompleted:'' @ d @ '':'' @ p) '''' None"

definition fail_after_completed_args :: "string \<Rightarrow> string \<Rightarrow> string \<Rightarrow> buyer_state \<Rightarrow> 'a worker_db_scheme multi_args" where
  "fail_after_completed_args request d p b =
     participant_args p d (BuyerStep b B_DealFailed) ''deal.fail_participant_after_completed'' request
       (''p-fail-after-completed:'' @ d @ '':'' @ p @ '':'' @ buyer_name b) '''' (Some (no_capture_in_flight p d))"

definition settle_participant :: "('a worker_db_scheme) job_env \<Rightarrow> string \<Rightarrow> string \<Rightarrow> string \<times> buyer_state \<Rightarrow> ('a worker_db_scheme, unit) job" where
  "settle_participant env eventId d pb =
     (case pb of (p, b) \<Rightarrow>
        if b = B_ChargedSuccess \<or> b = B_Recovered
        then jtransition env (\<lambda>now uuid. complete_participant_args (''worker:'' @ eventId) d p b)
        else if List.member (BUYER_TRANSITIONS b) B_DealFailed
        then jtransition env (\<lambda>now uuid. fail_after_completed_args (''worker:'' @ eventId) d p b)
        else jreturn ())"

definition completed_follow :: "string \<Rightarrow> (string \<times> buyer_state) list \<Rightarrow> job_follow list" where
  "completed_follow d ps =
     (let completed = map fst (filter (\<lambda>(p, b). b = B_DealCompleted) ps); failed = map fst (filter (\<lambda>(p, b). b = B_DealFailed) ps)
      in map (NotifyParticipant ''deal_completed'') completed @ map (NotifyParticipant ''deal_failed'') failed
         @ [NotifySeller ''seller_deal_completed'' d, NotifySeller ''seller_excel_ready'' d]
         @ map ChargeReceipt completed @ [IssueFulfillment d, PreparePayout d])"

definition applyCompletedDealOutcome :: "('a worker_db_scheme) job_env \<Rightarrow> string \<Rightarrow> string \<Rightarrow> ('a worker_db_scheme, unit) job" where
  "applyCompletedDealOutcome env d eventId =
     jbind (jread env (\<lambda>now. buyer_states_of d)) (\<lambda>ps.
     jbind (jfor ps (settle_participant env eventId d)) (\<lambda>_.
     jbind (cleanupObsoleteDealOutboxEvents env d) (\<lambda>_.
     jbind (scheduleAuthorizationReleasesForDeal env d ''deal_completed_unrecovered'') (\<lambda>_.
     jbind (jread env (\<lambda>now. buyer_states_of d)) (\<lambda>qs.
       jfollow (completed_follow d qs))))))"

section \<open>What the decision waits for\<close>

definition money_of :: "string \<Rightarrow> 'a lifecycle_db_scheme \<Rightarrow> money_state option" where
  "money_of p db = map_option pt_money (ld_participants db p)"

definition unresolved_capture :: "string \<Rightarrow> 'a payment_db_scheme \<Rightarrow> attempt_row \<Rightarrow> bool" where
  "unresolved_capture d db r \<longleftrightarrow> pa_deal r = d \<and> capture_side (pa_type r)
     \<and> (case money_of (pa_participant r) db of
          None \<Rightarrow> False
        | Some m \<Rightarrow> pa_result r = R_Unknown \<or> (pa_result r = R_Success \<and> \<not> List.member capturedMoneyStates m))"

record unresolved_row =
  ur_attempt :: attempt_row
  ur_reference :: string
  ur_live :: bool

definition unresolved_captures :: "string \<Rightarrow> 'a worker_db_scheme \<Rightarrow> unresolved_row list" where
  "unresolved_captures d db =
     map (\<lambda>r. \<lparr>ur_attempt = r, ur_reference = authorization_reference (pa_participant r) db,
            ur_live = list_ex (live_job ''payment_reconcile'' ''participant'' (pa_participant r)) (odb_events (ld_outbox db))\<rparr>)
       (filter (unresolved_capture d db) (pd_attempts db))"

definition wait_for_captures :: "('a worker_db_scheme) job_env \<Rightarrow> string \<Rightarrow> unresolved_row list \<Rightarrow> ('a worker_db_scheme, unit) job" where
  "wait_for_captures env d rows =
     (if rows = [] then jreturn ()
      else jbind (jfor (filter (\<lambda>r. \<not> ur_live r) rows) (\<lambda>r. jcatch (jbind (schedulePaymentReconcile env
               \<lparr>rp_participant = pa_participant (ur_attempt r), rp_deal = d, rp_type = pa_type (ur_attempt r),
                rp_correlation = pa_correlation (ur_attempt r), rp_operation = OpCapture, rp_reference = or_null (Some (ur_reference r)),
                rp_reason = ''finalize_waiting_for_unresolved_capture''\<rparr>) (\<lambda>_. jreturn ())) ())) (\<lambda>_.
           jbind (openPaymentOperationalCase env (''deal-finalize-waiting-unresolved:'' @ d) (Some (pa_correlation (ur_attempt (hd rows))))) (\<lambda>_.
           jbind (jnow env) (\<lambda>now.
             jstop (Deferred (''finalize_waiting_for_unresolved_captures deal '' @ d) (now + je_io_margin env))))))"

definition fenced_captures :: "int \<Rightarrow> string \<Rightarrow> 'a worker_db_scheme \<Rightarrow> (string \<times> fence) list" where
  "fenced_captures now d db =
     map (\<lambda>r. (pa_correlation r, the (fence_of now r))) (filter (\<lambda>r. pa_deal r = d \<and> fence_of now r \<noteq> None) (pd_attempts db))"

definition wait_for_fences :: "('a worker_db_scheme) job_env \<Rightarrow> string \<Rightarrow> (string \<times> fence) list \<Rightarrow> ('a worker_db_scheme, unit) job" where
  "wait_for_fences env d fences =
     (case foldr (\<lambda>f. latest_fence (Some (snd f))) fences None of
        None \<Rightarrow> jreturn ()
      | Some FencedForever \<Rightarrow>
          jbind (openPaymentOperationalCase env (''deal-finalize-negative-finality-unproven:'' @ d) (Some (fst (hd (filter (\<lambda>f. snd f = FencedForever) fences))))) (\<lambda>_.
            jstop (PermanentStop (''finalize_negative_finality_unproven deal '' @ d)))
      | Some (FencedUntil t) \<Rightarrow>
          jbind (openPaymentOperationalCase env (''deal-finalize-waiting-settlement-horizon:'' @ d) (Some (fst (hd fences)))) (\<lambda>_.
            jstop (Deferred (''finalize_waiting_for_settlement_horizon deal '' @ d) t)))"

text \<open>Participants with a failure inferred from status reads, in the order of their identifiers.\<close>

definition inferred_failure :: "string \<Rightarrow> 'a payment_db_scheme \<Rightarrow> attempt_row \<Rightarrow> bool" where
  "inferred_failure d db r \<longleftrightarrow> pa_deal r = d \<and> unproven_failure r \<and> pa_horizon r \<noteq> None
     \<and> (money_of (pa_participant r) db = Some M_ChargeAttempt \<or> money_of (pa_participant r) db = Some M_ChargeFailedRecovery)"

definition inferred_failures :: "string \<Rightarrow> 'a worker_db_scheme \<Rightarrow> rail_participant list" where
  "inferred_failures d db =
     map (rail_participant_of d db) (sort (remdups (map pa_participant (filter (inferred_failure d db) (pd_attempts db)))))"

fun look_again :: "('a worker_db_scheme) job_env \<Rightarrow> job_event \<Rightarrow> rail_participant list \<Rightarrow> int option \<Rightarrow> ('a worker_db_scheme, int option) job" where
  "look_again env event [] until = jreturn until"
| "look_again env event (rp # rps) until =
     jbind (verifyOriginalCaptureBeforeRecovery env \<lparr>pf_participant = rl_participant rp, pf_deal = rl_deal rp,
              pf_authorization = rl_authorization rp, pf_event = ev_uuid event, pf_amount = rl_amount rp, pf_context = InFinalize\<rparr>) (\<lambda>look.
     jbind (jnow env) (\<lambda>now.
       look_again env event rps (if look = PreflightAmbiguous then Some (now + je_io_margin env) else until)))"

definition wait_for_late_truth :: "('a worker_db_scheme) job_env \<Rightarrow> string \<Rightarrow> int option \<Rightarrow> ('a worker_db_scheme, unit) job" where
  "wait_for_late_truth env d until =
     (case until of
        None \<Rightarrow> jreturn ()
      | Some t \<Rightarrow>
          jbind (openPaymentOperationalCase env (''deal-finalize-waiting-late-capture-truth:'' @ d) None) (\<lambda>_.
            jstop (Deferred (''finalize_waiting_for_late_capture_truth deal '' @ d) t)))"

section \<open>The decision\<close>

definition revalidateDecisionUnderLock :: "string \<Rightarrow> int \<Rightarrow> bool \<Rightarrow> int \<Rightarrow> 'a worker_db_scheme \<Rightarrow> lifecycle_error + 'a worker_db_scheme" where
  "revalidateDecisionUnderLock d threshold completes now db =
     (if \<not> (case pd_window db d of None \<Rightarrow> False | Some t \<Rightarrow> t \<le> now)
      then Inl (BodyRejected ''finalize_window_not_elapsed_under_lock'')
      else if list_ex (unresolved_capture d db) (pd_attempts db) then Inl (BodyRejected ''finalize_unresolved_capture_under_lock'')
      else if (of_int threshold \<le> sumCapturedUnits d db) \<noteq> completes then Inl (BodyRejected ''finalize_decision_changed_under_lock'')
      else Inr db)"

definition decision_args :: "string \<Rightarrow> string \<Rightarrow> int \<Rightarrow> bool \<Rightarrow> int \<Rightarrow> string \<Rightarrow> 'a worker_db_scheme multi_args" where
  "decision_args eventId d threshold completes now uuid =
     \<lparr>ma_action = (if completes then ''charging.finalize_completed'' else ''charging.finalize_failed''),
      ma_request = ''worker:'' @ eventId, ma_correlation = None, ma_entity = Deal, ma_entityId = d,
      ma_key = (if completes then ''deal-finalize-ok:'' else ''deal-finalize-fail:'') @ d,
      ma_ops = (\<lambda>_. Inr [single_op d (Some d) (DealStep D_CompletionWindow (if completes then D_Completed else D_Failed)) '''']),
      ma_outbox = (if completes then None
        else Some \<lparr>oi_event_type = ''refund_issue'', oi_aggregate_type = ''deal'', oi_aggregate_id = d,
               oi_payload = payload_text [Some d], oi_available_at = None\<rparr>),
      ma_response = '''', ma_insideTx = Some (revalidateDecisionUnderLock d threshold completes now), ma_serialize = True,
      ma_uuid = uuid, ma_flag = None\<rparr>"

definition failed_outcome :: "('a worker_db_scheme) job_env \<Rightarrow> string \<Rightarrow> string \<Rightarrow> ('a worker_db_scheme, unit) job" where
  "failed_outcome env d eventId =
     jbind (failAllParticipantsForDeal env d (''worker:'' @ eventId)) (\<lambda>_.
     jbind (scheduleAuthorizationReleasesForDeal env d ''deal_finalize_failed'') (\<lambda>_.
     jbind (jread env (\<lambda>now. members_of d)) (\<lambda>ps.
       jfollow (map (NotifyParticipant ''deal_failed'') ps @ [NotifySeller ''seller_deal_failed'' d]))))"

definition decide_deal :: "('a worker_db_scheme) job_env \<Rightarrow> string \<Rightarrow> string \<Rightarrow> int \<Rightarrow> ('a worker_db_scheme, unit) job" where
  "decide_deal env eventId d threshold =
     jbind (jread env (\<lambda>now db. of_int threshold \<le> sumCapturedUnits d db)) (\<lambda>completes.
     jbind (jtransition env (decision_args eventId d threshold completes)) (\<lambda>_.
       if completes then applyCompletedDealOutcome env d eventId else failed_outcome env d eventId))"

datatype finalize_phase = FinalizeAgain | FinalizeNothing | FinalizeDecide int

definition finalize_phase :: "('a worker_db_scheme) job_env \<Rightarrow> string \<Rightarrow> ('a worker_db_scheme, finalize_phase) job" where
  "finalize_phase env d =
     jtx env (\<lambda>now uuid db.
       case ld_deals db d of
         None \<Rightarrow> Inl (JobError ''deal not found'')
       | Some state \<Rightarrow>
           if state = D_Completed then Inr (FinalizeAgain, db)
           else if state \<noteq> D_CompletionWindow then Inr (FinalizeNothing, db)
           else case pd_window db d of
               None \<Rightarrow> Inr (FinalizeNothing, db)
             | Some t \<Rightarrow> if now < t then Inl (Deferred ''finalize_not_ready_yet'' t) else Inr (FinalizeDecide (wd_threshold db d), db))"

definition handleFinalizeDealEvent :: "('a worker_db_scheme) job_env \<Rightarrow> job_event \<Rightarrow> ('a worker_db_scheme, unit) job" where
  "handleFinalizeDealEvent env event =
     (let d = ev_aggregate event
      in jbind (finalize_phase env d) (\<lambda>phase.
           case phase of
             FinalizeAgain \<Rightarrow> applyCompletedDealOutcome env d (ev_uuid event)
           | FinalizeNothing \<Rightarrow> jreturn ()
           | FinalizeDecide threshold \<Rightarrow>
               jbind (jread env (\<lambda>now. unresolved_captures d)) (\<lambda>unresolved.
               jbind (wait_for_captures env d unresolved) (\<lambda>_.
               jbind (jread env (\<lambda>now. fenced_captures now d)) (\<lambda>fences.
               jbind (wait_for_fences env d fences) (\<lambda>_.
               jbind (jread env (\<lambda>now. inferred_failures d)) (\<lambda>rps.
               jbind (look_again env event rps None) (\<lambda>until.
               jbind (wait_for_late_truth env d until) (\<lambda>_.
                 decide_deal env (ev_uuid event) d threshold)))))))))"

section \<open>The deadline and the maintenance\<close>

definition deadline_args :: "string \<Rightarrow> string \<Rightarrow> deal_state \<Rightarrow> int \<Rightarrow> string \<Rightarrow> 'db multi_args" where
  "deadline_args eventId d state now uuid =
     \<lparr>ma_action = ''deal.deadline_check'', ma_request = ''worker:'' @ eventId, ma_correlation = None, ma_entity = Deal, ma_entityId = d,
      ma_key = ''deadline:'' @ d, ma_ops = (\<lambda>_. Inr [single_op d (Some d) (DealStep state D_Failed) '''']), ma_outbox = None,
      ma_response = '''', ma_insideTx = None, ma_serialize = False, ma_uuid = uuid, ma_flag = None\<rparr>"

definition deadline_check :: "('a worker_db_scheme) job_env \<Rightarrow> job_event \<Rightarrow> ('a worker_db_scheme, unit) job" where
  "deadline_check env event =
     (let d = ev_aggregate event; eventId = ev_uuid event
      in jbind (jtx env (\<lambda>now uuid db. case ld_deals db d of
                None \<Rightarrow> Inl (JobError ''deal not found'')
              | Some state \<Rightarrow> Inr ((state, wd_deadline db d, wd_threshold db d), db))) (\<lambda>(state, deadline, threshold).
           if state \<noteq> D_PendingTarget \<and> state \<noteq> D_ClosedForJoining then jreturn ()
           else jbind (jnow env) (\<lambda>now.
                if (case deadline of None \<Rightarrow> False | Some t \<Rightarrow> now < t) then jstop (Deferred ''deadline_not_reached'' (the deadline))
                else jbind (jread env (\<lambda>now. sumJoinedUnits d)) (\<lambda>total.
                     if of_int threshold \<le> total then jreturn ()
                     else jbind (jtransition env (deadline_args eventId d state)) (\<lambda>_.
                          jbind (failAllParticipantsForDeal env d (''worker:'' @ eventId)) (\<lambda>_.
                          jbind (scheduleAuthorizationReleasesForDeal env d ''deal_deadline_failed'') (\<lambda>_.
                          jbind (cleanupObsoleteDealOutboxEvents env d) (\<lambda>_.
                          jbind (jread env (\<lambda>now. members_of d)) (\<lambda>ps.
                            jfollow (map (NotifyParticipant ''deal_failed'') ps @ [NotifySeller ''seller_deal_failed'' d]))))))))))"

definition stalled :: "int \<Rightarrow> string \<Rightarrow> 'a worker_db_scheme \<Rightarrow> bool" where
  "stalled now d db \<longleftrightarrow> ld_deals db d = Some D_CompletionWindow
     \<and> (case pd_window db d of None \<Rightarrow> False | Some t \<Rightarrow> t \<le> now - 1000)
     \<and> \<not> list_ex (live_job ''finalize_deal'' ''deal'' d) (odb_events (ld_outbox db))"

text \<open>The deals are given in the order of their windows; every row has an identifier of its own.\<close>

fun enqueue_finalizes :: "(string \<Rightarrow> string) \<Rightarrow> int \<Rightarrow> string list \<Rightarrow> 'a lifecycle_db_scheme \<Rightarrow> int \<times> 'a lifecycle_db_scheme" where
  "enqueue_finalizes uuid now [] db = (0, db)"
| "enqueue_finalizes uuid now (d # ds) db =
     (case enqueue_once (pending_job (uuid d) ''finalize_deal'' ''deal'' d (payload_text [Some d, Some ''maintenance_stalled_finalize'']) now) db of
        (inserted, db1) \<Rightarrow> (case enqueue_finalizes uuid now ds db1 of (n, db2) \<Rightarrow> (if inserted then n + 1 else n, db2)))"

definition rescheduleStalledFinalizations ::
    "(string \<Rightarrow> string) \<Rightarrow> int \<Rightarrow> string list \<Rightarrow> int \<Rightarrow> 'a worker_db_scheme \<Rightarrow> int \<times> 'a worker_db_scheme" where
  "rescheduleStalledFinalizations uuid limit deals now db =
     enqueue_finalizes uuid now (take (nat (max 1 limit)) (filter (\<lambda>d. stalled now d db) deals)) db"

end
