(* ===== verification/ReconcileRail.thy ===== *)
theory ReconcileRail
  imports DealFinalize
begin

text \<open>
  The three remaining money jobs of \<open>src/app.ts\<close>: refunds of a failed deal, releases of a hold, and the
  reconciliation of an operation whose outcome is unknown. The handlers run on the payload their
  producers write, with every field present.
\<close>

section \<open>Refunds\<close>

definition capture_actions :: "string list" where
  "capture_actions = [''charging.capture_success'', ''charging.recovery_success'', ''charging.charge_success'', ''payment.capture_success'']"

record refund_participant =
  rf_participant :: string
  rf_deal :: string
  rf_buyer :: string
  rf_amount :: jsnum
  rf_authorization :: string
  rf_capture :: string

text \<open>The provider reference is the third field of the payload of a capture.\<close>

definition capture_reference :: "string \<Rightarrow> 'a worker_db_scheme \<Rightarrow> string" where
  "capture_reference p db =
     (case or_null (case wd_auths db p of None \<Rightarrow> None | Some b \<Rightarrow> ab_reference b) of
        Some r \<Rightarrow> r
      | None \<Rightarrow>
          (case audit_field capture_actions 2 p db of
             Some r \<Rightarrow> r
           | None \<Rightarrow> (case join_authorization p db of Some a \<Rightarrow> a | None \<Rightarrow> '''')))"

definition refund_snapshot :: "string \<Rightarrow> 'a worker_db_scheme \<Rightarrow> refund_participant list" where
  "refund_snapshot d db =
     map (\<lambda>p. \<lparr>rf_participant = p, rf_deal = d, rf_buyer = wd_buyer db p, rf_amount = amount_due p db,
              rf_authorization = authorization_reference p db, rf_capture = capture_reference p db\<rparr>)
       (filter (\<lambda>p. in_states p d (\<lambda>b. captured_money) db) (members_of d db))"

definition refund_type :: "string \<Rightarrow> attempt_type" where
  "refund_type event_type = (if event_type = ''cancel_refund'' then A_CancelRefund else A_Refund)"

definition refund_states :: "deal_state \<Rightarrow> string \<Rightarrow> bool" where
  "refund_states state event_type \<longleftrightarrow> state = D_Failed \<or> (event_type = ''cancel_refund'' \<and> state = D_Cancelled)"

definition refundable :: admitted_states where
  "refundable = \<lparr>ad_money = [M_ChargedSuccess, M_RecoveredCharge], ad_buyer = None\<rparr>"

definition refund_reference :: "refund_participant \<Rightarrow> string option" where
  "refund_reference rf = or_null (text_or (Some (rf_capture rf)) (Some (rf_authorization rf)))"

definition answer_refund :: "('a worker_db_scheme) job_env \<Rightarrow> money_operation \<Rightarrow> string option \<Rightarrow> execution_result \<Rightarrow> ('a worker_db_scheme, unit) job" where
  "answer_refund env op fallback result =
     (let p = io_participant op; outcome = classifyMoneyOutcome result; reference = text_or (xr_reference result) fallback
      in if outcome = OutPreDispatchFailure
         then jbind (settleOwnedMoneyOperation env op OutPreDispatchFailure reference (Some (''pre_dispatch_failure:'' @ xr_provider result)) None) (\<lambda>_.
                jstop (JobError (''temporary_fail refund participant '' @ p)))
         else if outcome = OutSuccess \<and> xr_event result = Some ''refund_issued''
         then jbind (settleOwnedMoneyOperation env op OutSuccess reference None None) (\<lambda>_.
                jingest env (job_money_event (xr_provider result) (ev_uuid (io_event op) @ '':'' @ p @ '':refund_issued'') ''refund_issued''
                  (text_or (xr_correlation result) (Some (io_correlation op))) p (io_deal op) reference ''refund_worker''))
         else if outcome = OutUnknown \<or> outcome = OutSuccess
         then jbind (settleOwnedMoneyOperation env op OutUnknown reference (Some (unknown_note result)) None) (\<lambda>_.
              jbind (schedulePaymentReconcile env \<lparr>rp_participant = p, rp_deal = io_deal op, rp_type = io_type op, rp_correlation = io_correlation op,
                       rp_operation = OpRefund, rp_reference = reference, rp_reason = unknown_reason result\<rparr>) (\<lambda>_. jreturn ()))
         else jbind (settleOwnedMoneyOperation env op OutPermanentFail reference None None) (\<lambda>_.
                jstop (PermanentStop (''permanent_fail refund participant '' @ p))))"

definition send_refund :: "('a worker_db_scheme) job_env \<Rightarrow> job_event \<Rightarrow> refund_participant \<Rightarrow> string \<Rightarrow> ('a worker_db_scheme, unit) job" where
  "send_refund env event rf correlation =
     (let op = \<lparr>io_event = event, io_participant = rf_participant rf, io_deal = rf_deal rf, io_type = refund_type (ev_type event),
             io_correlation = correlation\<rparr>;
          input = \<lparr>mi_amount = rf_amount rf, mi_participant = rf_participant rf, mi_deal = rf_deal rf, mi_buyer = rf_buyer rf,
             mi_correlation = correlation, mi_request = ''worker:'' @ ev_uuid event,
             mi_authorization = or_null (Some (rf_authorization rf)), mi_capture = or_null (Some (rf_capture rf))\<rparr>
      in jbind (armMoneyOperation env op (ad_money refundable) None (refund_reference rf) None) (\<lambda>armed.
           if \<not> armed then jreturn ()
           else jbind (jcall env (RefundCall input) (\<lambda>n. pv_refund (je_provider env) n input)) (answer_refund env op (refund_reference rf))))"

definition refund_participant_once :: "('a worker_db_scheme) job_env \<Rightarrow> job_event \<Rightarrow> refund_participant \<Rightarrow> ('a worker_db_scheme, unit) job" where
  "refund_participant_once env event rf =
     (let p = rf_participant rf; d = rf_deal rf; t = refund_type (ev_type event)
      in jbind (jbegin env p d t (\<lambda>n. ev_type event @ '':refund:'' @ ev_uuid event @ '':n'' @ nat_text n @ '':'' @ p) (Some refundable)) (\<lambda>attempt.
           case attempt of
             BeginStateChanged state retired \<Rightarrow> jreturn ()
           | BeginBlocked reason bt bc br \<Rightarrow> handleBlockedMoneyOperation env p d t (bt, bc, br) (refund_reference rf)
           | BeginInFlight c owner \<Rightarrow> jreturn ()
           | BeginFenced reason f \<Rightarrow> jreturn ()
           | BeginUnresolved c result dispatch n \<Rightarrow>
               jbind (resolvePriorProviderAttempt env \<lparr>pr_operation = OpRefund, pr_type = t, pr_participant = p, pr_deal = d, pr_correlation = c,
                        pr_dispatch = Some dispatch, pr_reference = refund_reference rf, pr_amount = Some (rf_amount rf),
                        pr_currency = Some ''ILS'', pr_event = ev_uuid event\<rparr>) (\<lambda>resolution.
                 if resolution = PriorReuse then send_refund env event rf c else jreturn ())
           | BeginReuse c n \<Rightarrow> send_refund env event rf c
           | BeginFresh c n \<Rightarrow> send_refund env event rf c))"

definition handleRefundEvent :: "('a worker_db_scheme) job_env \<Rightarrow> job_event \<Rightarrow> ('a worker_db_scheme, unit) job" where
  "handleRefundEvent env event =
     (let d = ev_aggregate event
      in jbind (jread env (\<lambda>now db. ld_deals db d)) (\<lambda>state.
           case state of
             None \<Rightarrow> jstop (PermanentStop (ev_type event @ '' deal not found '' @ d))
           | Some s \<Rightarrow>
               if \<not> refund_states s (ev_type event)
               then openPaymentOperationalCase env (''refund-refused-deal-not-failed:'' @ d @ '':'' @ ev_type event) None
               else jbind (jread env (\<lambda>now. refund_snapshot d)) (\<lambda>rfs. jfor rfs (refund_participant_once env event))))"

section \<open>Releases\<close>

definition releasable :: admitted_states where
  "releasable = \<lparr>ad_money = [M_AuthHeld, M_AuthLocked, M_ChargeFailedRecovery, M_ChargeAttempt], ad_buyer = None\<rparr>"

definition answer_release :: "('a worker_db_scheme) job_env \<Rightarrow> money_operation \<Rightarrow> string option \<Rightarrow> execution_result \<Rightarrow> ('a worker_db_scheme, unit) job" where
  "answer_release env op fallback result =
     (let p = io_participant op; outcome = classifyMoneyOutcome result; reference = text_or (xr_reference result) fallback
      in if outcome = OutSuccess
         then jbind (settleOwnedMoneyOperation env op OutSuccess reference None None) (\<lambda>_.
              jbind (applyAuthorizationRelease env p (io_deal op) (''worker:'' @ ev_uuid (io_event op)) (Some (io_correlation op))) (\<lambda>_. jreturn ()))
         else if outcome = OutPreDispatchFailure
         then jbind (settleOwnedMoneyOperation env op OutPreDispatchFailure reference (Some (''pre_dispatch_failure:'' @ xr_provider result)) None) (\<lambda>_.
                jstop (JobError (''temporary_fail release participant '' @ p)))
         else if outcome = OutUnknown
         then jbind (settleOwnedMoneyOperation env op OutUnknown reference (Some (unknown_note result)) None) (\<lambda>_.
              jbind (schedulePaymentReconcile env \<lparr>rp_participant = p, rp_deal = io_deal op, rp_type = A_Release, rp_correlation = io_correlation op,
                       rp_operation = OpRelease, rp_reference = reference, rp_reason = ''release_outcome_unknown''\<rparr>) (\<lambda>_. jreturn ()))
         else jbind (settleOwnedMoneyOperation env op OutPermanentFail reference None None) (\<lambda>_.
              jbind (openPaymentOperationalCase env (''payment-release-failed:'' @ p) (Some (io_correlation op))) (\<lambda>_.
                jstop (PermanentStop (''permanent_fail release participant '' @ p)))))"

definition send_release :: "('a worker_db_scheme) job_env \<Rightarrow> job_event \<Rightarrow> rail_participant \<Rightarrow> string \<Rightarrow> ('a worker_db_scheme, unit) job" where
  "send_release env event rp correlation =
     (let p = rl_participant rp; d = rl_deal rp; reference = trimmed (Some (rl_authorization rp))
      in case pv_release (je_provider env) of
           None \<Rightarrow>
             jbind (jledger env (\<lambda>now. settleAttemptInTx now p d A_Release correlation R_Unknown None None None)) (\<lambda>_.
             jbind (openPaymentOperationalCase env (''payment-release-unsupported:'' @ p) (Some correlation)) (\<lambda>_.
               jstop (PermanentStop (''payment_release_unsupported participant '' @ p))))
         | Some answer \<Rightarrow>
             (let op = \<lparr>io_event = event, io_participant = p, io_deal = d, io_type = A_Release, io_correlation = correlation\<rparr>;
                  input = \<lparr>mi_amount = rl_amount rp, mi_participant = p, mi_deal = d, mi_buyer = rl_buyer rp, mi_correlation = correlation,
                     mi_request = ''worker:'' @ ev_uuid event, mi_authorization = Some reference, mi_capture = None\<rparr>
              in jbind (armMoneyOperation env op (ad_money releasable) None (or_null (Some reference)) None) (\<lambda>armed.
                   if \<not> armed then jreturn ()
                   else jbind (jcall env (ReleaseCall input) (\<lambda>n. answer n input)) (answer_release env op (or_null (Some reference))))))"

definition release_fenced :: "('a worker_db_scheme) job_env \<Rightarrow> string \<Rightarrow> fence \<Rightarrow> ('a worker_db_scheme, unit) job" where
  "release_fenced env p f =
     (case f of
        FencedForever \<Rightarrow>
          jbind (openPaymentOperationalCase env (''payment-release-negative-finality-unproven:'' @ p) None) (\<lambda>_.
            jstop (PermanentStop (''payment_release_negative_finality_unproven participant '' @ p)))
      | FencedUntil t \<Rightarrow>
          jbind (openPaymentOperationalCase env (''payment-release-settlement-horizon:'' @ p) None) (\<lambda>_.
            jstop (Deferred (''payment_release_fenced participant '' @ p) t)))"

definition handlePaymentReleaseEvent :: "('a worker_db_scheme) job_env \<Rightarrow> job_event \<Rightarrow> string \<Rightarrow> string \<Rightarrow> ('a worker_db_scheme, unit) job" where
  "handlePaymentReleaseEvent env event p d =
     (if d = '''' then jstop (PermanentStop (''payment_release missing deal_id for participant '' @ p))
      else jbind (jread env (\<lambda>now db. (participant_of p d db, rail_participant_of d db p))) (\<lambda>(target, rp).
        case target of
          None \<Rightarrow> jstop (PermanentStop (''payment_release participant not found '' @ p))
        | Some s \<Rightarrow>
            if \<not> held_money (pt_money s) then jreturn ()
            else jbind (jbegin env p d A_Release (\<lambda>n. ''release:'' @ ev_uuid event @ '':n'' @ nat_text n @ '':'' @ p) (Some releasable)) (\<lambda>attempt.
              case attempt of
                BeginStateChanged state retired \<Rightarrow> jreturn ()
              | BeginBlocked reason bt bc br \<Rightarrow>
                  handleBlockedMoneyOperation env p d A_Release (bt, bc, br) (or_null (Some (trimmed (Some (rl_authorization rp)))))
              | BeginInFlight c owner \<Rightarrow> jreturn ()
              | BeginFenced reason f \<Rightarrow> release_fenced env p f
              | BeginUnresolved c result dispatch n \<Rightarrow>
                  jbind (resolvePriorProviderAttempt env \<lparr>pr_operation = OpRelease, pr_type = A_Release, pr_participant = p, pr_deal = d,
                           pr_correlation = c, pr_dispatch = Some dispatch,
                           pr_reference = or_null (Some (trimmed (Some (rl_authorization rp)))), pr_amount = None, pr_currency = None,
                           pr_event = ev_uuid event\<rparr>) (\<lambda>resolution.
                    if resolution = PriorReuse then send_release env event rp c else jreturn ())
              | BeginReuse c n \<Rightarrow> send_release env event rp c
              | BeginFresh c n \<Rightarrow> send_release env event rp c)))"

section \<open>Reconciliation\<close>

record reconcile_target =
  rc_buyer :: buyer_state
  rc_money :: money_state
  rc_deal_state :: "deal_state option"
  rc_within :: bool
  rc_reference :: string
  rc_amount :: jsnum
  rc_currency :: string

definition loadReconcileParticipant :: "string \<Rightarrow> string \<Rightarrow> int \<Rightarrow> 'a worker_db_scheme \<Rightarrow> reconcile_target option" where
  "loadReconcileParticipant p d now db =
     map_option (\<lambda>s. \<lparr>rc_buyer = pt_buyer s, rc_money = pt_money s, rc_deal_state = ld_deals db d,
         rc_within = (case pd_window db d of None \<Rightarrow> False | Some t \<Rightarrow> now < t), rc_reference = authorization_reference p db,
         rc_amount = (case md_bindings db p of Some (Some n, c) \<Rightarrow> js_of_rat (of_int n) | _ \<Rightarrow> amount_due p db),
         rc_currency = map upper_char (js_trim (case md_bindings db p of
            Some (a, c) \<Rightarrow> (case or_null c of None \<Rightarrow> ''ILS'' | Some t \<Rightarrow> t) | None \<Rightarrow> ''ILS''))\<rparr>) (participant_of p d db)"

definition reconcile_waiting :: "provider_operation \<Rightarrow> attempt_type \<Rightarrow> buyer_state \<Rightarrow> money_state \<Rightarrow> bool" where
  "reconcile_waiting operation t b m \<longleftrightarrow>
     (case operation of
        OpCapture \<Rightarrow> (b = B_ChargingAttempt \<and> m = M_ChargeAttempt) \<or> (recoverable b m \<and> t = A_Recovery)
      | OpRefund \<Rightarrow> captured_money m
      | OpAuthorization \<Rightarrow> (b = B_ChargingAttempt \<and> m = M_ChargeAttempt) \<or> recoverable b m
      | OpRelease \<Rightarrow> List.member [M_AuthHeld, M_AuthLocked, M_ChargeFailedRecovery] m)"

text \<open>The job that owns an identity that never left the process.\<close>

definition rail_job :: "reconcile_payload \<Rightarrow> money_state \<Rightarrow> string \<times> string \<times> string" where
  "rail_job a m =
     (if rp_operation a = OpRefund then (if rp_type a = A_CancelRefund then ''cancel_refund'' else ''refund_issue'', ''deal'', rp_deal a)
      else if rp_operation a = OpRelease then (''payment_release'', ''participant'', rp_participant a)
      else if rp_type a = A_Recovery \<or> (rp_operation a = OpAuthorization \<and> m = M_ChargeFailedRecovery) then (''recovery_deal'', ''deal'', rp_deal a)
      else (''charge_deal'', ''deal'', rp_deal a))"

definition phase_open :: "reconcile_payload \<Rightarrow> reconcile_target \<Rightarrow> bool" where
  "phase_open a target \<longleftrightarrow>
     (if rp_operation a = OpCapture \<or> rp_operation a = OpAuthorization
      then (if fst (rail_job a (rc_money target)) = ''recovery_deal''
            then rc_deal_state target = Some D_CompletionWindow \<and> rc_within target
            else rc_deal_state target = Some D_Charging)
      else reconcile_waiting (rp_operation a) (rp_type a) (rc_buyer target) (rc_money target))"

definition case_of :: "('a worker_db_scheme) job_env \<Rightarrow> string \<Rightarrow> reconcile_payload \<Rightarrow> ('a worker_db_scheme, unit) job" where
  "case_of env prefix a = openPaymentOperationalCase env (prefix @ '':'' @ rp_participant a @ '':'' @ type_name (rp_type a)) (Some (rp_correlation a))"

definition retire_abandoned :: "('a worker_db_scheme) job_env \<Rightarrow> reconcile_payload \<Rightarrow> reconcile_target \<Rightarrow> ('a worker_db_scheme, unit) job" where
  "retire_abandoned env a target =
     jbind (jledger env (\<lambda>now. retireNeverDispatchedInTx now (rp_participant a) (rp_deal a) [rp_type a]
        (''reconcile:'' @ (if reconcile_waiting (rp_operation a) (rp_type a) (rc_buyer target) (rc_money target) then ''phase_over'' else ''participant_not_waiting'')))) (\<lambda>retired.
       if retired \<noteq> [] \<and> rp_operation a = OpCapture \<and> held_money (rc_money target)
          \<and> (rc_buyer target = B_DealFailed \<or> rc_buyer target = B_Dropped)
       then schedulePaymentRelease env (rp_participant a) (rp_deal a) ''reconcile_never_dispatched_capture_retired''
       else jreturn ())"

definition reconcile_never_dispatched :: "('a worker_db_scheme) job_env \<Rightarrow> reconcile_payload \<Rightarrow> reconcile_target \<Rightarrow> ('a worker_db_scheme, unit) job" where
  "reconcile_never_dispatched env a target =
     (case rail_job a (rc_money target) of (event_type, aggregate_type, aggregate_id) \<Rightarrow>
        jbind (jread env (\<lambda>now db. list_ex (live_job event_type aggregate_type aggregate_id) (odb_events (ld_outbox db)))) (\<lambda>live.
          if live then jreturn ()
          else if reconcile_waiting (rp_operation a) (rp_type a) (rc_buyer target) (rc_money target) \<and> phase_open a target
          then (if rp_operation a = OpRelease
                then schedulePaymentRelease env (rp_participant a) (rp_deal a) ''reconcile_never_dispatched_release_identity''
                else case_of env ''payment-never-dispatched-no-live-job'' a)
          else retire_abandoned env a target))"

definition operation_family :: "provider_operation \<Rightarrow> attempt_type \<Rightarrow> bool" where
  "operation_family operation t \<longleftrightarrow>
     (case operation of OpCapture \<Rightarrow> capture_side t | OpRefund \<Rightarrow> t = A_Refund \<or> t = A_CancelRefund
        | OpAuthorization \<Rightarrow> t = A_Reauthorize | OpRelease \<Rightarrow> t = A_Release)"

definition in_flight_errors :: "string list" where
  "in_flight_errors = [''payment_operation_in_flight'', ''payment_attempt_terminal_downgrade'', ''payment_attempt_in_flight_negative_settle'',
     ''payment_attempt_dispatch_in_flight'', ''payment_attempt_in_flight_disarm'', ''payment_attempt_in_flight_foreign_write'']"

definition deferIfInFlight :: "('a worker_db_scheme) job_env \<Rightarrow> ('a worker_db_scheme, 'b) job \<Rightarrow> ('a worker_db_scheme, 'b) job" where
  "deferIfInFlight env m s =
     (case m s of
        (Inl (Thrown (BodyRejected reason)), s1) \<Rightarrow>
          (Inl (if List.member in_flight_errors reason
                then Deferred ''payment_reconcile_operation_in_flight'' (je_now env (js_step s1) + je_io_margin env)
                else Thrown (BodyRejected reason)), s1)
      | r \<Rightarrow> r)"

definition failClosedUnresolved :: "('a worker_db_scheme) job_env \<Rightarrow> reconcile_payload \<Rightarrow> ('a worker_db_scheme, 'b) job" where
  "failClosedUnresolved env a =
     jbind (openPaymentOperationalCase env (''payment-outcome-unresolved:'' @ rp_participant a @ '':'' @ type_name (rp_type a) @ '':''
              @ (case or_null (Some (rp_correlation a)) of None \<Rightarrow> ''no-correlation'' | Some c \<Rightarrow> c)) (Some (rp_correlation a))) (\<lambda>_.
       jstop (PermanentStop (''payment_reconcile_negative_status_unproven participant '' @ rp_participant a)))"

definition if_authoritative :: "('a worker_db_scheme) job_env \<Rightarrow> reconcile_payload \<Rightarrow> ('a worker_db_scheme, unit) job \<Rightarrow> ('a worker_db_scheme, unit) job" where
  "if_authoritative env a m =
     (if ap_negative_status_authoritative (providerAmbiguityPolicy (je_provider env)) then m else failClosedUnresolved env a)"

definition settle_reconciled ::
    "('a worker_db_scheme) job_env \<Rightarrow> reconcile_payload \<Rightarrow> result_class \<Rightarrow> string option \<Rightarrow> failure_evidence option \<Rightarrow> string \<Rightarrow> ('a worker_db_scheme, unit) job" where
  "settle_reconciled env a result reference evidence reason =
     deferIfInFlight env (jbind (jledger env (\<lambda>now. settleAttemptInTx now (rp_participant a) (rp_deal a) (rp_type a) (rp_correlation a)
        result reference evidence (Some reason))) (\<lambda>_. jreturn ()))"

text \<open>The answer of an event the job ingests: whether it was processed, and the reason.\<close>

definition ingest_answer_of :: "ingest_answer \<Rightarrow> bool \<times> string" where
  "ingest_answer_of answer =
     (case answer of
        DuplicateEvent status \<Rightarrow> (status = WProcessed, ''duplicate_event'')
      | Acknowledged duplicate status reason follow \<Rightarrow> (status = WProcessed, reason))"

definition ingest_reconciled :: "('a worker_db_scheme) job_env \<Rightarrow> provider_event \<Rightarrow> ('a worker_db_scheme, bool \<times> string) job" where
  "ingest_reconciled env ev =
     jbind (jtx env (\<lambda>now uuid db. Inr (ingestAndProcessPaymentEvent (je_apply env) (je_stale env) now uuid
              (payload_text [Some (pe_event ev), pe_reference ev]) ev db))) (\<lambda>answer.
       case answer of
         Inl e \<Rightarrow> jstop (Thrown e)
       | Inr a \<Rightarrow> jbind (jfollow (follow_of ev a)) (\<lambda>_. jreturn (ingest_answer_of a)))"

definition ingestResolution ::
    "('a worker_db_scheme) job_env \<Rightarrow> reconcile_payload \<Rightarrow> string option \<Rightarrow> string \<Rightarrow> result_class \<Rightarrow> ('a worker_db_scheme, bool) job" where
  "ingestResolution env a reference eventType result =
     (let correlation = or_null (Some (rp_correlation a))
      in jbind (deferIfInFlight env (ingest_reconciled env (job_money_event (pv_code (je_provider env))
             (''reconcile:'' @ (case correlation of None \<Rightarrow> rp_participant a | Some c \<Rightarrow> c) @ '':'' @ eventType) eventType correlation
             (rp_participant a) (rp_deal a) reference ''payment_reconcile_worker''))) (\<lambda>(processed, reason).
         jbind (if correlation = None then jreturn ()
                else settle_reconciled env a result reference (if result = R_PermanentFail then Some EV_StatusInference else None)
                       (''reconcile:'' @ eventType @ '':'' @ reason)) (\<lambda>_.
           jreturn processed)))"

text \<open>The refusals of an answer that is not about this operation, and where the question is asked.\<close>

definition reconcile_refusal :: "reconcile_payload \<Rightarrow> reconcile_target \<Rightarrow> status_result \<Rightarrow> string option" where
  "reconcile_refusal a target status =
     (if rp_operation a \<noteq> OpRelease \<and> foreign_amount (Some (rc_amount target)) status then Some ''payment-reconcile-amount-mismatch''
      else if rp_operation a \<noteq> OpRelease \<and> (case or_null (sr_currency status) of None \<Rightarrow> False | Some c \<Rightarrow> map upper_char c \<noteq> rc_currency target)
      then Some ''payment-reconcile-currency-mismatch''
      else if sr_matches status = Some False then Some ''payment-reconcile-reference-mismatch''
      else None)"

datatype question = AskProvider string | NothingToProve | NoReference | RenewalUnverifiable

definition status_question :: "bool \<Rightarrow> reconcile_payload \<Rightarrow> reconcile_target \<Rightarrow> attempt_row option \<Rightarrow> question" where
  "status_question repeat_safe a target row =
     (let reference = trimmed (text_or (rp_reference a) (Some (rc_reference target)))
      in if reference = '''' then NoReference
         else if rp_operation a \<noteq> OpAuthorization then AskProvider reference
         else case row of
             None \<Rightarrow> NothingToProve
           | Some r \<Rightarrow>
               if pa_result r \<noteq> R_Unknown then NothingToProve
               else let own = trimmed (text_or (pa_reference r) (rp_reference a))
                 in if own = '''' \<or> own = js_trim (rc_reference target) then (if repeat_safe then NothingToProve else RenewalUnverifiable)
                    else AskProvider own)"

definition wake_recovery :: "string \<Rightarrow> int \<Rightarrow> string \<Rightarrow> 'a worker_db_scheme \<Rightarrow> 'a worker_db_scheme" where
  "wake_recovery d now uuid db =
     (if ld_deals db d = Some D_CompletionWindow \<and> (case pd_window db d of None \<Rightarrow> False | Some t \<Rightarrow> now < t)
      then snd (enqueue_once (deal_job uuid ''recovery_deal'' d now) db) else db)"

definition reconcile_unresolved ::
    "('a worker_db_scheme) job_env \<Rightarrow> job_event \<Rightarrow> reconcile_payload \<Rightarrow> status_result \<Rightarrow> ('a worker_db_scheme, unit) job" where
  "reconcile_unresolved env event a status =
     (let horizon = ap_settlement_horizon_ms (providerAmbiguityPolicy (je_provider env))
      in jbind (if rp_operation a = OpCapture \<and> sr_state status = PPending \<and> rp_correlation a \<noteq> '''' \<and> 0 < horizon
                then jcatch (jledger env (\<lambda>now. extendSettlementHorizon now (rp_participant a) (rp_deal a) (rp_type a) (rp_correlation a) horizon)) False
                else jreturn False) (\<lambda>_.
         jbind (if ev_max_attempts event \<le> ev_attempts event + 1 then case_of env ''payment-reconcile-unresolved'' a else jreturn ()) (\<lambda>_.
           jstop (JobError (''payment_reconcile_unresolved participant '' @ rp_participant a)))))"

text \<open>What an answer about this operation decides; \<open>None\<close> when it decides nothing.\<close>

definition reconcile_capture ::
    "('a worker_db_scheme) job_env \<Rightarrow> reconcile_payload \<Rightarrow> reconcile_target \<Rightarrow> string option \<Rightarrow> status_result \<Rightarrow> ('a worker_db_scheme, unit) job option" where
  "reconcile_capture env a target reference status =
     (if sr_state status = PCaptured
      then Some (jbind (ingestResolution env a reference (if rp_type a = A_Recovery then ''recovery_captured'' else ''charge_captured'') R_Success) (\<lambda>_. jreturn ()))
      else if sr_state status = PFailed \<or> (sr_state status = PAuthorized \<and> sr_final status)
      then Some (if_authoritative env a
             (jbind (ingestResolution env a reference (if rp_type a = A_Recovery then ''recovery_failed'' else ''charge_failed'') R_PermanentFail) (\<lambda>applied.
                if rp_type a \<noteq> A_Recovery \<and> (applied \<or> rc_money target = M_ChargeFailedRecovery)
                then jcatch (jwrite env (wake_recovery (rp_deal a))) () else jreturn ())))
      else None)"

definition reconcile_authorization ::
    "('a worker_db_scheme) job_env \<Rightarrow> reconcile_payload \<Rightarrow> reconcile_target \<Rightarrow> string \<Rightarrow> status_result \<Rightarrow> ('a worker_db_scheme, unit) job option" where
  "reconcile_authorization env a target statusReference status =
     (let renewed = (case or_null (sr_reference status) of None \<Rightarrow> statusReference | Some r \<Rightarrow> r)
      in if sr_state status = PAuthorized \<and> rp_correlation a \<noteq> ''''
         then Some (jbind (deferIfInFlight env (jledger env (\<lambda>now db.
                  on_ok (settleAttemptInTx now (rp_participant a) (rp_deal a) A_Reauthorize (rp_correlation a) R_Success (Some renewed) None
                           (Some (''reconcile:authorization_confirmed:'' @ (if sr_final status then ''final'' else ''open''))) db) (\<lambda>(s, db1).
                    Inr ((), applyAuthorizationRenewalInTx (rp_participant a) renewed (Some renewed) None (rp_correlation a) now db1))))) (\<lambda>_.
                if reconcile_waiting OpAuthorization (rp_type a) (rc_buyer target) (rc_money target)
                then jcatch (jwrite env (\<lambda>now uuid db. snd (enqueue_once (pending_job uuid
                       (if rc_money target = M_ChargeFailedRecovery then ''recovery_deal'' else ''charge_deal'') ''deal'' (rp_deal a)
                       (payload_text [Some (rp_deal a), Some ''reauthorization_confirmed'']) now) db))) ()
                else jreturn ()))
         else if sr_state status = PFailed \<and> sr_final status \<and> rp_correlation a \<noteq> ''''
         then Some (if_authoritative env a
                (settle_reconciled env a R_PermanentFail None (Some EV_StatusInference) ''reconcile_reauthorization_not_executed''))
         else None)"

definition reconcile_refund ::
    "('a worker_db_scheme) job_env \<Rightarrow> reconcile_payload \<Rightarrow> reconcile_target \<Rightarrow> string option \<Rightarrow> status_result \<Rightarrow> ('a worker_db_scheme, unit) job option" where
  "reconcile_refund env a target reference status =
     (if sr_state status = PRefunded
      then Some (jbind (ingestResolution env a reference ''refund_issued'' R_Success) (\<lambda>_. jreturn ()))
      else if sr_state status = PCaptured \<and> sr_final status
      then Some (if_authoritative env a
             (jbind (settle_reconciled env a R_PermanentFail None None ''reconcile_refund_not_executed'') (\<lambda>_.
                if captured_money (rc_money target)
                then jwrite env (\<lambda>now uuid db. snd (enqueue_once (pending_job uuid ''refund_issue'' ''deal'' (rp_deal a)
                       (payload_text [Some (rp_deal a), Some ''reconcile_refund_not_executed'']) now) db))
                else jreturn ())))
      else None)"

definition reconcile_release ::
    "('a worker_db_scheme) job_env \<Rightarrow> string \<Rightarrow> reconcile_payload \<Rightarrow> reconcile_target \<Rightarrow> status_result \<Rightarrow> ('a worker_db_scheme, unit) job option" where
  "reconcile_release env eventId a target status =
     (if sr_state status = PReleased
      then Some (jbind (applyAuthorizationRelease env (rp_participant a) (rp_deal a) (''reconcile:'' @ eventId) (Some (rp_correlation a))) (\<lambda>_.
             jbind (jledger env (\<lambda>now. settleAttemptInTx now (rp_participant a) (rp_deal a) A_Release (rp_correlation a) R_Success None None None)) (\<lambda>_.
               jreturn ())))
      else if sr_state status = PAuthorized \<and> sr_final status
      then Some (if_authoritative env a
             (jbind (settle_reconciled env a R_PermanentFail None None ''reconcile_release_not_executed'') (\<lambda>_.
                if reconcile_waiting OpRelease (rp_type a) (rc_buyer target) (rc_money target)
                then schedulePaymentRelease env (rp_participant a) (rp_deal a) ''reconcile_release_not_executed'' else jreturn ())))
      else if sr_state status = PCaptured
      then Some (jbind (openPaymentOperationalCase env (''payment-reconcile-release-captured:'' @ rp_participant a) (Some (rp_correlation a))) (\<lambda>_.
             jstop (PermanentStop (''payment_reconcile_release_captured participant '' @ rp_participant a))))
      else None)"

definition reconcile_verdict_of ::
    "('a worker_db_scheme) job_env \<Rightarrow> job_event \<Rightarrow> reconcile_payload \<Rightarrow> reconcile_target \<Rightarrow> string \<Rightarrow> status_result \<Rightarrow> ('a worker_db_scheme, unit) job" where
  "reconcile_verdict_of env event a target statusReference status =
     (let reference = text_or (sr_reference status) (Some (trimmed (text_or (rp_reference a) (Some (rc_reference target)))))
      in case (case rp_operation a of
                 OpCapture \<Rightarrow> reconcile_capture env a target reference status
               | OpAuthorization \<Rightarrow> reconcile_authorization env a target statusReference status
               | OpRefund \<Rightarrow> reconcile_refund env a target reference status
               | OpRelease \<Rightarrow> reconcile_release env (ev_uuid event) a target status) of
           Some verdict \<Rightarrow> verdict
         | None \<Rightarrow> reconcile_unresolved env event a status)"

definition ask_provider ::
    "('a worker_db_scheme) job_env \<Rightarrow> job_event \<Rightarrow> reconcile_payload \<Rightarrow> reconcile_target \<Rightarrow> attempt_row option \<Rightarrow> ('a worker_db_scheme, unit) job" where
  "ask_provider env event a target row =
     (let policy = providerAmbiguityPolicy (je_provider env); p = rp_participant a;
          refuse = (\<lambda>key reason. jbind (case_of env key a) (\<lambda>_. jstop (PermanentStop (reason @ '' participant '' @ p))))
      in case pv_status (je_provider env) of
           None \<Rightarrow> refuse ''payment-reconcile-unsupported'' ''payment_reconcile_status_unsupported''
         | Some answer \<Rightarrow>
             (case status_question (ap_same_identity_repeat_safe policy) a target row of
                NoReference \<Rightarrow> refuse ''payment-reconcile-no-reference'' ''payment_reconcile_missing_reference''
              | NothingToProve \<Rightarrow> jreturn ()
              | RenewalUnverifiable \<Rightarrow>
                  jbind (openPaymentOperationalCase env (''payment-reauthorization-unresolved:'' @ p) (Some (rp_correlation a))) (\<lambda>_.
                    jstop (PermanentStop (''payment_reconcile_reauthorization_unverifiable participant '' @ p)))
              | AskProvider reference \<Rightarrow>
                  jbind (jcall env (StatusCall reference (rp_operation a)
                      (case or_null (Some (rp_correlation a)) of None \<Rightarrow> ''reconcile:'' @ ev_uuid event | Some c \<Rightarrow> c))
                      (\<lambda>n. answer n reference (rp_operation a))) (\<lambda>status.
                    case reconcile_refusal a target status of
                      Some key \<Rightarrow> refuse key (map (\<lambda>c. if c = CHR ''-'' then CHR ''_'' else c) key)
                    | None \<Rightarrow> reconcile_verdict_of env event a target reference status)))"

definition handlePaymentReconcileEvent :: "('a worker_db_scheme) job_env \<Rightarrow> job_event \<Rightarrow> reconcile_payload \<Rightarrow> ('a worker_db_scheme, unit) job" where
  "handlePaymentReconcileEvent env event a =
     (let p = rp_participant a; d = rp_deal a
      in if d = '''' then jstop (PermanentStop (''payment_reconcile missing deal_id for participant '' @ p))
         else jbind (jread env (loadReconcileParticipant p d)) (\<lambda>loaded.
           case loaded of
             None \<Rightarrow> jstop (PermanentStop (''payment_reconcile participant not found '' @ p))
           | Some target \<Rightarrow>
               jbind (if rp_correlation a = '''' then jreturn None
                      else jread env (\<lambda>now. loadAttemptLifecycle p d (Some (rp_type a)) (rp_correlation a))) (\<lambda>row.
               let unresolved = (case row of None \<Rightarrow> False | Some r \<Rightarrow> pa_result r = R_Unknown)
               in if \<not> reconcile_waiting (rp_operation a) (rp_type a) (rc_buyer target) (rc_money target) \<and> \<not> unresolved then jreturn ()
                  else if unresolved \<and> (case row of None \<Rightarrow> False | Some r \<Rightarrow> pa_dispatch r = DS_Recorded)
                  then reconcile_never_dispatched env a target
                  else jbind (if row \<noteq> None \<and> \<not> unresolved then jread env (\<lambda>now. loadRows p d) else jreturn []) (\<lambda>siblings.
                       if list_ex (\<lambda>r. operation_family (rp_operation a) (pa_type r) \<and> pa_correlation r \<noteq> rp_correlation a \<and> pa_result r = R_Unknown) siblings
                       then jreturn ()
                       else jbind (jread env (\<lambda>now. anyOperationInFlight now p d)) (\<lambda>inFlight.
                            if inFlight \<noteq> None
                            then jbind (jnow env) (\<lambda>now. jstop (Deferred ''payment_reconcile_operation_in_flight'' (now + je_io_margin env)))
                            else ask_provider env event a target row)))))"

section \<open>The worker's dispatch\<close>

definition is_hex :: "char \<Rightarrow> bool" where
  "is_hex c \<longleftrightarrow> is_digit c \<or> List.member ''abcdefABCDEF'' c"

fun uuid_groups :: "nat list \<Rightarrow> string \<Rightarrow> bool" where
  "uuid_groups [] text \<longleftrightarrow> False"
| "uuid_groups [n] text \<longleftrightarrow> length text = n \<and> list_all is_hex text"
| "uuid_groups (n # m # ns) text \<longleftrightarrow>
     list_all is_hex (take n text) \<and> n < length text \<and> text ! n = CHR ''-'' \<and> uuid_groups (m # ns) (drop (Suc n) text)"

definition is_uuid :: "string \<Rightarrow> bool" where
  "is_uuid = uuid_groups [8, 4, 4, 4, 12]"

text \<open>The payload of a job as it is read from the row; the payout jobs are run by the payout rail.\<close>

datatype job_payload = InvalidPayload | DealPayload | ReleasePayload string string | ReconcilePayload reconcile_payload

definition run_job :: "('db, 'a) job \<Rightarrow> ('db, 'a) run" where
  "run_job m s = Some (m s)"

definition workerProcessEvent ::
    "('a worker_db_scheme) job_env \<Rightarrow> (job_event \<Rightarrow> ('a worker_db_scheme, unit) run) \<Rightarrow> job_event \<Rightarrow> job_payload \<Rightarrow> ('a worker_db_scheme, unit) run" where
  "workerProcessEvent env elsewhere event payload =
     (if payload = InvalidPayload then run_job (jstop (PermanentStop (''invalid payload for '' @ ev_type event)))
      else if \<not> is_uuid (ev_aggregate event) then run_job (jstop (PermanentStop (''invalid aggregate_id for '' @ ev_type event)))
      else if ev_type event = ''deadline_check'' then run_job (deadline_check env event)
      else if ev_type event = ''charge_deal'' then handleChargeDealEvent env event
      else if ev_type event = ''recovery_deal'' then handleRecoveryDealEvent env event
      else if ev_type event = ''finalize_deal'' then run_job (handleFinalizeDealEvent env event)
      else if ev_type event = ''refund_issue'' \<or> ev_type event = ''cancel_refund'' then run_job (handleRefundEvent env event)
      else case payload of
          ReconcilePayload a \<Rightarrow> if ev_type event = ''payment_reconcile'' then run_job (handlePaymentReconcileEvent env event a) else elsewhere event
        | ReleasePayload p d \<Rightarrow> if ev_type event = ''payment_release'' then run_job (handlePaymentReleaseEvent env event p d) else elsewhere event
        | _ \<Rightarrow> elsewhere event)"

end
