(* ===== verification/RailTraces.thy ===== *)
theory RailTraces
  imports ReconcileRail
begin

text \<open>
  What a job asks of the provider. A contract on traces is a predicate with a budget that composes along
  a run; every helper of the payment rails satisfies it as soon as the requests it may send do. The two
  instances count the capture requests and state what held in the database when each was sent.
\<close>

section \<open>Jobs and their traces\<close>

text \<open>The requests a job sends satisfy \<open>L\<close>, and a job that returns leaves \<open>Post\<close>.\<close>

definition sends ::
    "('db \<Rightarrow> bool) \<Rightarrow> ((provider_call \<times> 'db) list \<Rightarrow> bool) \<Rightarrow> ('a \<Rightarrow> 'db \<Rightarrow> bool) \<Rightarrow> ('db, 'a) job \<Rightarrow> bool" where
  "sends Pre L Post m \<longleftrightarrow>
     (\<forall>s. Pre (js_db s) \<longrightarrow>
        (\<exists>cs. js_calls (snd (m s)) = js_calls s @ cs \<and> L cs) \<and> (\<forall>a. fst (m s) = Inr a \<longrightarrow> Post a (js_db (snd (m s)))))"

definition emits :: "((provider_call \<times> 'db) list \<Rightarrow> bool) \<Rightarrow> ('db, 'a) job \<Rightarrow> bool" where
  "emits L m \<longleftrightarrow> sends (\<lambda>db. True) L (\<lambda>a db. True) m"

lemma emits_iff: "emits L m \<longleftrightarrow> (\<forall>s. \<exists>cs. js_calls (snd (m s)) = js_calls s @ cs \<and> L cs)"
  by (simp add: emits_def sends_def)

lemma emitsD: "emits L m \<Longrightarrow> m s = (r, s1) \<Longrightarrow> \<exists>cs. js_calls s1 = js_calls s @ cs \<and> L cs"
  by (metis emits_iff snd_conv)

text \<open>A run sends within a contract when it returns.\<close>

definition run_emits :: "((provider_call \<times> 'db) list \<Rightarrow> bool) \<Rightarrow> ('db, 'a) run \<Rightarrow> bool" where
  "run_emits L m \<longleftrightarrow> (\<forall>s. \<exists>r s1 cs. m s = Some (r, s1) \<and> js_calls s1 = js_calls s @ cs \<and> L cs)"

named_theorems quiet \<open>jobs that keep a contract on their requests\<close>

section \<open>The contract\<close>

locale call_contract =
  fixes L :: "nat \<Rightarrow> (provider_call \<times> 'a worker_db_scheme) list \<Rightarrow> bool"
  assumes L_empty: "L 0 []"
    and L_append: "L i xs \<Longrightarrow> L j ys \<Longrightarrow> L (i + j) (xs @ ys)"
    and L_mono: "L i xs \<Longrightarrow> i \<le> j \<Longrightarrow> L j xs"
    and L_status: "L 0 [(StatusCall r o1 c, db)]"
begin

lemma L_nil: "L i []"
  using L_mono [OF L_empty] by simp

lemma emits_return [quiet]: "emits (L i) (jreturn a)"
  and emits_stop [quiet]: "emits (L i) (jstop e)"
  and emits_now [quiet]: "emits (L i) (jnow env)"
  and emits_follow [quiet]: "emits (L i) (jfollow fs)"
  by (auto simp: emits_iff jreturn_def jstop_def jnow_def jfollow_def L_nil)

lemma emits_tx [quiet]: "emits (L i) (jtx env body)"
  by (auto simp: emits_iff jtx_def Let_def L_nil split: sum.split)

lemma emits_bind_sum:
  assumes "emits (L i) m" and "\<And>a. emits (L j) (f a)"
  shows "emits (L (i + j)) (jbind m f)"
  unfolding emits_iff
proof
  fix s
  obtain r s1 where m: "m s = (r, s1)" by force
  then obtain xs where xs: "js_calls s1 = js_calls s @ xs" "L i xs" using emitsD [OF assms(1)] by blast
  show "\<exists>cs. js_calls (snd (jbind m f s)) = js_calls s @ cs \<and> L (i + j) cs"
  proof (cases r)
    case (Inl e)
    then show ?thesis using m xs L_mono [OF xs(2)] by (simp add: jbind_def)
  next
    case (Inr a)
    obtain ys where "js_calls (snd (f a s1)) = js_calls s1 @ ys" "L j ys"
      using assms(2) unfolding emits_iff by blast
    then show ?thesis using m xs Inr L_append [OF xs(2)] by (simp add: jbind_def)
  qed
qed

lemma emits_bind [quiet]: "emits (L 0) m \<Longrightarrow> (\<And>a. emits (L j) (f a)) \<Longrightarrow> emits (L j) (jbind m f)"
  using emits_bind_sum [of 0 m j f] by simp

lemma emits_catch [quiet]: "emits (L i) m \<Longrightarrow> emits (L i) (jcatch m d)"
  and emits_try [quiet]: "emits (L i) m \<Longrightarrow> emits (L i) (jtry m)"
  by (auto simp: emits_iff jcatch_def jtry_def split: prod.split sum.split) (metis snd_conv)+

lemma emits_defer [quiet]: "emits (L i) m \<Longrightarrow> emits (L i) (deferIfInFlight env m)"
  unfolding emits_iff deferIfInFlight_def
  by (auto split: prod.split sum.split job_stop.split lifecycle_error.split) (metis snd_conv)+

lemma emits_for [quiet]: "(\<And>x. emits (L 0) (f x)) \<Longrightarrow> emits (L 0) (jfor xs f)"
  by (induction xs) (simp_all add: quiet)

lemma emits_cases [quiet]:
  "(b \<Longrightarrow> emits (L i) m) \<Longrightarrow> (\<not> b \<Longrightarrow> emits (L i) m') \<Longrightarrow> emits (L i) (if b then m else m')"
  "(x = None \<Longrightarrow> emits (L i) m) \<Longrightarrow> (\<And>y. x = Some y \<Longrightarrow> emits (L i) (g y)) \<Longrightarrow> emits (L i) (case x of None \<Rightarrow> m | Some y \<Rightarrow> g y)"
  "(\<And>e. emits (L i) (h e)) \<Longrightarrow> (\<And>y. emits (L i) (k y)) \<Longrightarrow> emits (L i) (case r of Inl e \<Rightarrow> h e | Inr y \<Rightarrow> k y)"
  "(\<And>u v. emits (L i) (q u v)) \<Longrightarrow> emits (L i) (case z of (u, v) \<Rightarrow> q u v)"
  by (auto split: option.split sum.split prod.split)

lemma emits_call: "(\<And>db. L i [(call, db)]) \<Longrightarrow> emits (L i) (jcall env call answer)"
  by (auto simp: emits_iff jcall_def Let_def L_nil)

lemma emits_status [quiet]: "emits (L i) (jcall env (StatusCall r o1 c) answer)"
  by (rule emits_call) (rule L_mono [OF L_status], simp)

lemmas base_jobs = jread_def jwrite_def jledger_def jtransition_def jingest_def jbegin_def jdefer_def

lemma emits_base [quiet]:
  "emits (L i) (jread env f1)" "emits (L i) (jwrite env f2)" "emits (L i) (jledger env f3)" "emits (L i) (jtransition env f4)"
  "emits (L i) (jbegin env p d t identity admitted)" "emits (L i) (jdefer env)" "emits (L i) (jingest env ev)"
  by (auto simp: base_jobs intro!: quiet)

section \<open>The helpers of the rails\<close>

lemma emits_case [quiet]: "emits (L i) (openPaymentOperationalCase env key c)"
  unfolding openPaymentOperationalCase_def by (intro quiet)

lemma emits_schedule [quiet]:
  "emits (L i) (schedulePaymentReconcile env a)" "emits (L i) (schedulePaymentRelease env p d reason)"
  unfolding schedulePaymentReconcile_def schedulePaymentRelease_def by (intro quiet)+

lemma emits_lease [quiet]: "emits (L i) (assertOutboxLeaseForProviderIo env event)"
  unfolding assertOutboxLeaseForProviderIo_def by (intro quiet)

lemma emits_arm [quiet]: "emits (L i) (armMoneyOperation env op ms bs reference gate)"
  unfolding armMoneyOperation_def by (intro quiet)

lemma emits_settle [quiet]: "emits (L i) (settleOwnedMoneyOperation env op outcome reference txt inside)"
  unfolding settleOwnedMoneyOperation_def by (intro quiet) (auto intro: quiet split: settle_dispatch_answer.split)

lemma emits_release [quiet]: "emits (L i) (applyAuthorizationRelease env p d request c)"
  unfolding applyAuthorizationRelease_def by (intro quiet)

lemma emits_blocked [quiet]: "emits (L i) (handleBlockedMoneyOperation env p d t blocking reference)"
  unfolding handleBlockedMoneyOperation_def by (intro quiet)

lemma emits_prior [quiet]: "emits (L i) (resolvePriorProviderAttempt env a)"
  unfolding resolvePriorProviderAttempt_def prior_verdict_def applied_as_def prior_deferred_def prior_ingest_def
    finalizePrior_def reuseAfterNegative_def Let_def by (intro quiet)

lemma emits_verify [quiet]: "emits (L i) (verifyOriginalCaptureBeforeRecovery env a)"
  unfolding verifyOriginalCaptureBeforeRecovery_def preflight_read_def preflight_effects_def preflight_case_def ingest_late_capture_def Let_def
  by (intro quiet) (auto intro!: quiet split: preflight_verdict.split)

lemma emits_eligibility [quiet]: "emits (L i) (renewalEligibilityForParticipant env p d)"
  unfolding renewalEligibilityForParticipant_def by (intro quiet)

lemma emits_commit [quiet]: "emits (L i) (commit_answer env rail op authorization result)"
  unfolding commit_answer_def Let_def by (intro quiet)

lemma emits_answer [quiet]: "emits (L i) (answer_capture env rail op authorization retry result)"
  unfolding answer_capture_def Let_def by (intro quiet)

lemma emits_answer_renewal [quiet]: "emits (L i) (answer_renewal env op current result)"
  unfolding answer_renewal_def Let_def by (auto intro!: quiet split: reauthorize_result.split)

lemma emits_prior_renewal [quiet]: "emits (L i) (resolve_prior_renewal env rp current c)"
  unfolding resolve_prior_renewal_def Let_def by (intro quiet)

lemma emits_finish [quiet]:
  "emits (L i) (cleanupObsoleteDealOutboxEvents env d)"
  "emits (L i) (charge_finish env e d hold)"
  "emits (L i) (recovery_finish d hold)"
  unfolding cleanupObsoleteDealOutboxEvents_def charge_finish_def recovery_finish_def open_completion_window_def
  by (intro quiet)+

lemma emits_capture_blocked [quiet]: "emits (L i) (capture_blocked env event rail rp reason blocking)"
  unfolding capture_blocked_def Let_def by (intro quiet)

text \<open>The gate and one capture, given what their requests may be.\<close>

lemma emits_gate:
  assumes "\<And>b m cur c. emits (L k) (send_renewal env event rail rp b m cur c)"
  shows "emits (L k) (ensureUsableAuthorizationForCapture env event rail rp)"
  unfolding ensureUsableAuthorizationForCapture_def renew_authorization_def Let_def
  by (intro quiet) (auto intro!: quiet assms split: begin_answer.split)

lemma emits_once:
  assumes "\<And>c. emits (L k) (send_capture env event rail rp retry c)"
  shows "emits (L k) (captureParticipantOnce env event rail rp retry)"
  unfolding captureParticipantOnce_def Let_def
  by (intro quiet) (auto intro!: quiet assms split: begin_answer.split)

section \<open>Runs\<close>

lemma run_emits_mono: "run_emits (L i) m \<Longrightarrow> i \<le> j \<Longrightarrow> run_emits (L j) m"
  unfolding run_emits_def by (meson L_mono)

lemma run_of_job: "emits (L i) m \<Longrightarrow> run_emits (L i) (run_job m)"
  unfolding emits_iff run_emits_def run_job_def by (metis prod.collapse)

lemma run_constant: "run_emits (L i) (\<lambda>s. Some (a, s))"
  by (auto simp: run_emits_def L_nil)

lemma run_job_then:
  assumes "emits (L 0) m" and "\<And>a. run_emits (L i) (f a)"
  shows "run_emits (L i) (job_then m f)"
  unfolding run_emits_def
proof
  fix s
  obtain r s1 where m: "m s = (r, s1)" by force
  obtain xs where xs: "js_calls s1 = js_calls s @ xs" "L 0 xs" using emitsD [OF assms(1) m] by blast
  show "\<exists>r s1 cs. job_then m f s = Some (r, s1) \<and> js_calls s1 = js_calls s @ cs \<and> L i cs"
  proof (cases r)
    case (Inl e)
    then show ?thesis using m xs L_mono [OF xs(2)] by (auto simp: job_then_def)
  next
    case (Inr a)
    obtain r2 s2 ys where "f a s1 = Some (r2, s2)" "js_calls s2 = js_calls s1 @ ys" "L i ys"
      using assms(2) unfolding run_emits_def by blast
    then show ?thesis using m xs(1) Inr L_append [OF xs(2), of i ys] by (auto simp: job_then_def)
  qed
qed

lemma run_run_then:
  assumes "run_emits (L i) m" and "\<And>a. emits (L 0) (f a)"
  shows "run_emits (L i) (run_then m f)"
  unfolding run_emits_def
proof
  fix s
  obtain r s1 xs where m: "m s = Some (r, s1)" "js_calls s1 = js_calls s @ xs" "L i xs"
    using assms(1) unfolding run_emits_def by blast
  show "\<exists>r s1 cs. run_then m f s = Some (r, s1) \<and> js_calls s1 = js_calls s @ cs \<and> L i cs"
  proof (cases r)
    case (Inl e)
    then show ?thesis using m by (auto simp: run_then_def)
  next
    case (Inr a)
    obtain ys where "js_calls (snd (f a s1)) = js_calls s1 @ ys" "L 0 ys" using assms(2) unfolding emits_iff by blast
    then show ?thesis using m Inr L_append [OF m(3), of 0 ys] by (cases "f a s1") (auto simp: run_then_def)
  qed
qed

lemma run_hold_all:
  assumes "\<And>p. p \<in> set ps \<Longrightarrow> run_emits (L (w p)) (step p)"
  shows "run_emits (L (sum_list (map w ps))) (hold_all step ps hold)"
  using assms
proof (induction ps arbitrary: hold)
  case (Cons p ps)
  show ?case unfolding run_emits_def
  proof
    fix s
    obtain r s1 xs where m: "step p s = Some (r, s1)" "js_calls s1 = js_calls s @ xs" "L (w p) xs"
      using Cons.prems [of p] unfolding run_emits_def by fastforce
    show "\<exists>r s1 cs. hold_all step (p # ps) hold s = Some (r, s1) \<and> js_calls s1 = js_calls s @ cs \<and> L (sum_list (map w (p # ps))) cs"
    proof (cases r)
      case (Inl e)
      then show ?thesis using m L_mono [OF m(3)] by auto
    next
      case (Inr h)
      have "run_emits (L (sum_list (map w ps))) (hold_all step ps (earliest hold h))" using Cons by simp
      then obtain r2 s2 ys where "hold_all step ps (earliest hold h) s1 = Some (r2, s2)" "js_calls s2 = js_calls s1 @ ys"
          "L (sum_list (map w ps)) ys"
        unfolding run_emits_def by blast
      then show ?thesis using m Inr L_append [OF m(3), of "sum_list (map w ps)" ys] by simp
    qed
  qed
qed (simp add: run_emits_def L_nil)

text \<open>The loop of a rail returns: the renewal budget falls with every retry.\<close>

lemma run_loop:
  assumes "emits (L i) (ensureUsableAuthorizationForCapture env event rail rp)"
    and "\<And>a retry. emits (L k) (captureParticipantOnce env event rail (rp\<lparr>rl_authorization := a\<rparr>) retry)"
  shows "run_emits (L (Suc (nat b) * (i + k))) (rail_loop env event rail rp b)"
proof (induction "nat b" arbitrary: b rule: less_induct)
  case less
  show ?case unfolding run_emits_def
  proof
    fix s
    obtain r s1 where g: "ensureUsableAuthorizationForCapture env event rail rp s = (r, s1)" by force
    obtain xs where xs: "js_calls s1 = js_calls s @ xs" "L i xs" using emitsD [OF assms(1) g] by blast
    have one: "\<exists>cs. js_calls s1 = js_calls s @ cs \<and> L (Suc (nat b) * (i + k)) cs"
      using xs L_mono [OF xs(2), of "Suc (nat b) * (i + k)"] by simp
    show "\<exists>r s1 cs. rail_loop env event rail rp b s = Some (r, s1) \<and> js_calls s1 = js_calls s @ cs \<and> L (Suc (nat b) * (i + k)) cs"
    proof (cases "\<exists>a renewed. r = Inr (GateProceed a renewed)")
      case False
      then show ?thesis using g one
        by (subst rail_loop.simps) (auto split: sum.split authorization_gate.split)
    next
      case True
      then obtain a renewed where r: "r = Inr (GateProceed a renewed)" by blast
      let ?a = "case a of None \<Rightarrow> '''' | Some a \<Rightarrow> a"
      obtain r2 s2 where c: "captureParticipantOnce env event rail (rp\<lparr>rl_authorization := ?a\<rparr>) (0 < b) s1 = (r2, s2)" by force
      obtain ys where ys: "js_calls s2 = js_calls s1 @ ys" "L k ys" using emitsD [OF assms(2) c] by blast
      have both: "js_calls s2 = js_calls s @ (xs @ ys)" "L (i + k) (xs @ ys)" using xs ys L_append by simp_all
      have two: "L (Suc (nat b) * (i + k)) (xs @ ys)" by (rule L_mono [OF both(2)]) simp
      show ?thesis
      proof (cases "r2 = Inr RenewAndRetry \<and> 0 < b")
        case True
        then have "nat (b - 1) < nat b" by simp
        from less [OF this] obtain r3 s3 zs where z: "rail_loop env event rail rp (b - 1) s2 = Some (r3, s3)"
            "js_calls s3 = js_calls s2 @ zs" "L (Suc (nat (b - 1)) * (i + k)) zs"
          unfolding run_emits_def by blast
        have "i + k + Suc (nat (b - 1)) * (i + k) = Suc (nat b) * (i + k)" using True by (simp add: nat_diff_distrib')
        then have "L (Suc (nat b) * (i + k)) ((xs @ ys) @ zs)" using L_append [OF both(2) z(3)] by simp
        then show ?thesis using True g r c z both(1) by (subst rail_loop.simps) auto
      next
        case False
        then show ?thesis using g r c both(1) two
          by (subst rail_loop.simps) (auto split: sum.split once_outcome.split)
      qed
    qed
  qed
qed

lemma emits_call_then:
  assumes "\<And>db. L k [(call, db)]" and "\<And>a. emits (L 0) (f a)"
  shows "emits (L k) (jbind (jcall env call answer) f)"
  using emits_bind_sum [OF emits_call, of k call 0 f env answer] assms by simp

lemma emits_send:
  assumes "\<And>input w db. mi_participant input = rl_participant rp \<Longrightarrow>
      L k [(CaptureCall input, db)] \<and> L k [(RecoverCall input w, db)]"
  shows "emits (L k) (send_capture env event rail rp retry c)"
  unfolding send_capture_def Let_def using assms
  by (cases rail) (auto intro!: emits_bind [OF emits_arm] emits_return emits_answer emits_call_then)

lemma emits_send_renewal:
  assumes "\<And>input db. ri_participant input = rl_participant rp \<Longrightarrow> L k [(ReauthorizeCall input, db)]"
  shows "emits (L k) (send_renewal env event rail rp b m cur c)"
  unfolding send_renewal_def Let_def
  by (auto intro!: emits_bind [OF emits_arm] emits_return emits_stop emits_answer_renewal emits_call_then assms split: option.split)

section \<open>The jobs that send nothing but status reads, and the other money jobs\<close>

lemma emits_releases [quiet]: "emits (L 0) (scheduleAuthorizationReleasesForDeal env d reason)"
  unfolding scheduleAuthorizationReleasesForDeal_def by (intro quiet)

lemma emits_fail_all [quiet]: "emits (L 0) (failAllParticipantsForDeal env d request)"
  unfolding failAllParticipantsForDeal_def by (intro quiet)

lemma emits_completed [quiet]: "emits (L 0) (applyCompletedDealOutcome env d e)"
  unfolding applyCompletedDealOutcome_def settle_participant_def by (intro quiet)

lemma emits_look [quiet]: "emits (L 0) (look_again env event rps until)"
  by (induction env event rps until rule: look_again.induct) (auto intro!: quiet)

lemma emits_waits [quiet]:
  "emits (L 0) (wait_for_captures env d rows)" "emits (L 0) (wait_for_late_truth env d until)" "emits (L 0) (wait_for_fences env d fences)"
  unfolding wait_for_captures_def wait_for_late_truth_def wait_for_fences_def
  by (intro quiet)+ (auto intro!: quiet split: fence.split)

lemma emits_finalize: "emits (L 0) (handleFinalizeDealEvent env event)"
  unfolding handleFinalizeDealEvent_def Let_def finalize_phase_def decide_deal_def failed_outcome_def
  by (intro quiet) (auto intro!: quiet split: finalize_phase.split)

lemma emits_deadline: "emits (L 0) (deadline_check env event)"
  unfolding deadline_check_def Let_def by (intro quiet)

lemma emits_reconcile: "emits (L 0) (handlePaymentReconcileEvent env event a)"
proof -
  have ingest: "emits (L 0) (ingestResolution env a r t c)" for r t c
    unfolding ingestResolution_def Let_def ingest_reconciled_def settle_reconciled_def by (intro quiet)
  have settle: "emits (L 0) (settle_reconciled env a r t c n)" for r t c n unfolding settle_reconciled_def by (intro quiet)
  have auth: "emits (L 0) (if_authoritative env a m)" if "emits (L 0) m" for m
    unfolding if_authoritative_def failClosedUnresolved_def by (intro quiet that)
  have cap: "emits (L 0) m" if "reconcile_capture env a target q status = Some m" for target q status m
    using that unfolding reconcile_capture_def by (simp split: if_split_asm) (hypsubst, intro quiet ingest auth)+
  have aut: "emits (L 0) m" if "reconcile_authorization env a target q status = Some m" for target q status m
    using that unfolding reconcile_authorization_def Let_def by (simp split: if_split_asm) (hypsubst, intro quiet settle auth)+
  have ref: "emits (L 0) m" if "reconcile_refund env a target q status = Some m" for target q status m
    using that unfolding reconcile_refund_def by (simp split: if_split_asm) (hypsubst, intro quiet settle ingest auth)+
  have rel: "emits (L 0) m" if "reconcile_release env e a target status = Some m" for e target status m
    using that unfolding reconcile_release_def by (simp split: if_split_asm) (hypsubst, intro quiet settle auth)+
  have open_end: "emits (L 0) (reconcile_unresolved env event a status)" for status
    unfolding reconcile_unresolved_def case_of_def Let_def by (intro quiet)
  have verdict: "emits (L 0) (reconcile_verdict_of env event a target q status)" for target q status
    unfolding reconcile_verdict_of_def Let_def
    by (cases "rp_operation a") (simp_all add: open_end cap aut ref rel split: option.split)
  have ask: "emits (L 0) (ask_provider env event a target row)" for target row
    unfolding ask_provider_def Let_def case_of_def by (intro quiet) (auto intro!: quiet verdict split: question.split option.split)
  have never: "emits (L 0) (reconcile_never_dispatched env a target)" for target
    unfolding reconcile_never_dispatched_def retire_abandoned_def case_of_def by (intro quiet)
  show ?thesis unfolding handlePaymentReconcileEvent_def Let_def by (intro quiet ask never)
qed

lemma emits_refund:
  assumes "\<And>rf c. emits (L 0) (send_refund env event rf c)"
  shows "emits (L 0) (handleRefundEvent env event)"
  unfolding handleRefundEvent_def refund_participant_once_def Let_def
  by (intro quiet) (auto intro!: quiet assms split: begin_answer.split)

lemma emits_answers [quiet]: "emits (L 0) (answer_refund env op fallback result)" "emits (L 0) (answer_release env op fallback result)"
  unfolding answer_refund_def answer_release_def Let_def by (intro quiet)+

lemma emits_release_job:
  assumes "\<And>rp c. emits (L 0) (send_release env event rp c)"
  shows "emits (L 0) (handlePaymentReleaseEvent env event p d)"
  unfolding handlePaymentReleaseEvent_def release_fenced_def Let_def
  by (intro quiet) (auto intro!: quiet assms split: begin_answer.split fence.split)

end

section \<open>Counting requests\<close>

fun captures_for :: "string \<Rightarrow> provider_call \<Rightarrow> bool" where
  "captures_for p (CaptureCall i) \<longleftrightarrow> mi_participant i = p"
| "captures_for p (RecoverCall i w) \<longleftrightarrow> mi_participant i = p"
| "captures_for p _ \<longleftrightarrow> False"

fun renewals_for :: "string \<Rightarrow> provider_call \<Rightarrow> bool" where
  "renewals_for p (ReauthorizeCall i) \<longleftrightarrow> ri_participant i = p"
| "renewals_for p _ \<longleftrightarrow> False"

definition at_most :: "(provider_call \<Rightarrow> bool) \<Rightarrow> nat \<Rightarrow> (provider_call \<times> 'db) list \<Rightarrow> bool" where
  "at_most P n cs \<longleftrightarrow> length (filter (\<lambda>c. P (fst c)) cs) \<le> n"

interpretation captured: call_contract "at_most (captures_for p)" for p
  by unfold_locales (auto simp: at_most_def)

interpretation renewed: call_contract "at_most (renewals_for p)" for p
  by unfold_locales (auto simp: at_most_def)

lemma captures_of_loop:
  "run_emits (at_most (captures_for p) (if rl_participant rp = p then 2 else 0)) (rail_loop env event rail rp 1)"
proof -
  let ?k = "if rl_participant rp = p then 1 else 0 :: nat"
  have "run_emits (at_most (captures_for p) (Suc (nat 1) * (0 + ?k))) (rail_loop env event rail rp 1)"
  proof (rule captured.run_loop)
    show "emits (at_most (captures_for p) 0) (ensureUsableAuthorizationForCapture env event rail rp)"
      by (intro captured.emits_gate captured.emits_send_renewal) (simp add: at_most_def)
    show "emits (at_most (captures_for p) ?k) (captureParticipantOnce env event rail (rp\<lparr>rl_authorization := a\<rparr>) retry)" for a retry
      by (intro captured.emits_once captured.emits_send) (simp add: at_most_def)
  qed
  then show ?thesis by (simp add: numeral_2_eq_2 split: if_splits)
qed

lemma renewals_of_loop:
  "run_emits (at_most (renewals_for p) (if rl_participant rp = p then 2 else 0)) (rail_loop env event rail rp 1)"
proof -
  let ?k = "if rl_participant rp = p then 1 else 0 :: nat"
  have "run_emits (at_most (renewals_for p) (Suc (nat 1) * (?k + 0))) (rail_loop env event rail rp 1)"
  proof (rule renewed.run_loop)
    show "emits (at_most (renewals_for p) ?k) (ensureUsableAuthorizationForCapture env event rail rp)"
      by (intro renewed.emits_gate renewed.emits_send_renewal) (simp add: at_most_def)
    show "emits (at_most (renewals_for p) 0) (captureParticipantOnce env event rail (rp\<lparr>rl_authorization := a\<rparr>) retry)" for a retry
      by (intro renewed.emits_once renewed.emits_send) (simp add: at_most_def)
  qed
  then show ?thesis by (simp add: numeral_2_eq_2 split: if_splits)
qed

lemma recover_returns:
  "run_emits (at_most (captures_for p) (if rl_participant rp = p then 2 else 0)) (recover_participant env event rp)"
  "run_emits (at_most (renewals_for p) (if rl_participant rp = p then 2 else 0)) (recover_participant env event rp)"
proof -
  have c: "emits (at_most (captures_for p) 0) (recovery_ready env event rp)" for p
    unfolding recovery_ready_def Let_def
    by (intro captured.emits_bind captured.emits_base) (auto intro!: captured.emits_cases captured.emits_bind captured.emits_case
        captured.emits_return captured.emits_verify captured.emits_now split: fence.split preflight.split)
  have r: "emits (at_most (renewals_for p) 0) (recovery_ready env event rp)" for p
    unfolding recovery_ready_def Let_def
    by (intro renewed.emits_bind renewed.emits_base) (auto intro!: renewed.emits_cases renewed.emits_bind renewed.emits_case
        renewed.emits_return renewed.emits_verify renewed.emits_now split: fence.split preflight.split)
  show "run_emits (at_most (captures_for p) (if rl_participant rp = p then 2 else 0)) (recover_participant env event rp)"
    unfolding recover_participant_def
    by (rule captured.run_job_then [OF c]) (simp only: captures_of_loop captured.run_constant split: sum.split, simp)
  show "run_emits (at_most (renewals_for p) (if rl_participant rp = p then 2 else 0)) (recover_participant env event rp)"
    unfolding recover_participant_def
    by (rule renewed.run_job_then [OF r]) (simp only: renewals_of_loop renewed.run_constant split: sum.split, simp)
qed

text \<open>A participant occurs once in the list of a job, so the bound of its loop is the bound of the job.\<close>

lemma weight_le:
  "distinct (map f ps) \<Longrightarrow> sum_list (map (\<lambda>x. if f x = p then 2 else 0) ps) \<le> (2::nat)"
proof (induction ps)
  case (Cons x ps)
  have "f x \<notin> set (map f ps)" using Cons.prems by simp
  then have "f y \<noteq> p" if "f x = p" and "y \<in> set ps" for y using that by (metis imageI list.set_map)
  then have "sum_list (map (\<lambda>x. if f x = p then 2 else 0) ps) = (0::nat)" if "f x = p"
    using that by (simp add: sum_list_eq_0_iff)
  then show ?case using Cons by auto
qed simp

definition within_budget :: "(provider_call \<times> 'db) list \<Rightarrow> bool" where
  "within_budget cs \<longleftrightarrow> (\<forall>p. at_most (captures_for p) 2 cs \<and> at_most (renewals_for p) 2 cs)"

lemma both_budgets:
  assumes "\<And>p. run_emits (at_most (captures_for p) 2) m" and "\<And>p. run_emits (at_most (renewals_for p) 2) m"
  shows "run_emits within_budget m"
  unfolding run_emits_def
proof
  fix s
  obtain a s1 cs where run: "m s = Some (a, s1)" "js_calls s1 = js_calls s @ cs"
    using assms(1) unfolding run_emits_def by blast
  have bound: "L cs" if r: "run_emits L m" for L
  proof -
    obtain a' s2 cs' where "m s = Some (a', s2)" "js_calls s2 = js_calls s @ cs'" "L cs'"
      using r unfolding run_emits_def by blast
    then show ?thesis using run by simp
  qed
  have "at_most (captures_for p) 2 cs" for p by (rule bound [OF assms(1)])
  moreover have "at_most (renewals_for p) 2 cs" for p by (rule bound [OF assms(2)])
  ultimately show "\<exists>a s1 cs. m s = Some (a, s1) \<and> js_calls s1 = js_calls s @ cs \<and> within_budget cs"
    using run by (auto simp: within_budget_def)
qed

lemma hold_within_budget:
  fixes step :: "rail_participant \<Rightarrow> ('a worker_db_scheme, int option) run"
    and finish :: "int option \<Rightarrow> ('a worker_db_scheme, 'b) job"
  assumes "distinct (map rl_participant ps)"
    and "\<And>p rp. run_emits (at_most (captures_for p) (if rl_participant rp = p then 2 else 0)) (step rp)"
    and "\<And>p rp. run_emits (at_most (renewals_for p) (if rl_participant rp = p then 2 else 0)) (step rp)"
    and "\<And>p h. emits (at_most (captures_for p) 0) (finish h)" and "\<And>p h. emits (at_most (renewals_for p) 0) (finish h)"
  shows "run_emits within_budget (run_then (hold_all step ps None) finish)"
proof (rule both_budgets)
  fix p
  have "run_emits (at_most (captures_for p) 2) (hold_all step ps None)"
    using captured.run_emits_mono [OF captured.run_hold_all [of ps p "\<lambda>rp. if rl_participant rp = p then 2 else 0" step None] weight_le [OF assms(1), of p]]
      assms(2) by blast
  then show "run_emits (at_most (captures_for p) 2) (run_then (hold_all step ps None) finish)"
    using assms(4) by (rule captured.run_run_then)
  have "run_emits (at_most (renewals_for p) 2) (hold_all step ps None)"
    using renewed.run_emits_mono [OF renewed.run_hold_all [of ps p "\<lambda>rp. if rl_participant rp = p then 2 else 0" step None] weight_le [OF assms(1), of p]]
      assms(3) by blast
  then show "run_emits (at_most (renewals_for p) 2) (run_then (hold_all step ps None) finish)"
    using assms(5) by (rule renewed.run_run_then)
qed

lemma within_budget_nil: "within_budget []"
  by (simp add: within_budget_def at_most_def)

text \<open>The steps of a run that read the database.\<close>

definition after_others :: "'db job_env \<Rightarrow> 'db job_state \<Rightarrow> 'db job_state" where
  "after_others env s = s\<lparr>js_step := Suc (js_step s), js_db := je_others env (js_step s) (js_db s)\<rparr>"

lemma after_others_calls [simp]: "js_calls (after_others env s) = js_calls s"
  by (simp add: after_others_def)

lemma job_then_read:
  "job_then (jread env g) f s =
     (if je_fails env (js_step s) then Some (Inl ConnectionLost, after_others env s)
      else f (g (je_now env (js_step s)) (js_db (after_others env s))) (after_others env s))"
  by (simp add: job_then_def jread_def jtx_def Let_def after_others_def)

text \<open>Interference keeps the primary key of the participants.\<close>

definition keeps_ids :: "('a worker_db_scheme) job_env \<Rightarrow> bool" where
  "keeps_ids env \<longleftrightarrow> (\<forall>n db. distinct (wd_ids db) \<longrightarrow> distinct (wd_ids (je_others env n db)))"

lemma distinct_snapshots:
  "distinct (wd_ids db) \<Longrightarrow> distinct (map rl_participant (charge_snapshot d db))"
  "distinct (wd_ids db) \<Longrightarrow> distinct (map rl_participant (recovery_snapshot d db))"
  by (simp_all add: charge_snapshot_def recovery_snapshot_def members_of_def rail_participant_of_def comp_def)

lemma after_others_distinct:
  "keeps_ids env \<Longrightarrow> distinct (wd_ids (js_db s)) \<Longrightarrow> distinct (wd_ids (js_db (after_others env s)))"
  by (simp add: keeps_ids_def after_others_def)

lemma charge_within_budget:
  assumes "keeps_ids env" and "distinct (wd_ids (js_db s))"
  shows "\<exists>r s1 cs. handleChargeDealEvent env event s = Some (r, s1) \<and> js_calls s1 = js_calls s @ cs \<and> within_budget cs"
proof -
  let ?ps = "charge_snapshot (ev_aggregate event) (js_db (after_others env s))"
  have "run_emits within_budget (run_then (hold_all (\<lambda>rp. rail_loop env event ChargeRail rp 1) ?ps None)
      (charge_finish env (ev_uuid event) (ev_aggregate event)))"
    by (rule hold_within_budget [OF distinct_snapshots(1) [OF after_others_distinct [OF assms]]])
      (rule captures_of_loop renewals_of_loop captured.emits_finish renewed.emits_finish)+
  then have "\<exists>r s1 cs. run_then (hold_all (\<lambda>rp. rail_loop env event ChargeRail rp 1) ?ps None)
      (charge_finish env (ev_uuid event) (ev_aggregate event)) (after_others env s) = Some (r, s1)
    \<and> js_calls s1 = js_calls s @ cs \<and> within_budget cs"
    unfolding run_emits_def by (metis after_others_calls)
  then show ?thesis by (auto simp: handleChargeDealEvent_def job_then_read within_budget_nil)
qed

text \<open>The phase of a recovery is two reads.\<close>

lemma phase_effect:
  assumes "recovery_phase env d s = (r, s1)" and "keeps_ids env" and "distinct (wd_ids (js_db s))"
  shows "js_calls s1 = js_calls s \<and> distinct (wd_ids (js_db s1))"
proof -
  have one: "distinct (wd_ids (je_others env n (js_db s)))" for n using assms(2,3) by (simp add: keeps_ids_def)
  then have two: "distinct (wd_ids (je_others env m (je_others env n (js_db s))))" for n m using assms(2) by (simp add: keeps_ids_def)
  show ?thesis using assms(1) one two
    by (auto simp: recovery_phase_def jbind_def jtx_def jread_def jreturn_def Let_def
        split: if_splits option.splits prod.splits sum.splits)
qed

lemma recovery_within_budget:
  assumes "keeps_ids env" and "distinct (wd_ids (js_db s))"
  shows "\<exists>r s1 cs. handleRecoveryDealEvent env event s = Some (r, s1) \<and> js_calls s1 = js_calls s @ cs \<and> within_budget cs"
proof -
  let ?d = "ev_aggregate event"
  obtain r s1 where phase: "recovery_phase env ?d s = (r, s1)" by force
  note e = phase_effect [OF phase assms]
  let ?ps = "recovery_snapshot ?d (js_db (after_others env s1))"
  have "run_emits within_budget (run_then (hold_all (recover_participant env event) ?ps None) (recovery_finish ?d))"
    by (rule hold_within_budget [OF distinct_snapshots(2) [OF after_others_distinct [OF assms(1) conjunct2 [OF e]]]])
      (rule recover_returns captured.emits_finish renewed.emits_finish)+
  then have run: "\<exists>r2 s2 cs. run_then (hold_all (recover_participant env event) ?ps None) (recovery_finish ?d) (after_others env s1) = Some (r2, s2)
    \<and> js_calls s2 = js_calls s @ cs \<and> within_budget cs"
    unfolding run_emits_def using e by (metis after_others_calls)
  have stopped: "handleRecoveryDealEvent env event s = Some (Inl e, s1)" if "r = Inl e" for e
    using phase that by (simp add: handleRecoveryDealEvent_def Let_def job_then_def)
  have closed: "handleRecoveryDealEvent env event s = Some (Inr (), s1)" if "r = Inr False"
    using phase that by (simp add: handleRecoveryDealEvent_def Let_def job_then_def)
  have within: "handleRecoveryDealEvent env event s =
      (if je_fails env (js_step s1) then Some (Inl ConnectionLost, after_others env s1)
       else run_then (hold_all (recover_participant env event) ?ps None) (recovery_finish ?d) (after_others env s1))" if "r = Inr True"
    using phase that by (simp add: handleRecoveryDealEvent_def Let_def job_then_def [of "recovery_phase env ?d"] job_then_read)
  consider (stop) e where "r = Inl e" | (no) "r = Inr False" | (yes) "r = Inr True" by (cases r) auto
  then show ?thesis
  proof cases
    case stop
    then show ?thesis using stopped conjunct1 [OF e] within_budget_nil by auto
  next
    case no
    then show ?thesis using closed conjunct1 [OF e] within_budget_nil by auto
  next
    case yes
    show ?thesis
    proof (cases "je_fails env (js_step s1)")
      case True
      then show ?thesis using within [OF yes] conjunct1 [OF e] within_budget_nil by auto
    next
      case False
      then show ?thesis using within [OF yes] run by simp
    qed
  qed
qed

end
