(* ===== verification/RailRuns.thy ===== *)
theory RailRuns
  imports RailTraces
begin

text \<open>
  Properties of the payment jobs over whole runs: whatever other workers commit between the steps, however
  the provider answers, and wherever the run stops.
\<close>

section \<open>Termination\<close>

text \<open>C4: A charge or recovery job always returns, and in one run it sends at most two capture requests and at most
  two renewals for any participant: the retry loop of the code has no bound of its own, its renewal
  budget is what ends it. No assumption is made on the answers of the provider, the clock, the failures
  or the other workers, except that participants keep distinct identifiers.\<close>

theorem rail_jobs_return:
  assumes "keeps_ids env" and "distinct (wd_ids (js_db s))"
    and "handler = handleChargeDealEvent env event \<or> handler = handleRecoveryDealEvent env event"
  shows "\<exists>r s1 cs. handler s = Some (r, s1) \<and> js_calls s1 = js_calls s @ cs
    \<and> (\<forall>p. at_most (captures_for p) 2 cs \<and> at_most (renewals_for p) 2 cs)"
  using charge_within_budget [OF assms(1,2), of event] recovery_within_budget [OF assms(1,2), of event] assms(3)
  by (auto simp: within_budget_def)

section \<open>Results of a step\<close>

lemma jbind_InrE:
  assumes "jbind m f s = (Inr b, s2)"
  obtains a s1 where "m s = (Inr a, s1)" and "f a s1 = (Inr b, s2)"
  using assms by (auto simp: jbind_def split: prod.splits sum.splits)

lemma jtx_InrE:
  assumes "jtx env body s = (Inr a, s1)"
  obtains db where "body (je_now env (js_step s)) (je_uuid env (js_step s)) (js_db (after_others env s)) = Inr (a, db)"
    and "s1 = (after_others env s)\<lparr>js_db := db\<rparr>" and "\<not> je_fails env (js_step s)"
  using assms by (auto simp: jtx_def Let_def after_others_def split: if_splits sum.splits prod.splits)

lemma jledger_InrE:
  assumes "jledger env f s = (Inr a, s1)"
  obtains db where "f (je_now env (js_step s)) (js_db (after_others env s)) = Inr (a, db)"
    and "s1 = (after_others env s)\<lparr>js_db := db\<rparr>"
proof -
  obtain db where "map_error Thrown (f (je_now env (js_step s)) (js_db (after_others env s))) = Inr (a, db)"
      and "s1 = (after_others env s)\<lparr>js_db := db\<rparr>"
    using assms unfolding jledger_def by (rule jtx_InrE)
  then show thesis using that by (auto simp: map_error_def split: sum.splits)
qed

lemma jreturn_Inr [simp]: "jreturn a s = (Inr b, s1) \<longleftrightarrow> b = a \<and> s1 = s"
  and jstop_Inr [simp]: "jstop e s \<noteq> (Inr b, s1)"
  by (auto simp: jreturn_def jstop_def)

section \<open>Requests under a lease\<close>

text \<open>
  What must hold in the database when a job sends a request for an identity: the identity is unresolved
  and dispatching for this job, the participant is in a state the rail admits, the job is processing
  under a live lease of this worker, and the deal is in the phase the rail is for.
\<close>

definition held_for_io ::
    "outbox_cfg \<Rightarrow> job_event \<Rightarrow> attempt_type \<Rightarrow> admitted_states \<Rightarrow> deal_gate option \<Rightarrow> string \<Rightarrow> string \<Rightarrow> string \<Rightarrow> int \<Rightarrow>
     'a payment_db_scheme \<Rightarrow> bool" where
  "held_for_io cfg event t admitted gate p d c now db \<longleftrightarrow>
     list_ex (\<lambda>r. is_identity p d t c r \<and> pa_result r = R_Unknown \<and> pa_dispatch r = DS_Dispatching
        \<and> pa_owner r = Some (owner_of event)) (pd_attempts db)
     \<and> (case participant_of p d db of None \<Rightarrow> False | Some s \<Rightarrow> admits admitted s)
     \<and> (case ev_generation event of
          None \<Rightarrow> False
        | Some g \<Rightarrow> list_ex (\<lambda>e. ob_id e = ev_uuid event \<and> ob_lease_generation e = g \<and> ob_status e = Processing
             \<and> ob_worker_id e = Some (oc_worker cfg) \<and> lease_live now e) (odb_events (ld_outbox db)))
     \<and> (case gate of None \<Rightarrow> True | Some g \<Rightarrow> gate_open now d g db)"

lemma arm_holds:
  assumes "armProviderDispatch now args db = Inr (Armed, db1)" and "ar_min_lease_ms args = 0"
    and "ev_uuid event = ar_event args" "ev_generation event = ar_generation args" "oc_worker cfg = ar_worker args"
  shows "held_for_io cfg event (ar_type args) \<lparr>ad_money = ar_money_states args, ad_buyer = ar_buyer_states args\<rparr>
    (ar_gate args) (ar_participant args) (ar_deal args) (ar_correlation args) now db1"
proof -
  obtain g where g: "ar_generation args = Some g" "lease_for_io now args g db"
    and gate: "\<not> (case ar_gate args of None \<Rightarrow> False | Some gate \<Rightarrow> \<not> gate_open now (ar_deal args) gate db)"
    and part: "\<not> (case participant_of (ar_participant args) (ar_deal args) db of None \<Rightarrow> True
        | Some s \<Rightarrow> \<not> admits \<lparr>ad_money = ar_money_states args, ad_buyer = ar_buyer_states args\<rparr> s)"
    and u: "update_attempts now (Some (ar_event args, g)) (armable (payment_operation_in_flight now db) args (ar_event args, g))
        (armed_row now args (ar_event args, g)) db = Inr (1, db1)"
    using assms(1) unfolding armProviderDispatch_def
    by (auto split: option.split_asm if_split_asm elim!: on_ok_InrE)
  let ?P = "armable (payment_operation_in_flight now db) args (ar_event args, g)"
  let ?f = "armed_row now args (ar_event args, g)"
  let ?guard = "update_guard (payment_operation_in_flight now db) (Some (ar_event args, g))"
  obtain rows where rows: "update_rows ?guard ?P ?f (pd_attempts db) = Inr (1, rows)" "db1 = db\<lparr>pd_attempts := rows\<rparr>"
    using u unfolding update_attempts_def by (auto elim!: on_ok_InrE)
  note spec = update_rows_spec [OF rows(1)]
  have "filter ?P (pd_attempts db) \<noteq> []" using spec by auto
  then obtain r where r: "r \<in> set (pd_attempts db)" "?P r" by (auto simp: filter_empty_conv)
  obtain r' where r': "r' \<in> set rows" "?guard r (?f r) = Inr r'"
    using list_all2_image [OF conjunct1 [OF spec] r(1)] r(2) by auto
  have kept: "pa_result (?f r) = pa_result r" by (simp add: armed_row_def)
  have P: "is_identity (ar_participant args) (ar_deal args) (ar_type args) (ar_correlation args) r" "pa_result r = R_Unknown"
    using r(2) by (simp_all add: armable_def)
  then have "r' = guard_horizon r (?f r)"
    using r(2) r'(2) kept by (auto simp: update_guard_def guard_lifecycle_def elim!: on_ok_InrE split: if_splits)
  then have "is_identity (ar_participant args) (ar_deal args) (ar_type args) (ar_correlation args) r'"
    and "pa_result r' = R_Unknown" "pa_dispatch r' = DS_Dispatching" "pa_owner r' = Some (ar_event args, g)"
    using P by (simp_all add: guard_horizon_def armed_row_def is_identity_def of_obligation_def)
  moreover have "owner_of event = (ar_event args, g)" using assms(3,4) g(1) by (simp add: owner_of_def)
  ultimately have "list_ex (\<lambda>r. is_identity (ar_participant args) (ar_deal args) (ar_type args) (ar_correlation args) r
      \<and> pa_result r = R_Unknown \<and> pa_dispatch r = DS_Dispatching \<and> pa_owner r = Some (owner_of event)) (pd_attempts db1)"
    using r'(1) rows(2) by (auto simp: list_ex_iff)
  moreover have "lease_for_io now args g db1 = lease_for_io now args g db" by (simp add: lease_for_io_def rows(2))
  ultimately show ?thesis
    using g part gate assms(2-5) rows(2)
    by (auto simp: held_for_io_def lease_for_io_def participant_of_def gate_open_def split: option.splits)
qed

lemma arm_true:
  assumes "armMoneyOperation env op ms bs reference gate s = (Inr True, s1)"
  shows "\<exists>n. held_for_io (je_cfg env) (io_event op) (io_type op) \<lparr>ad_money = ms, ad_buyer = bs\<rparr> gate
    (io_participant op) (io_deal op) (io_correlation op) (je_now env n) (js_db s1)"
proof -
  let ?args = "arm_request env op ms bs reference gate"
  obtain u s0 answer s2 where arm: "jledger env (\<lambda>now. armProviderDispatch now ?args) s0 = (Inr answer, s2)"
    and rest: "(if answer = Armed then jreturn True
       else if answer = ArmLeaseLost then jstop (LeaseLost (ev_uuid (io_event op)))
       else if answer = DealPhaseClosed
       then jbind (jcatch (jledger env (\<lambda>now. retireNeverDispatchedInTx now (io_participant op) (io_deal op) [io_type op]
                     ''arm_refused:deal_phase_closed'')) []) (\<lambda>_. jreturn False)
       else jreturn False) s2 = (Inr True, s1)"
    using assms unfolding armMoneyOperation_def by (elim jbind_InrE)
  have "answer = Armed \<and> s1 = s2"
    using rest by (auto elim!: jbind_InrE split: if_splits)
  moreover obtain db1 where "armProviderDispatch (je_now env (js_step s0)) ?args (js_db (after_others env s0)) = Inr (answer, db1)"
      and "js_db s2 = db1"
    using arm by (rule jledger_InrE) simp
  ultimately have "armProviderDispatch (je_now env (js_step s0)) ?args (js_db (after_others env s0)) = Inr (Armed, db1)" and "js_db s1 = db1"
    by simp_all
  note armed = this
  have "held_for_io (je_cfg env) (io_event op) (ar_type ?args) \<lparr>ad_money = ar_money_states ?args, ad_buyer = ar_buyer_states ?args\<rparr>
      (ar_gate ?args) (ar_participant ?args) (ar_deal ?args) (ar_correlation ?args) (je_now env (js_step s0)) db1"
    by (rule arm_holds [OF armed(1)]) (simp_all add: arm_request_def Let_def)
  then show ?thesis using armed(2) by (auto simp: arm_request_def Let_def)
qed

context call_contract
begin

lemma emits_armed:
  assumes "\<And>n db. held_for_io (je_cfg env) (io_event op) (io_type op) \<lparr>ad_money = ms, ad_buyer = bs\<rparr> gate
      (io_participant op) (io_deal op) (io_correlation op) (je_now env n) db \<Longrightarrow> L k [(call, db)]"
    and "\<And>a. emits (L 0) (f a)" and "emits (L k) m0"
  shows "emits (L k) (jbind (armMoneyOperation env op ms bs reference gate) (\<lambda>armed.
    if \<not> armed then m0 else jbind (jcall env call answer) f))"
  unfolding emits_iff
proof
  fix s
  let ?arm = "armMoneyOperation env op ms bs reference gate"
  obtain r s1 where arm: "?arm s = (r, s1)" by force
  obtain xs where xs: "js_calls s1 = js_calls s @ xs" "L 0 xs" using emitsD [OF emits_arm arm] by blast
  let ?rest = "\<lambda>armed. if \<not> armed then m0 else jbind (jcall env call answer) f"
  show "\<exists>cs. js_calls (snd (jbind ?arm ?rest s)) = js_calls s @ cs \<and> L k cs"
  proof (cases r)
    case (Inl e)
    then show ?thesis using arm xs L_mono [OF xs(2)] by (simp add: jbind_def)
  next
    case (Inr armed)
    have "\<exists>ys. js_calls (snd (?rest armed s1)) = js_calls s1 @ ys \<and> L k ys"
    proof (cases armed)
      case False
      then show ?thesis using assms(3) by (simp add: emits_iff)
    next
      case True
      then obtain n where "held_for_io (je_cfg env) (io_event op) (io_type op) \<lparr>ad_money = ms, ad_buyer = bs\<rparr> gate
          (io_participant op) (io_deal op) (io_correlation op) (je_now env n) (js_db s1)"
        using arm_true [of env op ms bs reference gate s s1] arm Inr True by auto
      from assms(1) [OF this] have one: "L k [(call, js_db s1)]" .
      obtain r2 s2 where call: "jcall env call answer s1 = (r2, s2)" by force
      have sent: "\<exists>ys. js_calls s2 = js_calls s1 @ ys \<and> L k ys"
        using call one by (auto simp: jcall_def Let_def L_nil split: if_splits)
      then obtain ys where ys: "js_calls s2 = js_calls s1 @ ys" "L k ys" by blast
      show ?thesis
      proof (cases r2)
        case (Inl e)
        then show ?thesis using True call ys by (simp add: jbind_def)
      next
        case (Inr a)
        obtain zs where "js_calls (snd (f a s2)) = js_calls s2 @ zs" "L 0 zs" using assms(2) unfolding emits_iff by blast
        then show ?thesis using True call ys Inr L_append [OF ys(2), of 0 zs] by (simp add: jbind_def)
      qed
    qed
    then obtain ys where "js_calls (snd (?rest armed s1)) = js_calls s1 @ ys" "L k ys" by blast
    then show ?thesis using arm xs Inr L_append [OF xs(2), of k ys] by (simp add: jbind_def)
  qed
qed

end

text \<open>What held in the database when a request was sent, at the clock of some step of the run.\<close>

fun sent_under_lease :: "('a worker_db_scheme) job_env \<Rightarrow> job_event \<Rightarrow> provider_call \<times> 'a worker_db_scheme \<Rightarrow> bool" where
  "sent_under_lease env event (CaptureCall i, db) \<longleftrightarrow>
     (\<exists>n. held_for_io (je_cfg env) event A_ChargeStart (rail_admitted ChargeRail) None
        (mi_participant i) (mi_deal i) (mi_correlation i) (je_now env n) db)"
| "sent_under_lease env event (RecoverCall i w, db) \<longleftrightarrow>
     (\<exists>n. held_for_io (je_cfg env) event A_Recovery (rail_admitted RecoveryRail) (rail_gate RecoveryRail)
        (mi_participant i) (mi_deal i) (mi_correlation i) (je_now env n) db)"
| "sent_under_lease env event (RefundCall i, db) \<longleftrightarrow>
     (\<exists>n. held_for_io (je_cfg env) event (refund_type (ev_type event)) refundable None
        (mi_participant i) (mi_deal i) (mi_correlation i) (je_now env n) db)"
| "sent_under_lease env event (ReleaseCall i, db) \<longleftrightarrow>
     (\<exists>n. held_for_io (je_cfg env) event A_Release releasable None
        (mi_participant i) (mi_deal i) (mi_correlation i) (je_now env n) db)"
| "sent_under_lease env event (ReauthorizeCall i, db) \<longleftrightarrow>
     (\<exists>n rail. held_for_io (je_cfg env) event A_Reauthorize (rail_admitted rail) None
        (ri_participant i) (ri_deal i) (ri_correlation i) (je_now env n) db)"
| "sent_under_lease env event (StatusCall r q c, db) \<longleftrightarrow> True"

interpretation leased: call_contract "\<lambda>i. list_all (sent_under_lease env event)" for env event
  by unfold_locales auto

lemma rail_admitted_fields: "\<lparr>ad_money = ad_money (rail_admitted rail), ad_buyer = ad_buyer (rail_admitted rail)\<rparr> = rail_admitted rail"
  and refundable_fields: "\<lparr>ad_money = ad_money refundable, ad_buyer = None\<rparr> = refundable"
  and releasable_fields: "\<lparr>ad_money = ad_money releasable, ad_buyer = None\<rparr> = releasable"
  by (simp_all add: refundable_def releasable_def)

lemma capture_leased: "emits (list_all (sent_under_lease env event)) (send_capture env event rail rp retry c)"
  unfolding send_capture_def Let_def
  by (cases rail; simp only: rail_request.simps; rule leased.emits_armed)
     (auto simp: leased.emits_answer leased.emits_return)

lemma renewal_leased: "emits (list_all (sent_under_lease env event)) (send_renewal env event rail rp b m cur c)"
proof (cases "pv_reauthorize (je_provider env)")
  case None
  then show ?thesis unfolding send_renewal_def Let_def
    by (simp add: leased.emits_bind leased.emits_arm leased.emits_cases leased.emits_return leased.emits_stop)
next
  case (Some answer)
  show ?thesis unfolding send_renewal_def Let_def Some option.case
    by (rule leased.emits_armed) (auto simp: leased.emits_answer_renewal leased.emits_return rail_admitted_fields)
qed

lemma refund_leased: "emits (list_all (sent_under_lease env event)) (send_refund env event rf c)"
  unfolding send_refund_def Let_def
  by (rule leased.emits_armed) (auto simp: leased.emits_answers leased.emits_return refundable_fields)

lemma release_leased: "emits (list_all (sent_under_lease env event)) (send_release env event rp c)"
proof (cases "pv_release (je_provider env)")
  case None
  then show ?thesis unfolding send_release_def Let_def
    by (simp add: leased.emits_bind leased.emits_base leased.emits_case leased.emits_stop)
next
  case (Some answer)
  show ?thesis unfolding send_release_def Let_def Some option.case
    by (rule leased.emits_armed) (auto simp: leased.emits_answers leased.emits_return releasable_fields)
qed

lemma loop_leased: "run_emits (list_all (sent_under_lease env event)) (rail_loop env event rail rp 1)"
  by (rule leased.run_loop) (intro leased.emits_gate leased.emits_once renewal_leased capture_leased)+

lemma recover_leased: "run_emits (list_all (sent_under_lease env event)) (recover_participant env event rp)"
proof -
  have r: "emits (list_all (sent_under_lease env event)) (recovery_ready env event rp)"
    unfolding recovery_ready_def Let_def
    by (intro leased.emits_bind leased.emits_base) (auto intro!: leased.emits_cases leased.emits_bind leased.emits_case
        leased.emits_return leased.emits_verify leased.emits_now split: fence.split preflight.split)
  show ?thesis unfolding recover_participant_def
    by (rule leased.run_job_then [OF r]) (simp only: loop_leased leased.run_constant split: sum.split, simp)
qed

lemma hold_leased:
  "(\<And>p. run_emits (list_all (sent_under_lease env event)) (step p)) \<Longrightarrow>
    run_emits (list_all (sent_under_lease env event)) (hold_all step ps hold)"
  by (rule leased.run_hold_all)

lemma worker_leased:
  assumes "run_emits (list_all (sent_under_lease env event)) (elsewhere event)"
  shows "run_emits (list_all (sent_under_lease env event)) (workerProcessEvent env elsewhere event payload)"
proof -
  have charge: "run_emits (list_all (sent_under_lease env event)) (handleChargeDealEvent env event)"
    unfolding handleChargeDealEvent_def
    by (intro leased.run_job_then leased.emits_base leased.run_run_then leased.emits_finish hold_leased loop_leased)
  have recovery: "run_emits (list_all (sent_under_lease env event)) (handleRecoveryDealEvent env event)"
  proof -
    have phase: "emits (list_all (sent_under_lease env event)) (recovery_phase env d)" for d
      unfolding recovery_phase_def
      by (intro leased.emits_bind leased.emits_tx) (auto intro!: leased.emits_cases leased.emits_return leased.emits_base)
    have all: "run_emits (list_all (sent_under_lease env event)) (hold_all (recover_participant env event) ps None)" for ps
      by (intro hold_leased recover_leased)
    have rest: "run_emits (list_all (sent_under_lease env event)) (job_then (jread env g) (\<lambda>ps.
        run_then (hold_all (recover_participant env event) ps None) (recovery_finish d)))" for g d
      by (intro leased.run_job_then leased.emits_base leased.run_run_then all leased.emits_finish)
    show ?thesis unfolding handleRecoveryDealEvent_def Let_def
      by (rule leased.run_job_then [OF phase]) (simp only: rest leased.run_constant split: if_split, simp)
  qed
  show ?thesis unfolding workerProcessEvent_def
    using assms charge recovery
    by (auto intro!: leased.run_of_job leased.emits_stop leased.emits_deadline leased.emits_finalize leased.emits_refund refund_leased
        leased.emits_reconcile leased.emits_release_job release_leased split: job_payload.split)
qed

text \<open>C3: No money moves on a stale job: in every run of the worker on a deal, refund, release or reconcile job, each
  capture, recovery, refund, release and renewal request was sent while its one identity was unresolved
  and dispatching for this very job, under a live lease of this worker at the clock of a step of the
  run, with the participant in a state the rail admits; a recovery only inside an open completion window
  of a deal in that phase. Whatever the other workers commit and wherever the run stops; the handlers of other
  event types, an argument of the worker, are taken to keep the same discipline.\<close>

theorem money_requests_are_leased:
  assumes "run_emits (list_all (sent_under_lease env event)) (elsewhere event)"
  shows "\<exists>r s1 cs. workerProcessEvent env elsewhere event payload s = Some (r, s1) \<and> js_calls s1 = js_calls s @ cs
    \<and> list_all (sent_under_lease env event) cs"
  using worker_leased [where env = env and event = event and elsewhere = elsewhere and payload = payload, OF assms]
  unfolding run_emits_def by blast

section \<open>Witnesses\<close>

text \<open>A provider whose captures fail before they are sent, and whose other requests throw.\<close>

definition lost_answer :: execution_result where
  "lost_answer = \<lparr>xr_provider = ''grow'', xr_class = R_TemporaryFail, xr_dispatched = Some False, xr_configuration_fault = False,
     xr_reference = None, xr_correlation = None, xr_event = None, xr_unusable = False, xr_failure_code = None\<rparr>"

definition demo_provider :: provider where
  "demo_provider = \<lparr>pv_code = ''grow'', pv_policy = None, pv_capture = (\<lambda>n i. Some lost_answer), pv_recover = (\<lambda>n i. None),
     pv_refund = (\<lambda>n i. None), pv_release = None, pv_reauthorize = None, pv_status = None\<rparr>"

definition demo_cfg :: outbox_cfg where
  "demo_cfg = \<lparr>oc_worker = ''w1'', oc_leaseMs = 60000, oc_raiseRowMaxAttempts = False,
     oc_policies = OUTBOX_LANE_RETRY_DEFAULTS, oc_workerMaxAttempts = 4\<rparr>"

definition demo_job_env :: "worker_db job_env" where
  "demo_job_env = \<lparr>je_now = (\<lambda>n. 100 + int n), je_uuid = (\<lambda>n. ''u'' @ nat_text n), je_others = (\<lambda>n db. db), je_fails = (\<lambda>n. False),
     je_provider = demo_provider, je_apply = demo_env, je_stale = 60000, je_cfg = demo_cfg, je_window_minutes = 60,
     je_io_margin = 1000, je_renewal_margin = 1000\<rparr>"

definition worker_demo :: "deal_state \<Rightarrow> int option \<Rightarrow> buyer_state \<Rightarrow> money_state \<Rightarrow> attempt_row list \<Rightarrow> worker_db" where
  "worker_demo d window b m rows =
     \<lparr>ld_deals = [''d1'' \<mapsto> d], ld_participants = [''p1'' \<mapsto> \<lparr>pt_deal = ''d1'', pt_buyer = b, pt_money = m\<rparr>],
      ld_audit = [], ld_outbox = \<lparr>odb_events = [job ''e1'' ''w1''], odb_dlq = [], odb_audit = []\<rparr>, ld_idempotency = [],
      pd_attempts = rows, pd_window = (\<lambda>_. window), md_fees = FeeLedger.sample_db, md_cases = [], md_webhooks = [],
      md_bindings = (\<lambda>_. None), wd_ids = [''p1''], wd_buyer = (\<lambda>_. ''b1''), wd_threshold = (\<lambda>_. 3), wd_deadline = (\<lambda>_. None),
      wd_auths = (\<lambda>_. None), wd_methods = (\<lambda>_ _. None)\<rparr>"

definition demo_job :: "string \<Rightarrow> job_event" where
  "demo_job t = \<lparr>ev_uuid = ''e1'', ev_type = t, ev_aggregate = ''d1'', ev_generation = Some 1, ev_attempts = 1, ev_max_attempts = 5\<rparr>"

definition start_of :: "'db \<Rightarrow> 'db job_state" where
  "start_of db = \<lparr>js_step = 0, js_calls = [], js_follow = [], js_db = db\<rparr>"

lemma rail_jobs_return_witness:
  "\<exists>r s1 cs. handleChargeDealEvent demo_job_env (demo_job ''charge_deal'')
        (start_of (worker_demo D_Charging None B_ChargingAttempt M_ChargeAttempt [])) = Some (r, s1) \<and> js_calls s1 = cs
    \<and> (\<forall>p. at_most (captures_for p) 2 cs \<and> at_most (renewals_for p) 2 cs)"
proof -
  have k: "keeps_ids demo_job_env" by (simp add: keeps_ids_def demo_job_env_def)
  have d: "distinct (wd_ids (js_db (start_of (worker_demo D_Charging None B_ChargingAttempt M_ChargeAttempt []))))"
    by (simp add: start_of_def worker_demo_def)
  show ?thesis using rail_jobs_return [OF k d disjI1 [OF refl], of "demo_job ''charge_deal''"] by (simp add: start_of_def)
qed

text \<open>Jobs of the other families.\<close>

definition no_job :: "job_event \<Rightarrow> (worker_db, unit) run" where
  "no_job event s = Some (Inr (), s)"

text \<open>The refund job of a failed deal with one captured participant, which asks the provider once.\<close>

definition sale_id :: string where
  "sale_id = ''0b6d6f0e-5f3a-4c1e-9a77-2d1f3c4b5a69''"

definition refund_job :: job_event where
  "refund_job = (demo_job ''refund_issue'')\<lparr>ev_aggregate := sale_id\<rparr>"

definition failed_sale :: worker_db where
  "failed_sale = (worker_demo D_Failed (Some 50) B_ChargedSuccess M_ChargedSuccess [])
     \<lparr>ld_deals := [sale_id \<mapsto> D_Failed],
      ld_participants := [''p1'' \<mapsto> \<lparr>pt_deal = sale_id, pt_buyer = B_ChargedSuccess, pt_money = M_ChargedSuccess\<rparr>]\<rparr>"

definition sold :: "jsnum \<Rightarrow> refund_participant" where
  "sold x = \<lparr>rf_participant = ''p1'', rf_deal = sale_id, rf_buyer = ''b1'', rf_amount = x, rf_authorization = '''', rf_capture = ''''\<rparr>"

lemma sold_once: "refund_snapshot sale_id failed_sale = [sold (amount_due ''p1'' failed_sale)]"
  by (simp add: refund_snapshot_def sold_def failed_sale_def worker_demo_def members_of_def in_states_def participant_of_def captured_money_def
     authorization_reference_def capture_reference_def or_null_def text_or_def join_authorization_def audit_field_def)

lemma single_refund:
  assumes "refund_snapshot d (js_db s) = [rf]" and "ld_deals (js_db s) d = Some state" and "refund_states state (ev_type event)"
    and "ev_aggregate event = d" and "\<And>n db. je_others env n db = db" and "\<And>n. \<not> je_fails env n"
  shows "js_calls (snd (handleRefundEvent env event s)) = js_calls (snd (refund_participant_once env event rf (s\<lparr>js_step := Suc (Suc (js_step s))\<rparr>)))"
  using assms
  by (cases s) (auto simp: handleRefundEvent_def jbind_def jread_def jtx_def Let_def jreturn_def split: prod.splits sum.splits)

lemma refund_asked:
  "js_calls (snd (refund_participant_once demo_job_env refund_job (sold x) ((start_of failed_sale)\<lparr>js_step := 2\<rparr>))) \<noteq> []"
  unfolding jbind_def refund_participant_once_def send_refund_def by code_simp

lemma refund_job_asks: "js_calls (snd (handleRefundEvent demo_job_env refund_job (start_of failed_sale))) \<noteq> []"
proof -
  have "js_calls (snd (handleRefundEvent demo_job_env refund_job (start_of failed_sale)))
      = js_calls (snd (refund_participant_once demo_job_env refund_job (sold (amount_due ''p1'' failed_sale)) ((start_of failed_sale)\<lparr>js_step := Suc (Suc 0)\<rparr>)))"
    using single_refund [of sale_id "start_of failed_sale" "sold (amount_due ''p1'' failed_sale)" D_Failed refund_job demo_job_env] sold_once
    by (simp add: start_of_def failed_sale_def refund_job_def demo_job_def demo_job_env_def refund_states_def)
  then show ?thesis using refund_asked [of "amount_due ''p1'' failed_sale"] by (simp add: numeral_2_eq_2)
qed

lemma money_requests_are_leased_witness:
  "\<exists>r s1 cs. workerProcessEvent demo_job_env no_job refund_job DealPayload (start_of failed_sale) = Some (r, s1) \<and> js_calls s1 = cs
    \<and> cs \<noteq> [] \<and> list_all (sent_under_lease demo_job_env refund_job) cs"
proof -
  have "run_emits (list_all (sent_under_lease demo_job_env refund_job)) (no_job refund_job)"
    by (simp add: run_emits_def no_job_def)
  from money_requests_are_leased [where elsewhere = no_job and env = demo_job_env and event = refund_job and payload = DealPayload
      and s = "start_of failed_sale", OF this]
  obtain r s1 where run: "workerProcessEvent demo_job_env no_job refund_job DealPayload (start_of failed_sale) = Some (r, s1)"
      and leased: "list_all (sent_under_lease demo_job_env refund_job) (js_calls s1)"
    by (auto simp: start_of_def)
  have "is_uuid (ev_aggregate refund_job)" by code_simp
  then have "handleRefundEvent demo_job_env refund_job (start_of failed_sale) = (r, s1)"
    using run by (simp add: workerProcessEvent_def run_job_def refund_job_def demo_job_def)
  then have "js_calls s1 \<noteq> []" using refund_job_asks by simp
  then show ?thesis using run leased by blast
qed

end
