(* ===== verification/FinalizeRuns.thy ===== *)
theory FinalizeRuns
  imports RailRuns
begin

text \<open>
  What the decision on a deal rests on and what follows from it: the state in which it commits, the
  buyers it fails, the last look before a second capture, refunds, and the queue that brings it about;
  with a run of the model for each.
\<close>

section \<open>A decision commits on settled money\<close>

text \<open>The writes of one transition of a deal whose body only checks.\<close>

lemma deal_call_shape:
  fixes db :: "'a lifecycle_db_scheme"
  assumes "atomicMultiTransition args now db = Inr out" and "\<not> mo_replay out"
    and "ma_ops args db = Inr [single_op d (Some d) (DealStep f t) payload]"
    and "\<And>db db' :: 'a lifecycle_db_scheme. run_body args db = Inr db' \<Longrightarrow> db' = db"
  obtains audit outbox keys where
    "mo_db out = db\<lparr>ld_deals := (ld_deals db)(d \<mapsto> t), ld_audit := audit, ld_outbox := outbox, ld_idempotency := keys\<rparr>"
    "ld_deals db d = Some f"
    "\<exists>db1. run_body args (db\<lparr>ld_audit := audit, ld_outbox := outbox\<rparr>) = Inr db1"
    "\<forall>job. ma_outbox args = Some job \<longrightarrow> new_job args now job \<in> set (odb_events outbox)"
proof (cases rule: fresh_call_cases [OF assms(1,2)])
  case 1
  then show thesis using assms(3) by simp
next
  case (2 ops db1 db2 db3)
  have ops: "ops = [single_op d (Some d) (DealStep f t) payload]" using 2(1) assms(3) by simp
  obtain audit where audit: "audit = ld_audit db @ map (audit_row_of args) ops" by simp
  obtain outbox where enqueued: "db1 = db\<lparr>ld_audit := audit, ld_outbox := outbox\<rparr>"
      "\<And>job. ma_outbox args = Some job \<Longrightarrow> new_job args now job \<in> set (odb_events outbox)"
  proof (cases "ma_outbox args")
    case None
    then have "db1 = db\<lparr>ld_audit := audit\<rparr>" using 2(4) by (simp add: audit enqueue_job_def)
    then have "db1 = db\<lparr>ld_audit := audit, ld_outbox := ld_outbox db\<rparr>" by (cases db) simp
    then show thesis using None that [of "ld_outbox db"] by simp
  next
    case (Some job)
    then show thesis using 2(4) that [of "ld_outbox db1"]
      by (auto simp: audit enqueue_job_def insert_outbox_event_def split: sum.splits if_splits)
  qed
  have "db2 = db1" using assms(4) [OF 2(5)] .
  with 2(6) have step: "db3 = db1\<lparr>ld_deals := (ld_deals db1)(d \<mapsto> t)\<rparr>" "ld_deals db1 d = Some f"
    by (auto simp: ops single_op_def swap_state_def readTransitionEntityState_def set_state_def split: if_splits option.splits)
  obtain keys where "mo_db out = db3\<lparr>ld_idempotency := keys\<rparr>"
    using 2(7) unfolding insert_idempotency_def by (metis sum.distinct(1) sum.inject(2))
  then show thesis using that [where audit = audit and outbox = outbox and keys = keys] enqueued step 2(5) by simp
qed

text \<open>The decision reads none of the tables a call writes before its body.\<close>

lemma decision_reads [simp]:
  "sumCapturedUnits d (db\<lparr>ld_deals := a\<rparr>) = sumCapturedUnits d db"
  "sumCapturedUnits d (db\<lparr>ld_audit := b\<rparr>) = sumCapturedUnits d db"
  "sumCapturedUnits d (db\<lparr>ld_outbox := c\<rparr>) = sumCapturedUnits d db"
  "sumCapturedUnits d (db\<lparr>ld_idempotency := e\<rparr>) = sumCapturedUnits d db"
  "unresolved_capture d (db\<lparr>ld_deals := a\<rparr>) = unresolved_capture d db"
  "unresolved_capture d (db\<lparr>ld_audit := b\<rparr>) = unresolved_capture d db"
  "unresolved_capture d (db\<lparr>ld_outbox := c\<rparr>) = unresolved_capture d db"
  "unresolved_capture d (db\<lparr>ld_idempotency := e\<rparr>) = unresolved_capture d db"
  by (simp_all add: sumCapturedUnits_def sum_units_def units_of_def members_of_def in_states_def participant_of_def
      unresolved_capture_def money_of_def fun_eq_iff)

lemma revalidate_Inr:
  "revalidateDecisionUnderLock d threshold completes now db = Inr db' \<longleftrightarrow>
     db' = db \<and> (\<exists>t. pd_window db d = Some t \<and> t \<le> now) \<and> \<not> list_ex (unresolved_capture d db) (pd_attempts db)
     \<and> (of_int threshold \<le> sumCapturedUnits d db) = completes"
  by (auto simp: revalidateDecisionUnderLock_def split: if_splits option.splits)

text \<open>C5: A deal is decided on settled money only: when the transaction that completes or fails a deal commits,
  then in the state it commits the completion window is over, every capture of the deal is resolved and
  its truth is on the participant, and the deal is Completed exactly when the captured units reach the
  threshold; a failed deal has its refund job pending. This holds whatever the worker read before the
  transaction and whatever others committed since.\<close>

theorem deal_decided_on_settled_money:
  fixes db :: "'a worker_db_scheme"
  assumes "atomicMultiTransition (decision_args eventId d threshold completes now uuid) now db = Inr out" and "\<not> mo_replay out"
  shows "ld_deals db d = Some D_CompletionWindow
    \<and> ld_deals (mo_db out) d = Some (if of_int threshold \<le> sumCapturedUnits d (mo_db out) then D_Completed else D_Failed)
    \<and> (\<exists>t. pd_window (mo_db out) d = Some t \<and> t \<le> now)
    \<and> \<not> list_ex (unresolved_capture d (mo_db out)) (pd_attempts (mo_db out))
    \<and> (ld_deals (mo_db out) d = Some D_Failed \<longrightarrow>
         list_ex (live_job ''refund_issue'' ''deal'' d) (odb_events (ld_outbox (mo_db out))))"
proof -
  obtain args :: "'a worker_db_scheme multi_args" where args: "args = decision_args eventId d threshold completes now uuid" by simp
  have same: "db' = db" if "run_body args db = Inr db'" for db db' :: "'a worker_db_scheme"
    using that by (simp add: args run_body_def decision_args_def revalidate_Inr)
  have ops: "ma_ops args db = Inr [single_op d (Some d) (DealStep D_CompletionWindow (if completes then D_Completed else D_Failed)) '''']"
    by (simp add: args decision_args_def)
  obtain audit outbox keys where out: "mo_db out = db\<lparr>ld_deals := (ld_deals db)(d \<mapsto> if completes then D_Completed else D_Failed),
        ld_audit := audit, ld_outbox := outbox, ld_idempotency := keys\<rparr>"
      and window: "ld_deals db d = Some D_CompletionWindow"
      and body: "\<exists>db1. run_body args (db\<lparr>ld_audit := audit, ld_outbox := outbox\<rparr>) = Inr db1"
      and job: "\<forall>job. ma_outbox args = Some job \<longrightarrow> new_job args now job \<in> set (odb_events outbox)"
    by (rule deal_call_shape [OF assms(1) [folded args] assms(2) ops same]) (assumption, rule that, assumption+)
  have "(\<exists>t. pd_window db d = Some t \<and> t \<le> now) \<and> \<not> list_ex (unresolved_capture d db) (pd_attempts db)
      \<and> (of_int threshold \<le> sumCapturedUnits d db) = completes"
    using body by (auto simp: args run_body_def decision_args_def revalidate_Inr)
  moreover have "list_ex (live_job ''refund_issue'' ''deal'' d) (odb_events outbox)" if "\<not> completes"
    using job that by (auto simp: args decision_args_def list_ex_iff live_job_def new_job_def intro!: bexI)
  ultimately show ?thesis using window by (simp add: out)
qed

section \<open>Failing a buyer\<close>

text \<open>The writes of one transition of a buyer without a job, when its body only checks.\<close>

lemma buyer_call_shape:
  fixes db :: "'a lifecycle_db_scheme"
  assumes "atomicMultiTransition args now db = Inr out" and "\<not> mo_replay out"
    and "ma_ops args db = Inr [single_op p (Some d) (BuyerStep f t) payload]" and "ma_outbox args = None"
    and "\<And>db db' :: 'a lifecycle_db_scheme. run_body args db = Inr db' \<Longrightarrow> db' = db"
  shows "\<exists>audit keys db1. mo_db out = db\<lparr>ld_participants := (ld_participants db)(p := map_option (pt_buyer_update (\<lambda>_. t)) (ld_participants db p)),
        ld_audit := audit, ld_idempotency := keys\<rparr>
    \<and> read_buyer db p = Some f \<and> run_body args (db\<lparr>ld_audit := audit\<rparr>) = Inr db1"
proof (cases rule: fresh_call_cases [OF assms(1,2)])
  case 1
  then show ?thesis using assms(3) by simp
next
  case (2 ops db1 db2 db3)
  have ops: "ops = [single_op p (Some d) (BuyerStep f t) payload]" using 2(1) assms(3) by simp
  obtain audit where audit: "db1 = db\<lparr>ld_audit := audit\<rparr>" using 2(4) assms(4) by (auto simp: enqueue_job_def)
  have "db2 = db1" using assms(5) [OF 2(5)] .
  with 2(6) have step: "db3 = db1\<lparr>ld_participants := (ld_participants db1)(p := map_option (pt_buyer_update (\<lambda>_. t)) (ld_participants db1 p))\<rparr>"
      "read_buyer db1 p = Some f"
    by (auto simp: ops single_op_def swap_state_def readTransitionEntityState_def set_state_def read_buyer_def split: if_splits option.splits)
  obtain keys where "mo_db out = db3\<lparr>ld_idempotency := keys\<rparr>"
    using 2(7) unfolding insert_idempotency_def by (metis sum.distinct(1) sum.inject(2))
  then show ?thesis using audit step 2(5) by (intro exI [of _ audit] exI [of _ keys] exI [of _ db2]) (auto simp: read_buyer_def)
qed

lemma no_capture_Inr:
  "no_capture_in_flight p d db = Inr db' \<longleftrightarrow> db' = db \<and> \<not> list_ex capture_may_have_moved (loadRows p d db)"
  by (auto simp: no_capture_in_flight_def)

lemma failed_stays:
  assumes "lifecycle_run db db'" and "read_buyer db p = Some B_DealFailed"
  shows "read_buyer db' p = Some B_DealFailed"
proof -
  obtain t where t: "read_buyer db' p = Some t" "chain BUYER_TRANSITIONS B_DealFailed (steps_of buyer_column p (audit_since db db')) t"
    using explains_Some [OF buyer_run [OF assms(1), of p, unfolded assms(2)]] by blast
  have "map snd (steps_of buyer_column p (audit_since db db')) = []"
    using buyer_matrix.terminal [OF _ conjunct1 [OF chain_path [OF t(2)]]] by simp
  then show ?thesis using t chain_path [OF t(2)] by simp
qed

lemma not_armed_for_failed:
  assumes "armProviderDispatch now args db = Inr (answer, db1)" and "read_buyer db (ar_participant args) = Some B_DealFailed"
    and "ar_buyer_states args = ad_buyer (rail_admitted rail)"
  shows "answer \<noteq> Armed"
proof
  assume "answer = Armed"
  then obtain s where "participant_of (ar_participant args) (ar_deal args) db = Some s"
      "admits \<lparr>ad_money = ar_money_states args, ad_buyer = ar_buyer_states args\<rparr> s"
    using assms(1) unfolding armProviderDispatch_def by (auto split: option.split_asm if_split_asm elim!: on_ok_InrE)
  then show False using assms(2,3)
    by (cases rail) (auto simp: participant_of_def read_buyer_def admits_def split: option.splits if_splits)
qed

text \<open>C6: On a completed deal a buyer is failed only when no capture of theirs is open on the books, and none is armed
  afterwards: when the transaction commits, every capture of the buyer is on record as a permanent failure,
  be it the provider's own answer or inferred from a status, or as a temporary one that was never
  dispatched, and after any later lifecycle calls and other writes an attempt to arm a charge or a recovery
  of that buyer is refused.\<close>

theorem failed_buyer_is_never_charged:
  fixes db :: "'a worker_db_scheme"
  assumes "atomicMultiTransition (fail_after_completed_args request d p b) now db = Inr out" and "\<not> mo_replay out"
    and "lifecycle_run (mo_db out) later"
    and "armProviderDispatch now2 args later = Inr (answer, later2)" and "ar_participant args = p"
    and "ar_buyer_states args = ad_buyer (rail_admitted rail)"
  shows "answer \<noteq> Armed
    \<and> list_all (\<lambda>r. capture_side (pa_type r) \<longrightarrow> pa_result r = R_PermanentFail
        \<or> (pa_result r = R_TemporaryFail \<and> pa_dispatch r = DS_Recorded \<and> pa_dispatched_at r = None)) (loadRows p d (mo_db out))"
proof -
  obtain call :: "'a worker_db_scheme multi_args" where call: "call = fail_after_completed_args request d p b" by simp
  have same: "db' = db" if "run_body call db = Inr db'" for db db' :: "'a worker_db_scheme"
    using that by (simp add: call run_body_def fail_after_completed_args_def participant_args_def no_capture_Inr)
  have ops: "ma_ops call db = Inr [single_op p (Some d) (BuyerStep b B_DealFailed) '''']" and job: "ma_outbox call = None"
    by (simp_all add: call fail_after_completed_args_def participant_args_def)
  obtain audit keys db1 where out: "mo_db out = db\<lparr>ld_participants := (ld_participants db)(p := map_option (pt_buyer_update (\<lambda>_. B_DealFailed)) (ld_participants db p)),
        ld_audit := audit, ld_idempotency := keys\<rparr>" and was: "read_buyer db p = Some b"
      and body: "run_body call (db\<lparr>ld_audit := audit\<rparr>) = Inr db1"
    using buyer_call_shape [OF assms(1) [folded call] assms(2) ops job same] by blast
  have "read_buyer (mo_db out) p = Some B_DealFailed" using was by (auto simp: out read_buyer_def)
  from not_armed_for_failed [OF assms(4) _ assms(6)] failed_stays [OF assms(3) this]
  have "answer \<noteq> Armed" using assms(5) by simp
  moreover have "\<not> list_ex capture_may_have_moved (loadRows p d (mo_db out))"
    using body by (simp add: call out run_body_def fail_after_completed_args_def participant_args_def no_capture_Inr loadRows_def)
  ultimately show ?thesis by (auto simp: list_ex_iff list_all_iff capture_may_have_moved_def)
qed

section \<open>The path of a failed deal\<close>

lemma buyer_call_commits:
  fixes db :: "'a lifecycle_db_scheme"
  assumes "\<not> list_ex (idempotency_match (participant_args p d (BuyerStep f t) action request key payload None :: 'a lifecycle_db_scheme multi_args)) (ld_idempotency db)"
    and "read_buyer db p = Some f" and "t \<in> set (BUYER_TRANSITIONS f)" and "List.member ACTION_NAMES action"
  shows "\<exists>out. atomicMultiTransition (participant_args p d (BuyerStep f t) action request key payload None) now db = Inr out \<and> \<not> mo_replay out"
proof -
  let ?op = "single_op p (Some d) (BuyerStep f t) payload"
  obtain args :: "'a lifecycle_db_scheme multi_args" where args: "args = participant_args p d (BuyerStep f t) action request key payload None" by simp
  have fields: "ma_ops args db = Inr [?op]" "ma_insideTx args = None" "ma_outbox args = None" "ma_serialize args = False"
      "ma_flag args = None" "ma_action args = action"
    by (simp_all add: args participant_args_def)
  have none: "find (idempotency_match args) (ld_idempotency db) = None" using assms(1) by (simp add: args find_None_iff list_ex_iff)
  have "assertValidTransition (BuyerStep f t) = Inr ()" using assms(3) by (simp add: assertValidTransition_Inr)
  then have legal: "assert_all [?op] = Inr ()" by (simp add: single_op_def)
  let ?db1 = "db\<lparr>ld_audit := ld_audit db @ [audit_row_of args ?op]\<rparr>"
  have state: "readTransitionEntityState ?op ?db1 = Some True"
    using assms(2) by (auto simp: readTransitionEntityState_def single_op_def read_buyer_def)
  have enforced: "row_enforce db ?db1 action p (BuyerStep f t)"
    using assms(3,4) by (simp add: row_enforce_def valid_buyer audit_row_written_in_tx_def audit_row_of_def single_op_def fields)
  have swap: "swap_all db (outbox_flag args ?db1) action [?op] ?db1 = Inr (set_state (BuyerStep f t) p ?db1)"
    using state enforced by (simp add: swap_state_def single_op_def)
  have kept: "ld_idempotency (set_state (BuyerStep f t) p ?db1) = ld_idempotency db" by (simp add: set_state_def)
  obtain db2 where "insert_idempotency args (set_state (BuyerStep f t) p ?db1) = Inr db2"
    using assms(1) unfolding insert_idempotency_def kept by (simp add: args)
  then have "durable_writes args now [?op] db = Inr db2"
    using swap by (simp add: durable_writes_def enqueue_job_def run_body_def fields)
  then have "\<exists>out. atomicMultiTransition args now db = Inr out \<and> \<not> mo_replay out"
    using none legal by (simp add: atomicMultiTransition_def fields)
  then show ?thesis by (simp add: args)
qed

text \<open>C8: The guard that keeps a completed deal from failing a buyer in mid-capture is missing on a failed deal: for a
  buyer in a state that may become failed, with a capture under way or executed, the call of the completed
  path is refused and rolled back, while the call of the failed path commits, marks the buyer failed and
  leaves the capture on record as it was. Neither call may have been made before under its key.\<close>

theorem failed_deal_fails_buyer_in_capture:
  fixes db :: "'a worker_db_scheme"
  assumes "read_buyer db p = Some b" and "B_DealFailed \<in> set (BUYER_TRANSITIONS b)"
    and "list_ex capture_may_have_moved (loadRows p d db)"
    and "\<not> list_ex (idempotency_match (fail_participant_args request d p b :: 'a worker_db_scheme multi_args)) (ld_idempotency db)"
    and "\<not> list_ex (idempotency_match (fail_after_completed_args request d p b :: 'a worker_db_scheme multi_args)) (ld_idempotency db)"
  shows "atomicMultiTransition (fail_after_completed_args request d p b) now db = Inl (BodyRejected ''finalize_participant_capture_in_flight'')
    \<and> (\<exists>out. atomicMultiTransition (fail_participant_args request d p b) now db = Inr out
         \<and> read_buyer (mo_db out) p = Some B_DealFailed \<and> loadRows p d (mo_db out) = loadRows p d db)"
proof -
  obtain guarded :: "'a worker_db_scheme multi_args" where guarded: "guarded = fail_after_completed_args request d p b" by simp
  obtain plain :: "'a worker_db_scheme multi_args" where plain: "plain = fail_participant_args request d p b" by simp
  have none: "find (idempotency_match guarded) (ld_idempotency db) = None"
      "\<not> list_ex (idempotency_match plain) (ld_idempotency db)"
    using assms(4,5) by (auto simp: guarded plain find_None_iff list_ex_iff)
  have legal: "assertValidTransition (BuyerStep b B_DealFailed) = Inr ()" using assms(2) by (simp add: assertValidTransition_Inr)
  have "run_body guarded (db\<lparr>ld_audit := audit\<rparr>) = Inl (BodyRejected ''finalize_participant_capture_in_flight'')" for audit
    using assms(3) by (simp add: guarded run_body_def fail_after_completed_args_def participant_args_def no_capture_in_flight_def loadRows_def)
  then have refused: "atomicMultiTransition guarded now db = Inl (BodyRejected ''finalize_participant_capture_in_flight'')"
    using none(1) legal by (simp add: atomicMultiTransition_def durable_writes_def enqueue_job_def guarded
        fail_after_completed_args_def participant_args_def single_op_def)
  have "\<exists>out. atomicMultiTransition plain now db = Inr out \<and> \<not> mo_replay out"
    unfolding plain fail_participant_args_def
    by (rule buyer_call_commits [OF none(2) [unfolded plain fail_participant_args_def] assms(1,2)]) code_simp
  then obtain out where out: "atomicMultiTransition plain now db = Inr out" "\<not> mo_replay out" by blast
  obtain audit keys where "mo_db out = db\<lparr>ld_participants := (ld_participants db)(p := map_option (pt_buyer_update (\<lambda>_. B_DealFailed)) (ld_participants db p)),
      ld_audit := audit, ld_idempotency := keys\<rparr>"
    using buyer_call_shape [OF out, of p d b B_DealFailed "''''"]
    by (auto simp: plain fail_participant_args_def participant_args_def run_body_def)
  then have "read_buyer (mo_db out) p = Some B_DealFailed \<and> loadRows p d (mo_db out) = loadRows p d db"
    using assms(1) by (auto simp: read_buyer_def loadRows_def)
  then show ?thesis using refused out(1) by (auto simp: guarded plain)
qed

section \<open>The last look before a second capture\<close>

text \<open>Two answers that prove the first capture did not execute: about this operation, consistent, neither
  captured nor pending, and either backed by the provider's own decline of the exact request or negative
  under a contract that makes negative answers final.\<close>

definition proves_failure :: "ambiguity_policy \<Rightarrow> bool \<Rightarrow> status_result \<Rightarrow> status_result \<Rightarrow> bool" where
  "proves_failure policy declined first second \<longleftrightarrow>
     list_all (\<lambda>r. sr_matches r \<noteq> Some False \<and> \<not> foreign_currency (Some ''ILS'') r \<and> sr_state r \<noteq> PCaptured \<and> sr_state r \<noteq> PPending) [first, second]
     \<and> sr_state first = sr_state second \<and> sr_final first = sr_final second
     \<and> (declined \<or> (ap_negative_status_authoritative policy \<and> sr_state first \<noteq> PUnknown))"

lemma verdict_proves:
  assumes "preflight_verdict policy declined amount (Some ''ILS'') first second \<in> {UnverifiableProceed, NegativeProven}"
  shows "proves_failure policy declined first second"
  using assms unfolding preflight_verdict_def Let_def
  by (auto simp: proves_failure_def find_None_iff split: if_splits option.splits)

lemma effects_proceed:
  assumes "preflight_effects env a target reference answered verdict s = (Inr PreflightProceed, s1)"
  shows "verdict \<in> {UnverifiableProceed, NegativeProven}"
  using assms
  by (cases verdict) (auto simp: preflight_effects_def preflight_case_def elim!: jbind_InrE)

lemma jtry_InrE:
  assumes "jtry m s = (Inr (Some a), s1)"
  shows "m s = (Inr a, s1)"
  using assms by (auto simp: jtry_def split: prod.splits sum.splits)

lemma jcall_InrE:
  assumes "jcall env call answer s = (Inr a, s1)"
  shows "answer (js_step s) = Some a \<and> js_step s1 = Suc (js_step s)"
  using assms by (auto simp: jcall_def Let_def split: if_splits option.splits)

lemma jread_Inr:
  "jread env f s = (Inr a, s1) \<longleftrightarrow> \<not> je_fails env (js_step s) \<and> s1 = after_others env s \<and> a = f (je_now env (js_step s)) (js_db (after_others env s))"
  by (auto simp: jread_def jtx_def Let_def after_others_def)

lemma verify_proceeds:
  assumes "verifyOriginalCaptureBeforeRecovery env a s = (Inr PreflightProceed, s1)"
    and "rows = loadRows (pf_participant a) (pf_deal a) (js_db (after_others env s))"
    and "pv_status (je_provider env) = Some answer" and "reference = preflight_reference (pf_authorization a) rows" and "reference \<noteq> ''''"
    and "\<not> list_ex (\<lambda>r. is_result R_Unknown A_Recovery r \<or> is_result R_Success A_Recovery r) rows"
  shows "\<exists>n m first second. n < m \<and> answer n reference OpCapture = Some first \<and> answer m reference OpCapture = Some second
    \<and> proves_failure (providerAmbiguityPolicy (je_provider env)) (exact_decline (newest_capture rows)) first second"
proof -
  let ?read = "preflight_read env a reference answer"
  let ?verdict = "preflight_verdict (providerAmbiguityPolicy (je_provider env)) (exact_decline (newest_capture rows))
    (Some (pf_amount a)) (Some ''ILS'')"
  let ?go = "\<lambda>first second. preflight_effects env a (newest_capture rows) reference (if sr_state first = PCaptured then first else second) (?verdict first second)"
  have "jbind (?read ''1'') (\<lambda>r1. case r1 of None \<Rightarrow> jreturn PreflightAmbiguous | Some first \<Rightarrow>
      jbind (?read ''2'') (\<lambda>r2. case r2 of None \<Rightarrow> jreturn PreflightAmbiguous | Some second \<Rightarrow> ?go first second)) (after_others env s)
      = (Inr PreflightProceed, s1)"
    using assms(1) unfolding verifyOriginalCaptureBeforeRecovery_def Let_def
    by (elim jbind_InrE) (simp only: jread_Inr, use assms(2-6) in simp)
  then obtain r1 s2 where one: "?read ''1'' (after_others env s) = (Inr r1, s2)"
      and two: "(case r1 of None \<Rightarrow> jreturn PreflightAmbiguous | Some first \<Rightarrow>
        jbind (?read ''2'') (\<lambda>r2. case r2 of None \<Rightarrow> jreturn PreflightAmbiguous | Some second \<Rightarrow> ?go first second)) s2 = (Inr PreflightProceed, s1)"
    by (rule jbind_InrE)
  obtain first where first: "r1 = Some first" using two by (cases r1) simp_all
  obtain r2 s3 where read2: "?read ''2'' s2 = (Inr r2, s3)"
      and three: "(case r2 of None \<Rightarrow> jreturn PreflightAmbiguous | Some second \<Rightarrow> ?go first second) s3 = (Inr PreflightProceed, s1)"
    using two unfolding first option.case by (rule jbind_InrE)
  obtain second where second: "r2 = Some second" using three by (cases r2) simp_all
  have "?verdict first second \<in> {UnverifiableProceed, NegativeProven}"
    using three unfolding second option.case by (rule effects_proceed)
  note proof1 = verdict_proves [OF this]
  note c1 = jcall_InrE [OF jtry_InrE [OF one [unfolded first preflight_read_def]]]
  note c2 = jcall_InrE [OF jtry_InrE [OF read2 [unfolded second preflight_read_def]]]
  show ?thesis using proof1 c1 c2
    by (intro exI [of _ "js_step (after_others env s)"] exI [of _ "js_step s2"] exI [of _ first] exI [of _ second]) simp
qed

lemma ready_proceeds:
  assumes "recovery_ready env event rp s = (Inr (Inr u), s1)"
  shows "payment_capture_settlement_fence (je_now env (js_step s)) (rl_participant rp) (rl_deal rp) (js_db (after_others env s)) = None
    \<and> (\<exists>s2. verifyOriginalCaptureBeforeRecovery env \<lparr>pf_participant = rl_participant rp, pf_deal = rl_deal rp,
          pf_authorization = rl_authorization rp, pf_event = ev_uuid event, pf_amount = rl_amount rp, pf_context = InRecovery\<rparr>
          (after_others env s) = (Inr PreflightProceed, s2))"
  using assms unfolding recovery_ready_def Let_def
  by (auto simp: jread_Inr elim!: jbind_InrE split: option.splits fence.splits preflight.splits)

lemma ready_sends_no_capture: "emits (at_most (captures_for p) 0) (recovery_ready env event rp)"
  unfolding recovery_ready_def Let_def
  by (intro captured.emits_bind captured.emits_base) (auto intro!: captured.emits_cases captured.emits_bind captured.emits_case
      captured.emits_return captured.emits_verify captured.emits_now split: fence.split preflight.split)

text \<open>C7: A second capture follows a negative verdict on the first one: for a provider that answers status
  questions, an operation with a reference and a participant without an unresolved or executed recovery,
  when a recovery sends a capture request, then no settlement fence covered the participant when the job
  looked, and two status reads said consistently, about this very operation, that the money is neither
  captured nor pending; and either the newest capture is on record as declined, by the provider's answer to
  the exact request or by an operator, or the provider's contract makes negative answers final.\<close>

theorem second_capture_follows_proof:
  assumes "recover_participant env event rp s = Some (r, s1)"
    and "c \<in> set (drop (length (js_calls s)) (js_calls s1))" and "captures_for (rl_participant rp) (fst c)"
    and "pv_status (je_provider env) = Some answer"
    and "rows = loadRows (rl_participant rp) (rl_deal rp) (js_db (after_others env (after_others env s)))"
    and "reference = preflight_reference (rl_authorization rp) rows" and "reference \<noteq> ''''"
    and "\<not> list_ex (\<lambda>r. is_result R_Unknown A_Recovery r \<or> is_result R_Success A_Recovery r) rows"
  shows "payment_capture_settlement_fence (je_now env (js_step s)) (rl_participant rp) (rl_deal rp) (js_db (after_others env s)) = None
    \<and> (\<exists>n m first second. n < m \<and> answer n reference OpCapture = Some first \<and> answer m reference OpCapture = Some second
        \<and> proves_failure (providerAmbiguityPolicy (je_provider env)) (exact_decline (newest_capture rows)) first second)"
proof -
  obtain a s2 where ready: "recovery_ready env event rp s = (a, s2)" by force
  obtain xs where xs: "js_calls s2 = js_calls s @ xs" "at_most (captures_for (rl_participant rp)) 0 xs"
    using emitsD [OF ready_sends_no_capture ready] by blast
  have "\<exists>u. a = Inr (Inr u)"
  proof (rule ccontr)
    assume "\<not> (\<exists>u. a = Inr (Inr u))"
    then have "s1 = s2" using assms(1) ready by (auto simp: recover_participant_def job_then_def split: sum.splits)
    then have "c \<in> set xs" using assms(2) xs(1) by simp
    then show False using xs(2) assms(3) by (auto simp: at_most_def filter_empty_conv)
  qed
  then obtain u where "recovery_ready env event rp s = (Inr (Inr u), s2)" using ready by blast
  note proceeds = ready_proceeds [OF this]
  then obtain s3 where "verifyOriginalCaptureBeforeRecovery env \<lparr>pf_participant = rl_participant rp, pf_deal = rl_deal rp,
      pf_authorization = rl_authorization rp, pf_event = ev_uuid event, pf_amount = rl_amount rp, pf_context = InRecovery\<rparr>
      (after_others env s) = (Inr PreflightProceed, s3)" by blast
  from verify_proceeds [OF this _ assms(4), of rows reference] show ?thesis using proceeds assms(5-8) by simp
qed

section \<open>Refunds\<close>

text \<open>Money is sent back only after a deal failed: whenever a refund job asks the provider for anything, the deal
  it names was Failed when the job read it, or Cancelled for the refund of a cancellation.\<close>

theorem refunds_follow_failure:
  assumes "handleRefundEvent env event s = (r, s1)" and "js_calls s1 \<noteq> js_calls s"
  shows "\<exists>state. ld_deals (je_others env (js_step s) (js_db s)) (ev_aggregate event) = Some state
    \<and> (state = D_Failed \<or> (ev_type event = ''cancel_refund'' \<and> state = D_Cancelled))"
proof (rule ccontr)
  assume refused: "\<not> ?thesis"
  have quiet: "js_calls (snd (openPaymentOperationalCase env key k t)) = js_calls t" for key k t
    by (auto simp: openPaymentOperationalCase_def jcatch_def jwrite_def jtx_def Let_def split: prod.splits sum.splits)
  have "js_calls (snd (handleRefundEvent env event s)) = js_calls s"
    using refused quiet
    by (auto simp: handleRefundEvent_def Let_def jbind_def jread_def jtx_def jstop_def refund_states_def split: option.splits)
  then show False using assms by simp
qed

section \<open>Deals whose decision went missing\<close>

lemma enqueue_once_row:
  assumes "enqueue_once row db = (inserted, db1)"
  shows "(inserted \<longrightarrow> row \<in> set (odb_events (ld_outbox db1)))
    \<and> (\<not> inserted \<longrightarrow> db1 = db \<and> list_ex (\<lambda>r. ob_id r = ob_id row \<or> open_duplicate row r) (odb_events (ld_outbox db)))
    \<and> set (odb_events (ld_outbox db)) \<subseteq> set (odb_events (ld_outbox db1))
    \<and> set (odb_events (ld_outbox db1)) \<subseteq> insert row (set (odb_events (ld_outbox db)))
    \<and> (\<exists>outbox. db1 = db\<lparr>ld_outbox := outbox\<rparr>)"
  using assms
  by (cases db) (auto simp: enqueue_once_def insert_outbox_event_def split: sum.splits if_splits)

definition finalize_queued :: "string \<Rightarrow> 'a lifecycle_db_scheme \<Rightarrow> bool" where
  "finalize_queued d db \<longleftrightarrow> list_ex (\<lambda>r. ob_event_type r = ''finalize_deal'' \<and> ob_aggregate_id r = d
     \<and> (ob_status r = Pending \<or> ob_status r = Processing)) (odb_events (ld_outbox db))"

lemma finalize_queued_mono:
  "set (odb_events (ld_outbox db)) \<subseteq> set (odb_events (ld_outbox db1)) \<Longrightarrow> finalize_queued d db \<Longrightarrow> finalize_queued d db1"
  by (auto simp: finalize_queued_def list_ex_iff)

text \<open>Identifiers drawn for the deals name rows of those deals only.\<close>

definition drawn_for :: "(string \<Rightarrow> string) \<Rightarrow> string set \<Rightarrow> 'a lifecycle_db_scheme \<Rightarrow> bool" where
  "drawn_for uuid D db \<longleftrightarrow> (\<forall>r \<in> set (odb_events (ld_outbox db)). \<forall>d \<in> D. ob_id r = uuid d \<longrightarrow> finalize_queued d db)"

lemma enqueue_finalize:
  assumes "enqueue_once (pending_job (uuid d) ''finalize_deal'' ''deal'' d payload now) db = (inserted, db1)"
    and "drawn_for uuid D db" and "inj_on uuid D" and "d \<in> D"
  shows "finalize_queued d db1 \<and> drawn_for uuid D db1"
proof -
  let ?row = "pending_job (uuid d) ''finalize_deal'' ''deal'' d payload now"
  note e = enqueue_once_row [OF assms(1)]
  have queued: "finalize_queued d db1"
  proof (cases inserted)
    case True
    then have "?row \<in> set (odb_events (ld_outbox db1))" using e by blast
    then show ?thesis by (force simp: finalize_queued_def list_ex_iff pending_job_def)
  next
    case False
    then have "db1 = db" and "list_ex (\<lambda>r. ob_id r = uuid d \<or> open_duplicate ?row r) (odb_events (ld_outbox db))"
      using e by (auto simp: pending_job_def)
    then obtain r where r: "r \<in> set (odb_events (ld_outbox db))" "ob_id r = uuid d \<or> open_duplicate ?row r" by (auto simp: list_ex_iff)
    have "finalize_queued d db" if "open_duplicate ?row r"
      using that r(1) by (auto simp: open_duplicate_def pending_job_def finalize_queued_def list_ex_iff)
    then show ?thesis using r assms(2,4) \<open>db1 = db\<close> by (auto simp: drawn_for_def)
  qed
  have "finalize_queued d' db1" if r: "r \<in> set (odb_events (ld_outbox db1))" "d' \<in> D" "ob_id r = uuid d'" for r d'
  proof (cases "r \<in> set (odb_events (ld_outbox db))")
    case True
    then show ?thesis using r assms(2) e finalize_queued_mono [of db db1 d'] by (auto simp: drawn_for_def)
  next
    case False
    then have "r = ?row" using r(1) e by blast
    then have "d' = d" using r(2,3) assms(3,4) by (auto simp: pending_job_def inj_on_def)
    then show ?thesis using queued by simp
  qed
  then show ?thesis using queued by (auto simp: drawn_for_def)
qed

lemma enqueue_finalizes_all:
  assumes "enqueue_finalizes uuid now ds db = (n, db1)" and "drawn_for uuid D db" and "inj_on uuid D" and "set ds \<subseteq> D"
  shows "(\<forall>d \<in> set ds. finalize_queued d db1) \<and> set (odb_events (ld_outbox db)) \<subseteq> set (odb_events (ld_outbox db1))
    \<and> (\<exists>outbox. db1 = db\<lparr>ld_outbox := outbox\<rparr>)"
  using assms
proof (induction ds arbitrary: db n)
  case Nil
  then show ?case by (cases db) auto
next
  case (Cons d ds)
  let ?row = "pending_job (uuid d) ''finalize_deal'' ''deal'' d (payload_text [Some d, Some ''maintenance_stalled_finalize'']) now"
  obtain inserted db2 where one: "enqueue_once ?row db = (inserted, db2)" by force
  obtain k db3 where rest: "enqueue_finalizes uuid now ds db2 = (k, db3)" by force
  have "db3 = db1" using Cons.prems(1) one rest by simp
  note rest = rest [unfolded this]
  note e = enqueue_finalize [OF one Cons.prems(2,3)] enqueue_once_row [OF one]
  have "finalize_queued d db2" and "drawn_for uuid D db2" using e(1) Cons.prems(4) by simp_all
  with Cons.IH [OF rest _ Cons.prems(3)] have ih: "(\<forall>d \<in> set ds. finalize_queued d db1)
      \<and> set (odb_events (ld_outbox db2)) \<subseteq> set (odb_events (ld_outbox db1)) \<and> (\<exists>outbox. db1 = db2\<lparr>ld_outbox := outbox\<rparr>)"
    using Cons.prems(4) by auto
  then have "finalize_queued d db1" using finalize_queued_mono \<open>finalize_queued d db2\<close> by blast
  moreover have "\<exists>outbox. db1 = db\<lparr>ld_outbox := outbox\<rparr>"
  proof -
    obtain o1 o2 where "db2 = db\<lparr>ld_outbox := o1\<rparr>" "db1 = db2\<lparr>ld_outbox := o2\<rparr>" using ih e(2) by blast
    then show ?thesis by (intro exI [of _ o2]) simp
  qed
  ultimately show ?case using ih e(2) by auto
qed

text \<open>C10: No deal is left undecided because its job died: after the maintenance ran, each of the first deals, up to the
  limit, whose window is over and which has no live finalize job has one again; no job is lost, and nothing
  but the queue is written. The identifiers drawn are new and different.\<close>

theorem stalled_deals_are_rescheduled:
  assumes "rescheduleStalledFinalizations uuid limit deals now db = (n, db1)"
    and "inj_on uuid (set deals)" and "uuid ` set deals \<inter> ob_id ` set (odb_events (ld_outbox db)) = {}"
  shows "list_all (\<lambda>d. finalize_queued d db1) (take (nat (max 1 limit)) (filter (\<lambda>d. stalled now d db) deals))
    \<and> set (odb_events (ld_outbox db)) \<subseteq> set (odb_events (ld_outbox db1)) \<and> (\<exists>outbox. db1 = db\<lparr>ld_outbox := outbox\<rparr>)"
proof -
  have "drawn_for uuid (set deals) db" using assms(3) by (auto simp: drawn_for_def)
  moreover have "set (take (nat (max 1 limit)) (filter (\<lambda>d. stalled now d db) deals)) \<subseteq> set deals"
    by (auto dest: in_set_takeD)
  ultimately show ?thesis
    using enqueue_finalizes_all [OF assms(1) [unfolded rescheduleStalledFinalizations_def] _ assms(2)] by (simp add: list_all_iff)
qed

section \<open>A renewal that never left\<close>

definition renewal_open :: "string \<Rightarrow> string \<Rightarrow> 'a payment_db_scheme \<Rightarrow> bool" where
  "renewal_open p d db \<longleftrightarrow> list_ex (is_result R_Unknown A_Reauthorize) (loadRows p d db)"

lemma update_keeps_renewal:
  assumes "update_attempts now s P f db = Inr (n, db1)" and "renewal_open p d db"
    and "\<And>r. P r \<Longrightarrow> of_obligation p d r \<Longrightarrow> is_result R_Unknown A_Reauthorize r \<Longrightarrow> same_identity r (f r) \<and> pa_result (f r) = R_Unknown"
  shows "renewal_open p d db1"
proof -
  obtain rows where u: "update_rows (update_guard (payment_operation_in_flight now db) s) P f (pd_attempts db) = Inr (n, rows)"
      and db1: "db1 = db\<lparr>pd_attempts := rows\<rparr>"
    using assms(1) unfolding update_attempts_def by (auto elim!: on_ok_InrE)
  note spec = conjunct1 [OF update_rows_spec [OF u]]
  obtain r where r: "r \<in> set (pd_attempts db)" "of_obligation p d r" "is_result R_Unknown A_Reauthorize r"
    using assms(2) by (auto simp: renewal_open_def loadRows_def list_ex_iff)
  obtain r' where r': "r' \<in> set rows"
      "if P r then update_guard (payment_operation_in_flight now db) s r (f r) = Inr r' else r' = r"
    using list_all2_image [OF spec r(1)] by blast
  have "of_obligation p d r' \<and> is_result R_Unknown A_Reauthorize r'"
  proof (cases "P r")
    case True
    then obtain m where m: "guard_lifecycle (payment_operation_in_flight now db) s r (f r) = Inr m" "r' = guard_horizon r m"
      using r'(2) unfolding update_guard_def by (auto elim!: on_ok_InrE)
    have "m = f r \<or> m = (f r)\<lparr>pa_dispatch := DS_Responded\<rparr>" using guard_lifecycle_Inr [OF m(1)] by blast
    then show ?thesis using assms(3) [OF True r(2,3)] r(2,3) m(2)
      by (auto simp: guard_horizon_def of_obligation_def is_result_def same_identity_def)
  qed (use r r' in simp)
  then show ?thesis using r'(1) by (auto simp: renewal_open_def loadRows_def list_ex_iff db1)
qed

lemma open_renewal_blocks:
  assumes "renewal_open p d db" and "beginProviderAttempt now p d (rail_type rail) identity (Some (rail_admitted rail)) db = Inr (answer, db1)"
  shows "(\<exists>state retired. answer = BeginStateChanged state retired)
    \<or> (\<exists>c. answer = BeginBlocked ''capture_blocked_by_unresolved_reauthorization'' A_Reauthorize c R_Unknown)"
proof -
  have side: "capture_side (rail_type rail)" "conflicting_types (rail_type rail) = [A_Release]"
      "rail_type rail \<noteq> A_Reauthorize" "rail_type rail \<noteq> A_Release"
    by (cases rail; simp add: capture_side_def conflicting_types_def)+
  have blocked: "\<exists>r. begin_blocking (rail_type rail) (loadRows p d db2) = Some (r, ''capture_blocked_by_unresolved_reauthorization'')
      \<and> is_result R_Unknown A_Reauthorize r" if open_: "renewal_open p d db2" for db2 :: "'a payment_db_scheme"
  proof -
    obtain r where r: "find (is_result R_Unknown A_Reauthorize) (loadRows p d db2) = Some r"
      using open_ by (cases "find (is_result R_Unknown A_Reauthorize) (loadRows p d db2)") (auto simp: renewal_open_def find_None_iff list_ex_iff)
    then have "is_result R_Unknown A_Reauthorize r" by (auto simp: find_Some_iff)
    then show ?thesis using r side by (simp add: begin_blocking_def)
  qed
  have retired: "renewal_open p d db2" if "retireNeverDispatchedInTx now p d [A_Release] reason db = Inr (l, db2)" for reason l db2
    using that assms(1) unfolding retireNeverDispatchedInTx_def
    by (auto elim!: on_ok_InrE update_keeps_renewal simp: retirable_def is_result_def)
  show ?thesis
    using assms(2) blocked retired side(2) unfolding beginProviderAttempt_def Let_def mint_or_resume_def
    by (fastforce simp: is_result_def split: if_splits elim!: on_ok_InrE)
qed

lemma case_keeps_attempts:
  assumes "openPaymentOperationalCase env key c s = (r, s1)" and "\<And>n db. je_others env n db = db"
  shows "pd_attempts (js_db s1) = pd_attempts (js_db s)"
  using assms by (auto simp: openPaymentOperationalCase_def jcatch_def jwrite_def jtx_def Let_def split: prod.splits sum.splits if_splits)

lemma settle_keeps_renewal:
  assumes "settleOwnedMoneyOperation env op OutPreDispatchFailure reference note None s = (Inr u, s1)"
    and "\<And>n db. je_others env n db = db" and "renewal_open (io_participant op) (io_deal op) (js_db s)"
  shows "renewal_open (io_participant op) (io_deal op) (js_db s1)"
proof -
  obtain answer s2 where settle: "jledger env (\<lambda>now. settleProviderDispatch now (io_participant op) (io_deal op) (io_type op) (io_correlation op)
        (owner_of (io_event op)) OutPreDispatchFailure reference note (map_option (\<lambda>body. body now) None)) s = (Inr answer, s2)"
      and rest: "(case answer of DispatchSettled \<Rightarrow> jreturn () | ForeignOwner \<Rightarrow> jstop (LeaseLost (ev_uuid (io_event op)))
        | DispatchMissing \<Rightarrow> jstop (JobError (''payment_attempt_identity_missing '' @ type_name (io_type op) @ '' '' @ io_correlation op))) s2 = (Inr u, s1)"
    using assms(1) unfolding settleOwnedMoneyOperation_def by (rule jbind_InrE)
  have "s1 = s2" using rest by (cases answer) simp_all
  obtain db where db: "settleProviderDispatch (je_now env (js_step s)) (io_participant op) (io_deal op) (io_type op) (io_correlation op)
      (owner_of (io_event op)) OutPreDispatchFailure reference note None (js_db s) = Inr (answer, db)" "js_db s2 = db"
    using settle by (rule jledger_InrE) (simp add: after_others_def assms(2))
  have "renewal_open (io_participant op) (io_deal op) db"
    using db(1) assms(3) unfolding settleProviderDispatch_def
    by (auto elim!: on_ok_InrE update_keeps_renewal simp: same_identity_def is_result_def)
  then show ?thesis using \<open>s1 = s2\<close> db(2) by simp
qed

text \<open>C9: A renewal that never reached the provider stops the capture it should have prepared: when the provider refuses
  a renewal before sending it, the gate answers to go on with the original authorization, yet the buyer's
  renewal, unresolved on record before the answer, is unresolved on record after it, and so the capture that
  follows gets no identity: its begin is answered as blocked by the renewal, or because the buyer has moved
  on. Other workers are taken to do nothing in between, and the begin to return.\<close>

theorem unsent_renewal_stops_the_capture:
  assumes "answer_renewal env op current (NotReauthorized error retryable (Some False)) s = (Inr gate, s1)"
    and "\<And>n db. je_others env n db = db" and "renewal_open (io_participant op) (io_deal op) (js_db s)"
    and "beginProviderAttempt now (io_participant op) (io_deal op) (rail_type rail) identity (Some (rail_admitted rail)) (js_db s1)
      = Inr (answer, db)"
  shows "gate = GateProceed current False \<and> renewal_open (io_participant op) (io_deal op) (js_db s1)
    \<and> ((\<exists>state retired. answer = BeginStateChanged state retired)
       \<or> (\<exists>c. answer = BeginBlocked ''capture_blocked_by_unresolved_reauthorization'' A_Reauthorize c R_Unknown))"
proof -
  have "jbind (settleOwnedMoneyOperation env op OutPreDispatchFailure None (Some (''pre_dispatch_failure:'' @ error)) None) (\<lambda>_.
      jbind (openPaymentOperationalCase env (''payment-reauthorization-unavailable:'' @ io_participant op) (Some (io_correlation op))) (\<lambda>_.
        jreturn (GateProceed current False))) s = (Inr gate, s1)"
    using assms(1) by (simp add: answer_renewal_def Let_def)
  then obtain u s2 v where settled: "settleOwnedMoneyOperation env op OutPreDispatchFailure None (Some (''pre_dispatch_failure:'' @ error)) None s = (Inr u, s2)"
      and opened: "openPaymentOperationalCase env (''payment-reauthorization-unavailable:'' @ io_participant op) (Some (io_correlation op)) s2 = (Inr v, s1)"
      and gate: "gate = GateProceed current False"
    by (auto elim!: jbind_InrE)
  have still: "renewal_open (io_participant op) (io_deal op) (js_db s1)"
    using settle_keeps_renewal [OF settled assms(2,3)] case_keeps_attempts [OF opened assms(2)]
    by (simp add: renewal_open_def loadRows_def)
  from open_renewal_blocks [OF this assms(4)] gate still show ?thesis by blast
qed

section \<open>Examples\<close>

definition sale_db :: worker_db where
  "sale_db = worker_demo D_CompletionWindow (Some 50) B_ChargedSuccess M_ChargedSuccess [declined_row]"

definition decide_call :: "worker_db multi_args" where
  "decide_call = decision_args ''e1'' ''d1'' 3 True 100 ''u1''"

lemma case_Inr: "(case x of Inl e \<Rightarrow> False | Inr a \<Rightarrow> P a) \<longleftrightarrow> (\<exists>a. x = Inr a \<and> P a)"
  by (cases x) auto

lemma deal_decided_on_settled_money_witness:
  "\<exists>out. atomicMultiTransition decide_call 100 sale_db = Inr out
    \<and> ld_deals (mo_db out) ''d1'' = Some (if of_int 3 \<le> sumCapturedUnits ''d1'' (mo_db out) then D_Completed else D_Failed)"
proof -
  have "case atomicMultiTransition decide_call 100 sale_db of Inl e \<Rightarrow> False | Inr out \<Rightarrow> \<not> mo_replay out" by code_simp
  then obtain out where out: "atomicMultiTransition decide_call 100 sale_db = Inr out" "\<not> mo_replay out" unfolding case_Inr by blast
  show ?thesis using deal_decided_on_settled_money [OF out(1) [unfolded decide_call_def] out(2)] out(1) by blast
qed

definition late_db :: worker_db where
  "late_db = worker_demo D_CompletionWindow (Some 50) B_ChargeFailedCompletion M_ChargeFailedRecovery [declined_row]"

definition fail_call :: "worker_db multi_args" where
  "fail_call = fail_after_completed_args ''worker:e1'' ''d1'' ''p1'' B_ChargeFailedCompletion"

definition rearm :: arm_args where
  "rearm = (arm_by ''e1'' ''w1'')\<lparr>ar_type := A_Recovery, ar_money_states := [M_ChargeFailedRecovery],
     ar_buyer_states := Some [B_ChargeFailedCompletion]\<rparr>"

lemma failed_buyer_is_never_charged_witness:
  "\<exists>out answer db. atomicMultiTransition fail_call 100 late_db = Inr out
    \<and> armProviderDispatch 101 rearm (mo_db out) = Inr (answer, db) \<and> answer \<noteq> Armed"
proof -
  have "case atomicMultiTransition fail_call 100 late_db of Inl e \<Rightarrow> False | Inr out \<Rightarrow>
      \<not> mo_replay out \<and> (case armProviderDispatch 101 rearm (mo_db out) of Inl e \<Rightarrow> False | Inr r \<Rightarrow> True)" by code_simp
  then obtain out answer db where out: "atomicMultiTransition fail_call 100 late_db = Inr out" "\<not> mo_replay out"
      "armProviderDispatch 101 rearm (mo_db out) = Inr (answer, db)"
    unfolding case_Inr by (auto split: prod.splits)
  have "ar_participant rearm = ''p1''" "ar_buyer_states rearm = ad_buyer (rail_admitted RecoveryRail)"
    by (simp_all add: rearm_def arm_by_def)
  from failed_buyer_is_never_charged [OF out(1) [unfolded fail_call_def] out(2) begin_run out(3) this] out(1,3)
  show ?thesis by blast
qed

definition pending_db :: worker_db where
  "pending_db = worker_demo D_Failed (Some 50) B_ChargingAttempt M_ChargeAttempt [recorded_row]"

lemma failed_deal_fails_buyer_in_capture_witness:
  "atomicMultiTransition (fail_after_completed_args ''r1'' ''d1'' ''p1'' B_ChargingAttempt) 100 pending_db
      = Inl (BodyRejected ''finalize_participant_capture_in_flight'')
    \<and> (\<exists>out. atomicMultiTransition (fail_participant_args ''r1'' ''d1'' ''p1'' B_ChargingAttempt) 100 pending_db = Inr out
         \<and> read_buyer (mo_db out) ''p1'' = Some B_DealFailed \<and> loadRows ''p1'' ''d1'' (mo_db out) = loadRows ''p1'' ''d1'' pending_db)"
proof (rule failed_deal_fails_buyer_in_capture)
  show "read_buyer pending_db ''p1'' = Some B_ChargingAttempt" by (simp add: read_buyer_def pending_db_def worker_demo_def)
  show "B_DealFailed \<in> set (BUYER_TRANSITIONS B_ChargingAttempt)" by code_simp
  show "list_ex capture_may_have_moved (loadRows ''p1'' ''d1'' pending_db)" by code_simp
qed (simp_all add: pending_db_def worker_demo_def)

lemma stalled_deals_are_rescheduled_witness:
  "\<exists>n db1. rescheduleStalledFinalizations (\<lambda>d. ''f'' @ d) 10 [''d1''] 2000 sale_db = (n, db1)
    \<and> list_all (\<lambda>d. finalize_queued d db1) (take (nat (max 1 10)) (filter (\<lambda>d. stalled 2000 d sale_db) [''d1'']))
    \<and> stalled 2000 ''d1'' sale_db"
proof -
  obtain n db1 where run: "rescheduleStalledFinalizations (\<lambda>d. ''f'' @ d) 10 [''d1''] 2000 sale_db = (n, db1)" by force
  have "stalled 2000 ''d1'' sale_db" by code_simp
  moreover have "inj_on (\<lambda>d. ''f'' @ d) (set [''d1''])" by simp
  moreover have "(\<lambda>d. ''f'' @ d) ` set [''d1''] \<inter> ob_id ` set (odb_events (ld_outbox sale_db)) = {}"
    by (simp add: sale_db_def worker_demo_def AttemptRuns.job_def)
  ultimately show ?thesis using stalled_deals_are_rescheduled [OF run] run by blast
qed

definition renewal_row :: attempt_row where
  "renewal_row = (new_attempt 10 ''p1'' ''d1'' A_Reauthorize ''c9'')\<lparr>pa_dispatch := DS_Dispatching, pa_dispatched_at := Some 20, pa_owner := Some (''e1'', 1)\<rparr>"

definition renewal_db :: worker_db where
  "renewal_db = worker_demo D_Charging None B_ChargingAttempt M_ChargeAttempt [renewal_row]"

definition renewal_op :: money_operation where
  "renewal_op = \<lparr>io_event = demo_job ''charge_deal'', io_participant = ''p1'', io_deal = ''d1'', io_type = A_Reauthorize, io_correlation = ''c9''\<rparr>"

lemma unsent_renewal_stops_the_capture_witness:
  "\<exists>gate s1 answer db. answer_renewal demo_job_env renewal_op (Some ''a1'') (NotReauthorized ''no route'' True (Some False)) (start_of renewal_db) = (Inr gate, s1)
    \<and> beginProviderAttempt 200 ''p1'' ''d1'' A_ChargeStart (\<lambda>n. ''c'' @ nat_text n) (Some (rail_admitted ChargeRail)) (js_db s1) = Inr (answer, db)
    \<and> gate = GateProceed (Some ''a1'') False
    \<and> ((\<exists>state retired. answer = BeginStateChanged state retired)
       \<or> (\<exists>c. answer = BeginBlocked ''capture_blocked_by_unresolved_reauthorization'' A_Reauthorize c R_Unknown))"
proof -
  have "case answer_renewal demo_job_env renewal_op (Some ''a1'') (NotReauthorized ''no route'' True (Some False)) (start_of renewal_db) of
      (Inl e, s1) \<Rightarrow> False
    | (Inr gate, s1) \<Rightarrow> (case beginProviderAttempt 200 ''p1'' ''d1'' A_ChargeStart (\<lambda>n. ''c'' @ nat_text n) (Some (rail_admitted ChargeRail)) (js_db s1) of
        Inl e \<Rightarrow> False | Inr r \<Rightarrow> True)"
    unfolding answer_renewal_def jbind_def by code_simp
  then obtain gate s1 answer db where
      run: "answer_renewal demo_job_env renewal_op (Some ''a1'') (NotReauthorized ''no route'' True (Some False)) (start_of renewal_db) = (Inr gate, s1)"
      and begins: "beginProviderAttempt 200 ''p1'' ''d1'' A_ChargeStart (\<lambda>n. ''c'' @ nat_text n) (Some (rail_admitted ChargeRail)) (js_db s1) = Inr (answer, db)"
    by (auto split: prod.splits sum.splits)
  have "je_others demo_job_env n db = db" for n db by (simp add: demo_job_env_def)
  moreover have "renewal_open (io_participant renewal_op) (io_deal renewal_op) (js_db (start_of renewal_db))" by code_simp
  ultimately show ?thesis
    using unsent_renewal_stops_the_capture [OF run, of 200 ChargeRail "\<lambda>n. ''c'' @ nat_text n" answer db] begins run
    by (auto simp: renewal_op_def)
qed

lemma refunds_follow_failure_witness:
  "\<exists>r s1. handleRefundEvent demo_job_env refund_job (start_of failed_sale) = (r, s1) \<and> js_calls s1 \<noteq> []
    \<and> (\<exists>state. ld_deals failed_sale sale_id = Some state \<and> state = D_Failed)"
proof -
  obtain r s1 where run: "handleRefundEvent demo_job_env refund_job (start_of failed_sale) = (r, s1)" "js_calls s1 \<noteq> []"
    using refund_job_asks by (metis prod.collapse)
  then show ?thesis using refunds_follow_failure [OF run(1)]
    by (auto simp: start_of_def demo_job_env_def refund_job_def demo_job_def)
qed

text \<open>A recovery of a declined charge, at a provider that answers status questions.\<close>

definition declined_answer :: status_result where
  "declined_answer = \<lparr>sr_reference = None, sr_state = PFailed, sr_amount = None, sr_currency = None, sr_final = True, sr_matches = None\<rparr>"

definition proof_env :: "worker_db job_env" where
  "proof_env = demo_job_env\<lparr>je_provider := demo_provider\<lparr>pv_status := Some (\<lambda>n r q. Some declined_answer)\<rparr>\<rparr>"

definition declined_ref :: attempt_row where
  "declined_ref = declined_row\<lparr>pa_reference := Some ''a1''\<rparr>"

definition recovery_db :: worker_db where
  "recovery_db = worker_demo D_CompletionWindow (Some 5000) B_ChargeFailedCompletion M_ChargeFailedRecovery [declined_ref]"

definition retried :: rail_participant where
  "retried = \<lparr>rl_participant = ''p1'', rl_deal = ''d1'', rl_buyer = ''b1'', rl_amount = Fin 1, rl_authorization = ''a1''\<rparr>"

text \<open>The run up to the request, which throws.\<close>

definition asked_and_thrown :: "worker_db job_env \<Rightarrow> job_event \<Rightarrow> rail_participant \<Rightarrow> worker_db job_state \<Rightarrow> bool" where
  "asked_and_thrown env event rp s =
     (case recovery_ready env event rp s of
        (Inl e, s1) \<Rightarrow> False
      | (Inr ready, s1) \<Rightarrow> (case ready of Inl hold \<Rightarrow> False | Inr u \<Rightarrow>
          (case ensureUsableAuthorizationForCapture env event RecoveryRail rp s1 of
             (Inr (GateProceed (Some a) b), s2) \<Rightarrow> a = rl_authorization rp \<and>
               (case captureParticipantOnce env event RecoveryRail rp True s2 of
                  (Inl e, s3) \<Rightarrow> list_ex (captures_for (rl_participant rp)) (map fst (js_calls s3))
                | _ \<Rightarrow> False)
           | _ \<Rightarrow> False)))"

lemma asked_runs:
  assumes "asked_and_thrown env event rp s"
  shows "\<exists>r s1 c. recover_participant env event rp s = Some (r, s1) \<and> c \<in> set (js_calls s1) \<and> captures_for (rl_participant rp) (fst c)"
proof -
  obtain u s1 b s2 e s3 where run: "recovery_ready env event rp s = (Inr (Inr u), s1)"
      "ensureUsableAuthorizationForCapture env event RecoveryRail rp s1 = (Inr (GateProceed (Some (rl_authorization rp)) b), s2)"
      "captureParticipantOnce env event RecoveryRail rp True s2 = (Inl e, s3)"
      and asked: "list_ex (captures_for (rl_participant rp)) (map fst (js_calls s3))"
    using assms unfolding asked_and_thrown_def
    by (auto split: prod.splits sum.splits authorization_gate.splits option.splits)
  have "rp\<lparr>rl_authorization := rl_authorization rp\<rparr> = rp" by simp
  then have "recover_participant env event rp s = Some (Inl e, s3)"
    using run by (simp add: recover_participant_def job_then_def) (subst rail_loop.simps, simp)
  then show ?thesis using asked by (auto simp: list_ex_iff)
qed

lemma recovery_asks: "asked_and_thrown proof_env (demo_job ''recovery_deal'') retried (start_of recovery_db)"
  unfolding asked_and_thrown_def captureParticipantOnce_def jbind_def send_capture_def by code_simp

lemma second_capture_follows_proof_witness:
  "\<exists>r s1 c. recover_participant proof_env (demo_job ''recovery_deal'') retried (start_of recovery_db) = Some (r, s1)
    \<and> c \<in> set (js_calls s1) \<and> captures_for ''p1'' (fst c)
    \<and> payment_capture_settlement_fence 100 ''p1'' ''d1'' recovery_db = None
    \<and> proves_failure (providerAmbiguityPolicy (je_provider proof_env)) True declined_answer declined_answer"
proof -
  obtain r s1 c where run: "recover_participant proof_env (demo_job ''recovery_deal'') retried (start_of recovery_db) = Some (r, s1)"
      and c: "c \<in> set (js_calls s1)" "captures_for ''p1'' (fst c)"
    using asked_runs [OF recovery_asks] by (auto simp: retried_def)
  have c1: "c \<in> set (drop (length (js_calls (start_of recovery_db))) (js_calls s1))"
      "captures_for (rl_participant retried) (fst c)"
    using c by (simp_all add: start_of_def retried_def)
  have status: "pv_status (je_provider proof_env) = Some (\<lambda>n r q. Some declined_answer)" by (simp add: proof_env_def)
  have quiet: "js_db (after_others proof_env (after_others proof_env (start_of recovery_db))) = recovery_db"
    by (simp add: after_others_def proof_env_def demo_job_env_def start_of_def)
  have reference: "preflight_reference (rl_authorization retried) (loadRows (rl_participant retried) (rl_deal retried) recovery_db) = ''a1''"
    by code_simp
  have none: "\<not> list_ex (\<lambda>r. is_result R_Unknown A_Recovery r \<or> is_result R_Success A_Recovery r) (loadRows (rl_participant retried) (rl_deal retried) recovery_db)"
    by code_simp
  have declined: "exact_decline (newest_capture (loadRows (rl_participant retried) (rl_deal retried) recovery_db))" by code_simp
  have proof1: "payment_capture_settlement_fence 100 ''p1'' ''d1'' recovery_db = None
      \<and> proves_failure (providerAmbiguityPolicy (je_provider proof_env)) True declined_answer declined_answer"
    using second_capture_follows_proof [OF run c1 status refl refl, unfolded quiet reference] none declined
    by (simp add: proof_env_def demo_job_env_def start_of_def after_others_def retried_def)
  then show ?thesis using run c by blast
qed

end
