(* ===== verification/AuthBindings.thy ===== *)
theory AuthBindings
  imports PaymentRails
begin

text \<open>
  The authorizations that back a purchase (\<open>src/payment_binding.ts\<close> with the constraints of migration
  053): an intent is recorded before the provider is asked, confirmed on the provider's word, and consumed
  by the one participant that joins with it. The columns of the current instrument of a consumed row are
  \<open>wd_auths\<close> of its participant, with the renewals on them in \<open>PaymentRails\<close>. The table is in the order of
  creation. A thrown \<open>PaymentBindingError\<close> is \<open>BodyRejected\<close> of its code.
\<close>

datatype binding_status =
    PendingProviderConfirmation | BindingAuthorized | BindingConsumed | BindingExpired | BindingReleased | BindingFailed

record binding_row =
  bd_id :: string
  bd_provider :: string
  bd_mode :: string
  bd_environment :: string
  bd_authorization :: string
  bd_reference :: string
  bd_url :: "string option"
  bd_deal :: string
  bd_buyer :: string
  bd_qty :: int
  bd_amount :: int
  bd_currency :: string
  bd_delivery_option :: "string option"
  bd_delivery_cost :: jsnum
  bd_status :: binding_status
  bd_reason :: "string option"
  bd_correlation :: string
  bd_consumed_by :: "string option"
  bd_consumed_at :: "int option"
  bd_expires :: "int option"
  bd_method :: "string option"
  bd_established :: int

record bound_db = worker_db +
  bd_rows :: "binding_row list"

section \<open>Intents\<close>

record binding_input =
  bi_provider :: string
  bi_mode :: string
  bi_environment :: string
  bi_correlation :: string
  bi_deal :: string
  bi_buyer :: string
  bi_qty :: int
  bi_amount :: int
  bi_currency :: string
  bi_delivery_option :: "string option"
  bi_delivery_cost :: jsnum

definition binding_checks :: "binding_input \<Rightarrow> bool" where
  "binding_checks input \<longleftrightarrow> 1 \<le> bi_qty input \<and> 0 < bi_amount input"

definition new_binding ::
    "int \<Rightarrow> string \<Rightarrow> binding_input \<Rightarrow> string \<Rightarrow> string \<Rightarrow> binding_status \<Rightarrow> string option \<Rightarrow> int option \<Rightarrow> string option \<Rightarrow> binding_row" where
  "new_binding now uuid input authorization reference status reason expires_at method_ref =
     \<lparr>bd_id = uuid, bd_provider = bi_provider input, bd_mode = bi_mode input, bd_environment = bi_environment input,
      bd_authorization = authorization, bd_reference = reference, bd_url = None, bd_deal = bi_deal input,
      bd_buyer = bi_buyer input, bd_qty = bi_qty input, bd_amount = bi_amount input, bd_currency = bi_currency input,
      bd_delivery_option = bi_delivery_option input, bd_delivery_cost = bi_delivery_cost input, bd_status = status,
      bd_reason = reason, bd_correlation = bi_correlation input, bd_consumed_by = None, bd_consumed_at = None,
      bd_expires = expires_at, bd_method = method_ref, bd_established = now\<rparr>"

definition binding_of :: "string \<Rightarrow> 'a bound_db_scheme \<Rightarrow> binding_row option" where
  "binding_of correlation db = find (\<lambda>b. bd_correlation b = correlation) (bd_rows db)"

definition update_bindings :: "(binding_row \<Rightarrow> bool) \<Rightarrow> (binding_row \<Rightarrow> binding_row) \<Rightarrow> 'a bound_db_scheme \<Rightarrow> 'a bound_db_scheme" where
  "update_bindings P f db = db\<lparr>bd_rows := map (\<lambda>b. if P b then f b else b) (bd_rows db)\<rparr>"

text \<open>\<open>INSERT ... ON CONFLICT (correlation_id) DO NOTHING\<close>: the checks are on the proposed row.\<close>

definition insert_binding ::
    "binding_input \<Rightarrow> binding_row \<Rightarrow> 'a bound_db_scheme \<Rightarrow> lifecycle_error + binding_row option \<times> 'a bound_db_scheme" where
  "insert_binding input row db =
     (if \<not> binding_checks input then Inl (BodyRejected ''payment_authorization_bindings_check'')
      else case binding_of (bi_correlation input) db of
          Some old \<Rightarrow> Inr (None, db)
        | None \<Rightarrow>
            if list_ex (\<lambda>b. bd_id b = bd_id row) (bd_rows db) then Inl (UniqueViolation ''payment_authorization_bindings_pkey'')
            else Inr (Some row, db\<lparr>bd_rows := bd_rows db @ [row]\<rparr>))"

definition same_intent :: "binding_input \<Rightarrow> binding_row \<Rightarrow> bool" where
  "same_intent input b \<longleftrightarrow> bd_provider b = bi_provider input \<and> bd_mode b = bi_mode input
     \<and> bd_environment b = bi_environment input \<and> bd_deal b = bi_deal input \<and> bd_buyer b = bi_buyer input
     \<and> bd_qty b = bi_qty input \<and> bd_amount b = bi_amount input \<and> bd_currency b = bi_currency input
     \<and> or_null (bd_delivery_option b) = or_null (bi_delivery_option input)
     \<and> bd_delivery_cost b = bi_delivery_cost input"

definition reserveAuthorizationCreation ::
    "int \<Rightarrow> string \<Rightarrow> binding_input \<Rightarrow> 'a bound_db_scheme \<Rightarrow> lifecycle_error + (bool \<times> binding_row) \<times> 'a bound_db_scheme" where
  "reserveAuthorizationCreation now uuid input db =
     (let placeholder = ''siton_create_pending:'' @ bi_correlation input
      in on_ok (insert_binding input (new_binding now uuid input placeholder placeholder PendingProviderConfirmation
                  (Some ''provider_create_reserved'') None None) db) (\<lambda>(inserted, db1).
           case inserted of
             Some row \<Rightarrow> Inr ((True, row), db1)
           | None \<Rightarrow>
               (case binding_of (bi_correlation input) db1 of
                  None \<Rightarrow> Inl (BodyRejected ''payment_authorization_intent_missing'')
                | Some old \<Rightarrow>
                    if same_intent input old then Inr ((False, old), db1)
                    else Inl (BodyRejected ''payment_authorization_idempotency_payload_mismatch''))))"

text \<open>The answer of the provider to the creation.\<close>

record creation_answer =
  ca_authorization :: string
  ca_reference :: string
  ca_url :: string
  ca_authorized :: bool
  ca_expires :: "int option"
  ca_method :: "string option"

definition stored_method :: "string option \<Rightarrow> string option" where
  "stored_method m = or_null (Some (take 200 (trimmed m)))"

definition completable :: "string \<Rightarrow> binding_row \<Rightarrow> bool" where
  "completable correlation b \<longleftrightarrow> bd_correlation b = correlation \<and> bd_status b = PendingProviderConfirmation
     \<and> (bd_reason b = Some ''provider_create_reserved'' \<or> bd_reason b = Some ''provider_create_outcome_unknown'')"

definition completeAuthorizationCreation ::
    "string \<Rightarrow> creation_answer \<Rightarrow> 'a bound_db_scheme \<Rightarrow> lifecycle_error + binding_row \<times> 'a bound_db_scheme" where
  "completeAuthorizationCreation correlation a db =
     (let fill = (\<lambda>b. b\<lparr>bd_authorization := ca_authorization a, bd_reference := ca_reference a, bd_url := Some (ca_url a),
            bd_status := (if ca_authorized a then BindingAuthorized else PendingProviderConfirmation),
            bd_reason := Some ''provider_create_succeeded'', bd_expires := ca_expires a, bd_method := stored_method (ca_method a)\<rparr>)
      in case find (completable correlation) (bd_rows db) of
           Some b \<Rightarrow> Inr (fill b, update_bindings (completable correlation) fill db)
         | None \<Rightarrow>
             (case binding_of correlation db of
                None \<Rightarrow> Inl (BodyRejected ''payment_authorization_intent_missing'')
              | Some b \<Rightarrow>
                  if bd_authorization b = ca_authorization a \<and> bd_reference b = ca_reference a \<and> bd_url b = Some (ca_url a)
                  then Inr (b, db)
                  else Inl (BodyRejected ''payment_authorization_intent_not_completable'')))"

definition markAuthorizationCreationOutcome ::
    "string \<Rightarrow> bool \<Rightarrow> string \<Rightarrow> 'a bound_db_scheme \<Rightarrow> binding_row option \<times> 'a bound_db_scheme" where
  "markAuthorizationCreationOutcome correlation failed reason db =
     (let cause = take 160 (if reason = '''' then ''provider_create_outcome'' else reason);
          pending = (\<lambda>b. bd_correlation b = correlation \<and> bd_status b = PendingProviderConfirmation);
          close = (\<lambda>b. if failed then b\<lparr>bd_status := BindingFailed, bd_reason := Some (''provider_create_rejected:'' @ cause)\<rparr>
            else b\<lparr>bd_reason := Some (''provider_create_outcome_unknown:'' @ cause)\<rparr>)
      in (map_option close (find pending (bd_rows db)), update_bindings pending close db))"

text \<open>A hold that the provider answered at once.\<close>

definition createBinding ::
    "int \<Rightarrow> string \<Rightarrow> binding_input \<Rightarrow> creation_answer \<Rightarrow> 'a bound_db_scheme \<Rightarrow> lifecycle_error + binding_row \<times> 'a bound_db_scheme" where
  "createBinding now uuid input a db =
     on_ok (insert_binding input (new_binding now uuid input (ca_authorization a) (ca_reference a)
          (if ca_authorized a then BindingAuthorized else PendingProviderConfirmation) None (ca_expires a) (stored_method (ca_method a))) db)
       (\<lambda>(inserted, db1).
          case inserted of
            Some row \<Rightarrow> Inr (row, db1)
          | None \<Rightarrow>
              (case binding_of (bi_correlation input) db1 of
                 None \<Rightarrow> Inl (BodyRejected ''payment_authorization_intent_missing'')
               | Some old \<Rightarrow> Inr (old, db1)))"

section \<open>Confirmation\<close>

text \<open>The authorization a row carries now: a renewal replaces it on the participant's side.\<close>

definition current_authorization :: "'a bound_db_scheme \<Rightarrow> binding_row \<Rightarrow> string" where
  "current_authorization db b =
     (case bd_consumed_by b of
        None \<Rightarrow> bd_authorization b
      | Some p \<Rightarrow> (case wd_auths db p of None \<Rightarrow> bd_authorization b | Some ab \<Rightarrow> ab_authorization ab))"

definition newest :: "(binding_row \<Rightarrow> bool) \<Rightarrow> 'a bound_db_scheme \<Rightarrow> binding_row option" where
  "newest P db = find P (rev (bd_rows db))"

text \<open>The contradiction of the amount is committed before the error is thrown.\<close>

definition confirmBindingAuthorized ::
    "string \<Rightarrow> string \<Rightarrow> int option \<Rightarrow> string option \<Rightarrow> 'a bound_db_scheme \<Rightarrow>
     (lifecycle_error + binding_row option) \<times> 'a bound_db_scheme" where
  "confirmBindingAuthorized provider authorization amount reference db =
     (case newest (\<lambda>b. bd_provider b = provider \<and> current_authorization db b = authorization) db of
        None \<Rightarrow> (Inr None, db)
      | Some b \<Rightarrow>
          if bd_status b = BindingAuthorized \<or> bd_status b = BindingConsumed then (Inr (Some b), db)
          else if bd_status b \<noteq> PendingProviderConfirmation then (Inl (BodyRejected ''payment_binding_not_confirmable''), db)
          else if \<not> (case amount of None \<Rightarrow> True | Some n \<Rightarrow> n = bd_amount b)
          then (Inl (BodyRejected ''payment_binding_amount_mismatch''),
                update_bindings (\<lambda>x. bd_id x = bd_id b) (\<lambda>x. x\<lparr>bd_status := BindingFailed, bd_reason := Some ''provider_amount_mismatch''\<rparr>) db)
          else let confirm = (\<lambda>x. x\<lparr>bd_status := BindingAuthorized, bd_reason := Some ''provider_status_confirmed'',
                     bd_reference := (case or_null reference of None \<Rightarrow> bd_reference x | Some r \<Rightarrow> r)\<rparr>)
               in (Inr (Some (confirm b)),
                   update_bindings (\<lambda>x. bd_id x = bd_id b \<and> bd_status x = PendingProviderConfirmation) confirm db))"

section \<open>Joining with an authorization\<close>

record consume_input =
  ci_deal :: string
  ci_buyer :: string
  ci_authorization :: string
  ci_participant :: string
  ci_provider :: string
  ci_mode :: string
  ci_environment :: string
  ci_qty :: int
  ci_amount :: jsnum
  ci_currency :: string

definition consume_candidate :: "consume_input \<Rightarrow> 'a bound_db_scheme \<Rightarrow> binding_row option" where
  "consume_candidate input db =
     (let P = (\<lambda>b. current_authorization db b = ci_authorization input \<and> bd_deal b = ci_deal input \<and> bd_buyer b = ci_buyer input)
      in case newest (\<lambda>b. P b \<and> bd_status b = BindingAuthorized) db of
           Some b \<Rightarrow> Some b
         | None \<Rightarrow> newest P db)"

text \<open>What the join requires of the row found, in the order of the checks.\<close>

definition consume_refusal :: "int \<Rightarrow> consume_input \<Rightarrow> binding_row \<Rightarrow> string option" where
  "consume_refusal clock input b =
     (if bd_status b = BindingConsumed then Some ''payment_authorization_already_consumed''
      else if bd_status b = PendingProviderConfirmation then Some ''payment_authorization_not_confirmed''
      else if bd_status b \<noteq> BindingAuthorized then Some ''payment_authorization_not_consumable''
      else if (case bd_expires b of None \<Rightarrow> False | Some t \<Rightarrow> t \<le> clock) then Some ''payment_authorization_expired''
      else if bd_provider b \<noteq> ci_provider input then Some ''payment_authorization_provider_mismatch''
      else if bd_mode b \<noteq> ci_mode input \<or> bd_environment b \<noteq> ci_environment input then Some ''payment_authorization_environment_mismatch''
      else if bd_qty b \<noteq> ci_qty input then Some ''payment_authorization_quantity_mismatch''
      else if Fin (of_int (bd_amount b)) \<noteq> ci_amount input then Some ''payment_authorization_amount_mismatch''
      else if bd_currency b \<noteq> ci_currency input then Some ''payment_authorization_currency_mismatch''
      else None)"

text \<open>The columns of the instrument and of the money, as the worker reads them.\<close>

definition instrument_of :: "binding_row \<Rightarrow> auth_binding" where
  "instrument_of b =
     \<lparr>ab_buyer = bd_buyer b, ab_authorization = bd_authorization b, ab_reference = Some (bd_reference b), ab_expires = bd_expires b,
      ab_method = bd_method b, ab_established = bd_established b, ab_replaced = None, ab_renewals = 0, ab_reason = Some ''join_consumed''\<rparr>"

definition consumed_row :: "int \<Rightarrow> string \<Rightarrow> binding_row \<Rightarrow> binding_row" where
  "consumed_row now p b = b\<lparr>bd_status := BindingConsumed, bd_reason := Some ''join_consumed'', bd_consumed_by := Some p, bd_consumed_at := Some now\<rparr>"

text \<open>The expiry is judged by the clock of the process, the row is stamped with the time of the transaction.\<close>

definition consumeBindingForJoinTx ::
    "int \<Rightarrow> int \<Rightarrow> consume_input \<Rightarrow> 'a bound_db_scheme \<Rightarrow> lifecycle_error + binding_row \<times> 'a bound_db_scheme" where
  "consumeBindingForJoinTx clock now input db =
     (case consume_candidate input db of
        None \<Rightarrow> Inl (BodyRejected ''payment_authorization_not_found'')
      | Some b \<Rightarrow>
          (case consume_refusal clock input b of
             Some code \<Rightarrow> Inl (BodyRejected code)
           | None \<Rightarrow>
               let p = ci_participant input
               in if bd_consumed_at b \<noteq> None then Inl (BodyRejected ''payment_authorization_already_consumed'')
                  else if list_ex (\<lambda>x. bd_consumed_by x = Some p) (bd_rows db)
                  then Inl (UniqueViolation ''ux_payment_bindings_consumed_participant'')
                  else Inr (consumed_row now p b,
                    (update_bindings (\<lambda>x. bd_id x = bd_id b \<and> bd_status x = BindingAuthorized \<and> bd_consumed_at x = None)
                       (consumed_row now p) db)
                    \<lparr>wd_auths := (wd_auths db)(p \<mapsto> instrument_of b),
                     md_bindings := (md_bindings db)(p \<mapsto> (Some (bd_amount b), Some (bd_currency b)))\<rparr>)))"

definition getBindingByCorrelation :: "string \<Rightarrow> 'a bound_db_scheme \<Rightarrow> binding_row option" where
  "getBindingByCorrelation correlation db = (if trimmed (Some correlation) = '''' then None else binding_of correlation db)"

definition getConsumedBindingForParticipant :: "string \<Rightarrow> 'a bound_db_scheme \<Rightarrow> binding_row option" where
  "getConsumedBindingForParticipant p db = find (\<lambda>b. bd_consumed_by b = Some p) (bd_rows db)"


section \<open>A creation with an unknown outcome\<close>

lemma marked_unknown:
  assumes "markAuthorizationCreationOutcome correlation False reason db = (Some b, db1)"
  shows "\<exists>cause. list_all (\<lambda>x. bd_correlation x = correlation \<and> bd_status x = PendingProviderConfirmation \<longrightarrow>
      bd_reason x = Some (''provider_create_outcome_unknown:'' @ cause)) (bd_rows db1)"
proof -
  obtain cause :: string where cause: "cause = take 160 (if reason = '''' then ''provider_create_outcome'' else reason)" by blast
  have "db1 = update_bindings (\<lambda>b. bd_correlation b = correlation \<and> bd_status b = PendingProviderConfirmation)
      (\<lambda>b. b\<lparr>bd_reason := Some (''provider_create_outcome_unknown:'' @ cause)\<rparr>) db"
    using assms unfolding markAuthorizationCreationOutcome_def Let_def cause prod.inject if_False by (elim conjE) (erule sym)
  then show ?thesis by (intro exI [of _ cause]) (simp add: update_bindings_def list.pred_map comp_def del: append.simps, simp add: list_all_iff del: append.simps, blast)
qed

lemma unknown_reason_differs: "''provider_create_outcome_unknown:'' @ cause \<noteq> ''provider_create_outcome_unknown''"
    "''provider_create_outcome_unknown:'' @ cause \<noteq> ''provider_create_reserved''"
  by simp_all

text \<open>An authorization whose creation ended unknown can never be completed: once the outcome is on record as
  unknown, an answer of the provider that names the authorization it created is refused and nothing is
  written, although completing from the unknown outcome is one of the two cases the update provides for.
  The hold the provider may have placed stays without a usable record.\<close>

theorem unknown_creation_cannot_complete:
  assumes "markAuthorizationCreationOutcome correlation False reason db = (Some b, db1)"
    and "binding_of correlation db1 = Some c" and "ca_authorization a \<noteq> bd_authorization c"
  shows "completeAuthorizationCreation correlation a db1 = Inl (BodyRejected ''payment_authorization_intent_not_completable'')"
proof -
  obtain cause where "list_all (\<lambda>x. bd_correlation x = correlation \<and> bd_status x = PendingProviderConfirmation \<longrightarrow>
      bd_reason x = Some (''provider_create_outcome_unknown:'' @ cause)) (bd_rows db1)"
    using marked_unknown [OF assms(1)] by blast
  then have "find (completable correlation) (bd_rows db1) = None"
    using unknown_reason_differs by (auto simp: find_None_iff list_all_iff completable_def)
  then show ?thesis using assms(2,3) by (simp add: completeAuthorizationCreation_def Let_def)
qed

end
