(* ===== verification/Inventory.thy ===== *)
theory Inventory
  imports Prelude
begin

text \<open>
  The stock of a deal (\<open>supabase/staging/001_siton_inventory_v1.sql\<close>, called through
  \<open>src/inventory_repository.ts\<close>): units are held for two minutes while a purchase is written, then
  committed. Each deal keeps two counters, of the units held or committed and of those committed. A call
  answers with a result or an error; what it has written stays in both cases, until its transaction ends.
  Hashes are the values they are made of, and keys come without surrounding spaces, which the functions trim. The append-only audit tables and the read-only calls are left out.
\<close>

section \<open>The tables\<close>

text \<open>A key is a text, or a purpose with the digest of its parts, which is short enough for any parts.\<close>

datatype stock_key = PlainKey string | HashedKey string "string list"

record stock_deal =
  sd_max :: int
  sd_min :: int
  sd_reserved :: int
  sd_committed :: int
  sd_open :: bool
  sd_target :: bool

datatype hold_status = Held | Committed | Released | HoldExpired

record reservation =
  rv_id :: string
  rv_deal :: string
  rv_key :: stock_key
  rv_hash :: "string option list"
  rv_qty :: int
  rv_status :: hold_status
  rv_evidence :: "string option list option"
  rv_generation :: int
  rv_expires :: int

datatype stock_request = SyncRequest string int int stock_key | CloseRequest string int stock_key

datatype stock_answer =
    StockSynced bool
  | StockClosed
  | UnitsHeld string bool
  | UnitsCommitted bool int
  | UnitsReleased hold_status

record stock_action =
  sa_request :: stock_request
  sa_answer :: "string + stock_answer"

record inventory =
  in_deals :: "string \<Rightarrow> stock_deal option"
  in_reservations :: "reservation list"
  in_actions :: "stock_action list"

text \<open>Operation, deal and key identify an action.\<close>

fun request_key :: "stock_request \<Rightarrow> bool \<times> string \<times> stock_key" where
  "request_key (SyncRequest d max_units min_units key) = (True, d, key)"
| "request_key (CloseRequest d max_units key) = (False, d, key)"

definition unit_count :: "int \<Rightarrow> bool" where
  "unit_count n \<longleftrightarrow> 1 \<le> n \<and> n \<le> 999999999"

definition key_accepted :: "stock_key \<Rightarrow> bool" where
  "key_accepted key \<longleftrightarrow> (case key of PlainKey s \<Rightarrow> s \<noteq> '''' \<and> length s \<le> 200 | HashedKey purpose parts \<Rightarrow> True)"

definition expired_hold :: "int \<Rightarrow> string \<Rightarrow> reservation \<Rightarrow> bool" where
  "expired_hold now d r \<longleftrightarrow> rv_deal r = d \<and> rv_status r = Held \<and> rv_expires r \<le> now"

definition units_of_holds :: "(reservation \<Rightarrow> bool) \<Rightarrow> reservation list \<Rightarrow> int" where
  "units_of_holds P rows = sum_list (map (\<lambda>r. if P r then rv_qty r else 0) rows)"

definition reclaim_expired :: "int \<Rightarrow> string \<Rightarrow> inventory \<Rightarrow> inventory" where
  "reclaim_expired now d stk =
     (let released = units_of_holds (expired_hold now d) (in_reservations stk)
      in stk\<lparr>in_reservations := map (\<lambda>r. if expired_hold now d r then r\<lparr>rv_status := HoldExpired\<rparr> else r) (in_reservations stk),
             in_deals := (if 0 < released
               then (in_deals stk)(d := map_option (\<lambda>v. v\<lparr>sd_reserved := max (sd_committed v) (sd_reserved v - released)\<rparr>) (in_deals stk d))
               else in_deals stk)\<rparr>)"

section \<open>Opening and closing\<close>

text \<open>The action row is written with the answer it is completed with, errors included.\<close>

definition recorded_answer :: "stock_request \<Rightarrow> (string + stock_answer) \<times> inventory \<Rightarrow> (string + stock_answer) \<times> inventory" where
  "recorded_answer request result =
     (fst result, (snd result)\<lparr>in_actions := in_actions (snd result) @ [\<lparr>sa_request = request, sa_answer = fst result\<rparr>]\<rparr>)"

definition once_per_key :: "stock_request \<Rightarrow> inventory \<Rightarrow> (string + stock_answer) \<times> inventory \<Rightarrow> (string + stock_answer) \<times> inventory" where
  "once_per_key request stk result =
     (case find (\<lambda>a. request_key (sa_request a) = request_key request) (in_actions stk) of
        Some a \<Rightarrow> if sa_request a \<noteq> request then (Inl ''idempotency_payload_mismatch'', stk) else (sa_answer a, stk)
      | None \<Rightarrow> recorded_answer request result)"

definition sync_stock :: "int \<Rightarrow> string \<Rightarrow> int \<Rightarrow> int \<Rightarrow> stock_key \<Rightarrow> inventory \<Rightarrow> (string + stock_answer) \<times> inventory" where
  "sync_stock now d max_units min_units key stk =
     (if \<not> unit_count max_units then (Inl ''invalid_max_units'', stk)
      else if \<not> key_accepted key then (Inl ''invalid_idempotency_key'', stk)
      else once_per_key (SyncRequest d max_units min_units key) stk
        (if \<not> unit_count min_units \<or> max_units < min_units then (Inl ''invalid_min_units'', stk)
         else case in_deals stk d of
             None \<Rightarrow> (Inr (StockSynced True), stk\<lparr>in_deals := (in_deals stk)(d \<mapsto>
                \<lparr>sd_max = max_units, sd_min = min_units, sd_reserved = 0, sd_committed = 0, sd_open = True, sd_target = False\<rparr>)\<rparr>)
           | Some v \<Rightarrow>
               if sd_max v \<noteq> max_units \<or> sd_min v \<noteq> min_units then (Inl ''inventory_thresholds_immutable'', stk)
               else let stk1 = reclaim_expired now d stk
                    in (Inr (StockSynced False), stk1\<lparr>in_deals := (in_deals stk1)(d := map_option (sd_open_update (\<lambda>_. True)) (in_deals stk1 d))\<rparr>)))"

definition close_stock :: "int \<Rightarrow> string \<Rightarrow> int \<Rightarrow> stock_key \<Rightarrow> inventory \<Rightarrow> (string + stock_answer) \<times> inventory" where
  "close_stock now d max_units key stk =
     (if \<not> unit_count max_units then (Inl ''invalid_max_units'', stk)
      else if \<not> key_accepted key then (Inl ''invalid_idempotency_key'', stk)
      else once_per_key (CloseRequest d max_units key) stk
        (case in_deals stk d of
           None \<Rightarrow> (Inl ''inventory_deal_not_found'', stk)
         | Some v \<Rightarrow>
             if sd_max v \<noteq> max_units then (Inl ''inventory_max_units_mismatch'', stk)
             else if list_ex (\<lambda>r. rv_deal r = d \<and> rv_status r = Held \<and> now < rv_expires r) (in_reservations stk)
             then (Inl ''inventory_holds_in_flight'', stk)
             else let stk1 = reclaim_expired now d stk
                  in (Inr StockClosed, stk1\<lparr>in_deals := (in_deals stk1)(d := map_option (sd_open_update (\<lambda>_. False)) (in_deals stk1 d))\<rparr>)))"

section \<open>Holding and committing units\<close>

definition HOLD_MS :: int where
  "HOLD_MS = 120000"

definition put_row :: "string \<Rightarrow> (reservation \<Rightarrow> reservation) \<Rightarrow> reservation list \<Rightarrow> reservation list" where
  "put_row i f rows = map (\<lambda>r. if rv_id r = i then f r else r) rows"

definition add_reserved :: "string \<Rightarrow> int \<Rightarrow> inventory \<Rightarrow> inventory" where
  "add_reserved d qty stk =
     stk\<lparr>in_deals := (in_deals stk)(d := map_option (\<lambda>v. v\<lparr>sd_reserved := sd_reserved v + qty\<rparr>) (in_deals stk d))\<rparr>"

definition hold_units ::
    "int \<Rightarrow> string \<Rightarrow> string \<Rightarrow> int \<Rightarrow> stock_key \<Rightarrow> string option list \<Rightarrow> inventory \<Rightarrow> (string + stock_answer) \<times> inventory" where
  "hold_units now uuid d qty key hash stk =
     (if \<not> unit_count qty then (Inl ''invalid_qty'', stk)
      else if \<not> key_accepted key then (Inl ''invalid_idempotency_key'', stk)
      else case in_deals stk d of
          None \<Rightarrow> (Inl ''inventory_deal_not_found'', stk)
        | Some v0 \<Rightarrow>
            if \<not> sd_open v0 then (Inl ''inventory_deal_closed'', stk)
            else let stk1 = reclaim_expired now d stk
                 in case in_deals stk1 d of
                      None \<Rightarrow> (Inl ''inventory_deal_not_found'', stk)
                    | Some v \<Rightarrow>
                        (case find (\<lambda>r. rv_deal r = d \<and> rv_key r = key) (in_reservations stk1) of
                           Some r \<Rightarrow>
                             if rv_hash r \<noteq> hash \<or> rv_qty r \<noteq> qty then (Inl ''idempotency_payload_mismatch'', stk1)
                             else if rv_status r = Held \<or> rv_status r = Committed then (Inr (UnitsHeld (rv_id r) True), stk1)
                             else if sd_max v - sd_reserved v < qty then (Inl ''inventory_exhausted'', stk1)
                             else (Inr (UnitsHeld (rv_id r) True),
                                   add_reserved d qty (stk1\<lparr>in_reservations := put_row (rv_id r) (\<lambda>x. x\<lparr>rv_status := Held,
                                     rv_generation := rv_generation x + 1, rv_expires := now + HOLD_MS\<rparr>) (in_reservations stk1)\<rparr>))
                         | None \<Rightarrow>
                             if sd_max v - sd_reserved v < qty then (Inl ''inventory_exhausted'', stk1)
                             else if list_ex (\<lambda>r. rv_id r = uuid) (in_reservations stk1) then (Inl ''inventory_reservations_pkey'', stk)
                             else (Inr (UnitsHeld uuid False),
                                   add_reserved d qty (stk1\<lparr>in_reservations := in_reservations stk1 @
                                     [\<lparr>rv_id = uuid, rv_deal = d, rv_key = key, rv_hash = hash, rv_qty = qty, rv_status = Held,
                                       rv_evidence = None, rv_generation = 1, rv_expires = now + HOLD_MS\<rparr>]\<rparr>))))"

fun status_code :: "hold_status \<Rightarrow> string" where
  "status_code Held = ''held''"
| "status_code Committed = ''committed''"
| "status_code Released = ''released''"
| "status_code HoldExpired = ''expired''"

definition commit_units :: "int \<Rightarrow> string \<Rightarrow> string option list \<Rightarrow> inventory \<Rightarrow> (string + stock_answer) \<times> inventory" where
  "commit_units now i evidence stk =
     (case find (\<lambda>r. rv_id r = i) (in_reservations stk) of
        None \<Rightarrow> (Inl ''reservation_not_found'', stk)
      | Some r0 \<Rightarrow>
          if expired_hold now (rv_deal r0) r0 then (Inl ''reservation_expired'', stk)
          else let d = rv_deal r0; stk1 = reclaim_expired now d stk
               in case (find (\<lambda>r. rv_id r = i) (in_reservations stk1), in_deals stk1 d) of
                    (Some r, Some v) \<Rightarrow>
                      if rv_status r = Committed
                      then (if rv_evidence r \<noteq> Some evidence then (Inl ''authorization_evidence_mismatch'', stk1)
                            else (Inr (UnitsCommitted False (sd_committed v)), stk1))
                      else if rv_status r \<noteq> Held then (Inl (''reservation_'' @ status_code (rv_status r)), stk1)
                      else if sd_reserved v < sd_committed v + rv_qty r then (Inl ''inventory_commit_invariant_failed'', stk)
                      else let committed = sd_committed v + rv_qty r; reached = \<not> sd_target v \<and> sd_min v \<le> committed
                           in (Inr (UnitsCommitted reached committed),
                               stk1\<lparr>in_reservations := put_row i (\<lambda>x. x\<lparr>rv_status := Committed, rv_evidence := Some evidence\<rparr>) (in_reservations stk1),
                                    in_deals := (in_deals stk1)(d \<mapsto> v\<lparr>sd_committed := committed, sd_target := sd_target v \<or> reached\<rparr>)\<rparr>)
                  | _ \<Rightarrow> (Inl ''reservation_not_found'', stk))"

definition release_units :: "int \<Rightarrow> string \<Rightarrow> inventory \<Rightarrow> (string + stock_answer) \<times> inventory" where
  "release_units now i stk =
     (case find (\<lambda>r. rv_id r = i) (in_reservations stk) of
        None \<Rightarrow> (Inl ''reservation_not_found'', stk)
      | Some r0 \<Rightarrow>
          if rv_status r0 = Committed then (Inl ''reservation_already_committed'', stk)
          else let d = rv_deal r0; stk1 = reclaim_expired now d stk
               in case find (\<lambda>r. rv_id r = i) (in_reservations stk1) of
                    None \<Rightarrow> (Inl ''reservation_not_found'', stk)
                  | Some r \<Rightarrow>
                      if rv_status r = Released \<or> rv_status r = HoldExpired then (Inr (UnitsReleased (rv_status r)), stk1)
                      else (Inr (UnitsReleased Released),
                            stk1\<lparr>in_reservations := put_row i (\<lambda>x. x\<lparr>rv_status := Released\<rparr>) (in_reservations stk1),
                                 in_deals := (in_deals stk1)(d := map_option (\<lambda>v. v\<lparr>sd_reserved :=
                                    max (sd_committed v) (sd_reserved v - rv_qty r)\<rparr>) (in_deals stk1 d))\<rparr>))"

section \<open>The counters\<close>

definition live_hold :: "string \<Rightarrow> reservation \<Rightarrow> bool" where
  "live_hold d r \<longleftrightarrow> rv_deal r = d \<and> (rv_status r = Held \<or> rv_status r = Committed)"

definition committed_hold :: "string \<Rightarrow> reservation \<Rightarrow> bool" where
  "committed_hold d r \<longleftrightarrow> rv_deal r = d \<and> rv_status r = Committed"

definition stock_row_ok :: "inventory \<Rightarrow> string \<Rightarrow> stock_deal \<Rightarrow> bool" where
  "stock_row_ok stk d v \<longleftrightarrow> 0 < sd_min v \<and> sd_min v \<le> sd_max v
     \<and> sd_reserved v = units_of_holds (live_hold d) (in_reservations stk)
     \<and> sd_committed v = units_of_holds (committed_hold d) (in_reservations stk)
     \<and> sd_reserved v \<le> sd_max v \<and> (sd_target v \<longleftrightarrow> sd_min v \<le> sd_committed v)"

definition stock_ok :: "inventory \<Rightarrow> bool" where
  "stock_ok stk \<longleftrightarrow> distinct (map rv_id (in_reservations stk))
     \<and> list_all (\<lambda>r. 0 < rv_qty r \<and> in_deals stk (rv_deal r) \<noteq> None) (in_reservations stk)
     \<and> (\<forall>d v. in_deals stk d = Some v \<longrightarrow> stock_row_ok stk d v)"


lemma units_append [simp]: "units_of_holds P (xs @ ys) = units_of_holds P xs + units_of_holds P ys"
  by (simp add: units_of_holds_def)

lemma units_Cons [simp]: "units_of_holds P (r # rows) = (if P r then rv_qty r else 0) + units_of_holds P rows"
  "units_of_holds P [] = 0"
  by (simp_all add: units_of_holds_def)

lemma units_nonneg: "list_all (\<lambda>r. 0 < rv_qty r) rows \<Longrightarrow> 0 \<le> units_of_holds P rows"
  by (induction rows) auto

lemma put_row_same: "i \<notin> rv_id ` set rows \<Longrightarrow> put_row i f rows = rows"
  by (induction rows) (auto simp: put_row_def)

lemma units_put_row:
  assumes "distinct (map rv_id rows)" and "r \<in> set rows" and "rv_id r = i"
  shows "units_of_holds P (put_row i f rows) = units_of_holds P rows + (if P (f r) then rv_qty (f r) else 0) - (if P r then rv_qty r else 0)"
  using assms
proof (induction rows)
  case (Cons x rows)
  show ?case
  proof (cases "rv_id x = i")
    case True
    then have "i \<notin> rv_id ` set rows" using Cons.prems(1) by auto
    moreover from this have "x = r" using Cons.prems(2,3) by auto
    ultimately show ?thesis using True put_row_same [of i rows f] by (simp add: put_row_def)
  next
    case False
    then show ?thesis using Cons by (auto simp: put_row_def)
  qed
qed simp

lemma units_reclaimed:
  "units_of_holds (live_hold e) (map (\<lambda>r. if expired_hold now d r then r\<lparr>rv_status := HoldExpired\<rparr> else r) rows)
     = units_of_holds (live_hold e) rows - (if e = d then units_of_holds (expired_hold now d) rows else 0)"
  "units_of_holds (committed_hold e) (map (\<lambda>r. if expired_hold now d r then r\<lparr>rv_status := HoldExpired\<rparr> else r) rows)
     = units_of_holds (committed_hold e) rows"
  by (induction rows) (auto simp: live_hold_def committed_hold_def expired_hold_def)

lemma expired_below:
  "list_all (\<lambda>r. 0 < rv_qty r) rows \<Longrightarrow>
     units_of_holds (committed_hold d) rows + units_of_holds (expired_hold now d) rows \<le> units_of_holds (live_hold d) rows"
  by (induction rows) (auto simp: live_hold_def committed_hold_def expired_hold_def)

lemma committed_below: "list_all (\<lambda>r. 0 < rv_qty r) rows \<Longrightarrow> units_of_holds (committed_hold d) rows \<le> units_of_holds (live_hold d) rows"
  by (induction rows) (auto simp: live_hold_def committed_hold_def)

lemma stock_quantities: "stock_ok stk \<Longrightarrow> list_all (\<lambda>r. 0 < rv_qty r) (in_reservations stk)"
  by (simp add: stock_ok_def list_all_iff)

lemma stock_okI:
  assumes "stock_ok stk" and "distinct (map rv_id rows)" and "list_all (\<lambda>r. 0 < rv_qty r \<and> in_deals stk (rv_deal r) \<noteq> None) rows"
    and "\<And>e. e \<noteq> d \<Longrightarrow> units_of_holds (live_hold e) rows = units_of_holds (live_hold e) (in_reservations stk)"
    and "\<And>e. e \<noteq> d \<Longrightarrow> units_of_holds (committed_hold e) rows = units_of_holds (committed_hold e) (in_reservations stk)"
    and "in_deals stk d = Some v" and "stock_row_ok (stk\<lparr>in_reservations := rows\<rparr>) d w"
  shows "stock_ok (stk\<lparr>in_reservations := rows, in_deals := (in_deals stk)(d \<mapsto> w)\<rparr>)"
proof -
  let ?new = "stk\<lparr>in_reservations := rows, in_deals := (in_deals stk)(d \<mapsto> w)\<rparr>"
  have "stock_row_ok ?new e u" if e: "in_deals ?new e = Some u" for e u
  proof (cases "e = d")
    case True
    then show ?thesis using assms(7) e by (simp add: stock_row_ok_def)
  next
    case False
    then have "stock_row_ok stk e u" using e assms(1) by (simp add: stock_ok_def)
    then show ?thesis using False assms(4,5) by (simp add: stock_row_ok_def)
  qed
  then show ?thesis using assms(2,3) by (auto simp: stock_ok_def list_all_iff)
qed

text \<open>What reclaiming does to a consistent deal.\<close>

lemma reclaim_deal:
  assumes "stock_ok stk" and "in_deals stk d = Some v"
  shows "reclaim_expired now d stk = stk\<lparr>in_reservations := map (\<lambda>r. if expired_hold now d r then r\<lparr>rv_status := HoldExpired\<rparr> else r) (in_reservations stk),
      in_deals := (in_deals stk)(d \<mapsto> v\<lparr>sd_reserved := sd_reserved v - units_of_holds (expired_hold now d) (in_reservations stk)\<rparr>)\<rparr>"
proof -
  have "sd_committed v + units_of_holds (expired_hold now d) (in_reservations stk) \<le> sd_reserved v"
    using assms expired_below [OF stock_quantities [OF assms(1)], of d now] by (simp add: stock_ok_def stock_row_ok_def)
  moreover have "0 \<le> units_of_holds (expired_hold now d) (in_reservations stk)"
    using units_nonneg [OF stock_quantities [OF assms(1)]] .
  ultimately show ?thesis using assms(2)
    by (cases stk; cases v) (auto simp: reclaim_expired_def Let_def fun_eq_iff)
qed

lemma reclaim_ok:
  assumes "stock_ok stk" and "in_deals stk d = Some v"
  shows "stock_ok (reclaim_expired now d stk)"
  unfolding reclaim_deal [OF assms]
proof (rule stock_okI [OF assms(1) _ _ _ _ assms(2)])
  let ?rows = "map (\<lambda>r. if expired_hold now d r then r\<lparr>rv_status := HoldExpired\<rparr> else r) (in_reservations stk)"
  have ids: "map rv_id ?rows = map rv_id (in_reservations stk)" by auto
  show "distinct (map rv_id ?rows)" unfolding ids using assms(1) by (simp add: stock_ok_def)
  show "list_all (\<lambda>r. 0 < rv_qty r \<and> in_deals stk (rv_deal r) \<noteq> None) ?rows" using assms(1) by (auto simp: stock_ok_def list_all_iff)
  have "stock_row_ok stk d v" using assms by (simp add: stock_ok_def)
  moreover have "0 \<le> units_of_holds (expired_hold now d) (in_reservations stk)"
    using units_nonneg [OF stock_quantities [OF assms(1)]] .
  ultimately show "stock_row_ok (stk\<lparr>in_reservations := ?rows\<rparr>) d (v\<lparr>sd_reserved := sd_reserved v - units_of_holds (expired_hold now d) (in_reservations stk)\<rparr>)"
    by (simp add: stock_row_ok_def units_reclaimed)
qed (simp_all add: units_reclaimed)


lemma other_actions_ok [simp]: "stock_ok (stk\<lparr>in_actions := a\<rparr>) = stock_ok stk"
  by (simp add: stock_ok_def stock_row_ok_def)

lemma row_ok_update [simp]:
  "stock_row_ok (stk\<lparr>in_deals := a\<rparr>) d v = stock_row_ok stk d v"
  "stock_row_ok stk d (sd_open_update f v) = stock_row_ok stk d v"
  by (simp_all add: stock_row_ok_def)

lemma open_flag_ok:
  assumes "stock_ok stk"
  shows "stock_ok (stk\<lparr>in_deals := (in_deals stk)(d := map_option (sd_open_update f) (in_deals stk d))\<rparr>)"
  using assms by (auto simp: stock_ok_def list_all_iff)

lemma new_deal_ok:
  assumes "stock_ok stk" and "in_deals stk d = None" and "0 < min_units" and "min_units \<le> max_units"
  shows "stock_ok (stk\<lparr>in_deals := (in_deals stk)(d \<mapsto>
      \<lparr>sd_max = max_units, sd_min = min_units, sd_reserved = 0, sd_committed = 0, sd_open = is_open, sd_target = False\<rparr>)\<rparr>)"
proof -
  have none: "rv_deal r \<noteq> d" if "r \<in> set (in_reservations stk)" for r
    using that assms(1,2) by (auto simp: stock_ok_def list_all_iff)
  have "units_of_holds (live_hold d) rows = 0 \<and> units_of_holds (committed_hold d) rows = 0" if "\<forall>r\<in>set rows. rv_deal r \<noteq> d" for rows
    using that by (induction rows) (auto simp: live_hold_def committed_hold_def)
  then have "stock_row_ok stk d \<lparr>sd_max = max_units, sd_min = min_units, sd_reserved = 0, sd_committed = 0, sd_open = is_open, sd_target = False\<rparr>"
    using assms(3,4) none by (simp add: stock_row_ok_def)
  then show ?thesis using assms(1) by (auto simp: stock_ok_def list_all_iff)
qed

lemma once_per_key_ok:
  assumes "stock_ok stk" and "stock_ok (snd result)"
  shows "stock_ok (snd (once_per_key request stk result))"
  using assms by (auto simp: once_per_key_def recorded_answer_def split: option.splits)

lemma sync_ok:
  assumes "stock_ok stk"
  shows "stock_ok (snd (sync_stock now d max_units min_units key stk))"
  unfolding sync_stock_def
  using assms by (auto simp: Let_def unit_count_def intro!: once_per_key_ok new_deal_ok open_flag_ok reclaim_ok split: option.splits)

lemma close_ok:
  assumes "stock_ok stk"
  shows "stock_ok (snd (close_stock now d max_units key stk))"
  unfolding close_stock_def
  using assms by (auto simp: Let_def intro!: once_per_key_ok open_flag_ok reclaim_ok split: option.splits)

text \<open>A reservation of the deal that holds or gives back its units.\<close>

lemma put_ok:
  assumes "stock_ok stk" and "in_deals stk d = Some v" and "r \<in> set (in_reservations stk)" and "rv_deal r = d"
    and "\<And>x. rv_id (f x) = rv_id x \<and> rv_deal (f x) = rv_deal x \<and> rv_qty (f x) = rv_qty x"
    and "stock_row_ok (stk\<lparr>in_reservations := put_row (rv_id r) f (in_reservations stk)\<rparr>) d w"
  shows "stock_ok (stk\<lparr>in_reservations := put_row (rv_id r) f (in_reservations stk), in_deals := (in_deals stk)(d \<mapsto> w)\<rparr>)"
proof (rule stock_okI [OF assms(1) _ _ _ _ assms(2,6)])
  let ?rows = "put_row (rv_id r) f (in_reservations stk)"
  have d: "distinct (map rv_id (in_reservations stk))" using assms(1) by (simp add: stock_ok_def)
  have ids: "map rv_id ?rows = map rv_id (in_reservations stk)" using assms(5) by (auto simp: put_row_def)
  show "distinct (map rv_id ?rows)" unfolding ids by (rule d)
  show "list_all (\<lambda>r. 0 < rv_qty r \<and> in_deals stk (rv_deal r) \<noteq> None) ?rows"
    using assms(1,5) by (auto simp: stock_ok_def list_all_iff put_row_def)
  show "units_of_holds (live_hold e) ?rows = units_of_holds (live_hold e) (in_reservations stk)" if "e \<noteq> d" for e
    using that assms(4,5) by (simp add: units_put_row [OF d assms(3) refl] live_hold_def)
  show "units_of_holds (committed_hold e) ?rows = units_of_holds (committed_hold e) (in_reservations stk)" if "e \<noteq> d" for e
    using that assms(4,5) by (simp add: units_put_row [OF d assms(3) refl] committed_hold_def)
qed

lemma put_units:
  assumes "stock_ok stk" and "r \<in> set (in_reservations stk)"
  shows "units_of_holds P (put_row (rv_id r) f (in_reservations stk))
    = units_of_holds P (in_reservations stk) + (if P (f r) then rv_qty (f r) else 0) - (if P r then rv_qty r else 0)"
  using units_put_row [OF _ assms(2) refl] assms(1) by (simp add: stock_ok_def)

lemma reclaim_kept:
  assumes "stock_ok stk" and "in_deals stk d = Some v"
  shows "\<exists>u. in_deals (reclaim_expired now d stk) d = Some u \<and> sd_max u = sd_max v \<and> sd_min u = sd_min v
    \<and> sd_open u = sd_open v \<and> sd_committed u = sd_committed v \<and> sd_target u = sd_target v"
  by (simp add: reclaim_deal [OF assms])

lemma hold_ok:
  assumes "stock_ok stk"
  shows "stock_ok (snd (hold_units now uuid d qty key hash stk))"
proof (cases "in_deals stk d")
  case (Some v0)
  let ?s = "reclaim_expired now d stk"
  note ok = reclaim_ok [OF assms Some, of now]
  obtain v where v: "in_deals ?s d = Some v" using reclaim_kept [OF assms Some] by blast
  have row: "stock_row_ok ?s d v" using ok v by (simp add: stock_ok_def)
  show ?thesis
  proof (cases "find (\<lambda>r. rv_deal r = d \<and> rv_key r = key) (in_reservations ?s)")
    case None
    have "stock_ok (add_reserved d qty (?s\<lparr>in_reservations := in_reservations ?s @ [\<lparr>rv_id = uuid, rv_deal = d, rv_key = key, rv_hash = hash,
        rv_qty = qty, rv_status = Held, rv_evidence = None, rv_generation = 1, rv_expires = now + HOLD_MS\<rparr>]\<rparr>))"
      if "qty \<le> sd_max v - sd_reserved v" "unit_count qty" "\<not> list_ex (\<lambda>r. rv_id r = uuid) (in_reservations ?s)"
    proof -
      let ?rows = "in_reservations ?s @ [\<lparr>rv_id = uuid, rv_deal = d, rv_key = key, rv_hash = hash,
        rv_qty = qty, rv_status = Held, rv_evidence = None, rv_generation = 1, rv_expires = now + HOLD_MS\<rparr>]"
      have "stock_ok (?s\<lparr>in_reservations := ?rows, in_deals := (in_deals ?s)(d \<mapsto> v\<lparr>sd_reserved := sd_reserved v + qty\<rparr>)\<rparr>)"
      proof (rule stock_okI [OF ok _ _ _ _ v])
        show "distinct (map rv_id ?rows)" using ok that(3) by (auto simp: stock_ok_def list_ex_iff)
        show "list_all (\<lambda>r. 0 < rv_qty r \<and> in_deals ?s (rv_deal r) \<noteq> None) ?rows"
          using ok that(2) v by (auto simp: stock_ok_def unit_count_def)
        show "stock_row_ok (?s\<lparr>in_reservations := ?rows\<rparr>) d (v\<lparr>sd_reserved := sd_reserved v + qty\<rparr>)"
          using row that(1) by (simp add: stock_row_ok_def live_hold_def committed_hold_def)
      qed (simp_all add: live_hold_def committed_hold_def)
      then show ?thesis using v by (simp add: add_reserved_def)
    qed
    then show ?thesis using None Some assms ok v by (simp add: hold_units_def Let_def)
  next
    case (Some r)
    then have r: "r \<in> set (in_reservations ?s)" "rv_deal r = d" using find_SomeD by fastforce+
    let ?f = "\<lambda>x. x\<lparr>rv_status := Held, rv_generation := rv_generation x + 1, rv_expires := now + HOLD_MS\<rparr>"
    have "stock_ok (add_reserved d (rv_qty r) (?s\<lparr>in_reservations := put_row (rv_id r) ?f (in_reservations ?s)\<rparr>))"
      if "rv_qty r \<le> sd_max v - sd_reserved v" "rv_status r \<noteq> Held" "rv_status r \<noteq> Committed"
    proof -
      have "stock_ok (?s\<lparr>in_reservations := put_row (rv_id r) ?f (in_reservations ?s), in_deals := (in_deals ?s)(d \<mapsto> v\<lparr>sd_reserved := sd_reserved v + rv_qty r\<rparr>)\<rparr>)"
        by (rule put_ok [OF ok v r])
          (use row that r(2) in \<open>simp_all add: stock_row_ok_def put_units [OF ok r(1)] live_hold_def committed_hold_def\<close>)
      then show ?thesis using v by (simp add: add_reserved_def)
    qed
    then show ?thesis using Some \<open>in_deals stk d = Some v0\<close> assms ok v by (auto simp: hold_units_def Let_def)
  qed
qed (simp add: hold_units_def assms)

lemma find_id:
  assumes "stock_ok stk" and "find (\<lambda>r. rv_id r = i) (in_reservations stk) = Some r"
  shows "r \<in> set (in_reservations stk) \<and> rv_id r = i \<and> (\<exists>v. in_deals stk (rv_deal r) = Some v)"
  using find_SomeD [OF assms(2)] assms(1) by (auto simp: stock_ok_def list_all_iff)

lemma reclaim_find:
  assumes "find (\<lambda>r. rv_id r = i) (in_reservations stk) = Some r"
  shows "find (\<lambda>r. rv_id r = i) (in_reservations (reclaim_expired now d stk))
    = Some (if expired_hold now d r then r\<lparr>rv_status := HoldExpired\<rparr> else r)"
proof -
  have "find (\<lambda>r. rv_id r = i) (map (\<lambda>r. if expired_hold now d r then r\<lparr>rv_status := HoldExpired\<rparr> else r) rows)
      = Some (if expired_hold now d r then r\<lparr>rv_status := HoldExpired\<rparr> else r)"
    if "find (\<lambda>r. rv_id r = i) rows = Some r" for rows
    using that by (induction rows) (auto split: if_splits)
  then show ?thesis using assms by (simp add: reclaim_expired_def Let_def)
qed

lemma commit_ok:
  assumes "stock_ok stk"
  shows "stock_ok (snd (commit_units now i evidence stk))"
proof (cases "find (\<lambda>r. rv_id r = i) (in_reservations stk)")
  case (Some r0)
  let ?d = "rv_deal r0" let ?s = "reclaim_expired now ?d stk"
  obtain v0 where v0: "in_deals stk ?d = Some v0" using find_id [OF assms Some] by blast
  note ok = reclaim_ok [OF assms v0, of now]
  obtain v where v: "in_deals ?s ?d = Some v" using reclaim_kept [OF assms v0] by blast
  have row: "stock_row_ok ?s ?d v" using ok v by (simp add: stock_ok_def)
  obtain r where r: "find (\<lambda>r. rv_id r = i) (in_reservations ?s) = Some r" "rv_deal r = ?d"
    using reclaim_find [OF Some, of now ?d] by auto
  then have mem: "r \<in> set (in_reservations ?s)" "rv_id r = i" using find_id [OF ok r(1)] by auto
  let ?f = "\<lambda>x. x\<lparr>rv_status := Committed, rv_evidence := Some evidence\<rparr>"
  have "stock_ok (?s\<lparr>in_reservations := put_row i ?f (in_reservations ?s),
      in_deals := (in_deals ?s)(?d \<mapsto> v\<lparr>sd_committed := sd_committed v + rv_qty r,
        sd_target := sd_target v \<or> (\<not> sd_target v \<and> sd_min v \<le> sd_committed v + rv_qty r)\<rparr>)\<rparr>)" if "rv_status r = Held"
    unfolding mem(2) [symmetric]
  proof (rule put_ok [OF ok v mem(1) r(2)])
    have "0 < rv_qty r" using stock_quantities [OF ok] mem(1) by (auto simp: list_all_iff)
    then show "stock_row_ok (?s\<lparr>in_reservations := put_row (rv_id r) ?f (in_reservations ?s)\<rparr>) ?d
        (v\<lparr>sd_committed := sd_committed v + rv_qty r, sd_target := sd_target v \<or> (\<not> sd_target v \<and> sd_min v \<le> sd_committed v + rv_qty r)\<rparr>)"
      using row that r(2) by (auto simp: stock_row_ok_def put_units [OF ok mem(1)] live_hold_def committed_hold_def)
  qed simp
  then show ?thesis using Some r v assms ok by (simp add: commit_units_def Let_def)
qed (simp add: commit_units_def assms)

lemma release_ok:
  assumes "stock_ok stk"
  shows "stock_ok (snd (release_units now i stk))"
proof (cases "find (\<lambda>r. rv_id r = i) (in_reservations stk)")
  case (Some r0)
  let ?d = "rv_deal r0" let ?s = "reclaim_expired now ?d stk"
  obtain v0 where v0: "in_deals stk ?d = Some v0" using find_id [OF assms Some] by blast
  note ok = reclaim_ok [OF assms v0, of now]
  obtain v where v: "in_deals ?s ?d = Some v" using reclaim_kept [OF assms v0] by blast
  have row: "stock_row_ok ?s ?d v" using ok v by (simp add: stock_ok_def)
  obtain r where r: "find (\<lambda>r. rv_id r = i) (in_reservations ?s) = Some r" "rv_deal r = ?d" "rv_status r = Committed \<longrightarrow> rv_status r0 = Committed"
    using reclaim_find [OF Some, of now ?d] by auto
  then have mem: "r \<in> set (in_reservations ?s)" "rv_id r = i" using find_id [OF ok r(1)] by auto
  let ?f = "\<lambda>x. x\<lparr>rv_status := Released\<rparr>"
  have "stock_ok (?s\<lparr>in_reservations := put_row i ?f (in_reservations ?s),
      in_deals := (in_deals ?s)(?d \<mapsto> v\<lparr>sd_reserved := max (sd_committed v) (sd_reserved v - rv_qty r)\<rparr>)\<rparr>)" if "rv_status r = Held"
    unfolding mem(2) [symmetric]
  proof (rule put_ok [OF ok v mem(1) r(2)])
    have after: "units_of_holds (live_hold ?d) (put_row (rv_id r) ?f (in_reservations ?s)) = sd_reserved v - rv_qty r"
        "units_of_holds (committed_hold ?d) (put_row (rv_id r) ?f (in_reservations ?s)) = sd_committed v"
      using row that r(2) by (simp_all add: stock_row_ok_def put_units [OF ok mem(1)] live_hold_def committed_hold_def)
    have "list_all (\<lambda>r. 0 < rv_qty r) (put_row (rv_id r) ?f (in_reservations ?s))"
      using stock_quantities [OF ok] by (auto simp: list_all_iff put_row_def)
    then have "sd_committed v \<le> sd_reserved v - rv_qty r" using committed_below [of _ ?d] after by metis
    moreover have "0 < rv_qty r" using stock_quantities [OF ok] mem(1) by (auto simp: list_all_iff)
    ultimately show "stock_row_ok (?s\<lparr>in_reservations := put_row (rv_id r) ?f (in_reservations ?s)\<rparr>) ?d
        (v\<lparr>sd_reserved := max (sd_committed v) (sd_reserved v - rv_qty r)\<rparr>)"
      using row after by (auto simp: stock_row_ok_def)
  qed simp
  then show ?thesis using Some r v assms ok by (cases "rv_status r") (auto simp: release_units_def Let_def)
qed (simp add: release_units_def assms)


section \<open>Any sequence of calls\<close>

inductive stock_run :: "inventory \<Rightarrow> inventory \<Rightarrow> bool" for start where
  stock_start: "stock_run start start"
| stock_sync: "stock_run start stk \<Longrightarrow> stock_run start (snd (sync_stock now d max_units min_units key stk))"
| stock_close: "stock_run start stk \<Longrightarrow> stock_run start (snd (close_stock now d max_units key stk))"
| stock_hold: "stock_run start stk \<Longrightarrow> stock_run start (snd (hold_units now uuid d qty key hash stk))"
| stock_commit: "stock_run start stk \<Longrightarrow> stock_run start (snd (commit_units now i evidence stk))"
| stock_release: "stock_run start stk \<Longrightarrow> stock_run start (snd (release_units now i stk))"

lemma stock_run_ok: "stock_run start stk \<Longrightarrow> stock_ok start \<Longrightarrow> stock_ok stk"
  by (induction rule: stock_run.induct) (simp_all add: sync_ok close_ok hold_ok commit_ok release_ok)

definition no_stock :: inventory where
  "no_stock = \<lparr>in_deals = (\<lambda>_. None), in_reservations = [], in_actions = []\<rparr>"

lemma no_stock_ok: "stock_ok no_stock"
  by (simp add: stock_ok_def no_stock_def)

text \<open>The units of a deal that are committed, or held and not yet expired.\<close>

definition units_taken :: "int \<Rightarrow> string \<Rightarrow> inventory \<Rightarrow> int" where
  "units_taken now d stk = units_of_holds (\<lambda>r. live_hold d r \<and> \<not> expired_hold now d r) (in_reservations stk)"

lemma live_split:
  "units_of_holds (live_hold d) rows = units_of_holds (\<lambda>r. live_hold d r \<and> \<not> expired_hold now d r) rows + units_of_holds (expired_hold now d) rows"
  by (induction rows) (auto simp: live_hold_def expired_hold_def)

lemma reclaimed_counter:
  assumes "stock_ok stk" and "in_deals stk d = Some v"
  shows "\<exists>u. in_deals (reclaim_expired now d stk) d = Some u \<and> sd_reserved u = units_taken now d stk \<and> sd_max u = sd_max v"
  using assms live_split [of d "in_reservations stk" now]
  by (simp add: reclaim_deal [OF assms] stock_ok_def stock_row_ok_def units_taken_def)

lemma reclaim_finds:
  "find (\<lambda>r. rv_deal r = d \<and> rv_key r = key) (in_reservations stk) = None \<Longrightarrow>
     find (\<lambda>r. rv_deal r = d \<and> rv_key r = key) (in_reservations (reclaim_expired now e stk)) = None"
  by (auto simp: find_None_iff reclaim_expired_def Let_def)

text \<open>The stock never sells more than it has: after any calls in any order, repeated, refused and expired ones
  included, the units of a deal that are held or committed are exactly its counter of reserved units and
  never more than its maximum, the committed ones exactly its counter of committed units, and the target
  counts as reached exactly when the committed units reach the minimum.\<close>

theorem stock_never_oversold:
  assumes "stock_run no_stock stk" and "in_deals stk d = Some v"
  shows "units_of_holds (live_hold d) (in_reservations stk) \<le> sd_max v
    \<and> sd_reserved v = units_of_holds (live_hold d) (in_reservations stk)
    \<and> sd_committed v = units_of_holds (committed_hold d) (in_reservations stk)
    \<and> (sd_target v \<longleftrightarrow> sd_min v \<le> units_of_holds (committed_hold d) (in_reservations stk))"
proof -
  have "stock_row_ok stk d v" using stock_run_ok [OF assms(1) no_stock_ok] assms(2) by (simp add: stock_ok_def)
  then show ?thesis by (simp add: stock_row_ok_def)
qed

text \<open>The two counters are as good as counting the rows: on a consistent stock a hold under a new key succeeds
  exactly when the units asked for and those committed or held and not yet expired fit into the maximum.
  So capacity that expired holds block is given back at once, and no other refusal exists.\<close>

theorem hold_counts_live_units:
  assumes "stock_ok stk" and "in_deals stk d = Some v" and "sd_open v" and "unit_count qty" and "key_accepted key"
    and "\<not> list_ex (\<lambda>r. rv_deal r = d \<and> rv_key r = key) (in_reservations stk)"
    and "\<not> list_ex (\<lambda>r. rv_id r = uuid) (in_reservations stk)"
  shows "fst (hold_units now uuid d qty key hash stk)
    = (if units_taken now d stk + qty \<le> sd_max v then Inr (UnitsHeld uuid False) else Inl ''inventory_exhausted'')"
proof -
  obtain u where u: "in_deals (reclaim_expired now d stk) d = Some u" "sd_reserved u = units_taken now d stk" "sd_max u = sd_max v"
    using reclaimed_counter [OF assms(1,2)] by blast
  have "find (\<lambda>r. rv_deal r = d \<and> rv_key r = key) (in_reservations (reclaim_expired now d stk)) = None"
    using assms(6) by (intro reclaim_finds) (simp add: find_None_iff list_ex_iff)
  moreover have "\<not> list_ex (\<lambda>r. rv_id r = uuid) (in_reservations (reclaim_expired now d stk))"
    using assms(7) by (auto simp: list_ex_iff reclaim_expired_def Let_def)
  ultimately show ?thesis using assms(2-5) u by (auto simp: hold_units_def Let_def)
qed

section \<open>A purchase takes its units\<close>

definition committed_units :: "string \<Rightarrow> inventory \<Rightarrow> int" where
  "committed_units d stk = units_of_holds (committed_hold d) (in_reservations stk)"

definition stock_maxima :: "inventory \<Rightarrow> string \<Rightarrow> int option" where
  "stock_maxima stk d = map_option sd_max (in_deals stk d)"

definition hold_keys :: "inventory \<Rightarrow> (string \<times> stock_key) set" where
  "hold_keys stk = (\<lambda>r. (rv_deal r, rv_key r)) ` set (in_reservations stk)"

lemma reclaim_frame [simp]:
  "committed_units e (reclaim_expired now d stk) = committed_units e stk"
  "stock_maxima (reclaim_expired now d stk) = stock_maxima stk"
  "hold_keys (reclaim_expired now d stk) = hold_keys stk"
  "in_actions (reclaim_expired now d stk) = in_actions stk"
proof -
  have "(\<lambda>r. (rv_deal (if expired_hold now d r then r\<lparr>rv_status := HoldExpired\<rparr> else r), rv_key (if expired_hold now d r then r\<lparr>rv_status := HoldExpired\<rparr> else r)))
      = (\<lambda>r. (rv_deal r, rv_key r))" by auto
  then show "hold_keys (reclaim_expired now d stk) = hold_keys stk"
    unfolding hold_keys_def reclaim_expired_def Let_def by (cases stk) (simp only: inventory.simps set_map image_image)
  show "stock_maxima (reclaim_expired now d stk) = stock_maxima stk"
    by (auto simp: stock_maxima_def reclaim_expired_def Let_def fun_eq_iff option.map_comp comp_def)
qed (simp_all add: committed_units_def reclaim_expired_def Let_def units_reclaimed)

lemma stock_frame [simp]:
  "committed_units e (stk\<lparr>in_actions := a\<rparr>) = committed_units e stk"
  "stock_maxima (stk\<lparr>in_actions := a\<rparr>) = stock_maxima stk"
  "hold_keys (stk\<lparr>in_actions := a\<rparr>) = hold_keys stk"
  "committed_units e (stk\<lparr>in_deals := b\<rparr>) = committed_units e stk"
  "hold_keys (stk\<lparr>in_deals := b\<rparr>) = hold_keys stk"
  "stock_maxima (stk\<lparr>in_reservations := c\<rparr>) = stock_maxima stk"
  by (simp_all add: committed_units_def stock_maxima_def hold_keys_def fun_eq_iff)

lemma maxima_open [simp]:
  "stock_maxima (stk\<lparr>in_deals := (in_deals stk)(d := map_option (sd_open_update f) (in_deals stk d))\<rparr>) = stock_maxima stk"
  by (auto simp: stock_maxima_def fun_eq_iff option.map_comp comp_def)

lemma maxima_add_reserved [simp]: "stock_maxima (add_reserved d qty stk) = stock_maxima stk"
  by (auto simp: stock_maxima_def add_reserved_def fun_eq_iff option.map_comp comp_def)

lemma sync_spec:
  assumes "sync_stock now d max_units min_units key stk = (answer, stk1)"
  shows "committed_units e stk1 = committed_units e stk \<and> hold_keys stk1 = hold_keys stk
    \<and> (stock_maxima stk1 = stock_maxima stk \<or> (stock_maxima stk d = None \<and> stock_maxima stk1 = (stock_maxima stk)(d \<mapsto> max_units)))"
proof -
  have "(\<exists>a. stk1 = stk\<lparr>in_actions := a\<rparr>)
      \<or> (\<exists>a. in_deals stk d = None \<and> stk1 = stk\<lparr>in_deals := (in_deals stk)(d \<mapsto> \<lparr>sd_max = max_units, sd_min = min_units,
          sd_reserved = 0, sd_committed = 0, sd_open = True, sd_target = False\<rparr>), in_actions := a\<rparr>)
      \<or> (\<exists>a. stk1 = (let s = reclaim_expired now d stk in s\<lparr>in_deals := (in_deals s)(d := map_option (sd_open_update (\<lambda>_. True)) (in_deals s d)), in_actions := a\<rparr>))"
    using assms
    by (cases stk) (auto simp: sync_stock_def once_per_key_def recorded_answer_def Let_def split: if_splits option.splits)
  moreover have "stock_maxima (stk\<lparr>in_deals := (in_deals stk)(d \<mapsto> v), in_actions := a\<rparr>) = (stock_maxima stk)(d \<mapsto> max_units)"
    if "sd_max v = max_units" for v a
    using that by (auto simp: stock_maxima_def)
  ultimately show ?thesis by (auto simp: Let_def) (simp_all add: stock_maxima_def)
qed

lemma close_spec:
  assumes "close_stock now d max_units key stk = (answer, stk1)"
  shows "committed_units e stk1 = committed_units e stk \<and> hold_keys stk1 = hold_keys stk \<and> stock_maxima stk1 = stock_maxima stk"
  using assms
  by (auto simp: close_stock_def once_per_key_def recorded_answer_def Let_def maxima_open split: if_splits option.splits)

lemma fresh_hold:
  assumes "stock_ok stk" and "hold_units now uuid d qty key hash stk = (Inr answer, stk1)" and "(d, key) \<notin> hold_keys stk"
  shows "\<exists>old v. answer = UnitsHeld uuid False \<and> 0 < qty \<and> stk1 = stk\<lparr>in_deals := in_deals stk1,
        in_reservations := old @ [\<lparr>rv_id = uuid, rv_deal = d, rv_key = key, rv_hash = hash, rv_qty = qty, rv_status = Held,
          rv_evidence = None, rv_generation = 1, rv_expires = now + HOLD_MS\<rparr>]\<rparr>
    \<and> uuid \<notin> rv_id ` set old \<and> units_of_holds (committed_hold e) old = committed_units e stk
    \<and> (\<lambda>r. (rv_deal r, rv_key r)) ` set old = hold_keys stk \<and> stock_maxima stk1 = stock_maxima stk \<and> in_deals stk1 d = Some v"
proof -
  let ?s = "reclaim_expired now d stk"
  obtain v0 where v0: "in_deals stk d = Some v0" using assms(2) by (auto simp: hold_units_def split: if_splits option.splits)
  obtain v where v: "in_deals ?s d = Some v" using reclaim_kept [OF assms(1) v0] by blast
  have none: "find (\<lambda>r. rv_deal r = d \<and> rv_key r = key) (in_reservations ?s) = None"
    using assms(3) by (intro reclaim_finds) (auto simp: find_None_iff hold_keys_def image_iff)
  have run: "answer = UnitsHeld uuid False" "0 < qty" "\<not> list_ex (\<lambda>r. rv_id r = uuid) (in_reservations ?s)"
      "stk1 = add_reserved d qty (?s\<lparr>in_reservations := in_reservations ?s @
        [\<lparr>rv_id = uuid, rv_deal = d, rv_key = key, rv_hash = hash, rv_qty = qty, rv_status = Held,
          rv_evidence = None, rv_generation = 1, rv_expires = now + HOLD_MS\<rparr>]\<rparr>)"
    using assms(2) v0 v none by (auto simp: hold_units_def Let_def unit_count_def split: if_splits)
  have "units_of_holds (committed_hold e) (in_reservations ?s) = committed_units e stk"
    using reclaim_frame(1) [of e now d stk] by (simp add: committed_units_def)
  moreover have "(\<lambda>r. (rv_deal r, rv_key r)) ` set (in_reservations ?s) = hold_keys stk"
    using reclaim_frame(3) [of now d stk] by (simp add: hold_keys_def)
  moreover have "stock_maxima stk1 = stock_maxima stk"
    unfolding run(4) by simp
  ultimately show ?thesis using run v
    by (intro exI [of _ "in_reservations ?s"] exI [of _ "v\<lparr>sd_reserved := sd_reserved v + qty\<rparr>"])
      (auto simp: add_reserved_def list_ex_iff reclaim_expired_def Let_def)
qed

lemma put_row_last:
  "i \<notin> rv_id ` set old \<Longrightarrow> rv_id r = i \<Longrightarrow> put_row i f (old @ [r]) = old @ [f r]"
  using put_row_same [of i old f] by (simp add: put_row_def)

lemma maxima_put: "stock_maxima (s\<lparr>in_reservations := c, in_deals := (in_deals s)(d \<mapsto> w)\<rparr>) = (stock_maxima s)(d \<mapsto> sd_max w)"
  by (simp add: stock_maxima_def fun_eq_iff)

lemma fresh_commit:
  assumes "commit_units now (rv_id r) evidence stk = (Inr answer, stk1)" and "in_reservations stk = old @ [r]"
    and "rv_id r \<notin> rv_id ` set old" and "rv_status r = Held" and "now < rv_expires r"
  shows "(\<exists>reached n. answer = UnitsCommitted reached n)
    \<and> committed_units e stk1 = units_of_holds (committed_hold e) old + (if e = rv_deal r then rv_qty r else 0)
    \<and> hold_keys stk1 = insert (rv_deal r, rv_key r) ((\<lambda>r. (rv_deal r, rv_key r)) ` set old)
    \<and> stock_maxima stk1 = stock_maxima stk"
proof -
  let ?d = "rv_deal r"
  let ?g = "\<lambda>x. if expired_hold now ?d x then x\<lparr>rv_status := HoldExpired\<rparr> else x"
  let ?s = "reclaim_expired now ?d stk"
  have live: "\<not> expired_hold now ?d r" using assms(5) by (simp add: expired_hold_def)
  have found: "find (\<lambda>x. rv_id x = rv_id r) (in_reservations stk) = Some r"
  proof -
    have "find (\<lambda>x. rv_id x = rv_id r) old = None" using assms(3) by (auto simp: find_None_iff image_iff)
    then show ?thesis by (simp add: assms(2) find_append_None)
  qed
  have rows: "in_reservations ?s = map ?g old @ [r]" using assms(2) live by (simp add: reclaim_expired_def Let_def)
  have found1: "find (\<lambda>x. rv_id x = rv_id r) (in_reservations ?s) = Some r"
    using reclaim_find [OF found, of now ?d] live by simp
  have fresh: "rv_id r \<notin> rv_id ` set (map ?g old)" using assms(3) by (auto simp: image_iff)
  obtain v where v: "in_deals ?s ?d = Some v"
    using assms(1) found found1 live by (auto simp: commit_units_def Let_def split: option.splits)
  let ?w = "v\<lparr>sd_committed := sd_committed v + rv_qty r, sd_target := sd_target v \<or> \<not> sd_target v \<and> sd_min v \<le> sd_committed v + rv_qty r\<rparr>"
  have out: "(\<exists>reached n. answer = UnitsCommitted reached n)
      \<and> stk1 = ?s\<lparr>in_reservations := map ?g old @ [r\<lparr>rv_status := Committed, rv_evidence := Some evidence\<rparr>], in_deals := (in_deals ?s)(?d \<mapsto> ?w)\<rparr>"
    using assms(1,4) found found1 live v put_row_last [OF fresh refl]
    by (auto simp: commit_units_def Let_def rows split: if_splits)
  have keys: "(\<lambda>x. (rv_deal x, rv_key x)) ` set (map ?g old) = (\<lambda>r. (rv_deal r, rv_key r)) ` set old"
    by (simp only: set_map image_image) (rule image_cong; simp)
  have "units_of_holds (committed_hold e) (map ?g old) = units_of_holds (committed_hold e) old" by (rule units_reclaimed)
  moreover have "stock_maxima (?s\<lparr>in_reservations := c, in_deals := (in_deals ?s)(?d \<mapsto> w)\<rparr>) = stock_maxima stk" if "sd_max w = sd_max v" for w c
  proof -
    have "stock_maxima ?s ?d = Some (sd_max w)" unfolding stock_maxima_def using v that by simp
    then have "(stock_maxima ?s)(?d \<mapsto> sd_max w) = stock_maxima ?s" by (rule map_upd_triv)
    moreover have "stock_maxima (?s\<lparr>in_reservations := c, in_deals := (in_deals ?s)(?d \<mapsto> w)\<rparr>) = (stock_maxima ?s)(?d \<mapsto> sd_max w)"
      by (rule maxima_put)
    ultimately show ?thesis by simp
  qed
  ultimately show ?thesis using out keys by (auto simp: committed_units_def hold_keys_def committed_hold_def)
qed

end
