(* ===== verification/DealDesk.thy ===== *)
theory DealDesk
  imports AuthBindings Inventory DealFinalize
begin

text \<open>
  How a deal gets to its charge (the handlers \<open>/deals/:id/...\<close> of \<open>src/app.ts\<close>): the seller publishes it,
  buyers join it with an authorization and a share of the stock, the seller pauses, reopens, locks the buyers
  in and starts the charge, or cancels the draft. Handlers read the deal before the transaction that
  writes, so every handler takes two databases: the one its unlocked reads saw and the one its locks see. An
  error is \<open>BodyRejected\<close> of its code. Seller sessions, the consents and the profile a publish needs and
  the buyer's one-time code are arguments with their outcome. Attribution, notifications, tracking tokens and
  legal records, which a join also writes, are not modelled but for their failure.
\<close>

section \<open>The tables\<close>

record deal_terms =
  dt_seller :: string
  dt_min :: int
  dt_max :: int
  dt_price :: jsnum
  dt_close_reason :: "string option"
  dt_published :: "int option"

record delivery_row =
  dl_id :: string
  dl_deal :: string
  dl_type :: string
  dl_cost :: jsnum

text \<open>The flags with status active.\<close>

record flag_row =
  cf_type :: string
  cf_scope :: string
  cf_id :: string
  cf_expires :: "int option"

record join_response =
  jn_participant :: string
  jn_reservation :: "string option"
  jn_option :: "string option"
  jn_delivery_cost :: jsnum
  jn_hold_total :: jsnum

record join_row =
  jw_deal :: string
  jw_buyer :: string
  jw_key :: string
  jw_hash :: "string option list"
  jw_response :: join_response

text \<open>The terms of a deal besides its state, threshold and deadline; delivery options are in their sort order.\<close>

record desk_db = bound_db +
  dk_terms :: "string \<Rightarrow> deal_terms option"
  dk_delivery :: "delivery_row list"
  dk_flags :: "flag_row list"
  dk_stock :: inventory
  dk_joins :: "join_row list"

definition isFlagActive :: "int \<Rightarrow> string \<Rightarrow> string \<Rightarrow> string \<Rightarrow> 'a desk_db_scheme \<Rightarrow> bool" where
  "isFlagActive now flag scope sid db \<longleftrightarrow>
     list_ex (\<lambda>f. cf_type f = flag \<and> (case cf_expires f of None \<Rightarrow> True | Some t \<Rightarrow> now < t)
       \<and> ((cf_scope f = ''global'' \<and> cf_id f = ''global'') \<or> (cf_scope f = scope \<and> cf_id f = sid))) (dk_flags db)"

definition paused_by_admin :: "int \<Rightarrow> string \<Rightarrow> string \<Rightarrow> string \<Rightarrow> 'a desk_db_scheme \<Rightarrow> bool" where
  "paused_by_admin now flag d seller db \<longleftrightarrow>
     isFlagActive now flag ''deal'' d db \<or> (seller \<noteq> '''' \<and> isFlagActive now flag ''seller'' seller db)"

text \<open>A seller sees only own deals; both identifiers are normalized.\<close>

definition owned_terms :: "string \<Rightarrow> string \<Rightarrow> 'a desk_db_scheme \<Rightarrow> lifecycle_error + deal_terms" where
  "owned_terms seller d db =
     (case dk_terms db d of
        None \<Rightarrow> Inl (BodyRejected ''deal not found'')
      | Some t \<Rightarrow> if dt_seller t = seller then Inr t else Inl (BodyRejected ''deal not found''))"

definition rejected_if :: "bool \<Rightarrow> string \<Rightarrow> lifecycle_error + unit" where
  "rejected_if refused code = (if refused then Inl (BodyRejected code) else Inr ())"

definition change_terms :: "string \<Rightarrow> (deal_terms \<Rightarrow> deal_terms) \<Rightarrow> 'a desk_db_scheme \<Rightarrow> 'a desk_db_scheme" where
  "change_terms d f db = db\<lparr>dk_terms := (dk_terms db)(d := map_option f (dk_terms db d))\<rparr>"

text \<open>A call of the stock in a transaction: an error is thrown, with the code the caller gives it.\<close>

definition stock_call ::
    "(inventory \<Rightarrow> (string + stock_answer) \<times> inventory) \<Rightarrow> 'a desk_db_scheme \<Rightarrow> lifecycle_error + stock_answer \<times> 'a desk_db_scheme" where
  "stock_call f db =
     (case f (dk_stock db) of
        (Inl code, stk) \<Rightarrow> Inl (BodyRejected (if code = ''inventory_exhausted'' then ''max_units_exceeded'' else code))
      | (Inr answer, stk) \<Rightarrow> Inr (answer, db\<lparr>dk_stock := stk\<rparr>))"

section \<open>Publishing and cancelling\<close>

text \<open>\<open>Math.ceil(0.9 * minUnits)\<close> in double precision.\<close>

definition publish_threshold :: "int \<Rightarrow> int" where
  "publish_threshold min_units =
     (case js_ceil (js_mul (js_of_rat (9 / 10)) (Fin (of_int min_units))) of Fin q \<Rightarrow> \<lfloor>q\<rfloor> | _ \<Rightarrow> 0)"

definition deal_transition_args ::
    "string \<Rightarrow> deal_state \<Rightarrow> deal_state \<Rightarrow> string \<Rightarrow> string \<Rightarrow> string \<Rightarrow> outbox_insert option \<Rightarrow>
     ('db \<Rightarrow> lifecycle_error + 'db) option \<Rightarrow> bool \<Rightarrow> string \<Rightarrow> 'db multi_args" where
  "deal_transition_args d f t action request key outbox body serialize uuid =
     \<lparr>ma_action = action, ma_request = request, ma_correlation = None, ma_entity = Deal, ma_entityId = d, ma_key = key,
      ma_ops = (\<lambda>_. Inr [single_op d (Some d) (DealStep f t) '''']), ma_outbox = outbox, ma_response = '''',
      ma_insideTx = body, ma_serialize = serialize, ma_uuid = uuid, ma_flag = None\<rparr>"

definition desk_job :: "string \<Rightarrow> string \<Rightarrow> int option \<Rightarrow> outbox_insert" where
  "desk_job event_type d available_at =
     \<lparr>oi_event_type = event_type, oi_aggregate_type = ''deal'', oi_aggregate_id = d, oi_payload = payload_text [Some d],
      oi_available_at = available_at\<rparr>"

definition set_published :: "int \<Rightarrow> string \<Rightarrow> 'a desk_db_scheme \<Rightarrow> lifecycle_error + 'a desk_db_scheme" where
  "set_published now d db =
     (case dk_terms db d of
        None \<Rightarrow> Inl (BodyRejected ''deal not found'')
      | Some t \<Rightarrow> Inr ((change_terms d (dt_published_update (\<lambda>_. Some now)) db)
          \<lparr>wd_threshold := (wd_threshold db)(d := publish_threshold (dt_min t))\<rparr>))"

definition publish_call_args :: "string \<Rightarrow> string \<Rightarrow> string \<Rightarrow> int option \<Rightarrow> int \<Rightarrow> string \<Rightarrow> 'a desk_db_scheme multi_args" where
  "publish_call_args d request key deadline now uuid =
     deal_transition_args d D_Draft D_PendingTarget ''deal.publish'' request key
       (Some (desk_job ''deadline_check'' d deadline)) (Some (set_published now d)) True uuid"

text \<open>\<open>consents\<close> is what the consents given say, \<open>ready\<close> what the profile and the pickup locations say.\<close>

definition publishDeal ::
    "string \<Rightarrow> lifecycle_error + unit \<Rightarrow> lifecycle_error + unit \<Rightarrow> string \<Rightarrow> string \<Rightarrow> string \<Rightarrow> string \<Rightarrow> int \<Rightarrow>
     'a desk_db_scheme \<Rightarrow> 'a desk_db_scheme \<Rightarrow> lifecycle_error + 'a desk_db_scheme outcome" where
  "publishDeal seller consents ready d request key uuid now seen db =
     on_ok consents (\<lambda>_.
     on_ok (owned_terms seller d seen) (\<lambda>_.
     on_ok ready (\<lambda>_.
       atomicMultiTransition (publish_call_args d request key (wd_deadline seen d) now uuid) now db)))"

definition cancel_call_args :: "string \<Rightarrow> string \<Rightarrow> string \<Rightarrow> string \<Rightarrow> 'a desk_db_scheme multi_args" where
  "cancel_call_args d request key uuid =
     deal_transition_args d D_Draft D_Cancelled ''deal.cancel'' request key (Some (desk_job ''cancel_refund'' d None)) None True uuid"

definition cancelDeal ::
    "string \<Rightarrow> string \<Rightarrow> string \<Rightarrow> string \<Rightarrow> string \<Rightarrow> int \<Rightarrow> 'a desk_db_scheme \<Rightarrow> 'a desk_db_scheme \<Rightarrow>
     lifecycle_error + 'a desk_db_scheme outcome" where
  "cancelDeal seller d request key uuid now seen db =
     on_ok (owned_terms seller d seen) (\<lambda>_. atomicMultiTransition (cancel_call_args d request key uuid) now db)"

section \<open>Pausing and reopening\<close>

text \<open>A deal without a deadline reads as past it, as \<open>new Date(null)\<close> is the epoch.\<close>

definition closed_body :: "bool \<Rightarrow> string \<Rightarrow> int \<Rightarrow> int \<Rightarrow> string \<Rightarrow> int \<Rightarrow> 'a desk_db_scheme \<Rightarrow> lifecycle_error + 'a desk_db_scheme" where
  "closed_body canonical d max_units threshold key now db =
     (let db1 = change_terms d (dt_close_reason_update (\<lambda>_. Some ''manual'')) db
      in if \<not> canonical then Inr db1
         else on_ok (stock_call (sync_stock now d max_units threshold (PlainKey (take 200 (''close-sync:'' @ d @ '':'' @ key)))) db1) (\<lambda>(_, db2).
              on_ok (stock_call (close_stock now d max_units (HashedKey ''close'' [d, key])) db2) (\<lambda>(_, db3). Inr db3)))"

definition close_args ::
    "bool \<Rightarrow> string \<Rightarrow> deal_state \<Rightarrow> int \<Rightarrow> int \<Rightarrow> string \<Rightarrow> string \<Rightarrow> int \<Rightarrow> 'a desk_db_scheme multi_args" where
  "close_args canonical d state max_units threshold request key now =
     deal_transition_args d state D_ClosedForJoining ''deal.close_joining'' request
       (key @ '':'' @ (if state = D_PendingTarget then ''PendingTarget'' else ''TargetReached'')) None
       (Some (closed_body canonical d max_units threshold key now)) False ''''"

text \<open>\<open>None\<close> is the answer that the deal is already paused.\<close>

definition closeJoining ::
    "bool \<Rightarrow> string \<Rightarrow> string \<Rightarrow> string \<Rightarrow> string \<Rightarrow> int \<Rightarrow> 'a desk_db_scheme \<Rightarrow> 'a desk_db_scheme \<Rightarrow>
     lifecycle_error + 'a desk_db_scheme outcome option" where
  "closeJoining canonical seller d request key now seen db =
     on_ok (owned_terms seller d seen) (\<lambda>terms.
       case ld_deals seen d of
         None \<Rightarrow> Inl (BodyRejected ''deal not found'')
       | Some state \<Rightarrow>
           if state = D_ClosedForJoining then Inr None
           else if state \<noteq> D_PendingTarget \<and> state \<noteq> D_TargetReached then Inl (BodyRejected ''deal_not_open_for_joining'')
           else on_ok (atomicMultiTransition (close_args canonical d state (dt_max terms) (wd_threshold seen d) request key now) now db)
                  (\<lambda>out. Inr (Some out)))"

definition reopened_body ::
    "bool \<Rightarrow> string \<Rightarrow> int \<Rightarrow> int \<Rightarrow> int option \<Rightarrow> string \<Rightarrow> string \<Rightarrow> int \<Rightarrow> 'a desk_db_scheme \<Rightarrow> lifecycle_error + 'a desk_db_scheme" where
  "reopened_body canonical d max_units threshold deadline key uuid now db =
     (let db1 = change_terms d (dt_close_reason_update (\<lambda>_. None)) db;
          pending = list_ex (\<lambda>r. ob_event_type r = ''deadline_check'' \<and> ob_aggregate_type r = ''deal'' \<and> ob_aggregate_id r = d
            \<and> ob_status r = Pending) (odb_events (ld_outbox db1));
          db2 = (if pending then db1
            else snd (enqueue_once (pending_job uuid ''deadline_check'' ''deal'' d (payload_text [Some d])
                   (case deadline of None \<Rightarrow> 0 | Some t \<Rightarrow> t)) db1))
      in if \<not> canonical then Inr db2
         else on_ok (stock_call (sync_stock now d max_units threshold (PlainKey (take 200 (''reopen-sync:'' @ d @ '':'' @ key)))) db2) (\<lambda>(_, db3). Inr db3))"

definition reopen_args ::
    "bool \<Rightarrow> string \<Rightarrow> deal_state \<Rightarrow> int \<Rightarrow> int \<Rightarrow> int option \<Rightarrow> string \<Rightarrow> string \<Rightarrow> string \<Rightarrow> int \<Rightarrow> 'a desk_db_scheme multi_args" where
  "reopen_args canonical d target max_units threshold deadline request key uuid now =
     deal_transition_args d D_ClosedForJoining target ''deal.reopen_joining'' request key None
       (Some (reopened_body canonical d max_units threshold deadline key uuid now)) False ''''"

definition reopenJoining ::
    "bool \<Rightarrow> string \<Rightarrow> string \<Rightarrow> string \<Rightarrow> string \<Rightarrow> string \<Rightarrow> int \<Rightarrow> 'a desk_db_scheme \<Rightarrow> 'a desk_db_scheme \<Rightarrow>
     lifecycle_error + 'a desk_db_scheme outcome" where
  "reopenJoining canonical seller d request key uuid now seen db =
     on_ok (owned_terms seller d seen) (\<lambda>terms.
     on_ok (rejected_if (ld_deals seen d \<noteq> Some D_ClosedForJoining) ''deal_not_paused'') (\<lambda>_.
     on_ok (rejected_if (dt_close_reason terms \<noteq> Some ''manual'') ''deal_reopen_not_allowed'') (\<lambda>_.
     on_ok (rejected_if (case wd_deadline seen d of None \<Rightarrow> True | Some t \<Rightarrow> t \<le> now) ''deal_reopen_deadline_passed'') (\<lambda>_.
     on_ok (rejected_if (of_int (dt_max terms) \<le> sumJoinedUnits d seen) ''deal_reopen_capacity_full'') (\<lambda>_.
       atomicMultiTransition (reopen_args canonical d
           (if of_int (wd_threshold seen d) \<le> sumJoinedUnits d seen then D_TargetReached else D_PendingTarget)
           (dt_max terms) (wd_threshold seen d) (wd_deadline seen d) request key uuid now) now db)))))"

section \<open>Locking in and starting the charge\<close>

definition lock_steps :: "string \<Rightarrow> buyer_state \<Rightarrow> buyer_state \<Rightarrow> money_state \<Rightarrow> money_state \<Rightarrow> 'a worker_db_scheme \<Rightarrow> string \<Rightarrow> transition_op list" where
  "lock_steps d bf bt mf mt db p =
     (if in_states p d (\<lambda>b m. b = bf) db then [single_op p (Some d) (BuyerStep bf bt) ''''] else [])
     @ (if in_states p d (\<lambda>b m. m = mf) db then [single_op p (Some d) (MoneyStep mf mt) ''''] else [])"

definition lockable_units :: "string \<Rightarrow> 'a worker_db_scheme \<Rightarrow> rat" where
  "lockable_units d db =
     sum_units (filter (\<lambda>p. in_states p d (\<lambda>b m. b = B_JoinedAuthorized \<and> m = M_AuthHeld) db) (members_of d db)) db"

definition prepare_ops :: "string \<Rightarrow> 'a desk_db_scheme \<Rightarrow> lifecycle_error + transition_op list" where
  "prepare_ops d db =
     (case ld_deals db d of
        None \<Rightarrow> Inl (BodyRejected ''deal not found'')
      | Some state \<Rightarrow>
          if state \<noteq> D_ClosedForJoining then Inl (BodyRejected ''deal is not closed for joining'')
          else if lockable_units d db < of_int (wd_threshold db d) then Inl (BodyRejected ''threshold_not_reached'')
          else Inr (single_op d (Some d) (DealStep D_ClosedForJoining D_ReadyForCharging) ''''
                 # concat (map (lock_steps d B_JoinedAuthorized B_LockedIn M_AuthHeld M_AuthLocked db) (members_of d db))))"

definition batch_args :: "string \<Rightarrow> string \<Rightarrow> string \<Rightarrow> string \<Rightarrow> ('db \<Rightarrow> lifecycle_error + transition_op list) \<Rightarrow> outbox_insert option \<Rightarrow> string \<Rightarrow> 'db multi_args" where
  "batch_args d action request key ops outbox uuid =
     \<lparr>ma_action = action, ma_request = request, ma_correlation = None, ma_entity = Deal, ma_entityId = d, ma_key = key,
      ma_ops = ops, ma_outbox = outbox, ma_response = '''', ma_insideTx = None, ma_serialize = False, ma_uuid = uuid, ma_flag = None\<rparr>"

definition prepareCharging ::
    "string \<Rightarrow> string \<Rightarrow> string \<Rightarrow> string \<Rightarrow> int \<Rightarrow> 'a desk_db_scheme \<Rightarrow> 'a desk_db_scheme \<Rightarrow> lifecycle_error + 'a desk_db_scheme outcome" where
  "prepareCharging seller d request key now seen db =
     on_ok (owned_terms seller d seen) (\<lambda>_.
       atomicMultiTransition (batch_args d ''deal.prepare_charging'' request key (prepare_ops d) None '''') now db)"

definition start_ops :: "int \<Rightarrow> string \<Rightarrow> 'a desk_db_scheme \<Rightarrow> lifecycle_error + transition_op list" where
  "start_ops now d db =
     (case (ld_deals db d, dk_terms db d) of
        (Some state, Some terms) \<Rightarrow>
          if state \<noteq> D_ReadyForCharging then Inl (BodyRejected ''deal is not ready for charging'')
          else if paused_by_admin now ''pause_charging_emergency'' d (dt_seller terms) db then Inl (BodyRejected ''charging_paused_by_admin'')
          else Inr (single_op d (Some d) (DealStep D_ReadyForCharging D_Charging) ''''
                 # concat (map (lock_steps d B_LockedIn B_ChargingAttempt M_AuthLocked M_ChargeAttempt db) (members_of d db)))
      | _ \<Rightarrow> Inl (BodyRejected ''deal not found''))"

definition startCharging ::
    "string \<Rightarrow> string \<Rightarrow> string \<Rightarrow> string \<Rightarrow> string \<Rightarrow> int \<Rightarrow> 'a desk_db_scheme \<Rightarrow> 'a desk_db_scheme \<Rightarrow> lifecycle_error + 'a desk_db_scheme outcome" where
  "startCharging seller d request key uuid now seen db =
     on_ok (owned_terms seller d seen) (\<lambda>_.
       atomicMultiTransition (batch_args d ''charging.start'' request key (start_ops now d) (Some (desk_job ''charge_deal'' d None)) uuid) now db)"

section \<open>Joining\<close>

text \<open>
  What the runtime is set to, and what a request asks for; texts are trimmed and an absent text is empty.
  \<open>ji_proof\<close> is the outcome of the one-time code where the policy requires one, \<open>ji_aside\<close> what the writes
  outside the model throw.
\<close>

record join_env =
  jv_provider :: string
  jv_mode :: string
  jv_environment :: string
  jv_enforcement :: string
  jv_canonical :: bool

record join_input =
  ji_deal :: string
  ji_buyer :: string
  ji_qty :: jsval
  ji_authorization :: string
  ji_authorization_provider :: string
  ji_authorization_correlation :: string
  ji_option :: string
  ji_name :: string
  ji_email :: string
  ji_address :: string
  ji_city :: string
  ji_notes :: string
  ji_affiliate :: string
  ji_source :: string
  ji_session :: string
  ji_method :: string
  ji_disclosure :: bool
  ji_proof :: "lifecycle_error + unit"
  ji_aside :: "lifecycle_error + unit"
  ji_request :: string
  ji_correlation :: string
  ji_key :: string

text \<open>The identifiers the database draws, and the clock when the deal is read, the authorization is read and the deal row is locked.\<close>

record join_draws =
  jd_participant :: string
  jd_reservation :: string
  jd_seen_at :: int
  jd_binding_at :: int
  jd_locked_at :: int
  jd_job :: string

definition paymentBindingEnforcementStrict :: "join_env \<Rightarrow> bool" where
  "paymentBindingEnforcementStrict v \<longleftrightarrow> jv_enforcement v = ''strict'' \<or> jv_mode v \<noteq> ''mock-backed''"

definition parsePositiveIntegerQuantity :: "jsval \<Rightarrow> lifecycle_error + int" where
  "parsePositiveIntegerQuantity v =
     (case v of
        JUndef \<Rightarrow> Inr 1
      | JNull \<Rightarrow> Inr 1
      | JNum n \<Rightarrow>
          (case n of
             Fin q \<Rightarrow> if is_integer n \<and> 1 \<le> q then Inr \<lfloor>q\<rfloor> else Inl (BodyRejected ''invalid_qty'')
           | _ \<Rightarrow> Inl (BodyRejected ''invalid_qty''))
      | _ \<Rightarrow> Inl (BodyRejected ''invalid_qty''))"

definition join_quantity :: "join_input \<Rightarrow> lifecycle_error + int" where
  "join_quantity i =
     on_ok (rejected_if (\<not> List.member ['''', ''credit_card'', ''bit''] (ji_method i)) ''payment_method_invalid'') (\<lambda>_.
     on_ok (rejected_if (200 < length (ji_notes i)) ''delivery_notes_too_long'') (\<lambda>_.
     on_ok (parsePositiveIntegerQuantity (ji_qty i)) (\<lambda>qty.
     on_ok (rejected_if (ji_buyer i = '''') ''buyer_id required'') (\<lambda>_.
     on_ok (rejected_if (\<not> ji_disclosure i) ''payment_disclosure_required'') (\<lambda>_.
     on_ok (ji_proof i) (\<lambda>_. Inr qty))))))"

definition hashJoinRequestPayload :: "join_input \<Rightarrow> int \<Rightarrow> string option list" where
  "hashJoinRequestPayload i qty =
     [Some (ji_deal i), Some (ji_buyer i), Some (nat_text (nat qty)), or_null (Some (ji_authorization i)),
      or_null (Some (ji_authorization_provider i)), or_null (Some (ji_authorization_correlation i)), or_null (Some (ji_option i)),
      or_null (Some (ji_name i)), or_null (Some (ji_email i)), or_null (Some (ji_address i)), or_null (Some (ji_city i)),
      or_null (Some (ji_notes i)), Some (take 120 (ji_affiliate i)), Some (ji_source i), or_null (Some (ji_session i)),
      or_null (Some (ji_method i))]"

definition evidence_of :: "join_input \<Rightarrow> string option list" where
  "evidence_of i =
     [Some (ji_deal i), Some (ji_buyer i)]
     @ (if ji_authorization i = '''' then [Some ''mock_success'']
        else [Some ''provider_authorized'', Some (ji_authorization i),
              text_or (Some (ji_authorization_provider i)) (Some ''unknown''), or_null (Some (ji_authorization_correlation i))])"

text \<open>The deadline is judged by the clock, the flags by the time of the transaction.\<close>

definition open_for_joining :: "int \<Rightarrow> int \<Rightarrow> string \<Rightarrow> string \<Rightarrow> 'a desk_db_scheme \<Rightarrow> lifecycle_error + deal_state" where
  "open_for_joining clock now d seller db =
     (case ld_deals db d of
        None \<Rightarrow> Inl (BodyRejected ''deal not found'')
      | Some state \<Rightarrow>
          on_ok (rejected_if (state \<noteq> D_PendingTarget \<and> state \<noteq> D_TargetReached) ''deal is not open for joining'') (\<lambda>_.
          on_ok (rejected_if (case wd_deadline db d of None \<Rightarrow> False | Some t \<Rightarrow> t \<le> clock) ''deal_deadline_passed'') (\<lambda>_.
          on_ok (rejected_if (paused_by_admin now ''pause_joining_emergency'' d seller db) ''joining_paused_by_admin'') (\<lambda>_.
            Inr state))))"

definition selected_delivery :: "join_input \<Rightarrow> 'a desk_db_scheme \<Rightarrow> lifecycle_error + delivery_row option" where
  "selected_delivery i db =
     (let row = find (\<lambda>r. dl_deal r = ji_deal i \<and> (ji_option i = '''' \<or> dl_id r = ji_option i)) (dk_delivery db)
      in on_ok (rejected_if (ji_option i \<noteq> '''' \<and> row = None) ''invalid_delivery_option'') (\<lambda>_.
         on_ok (rejected_if ((case row of None \<Rightarrow> False | Some r \<Rightarrow> dl_type r = ''delivery'') \<and> ji_address i = '''') ''delivery_address_required'') (\<lambda>_.
           Inr row)))"

definition delivery_cost_of :: "delivery_row option \<Rightarrow> jsnum" where
  "delivery_cost_of row = (case row of None \<Rightarrow> Fin 0 | Some r \<Rightarrow> dl_cost r)"

text \<open>The participant before the join, with the quantity and the prices the charge will use.\<close>

definition insert_participant ::
    "string \<Rightarrow> join_input \<Rightarrow> int \<Rightarrow> deal_terms \<Rightarrow> delivery_row option \<Rightarrow> 'a desk_db_scheme \<Rightarrow> lifecycle_error + 'a desk_db_scheme" where
  "insert_participant p i qty terms choice db =
     (if ld_participants db p \<noteq> None \<or> List.member (wd_ids db) p then Inl (UniqueViolation ''participants_pkey'')
      else if 1000 < qty then Inl (BodyRejected ''participants_qty_check'')
      else if js_lt (delivery_cost_of choice) (Fin 0) then Inl (BodyRejected ''participants_delivery_cost_non_negative'')
      else Inr (db\<lparr>ld_participants := (ld_participants db)(p \<mapsto> \<lparr>pt_deal = ji_deal i, pt_buyer = B_NotJoined, pt_money = M_NoFinancial\<rparr>),
             wd_ids := wd_ids db @ [p], wd_buyer := (wd_buyer db)(p := ji_buyer i),
             md_fees := (md_fees db)\<lparr>fd_participants := (fd_participants (md_fees db))(p \<mapsto>
               \<lparr>cr_deal = ji_deal i, cr_seller = dt_seller terms, cr_qty = Fin (of_int qty), cr_price = dt_price terms,
                cr_delivery = delivery_cost_of choice\<rparr>)\<rparr>\<rparr>))"

text \<open>Only a mock-backed runtime without strict enforcement joins with an authorization nobody recorded.\<close>

definition consume_authorization ::
    "join_env \<Rightarrow> int \<Rightarrow> int \<Rightarrow> string \<Rightarrow> join_input \<Rightarrow> int \<Rightarrow> jsnum \<Rightarrow> 'a desk_db_scheme \<Rightarrow> lifecycle_error + 'a desk_db_scheme" where
  "consume_authorization v clock now p i qty amount db =
     (if ji_authorization i = '''' then Inr db
      else case consumeBindingForJoinTx clock now
             \<lparr>ci_deal = ji_deal i, ci_buyer = ji_buyer i, ci_authorization = ji_authorization i, ci_participant = p,
              ci_provider = jv_provider v, ci_mode = jv_mode v, ci_environment = jv_environment v, ci_qty = qty,
              ci_amount = amount, ci_currency = ''ILS''\<rparr> db of
          Inr (row, db1) \<Rightarrow> Inr db1
        | Inl e \<Rightarrow>
            if \<not> paymentBindingEnforcementStrict v \<and> e = BodyRejected ''payment_authorization_not_found'' then Inr db else Inl e)"

text \<open>The stock of the deal, or without it the sum of the other participants; whether the join reached the target.\<close>

definition take_units ::
    "join_env \<Rightarrow> int \<Rightarrow> join_draws \<Rightarrow> join_input \<Rightarrow> int \<Rightarrow> int \<Rightarrow> int \<Rightarrow> 'a desk_db_scheme \<Rightarrow>
     lifecycle_error + (string option \<times> bool) \<times> 'a desk_db_scheme" where
  "take_units v now draws i qty max_units threshold db =
     (let d = ji_deal i; p = jd_participant draws
      in if jv_canonical v
         then on_ok (stock_call (sync_stock now d max_units threshold (PlainKey (''runtime-sync:'' @ d))) db) (\<lambda>(_, db1).
              on_ok (stock_call (hold_units now (jd_reservation draws) d qty (HashedKey ''join'' [d, ji_buyer i, ji_key i])
                       (hashJoinRequestPayload i qty)) db1) (\<lambda>(answer, db2).
                case answer of
                  UnitsHeld r replay \<Rightarrow>
                    on_ok (stock_call (commit_units now r (evidence_of i)) db2) (\<lambda>(committed, db3).
                      case committed of UnitsCommitted reached units \<Rightarrow> Inr ((Some r, reached), db3)
                      | _ \<Rightarrow> Inl (BodyRejected ''inventory_operation_failed''))
                | _ \<Rightarrow> Inl (BodyRejected ''inventory_operation_failed'')))
         else on_ok (rejected_if (of_int max_units - sum_units (filter (\<lambda>q. q \<noteq> p \<and> in_states q d (\<lambda>b m. b \<noteq> B_DealFailed \<and> b \<noteq> B_Dropped) db)
                       (members_of d db)) db < of_int qty) ''max_units_exceeded'') (\<lambda>_. Inr ((None, False), db)))"

text \<open>The audit rows of a join; of their payload the authorization and its provider are kept.\<close>

definition join_audit :: "join_input \<Rightarrow> string \<Rightarrow> state_change \<Rightarrow> string \<Rightarrow> string \<Rightarrow> audit_row" where
  "join_audit i eid change action key =
     \<lparr>al_entityId = eid, al_dealId = Some (ji_deal i), al_change = change, al_action = action, al_request = ji_request i,
      al_correlation = ji_correlation i, al_key = key,
      al_payload = payload_text [or_null (Some (ji_authorization i)), or_null (Some (ji_authorization_provider i))]\<rparr>"

definition join_ops :: "string \<Rightarrow> string \<Rightarrow> transition_op list" where
  "join_ops d p =
     [single_op p (Some d) (BuyerStep B_NotJoined B_JoinedAuthorized) '''', single_op p (Some d) (MoneyStep M_NoFinancial M_AuthHeld) '''']"

definition admit :: "join_input \<Rightarrow> string \<Rightarrow> 'a desk_db_scheme \<Rightarrow> 'a desk_db_scheme \<Rightarrow> lifecycle_error + 'a desk_db_scheme" where
  "admit i p db0 db =
     swap_all db0 False ''participant.join_authorize'' (join_ops (ji_deal i) p)
       (db\<lparr>ld_audit := ld_audit db @ map (\<lambda>op. join_audit i p (op_change op) ''participant.join_authorize'' (ji_key i)) (join_ops (ji_deal i) p)\<rparr>)"

definition reach_target :: "join_input \<Rightarrow> bool \<Rightarrow> 'a desk_db_scheme \<Rightarrow> 'a desk_db_scheme \<Rightarrow> lifecycle_error + 'a desk_db_scheme" where
  "reach_target i reached db0 db =
     (if \<not> reached then Inr db
      else let d = ji_deal i; change = DealStep D_PendingTarget D_TargetReached
           in swap_state db0 False ''deal.target_reached'' (single_op d (Some d) change '''')
                (db\<lparr>ld_audit := ld_audit db @ [join_audit i d change ''deal.target_reached'' (''target-reached:'' @ d)]\<rparr>))"

definition record_join :: "join_input \<Rightarrow> string option list \<Rightarrow> string \<Rightarrow> join_response \<Rightarrow> 'a desk_db_scheme \<Rightarrow> lifecycle_error + 'a desk_db_scheme" where
  "record_join i hash p response db =
     (let log = \<lparr>il_entity = Participant, il_entityId = p, il_action = ''participant.join_authorize'', il_key = ji_key i, il_response = p\<rparr>
      in if list_ex (\<lambda>r. il_entity r = il_entity log \<and> il_entityId r = p \<and> il_action r = il_action log \<and> il_key r = il_key log) (ld_idempotency db)
         then Inl (UniqueViolation ''idempotency_log'')
         else Inr (db\<lparr>dk_joins := dk_joins db @ [\<lparr>jw_deal = ji_deal i, jw_buyer = ji_buyer i, jw_key = ji_key i, jw_hash = hash, jw_response = response\<rparr>],
                ld_idempotency := ld_idempotency db @ [log]\<rparr>))"

text \<open>The writes of a join; the terms, the delivery option and the threshold are those read before the lock.\<close>

definition join_writes ::
    "join_env \<Rightarrow> int \<Rightarrow> join_draws \<Rightarrow> join_input \<Rightarrow> int \<Rightarrow> deal_terms \<Rightarrow> delivery_row option \<Rightarrow> int \<Rightarrow> 'a desk_db_scheme \<Rightarrow>
     lifecycle_error + join_response \<times> 'a desk_db_scheme" where
  "join_writes v now draws i qty terms choice threshold db =
     (let d = ji_deal i; p = jd_participant draws; cost = delivery_cost_of choice
      in on_ok (insert_participant p i qty terms choice db) (\<lambda>db1.
         on_ok (consume_authorization v (jd_binding_at draws) now p i qty (paymentMinorAmount (Fin (of_int qty)) (dt_price terms) cost) db1) (\<lambda>db2.
         on_ok (ji_aside i) (\<lambda>_.
         on_ok (open_for_joining (jd_locked_at draws) now d (dt_seller terms) db2) (\<lambda>state.
         on_ok (take_units v now draws i qty (dt_max terms) threshold db2) (\<lambda>((reservation, reached), db3).
         on_ok (admit i p db db3) (\<lambda>db4.
         on_ok (reach_target i (reached \<and> state = D_PendingTarget) db db4) (\<lambda>db5.
           let db6 = snd (enqueue_once (pending_job (jd_job draws) ''viral_recompute'' ''deal'' d (payload_text [Some d, Some ''join'']) (now + 20000)) db5);
               response = \<lparr>jn_participant = p, jn_reservation = reservation, jn_option = map_option dl_id choice, jn_delivery_cost = cost,
                 jn_hold_total = js_add (js_mul (Fin (of_int qty)) (dt_price terms)) cost\<rparr>
           in on_ok (record_join i (hashJoinRequestPayload i qty) p response db6) (\<lambda>db7. Inr (response, db7))))))))))"

text \<open>The transaction: a repeated key answers with the first response. \<open>True\<close> marks a replay.\<close>

definition join_tx ::
    "join_env \<Rightarrow> int \<Rightarrow> join_draws \<Rightarrow> join_input \<Rightarrow> int \<Rightarrow> 'a desk_db_scheme \<Rightarrow> 'a desk_db_scheme \<Rightarrow>
     lifecycle_error + (bool \<times> join_response) \<times> 'a desk_db_scheme" where
  "join_tx v now draws i qty seen db =
     (case find (\<lambda>j. jw_deal j = ji_deal i \<and> jw_buyer j = ji_buyer i \<and> jw_key j = ji_key i) (dk_joins db) of
        Some j \<Rightarrow>
          if jw_hash j \<noteq> hashJoinRequestPayload i qty then Inl (BodyRejected ''idempotency_payload_mismatch'')
          else Inr ((True, jw_response j), db)
      | None \<Rightarrow>
          (case dk_terms seen (ji_deal i) of
             None \<Rightarrow> Inl (BodyRejected ''deal not found'')
           | Some terms \<Rightarrow>
               on_ok (open_for_joining (jd_seen_at draws) now (ji_deal i) (dt_seller terms) seen) (\<lambda>_.
               on_ok (selected_delivery i seen) (\<lambda>choice.
               on_ok (rejected_if (paymentBindingEnforcementStrict v \<and> ji_authorization i = '''') ''payment_authorization_required'') (\<lambda>_.
               on_ok (join_writes v now draws i qty terms choice (wd_threshold seen (ji_deal i)) db) (\<lambda>(response, db').
                 Inr ((False, response), db')))))))"

text \<open>After a join without the stock tables, the target is looked at again.\<close>

definition tryTargetReached :: "string \<Rightarrow> string \<Rightarrow> int \<Rightarrow> 'a desk_db_scheme \<Rightarrow> lifecycle_error + 'a desk_db_scheme" where
  "tryTargetReached d request now db =
     (case atomicMultiTransition (deal_transition_args d D_PendingTarget D_TargetReached ''deal.target_reached'' request
             (''target-reached:'' @ d) None None False '''') now db of
        Inl (StateConflict e eid change) \<Rightarrow> Inr db
      | Inl e \<Rightarrow> Inl e
      | Inr out \<Rightarrow> Inr (mo_db out))"

definition joinDeal ::
    "join_env \<Rightarrow> int \<Rightarrow> join_draws \<Rightarrow> join_input \<Rightarrow> 'a desk_db_scheme \<Rightarrow> 'a desk_db_scheme \<Rightarrow>
     (lifecycle_error + join_response) \<times> 'a desk_db_scheme" where
  "joinDeal v now draws i seen db =
     (case on_ok (join_quantity i) (\<lambda>qty. join_tx v now draws i qty seen db) of
        Inl e \<Rightarrow> (Inl e, db)
      | Inr ((replayed, response), db1) \<Rightarrow>
          if replayed \<or> jv_canonical v then (Inr response, db1)
          else if ld_deals db1 (ji_deal i) = Some D_PendingTarget \<and> of_int (wd_threshold db1 (ji_deal i)) \<le> sumJoinedUnits (ji_deal i) db1
          then (case tryTargetReached (ji_deal i) (ji_request i) now db1 of Inl e \<Rightarrow> (Inl e, db1) | Inr db2 \<Rightarrow> (Inr response, db2))
          else (Inr response, db1))"

end
