(* ===== verification/DealDeskRuns.thy ===== *)
theory DealDeskRuns
  imports DealDesk LifecycleRuns
begin

text \<open>
  What holds of a deal however many buyers join it at once, and however often it is paused, reopened and
  retried, until its charge starts.
\<close>

section \<open>What a purchase consists of\<close>

definition deal_of :: "'a lifecycle_db_scheme \<Rightarrow> string \<Rightarrow> string option" where
  "deal_of db p = map_option pt_deal (ld_participants db p)"

definition offered :: "'a desk_db_scheme \<Rightarrow> string \<Rightarrow> int option" where
  "offered db d = map_option dt_max (dk_terms db d)"

text \<open>Two databases with the same purchases, stock and authorizations.\<close>

definition same_purchases :: "'a desk_db_scheme \<Rightarrow> 'a desk_db_scheme \<Rightarrow> bool" where
  "same_purchases db db' \<longleftrightarrow> wd_ids db' = wd_ids db \<and> deal_of db' = deal_of db
     \<and> fd_participants (md_fees db') = fd_participants (md_fees db) \<and> wd_buyer db' = wd_buyer db
     \<and> dk_stock db' = dk_stock db \<and> dk_joins db' = dk_joins db \<and> offered db' = offered db
     \<and> bd_rows db' = bd_rows db \<and> md_bindings db' = md_bindings db"

lemma same_refl [simp]: "same_purchases db db"
  by (simp add: same_purchases_def)

lemma same_trans: "same_purchases db1 db2 \<Longrightarrow> same_purchases db2 db3 \<Longrightarrow> same_purchases db1 db3"
  by (simp add: same_purchases_def)

lemma same_updates [simp]:
  "same_purchases db (db'\<lparr>ld_audit := a\<rparr>) = same_purchases db db'"
  "same_purchases db (db'\<lparr>ld_outbox := b\<rparr>) = same_purchases db db'"
  "same_purchases db (db'\<lparr>ld_idempotency := c\<rparr>) = same_purchases db db'"
  "same_purchases db (db'\<lparr>ld_deals := e\<rparr>) = same_purchases db db'"
  "same_purchases db (db'\<lparr>wd_threshold := f\<rparr>) = same_purchases db db'"
  by (simp_all add: same_purchases_def deal_of_def fun_eq_iff offered_def)

lemma same_state [simp]: "same_purchases db (set_state change eid db') = same_purchases db db'"
  by (cases change) (auto simp: set_state_def same_purchases_def deal_of_def fun_eq_iff option.map_comp comp_def offered_def)

lemma same_swap: "swap_state db0 flag action op db = Inr db' \<Longrightarrow> same_purchases db db'"
  by (auto simp: swap_state_def split: if_splits)

lemma same_swaps: "swap_all db0 flag action ops db = Inr db' \<Longrightarrow> same_purchases db db'"
  by (induction ops arbitrary: db) (auto elim!: on_ok_InrE dest!: same_swap intro: same_trans)

lemma same_logged: "insert_idempotency args db = Inr db' \<Longrightarrow> same_purchases db db'"
  by (auto simp: insert_idempotency_def split: if_splits)

lemma same_enqueue [simp]: "same_purchases db (snd (enqueue_once j db')) = same_purchases db db'"
  by (auto simp: enqueue_once_def split: sum.splits)

text \<open>A transition changes purchases only through its body.\<close>

lemma call_purchases:
  fixes db :: "'a desk_db_scheme"
  assumes "atomicMultiTransition args now db = Inr out"
  shows "same_purchases db (mo_db out) \<or> (\<exists>db1 db2. same_purchases db db1 \<and> run_body args db1 = Inr db2 \<and> same_purchases db2 (mo_db out))"
proof (cases "mo_replay out")
  case True
  then show ?thesis using assms by (auto simp: atomicMultiTransition_def split: option.splits elim!: on_ok_InrE)
next
  case False
  show ?thesis
  proof (cases rule: fresh_call_cases [OF assms False])
    case 1
    then show ?thesis using same_logged by blast
  next
    case (2 ops db1 db2 db3)
    have "same_purchases db db1" using 2(4) by (auto simp: enqueue_job_def split: option.splits sum.splits)
    moreover have "same_purchases db2 (mo_db out)"
      by (rule same_trans [OF same_swaps [OF 2(6)] same_logged [OF 2(7)]])
    ultimately show ?thesis using 2(5) by blast
  qed
qed

lemma call_same:
  fixes db :: "'a desk_db_scheme"
  assumes "atomicMultiTransition args now db = Inr out"
    and "\<And>db1 db2 :: 'a desk_db_scheme. run_body args db1 = Inr db2 \<Longrightarrow> same_purchases db1 db2"
  shows "same_purchases db (mo_db out)"
  using call_purchases [OF assms(1)] assms(2) same_trans by blast

section \<open>What a join does\<close>

lemma stock_call_Inr:
  "stock_call f db = Inr (answer, db') \<longleftrightarrow> (\<exists>stk. f (dk_stock db) = (Inr answer, stk) \<and> db' = db\<lparr>dk_stock := stk\<rparr>)"
  by (auto simp: stock_call_def split: prod.splits sum.splits)

definition join_hold_key :: "join_input \<Rightarrow> stock_key" where
  "join_hold_key i = HashedKey ''join'' [ji_deal i, ji_buyer i, ji_key i]"

definition take_commit ::
    "int \<Rightarrow> join_input \<Rightarrow> stock_answer \<times> 'a desk_db_scheme \<Rightarrow> lifecycle_error + (string option \<times> bool) \<times> 'a desk_db_scheme" where
  "take_commit now i = (\<lambda>(answer, db).
     case answer of
       UnitsHeld r replay \<Rightarrow>
         on_ok (stock_call (commit_units now r (evidence_of i)) db) (\<lambda>(committed, db3).
           case committed of UnitsCommitted reached units \<Rightarrow> Inr ((Some r, reached), db3)
           | _ \<Rightarrow> Inl (BodyRejected ''inventory_operation_failed''))
     | _ \<Rightarrow> Inl (BodyRejected ''inventory_operation_failed''))"

lemma on_stock_InrE:
  assumes "on_ok (stock_call f db) g = Inr r"
  shows "\<exists>a stk. f (dk_stock db) = (Inr a, stk) \<and> g (a, db\<lparr>dk_stock := stk\<rparr>) = Inr r"
proof -
  obtain x where x: "stock_call f db = Inr x" "g x = Inr r" using assms by (rule on_ok_InrE)
  obtain a db1 where "x = (a, db1)" by (rule prod.exhaust)
  then show ?thesis using x stock_call_Inr [of f db a db1] by blast
qed

lemma desk_stock_twice: "db\<lparr>dk_stock := s1, dk_stock := s2\<rparr> = db\<lparr>dk_stock := s2\<rparr>" "dk_stock (db\<lparr>dk_stock := s2\<rparr>) = s2"
  by simp_all

lemma take_commit_Inr:
  assumes "take_commit now i (UnitsHeld r replay, db) = Inr ((rid, reached), db')"
  shows "\<exists>a stk. commit_units now r (evidence_of i) (dk_stock db) = (Inr a, stk) \<and> db' = db\<lparr>dk_stock := stk\<rparr>"
proof -
  have "on_ok (stock_call (commit_units now r (evidence_of i)) db) (\<lambda>(committed, db3).
           case committed of UnitsCommitted reached units \<Rightarrow> Inr ((Some r, reached), db3)
           | _ \<Rightarrow> Inl (BodyRejected ''inventory_operation_failed'')) = Inr ((rid, reached), db')"
    using assms by (simp only: take_commit_def prod.case stock_answer.case)
  from on_stock_InrE [OF this] show ?thesis unfolding prod.case by (force split: stock_answer.splits)
qed

text \<open>With the stock tables a new purchase commits exactly its units.\<close>

lemma take_units_canonical:
  assumes "take_units v now draws i qty max_units threshold db = Inr ((rid, reached), db')" and "jv_canonical v"
    and "stock_ok (dk_stock db)" and "(ji_deal i, join_hold_key i) \<notin> hold_keys (dk_stock db)"
  shows "\<exists>stk. db' = db\<lparr>dk_stock := stk\<rparr> \<and> stock_ok stk
    \<and> (\<forall>e. committed_units e stk = committed_units e (dk_stock db) + (if e = ji_deal i then qty else 0))
    \<and> hold_keys stk = insert (ji_deal i, join_hold_key i) (hold_keys (dk_stock db))
    \<and> (stock_maxima stk = stock_maxima (dk_stock db)
       \<or> (stock_maxima (dk_stock db) (ji_deal i) = None \<and> stock_maxima stk = (stock_maxima (dk_stock db))(ji_deal i \<mapsto> max_units)))"
proof -
  let ?d = "ji_deal i"
  let ?sync = "sync_stock now ?d max_units threshold (PlainKey (''runtime-sync:'' @ ?d))"
  let ?hold = "hold_units now (jd_reservation draws) ?d qty (HashedKey ''join'' [?d, ji_buyer i, ji_key i]) (hashJoinRequestPayload i qty)"
  from assms(1,2) have call: "on_ok (stock_call ?sync db) (\<lambda>(_, db1). on_ok (stock_call ?hold db1) (take_commit now i)) = Inr ((rid, reached), db')"
    unfolding take_units_def take_commit_def Let_def by (simp only: if_True)
  obtain a1 s1 where one: "?sync (dk_stock db) = (Inr a1, s1)"
      and call1: "on_ok (stock_call ?hold (db\<lparr>dk_stock := s1\<rparr>)) (take_commit now i) = Inr ((rid, reached), db')"
    using on_stock_InrE [OF call] unfolding prod.case by blast
  obtain a2 s2 where two: "?hold s1 = (Inr a2, s2)"
      and rest: "take_commit now i (a2, db\<lparr>dk_stock := s1, dk_stock := s2\<rparr>) = Inr ((rid, reached), db')"
    using on_stock_InrE [OF call1] unfolding desk_stock_twice(2) by blast
  have ok1: "stock_ok s1" using sync_ok [OF assms(3)] one by (metis snd_conv)
  have ok2: "stock_ok s2" using hold_ok [OF ok1] two by (metis snd_conv)
  note sync = sync_spec [OF one]
  have "(?d, HashedKey ''join'' [?d, ji_buyer i, ji_key i]) \<notin> hold_keys s1" using assms(4) sync by (simp add: join_hold_key_def)
  note hold = fresh_hold [OF ok1 two this]
  then have "a2 = UnitsHeld (jd_reservation draws) False" by blast
  with rest obtain a3 s3 where three: "commit_units now (jd_reservation draws) (evidence_of i) s2 = (Inr a3, s3)"
      and db': "db' = db\<lparr>dk_stock := s3\<rparr>"
    using take_commit_Inr by (metis desk_stock_twice)
  have ok3: "stock_ok s3" using commit_ok [OF ok2] three by (metis snd_conv)
  have final: "committed_units e s3 = committed_units e (dk_stock db) + (if e = ?d then qty else 0)
      \<and> hold_keys s3 = insert (?d, join_hold_key i) (hold_keys (dk_stock db)) \<and> stock_maxima s3 = stock_maxima s1" for e
  proof -
    obtain old where old: "s2 = s1\<lparr>in_deals := in_deals s2,
          in_reservations := old @ [\<lparr>rv_id = jd_reservation draws, rv_deal = ?d, rv_key = HashedKey ''join'' [?d, ji_buyer i, ji_key i],
            rv_hash = hashJoinRequestPayload i qty, rv_qty = qty, rv_status = Held, rv_evidence = None, rv_generation = 1, rv_expires = now + HOLD_MS\<rparr>]\<rparr>"
        "jd_reservation draws \<notin> rv_id ` set old" "units_of_holds (committed_hold e) old = committed_units e s1"
        "(\<lambda>r. (rv_deal r, rv_key r)) ` set old = hold_keys s1" "stock_maxima s2 = stock_maxima s1"
      using hold [of e] by blast
    let ?r = "\<lparr>rv_id = jd_reservation draws, rv_deal = ?d, rv_key = HashedKey ''join'' [?d, ji_buyer i, ji_key i],
            rv_hash = hashJoinRequestPayload i qty, rv_qty = qty, rv_status = Held, rv_evidence = None, rv_generation = 1, rv_expires = now + HOLD_MS\<rparr>"
    have rows: "in_reservations s2 = old @ [?r]" by (subst old(1)) simp
    have "commit_units now (rv_id ?r) (evidence_of i) s2 = (Inr a3, s3)" using three by simp
    from fresh_commit [OF this rows, of e] old(2-5) sync show ?thesis
      by (simp add: HOLD_MS_def join_hold_key_def)
  qed
  then show ?thesis using db' ok3 sync by (intro exI [of _ s3]) auto
qed

lemma consume_spec:
  assumes "consume_authorization v clock now p i qty amount db = Inr db'"
  shows "(db' = db \<and> (ji_authorization i = '''' \<or> \<not> paymentBindingEnforcementStrict v))
    \<or> (\<exists>b. b \<in> set (bd_rows db) \<and> bd_status b = BindingAuthorized \<and> bd_consumed_at b = None \<and> bd_qty b = qty
        \<and> Fin (of_int (bd_amount b)) = amount \<and> bd_currency b = ''ILS'' \<and> bd_deal b = ji_deal i \<and> bd_buyer b = ji_buyer i
        \<and> \<not> list_ex (\<lambda>x. bd_consumed_by x = Some p) (bd_rows db)
        \<and> db' = (update_bindings (\<lambda>x. bd_id x = bd_id b \<and> bd_status x = BindingAuthorized \<and> bd_consumed_at x = None)
                   (consumed_row now p) db)
            \<lparr>wd_auths := (wd_auths db)(p \<mapsto> instrument_of b), md_bindings := (md_bindings db)(p \<mapsto> (Some (bd_amount b), Some (bd_currency b)))\<rparr>)"
proof (cases "ji_authorization i = ''''")
  case True
  then show ?thesis using assms by (simp add: consume_authorization_def)
next
  case False
  let ?in = "\<lparr>ci_deal = ji_deal i, ci_buyer = ji_buyer i, ci_authorization = ji_authorization i, ci_participant = p,
      ci_provider = jv_provider v, ci_mode = jv_mode v, ci_environment = jv_environment v, ci_qty = qty, ci_amount = amount, ci_currency = ''ILS''\<rparr>"
  show ?thesis
  proof (cases "consumeBindingForJoinTx clock now ?in db")
    case (Inl e)
    then show ?thesis using assms False by (simp add: consume_authorization_def split: if_splits)
  next
    case (Inr r)
    obtain row db1 where r: "r = (row, db1)" by force
    then have "db' = db1" using assms False Inr by (simp add: consume_authorization_def)
    obtain b where b: "consume_candidate ?in db = Some b"
      using Inr by (auto simp: consumeBindingForJoinTx_def split: option.splits)
    then have none: "consume_refusal clock ?in b = None" and free: "bd_consumed_at b = None" "\<not> list_ex (\<lambda>x. bd_consumed_by x = Some p) (bd_rows db)"
        and db1: "db1 = (update_bindings (\<lambda>x. bd_id x = bd_id b \<and> bd_status x = BindingAuthorized \<and> bd_consumed_at x = None)
                   (consumed_row now p) db)
            \<lparr>wd_auths := (wd_auths db)(p \<mapsto> instrument_of b), md_bindings := (md_bindings db)(p \<mapsto> (Some (bd_amount b), Some (bd_currency b)))\<rparr>"
      using Inr r by (auto simp: consumeBindingForJoinTx_def Let_def split: option.splits if_splits)
    have "b \<in> set (bd_rows db) \<and> bd_deal b = ji_deal i \<and> bd_buyer b = ji_buyer i"
      using b by (auto simp: consume_candidate_def newest_def Let_def dest!: find_SomeD split: option.splits)
    then show ?thesis using none free db1 \<open>db' = db1\<close> by (auto simp: consume_refusal_def split: if_splits)
  qed
qed

lemma record_join_effect:
  assumes "record_join i hash p response db = Inr db'"
  shows "\<exists>row. (jw_deal row = ji_deal i \<and> jw_buyer row = ji_buyer i \<and> jw_key row = ji_key i \<and> jw_hash row = hash \<and> jw_response row = response)
    \<and> (\<exists>ids. db' = db\<lparr>dk_joins := dk_joins db @ [row], ld_idempotency := ids\<rparr>)"
  using assms unfolding record_join_def Let_def
  by (intro exI [of _ "\<lparr>jw_deal = ji_deal i, jw_buyer = ji_buyer i, jw_key = ji_key i, jw_hash = hash, jw_response = response\<rparr>"]) (force split: if_splits)

lemma join_writes_effect:
  fixes db :: "'a desk_db_scheme"
  assumes "join_writes v now draws i qty terms choice threshold db = Inr (response, db')"
  shows "\<exists>db1 db2 rid reached db3 row state.
      insert_participant (jd_participant draws) i qty terms choice db = Inr db1
    \<and> consume_authorization v (jd_binding_at draws) now (jd_participant draws) i qty
        (paymentMinorAmount (Fin (of_int qty)) (dt_price terms) (delivery_cost_of choice)) db1 = Inr db2
    \<and> open_for_joining (jd_locked_at draws) now (ji_deal i) (dt_seller terms) db2 = Inr state
    \<and> take_units v now draws i qty (dt_max terms) threshold db2 = Inr ((rid, reached), db3)
    \<and> jw_deal row = ji_deal i \<and> jw_buyer row = ji_buyer i \<and> jw_key row = ji_key i \<and> jw_hash row = hashJoinRequestPayload i qty
    \<and> jw_response row = response \<and> jn_participant response = jd_participant draws
    \<and> same_purchases (db3\<lparr>dk_joins := dk_joins db3 @ [row]\<rparr>) db'"
proof -
  let ?p = "jd_participant draws" let ?d = "ji_deal i"
  obtain db1 db2 state rid reached db3 db4 db5 where steps:
      "insert_participant ?p i qty terms choice db = Inr db1"
      "consume_authorization v (jd_binding_at draws) now ?p i qty
        (paymentMinorAmount (Fin (of_int qty)) (dt_price terms) (delivery_cost_of choice)) db1 = Inr db2"
      "open_for_joining (jd_locked_at draws) now ?d (dt_seller terms) db2 = Inr state"
      "take_units v now draws i qty (dt_max terms) threshold db2 = Inr ((rid, reached), db3)"
      "admit i ?p db db3 = Inr db4"
      "reach_target i (reached \<and> state = D_PendingTarget) db db4 = Inr db5"
      and last: "(let db6 = snd (enqueue_once (pending_job (jd_job draws) ''viral_recompute'' ''deal'' ?d (payload_text [Some ?d, Some ''join'']) (now + 20000)) db5);
               response = \<lparr>jn_participant = ?p, jn_reservation = rid, jn_option = map_option dl_id choice, jn_delivery_cost = delivery_cost_of choice,
                 jn_hold_total = js_add (js_mul (Fin (of_int qty)) (dt_price terms)) (delivery_cost_of choice)\<rparr>
           in on_ok (record_join i (hashJoinRequestPayload i qty) ?p response db6) (\<lambda>db7. Inr (response, db7))) = Inr (response, db')"
    using assms unfolding join_writes_def Let_def by (elim on_ok_InrE) (auto elim!: on_ok_InrE)
  have "same_purchases db3 db4" using steps(5) unfolding admit_def by (auto dest!: same_swaps simp: same_purchases_def deal_of_def offered_def)
  moreover have "same_purchases db4 db5"
    using steps(6) unfolding reach_target_def Let_def
    by (auto split: if_splits dest!: same_swap simp: same_purchases_def deal_of_def offered_def)
  moreover have "same_purchases db5 (snd (enqueue_once j db5))" for j by (auto simp: enqueue_once_def split: sum.splits)
  ultimately have same: "same_purchases db3 (snd (enqueue_once j db5))" for j by (meson same_trans)
  let ?db6 = "snd (enqueue_once (pending_job (jd_job draws) ''viral_recompute'' ''deal'' ?d (payload_text [Some ?d, Some ''join'']) (now + 20000)) db5)"
  let ?response = "\<lparr>jn_participant = ?p, jn_reservation = rid, jn_option = map_option dl_id choice, jn_delivery_cost = delivery_cost_of choice,
                 jn_hold_total = js_add (js_mul (Fin (of_int qty)) (dt_price terms)) (delivery_cost_of choice)\<rparr>"
  obtain db7 where db7: "record_join i (hashJoinRequestPayload i qty) ?p ?response ?db6 = Inr db7"
      "(Inr (?response, db7) :: lifecycle_error + join_response \<times> 'a desk_db_scheme) = Inr (response, db')"
    using last unfolding Let_def by (rule on_ok_InrE)
  then have response: "response = ?response" and "db7 = db'" by simp_all
  then have recorded: "record_join i (hashJoinRequestPayload i qty) ?p response ?db6 = Inr db'" using db7(1) by simp
  have response: "jn_participant response = ?p" using response by simp
  obtain row where row: "jw_deal row = ?d \<and> jw_buyer row = ji_buyer i \<and> jw_key row = ji_key i \<and> jw_hash row = hashJoinRequestPayload i qty
      \<and> jw_response row = response"
      "\<exists>db6 ids. same_purchases db3 db6 \<and> db' = db6\<lparr>dk_joins := dk_joins db6 @ [row], ld_idempotency := ids\<rparr>"
    using record_join_effect [OF recorded] same by blast
  then have "same_purchases (db3\<lparr>dk_joins := dk_joins db3 @ [row]\<rparr>) db'"
    by (auto simp: same_purchases_def deal_of_def fun_eq_iff offered_def)
  then show ?thesis using steps(1-4) row(1) response by blast
qed

section \<open>No deal sells more than it offers\<close>

lemma members_deal: "members_of d db = filter (\<lambda>p. deal_of db p = Some d) (wd_ids db)"
  by (auto simp: members_of_def participant_of_def deal_of_def split: option.splits intro!: filter_cong)

definition purchase_key :: "join_row \<Rightarrow> string \<times> stock_key" where
  "purchase_key j = (jw_deal j, HashedKey ''join'' [jw_deal j, jw_buyer j, jw_key j])"

definition desk_ok :: "'a desk_db_scheme \<Rightarrow> bool" where
  "desk_ok db \<longleftrightarrow> stock_ok (dk_stock db)
     \<and> (\<forall>d. sum_units (members_of d db) db = of_int (committed_units d (dk_stock db)))
     \<and> (\<forall>d n. stock_maxima (dk_stock db) d = Some n \<longrightarrow> offered db d = Some n)
     \<and> (\<forall>d n. offered db d = Some n \<longrightarrow> 0 \<le> n)
     \<and> hold_keys (dk_stock db) \<subseteq> purchase_key ` set (dk_joins db)"

lemma sum_units_same:
  "fd_participants (md_fees db') = fd_participants (md_fees db) \<Longrightarrow> sum_units ps db' = sum_units ps db"
  by (simp add: sum_units_def DealFinalize.units_of_def)

lemma desk_ok_cong:
  assumes "wd_ids db' = wd_ids db" and "deal_of db' = deal_of db" and "fd_participants (md_fees db') = fd_participants (md_fees db)"
    and "dk_stock db' = dk_stock db" and "set (dk_joins db) \<subseteq> set (dk_joins db')"
    and "\<And>d. in_deals (dk_stock db) d \<noteq> None \<Longrightarrow> offered db' d = offered db d"
    and "\<And>d n. offered db' d = Some n \<Longrightarrow> offered db d = Some n \<or> 0 \<le> n" and "desk_ok db"
  shows "desk_ok db'"
proof -
  have opened: "offered db' d = Some n" if "stock_maxima (dk_stock db) d = Some n" for d n
    using that assms(6) [of d] assms(8) by (auto simp: desk_ok_def stock_maxima_def)
  have counted: "0 \<le> n" if "offered db' d = Some n" for d n
    using assms(7) [OF that] assms(8) by (auto simp: desk_ok_def)
  have "hold_keys (dk_stock db) \<subseteq> purchase_key ` set (dk_joins db')"
    using assms(8) image_mono [OF assms(5), of purchase_key] unfolding desk_ok_def by (elim conjE) (erule subset_trans)
  then show ?thesis using assms(8) opened counted by (simp add: desk_ok_def members_deal assms(1-4) sum_units_same [OF assms(3)])
qed

lemma desk_ok_same: "same_purchases db db' \<Longrightarrow> desk_ok db \<Longrightarrow> desk_ok db'"
  by (rule desk_ok_cong [of db' db]) (simp_all add: same_purchases_def)

lemma desk_ok_stock:
  assumes "desk_ok db" and "stock_ok stk" and "\<And>e. committed_units e stk = committed_units e (dk_stock db)"
    and "hold_keys stk = hold_keys (dk_stock db)" and "\<And>e n. stock_maxima stk e = Some n \<Longrightarrow> offered db e = Some n"
  shows "desk_ok (db\<lparr>dk_stock := stk\<rparr>)"
proof -
  have "deal_of (db\<lparr>dk_stock := stk\<rparr>) = deal_of db" "offered (db\<lparr>dk_stock := stk\<rparr>) = offered db"
    by (simp_all add: deal_of_def offered_def fun_eq_iff)
  moreover have "sum_units ps (db\<lparr>dk_stock := stk\<rparr>) = sum_units ps db" for ps by (rule sum_units_same) simp
  ultimately show ?thesis using assms by (simp add: desk_ok_def members_deal)
qed

lemma desk_ok_sync:
  assumes "desk_ok db" and "sync_stock now d n threshold key (dk_stock db) = (answer, stk)" and "offered db d = Some n"
  shows "desk_ok (db\<lparr>dk_stock := stk\<rparr>)"
proof (rule desk_ok_stock [OF assms(1)])
  show "stock_ok stk" using sync_ok [of "dk_stock db"] assms(1,2) by (metis desk_ok_def snd_conv)
  show "offered db e = Some m" if "stock_maxima stk e = Some m" for e m
  proof -
    have "stock_maxima stk = stock_maxima (dk_stock db) \<or> stock_maxima stk = (stock_maxima (dk_stock db))(d \<mapsto> n)"
      using sync_spec [OF assms(2)] by blast
    then show ?thesis using that assms(1,3) by (elim disjE) (simp_all add: desk_ok_def split: if_splits)
  qed
qed (use sync_spec [OF assms(2)] in blast)+

lemma desk_ok_close:
  assumes "desk_ok db" and "close_stock now d n key (dk_stock db) = (answer, stk)"
  shows "desk_ok (db\<lparr>dk_stock := stk\<rparr>)"
proof (rule desk_ok_stock [OF assms(1)])
  show "stock_ok stk" using close_ok [of "dk_stock db"] assms(1,2) by (metis desk_ok_def snd_conv)
  show "offered db e = Some m" if "stock_maxima stk e = Some m" for e m
    using that close_spec [OF assms(2)] assms(1) by (simp add: desk_ok_def)
qed (use close_spec [OF assms(2)] in blast)+

text \<open>The stock calls of a handler's body.\<close>

lemma change_terms_same [simp]:
  "same_purchases db (change_terms d (dt_close_reason_update f) db') = same_purchases db db'"
  "same_purchases db (change_terms d (dt_published_update g) db') = same_purchases db db'"
  by (auto simp: same_purchases_def change_terms_def offered_def deal_of_def fun_eq_iff option.map_comp comp_def)

lemma closed_body_ok:
  assumes "closed_body canonical d n threshold key now db = Inr db'" and "desk_ok db" and "offered db d = Some n"
  shows "desk_ok db'"
proof -
  obtain db1 where db1: "db1 = change_terms d (dt_close_reason_update (\<lambda>_. Some ''manual'')) db" by simp
  then have same: "same_purchases db db1" by simp
  then have ok: "desk_ok db1" "offered db1 d = Some n" using desk_ok_same assms(2,3) by (auto simp: same_purchases_def)
  show ?thesis
  proof (cases canonical)
    case True
    then have "on_ok (stock_call (sync_stock now d n threshold (PlainKey (take 200 (''close-sync:'' @ d @ '':'' @ key)))) db1) (\<lambda>(_, db2).
              on_ok (stock_call (close_stock now d n (HashedKey ''close'' [d, key])) db2) (\<lambda>(_, db3). Inr db3)) = Inr db'"
      using assms(1) unfolding closed_body_def Let_def db1 by (simp only: if_False not_True_eq_False)
    from on_stock_InrE [OF this] obtain a stk where one: "sync_stock now d n threshold (PlainKey (take 200 (''close-sync:'' @ d @ '':'' @ key))) (dk_stock db1) = (Inr a, stk)"
        and two: "on_ok (stock_call (close_stock now d n (HashedKey ''close'' [d, key])) (db1\<lparr>dk_stock := stk\<rparr>)) (\<lambda>(_, db3). Inr db3) = Inr db'"
      unfolding prod.case by blast
    obtain b stk2 where closed: "close_stock now d n (HashedKey ''close'' [d, key]) (dk_stock (db1\<lparr>dk_stock := stk\<rparr>)) = (Inr b, stk2)"
        and db': "db' = db1\<lparr>dk_stock := stk\<rparr>\<lparr>dk_stock := stk2\<rparr>"
      using on_stock_InrE [OF two] by auto
    show ?thesis unfolding db' by (rule desk_ok_close [OF desk_ok_sync [OF ok(1) one ok(2)] closed])
  next
    case False
    then show ?thesis using assms(1) ok(1) unfolding closed_body_def Let_def db1 by simp
  qed
qed

lemma reopened_body_ok:
  assumes "reopened_body canonical d n threshold deadline key uuid now db = Inr db'" and "desk_ok db" and "offered db d = Some n"
  shows "desk_ok db'"
proof -
  obtain db1 where db1: "db1 = (let db1 = change_terms d (dt_close_reason_update (\<lambda>_. None)) db;
          pending = list_ex (\<lambda>r. ob_event_type r = ''deadline_check'' \<and> ob_aggregate_type r = ''deal'' \<and> ob_aggregate_id r = d
            \<and> ob_status r = Pending) (odb_events (ld_outbox db1))
      in if pending then db1
            else snd (enqueue_once (pending_job uuid ''deadline_check'' ''deal'' d (payload_text [Some d])
                   (case deadline of None \<Rightarrow> 0 | Some t \<Rightarrow> t)) db1))" by blast
  have "same_purchases db db1" unfolding db1 Let_def by (simp add: same_enqueue)
  then have ok: "desk_ok db1" "offered db1 d = Some n" using desk_ok_same assms(2,3) by (auto simp: same_purchases_def)
  have run: "(if \<not> canonical then Inr db1
      else on_ok (stock_call (sync_stock now d n threshold (PlainKey (take 200 (''reopen-sync:'' @ d @ '':'' @ key)))) db1) (\<lambda>(_, db3). Inr db3)) = Inr db'"
    using assms(1) unfolding reopened_body_def db1 Let_def .
  show ?thesis
  proof (cases canonical)
    case True
    then have two: "on_ok (stock_call (sync_stock now d n threshold (PlainKey (take 200 (''reopen-sync:'' @ d @ '':'' @ key)))) db1) (\<lambda>(_, db3). Inr db3) = Inr db'"
      using run by (simp only: if_False not_True_eq_False)
    obtain b stk2 where synced: "sync_stock now d n threshold (PlainKey (take 200 (''reopen-sync:'' @ d @ '':'' @ key))) (dk_stock db1) = (Inr b, stk2)"
        and db': "db' = db1\<lparr>dk_stock := stk2\<rparr>"
      using on_stock_InrE [OF two] by auto
    show ?thesis unfolding db' by (rule desk_ok_sync [OF ok(1) synced ok(2)])
  next
    case False
    then show ?thesis using run ok(1) by simp
  qed
qed

lemma insert_effect:
  assumes "insert_participant p i qty terms choice db = Inr db1"
  shows "p \<notin> set (wd_ids db) \<and> wd_ids db1 = wd_ids db @ [p] \<and> deal_of db1 = (deal_of db)(p \<mapsto> ji_deal i)
    \<and> wd_buyer db1 = (wd_buyer db)(p := ji_buyer i)
    \<and> fd_participants (md_fees db1) = (fd_participants (md_fees db))(p \<mapsto>
        \<lparr>cr_deal = ji_deal i, cr_seller = dt_seller terms, cr_qty = Fin (of_int qty), cr_price = dt_price terms, cr_delivery = delivery_cost_of choice\<rparr>)
    \<and> dk_stock db1 = dk_stock db \<and> dk_joins db1 = dk_joins db \<and> offered db1 = offered db
    \<and> bd_rows db1 = bd_rows db \<and> md_bindings db1 = md_bindings db"
  using assms by (auto simp: insert_participant_def deal_of_def offered_def fun_eq_iff List.member_iff split: if_splits)

lemma sum_units_insert:
  assumes "p \<notin> set ids" and "fd_participants (md_fees db1) = (fd_participants (md_fees db))(p \<mapsto> row)" and "cr_qty row = Fin (of_int qty)"
  shows "sum_units (filter (\<lambda>x. ((deal_of db)(p \<mapsto> d)) x = Some e) (ids @ [p])) db1
    = sum_units (filter (\<lambda>x. deal_of db x = Some e) ids) db + (if e = d then of_int qty else 0)"
proof -
  have "filter (\<lambda>x. ((deal_of db)(p \<mapsto> d)) x = Some e) ids = filter (\<lambda>x. deal_of db x = Some e) ids"
    using assms(1) by (intro filter_cong) auto
  moreover have "sum_units (filter (\<lambda>x. deal_of db x = Some e) ids) db1 = sum_units (filter (\<lambda>x. deal_of db x = Some e) ids) db"
    unfolding sum_units_def using assms(1,2) by (intro arg_cong [of _ _ sum_list] map_cong) (auto simp: DealFinalize.units_of_def)
  ultimately show ?thesis using assms(2,3) by (simp add: sum_units_def DealFinalize.units_of_def)
qed

lemma consume_frame:
  assumes "consume_authorization v clock now p i qty amount db = Inr db'"
  shows "wd_ids db' = wd_ids db \<and> deal_of db' = deal_of db \<and> wd_buyer db' = wd_buyer db \<and> md_fees db' = md_fees db
    \<and> dk_stock db' = dk_stock db \<and> dk_joins db' = dk_joins db \<and> offered db' = offered db"
  using consume_spec [OF assms] by (auto simp: update_bindings_def deal_of_def offered_def fun_eq_iff)

lemma join_ok:
  fixes db :: "'a desk_db_scheme"
  assumes "join_tx v now draws i qty seen db = Inr ((replayed, response), db')" and "jv_canonical v"
    and "desk_ok db" and "offered seen (ji_deal i) = offered db (ji_deal i)"
  shows "desk_ok db'"
proof (cases "find (\<lambda>j. jw_deal j = ji_deal i \<and> jw_buyer j = ji_buyer i \<and> jw_key j = ji_key i) (dk_joins db)")
  case (Some j)
  then show ?thesis using assms(1,3) by (auto simp: join_tx_def split: if_splits)
next
  case None
  let ?d = "ji_deal i" let ?p = "jd_participant draws"
  obtain terms choice where terms: "dk_terms seen ?d = Some terms"
      and writes: "join_writes v now draws i qty terms choice (wd_threshold seen ?d) db = Inr (response, db')"
    using assms(1) None by (auto simp: join_tx_def elim!: on_ok_InrE split: option.splits)
  obtain db1 db2 rid reached db3 row where
      one: "insert_participant ?p i qty terms choice db = Inr db1"
      and two: "consume_authorization v (jd_binding_at draws) now ?p i qty
        (paymentMinorAmount (Fin (of_int qty)) (dt_price terms) (delivery_cost_of choice)) db1 = Inr db2"
      and three: "take_units v now draws i qty (dt_max terms) (wd_threshold seen ?d) db2 = Inr ((rid, reached), db3)"
      and row: "jw_deal row = ?d" "jw_buyer row = ji_buyer i" "jw_key row = ji_key i"
      and same: "same_purchases (db3\<lparr>dk_joins := dk_joins db3 @ [row]\<rparr>) db'"
    using join_writes_effect [OF writes] by blast
  note ins = insert_effect [OF one] note con = consume_frame [OF two]
  have stock: "stock_ok (dk_stock db2)" using ins con assms(3) by (simp add: desk_ok_def)
  have key: "(?d, join_hold_key i) \<notin> hold_keys (dk_stock db2)"
  proof
    assume "(?d, join_hold_key i) \<in> hold_keys (dk_stock db2)"
    then have "(?d, join_hold_key i) \<in> purchase_key ` set (dk_joins db)" using ins con assms(3) by (auto simp: desk_ok_def)
    then obtain j where "j \<in> set (dk_joins db)" "jw_deal j = ?d" "jw_buyer j = ji_buyer i" "jw_key j = ji_key i"
      by (auto simp: purchase_key_def join_hold_key_def)
    then show False using None by (auto simp: find_None_iff)
  qed
  obtain stk where stk: "db3 = db2\<lparr>dk_stock := stk\<rparr>" "stock_ok stk"
      "\<And>e. committed_units e stk = committed_units e (dk_stock db2) + (if e = ?d then qty else 0)"
      "hold_keys stk = insert (?d, join_hold_key i) (hold_keys (dk_stock db2))"
      "stock_maxima stk = stock_maxima (dk_stock db2) \<or> stock_maxima stk = (stock_maxima (dk_stock db2))(?d \<mapsto> dt_max terms)"
    using take_units_canonical [OF three assms(2) stock key] by blast
  obtain db4 :: "'a desk_db_scheme" where db4: "db4 = db3\<lparr>dk_joins := dk_joins db3 @ [row]\<rparr>" by blast
  have frame: "wd_ids db4 = wd_ids db @ [?p]" "deal_of db4 = (deal_of db)(?p \<mapsto> ?d)" "md_fees db4 = md_fees db1"
      "dk_stock db4 = stk" "dk_joins db4 = dk_joins db @ [row]" "offered db4 = offered db"
    using ins con unfolding db4 stk(1) by (simp_all add: deal_of_def offered_def fun_eq_iff)
  have "sum_units (members_of e db4) db4 = of_int (committed_units e stk)" for e
  proof -
    have "sum_units (members_of e db4) db4 = sum_units (members_of e db) db + (if e = ?d then of_int qty else 0)"
      unfolding members_deal frame(1,2) using ins frame(3) by (intro sum_units_insert) auto
    then show ?thesis using assms(3) stk(3) ins con by (simp add: desk_ok_def)
  qed
  moreover have "offered db4 e = Some n" if n: "stock_maxima stk e = Some n" for e n
  proof -
    have "offered db ?d = Some (dt_max terms)" using assms(4) terms by (simp add: offered_def)
    moreover have "stock_maxima (dk_stock db) e = Some n \<Longrightarrow> offered db e = Some n" using assms(3) by (simp add: desk_ok_def)
    ultimately show ?thesis using n stk(5) ins con unfolding frame(6) by (elim disjE) (simp_all split: if_splits)
  qed
  moreover have "hold_keys stk \<subseteq> purchase_key ` set (dk_joins db4)"
    using stk(4) ins con assms(3) row unfolding frame(5) by (auto simp: desk_ok_def purchase_key_def join_hold_key_def)
  moreover have "0 \<le> n" if "offered db4 e = Some n" for e n using that assms(3) unfolding frame(6) desk_ok_def by blast
  ultimately have "desk_ok db4" using stk(2) frame(4) by (simp add: desk_ok_def)
  then show ?thesis using desk_ok_same same unfolding db4 by blast
qed

section \<open>Every purchase has its own authorization\<close>

definition bindings_ok :: "binding_row list \<Rightarrow> bool" where
  "bindings_ok rows \<longleftrightarrow> distinct (map bd_id rows) \<and> list_all (\<lambda>b. bd_consumed_by b \<noteq> None \<longrightarrow> bd_status b = BindingConsumed) rows"

definition bindings_of :: "string \<Rightarrow> binding_row list \<Rightarrow> binding_row list" where
  "bindings_of p rows = filter (\<lambda>b. bd_consumed_by b = Some p) rows"

text \<open>Changes of the table that leave the consumed rows alone.\<close>

definition keeps_consumed :: "binding_row list \<Rightarrow> binding_row list \<Rightarrow> bool" where
  "keeps_consumed rows rows' \<longleftrightarrow> bindings_ok rows \<longrightarrow> bindings_ok rows' \<and> (\<forall>p. bindings_of p rows' = bindings_of p rows)"

lemma keeps_consumed_refl [simp]: "keeps_consumed rows rows"
  by (simp add: keeps_consumed_def)

lemma keeps_consumed_update:
  assumes "\<And>b. b \<in> set rows \<Longrightarrow> P b \<Longrightarrow> bindings_ok rows \<Longrightarrow> bd_status b \<noteq> BindingConsumed"
    and "\<And>b. bd_id (f b) = bd_id b" and "\<And>b. bd_consumed_by (f b) = bd_consumed_by b"
  shows "keeps_consumed rows (map (\<lambda>b. if P b then f b else b) rows)"
  unfolding keeps_consumed_def
proof (intro impI conjI allI)
  assume ok: "bindings_ok rows"
  have free: "bd_consumed_by b = None" if "b \<in> set rows" "P b" for b
    using ok assms(1) [OF that ok] that(1) by (auto simp: bindings_ok_def list_all_iff)
  have ids: "map bd_id (map (\<lambda>b. if P b then f b else b) rows) = map bd_id rows" using assms(2) by simp
  show "bindings_ok (map (\<lambda>b. if P b then f b else b) rows)"
    using ok free assms(3) unfolding bindings_ok_def ids by (auto simp: list_all_iff)
  show "bindings_of p (map (\<lambda>b. if P b then f b else b) rows) = bindings_of p rows" for p
    unfolding bindings_of_def using free assms(3) by (induction rows) auto
qed

lemma keeps_insert: "bd_id row \<notin> bd_id ` set rows \<Longrightarrow> bd_consumed_by row = None \<Longrightarrow> keeps_consumed rows (rows @ [row])"
  by (auto simp: keeps_consumed_def bindings_ok_def bindings_of_def)

lemma keeps_insert_binding:
  assumes "insert_binding input row db = Inr x" and "bd_consumed_by row = None"
  shows "\<exists>rows. snd x = db\<lparr>bd_rows := rows\<rparr> \<and> keeps_consumed (bd_rows db) rows"
proof (cases "binding_of (bi_correlation input) db")
  case None
  then show ?thesis using assms
    by (intro exI [of _ "bd_rows db @ [row]"]) (auto simp: insert_binding_def list_ex_iff intro!: keeps_insert split: if_splits)
next
  case (Some b)
  then show ?thesis using assms by (intro exI [of _ "bd_rows db"]) (auto simp: insert_binding_def split: if_splits)
qed

lemma new_binding_free [simp]: "bd_consumed_by (new_binding now uuid input authorization reference status reason expires_at method_ref) = None"
  by (simp add: new_binding_def)

text \<open>The operations on bindings before the join, and what any of them does.\<close>

inductive binding_step :: "'a bound_db_scheme \<Rightarrow> 'a bound_db_scheme \<Rightarrow> bool" where
  step_reserve: "reserveAuthorizationCreation now uuid input db = Inr (answer, db') \<Longrightarrow> binding_step db db'"
| step_complete: "completeAuthorizationCreation correlation a db = Inr (b, db') \<Longrightarrow> binding_step db db'"
| step_mark: "markAuthorizationCreationOutcome correlation failed reason db = (b, db') \<Longrightarrow> binding_step db db'"
| step_create: "createBinding now uuid input a db = Inr (b, db') \<Longrightarrow> binding_step db db'"
| step_confirm: "confirmBindingAuthorized provider authorization amount reference db = (answer, db') \<Longrightarrow> binding_step db db'"

lemma binding_step_keeps: "binding_step db db' \<Longrightarrow> \<exists>rows. db' = db\<lparr>bd_rows := rows\<rparr> \<and> keeps_consumed (bd_rows db) rows"
proof (induction rule: binding_step.induct)
  case (step_reserve now uuid input db answer db')
  obtain x where x: "insert_binding input (new_binding now uuid input (''siton_create_pending:'' @ bi_correlation input)
      (''siton_create_pending:'' @ bi_correlation input) PendingProviderConfirmation (Some ''provider_create_reserved'') None None) db = Inr x"
      "snd x = db'"
    using step_reserve unfolding reserveAuthorizationCreation_def Let_def
    by (elim on_ok_InrE) (auto split: option.splits if_splits simp del: append.simps)
  show ?case using keeps_insert_binding [OF x(1) new_binding_free] unfolding x(2) .
next
  case (step_complete correlation a db b db')
  show ?case
  proof (cases "find (completable correlation) (bd_rows db)")
    case None
    then have "db' = db" using step_complete by (auto simp: completeAuthorizationCreation_def Let_def split: option.splits if_splits)
    then show ?thesis by (intro exI [of _ "bd_rows db"]) simp
  next
    case (Some c)
    then obtain f where "db' = update_bindings (completable correlation) f db" "\<And>b. bd_id (f b) = bd_id b" "\<And>b. bd_consumed_by (f b) = bd_consumed_by b"
      using step_complete by (fastforce simp: completeAuthorizationCreation_def Let_def)
    then show ?thesis
      by (intro exI [of _ "map (\<lambda>b. if completable correlation b then f b else b) (bd_rows db)"])
        (auto simp: update_bindings_def completable_def intro!: keeps_consumed_update)
  qed
next
  case (step_mark correlation failed reason db b db')
  obtain f where "db' = update_bindings (\<lambda>b. bd_correlation b = correlation \<and> bd_status b = PendingProviderConfirmation) f db"
      "\<And>b. bd_id (f b) = bd_id b" "\<And>b. bd_consumed_by (f b) = bd_consumed_by b"
    using step_mark unfolding markAuthorizationCreationOutcome_def Let_def by (fastforce simp del: append.simps)
  then show ?case
    by (intro exI [of _ "map (\<lambda>b. if bd_correlation b = correlation \<and> bd_status b = PendingProviderConfirmation then f b else b) (bd_rows db)"])
      (auto simp: update_bindings_def intro!: keeps_consumed_update)
next
  case (step_create now uuid input a db b db')
  obtain x where x: "insert_binding input (new_binding now uuid input (ca_authorization a) (ca_reference a)
          (if ca_authorized a then BindingAuthorized else PendingProviderConfirmation) None (ca_expires a) (stored_method (ca_method a))) db = Inr x"
      "snd x = db'"
    using step_create unfolding createBinding_def by (elim on_ok_InrE) (auto split: option.splits)
  show ?case using keeps_insert_binding [OF x(1) new_binding_free] unfolding x(2) .
next
  case (step_confirm provider authorization amount reference db answer db')
  consider "db' = db"
    | b P f where "db' = update_bindings P f db" "\<And>x. P x \<Longrightarrow> bd_id x = bd_id b" "b \<in> set (bd_rows db)" "bd_status b = PendingProviderConfirmation"
        "\<And>x. bd_id (f x) = bd_id x" "\<And>x. bd_consumed_by (f x) = bd_consumed_by x"
    using step_confirm
    by (fastforce simp: confirmBindingAuthorized_def newest_def Let_def dest!: find_SomeD split: option.splits if_splits)
  then show ?case
  proof cases
    case 1
    then show ?thesis by (intro exI [of _ "bd_rows db"]) simp
  next
    case 2
    have "x = b" if "x \<in> set (bd_rows db)" "P x" "bindings_ok (bd_rows db)" for x
      using that 2(2,3) by (auto simp: bindings_ok_def distinct_map inj_on_def)
    then have "keeps_consumed (bd_rows db) (map (\<lambda>b. if P b then f b else b) (bd_rows db))"
      using 2(4,5,6) by (intro keeps_consumed_update) auto
    then show ?thesis using 2(1) by (auto simp: update_bindings_def)
  qed
qed

text \<open>A participant with exactly one consumed authorization, for its own deal, buyer, quantity and amount.\<close>

definition backed :: "'a desk_db_scheme \<Rightarrow> string \<Rightarrow> bool" where
  "backed db p \<longleftrightarrow> (\<exists>b. bindings_of p (bd_rows db) = [b] \<and> Fin (of_int (bd_amount b)) = amount_due p db \<and> bd_currency b = ''ILS''
     \<and> deal_of db p = Some (bd_deal b) \<and> wd_buyer db p = bd_buyer b \<and> units_of p db = of_int (bd_qty b)
     \<and> md_bindings db p = Some (Some (bd_amount b), Some ''ILS''))"

definition funds_ok :: "'a desk_db_scheme \<Rightarrow> bool" where
  "funds_ok db \<longleftrightarrow> bindings_ok (bd_rows db) \<and> list_all (backed db) (wd_ids db)"

lemma backed_cong:
  assumes "bindings_of p (bd_rows db') = bindings_of p (bd_rows db)" and "fd_participants (md_fees db') p = fd_participants (md_fees db) p"
    and "deal_of db' p = deal_of db p" and "wd_buyer db' p = wd_buyer db p" and "md_bindings db' p = md_bindings db p"
  shows "backed db' p = backed db p"
  by (simp add: backed_def assms amount_due_def DealFinalize.units_of_def)

lemma funds_ok_cong:
  assumes "wd_ids db' = wd_ids db" and "deal_of db' = deal_of db" and "fd_participants (md_fees db') = fd_participants (md_fees db)"
    and "wd_buyer db' = wd_buyer db" and "md_bindings db' = md_bindings db" and "keeps_consumed (bd_rows db) (bd_rows db')" and "funds_ok db"
  shows "funds_ok db'"
proof -
  have "bindings_ok (bd_rows db')" "\<And>p. bindings_of p (bd_rows db') = bindings_of p (bd_rows db)"
    using assms(6,7) by (auto simp: funds_ok_def keeps_consumed_def)
  moreover from this(2) have "backed db' p = backed db p" for p by (rule backed_cong) (simp_all add: assms(2-5))
  ultimately show ?thesis using assms(1,7) by (simp add: funds_ok_def list_all_iff)
qed

lemma funds_ok_same: "same_purchases db db' \<Longrightarrow> funds_ok db \<Longrightarrow> funds_ok db'"
  by (rule funds_ok_cong [of db' db]) (simp_all add: same_purchases_def)

lemma consumed_bindings:
  assumes "bindings_ok rows" and "b \<in> set rows" and "bd_status b = BindingAuthorized" and "bd_consumed_at b = None"
    and "\<not> list_ex (\<lambda>x. bd_consumed_by x = Some p) rows"
    and new: "rows' = map (\<lambda>x. if bd_id x = bd_id b \<and> bd_status x = BindingAuthorized \<and> bd_consumed_at x = None then consumed_row now p x else x) rows"
  shows "bindings_ok rows' \<and> bindings_of q rows' = (if q = p then [consumed_row now p b] else bindings_of q rows)"
proof -
  obtain xs ys where rows: "rows = xs @ b # ys" using assms(2) by (meson split_list)
  have other: "bd_id x \<noteq> bd_id b" if "x \<in> set xs \<union> set ys" for x
    using that assms(1) unfolding rows bindings_ok_def by (auto simp: image_iff)
  have same: "map (\<lambda>x. if bd_id x = bd_id b \<and> bd_status x = BindingAuthorized \<and> bd_consumed_at x = None then consumed_row now p x else x) zs = zs"
    if "set zs \<subseteq> set xs \<union> set ys" for zs
    using that other by (intro map_idI) auto
  have rows': "rows' = xs @ consumed_row now p b # ys"
    unfolding new rows using assms(3,4) same [of xs] same [of ys] by simp
  have none: "bd_consumed_by b = None" using assms(1,2,3) by (auto simp: bindings_ok_def list_all_iff)
  have "filter (\<lambda>x. bd_consumed_by x = Some p) xs = []" "filter (\<lambda>x. bd_consumed_by x = Some p) ys = []"
    using assms(5) unfolding rows by (auto simp: list_ex_iff filter_empty_conv)
  then show ?thesis
    using assms(1) none unfolding rows rows' bindings_ok_def bindings_of_def by (auto simp: consumed_row_def)
qed

lemma take_units_frame:
  assumes "take_units v now draws i qty max_units threshold db = Inr (a, db')"
  shows "\<exists>stk. db' = db\<lparr>dk_stock := stk\<rparr>"
proof (cases "jv_canonical v")
  case False
  then have "db' = db" using assms unfolding take_units_def Let_def by (auto elim!: on_ok_InrE)
  then show ?thesis by (intro exI [of _ "dk_stock db"]) simp
next
  case True
  obtain rid reached where a: "a = (rid, reached)" by (rule prod.exhaust)
  from assms True have call: "on_ok (stock_call (sync_stock now (ji_deal i) max_units threshold (PlainKey (''runtime-sync:'' @ ji_deal i))) db)
      (\<lambda>(_, db1). on_ok (stock_call (hold_units now (jd_reservation draws) (ji_deal i) qty
          (HashedKey ''join'' [ji_deal i, ji_buyer i, ji_key i]) (hashJoinRequestPayload i qty)) db1) (take_commit now i)) = Inr (a, db')"
    unfolding take_units_def take_commit_def Let_def by (simp only: if_True)
  obtain s1 where "on_ok (stock_call (hold_units now (jd_reservation draws) (ji_deal i) qty
          (HashedKey ''join'' [ji_deal i, ji_buyer i, ji_key i]) (hashJoinRequestPayload i qty)) (db\<lparr>dk_stock := s1\<rparr>)) (take_commit now i) = Inr (a, db')"
    using on_stock_InrE [OF call] unfolding prod.case by blast
  from on_stock_InrE [OF this] obtain s2 answer where rest: "take_commit now i (answer, db\<lparr>dk_stock := s1, dk_stock := s2\<rparr>) = Inr (a, db')"
    by blast
  then obtain r replay where "answer = UnitsHeld r replay" by (cases answer) (simp_all add: take_commit_def)
  with take_commit_Inr [OF rest [unfolded this a]] show ?thesis by auto
qed

lemma funded_join:
  fixes db :: "'a desk_db_scheme"
  assumes "join_writes v now draws i qty terms choice threshold db = Inr (response, db')"
    and "paymentBindingEnforcementStrict v" and "ji_authorization i \<noteq> ''''" and "funds_ok db"
  shows "funds_ok db'"
proof -
  let ?d = "ji_deal i" let ?p = "jd_participant draws"
  let ?due = "paymentMinorAmount (Fin (of_int qty)) (dt_price terms) (delivery_cost_of choice)"
  obtain db1 db2 a db3 row where
      one: "insert_participant ?p i qty terms choice db = Inr db1"
      and two: "consume_authorization v (jd_binding_at draws) now ?p i qty ?due db1 = Inr db2"
      and three: "take_units v now draws i qty (dt_max terms) threshold db2 = Inr (a, db3)"
      and same: "same_purchases (db3\<lparr>dk_joins := dk_joins db3 @ [row]\<rparr>) db'"
    using join_writes_effect [OF assms(1)] by blast
  note ins = insert_effect [OF one] note con = consume_frame [OF two]
  obtain b where b: "b \<in> set (bd_rows db)" "bd_status b = BindingAuthorized" "bd_consumed_at b = None" "bd_qty b = qty"
      "Fin (of_int (bd_amount b)) = ?due" "bd_currency b = ''ILS''" "bd_deal b = ?d" "bd_buyer b = ji_buyer i"
      "\<not> list_ex (\<lambda>x. bd_consumed_by x = Some ?p) (bd_rows db)"
      and db2: "db2 = (update_bindings (\<lambda>x. bd_id x = bd_id b \<and> bd_status x = BindingAuthorized \<and> bd_consumed_at x = None)
                   (consumed_row now ?p) db1)
            \<lparr>wd_auths := (wd_auths db1)(?p \<mapsto> instrument_of b), md_bindings := (md_bindings db1)(?p \<mapsto> (Some (bd_amount b), Some (bd_currency b)))\<rparr>"
    using consume_spec [OF two] assms(2,3) ins by auto
  have rows: "bindings_ok (bd_rows db2) \<and> bindings_of q (bd_rows db2) = (if q = ?p then [consumed_row now ?p b] else bindings_of q (bd_rows db))" for q
    using assms(4) b(1-3,9) ins unfolding db2 by (intro consumed_bindings) (simp_all add: funds_ok_def update_bindings_def)
  obtain stk where db3: "db3 = db2\<lparr>dk_stock := stk\<rparr>" using take_units_frame [OF three] by blast
  obtain db4 :: "'a desk_db_scheme" where db4: "db4 = db3\<lparr>dk_joins := dk_joins db3 @ [row]\<rparr>" by blast
  have frame: "wd_ids db4 = wd_ids db @ [?p]" "deal_of db4 = (deal_of db)(?p \<mapsto> ?d)" "md_fees db4 = md_fees db1"
      "wd_buyer db4 = (wd_buyer db)(?p := ji_buyer i)" "bd_rows db4 = bd_rows db2"
      "md_bindings db4 = (md_bindings db)(?p \<mapsto> (Some (bd_amount b), Some (bd_currency b)))"
    using ins con unfolding db4 db3 by (simp_all add: deal_of_def fun_eq_iff) (simp add: db2 update_bindings_def)
  have "backed db4 ?p"
    unfolding backed_def
    using frame rows [of ?p] b ins by (intro exI [of _ "consumed_row now ?p b"])
      (simp add: consumed_row_def amount_due_def DealFinalize.units_of_def)
  moreover have "backed db4 q" if "q \<in> set (wd_ids db)" for q
  proof -
    have "q \<noteq> ?p" using that ins by auto
    then have "backed db4 q = backed db q" using frame rows [of q] ins by (intro backed_cong) simp_all
    then show ?thesis using that assms(4) by (simp add: funds_ok_def list_all_iff)
  qed
  ultimately have "funds_ok db4" using rows frame(1,5) by (simp add: funds_ok_def list_all_iff)
  then show ?thesis using funds_ok_same same unfolding db4 by blast
qed

section \<open>Runs\<close>

text \<open>
  What the rest of the system does between the calls: it buys nothing and leaves the stock and the consumed
  bindings alone. It opens deals, edits drafts and deletes deals, but does not move the maximum of a deal whose
  stock is open: the first join opens it, and the maximum is immutable once the deal is published (migration 008).
\<close>

definition elsewhere :: "'a desk_db_scheme \<Rightarrow> 'a desk_db_scheme \<Rightarrow> bool" where
  "elsewhere db db' \<longleftrightarrow> wd_ids db' = wd_ids db \<and> deal_of db' = deal_of db
     \<and> fd_participants (md_fees db') = fd_participants (md_fees db) \<and> wd_buyer db' = wd_buyer db
     \<and> dk_stock db' = dk_stock db \<and> dk_joins db' = dk_joins db
     \<and> (\<forall>d. in_deals (dk_stock db) d \<noteq> None \<longrightarrow> offered db' d = offered db d)
     \<and> (\<forall>d n. offered db' d = Some n \<longrightarrow> offered db d = Some n \<or> 0 \<le> n)
     \<and> md_bindings db' = md_bindings db \<and> keeps_consumed (bd_rows db) (bd_rows db')"

text \<open>Any calls in any order; each may have read an older database, in which only the maximum is the same.\<close>

inductive desk_run :: "join_env \<Rightarrow> 'a desk_db_scheme \<Rightarrow> 'a desk_db_scheme \<Rightarrow> bool" for v start where
  desk_start: "desk_run v start start"
| desk_join: "desk_run v start db \<Longrightarrow> offered seen (ji_deal i) = offered db (ji_deal i) \<Longrightarrow>
    joinDeal v now draws i seen db = (answer, db') \<Longrightarrow> desk_run v start db'"
| desk_publish: "desk_run v start db \<Longrightarrow> publishDeal seller consents ready d request key uuid now seen db = Inr out \<Longrightarrow> desk_run v start (mo_db out)"
| desk_cancel: "desk_run v start db \<Longrightarrow> cancelDeal seller d request key uuid now seen db = Inr out \<Longrightarrow> desk_run v start (mo_db out)"
| desk_close: "desk_run v start db \<Longrightarrow> offered seen d = offered db d \<Longrightarrow>
    closeJoining (jv_canonical v) seller d request key now seen db = Inr (Some out) \<Longrightarrow> desk_run v start (mo_db out)"
| desk_reopen: "desk_run v start db \<Longrightarrow> offered seen d = offered db d \<Longrightarrow>
    reopenJoining (jv_canonical v) seller d request key uuid now seen db = Inr out \<Longrightarrow> desk_run v start (mo_db out)"
| desk_prepare: "desk_run v start db \<Longrightarrow> prepareCharging seller d request key now seen db = Inr out \<Longrightarrow> desk_run v start (mo_db out)"
| desk_charge: "desk_run v start db \<Longrightarrow> startCharging seller d request key uuid now seen db = Inr out \<Longrightarrow> desk_run v start (mo_db out)"
| desk_binding: "desk_run v start db \<Longrightarrow> binding_step db db' \<Longrightarrow> desk_run v start db'"
| desk_elsewhere: "desk_run v start db \<Longrightarrow> elsewhere db db' \<Longrightarrow> desk_run v start db'"

lemma same_elsewhere: "same_purchases db db' \<Longrightarrow> elsewhere db db'"
  by (simp add: same_purchases_def elsewhere_def)

lemma binding_elsewhere: "binding_step db db' \<Longrightarrow> elsewhere db db'"
  by (drule binding_step_keeps) (auto simp: elsewhere_def deal_of_def offered_def fun_eq_iff)

lemma set_published_same: "set_published now d db = Inr db' \<Longrightarrow> same_purchases db db'"
  by (auto simp: set_published_def split: option.splits)

lemma run_body_deal: "run_body (deal_transition_args d f t action request key outbox body serialize uuid) db
    = (case body of None \<Rightarrow> Inr db | Some b \<Rightarrow> b db)"
  by (simp add: run_body_def deal_transition_args_def)

lemma run_body_batch: "run_body (batch_args d action request key ops outbox uuid) db = Inr db"
  by (simp add: run_body_def batch_args_def)

text \<open>The handlers whose transaction does not touch purchases.\<close>

lemma quiet_handlers:
  "publishDeal seller consents ready d request key uuid now seen db = Inr out \<Longrightarrow> same_purchases db (mo_db out)"
  "cancelDeal seller d request key uuid now seen db = Inr out \<Longrightarrow> same_purchases db (mo_db out)"
  "prepareCharging seller d request key now seen db = Inr out \<Longrightarrow> same_purchases db (mo_db out)"
  "startCharging seller d request key uuid now seen db = Inr out \<Longrightarrow> same_purchases db (mo_db out)"
  unfolding publishDeal_def publish_call_args_def cancelDeal_def cancel_call_args_def prepareCharging_def startCharging_def
  by (auto elim!: on_ok_InrE call_same simp: run_body_deal run_body_batch dest: set_published_same)

lemma call_keeps:
  fixes db :: "'a desk_db_scheme"
  assumes "atomicMultiTransition args now db = Inr out" and "P db"
    and "\<And>db1 db2 :: 'a desk_db_scheme. same_purchases db1 db2 \<Longrightarrow> P db1 \<Longrightarrow> P db2"
    and "\<And>db1 db2. same_purchases db db1 \<Longrightarrow> P db1 \<Longrightarrow> run_body args db1 = Inr db2 \<Longrightarrow> P db2"
  shows "P (mo_db out)"
  using call_purchases [OF assms(1)] assms(2-4) by blast

lemma stock_only: "funds_ok db \<Longrightarrow> funds_ok (db\<lparr>dk_stock := stk\<rparr>)"
  by (rule funds_ok_cong [of _ db]) (simp_all add: deal_of_def fun_eq_iff)

lemma stock_call_funds: "funds_ok db \<Longrightarrow> stock_call f db = Inr (a, db') \<Longrightarrow> funds_ok db'"
  by (auto simp: stock_call_Inr intro: stock_only)

lemma close_keeps:
  assumes "closeJoining (jv_canonical v) seller d request key now seen db = Inr (Some out)" and "offered seen d = offered db d"
  shows "desk_ok db \<longrightarrow> desk_ok (mo_db out)" and "funds_ok db \<longrightarrow> funds_ok (mo_db out)"
proof -
  obtain terms state where terms: "dk_terms seen d = Some terms"
      and call: "atomicMultiTransition (close_args (jv_canonical v) d state (dt_max terms) (wd_threshold seen d) request key now) now db = Inr out"
    using assms(1) by (auto simp: closeJoining_def owned_terms_def elim!: on_ok_InrE split: option.splits if_splits)
  have offer: "offered db d = Some (dt_max terms)" using assms(2) terms by (simp add: offered_def)
  show "desk_ok db \<longrightarrow> desk_ok (mo_db out)"
    using offer by (intro impI, elim call_keeps [OF call]) (auto intro: desk_ok_same closed_body_ok simp: close_args_def run_body_deal same_purchases_def)
  have body: "funds_ok db2" if run: "closed_body c d n t key now db1 = Inr db2" and ok: "funds_ok db1" for c n t db1 db2
  proof -
    have "funds_ok (change_terms d (dt_close_reason_update (\<lambda>_. Some ''manual'')) db1)"
      using funds_ok_same [OF _ ok] change_terms_same(1) same_refl by blast
    then show ?thesis using run unfolding closed_body_def Let_def
      by (auto split: if_splits elim!: on_ok_InrE dest: stock_call_funds)
  qed
  show "funds_ok db \<longrightarrow> funds_ok (mo_db out)"
    by (intro impI, elim call_keeps [OF call]) (auto intro: funds_ok_same body simp: close_args_def run_body_deal)
qed

lemma reopen_keeps:
  assumes "reopenJoining (jv_canonical v) seller d request key uuid now seen db = Inr out" and "offered seen d = offered db d"
  shows "desk_ok db \<longrightarrow> desk_ok (mo_db out)" and "funds_ok db \<longrightarrow> funds_ok (mo_db out)"
proof -
  obtain terms target where terms: "dk_terms seen d = Some terms"
      and call: "atomicMultiTransition (reopen_args (jv_canonical v) d target (dt_max terms) (wd_threshold seen d) (wd_deadline seen d) request key uuid now) now db = Inr out"
    using assms(1) by (auto simp: reopenJoining_def owned_terms_def elim!: on_ok_InrE split: option.splits if_splits)
  have offer: "offered db d = Some (dt_max terms)" using assms(2) terms by (simp add: offered_def)
  show "desk_ok db \<longrightarrow> desk_ok (mo_db out)"
    using offer by (intro impI, elim call_keeps [OF call]) (auto intro: desk_ok_same reopened_body_ok simp: reopen_args_def run_body_deal same_purchases_def)
  have body: "funds_ok db2" if run: "reopened_body c d n t l key uuid now db1 = Inr db2" and ok: "funds_ok db1" for c n t l db1 db2
  proof -
    have "funds_ok (change_terms d (dt_close_reason_update (\<lambda>_. None)) db1)"
      using funds_ok_same [OF _ ok] change_terms_same(1) same_refl by blast
    moreover from this have "funds_ok (snd (enqueue_once j (change_terms d (dt_close_reason_update (\<lambda>_. None)) db1)))" for j
      using funds_ok_same same_enqueue same_refl by blast
    ultimately show ?thesis using run unfolding reopened_body_def Let_def
      by (auto split: if_splits elim!: on_ok_InrE dest: stock_call_funds)
  qed
  show "funds_ok db \<longrightarrow> funds_ok (mo_db out)"
    by (intro impI, elim call_keeps [OF call]) (auto intro: funds_ok_same body simp: reopen_args_def run_body_deal)
qed

lemma join_tx_funds:
  assumes "join_tx v now draws i qty seen db = Inr ((replayed, response), db')" and "paymentBindingEnforcementStrict v" and "funds_ok db"
  shows "funds_ok db'"
proof (cases "find (\<lambda>j. jw_deal j = ji_deal i \<and> jw_buyer j = ji_buyer i \<and> jw_key j = ji_key i) (dk_joins db)")
  case (Some j)
  then show ?thesis using assms(1,3) by (auto simp: join_tx_def split: if_splits)
next
  case None
  then obtain terms choice where writes: "join_writes v now draws i qty terms choice (wd_threshold seen (ji_deal i)) db = Inr (response, db')"
      and named: "ji_authorization i \<noteq> ''''"
    using assms(1,2) by (auto simp: join_tx_def rejected_if_def elim!: on_ok_InrE split: option.splits if_splits)
  show ?thesis by (rule funded_join [OF writes assms(2) named assms(3)])
qed

lemma target_same: "tryTargetReached d request now db = Inr db' \<Longrightarrow> same_purchases db db'"
  unfolding tryTargetReached_def
  by (auto split: sum.splits lifecycle_error.splits intro!: call_same simp: run_body_deal)

text \<open>A join leaves the database alone, or commits its transaction, then looks at the target.\<close>

lemma joinDeal_cases:
  assumes "joinDeal v now draws i seen db = (answer, db')"
  obtains "db' = db"
  | qty replayed response db1 where "join_tx v now draws i qty seen db = Inr ((replayed, response), db1)" and "same_purchases db1 db'"
proof (cases "on_ok (join_quantity i) (\<lambda>qty. join_tx v now draws i qty seen db)")
  case (Inl e)
  then show ?thesis using assms that(1) by (simp add: joinDeal_def)
next
  case (Inr r)
  obtain replayed response db1 where r: "r = ((replayed, response), db1)" by (metis prod.exhaust)
  obtain qty where "join_tx v now draws i qty seen db = Inr ((replayed, response), db1)" using Inr unfolding r by (rule on_ok_InrE)
  moreover have "same_purchases db1 db'"
    using assms Inr by (auto simp: joinDeal_def r dest: target_same split: if_splits sum.splits)
  ultimately show ?thesis by (rule that(2))
qed

lemma run_desk_ok: "desk_run v start db \<Longrightarrow> jv_canonical v \<Longrightarrow> desk_ok start \<Longrightarrow> desk_ok db"
proof (induction rule: desk_run.induct)
  case (desk_join db seen i now draws answer db')
  show ?case
    using desk_join.hyps(3)
  proof (cases rule: joinDeal_cases)
    case 1
    then show ?thesis using desk_join by simp
  next
    case (2 qty replayed response db1)
    then show ?thesis using join_ok [OF 2(1)] desk_join desk_ok_same by blast
  qed
next
  case (desk_elsewhere db db')
  then show ?case using desk_ok_cong [of db' db] by (simp add: elsewhere_def)
next
  case (desk_binding db db')
  then show ?case using desk_ok_cong [of db' db] binding_elsewhere [of db db'] by (simp add: elsewhere_def)
qed (blast intro: desk_ok_same quiet_handlers close_keeps(1) [THEN mp] reopen_keeps(1) [THEN mp])+

lemma run_funds_ok: "desk_run v start db \<Longrightarrow> paymentBindingEnforcementStrict v \<Longrightarrow> funds_ok start \<Longrightarrow> funds_ok db"
proof (induction rule: desk_run.induct)
  case (desk_join db seen i now draws answer db')
  show ?case
    using desk_join.hyps(3)
  proof (cases rule: joinDeal_cases)
    case 1
    then show ?thesis using desk_join by simp
  next
    case (2 qty replayed response db1)
    then show ?thesis using join_tx_funds [OF 2(1)] desk_join funds_ok_same by blast
  qed
next
  case (desk_elsewhere db db')
  then show ?case using funds_ok_cong [of db' db] by (simp add: elsewhere_def)
next
  case (desk_binding db db')
  then show ?case using funds_ok_cong [of db' db] binding_elsewhere [of db db'] by (simp add: elsewhere_def)
qed (blast intro: funds_ok_same quiet_handlers close_keeps(2) [THEN mp] reopen_keeps(2) [THEN mp])+

text \<open>Before anyone has joined.\<close>

definition nothing_sold :: "'a desk_db_scheme \<Rightarrow> bool" where
  "nothing_sold db \<longleftrightarrow> wd_ids db = [] \<and> dk_stock db = no_stock \<and> bd_rows db = [] \<and> (\<forall>d n. offered db d = Some n \<longrightarrow> 0 \<le> n)"

lemma nothing_sold_ok: "nothing_sold db \<Longrightarrow> desk_ok db \<and> funds_ok db"
  using no_stock_ok
  by (simp add: nothing_sold_def desk_ok_def funds_ok_def bindings_ok_def members_deal sum_units_def committed_units_def no_stock_def
      stock_maxima_def hold_keys_def)

lemma committed_within:
  assumes "stock_ok stk"
  shows "case in_deals stk d of None \<Rightarrow> committed_units d stk = 0 | Some u \<Rightarrow> committed_units d stk = sd_committed u \<and> sd_committed u \<le> sd_max u"
proof (cases "in_deals stk d")
  case None
  then have "units_of_holds (committed_hold d) rows = 0" if "set rows \<subseteq> set (in_reservations stk)" for rows
    using that assms by (induction rows) (auto simp: committed_hold_def stock_ok_def list_all_iff)
  then show ?thesis using None by (simp add: committed_units_def)
next
  case (Some u)
  then have "stock_row_ok stk d u" using assms by (simp add: stock_ok_def)
  then show ?thesis using Some committed_below [OF stock_quantities [OF assms], of d] by (simp add: stock_row_ok_def committed_units_def)
qed

text \<open>C14: A deal never sells more than it offers: in a runtime with the stock tables, starting before anyone has
  authorized or joined, however publishing, cancelling, joining, pausing, reopening, locking in and the start of
  the charge follow each other, are repeated or refused, and whatever older database with the same maximum they
  have read, all the units ever joined, those of dropped and failed buyers too, stay within the maximum of the
  deal and are the units the stock has committed. The rest of the system is taken to leave the purchases, the
  stock and the maximum of a deal whose stock is open as they are.\<close>

theorem deal_never_oversold:
  assumes "desk_run v start db" and "jv_canonical v" and "nothing_sold start" and "dk_terms db d = Some terms"
  shows "sum_units (members_of d db) db \<le> of_int (dt_max terms)
    \<and> sum_units (members_of d db) db = of_int (case in_deals (dk_stock db) d of None \<Rightarrow> 0 | Some u \<Rightarrow> sd_committed u)"
proof -
  have ok: "desk_ok db" using run_desk_ok [OF assms(1,2)] nothing_sold_ok [OF assms(3)] by blast
  then have sum: "sum_units (members_of d db) db = of_int (committed_units d (dk_stock db))" by (simp add: desk_ok_def)
  have offer: "offered db d = Some (dt_max terms)" using assms(4) by (simp add: offered_def)
  have "stock_ok (dk_stock db)" using ok by (simp add: desk_ok_def)
  note within = committed_within [OF this, of d]
  show ?thesis
  proof (cases "in_deals (dk_stock db) d")
    case None
    then show ?thesis using within sum ok offer by (simp add: desk_ok_def)
  next
    case (Some u)
    then have "offered db d = Some (sd_max u)" using ok by (simp add: desk_ok_def stock_maxima_def)
    then show ?thesis using Some within sum offer by simp
  qed
qed

text \<open>C15: A purchase is backed by its own authorization: where bindings are enforced, starting before anyone has
  authorized or joined, after any calls of the deal desk and of the bindings in any order, every participant on
  record has exactly one binding it consumed, in shekels, for its own deal, buyer and quantity, whose amount is
  the amount due that the capture job asks for and the one reconciliation compares with. The rest of the system
  is taken to leave purchases and consumed bindings as they are.\<close>

theorem joined_buyer_is_backed:
  assumes "desk_run v start db" and "paymentBindingEnforcementStrict v" and "nothing_sold start" and "p \<in> set (wd_ids db)"
  shows "\<exists>b. bindings_of p (bd_rows db) = [b] \<and> Fin (of_int (bd_amount b)) = rl_amount (rail_participant_of (bd_deal b) db p)
    \<and> bd_currency b = ''ILS'' \<and> participant_of p (bd_deal b) db \<noteq> None \<and> bd_buyer b = rl_buyer (rail_participant_of (bd_deal b) db p)
    \<and> units_of p db = of_int (bd_qty b) \<and> md_bindings db p = Some (Some (bd_amount b), Some ''ILS'')"
proof -
  have "funds_ok db" using run_funds_ok [OF assms(1,2)] nothing_sold_ok [OF assms(3)] by blast
  then obtain b where b: "bindings_of p (bd_rows db) = [b] \<and> Fin (of_int (bd_amount b)) = amount_due p db \<and> bd_currency b = ''ILS''
     \<and> deal_of db p = Some (bd_deal b) \<and> wd_buyer db p = bd_buyer b \<and> DealFinalize.units_of p db = of_int (bd_qty b)
     \<and> md_bindings db p = Some (Some (bd_amount b), Some ''ILS'')"
    using assms(4) unfolding funds_ok_def list_all_iff backed_def by blast
  then have "participant_of p (bd_deal b) db \<noteq> None" by (auto simp: deal_of_def participant_of_def split: option.splits)
  then show ?thesis using b by (intro exI [of _ b]) (simp add: rail_participant_of_def)
qed

section \<open>The target of a deal\<close>

lemma double_09: "fl64 (9 / 10) = 8106479329266893 * pow2 (- 53)"
  using fl64_intro [of "- 1" "9 / 10" 8106479329266893] by (simp add: power_int_minus_divide)

text \<open>A value less than a quarter of a unit above a whole number is rounded to it.\<close>

lemma fl64_above_int:
  assumes "0 < m" and "m < 2 ^ 52" and "of_int m \<le> x" and "x - of_int m < of_int m / 2 ^ 54"
  shows "fl64 x = of_int m"
proof -
  obtain e :: int where e: "e = ilog2 (of_int m)" by simp
  have "0 < (of_int m :: rat)" using assms(1) by simp
  note bounds = ilog2_bounds [OF this, folded e]
  have "pow2 0 < pow2 (e + 1)" using assms(1) bounds(2) by (simp add: pow2_of_nonneg)
  then have e0: "0 \<le> e" using pow2_less_cancel by fastforce
  have "pow2 e < pow2 52"
  proof -
    have "(of_int m :: rat) < of_int (2 ^ 52)" using assms(2) by (simp only: of_int_less_iff)
    then show ?thesis using bounds(1) by (simp add: pow2_of_nonneg)
  qed
  then have e52: "e < 52" by (rule pow2_less_cancel)
  have half: "pow2 (e + 1) = pow2 (e - 52) * 2 ^ 53" by (simp add: pow2_diff pow2_add)
  have small: "x - of_int m < pow2 (e - 52) / 2"
    using assms(4) bounds(2) unfolding half by simp
  have m_eq: "of_int m = (of_int (m * 2 ^ nat (52 - e)) :: rat) * pow2 (e - 52)"
  proof -
    have "pow2 (52 - e) * pow2 (e - 52) = 1" by (simp flip: pow2_add)
    then show ?thesis using e52 by (simp add: pow2_of_nonneg mult.assoc)
  qed
  have "m + 1 \<le> 2 ^ nat (e + 1)"
  proof -
    have "(of_int m :: rat) < of_int (2 ^ nat (e + 1))" using bounds(2) e0 by (simp add: pow2_of_nonneg)
    then show ?thesis by (simp only: of_int_less_iff)
  qed
  then have "of_int m + 1 \<le> pow2 (e + 1)" using e0 by (simp add: pow2_of_nonneg) (metis of_int_1 of_int_add of_int_le_iff of_int_numeral of_int_power)
  moreover have "x < of_int m + 1"
  proof -
    have "(of_int m :: rat) < of_int (2 ^ 52)" using assms(2) by (simp only: of_int_less_iff)
    then show ?thesis using assms(4) by simp
  qed
  ultimately have above: "x < pow2 (e + 1)" by simp
  have below: "pow2 e \<le> x" using bounds(1) assms(3) by simp
  have near: "\<bar>x - of_int (m * 2 ^ nat (52 - e)) * pow2 (e - 52)\<bar> < pow2 (e - 52) / 2"
    unfolding m_eq [symmetric] using small assms(3) by simp
  have "- 1022 \<le> e" using e0 by simp
  from fl64_intro [OF below above this near] show ?thesis unfolding m_eq [symmetric] .
qed

text \<open>The target a published deal gets is nine tenths of its minimum, rounded up, although the factor is a
  double just above nine tenths: for every minimum up to a hundred million units, the multiples of ten
  included, where the product lies above the whole number it stands for, no unit is added.\<close>

theorem threshold_is_nine_tenths:
  assumes "1 \<le> n" and "n \<le> 10 ^ 8"
  shows "publish_threshold n = (9 * n + 9) div 10"
proof -
  let ?x = "8106479329266893 * pow2 (- 53) * of_int n :: rat"
  have c: "8106479329266893 * pow2 (- 53) = (9 / 10 + 1 / (5 * 2 ^ 53) :: rat)" by (simp add: power_int_minus_divide)
  have x: "?x = of_int n * (9 / 10) + of_int n / (5 * 2 ^ 53)" unfolding c by (simp add: algebra_simps)
  have n: "1 \<le> (of_int n :: rat)" "(of_int n :: rat) \<le> 10 ^ 8" 
  proof -
    have "(of_int n :: rat) \<le> of_int (10 ^ 8)" using assms(2) by (simp only: of_int_le_iff)
    then show "1 \<le> (of_int n :: rat)" "(of_int n :: rat) \<le> 10 ^ 8" using assms(1) by simp_all
  qed
  have "js_of_rat (9 / 10) = Fin (8106479329266893 * pow2 (- 53))" using js_of_rat_small [of "9 / 10"] double_09 by simp
  moreover have "js_of_rat ?x = Fin (fl64 ?x)" by (rule js_of_rat_small) (use n in \<open>simp add: x abs_if\<close>)
  ultimately have threshold: "publish_threshold n = \<lceil>fl64 ?x\<rceil>" by (simp add: publish_threshold_def)
  obtain k j where kj: "9 * n = 10 * k + j" "0 \<le> j" "j < 10" by (metis mult_div_mod_eq pos_mod_bound pos_mod_sign zero_less_numeral)
  have nk: "of_int n * (9 / 10) = (of_int k + of_int j / 10 :: rat)"
  proof -
    have "(of_int (9 * n) :: rat) = of_int (10 * k + j)" unfolding kj(1) ..
    then show ?thesis by simp
  qed
  show ?thesis
  proof (cases "j = 0")
    case True
    have "0 < k" "k < 2 ^ 52" using kj True assms by simp_all
    moreover have "?x - of_int k < of_int k / 2 ^ 54" unfolding x nk using True nk n by simp
    moreover have "of_int k \<le> ?x" unfolding x nk using True n by simp
    ultimately have "fl64 ?x = of_int k" by (intro fl64_above_int)
    then show ?thesis using threshold kj True by simp
  next
    case False
    have "\<bar>fl64 ?x - ?x\<bar> \<le> \<bar>?x\<bar> / 2 ^ 53 + 1 / 2 ^ 1000" by (rule fl64_error_abs)
    moreover have "\<bar>?x\<bar> \<le> 10 ^ 9" using n unfolding x by simp
    then have "\<bar>?x\<bar> / 2 ^ 53 \<le> 10 ^ 9 / 2 ^ 53" by (rule divide_right_mono) simp
    moreover have "10 ^ 9 / 2 ^ 53 + 1 / 2 ^ 1000 \<le> (1 / 1000 :: rat)" by simp
    ultimately have near: "\<bar>fl64 ?x - ?x\<bar> \<le> 1 / 1000" by linarith
    have drift: "0 \<le> of_int n / (5 * 2 ^ 53 :: rat)" "of_int n / (5 * 2 ^ 53) \<le> (1 / 1000 :: rat)" using n by simp_all
    have "(1 :: rat) \<le> of_int j" "(of_int j :: rat) \<le> 9" using False kj by simp_all
    then have "of_int k < fl64 ?x" "fl64 ?x \<le> of_int k + 1"
      using near_ge [OF near] near_le [OF near] drift unfolding x nk by linarith+
    then have "\<lceil>fl64 ?x\<rceil> = k + 1" by (intro ceiling_unique) simp_all
    then show ?thesis using threshold kj False by simp
  qed
qed

section \<open>A repeated join\<close>

text \<open>A join that is sent again is answered again: whatever happened since, another request with the same
  key, payload and buyer gets the response of the first one, and commits nothing, so a lost answer costs
  neither a second purchase nor a second authorization.\<close>

theorem repeated_join_answers_again:
  assumes "joinDeal v now draws i seen db = (Inr response, db1)" and "jv_canonical v"
    and "dk_joins db2 = dk_joins db1 @ later"
    and "ji_deal i' = ji_deal i \<and> ji_buyer i' = ji_buyer i \<and> ji_key i' = ji_key i"
    and "join_quantity i = Inr qty" and "join_quantity i' = Inr qty" and "hashJoinRequestPayload i' qty = hashJoinRequestPayload i qty"
  shows "joinDeal v now' draws' i' seen' db2 = (Inr response, db2)"
proof -
  let ?own = "\<lambda>j. jw_deal j = ji_deal i \<and> jw_buyer j = ji_buyer i \<and> jw_key j = ji_key i"
  obtain replayed where tx: "join_tx v now draws i qty seen db = Inr ((replayed, response), db1)"
    using assms(1,2,5) by (auto simp: joinDeal_def split: sum.splits if_splits)
  have "\<exists>j. find ?own (dk_joins db1) = Some j \<and> jw_hash j = hashJoinRequestPayload i qty \<and> jw_response j = response"
  proof (cases "find ?own (dk_joins db)")
    case (Some j)
    then show ?thesis using tx by (auto simp: join_tx_def split: if_splits)
  next
    case None
    then obtain terms choice where writes: "join_writes v now draws i qty terms choice (wd_threshold seen (ji_deal i)) db = Inr (response, db1)"
      using tx by (auto simp: join_tx_def elim!: on_ok_InrE split: option.splits)
    obtain d1 d2 due a d3 row where steps: "insert_participant (jd_participant draws) i qty terms choice db = Inr d1"
        "consume_authorization v (jd_binding_at draws) now (jd_participant draws) i qty due d1 = Inr d2"
        "take_units v now draws i qty (dt_max terms) (wd_threshold seen (ji_deal i)) d2 = Inr (a, d3)"
        and row: "?own row" "jw_hash row = hashJoinRequestPayload i qty" "jw_response row = response"
        and same: "same_purchases (d3\<lparr>dk_joins := dk_joins d3 @ [row]\<rparr>) db1"
      using join_writes_effect [OF writes] by blast
    have "dk_joins d3 = dk_joins db"
      using insert_effect [OF steps(1)] consume_frame [OF steps(2)] take_units_frame [OF steps(3)] by auto
    then have "dk_joins db1 = dk_joins db @ [row]" using same by (simp add: same_purchases_def)
    then show ?thesis using None row by (simp add: find_append_None)
  qed
  then obtain j where j: "find ?own (dk_joins db1) = Some j" "jw_hash j = hashJoinRequestPayload i qty" "jw_response j = response" by blast
  then have "find ?own (dk_joins db2) = Some j" unfolding assms(3) by (intro find_append_Some)
  then have "join_tx v now' draws' i' qty seen' db2 = Inr ((True, response), db2)"
    using j(2,3) assms(4,7) by (simp add: join_tx_def)
  then show ?thesis using assms(6) by (simp add: joinDeal_def)
qed

section \<open>A deal, an authorization and a join\<close>

definition demo_shop :: desk_db where
  "demo_shop =
     \<lparr>ld_deals = [''d1'' \<mapsto> D_PendingTarget], ld_participants = (\<lambda>_. None), ld_audit = [],
      ld_outbox = \<lparr>odb_events = [], odb_dlq = [], odb_audit = []\<rparr>, ld_idempotency = [],
      pd_attempts = [], pd_window = (\<lambda>_. None), md_fees = \<lparr>fd_rows = [], fd_participants = (\<lambda>_. None)\<rparr>, md_cases = [], md_webhooks = [],
      md_bindings = (\<lambda>_. None), wd_ids = [], wd_buyer = (\<lambda>_. ''''), wd_threshold = (\<lambda>_. 2), wd_deadline = (\<lambda>_. None),
      wd_auths = (\<lambda>_. None), wd_methods = (\<lambda>_ _. None), bd_rows = [],
      dk_terms = [''d1'' \<mapsto> \<lparr>dt_seller = ''s1'', dt_min = 2, dt_max = 3, dt_price = Fin 10, dt_close_reason = None, dt_published = Some 1\<rparr>],
      dk_delivery = [], dk_flags = [], dk_stock = no_stock, dk_joins = []\<rparr>"

definition demo_join_env :: join_env where
  "demo_join_env = \<lparr>jv_provider = ''grow'', jv_mode = ''live'', jv_environment = ''prod'', jv_enforcement = ''strict'', jv_canonical = True\<rparr>"

definition demo_request :: join_input where
  "demo_request = \<lparr>ji_deal = ''d1'', ji_buyer = ''b1'', ji_qty = JNum (Fin 2), ji_authorization = ''a1'', ji_authorization_provider = '''',
      ji_authorization_correlation = '''', ji_option = '''', ji_name = '''', ji_email = '''', ji_address = '''', ji_city = '''', ji_notes = '''',
      ji_affiliate = '''', ji_source = '''', ji_session = '''', ji_method = '''', ji_disclosure = True, ji_proof = Inr (), ji_aside = Inr (),
      ji_request = ''q1'', ji_correlation = ''c1'', ji_key = ''k1''\<rparr>"

definition demo_draws :: join_draws where
  "demo_draws = \<lparr>jd_participant = ''p1'', jd_reservation = ''r1'', jd_seen_at = 100, jd_binding_at = 100, jd_locked_at = 100, jd_job = ''e1''\<rparr>"

definition demo_intent :: binding_input where
  "demo_intent = \<lparr>bi_provider = ''grow'', bi_mode = ''live'', bi_environment = ''prod'', bi_correlation = ''c1'', bi_deal = ''d1'', bi_buyer = ''b1'',
      bi_qty = 2, bi_amount = 2000, bi_currency = ''ILS'', bi_delivery_option = None, bi_delivery_cost = Fin 0\<rparr>"

definition demo_answer :: creation_answer where
  "demo_answer = \<lparr>ca_authorization = ''a1'', ca_reference = ''f1'', ca_url = '''', ca_authorized = True, ca_expires = None, ca_method = None\<rparr>"

definition demo_binding :: binding_row where
  "demo_binding = new_binding 50 ''h1'' demo_intent ''a1'' ''f1'' BindingAuthorized None None None"

lemma empty_trim [simp]: "js_trim '''' = ''''"
  by (simp add: js_trim_def)

lemma demo_bound: "createBinding 50 ''h1'' demo_intent demo_answer demo_shop = Inr (demo_binding, demo_shop\<lparr>bd_rows := [demo_binding]\<rparr>)"
  by (simp add: createBinding_def insert_binding_def binding_checks_def binding_of_def demo_intent_def demo_answer_def demo_shop_def
      demo_binding_def stored_method_def trimmed_def or_null_def text_or_def)

lemma demo_due: "paymentMinorAmount (Fin 2) (Fin 10) (Fin 0) = Fin 2000"
  using js_of_rat_small [of 20] js_of_rat_small [of 2000] fl64_of_int [of 20] fl64_of_int [of 2000] round_half_up_of_int [of 2000]
  by (simp add: paymentMinorAmount_def Let_def js_max_def js_lt.simps)

definition demo_stock :: inventory where
  "demo_stock = \<lparr>in_deals = [''d1'' \<mapsto> \<lparr>sd_max = 3, sd_min = 2, sd_reserved = 2, sd_committed = 2, sd_open = True, sd_target = True\<rparr>],
     in_reservations = [\<lparr>rv_id = ''r1'', rv_deal = ''d1'', rv_key = HashedKey ''join'' [''d1'', ''b1'', ''k1''],
       rv_hash = hashJoinRequestPayload demo_request 2, rv_qty = 2, rv_status = Committed, rv_evidence = Some (evidence_of demo_request),
       rv_generation = 1, rv_expires = 100 + HOLD_MS\<rparr>],
     in_actions = [\<lparr>sa_request = SyncRequest ''d1'' 3 2 (PlainKey ''runtime-sync:d1''), sa_answer = Inr (StockSynced True)\<rparr>]\<rparr>"

lemma demo_take: "dk_stock db = no_stock \<Longrightarrow>
   take_units demo_join_env 100 demo_draws demo_request 2 3 2 db = Inr ((Some ''r1'', True), db\<lparr>dk_stock := demo_stock\<rparr>)"
  by (simp add: take_units_def demo_join_env_def demo_draws_def demo_request_def stock_call_def sync_stock_def hold_units_def commit_units_def
      no_stock_def demo_stock_def unit_count_def key_accepted_def once_per_key_def recorded_answer_def reclaim_expired_def units_of_holds_def
      add_reserved_def put_row_def expired_hold_def HOLD_MS_def Let_def)

definition demo_member :: desk_db where
  "demo_member = demo_shop\<lparr>bd_rows := [consumed_row 100 ''p1'' demo_binding], wd_auths := [''p1'' \<mapsto> instrument_of demo_binding],
     md_bindings := [''p1'' \<mapsto> (Some 2000, Some ''ILS'')],
     ld_participants := [''p1'' \<mapsto> \<lparr>pt_deal = ''d1'', pt_buyer = B_NotJoined, pt_money = M_NoFinancial\<rparr>],
             wd_ids := [''p1''], wd_buyer := (\<lambda>_. '''')(''p1'' := ''b1''),
             md_fees := \<lparr>fd_rows = [], fd_participants = [''p1'' \<mapsto>
               \<lparr>cr_deal = ''d1'', cr_seller = ''s1'', cr_qty = Fin 2, cr_price = Fin 10, cr_delivery = Fin 0\<rparr>]\<rparr>\<rparr>"

lemma demo_insert: "\<exists>db1. insert_participant ''p1'' demo_request 2
    \<lparr>dt_seller = ''s1'', dt_min = 2, dt_max = 3, dt_price = Fin 10, dt_close_reason = None, dt_published = Some 1\<rparr> None (demo_shop\<lparr>bd_rows := [demo_binding]\<rparr>) = Inr db1
  \<and> consume_authorization demo_join_env 100 100 ''p1'' demo_request 2 (Fin 2000) db1 = Inr demo_member"
  by (simp add: insert_participant_def demo_request_def demo_shop_def delivery_cost_of_def List.member_iff consume_authorization_def
      consumeBindingForJoinTx_def consume_candidate_def newest_def current_authorization_def demo_binding_def new_binding_def demo_intent_def
      consume_refusal_def demo_join_env_def consumed_row_def update_bindings_def demo_member_def instrument_of_def Let_def)


definition demo_joined :: "(lifecycle_error + join_response) \<times> desk_db" where
  "demo_joined = joinDeal demo_join_env 100 demo_draws demo_request demo_shop (demo_shop\<lparr>bd_rows := [demo_binding]\<rparr>)"

lemma demo_quantity: "join_quantity demo_request = Inr 2"
  by (simp add: join_quantity_def demo_request_def rejected_if_def List.member_iff parsePositiveIntegerQuantity_def)

lemma enqueue_frame: "\<exists>b. snd (enqueue_once j db) = db\<lparr>ld_outbox := b\<rparr>"
  by (cases "enqueue_once j db") (auto simp: enqueue_once_def split: sum.splits intro: exI [of _ "ld_outbox db"])

lemma demo_commit: "\<exists>r db. join_writes demo_join_env 100 demo_draws demo_request 2
    \<lparr>dt_seller = ''s1'', dt_min = 2, dt_max = 3, dt_price = Fin 10, dt_close_reason = None, dt_published = Some 1\<rparr> None 2
    (demo_shop\<lparr>bd_rows := [demo_binding]\<rparr>) = Inr (r, db) \<and> wd_ids db = [''p1''] \<and> dk_terms db = dk_terms demo_shop"
proof -
  obtain db1 where one: "insert_participant ''p1'' demo_request 2
    \<lparr>dt_seller = ''s1'', dt_min = 2, dt_max = 3, dt_price = Fin 10, dt_close_reason = None, dt_published = Some 1\<rparr> None (demo_shop\<lparr>bd_rows := [demo_binding]\<rparr>) = Inr db1"
    and two: "consume_authorization demo_join_env 100 100 ''p1'' demo_request 2 (Fin 2000) db1 = Inr demo_member"
    using demo_insert by blast
  have names: "jd_participant demo_draws = ''p1''" "jd_seen_at demo_draws = 100" "jd_binding_at demo_draws = 100" "jd_locked_at demo_draws = 100" "jd_job demo_draws = ''e1''"
    by (simp_all add: demo_draws_def)
  have asked: "ji_deal demo_request = ''d1''" "ji_aside demo_request = Inr ()" "ji_key demo_request = ''k1''" "ji_request demo_request = ''q1''"
    by (simp_all add: demo_request_def)
  have open_now: "open_for_joining 100 100 ''d1'' ''s1'' demo_member = Inr D_PendingTarget"
    by (simp add: open_for_joining_def demo_member_def demo_shop_def rejected_if_def paused_by_admin_def isFlagActive_def)
  have three: "take_units demo_join_env 100 demo_draws demo_request 2 3 2 demo_member = Inr ((Some ''r1'', True), demo_member\<lparr>dk_stock := demo_stock\<rparr>)"
    by (rule demo_take) (simp add: demo_member_def demo_shop_def)
  obtain db4 where four: "admit demo_request ''p1'' (demo_shop\<lparr>bd_rows := [demo_binding]\<rparr>) (demo_member\<lparr>dk_stock := demo_stock\<rparr>) = Inr db4"
    and frame4: "wd_ids db4 = [''p1'']" "dk_terms db4 = dk_terms demo_shop" "ld_deals db4 = ld_deals demo_shop" "ld_idempotency db4 = []"
    by (simp add: admit_def join_ops_def single_op_def swap_state_def readTransitionEntityState_def row_enforce_def audit_row_written_in_tx_def
      ACTION_NAMES_def List.member_iff is_valid_buyer_transition_def is_valid_money_transition_def is_valid_deal_transition_def demo_member_def demo_shop_def join_audit_def asked set_state_def)
  obtain db5 where five: "reach_target demo_request True (demo_shop\<lparr>bd_rows := [demo_binding]\<rparr>) db4 = Inr db5"
    and frame5: "wd_ids db5 = [''p1'']" "dk_terms db5 = dk_terms demo_shop" "ld_idempotency db5 = []"
    using frame4
    by (simp add: reach_target_def Let_def single_op_def swap_state_def readTransitionEntityState_def row_enforce_def audit_row_written_in_tx_def
      ACTION_NAMES_def List.member_iff is_valid_buyer_transition_def is_valid_money_transition_def is_valid_deal_transition_def demo_shop_def join_audit_def asked set_state_def deals_outbox_enforce_def)
  obtain b where six: "snd (enqueue_once (pending_job ''e1'' ''viral_recompute'' ''deal'' ''d1'' (payload_text [Some ''d1'', Some ''join'']) (100 + 20000)) db5)
      = db5\<lparr>ld_outbox := b\<rparr>"
    using enqueue_frame by blast
  show ?thesis
    using frame5 unfolding join_writes_def Let_def names asked delivery_cost_of_def
    by (simp add: one two demo_due open_now three four five six [simplified] record_join_def Let_def)
qed


lemma demo_sale: "\<exists>r db. demo_joined = (Inr r, db) \<and> wd_ids db = [''p1''] \<and> dk_terms db = dk_terms demo_shop"
proof -
  obtain r db where db: "join_writes demo_join_env 100 demo_draws demo_request 2
      \<lparr>dt_seller = ''s1'', dt_min = 2, dt_max = 3, dt_price = Fin 10, dt_close_reason = None, dt_published = Some 1\<rparr> None 2
      (demo_shop\<lparr>bd_rows := [demo_binding]\<rparr>) = Inr (r, db)" "wd_ids db = [''p1''] \<and> dk_terms db = dk_terms demo_shop"
    using demo_commit by blast
  have asked: "ji_deal demo_request = ''d1''" "ji_option demo_request = ''''" "ji_authorization demo_request = ''a1''" "jd_seen_at demo_draws = 100"
    by (simp_all add: demo_request_def demo_draws_def)
  have seen: "dk_terms demo_shop ''d1'' = Some \<lparr>dt_seller = ''s1'', dt_min = 2, dt_max = 3, dt_price = Fin 10, dt_close_reason = None, dt_published = Some 1\<rparr>"
      "wd_threshold demo_shop ''d1'' = 2" "dk_joins demo_shop = []" "dk_delivery demo_shop = []"
    by (simp_all add: demo_shop_def)
  have open_now: "open_for_joining 100 100 ''d1'' ''s1'' demo_shop = Inr D_PendingTarget"
    by (simp add: open_for_joining_def demo_shop_def rejected_if_def paused_by_admin_def isFlagActive_def)
  have "join_tx demo_join_env 100 demo_draws demo_request 2 demo_shop (demo_shop\<lparr>bd_rows := [demo_binding]\<rparr>) = Inr ((False, r), db)"
    by (simp add: join_tx_def asked seen open_now selected_delivery_def rejected_if_def Let_def db(1))
  then have "demo_joined = (Inr r, db)" by (simp add: demo_joined_def joinDeal_def demo_quantity demo_join_env_def)
  then show ?thesis using db(2) by blast
qed

lemma demo_desk_run: "\<exists>r db. demo_joined = (Inr r, db) \<and> wd_ids db = [''p1''] \<and> dk_terms db = dk_terms demo_shop
    \<and> desk_run demo_join_env demo_shop db \<and> nothing_sold demo_shop"
proof -
  obtain r db where db: "demo_joined = (Inr r, db)" "wd_ids db = [''p1''] \<and> dk_terms db = dk_terms demo_shop" using demo_sale by blast
  have "desk_run demo_join_env demo_shop (demo_shop\<lparr>bd_rows := [demo_binding]\<rparr>)"
    by (rule desk_binding [OF desk_start step_create [OF demo_bound]])
  moreover have "offered demo_shop d = offered (demo_shop\<lparr>bd_rows := [demo_binding]\<rparr>) d" for d by (simp add: offered_def)
  ultimately have "desk_run demo_join_env demo_shop db" using db(1) unfolding demo_joined_def by (rule desk_join)
  moreover have "nothing_sold demo_shop" by (simp add: nothing_sold_def demo_shop_def offered_def split: if_splits)
  ultimately show ?thesis using db by blast
qed

theorem deal_never_oversold_witness:
  "\<exists>r db. demo_joined = (Inr r, db) \<and> wd_ids db = [''p1''] \<and> sum_units (members_of ''d1'' db) db \<le> 3
    \<and> sum_units (members_of ''d1'' db) db = of_int (case in_deals (dk_stock db) ''d1'' of None \<Rightarrow> 0 | Some u \<Rightarrow> sd_committed u)"
proof -
  obtain r db where db: "demo_joined = (Inr r, db)" "wd_ids db = [''p1'']" "dk_terms db = dk_terms demo_shop"
      and run: "desk_run demo_join_env demo_shop db" "nothing_sold demo_shop" using demo_desk_run by blast
  have terms: "dk_terms db ''d1'' = Some \<lparr>dt_seller = ''s1'', dt_min = 2, dt_max = 3, dt_price = Fin 10, dt_close_reason = None, dt_published = Some 1\<rparr>"
    unfolding db(3) by (simp add: demo_shop_def)
  have "jv_canonical demo_join_env" by (simp add: demo_join_env_def)
  from deal_never_oversold [OF run(1) this run(2) terms] db(1,2) show ?thesis by (intro exI [of _ r] exI [of _ db]) simp
qed

theorem joined_buyer_is_backed_witness:
  "\<exists>r db b. demo_joined = (Inr r, db) \<and> wd_ids db = [''p1''] \<and> bindings_of ''p1'' (bd_rows db) = [b]
    \<and> Fin (of_int (bd_amount b)) = rl_amount (rail_participant_of (bd_deal b) db ''p1'')"
proof -
  obtain r db where db: "demo_joined = (Inr r, db)" "wd_ids db = [''p1'']"
      and run: "desk_run demo_join_env demo_shop db" "nothing_sold demo_shop" using demo_desk_run by blast
  have "paymentBindingEnforcementStrict demo_join_env" by (simp add: demo_join_env_def paymentBindingEnforcementStrict_def)
  from joined_buyer_is_backed [OF run(1) this run(2), of "''p1''"] db show ?thesis by auto
qed

end
