(* ===== verification/Spec2Isabelle.thy ===== *)
theory Spec2Isabelle
  imports MoneyInput FeeLedger OutboxRuns LifecycleRuns AttemptRuns EventRuns PayoutRuns FulfillmentRuns RailRuns FinalizeRuns DealDeskRuns
begin

text \<open>
  A verification development for the money core of the group-buying backend in \<open>src/src\<close> (TypeScript on
  PostgreSQL) and the triggers and constraints of \<open>src/src/migrations\<close> it relies on.

  \<^bold>\<open>The program.\<close> A seller opens a deal, buyers join it with a card authorization, and when the deal
  reaches its target a worker captures the money of each participant. A capture or refund may be confirmed
  by the answer of the payment provider, by a later status lookup, or by a webhook. Siton's fee is written
  to a ledger with the capture. Jobs travel through a transactional outbox that several worker processes
  share. The parts interact through the rows of one database; every transaction is one step of the model,
  and a call that throws leaves the database as it was.

  \<^bold>\<open>Numbers and amounts.\<close> \<open>JsNumber\<close> is IEEE binary64 as JavaScript computes with it: exact rational
  results rounded to nearest even, so that every theorem on fees, VAT and delays speaks of the values the
  program computes. \<open>MoneyAmounts\<close> bounds the drift of amounts held as binary64 numbers up to 10^13 agorot.
  \<open>MoneyInput\<close> models \<open>money_input.ts\<close>, the reader of every amount a client sends: an accepted amount is
  the rounding to agorot of the number sent. \<open>VatAuthority\<close> (\<open>vat_authority.ts\<close>) decides the VAT of a
  charge, \<open>RuntimeConfig\<close> (\<open>runtime_config.ts\<close>) reads the environment within its bounds.

  \<^bold>\<open>Fees.\<close> \<open>PlatformFee\<close> is the arithmetic of \<open>platform_fee_money.ts\<close>: fee, fee VAT and seller net add up
  to the charge to the agora. \<open>FeeLedger\<close> is \<open>recordProviderFinancialEventInTx\<close> with its tables: a charge
  writes one row, a refund its exact negation, a redelivered event nothing. The locale
  \<open>idempotent_ledger\<close> states what any sequence of events keeps.

  \<^bold>\<open>Lifecycle.\<close> \<open>Lifecycle\<close> models \<open>atomicMultiTransition\<close> and \<open>atomicTransition\<close> of \<open>app.ts\<close>: replay of
  a used key, compare and swap of the states, audit rows, the job that goes with a stage, all under the
  deferred triggers of the state columns. \<open>LifecycleRuns\<close> lets any number of calls run in any order: a
  participant is captured at most once, deals only move forward, and the audit rows explain every state.
  The three matrices are instances of \<open>ranked_matrix\<close> and \<open>acyclic_matrix\<close>, the three state columns of
  \<open>audited_column\<close>.

  \<^bold>\<open>Workers.\<close> \<open>WorkerPolicy\<close> holds \<open>worker_scheduler.ts\<close> and the pure part of
  \<open>outbox_worker_helpers.ts\<close>: lanes, retry delays, limiter, watchdog, and the lane runner as a step
  relation. \<open>Outbox\<close> models the leases of \<open>outbox_worker_helpers.ts\<close>; \<open>OutboxRuns\<close> the runs of any number
  of workers: a lease token completes at most once, a stale one never does, no job is lost.

  \<^bold>\<open>Provider operations.\<close> \<open>PaymentAttempts\<close> models \<open>payment_attempt_helpers.ts\<close> under the insert and update
  triggers of migrations 050, 067, 068 and 071; \<open>AttemptRuns\<close> proves that a recovery charge is minted only
  with proof that the first capture had no effect, that recorded truth is never rewritten, and that an
  operation in flight is not touched by others. \<open>WebhookClaims\<close> models \<open>webhook_ingestion.ts\<close> and proves
  that it refines a lock with leases. \<open>PaymentEvents\<close> composes the three with the lifecycle and the fee
  ledger: \<open>ingestAndProcessPaymentEvent\<close> of \<open>payment_reconciliation.ts\<close>, from delivery to committed truth;
  \<open>EventRuns\<close> proves that state, verdict and ledger commit together and that foreign evidence moves nothing.

  \<^bold>\<open>Payment jobs.\<close> The money jobs of the worker (\<open>workerProcessEvent\<close> of \<open>app.ts\<close>) are sequences of
  transactions and provider requests. \<open>PaymentRails\<close> gives such a job its state and the operations all of
  them share: what other workers commit between two steps, which steps fail and what the provider answers
  are functions of the step number. \<open>CaptureRail\<close> is \<open>charge_deal\<close> with the renewal of an expired
  authorization, \<open>RecoveryRail\<close> the second capture with its two status reads, \<open>DealFinalize\<close> the decision on
  a deal and what follows from it, \<open>ReconcileRail\<close> refunds, releases and the reconciliation of unknown
  outcomes. \<open>RailTraces\<close> states what a job may ask of the provider as the locale \<open>call_contract\<close>, proved
  for every helper and handler; \<open>RailRuns\<close> takes from it that every job returns, that it sends a bounded
  number of captures, and that no request leaves without its lease; \<open>FinalizeRuns\<close> that deals are decided on
  settled money, that a failed buyer is never charged and a second capture follows proof that the first failed.

  \<^bold>\<open>Joining.\<close> \<open>AuthBindings\<close> models \<open>payment_binding.ts\<close>: an authorization is recorded before the provider
  is asked and consumed by the one participant that joins with it. \<open>Inventory\<close> is the stock of a deal, the
  functions of \<open>supabase/staging/001_siton_inventory_v1.sql\<close> that \<open>inventory_repository.ts\<close> calls: units are
  held, committed, released, and its counters are the sums of its reservations after any calls. \<open>DealDesk\<close>
  holds the handlers of \<open>app.ts\<close> that publish, cancel, join, pause, reopen and lock in a deal and start its
  charge; each takes the database its unlocked reads saw beside the one it writes. \<open>DealDeskRuns\<close> proves over
  all interleavings that a deal is never oversold and that every purchase has consumed an authorization of
  exactly the amount due. Attribution, notifications, tracking tokens, legal records, the audit tables of the
  stock and its read-only calls are left out.

  \<^bold>\<open>Payouts.\<close> \<open>PayoutRail\<close> models the settlement of a deal from the fee ledger, the batch with its items and
  the prepare job of \<open>payout_rail.ts\<close> under the triggers and checks of migrations 021 and 077;
  \<open>PayoutDispatch\<close> the dispatch to the payout provider, its lookup, the attestation of an operator and the
  reconciliation, as their transactions and as the handlers composed of them with anything committing
  during the provider call. \<open>PayoutRuns\<close> proves over all interleavings that a deal is sent to the provider
  at most once, that the amounts sent are those of the ledger and that payout truth only moves forward. The
  four tables are instances of \<open>growing_table\<close> (\<open>GrowingTable\<close>).

  \<^bold>\<open>Fulfillment.\<close> \<open>OrderCode\<close> is the code of an order in \<open>physical_fulfillment.ts\<close> with the texts it appears
  in; what is shown is read back. \<open>Fulfillment\<close> models entitlement and issuing (\<open>deal_types.ts\<close>), the
  handover of a physical order and what buyer and seller see of it (\<open>physical_fulfillment.ts\<close>), and the
  redemption of units and receipts (\<open>seller_fulfillment_routes.ts\<close>, \<open>receipt_trust.ts\<close>). \<open>FulfillmentRuns\<close>
  proves that a unit is handed over once, only for captured money, and that a code stays its order's own.

  \<^bold>\<open>Conventions.\<close> A function that throws returns \<open>Inl\<close> of its error, \<open>on_ok\<close> continues a result
  (\<open>Prelude\<close>). Rows are records, tables lists in insertion order, unique indexes checks of the insert. The
  clock, random tokens, the environment and the answers of the provider are arguments. Identifiers and
  hashes are kept as the values they are made of, so two identifiers are equal only when their parts are.
  There is no fuel: the loops of the modelled code are structural recursions over the rows they work off,
  except the retry loop of a capture, the partial function \<open>rail_loop\<close>, whose termination is a theorem.
  Runs are inductive relations or lists of steps of any length.

  \<^bold>\<open>Not modelled.\<close> The web and mobile clients, the HTML pages and routes (\<open>frontend_runtime.ts\<close>, the
  request handlers of \<open>app.ts\<close> other than those of \<open>DealDesk\<close>), the admin and operator views, adapters of payment, payout, message and
  storage providers (network code whose contracts are arguments here), notifications and invoices, scripts
  and tests. Log lines, counters and the texts of messages are left out of the modelled functions too, and so is the sweep
  \<open>reconcileOrphanedUnknownIdentities\<close>, which selects rows by a column the modelled rows do not carry.
\<close>

end
